(* ===== verification/GoStrings.thy ===== *)
theory GoStrings
  imports Prelude
begin

text \<open>
  The functions of Go's \<open>strings\<close> and \<open>strconv\<close> packages the repository calls, on byte
  strings: a Go string is a list of bytes, here a \<open>char list\<close>, so \<open>length\<close> counts bytes as
  \<open>len\<close> does. White space is \<open>unicode.IsSpace\<close> with the UTF-8 encodings written out.
\<close>

section \<open>Prefixes, suffixes, substrings\<close>

definition has_prefix :: "string \<Rightarrow> string \<Rightarrow> bool" where
  "has_prefix s p \<longleftrightarrow> prefix p s"

definition has_suffix :: "string \<Rightarrow> string \<Rightarrow> bool" where
  "has_suffix s p \<longleftrightarrow> suffix p s"

definition trim_prefix :: "string \<Rightarrow> string \<Rightarrow> string" where
  "trim_prefix s p = (if has_prefix s p then drop (length p) s else s)"

definition trim_suffix :: "string \<Rightarrow> string \<Rightarrow> string" where
  "trim_suffix s p = (if has_suffix s p then take (length s - length p) s else s)"

text \<open>\<open>strings.Contains\<close>, \<open>strings.Index\<close> (as an option), \<open>strings.ContainsAny\<close>.\<close>

fun str_contains :: "string \<Rightarrow> string \<Rightarrow> bool" where
  "str_contains [] sub = (sub = [])"
| "str_contains (c # s) sub = (prefix sub (c # s) \<or> str_contains s sub)"

fun str_index :: "string \<Rightarrow> string \<Rightarrow> nat option" where
  "str_index [] sub = (if sub = [] then Some 0 else None)"
| "str_index (c # s) sub =
     (if prefix sub (c # s) then Some 0 else map_option Suc (str_index s sub))"

definition index_byte :: "string \<Rightarrow> char \<Rightarrow> nat option" where
  "index_byte s c = find_index (\<lambda>x. x = c) s"

definition last_index_byte :: "string \<Rightarrow> char \<Rightarrow> nat option" where
  "last_index_byte s c = map_option (\<lambda>i. length s - 1 - i) (find_index (\<lambda>x. x = c) (rev s))"

definition contains_any :: "string \<Rightarrow> string \<Rightarrow> bool" where
  "contains_any s cs \<longleftrightarrow> list_ex (\<lambda>c. c \<in> set cs) s"

section \<open>Splitting and joining\<close>

text \<open>\<open>strings.Split(s, c)\<close> for a one-byte separator.\<close>

fun split_byte :: "char \<Rightarrow> string \<Rightarrow> string list" where
  "split_byte c [] = [[]]"
| "split_byte c (x # s) =
     (if x = c then [] # split_byte c s
      else (case split_byte c s of [] \<Rightarrow> [[x]] | w # ws \<Rightarrow> (x # w) # ws))"

text \<open>\<open>strings.SplitN(s, c, n)\<close> for \<open>n > 0\<close>: at most \<open>n\<close> parts.\<close>

fun splitn_byte :: "nat \<Rightarrow> char \<Rightarrow> string \<Rightarrow> string list" where
  "splitn_byte 0 c s = []"
| "splitn_byte (Suc 0) c s = [s]"
| "splitn_byte (Suc (Suc n)) c s =
     (case index_byte s c of
        None \<Rightarrow> [s]
      | Some i \<Rightarrow> take i s # splitn_byte (Suc n) c (drop (Suc i) s))"

fun str_join :: "string \<Rightarrow> string list \<Rightarrow> string" where
  "str_join sep [] = []"
| "str_join sep [w] = w"
| "str_join sep (w # v # ws) = w @ sep @ str_join sep (v # ws)"

text \<open>\<open>strings.FieldsFunc\<close> for a predicate on ASCII bytes: the maximal runs outside it.\<close>

fun fields_func_aux :: "(char \<Rightarrow> bool) \<Rightarrow> string \<Rightarrow> string \<Rightarrow> string list" where
  "fields_func_aux P cur [] = (if cur = [] then [] else [rev cur])"
| "fields_func_aux P cur (c # s) =
     (if P c then (if cur = [] then fields_func_aux P [] s
                   else rev cur # fields_func_aux P [] s)
      else fields_func_aux P (c # cur) s)"

definition fields_func :: "(char \<Rightarrow> bool) \<Rightarrow> string \<Rightarrow> string list" where
  "fields_func P s = fields_func_aux P [] s"

section \<open>White space\<close>

text \<open>
  The UTF-8 encodings of the code points \<open>unicode.IsSpace\<close> accepts: tab, newline, vertical
  tab, form feed, carriage return, space, U+0085, U+00A0, U+1680, U+2000 to U+200A, U+2028,
  U+2029, U+202F, U+205F and U+3000.
\<close>

definition ascii_space :: "char \<Rightarrow> bool" where
  "ascii_space c \<longleftrightarrow> c \<in> {CHR 0x09, CHR 0x0A, CHR 0x0B, CHR 0x0C, CHR 0x0D, CHR '' ''}"

definition wide_spaces :: "string list" where
  "wide_spaces =
     [[CHR 0xC2, CHR 0x85], [CHR 0xC2, CHR 0xA0], [CHR 0xE1, CHR 0x9A, CHR 0x80],
      [CHR 0xE2, CHR 0x80, CHR 0x80], [CHR 0xE2, CHR 0x80, CHR 0x81],
      [CHR 0xE2, CHR 0x80, CHR 0x82], [CHR 0xE2, CHR 0x80, CHR 0x83],
      [CHR 0xE2, CHR 0x80, CHR 0x84], [CHR 0xE2, CHR 0x80, CHR 0x85],
      [CHR 0xE2, CHR 0x80, CHR 0x86], [CHR 0xE2, CHR 0x80, CHR 0x87],
      [CHR 0xE2, CHR 0x80, CHR 0x88], [CHR 0xE2, CHR 0x80, CHR 0x89],
      [CHR 0xE2, CHR 0x80, CHR 0x8A], [CHR 0xE2, CHR 0x80, CHR 0xA8],
      [CHR 0xE2, CHR 0x80, CHR 0xA9], [CHR 0xE2, CHR 0x80, CHR 0xAF],
      [CHR 0xE2, CHR 0x81, CHR 0x9F], [CHR 0xE3, CHR 0x80, CHR 0x80]]"

text \<open>How many bytes of white space a string starts with (0 when it starts with none).\<close>

fun space_len :: "string \<Rightarrow> nat" where
  "space_len [] = 0"
| "space_len (c # s) =
     (if ascii_space c then 1
      else case find (\<lambda>w. prefix w (c # s)) wide_spaces of None \<Rightarrow> 0 | Some w \<Rightarrow> length w)"

lemma space_len_le: "space_len s \<le> length s"
proof (cases s)
  case (Cons c t)
  show ?thesis
  proof (cases "find (\<lambda>w. prefix w s) wide_spaces")
    case None
    then show ?thesis using Cons by simp
  next
    case (Some w)
    then have "prefix w s" by (auto dest: find_Some_conv)
    then show ?thesis using Cons Some by (auto dest: prefix_length_le)
  qed
qed simp

function trim_left :: "string \<Rightarrow> string" where
  "trim_left s = (if space_len s = 0 then s else trim_left (drop (space_len s) s))"
  by pat_completeness auto
termination
proof (relation "measure length")
  fix s :: string
  assume "space_len s \<noteq> 0"
  moreover have "space_len s \<le> length s" by (rule space_len_le)
  ultimately show "(drop (space_len s) s, s) \<in> measure length" by simp
qed simp

declare trim_left.simps [simp del] space_len.simps(2) [simp del]

text \<open>The same from the right, on the reversed string and the reversed encodings.\<close>

fun rspace_len :: "string \<Rightarrow> nat" where
  "rspace_len [] = 0"
| "rspace_len (c # s) =
     (if ascii_space c then 1
      else case find (\<lambda>w. prefix (rev w) (c # s)) wide_spaces of
             None \<Rightarrow> 0 | Some w \<Rightarrow> length w)"

lemma rspace_len_le: "rspace_len s \<le> length s"
proof (cases s)
  case (Cons c t)
  show ?thesis
  proof (cases "find (\<lambda>w. prefix (rev w) s) wide_spaces")
    case None
    then show ?thesis using Cons by simp
  next
    case (Some w)
    then have "prefix (rev w) s" by (auto dest: find_Some_conv)
    then show ?thesis using Cons Some by (auto dest: prefix_length_le)
  qed
qed simp

function trim_left_rev :: "string \<Rightarrow> string" where
  "trim_left_rev s =
     (if rspace_len s = 0 then s else trim_left_rev (drop (rspace_len s) s))"
  by pat_completeness auto
termination
proof (relation "measure length")
  fix s :: string
  assume "rspace_len s \<noteq> 0"
  moreover have "rspace_len s \<le> length s" by (rule rspace_len_le)
  ultimately show "(drop (rspace_len s) s, s) \<in> measure length" by simp
qed simp

declare trim_left_rev.simps [simp del] rspace_len.simps(2) [simp del]

definition trim_right :: "string \<Rightarrow> string" where
  "trim_right s = rev (trim_left_rev (rev s))"

text \<open>\<open>strings.TrimSpace\<close>, and \<open>strings.Trim\<close> with a set of ASCII bytes.\<close>

definition trim_space :: "string \<Rightarrow> string" where
  "trim_space s = trim_right (trim_left s)"

definition trim_bytes :: "string \<Rightarrow> char set \<Rightarrow> string" where
  "trim_bytes s cs = rev (dropWhile (\<lambda>c. c \<in> cs) (rev (dropWhile (\<lambda>c. c \<in> cs) s)))"

text \<open>\<open>strings.Fields\<close>: the maximal runs without white space.\<close>

fun fields_aux :: "nat \<Rightarrow> string \<Rightarrow> string \<Rightarrow> string list" where
  "fields_aux skip cur [] = (if cur = [] then [] else [rev cur])"
| "fields_aux (Suc skip) cur (c # s) = fields_aux skip cur s"
| "fields_aux 0 cur (c # s) =
     (let n = space_len (c # s) in
      if n = 0 then fields_aux 0 (c # cur) s
      else if cur = [] then fields_aux (n - 1) [] s
      else rev cur # fields_aux (n - 1) [] s)"

definition str_fields :: "string \<Rightarrow> string list" where
  "str_fields s = fields_aux 0 [] s"

section \<open>Upper case\<close>

text \<open>
  \<open>strings.ToUpper\<close> as far as its result can equal ASCII text: ASCII letters, and the two
  other code points whose upper case is ASCII, dotless i (U+0131, bytes C4 B1) and long s
  (U+017F, bytes C5 BF). Any other non-ASCII code point has a non-ASCII upper case and is kept.
\<close>

definition upper_char :: "char \<Rightarrow> char" where
  "upper_char c =
     (let n = of_char c :: nat in if 97 \<le> n \<and> n \<le> 122 then char_of (n - 32) else c)"

fun to_upper :: "string \<Rightarrow> string" where
  "to_upper [] = []"
| "to_upper [c] = [upper_char c]"
| "to_upper (c # d # s) =
     (if c = CHR 0xC4 \<and> d = CHR 0xB1 then CHR ''I'' # to_upper s
      else if c = CHR 0xC5 \<and> d = CHR 0xBF then CHR ''S'' # to_upper s
      else upper_char c # to_upper (d # s))"

section \<open>Decimal numbers\<close>

definition digit_char :: "nat \<Rightarrow> char" where
  "digit_char d = char_of (48 + d)"

fun nat_str :: "nat \<Rightarrow> string" where
  "nat_str n = (if n < 10 then [digit_char n] else nat_str (n div 10) @ [digit_char (n mod 10)])"

declare nat_str.simps [simp del]

definition int_str :: "int \<Rightarrow> string" where
  "int_str i = (if i < 0 then CHR ''-'' # nat_str (nat (- i)) else nat_str (nat i))"

definition is_digit :: "char \<Rightarrow> bool" where
  "is_digit c \<longleftrightarrow> 48 \<le> (of_char c :: nat) \<and> (of_char c :: nat) \<le> 57"

definition digit_val :: "char \<Rightarrow> nat" where
  "digit_val c = of_char c - 48"

definition digits_val :: "string \<Rightarrow> nat" where
  "digits_val ds = foldl (\<lambda>n c. 10 * n + digit_val c) 0 ds"

text \<open>
  \<open>strconv.ParseInt(s, 10, 64)\<close>: an optional sign, at least one digit, and the value in the
  range of \<open>int64\<close>; anything else is an error (\<open>None\<close>). \<open>strconv.Atoi\<close> is the same on a
  64-bit machine.
\<close>

definition parse_digits :: "string \<Rightarrow> nat option" where
  "parse_digits ds = (if ds \<noteq> [] \<and> list_all is_digit ds then Some (digits_val ds) else None)"

definition int64_ok :: "int \<Rightarrow> bool" where
  "int64_ok i \<longleftrightarrow> - (2 ^ 63) \<le> i \<and> i < 2 ^ 63"

definition check_int64 :: "int \<Rightarrow> int option" where
  "check_int64 i = (if int64_ok i then Some i else None)"

fun parse_int64 :: "string \<Rightarrow> int option" where
  "parse_int64 [] = None"
| "parse_int64 (c # s) =
     (if c = CHR ''-'' then Option.bind (parse_digits s) (\<lambda>n. check_int64 (- int n))
      else if c = CHR ''+'' then Option.bind (parse_digits s) (\<lambda>n. check_int64 (int n))
      else Option.bind (parse_digits (c # s)) (\<lambda>n. check_int64 (int n)))"

text \<open>
  \<open>fmt.Sscanf\<close> of one number: blanks are skipped but not a newline, then \<open>%d\<close> takes a sign and
  digits and \<open>%o\<close> of a 32-bit unsigned takes octal digits; what follows is left unread.
\<close>

definition skip_blanks :: "string \<Rightarrow> string" where
  "skip_blanks s =
     (let t = trim_left s in if CHR 0x0A \<in> set (take (length s - length t) s) then [] else t)"

definition scan_int :: "string \<Rightarrow> int option" where
  "scan_int s0 =
     (let s = skip_blanks s0;
          neg = (s \<noteq> [] \<and> hd s = CHR ''-'');
          ds = takeWhile is_digit (if s \<noteq> [] \<and> hd s \<in> {CHR ''-'', CHR ''+''} then tl s else s) in
      Option.bind (parse_digits ds) (\<lambda>n. check_int64 (if neg then - int n else int n)))"

definition is_octal :: "char \<Rightarrow> bool" where
  "is_octal c \<longleftrightarrow> 48 \<le> (of_char c :: nat) \<and> (of_char c :: nat) \<le> 55"

definition scan_octal32 :: "string \<Rightarrow> nat option" where
  "scan_octal32 s =
     (let ds = takeWhile is_octal (skip_blanks s); n = foldl (\<lambda>n c. 8 * n + digit_val c) 0 ds in
      if ds = [] \<or> n \<ge> 2 ^ 32 then None else Some n)"

section \<open>Facts on decimal numbers\<close>

lemma nat_str_ne [simp]: "nat_str n \<noteq> []"
  by (subst nat_str.simps) simp

lemma digit_char_digit: "d < 10 \<Longrightarrow> is_digit (digit_char d) \<and> digit_val (digit_char d) = d"
  by (simp add: is_digit_def digit_char_def digit_val_def)

lemma digits_val_snoc: "digits_val (ds @ [c]) = 10 * digits_val ds + digit_val c"
  by (simp add: digits_val_def)

lemma nat_str_digits: "list_all is_digit (nat_str n) \<and> digits_val (nat_str n) = n"
proof (induction n rule: nat_str.induct)
  case (1 n)
  show ?case
  proof (cases "n < 10")
    case True
    then show ?thesis
      by (subst (1 2) nat_str.simps) (simp add: digit_char_digit digits_val_def)
  next
    case False
    then show ?thesis
      using 1 by (subst (1 2) nat_str.simps) (simp add: digits_val_snoc digit_char_digit)
  qed
qed

lemma parse_digits_nat_str [simp]: "parse_digits (nat_str n) = Some n"
  using nat_str_digits by (simp add: parse_digits_def)

lemma nat_str_inject [simp]: "nat_str a = nat_str b \<longleftrightarrow> a = b"
  by (metis nat_str_digits)

lemma nat_str_chars: "c \<in> set (nat_str n) \<Longrightarrow> is_digit c"
  using nat_str_digits by (auto simp: list_all_iff)

lemma nat_str_small: "n < 10 \<Longrightarrow> length (nat_str n) = 1"
  by (subst nat_str.simps) simp

lemma nat_str_no_leading_zero: "10 \<le> n \<Longrightarrow> hd (nat_str n) \<noteq> CHR ''0''"
proof (induction n rule: nat_str.induct)
  case (1 n)
  have e: "nat_str n = nat_str (n div 10) @ [digit_char (n mod 10)]"
    using 1(2) by (subst nat_str.simps) simp
  show ?case
  proof (cases "n div 10 < 10")
    case True
    then have "nat_str (n div 10) = [digit_char (n div 10)]" by (subst nat_str.simps) simp
    moreover have "digit_val (digit_char (n div 10)) \<noteq> digit_val (CHR ''0'')"
      using digit_char_digit [of "n div 10"] True 1(2) by (simp add: digit_val_def)
    ultimately show ?thesis using e by auto
  next
    case False
    then show ?thesis using 1 e by simp
  qed
qed

section \<open>Facts on splitting and joining\<close>

lemma has_prefix_append [simp]: "has_prefix (p @ s) p"
  by (simp add: has_prefix_def)

lemma has_prefix_Nil [simp]: "has_prefix s []"
  by (simp add: has_prefix_def)

lemma has_suffix_append [simp]: "has_suffix (s @ p) p"
  by (simp add: has_suffix_def suffix_def)

lemma trim_prefix_append [simp]: "trim_prefix (p @ s) p = s"
  by (simp add: trim_prefix_def)

lemma trim_suffix_append [simp]: "trim_suffix (s @ p) p = s"
  by (simp add: trim_suffix_def)

lemma str_contains_single: "str_contains s [c] \<longleftrightarrow> c \<in> set s"
  by (induction s) auto

lemma contains_any_iff: "contains_any s cs \<longleftrightarrow> (\<exists>c \<in> set s. c \<in> set cs)"
  by (auto simp: contains_any_def list_ex_iff)

lemma split_byte_ne [simp]: "split_byte c s \<noteq> []"
  by (induction s) (auto split: list.splits)

lemma split_byte_no_sep: "w \<in> set (split_byte c s) \<Longrightarrow> c \<notin> set w"
  by (induction s arbitrary: w) (auto split: list.splits if_splits)

lemma split_byte_single: "c \<notin> set s \<Longrightarrow> split_byte c s = [s]"
  by (induction s) auto

lemma split_byte_append: "c \<notin> set w \<Longrightarrow> split_byte c (w @ c # s) = w # split_byte c s"
  by (induction w) auto

lemma split_join:
  "\<forall>w \<in> set ws. c \<notin> set w \<Longrightarrow> ws \<noteq> [] \<Longrightarrow> split_byte c (str_join [c] ws) = ws"
  by (induction "[c]" ws rule: str_join.induct) (auto simp: split_byte_single split_byte_append)

lemma str_join_Cons: "ws \<noteq> [] \<Longrightarrow> str_join sep (w # ws) = w @ sep @ str_join sep ws"
  by (cases ws) auto

lemma join_split: "str_join [c] (split_byte c s) = s"
proof (induction s)
  case (Cons x s)
  show ?case
  proof (cases "x = c")
    case True
    then show ?thesis using Cons by (simp add: str_join_Cons)
  next
    case False
    obtain w ws where "split_byte c s = w # ws" by (cases "split_byte c s") auto
    then show ?thesis using Cons False by (cases ws) auto
  qed
qed simp

lemma split_byte_subset: "w \<in> set (split_byte c s) \<Longrightarrow> set w \<subseteq> set s"
  by (induction s arbitrary: w) (fastforce split: list.splits if_splits)+

lemma index_byte_None: "index_byte s c = None \<longleftrightarrow> c \<notin> set s"
  by (auto simp: index_byte_def find_index_None)

lemma index_byte_append: "c \<notin> set w \<Longrightarrow> index_byte (w @ c # s) c = Some (length w)"
  by (induction w) (auto simp: index_byte_def)

lemma splitn_byte_append:
  "c \<notin> set w \<Longrightarrow> splitn_byte (Suc (Suc n)) c (w @ c # s) = w # splitn_byte (Suc n) c s"
  by (simp add: index_byte_append)

lemma splitn_byte_no_sep: "c \<notin> set s \<Longrightarrow> splitn_byte (Suc n) c s = [s]"
  using index_byte_None [of s c] by (cases n) auto

definition run_outside :: "(char \<Rightarrow> bool) \<Rightarrow> string \<Rightarrow> bool" where
  "run_outside P w \<longleftrightarrow> w \<noteq> [] \<and> list_all (\<lambda>c. \<not> P c) w"

lemma fields_func_aux_run:
  "list_all (\<lambda>c. \<not> P c) cur \<Longrightarrow> list_all (run_outside P) (fields_func_aux P cur s)"
  by (induction P cur s rule: fields_func_aux.induct) (auto simp: run_outside_def)

lemma fields_func_run: "w \<in> set (fields_func P s) \<Longrightarrow> w \<noteq> [] \<and> (\<forall>c \<in> set w. \<not> P c)"
  using fields_func_aux_run [of P "[]" s]
  by (simp add: fields_func_def list_all_iff run_outside_def)

end
