(* ===== verification/GoPath.thy ===== *)
theory GoPath
  imports GoStrings
begin

text \<open>
  Go's \<open>path/filepath\<close> on Unix, where the separator is the slash and \<open>FromSlash\<close> and
  \<open>ToSlash\<close> are the identity. A path string is read as the list of its elements; \<open>Clean\<close>
  works on that list, and every other operation is defined from it as in the library.
\<close>

definition slash :: char where
  "slash = CHR ''/''"

definition is_abs :: "string \<Rightarrow> bool" where
  "is_abs s \<longleftrightarrow> has_prefix s [slash]"

section \<open>Elements\<close>

text \<open>The elements of a path: what lies between slashes, empty ones and dots left out.\<close>

definition elems :: "string \<Rightarrow> string list" where
  "elems s = filter (\<lambda>w. w \<noteq> [] \<and> w \<noteq> ''.'') (split_byte slash s)"

definition dotdot :: string where
  "dotdot = ''..''"

text \<open>
  One element of \<open>Clean\<close>, on the reversed output: a parent element removes the element
  before it, is dropped at the root, and is kept at the start of a relative path.
\<close>

definition clean_step :: "bool \<Rightarrow> string list \<Rightarrow> string \<Rightarrow> string list" where
  "clean_step rooted out w =
     (if w = dotdot then
        (case out of
           [] \<Rightarrow> if rooted then [] else [dotdot]
         | t # ts \<Rightarrow> if t = dotdot then dotdot # out else ts)
      else w # out)"

definition clean_elems :: "bool \<Rightarrow> string list \<Rightarrow> string list" where
  "clean_elems rooted ws = rev (foldl (clean_step rooted) [] ws)"

definition unparse :: "bool \<Rightarrow> string list \<Rightarrow> string" where
  "unparse rooted ws =
     (if rooted then slash # str_join [slash] ws
      else if ws = [] then ''.'' else str_join [slash] ws)"

definition path_clean :: "string \<Rightarrow> string" where
  "path_clean s = unparse (is_abs s) (clean_elems (is_abs s) (elems s))"

text \<open>\<open>Join\<close> ignores empty elements and cleans; \<open>Dir\<close>, \<open>Base\<close>, \<open>Abs\<close> and \<open>Rel\<close>.\<close>

definition path_join :: "string list \<Rightarrow> string" where
  "path_join ws =
     (let vs = filter (\<lambda>w. w \<noteq> []) ws in if vs = [] then [] else path_clean (str_join [slash] vs))"

definition path_dir :: "string \<Rightarrow> string" where
  "path_dir s = path_clean (case last_index_byte s slash of None \<Rightarrow> [] | Some i \<Rightarrow> take (Suc i) s)"

definition path_base :: "string \<Rightarrow> string" where
  "path_base s =
     (if s = [] then ''.''
      else let t = rev (dropWhile (\<lambda>c. c = slash) (rev s)) in
           let b = rev (takeWhile (\<lambda>c. c \<noteq> slash) (rev t)) in
           if b = [] then [slash] else b)"

text \<open>\<open>Abs\<close> joins a relative path to the working directory, when there is one.\<close>

definition path_abs :: "string option \<Rightarrow> string \<Rightarrow> string option" where
  "path_abs cwd s =
     (if is_abs s then Some (path_clean s)
      else map_option (\<lambda>wd. path_join [wd, s]) cwd)"

fun strip_common :: "string list \<Rightarrow> string list \<Rightarrow> string list \<times> string list" where
  "strip_common (b # bs) (t # ts) = (if b = t then strip_common bs ts else (b # bs, t # ts))"
| "strip_common bs ts = (bs, ts)"

text \<open>
  \<open>Rel(base, targ)\<close>: \<open>None\<close> is its error. The repository calls it on two absolute paths.
\<close>

definition path_rel :: "string \<Rightarrow> string \<Rightarrow> string option" where
  "path_rel base targ =
     (let b = path_clean base; t = path_clean targ in
      if b = t then Some ''.''
      else if is_abs b \<noteq> is_abs t then None
      else case strip_common (elems b) (elems t) of (bs, ts) \<Rightarrow>
        if bs \<noteq> [] \<and> hd bs = dotdot then None
        else Some (str_join [slash] (replicate (length bs) dotdot @ ts)))"

text \<open>
  The test the repository writes after every \<open>Rel\<close>: \<open>rel == ".."\<close> or \<open>rel\<close> starts with
  \<open>"../"\<close>, or \<open>Rel\<close> failed.
\<close>

definition rel_escapes :: "string option \<Rightarrow> bool" where
  "rel_escapes r = (case r of None \<Rightarrow> True | Some x \<Rightarrow> x = dotdot \<or> has_prefix x (dotdot @ [slash]))"

section \<open>Cleaned paths\<close>

text \<open>A proper element: not empty, without slash, and neither dot nor dot-dot.\<close>

definition proper :: "string \<Rightarrow> bool" where
  "proper w \<longleftrightarrow> w \<noteq> [] \<and> w \<noteq> ''.'' \<and> w \<noteq> dotdot \<and> slash \<notin> set w"

lemma properD: "proper w \<Longrightarrow> w \<noteq> [] \<and> w \<noteq> ''.'' \<and> w \<noteq> dotdot \<and> slash \<notin> set w"
  by (simp add: proper_def)

lemma elems_proper: "w \<in> set (elems s) \<Longrightarrow> w = dotdot \<or> proper w"
  by (auto simp: elems_def proper_def dest: split_byte_no_sep)

text \<open>The string of an absolute path given by its elements.\<close>

definition abs_of :: "string list \<Rightarrow> string" where
  "abs_of ws = unparse True ws"

lemma abs_of_is_abs [simp]: "is_abs (abs_of ws)"
  by (simp add: abs_of_def unparse_def is_abs_def has_prefix_def)

lemma elems_cons_slash [simp]: "elems (slash # s) = elems s"
  by (simp add: elems_def)

lemma elems_Nil [simp]: "elems [] = []"
  by (simp add: elems_def)

lemma elems_join_proper:
  assumes "list_all proper ws"
  shows "elems (str_join [slash] ws) = ws"
proof (cases "ws = []")
  case False
  have "split_byte slash (str_join [slash] ws) = ws"
    using assms False by (intro split_join) (auto simp: list_all_iff proper_def)
  moreover have "filter (\<lambda>w. w \<noteq> [] \<and> w \<noteq> ''.'') ws = ws"
    using assms by (auto simp: list_all_iff proper_def intro: filter_True)
  ultimately show ?thesis by (simp add: elems_def)
qed simp

lemma elems_abs_of [simp]: "list_all proper ws \<Longrightarrow> elems (abs_of ws) = ws"
  by (simp add: abs_of_def unparse_def elems_join_proper)

lemma clean_step_proper: "proper w \<Longrightarrow> clean_step r out w = w # out"
  by (simp add: clean_step_def proper_def)

lemma foldl_clean_proper:
  "list_all proper ws \<Longrightarrow> foldl (clean_step r) out ws = rev ws @ out"
  by (induction ws arbitrary: out) (auto simp: clean_step_proper)

lemma clean_elems_proper [simp]: "list_all proper ws \<Longrightarrow> clean_elems r ws = ws"
  by (simp add: clean_elems_def foldl_clean_proper)

lemma foldl_clean_rooted:
  "\<forall>w \<in> set ws. w = dotdot \<or> proper w \<Longrightarrow> list_all proper out
    \<Longrightarrow> list_all proper (foldl (clean_step True) out ws)"
  by (induction ws arbitrary: out) (auto simp: clean_step_def split: list.splits)

lemma clean_elems_rooted_proper:
  "\<forall>w \<in> set ws. w = dotdot \<or> proper w \<Longrightarrow> list_all proper (clean_elems True ws)"
  using foldl_clean_rooted [of ws "[]"] by (simp add: clean_elems_def list_all_iff)

lemma path_clean_abs:
  "is_abs s \<Longrightarrow> path_clean s = abs_of (clean_elems True (elems s))"
  by (simp add: path_clean_def abs_of_def)

lemma path_clean_abs_of [simp]: "list_all proper ws \<Longrightarrow> path_clean (abs_of ws) = abs_of ws"
  by (simp add: path_clean_abs)

lemma path_clean_abs_proper:
  assumes "is_abs s"
  obtains ws where "list_all proper ws" and "path_clean s = abs_of ws"
  using assms by (metis clean_elems_rooted_proper elems_proper path_clean_abs)

lemma abs_of_inj: "list_all proper ws \<Longrightarrow> list_all proper vs \<Longrightarrow> abs_of ws = abs_of vs \<Longrightarrow> ws = vs"
  by (metis elems_abs_of)

lemma abs_of_Nil: "abs_of [] = [slash]"
  by (simp add: abs_of_def unparse_def)

section \<open>Elements of joined paths\<close>

lemma split_byte_append_sep: "split_byte c (s @ c # t) = split_byte c s @ split_byte c t"
  by (induction s) (auto split: list.splits)

lemma elems_append_slash: "elems (s @ slash # t) = elems s @ elems t"
  by (simp add: elems_def split_byte_append_sep)

lemma is_abs_append: "s \<noteq> [] \<Longrightarrow> is_abs (s @ t) = is_abs s"
  by (cases s) (auto simp: is_abs_def has_prefix_def)

lemma abs_of_ne_Nil [simp]: "abs_of ws \<noteq> []"
  by (simp add: abs_of_def unparse_def)

text \<open>\<open>Join(root, name)\<close> for an absolute cleaned root.\<close>

lemma path_join_abs_of:
  assumes "list_all proper rs"
  shows "path_join [abs_of rs, s] = abs_of (rev (foldl (clean_step True) (rev rs) (elems s)))"
proof (cases "s = []")
  case True
  then show ?thesis using assms by (simp add: path_join_def)
next
  case False
  let ?t = "abs_of rs @ slash # s"
  have "path_join [abs_of rs, s] = path_clean ?t"
    using False by (simp add: path_join_def)
  also have "\<dots> = abs_of (clean_elems True (elems ?t))"
    by (simp add: path_clean_abs is_abs_append)
  also have "elems ?t = rs @ elems s"
    using assms by (simp add: elems_append_slash)
  also have "clean_elems True (rs @ elems s) = rev (foldl (clean_step True) (rev rs) (elems s))"
    using assms by (simp add: clean_elems_def foldl_clean_proper)
  finally show ?thesis .
qed

lemma path_join_abs_of_proper:
  assumes "list_all proper rs" and "list_all proper (elems s)"
  shows "path_join [abs_of rs, s] = abs_of (rs @ elems s)"
  using assms by (simp add: path_join_abs_of foldl_clean_proper)

text \<open>Joining any number of well-behaved parts to an absolute directory.\<close>

definition abs_elems :: "string \<Rightarrow> string list" where
  "abs_elems s = clean_elems True (elems s)"

lemma abs_elems_proper [simp]: "list_all proper (abs_elems s)"
  unfolding abs_elems_def by (rule clean_elems_rooted_proper) (auto dest: elems_proper)

lemma abs_elems_abs_of [simp]: "list_all proper ws \<Longrightarrow> abs_elems (abs_of ws) = ws"
  by (simp add: abs_elems_def)

lemma path_clean_abs_elems: "is_abs s \<Longrightarrow> path_clean s = abs_of (abs_elems s)"
  by (simp add: path_clean_abs abs_elems_def)

lemma elems_str_join: "elems (str_join [slash] vs) = concat (map elems vs)"
proof (induction vs)
  case (Cons v vs)
  then show ?case by (cases "vs = []") (auto simp: str_join_Cons elems_append_slash)
qed simp

lemma clean_elems_append_proper:
  "list_all proper vs \<Longrightarrow> clean_elems r (ws @ vs) = clean_elems r ws @ vs"
  by (simp add: clean_elems_def foldl_clean_proper)

lemma path_join_abs:
  assumes "is_abs d" and "list_all proper (concat (map elems ss))"
  shows "path_join (d # ss) = abs_of (abs_elems d @ concat (map elems ss))"
proof -
  let ?vs = "filter (\<lambda>w. w \<noteq> []) ss"
  have d: "d \<noteq> []" using assms(1) by (auto simp: is_abs_def has_prefix_def)
  have cm: "concat (map elems ?vs) = concat (map elems ss)"
    by (induction ss) auto
  have "is_abs (str_join [slash] (d # ?vs))"
    using assms(1) d by (cases "?vs = []") (auto simp: str_join_Cons is_abs_append)
  then have "path_join (d # ss) = abs_of (clean_elems True (elems (str_join [slash] (d # ?vs))))"
    using d by (simp add: path_join_def path_clean_abs)
  also have "elems (str_join [slash] (d # ?vs)) = elems d @ concat (map elems ss)"
    by (simp add: elems_str_join cm)
  finally show ?thesis
    using assms(2) by (simp add: clean_elems_append_proper abs_elems_def)
qed

lemma elems_no_slash: "slash \<notin> set w \<Longrightarrow> elems w = (if w = [] \<or> w = ''.'' then [] else [w])"
  by (auto simp: elems_def split_byte_single)

lemma elems_proper_single [simp]: "proper w \<Longrightarrow> elems w = [w]"
  by (simp add: elems_no_slash proper_def)

section \<open>Relative paths between absolute ones\<close>

lemma strip_common_prefix: "strip_common bs (bs @ ts) = ([], ts)"
  by (induction bs) (auto intro: strip_common.elims)

lemma strip_common_eq: "strip_common bs ts = (bs', ts') \<Longrightarrow> \<exists>cs. bs = cs @ bs' \<and> ts = cs @ ts'"
proof (induction bs ts rule: strip_common.induct)
  case (1 b bs t ts)
  show ?case
  proof (cases "b = t")
    case True
    then obtain cs where "bs = cs @ bs'" "ts = cs @ ts'" using 1 by auto
    then show ?thesis using True by (intro exI [of _ "b # cs"]) simp
  next
    case False
    then show ?thesis using "1.prems" by (intro exI [of _ "[]"]) simp
  qed
qed auto

text \<open>
  For two cleaned absolute paths the escape test after \<open>Rel\<close> decides exactly whether the
  second path lies at or below the first.
\<close>

lemma join_dotdot_escapes: "rel_escapes (Some (str_join [slash] (dotdot # ws)))"
  by (cases ws) (auto simp: rel_escapes_def has_prefix_def)

lemma join_proper_not_escapes:
  assumes "list_all proper ws" and "ws \<noteq> []"
  shows "\<not> rel_escapes (Some (str_join [slash] ws))"
proof -
  obtain w vs where ws: "ws = w # vs" using assms(2) by (cases ws) auto
  have pw: "proper w" using assms(1) ws by simp
  show ?thesis
  proof
    assume "rel_escapes (Some (str_join [slash] ws))"
    then have "str_join [slash] ws = dotdot \<or> prefix (dotdot @ [slash]) (str_join [slash] ws)"
      by (simp add: rel_escapes_def has_prefix_def)
    then have "hd (split_byte slash (str_join [slash] ws)) = dotdot"
    proof
      assume "str_join [slash] ws = dotdot"
      moreover have "split_byte slash dotdot = [dotdot]"
        by (simp add: dotdot_def slash_def)
      ultimately show ?thesis by simp
    next
      assume "prefix (dotdot @ [slash]) (str_join [slash] ws)"
      then obtain r where "str_join [slash] ws = dotdot @ slash # r" by (auto simp: prefix_def)
      moreover have "slash \<notin> set dotdot" by (simp add: dotdot_def slash_def)
      ultimately show ?thesis by (simp add: split_byte_append)
    qed
    moreover have "split_byte slash (str_join [slash] ws) = ws"
      using assms by (intro split_join) (auto simp: list_all_iff proper_def)
    ultimately show False using ws pw by (simp add: proper_def)
  qed
qed

lemma rel_escapes_iff:
  assumes "list_all proper rs" and "list_all proper ps"
  shows "\<not> rel_escapes (path_rel (abs_of rs) (abs_of ps)) \<longleftrightarrow> prefix rs ps"
proof (cases "rs = ps")
  case True
  then show ?thesis by (simp add: path_rel_def rel_escapes_def dotdot_def has_prefix_def)
next
  case False
  obtain bs ts where sc: "strip_common rs ps = (bs, ts)" by fastforce
  obtain cs where cs: "rs = cs @ bs" "ps = cs @ ts" using strip_common_eq [OF sc] by auto
  have ne: "abs_of rs \<noteq> abs_of ps" using False abs_of_inj assms by blast
  have pr: "list_all proper bs" "list_all proper ts" using assms cs by auto
  have hd: "\<not> (bs \<noteq> [] \<and> hd bs = dotdot)"
    using pr(1) by (cases bs) (auto simp: proper_def)
  have rel: "path_rel (abs_of rs) (abs_of ps)
      = Some (str_join [slash] (replicate (length bs) dotdot @ ts))"
    using assms ne sc hd by (simp add: path_rel_def)
  show ?thesis
  proof (cases "bs = []")
    case True
    then have "ts \<noteq> []" using cs False by auto
    then have "\<not> rel_escapes (path_rel (abs_of rs) (abs_of ps))"
      using rel True join_proper_not_escapes pr(2) by simp
    moreover have "prefix rs ps" using cs True by simp
    ultimately show ?thesis by simp
  next
    case bs: False
    then obtain n where "length bs = Suc n" by (cases bs) auto
    then have "rel_escapes (path_rel (abs_of rs) (abs_of ps))"
      using rel join_dotdot_escapes by simp
    moreover have "\<not> prefix rs ps"
    proof
      assume "prefix rs ps"
      then have "ps = rs @ drop (length rs) ps" by (auto simp: prefix_def)
      then have "strip_common rs ps = ([], drop (length rs) ps)"
        using strip_common_prefix by metis
      then show False using sc bs by simp
    qed
    ultimately show ?thesis by simp
  qed
qed

lemmas clean_path_simps = path_clean_abs_of elems_abs_of path_join_abs_of_proper rel_escapes_iff

end
