(* ===== verification/StatePaths.thy ===== *)
theory StatePaths
  imports GoPath
begin

text \<open>
  The state directory (\<open>internal/state/state.go\<close>): where dck keeps images, containers, logs,
  overlays, volumes, consoles and cached layers, how an identifier from outside is turned into
  one path element, and the atomic file write every component persists its state with.
  SHA-256 in hexadecimal is the argument \<open>h\<close>: the code only relies on its result being 64
  hexadecimal digits.
\<close>

section \<open>Directories\<close>

text \<open>What \<open>DataDir\<close> reads of the process environment.\<close>

record host_env =
  env_data_dir :: string
  env_uid :: nat
  env_home :: "string option"

definition data_dir :: "host_env \<Rightarrow> string" where
  "data_dir e =
     (let dir = trim_space (env_data_dir e) in
      if dir \<noteq> [] then path_clean dir
      else if env_uid e = 0 then ''/root/.dck''
      else path_join [case env_home e of None \<Rightarrow> ''/root'' | Some d \<Rightarrow> d, ''.dck''])"

definition images_dir :: "string \<Rightarrow> string" where
  "images_dir dd = path_join [dd, ''images'']"

definition containers_dir :: "string \<Rightarrow> string" where
  "containers_dir dd = path_join [dd, ''containers'']"

definition logs_dir :: "string \<Rightarrow> string" where
  "logs_dir dd = path_join [dd, ''logs'']"

definition overlay_dir :: "string \<Rightarrow> string" where
  "overlay_dir dd = path_join [dd, ''overlay'']"

definition volumes_dir :: "string \<Rightarrow> string" where
  "volumes_dir dd = path_join [dd, ''volumes'']"

definition consoles_dir :: "string \<Rightarrow> string" where
  "consoles_dir dd = path_join [dd, ''consoles'']"

definition layer_cache_dir :: "string \<Rightarrow> string" where
  "layer_cache_dir dd = path_join [path_join [dd, ''cache''], ''layers'']"

section \<open>Names that become path elements\<close>

definition path_seps :: string where
  "path_seps = [slash, CHR 0x5C]"

definition reference_key :: "(string \<Rightarrow> string) \<Rightarrow> string list \<Rightarrow> string" where
  "reference_key h parts = h (concat (map (\<lambda>p. CHR 0x00 # p) parts))"

definition safe_part :: "(string \<Rightarrow> string) \<Rightarrow> string \<Rightarrow> string" where
  "safe_part h v =
     (if v \<noteq> [] \<and> v \<noteq> ''.'' \<and> v \<noteq> ''..'' \<and> \<not> contains_any v path_seps \<and> path_base v = v
      then v else reference_key h [v])"

definition valid_image_name :: "string \<Rightarrow> bool" where
  "valid_image_name name =
     (if name = [] \<or> has_prefix name [slash] \<or> has_prefix name [CHR 0x5C]
        \<or> str_contains name [CHR 0x5C] then False
      else list_all (\<lambda>part. part \<noteq> [] \<and> part \<noteq> ''.'' \<and> part \<noteq> ''..'') (split_byte slash name))"

definition valid_tag :: "string \<Rightarrow> bool" where
  "valid_tag tag \<longleftrightarrow> tag \<noteq> [] \<and> tag \<noteq> ''.'' \<and> tag \<noteq> ''..'' \<and> \<not> contains_any tag path_seps"

definition image_dir :: "(string \<Rightarrow> string) \<Rightarrow> string \<Rightarrow> string \<Rightarrow> string \<Rightarrow> string" where
  "image_dir h dd name tag =
     (if \<not> valid_image_name name \<or> \<not> valid_tag tag
      then path_join [images_dir dd, ''.invalid'', reference_key h [name, tag]]
      else path_join [images_dir dd, name, tag])"

definition image_rootfs_dir :: "(string \<Rightarrow> string) \<Rightarrow> string \<Rightarrow> string \<Rightarrow> string \<Rightarrow> string" where
  "image_rootfs_dir h dd name tag = path_join [image_dir h dd name tag, ''rootfs'']"

definition container_path :: "(string \<Rightarrow> string) \<Rightarrow> string \<Rightarrow> string \<Rightarrow> string" where
  "container_path h dd cid = path_join [containers_dir dd, safe_part h cid @ ''.json'']"

definition log_path :: "(string \<Rightarrow> string) \<Rightarrow> string \<Rightarrow> string \<Rightarrow> string" where
  "log_path h dd cid = path_join [logs_dir dd, safe_part h cid @ ''.log'']"

definition overlay_dirs :: "(string \<Rightarrow> string) \<Rightarrow> string \<Rightarrow> string \<Rightarrow> string \<times> string \<times> string" where
  "overlay_dirs h dd cid =
     (let base = path_join [overlay_dir dd, safe_part h cid] in
      (path_join [base, ''upper''], path_join [base, ''work''], path_join [base, ''merged'']))"

definition layer_path :: "(string \<Rightarrow> string) \<Rightarrow> string \<Rightarrow> string \<Rightarrow> string" where
  "layer_path h dd digest =
     path_join [layer_cache_dir dd, safe_part h (trim_prefix digest ''sha256:''), ''layer.tar.gz'']"

definition console_path :: "(string \<Rightarrow> string) \<Rightarrow> string \<Rightarrow> string \<Rightarrow> string" where
  "console_path h dd cid = path_join [consoles_dir dd, safe_part h cid @ ''.sock'']"

definition resolve_volume :: "(string \<Rightarrow> string) \<Rightarrow> string \<Rightarrow> string \<Rightarrow> string" where
  "resolve_volume h dd source =
     (if \<not> str_contains source [slash] \<and> \<not> str_contains source [CHR 0x5C]
      then path_join [volumes_dir dd, safe_part h source] else source)"

section \<open>Every name stays in its directory\<close>

text \<open>
  The hash result is one proper path element: it has 64 characters, none a slash.
\<close>

definition hex_hash :: "(string \<Rightarrow> string) \<Rightarrow> bool" where
  "hex_hash h \<longleftrightarrow> (\<forall>s. length (h s) = 64 \<and> set (h s) \<subseteq> set ''0123456789abcdef'')"

lemma hex_hash_no_slash: "hex_hash h \<Longrightarrow> slash \<notin> set (h s)"
  by (auto simp: hex_hash_def slash_def dest: subsetD)

lemma hex_hash_length: "hex_hash h \<Longrightarrow> length (h s) = 64"
  by (simp add: hex_hash_def)

lemma hex_hash_proper:
  assumes "hex_hash h"
  shows "proper (h s)"
proof -
  have "length (h s) = 64" "slash \<notin> set (h s)"
    using assms by (rule hex_hash_length hex_hash_no_slash)+
  then show ?thesis by (auto simp: proper_def dotdot_def)
qed

lemma safe_part_proper:
  assumes "hex_hash h"
  shows "proper (safe_part h v)"
proof (cases "safe_part h v = v")
  case True
  show ?thesis
  proof (cases "v \<noteq> [] \<and> v \<noteq> ''.'' \<and> v \<noteq> ''..'' \<and> \<not> contains_any v path_seps")
    case True
    then show ?thesis
      using \<open>safe_part h v = v\<close>
      by (auto simp: proper_def dotdot_def contains_any_iff path_seps_def)
  next
    case False
    then have "safe_part h v = reference_key h [v]" unfolding safe_part_def by argo
    then show ?thesis using assms by (simp add: reference_key_def hex_hash_proper)
  qed
next
  case False
  then have "safe_part h v = reference_key h [v]" by (auto simp: safe_part_def split: if_splits)
  then show ?thesis using assms by (simp add: reference_key_def hex_hash_proper)
qed

lemma safe_part_suffix_proper:
  assumes "hex_hash h" and "slash \<notin> set ext" and "length ext > 2"
  shows "proper (safe_part h v @ ext)"
proof -
  have "slash \<notin> set (safe_part h v)" using safe_part_proper assms(1) by (auto dest: properD)
  moreover have "length (safe_part h v @ ext) > 2" using assms(3) by simp
  ultimately show ?thesis
    using assms(2) by (auto simp: proper_def dotdot_def simp del: length_append)
qed

lemma literal_proper:
  "proper ''images''" "proper ''containers''" "proper ''logs''" "proper ''overlay''"
  "proper ''volumes''" "proper ''consoles''" "proper ''.invalid''" "proper ''rootfs''"
  by (simp_all add: proper_def dotdot_def slash_def)

text \<open>
  A file whose name is derived from an identifier is a direct child of its directory, whatever
  the identifier: the shared shape of the container, log and console paths.
\<close>

lemma named_file_child:
  assumes "is_abs dd" and "hex_hash h" and "proper sub" and "slash \<notin> set ext" and "length ext > 2"
  shows "path_join [path_join [dd, sub], safe_part h v @ ext]
    = abs_of (abs_elems dd @ [sub, safe_part h v @ ext])"
proof -
  have ext: "proper (safe_part h v @ ext)" using assms by (simp add: safe_part_suffix_proper)
  have "path_join [dd, sub] = abs_of (abs_elems dd @ [sub])"
    using assms by (simp add: path_join_abs)
  then show ?thesis using assms(3) ext by (simp add: path_join_abs)
qed

lemma valid_image_name_elems:
  assumes "valid_image_name name"
  shows "list_all proper (elems name) \<and> elems name \<noteq> []"
proof -
  have parts: "list_all (\<lambda>w. w \<noteq> [] \<and> w \<noteq> ''.'' \<and> w \<noteq> ''..'') (split_byte slash name)"
    using assms by (auto simp: valid_image_name_def split: if_splits)
  then have "elems name = split_byte slash name"
    by (auto simp: elems_def list_all_iff intro: filter_True)
  moreover have "list_all proper (split_byte slash name)"
    using parts by (auto simp: list_all_iff proper_def dotdot_def dest: split_byte_no_sep)
  ultimately show ?thesis by simp
qed

lemma valid_tag_proper: "valid_tag tag \<Longrightarrow> proper tag"
  by (auto simp: valid_tag_def proper_def dotdot_def contains_any_iff path_seps_def)

text \<open>
  Whatever identifier a caller passes, a container's state file is a direct child of the
  containers directory: no identifier, however hostile, reaches another directory.
\<close>

theorem container_path_confined:
  assumes "is_abs dd" and "hex_hash h"
  shows "\<exists>w. proper w \<and> container_path h dd cid = abs_of (abs_elems dd @ [''containers'', w])"
proof -
  have "proper (safe_part h cid @ ''.json'')"
    by (rule safe_part_suffix_proper) (simp_all add: assms slash_def)
  moreover have "container_path h dd cid
      = abs_of (abs_elems dd @ [''containers'', safe_part h cid @ ''.json''])"
    unfolding container_path_def containers_dir_def
    by (rule named_file_child) (simp_all add: assms literal_proper, simp_all add: slash_def)
  ultimately show ?thesis by blast
qed

theorem container_path_confined_witness:
  "\<exists>w. proper w \<and> container_path (\<lambda>_. replicate 64 (CHR ''0'')) ''/root/.dck'' ''../../etc/passwd''
     = abs_of (abs_elems ''/root/.dck'' @ [''containers'', w])"
  by (rule container_path_confined) (simp_all add: is_abs_def has_prefix_def slash_def hex_hash_def)

end
