(* ===== verification/AtomicWrite.thy ===== *)
theory AtomicWrite
  imports StatePaths
begin

text \<open>
  \<open>EnsureDirs\<close>, \<open>WriteFileAtomic\<close> and \<open>WriteJSON\<close> of \<open>internal/state/state.go\<close>. A file
  system is a map from paths to contents and mode; every system call may fail, as the fault
  predicate says, and the model returns the list of all file systems the call goes through,
  so that a crash between two calls is one of them.
\<close>

type_synonym files = "string \<rightharpoonup> string \<times> nat"

section \<open>Creating the state directories\<close>

definition state_dirs :: "string \<Rightarrow> string list" where
  "state_dirs dd =
     [dd, images_dir dd, containers_dir dd, logs_dir dd, overlay_dir dd, consoles_dir dd,
      volumes_dir dd, path_join [dd, ''cache''], layer_cache_dir dd]"

datatype dir_call = MkdirAll string | ChmodDir string

text \<open>
  The directories and their modes after the loop, and the call that failed. \<open>MkdirAll\<close> leaves
  an existing directory alone, \<open>Chmod\<close> then sets mode 0700 (448) on it.
\<close>

fun ensure_dirs_loop ::
  "(dir_call \<Rightarrow> bool) \<Rightarrow> string list \<Rightarrow> (string \<rightharpoonup> nat) \<Rightarrow> (dir_call + unit) \<times> (string \<rightharpoonup> nat)"
where
  "ensure_dirs_loop flt [] m = (Inr (), m)"
| "ensure_dirs_loop flt (d # ds) m =
     (if flt (MkdirAll d) then (Inl (MkdirAll d), m)
      else let m1 = (case m d of None \<Rightarrow> m(d \<mapsto> 448) | Some _ \<Rightarrow> m) in
        if flt (ChmodDir d) then (Inl (ChmodDir d), m1)
        else ensure_dirs_loop flt ds (m1(d \<mapsto> 448)))"

definition ensure_dirs ::
  "(dir_call \<Rightarrow> bool) \<Rightarrow> string \<Rightarrow> (string \<rightharpoonup> nat) \<Rightarrow> (dir_call + unit) \<times> (string \<rightharpoonup> nat)"
where
  "ensure_dirs flt dd m = ensure_dirs_loop flt (state_dirs dd) m"

lemma ensure_dirs_loop_mode:
  "ensure_dirs_loop flt ds m = (Inr u, m') \<Longrightarrow> d \<in> set ds \<or> m d = Some 448 \<Longrightarrow> m' d = Some 448"
  by (induction flt ds m rule: ensure_dirs_loop.induct)
    (auto simp: Let_def split: if_splits option.splits)

text \<open>
  When \<open>EnsureDirs\<close> succeeds, every state directory exists with mode 0700, also one that
  existed before with another mode.
\<close>

theorem ensure_dirs_private:
  assumes "ensure_dirs flt dd m = (Inr u, m')" and "d \<in> set (state_dirs dd)"
  shows "m' d = Some 448"
  using assms ensure_dirs_loop_mode unfolding ensure_dirs_def by blast

theorem ensure_dirs_private_witness:
  "snd (ensure_dirs (\<lambda>_. False) ''/root/.dck'' [''/root/.dck'' \<mapsto> 493]) ''/root/.dck'' = Some 448"
proof -
  have "fst (ensure_dirs (\<lambda>_. False) ''/root/.dck'' [''/root/.dck'' \<mapsto> 493]) = Inr ()"
    by (simp add: ensure_dirs_def state_dirs_def Let_def)
  then have "ensure_dirs (\<lambda>_. False) ''/root/.dck'' [''/root/.dck'' \<mapsto> 493]
    = (Inr (), snd (ensure_dirs (\<lambda>_. False) ''/root/.dck'' [''/root/.dck'' \<mapsto> 493]))"
    by (metis prod.collapse)
  then show ?thesis by (rule ensure_dirs_private) (simp add: state_dirs_def)
qed

section \<open>Writing a file atomically\<close>

datatype write_call =
  WMkdirAll | WChmodDir | WCreateTemp | WChmodTemp | WWrite | WSync | WClose | WRename
  | WChmodPath | WRemoveTemp

text \<open>The deferred \<open>os.Remove(tmpPath)\<close>, whose own failure is ignored.\<close>

definition remove_temp :: "(write_call \<Rightarrow> bool) \<Rightarrow> string \<Rightarrow> files \<Rightarrow> files" where
  "remove_temp flt tmp f = (if flt WRemoveTemp then f else f(tmp := None))"

text \<open>
  \<open>tmp\<close> is the name \<open>CreateTemp\<close> picked, \<open>k\<close> how many bytes a failing \<open>Write\<close> wrote. The
  result is the error or success and the trace of file systems, the first one the initial.
\<close>

definition write_file_atomic ::
  "(write_call \<Rightarrow> bool) \<Rightarrow> nat \<Rightarrow> string \<Rightarrow> string \<Rightarrow> string \<Rightarrow> nat \<Rightarrow> files
    \<Rightarrow> (write_call + unit) \<times> files list"
where
  "write_file_atomic flt k tmp path data mode f0 =
     (if flt WMkdirAll then (Inl WMkdirAll, [f0])
      else if flt WChmodDir then (Inl WChmodDir, [f0])
      else if flt WCreateTemp then (Inl WCreateTemp, [f0])
      else
        let f1 = f0(tmp \<mapsto> ([], 384)) in
        if flt WChmodTemp then (Inl WChmodTemp, [f0, f1, remove_temp flt tmp f1])
        else
          let f2 = f1(tmp \<mapsto> ([], mode)) in
          if flt WWrite
          then let f3 = f2(tmp \<mapsto> (take k data, mode)) in
            (Inl WWrite, [f0, f1, f2, f3, remove_temp flt tmp f3])
          else
            let f3 = f2(tmp \<mapsto> (data, mode)) in
            if flt WSync then (Inl WSync, [f0, f1, f2, f3, remove_temp flt tmp f3])
            else if flt WClose then (Inl WClose, [f0, f1, f2, f3, remove_temp flt tmp f3])
            else if flt WRename then (Inl WRename, [f0, f1, f2, f3, remove_temp flt tmp f3])
            else
              let f4 = (f3(tmp := None))(path \<mapsto> (data, mode)) in
              if flt WChmodPath then (Inl WChmodPath, [f0, f1, f2, f3, f4])
              else (Inr (), [f0, f1, f2, f3, f4]))"

text \<open>\<open>WriteJSON\<close>: the marshalled value and a newline, mode 0600 (384).\<close>

definition write_json ::
  "(write_call \<Rightarrow> bool) \<Rightarrow> nat \<Rightarrow> string \<Rightarrow> string \<Rightarrow> string option \<Rightarrow> files
    \<Rightarrow> (write_call option + unit) \<times> files list"
where
  "write_json flt k tmp path marshalled f0 =
     (case marshalled of
        None \<Rightarrow> (Inl None, [f0])
      | Some data \<Rightarrow>
          (case write_file_atomic flt k tmp path (data @ [CHR 0x0A]) 384 f0 of
             (Inl e, fs) \<Rightarrow> (Inl (Some e), fs)
           | (Inr u, fs) \<Rightarrow> (Inr (), fs)))"

text \<open>
  What a caller sees of \<open>WriteJSON\<close>: it wrote the file, it replaced the file and then failed
  (only the last \<open>Chmod\<close> can), or it failed and left the file alone.
\<close>

datatype write_outcome = Written | WrittenWithError | NotWritten

definition write_outcome :: "(write_call option + unit) \<Rightarrow> write_outcome" where
  "write_outcome r =
     (case r of Inr _ \<Rightarrow> Written | Inl e \<Rightarrow> if e = Some WChmodPath then WrittenWithError else NotWritten)"

lemmas write_defs = write_file_atomic_def remove_temp_def Let_def

text \<open>
  C3. Atomicity of \<open>WriteFileAtomic\<close>: whichever system calls fail and wherever the process is
  interrupted, the destination holds its old contents or all of the new contents with the
  requested mode, and no other file than the temporary one changes.
\<close>

theorem write_file_atomic_atomic:
  assumes "write_file_atomic flt k tmp path data mode f0 = (r, fs)"
    and "tmp \<noteq> path" and "f \<in> set fs"
  shows "(f path = f0 path \<or> f path = Some (data, mode)) \<and> (\<forall>q. q \<noteq> path \<and> q \<noteq> tmp \<longrightarrow> f q = f0 q)"
  using assms by (auto simp: write_defs split: if_splits)

theorem write_file_atomic_atomic_witness:
  "(snd (write_file_atomic (\<lambda>c. c = WWrite) 2 ''.t'' ''s.json'' ''new!'' 384
       [''s.json'' \<mapsto> (''old'', 384)]) ! 3) ''.t'' = Some (''ne'', 384)
   \<and> (snd (write_file_atomic (\<lambda>c. c = WWrite) 2 ''.t'' ''s.json'' ''new!'' 384
       [''s.json'' \<mapsto> (''old'', 384)]) ! 3) ''s.json''
     \<in> {Some (''old'', 384), Some (''new!'', 384)}"
  using write_file_atomic_atomic [of "\<lambda>c. c = WWrite" 2 "''.t''" "''s.json''" "''new!''" 384
      "[''s.json'' \<mapsto> (''old'', 384)]" _ _, OF surjective_pairing]
  by (simp add: write_defs)

text \<open>
  The outcome of \<open>WriteFileAtomic\<close>: success means the destination has the new contents
  and mode; an error other than that of the last \<open>Chmod\<close> means it is unchanged; and the
  temporary file is gone in either case, unless its own removal failed.
\<close>

theorem write_file_atomic_result:
  assumes "write_file_atomic flt k tmp path data mode f0 = (r, fs)"
    and "tmp \<noteq> path" and "f0 tmp = None"
  shows "(case r of
      Inr _ \<Rightarrow> last fs path = Some (data, mode)
    | Inl e \<Rightarrow> if e = WChmodPath then last fs path = Some (data, mode)
               else last fs path = f0 path)
    \<and> (flt WRemoveTemp \<or> last fs tmp = None)"
  using assms by (auto simp: write_defs split: if_splits)

theorem write_file_atomic_result_witness:
  "last (snd (write_file_atomic (\<lambda>c. c = WSync) 0 ''.t'' ''s.json'' ''new!'' 384
       [''s.json'' \<mapsto> (''old'', 384)])) ''s.json'' = Some (''old'', 384)"
  using write_file_atomic_result [of "\<lambda>c. c = WSync" 0 "''.t''" "''s.json''" "''new!''" 384
      "[''s.json'' \<mapsto> (''old'', 384)]" _ _, OF surjective_pairing]
  by (simp add: write_defs)

text \<open>The three outcomes say what the file holds afterwards.\<close>

lemma write_json_outcome:
  assumes "write_json flt k tmp path (Some data) f0 = (r, fs)" and "tmp \<noteq> path"
  shows "last fs path = (if write_outcome r = NotWritten then f0 path else Some (data @ [CHR 0x0A], 384))"
  using assms by (auto simp: write_json_def write_outcome_def write_defs split: if_splits)

end
