(* ===== verification/HostFs.thy ===== *)
theory HostFs
  imports GoPath "HOL-Library.Word"
begin

unbundle bit_operations_syntax

text \<open>
  The host file system as the kernel shows it to dck: directories, symbolic links and files
  with inodes, path resolution that follows links as the kernel does, and the system calls the
  repository makes through Go's \<open>os\<close> package. Paths are lists of elements from the root. This
  is the operating system the code runs on, not code of the repository: the extraction and the
  path checks of dck are modelled on top of it.
\<close>

type_synonym path = "string list"
type_synonym mode = "32 word"

datatype fnode = FDir mode | FLink string | FFile nat

datatype os_err = ENOENT | ENOTDIR | ELOOP | EISDIR | EEXIST | ENOTEMPTY | EBUSY | EPERM

text \<open>
  A file's contents and mode are in its inode, so that two names of one file (hard links)
  share them. \<open>os_umask\<close> and \<open>os_cwd\<close> belong to the process.
\<close>

record osfs =
  os_tree :: "(path \<times> fnode) list"
  os_inodes :: "(nat \<times> (mode \<times> string)) list"
  os_next :: nat
  os_umask :: mode
  os_cwd :: "string option"

definition fs_get :: "osfs \<Rightarrow> path \<Rightarrow> fnode option" where
  "fs_get s p = (if p = [] then Some (FDir 493) else map_of (os_tree s) p)"

definition fs_put :: "path \<Rightarrow> fnode \<Rightarrow> osfs \<Rightarrow> osfs" where
  "fs_put p x s = s\<lparr>os_tree := aput p x (os_tree s)\<rparr>"

definition fs_del :: "path \<Rightarrow> osfs \<Rightarrow> osfs" where
  "fs_del p s = s\<lparr>os_tree := adel p (os_tree s)\<rparr>"

definition put_inode :: "nat \<Rightarrow> mode \<times> string \<Rightarrow> osfs \<Rightarrow> osfs" where
  "put_inode i x s = s\<lparr>os_inodes := aput i x (os_inodes s)\<rparr>"

definition inode :: "osfs \<Rightarrow> nat \<Rightarrow> (mode \<times> string) option" where
  "inode s i = map_of (os_inodes s) i"

section \<open>Path resolution\<close>

text \<open>
  \<open>kwalk s follow n cur ws\<close> resolves the pending elements \<open>ws\<close> from the directory \<open>cur\<close>,
  with \<open>n\<close> more symbolic links allowed; \<open>follow\<close> says whether a link in the last place is
  followed. A missing last element resolves to its own place, for the calls that create it.
\<close>

function kwalk :: "osfs \<Rightarrow> bool \<Rightarrow> nat \<Rightarrow> path \<Rightarrow> string list \<Rightarrow> os_err + path" where
  "kwalk s follow n cur [] = Inr cur"
| "kwalk s follow n cur (w # ws) =
     (if w = [] \<or> w = ''.'' then kwalk s follow n cur ws
      else if w = dotdot then kwalk s follow n (butlast cur) ws
      else case fs_get s (cur @ [w]) of
        None \<Rightarrow> if ws = [] then Inr (cur @ [w]) else Inl ENOENT
      | Some (FDir m) \<Rightarrow> kwalk s follow n (cur @ [w]) ws
      | Some (FFile i) \<Rightarrow> if ws = [] then Inr (cur @ [w]) else Inl ENOTDIR
      | Some (FLink t) \<Rightarrow>
          if ws = [] \<and> \<not> follow then Inr (cur @ [w])
          else (case n of
            0 \<Rightarrow> Inl ELOOP
          | Suc n' \<Rightarrow>
              kwalk s follow n' (if is_abs t then [] else cur) (split_byte slash t @ ws)))"
  by pat_completeness auto
termination
  by (relation "measures [\<lambda>(s, follow, n, cur, ws). n, \<lambda>(s, follow, n, cur, ws). length ws]") auto

declare kwalk.simps(2) [simp del]

text \<open>Linux follows at most 40 links in one resolution.\<close>

definition max_links :: nat where
  "max_links = 40"

definition resolve :: "osfs \<Rightarrow> bool \<Rightarrow> path \<Rightarrow> os_err + path" where
  "resolve s follow p = kwalk s follow max_links [] p"

section \<open>System calls\<close>

definition node_at :: "osfs \<Rightarrow> path \<Rightarrow> os_err + fnode" where
  "node_at s q = (case fs_get s q of None \<Rightarrow> Inl ENOENT | Some x \<Rightarrow> Inr x)"

definition os_lstat :: "osfs \<Rightarrow> path \<Rightarrow> os_err + fnode" where
  "os_lstat s p = rbind (resolve s False p) (node_at s)"

definition os_stat :: "osfs \<Rightarrow> path \<Rightarrow> os_err + fnode" where
  "os_stat s p = rbind (resolve s True p) (node_at s)"

text \<open>
  The bits of an \<open>os.FileMode\<close> that \<open>os.Mkdir\<close>, \<open>os.OpenFile\<close> and \<open>os.Chmod\<close> hand to the
  kernel for a value below 8192 (octal 010000): the nine permission bits, since set-uid,
  set-gid and sticky are other bits of a \<open>FileMode\<close>.
\<close>

definition syscall_mode :: "mode \<Rightarrow> mode" where
  "syscall_mode m = m AND 511"

definition os_mkdir :: "osfs \<Rightarrow> path \<Rightarrow> mode \<Rightarrow> (os_err + unit) \<times> osfs" where
  "os_mkdir s p m =
     (case resolve s False p of
        Inl e \<Rightarrow> (Inl e, s)
      | Inr q \<Rightarrow>
          (case fs_get s q of
             Some _ \<Rightarrow> (Inl EEXIST, s)
           | None \<Rightarrow> (Inr (), fs_put q (FDir (syscall_mode m AND NOT (os_umask s))) s)))"

text \<open>
  \<open>os.MkdirAll\<close>: nothing to do for a directory; otherwise the parents first, then the
  directory, and an error of \<open>Mkdir\<close> is forgiven when a directory is there after all.
\<close>

function os_mkdir_all :: "osfs \<Rightarrow> path \<Rightarrow> mode \<Rightarrow> (os_err + unit) \<times> osfs" where
  "os_mkdir_all s p m =
     (case os_stat s p of
        Inr (FDir _) \<Rightarrow> (Inr (), s)
      | Inr _ \<Rightarrow> (Inl ENOTDIR, s)
      | Inl e \<Rightarrow>
          if p = [] then (Inl e, s)
          else (case os_mkdir_all s (butlast p) m of
             (Inl e', s1) \<Rightarrow> (Inl e', s1)
           | (Inr _, s1) \<Rightarrow>
               (case os_mkdir s1 p m of
                  (Inr _, s2) \<Rightarrow> (Inr (), s2)
                | (Inl e', s2) \<Rightarrow>
                    (case os_lstat s2 p of
                       Inr (FDir _) \<Rightarrow> (Inr (), s2)
                     | _ \<Rightarrow> (Inl e', s2)))))"
  by pat_completeness auto
termination
  by (relation "measure (\<lambda>(s, p, m). length p)") auto

declare os_mkdir_all.simps [simp del]

definition set_mode :: "osfs \<Rightarrow> path \<Rightarrow> mode \<Rightarrow> osfs" where
  "set_mode s q m =
     (case fs_get s q of
        Some (FDir _) \<Rightarrow> if q = [] then s else fs_put q (FDir m) s
      | Some (FFile i) \<Rightarrow>
          (case inode s i of None \<Rightarrow> s | Some (_, d) \<Rightarrow> put_inode i (m, d) s)
      | _ \<Rightarrow> s)"

definition os_chmod :: "osfs \<Rightarrow> path \<Rightarrow> mode \<Rightarrow> (os_err + unit) \<times> osfs" where
  "os_chmod s p m =
     (case rbind (resolve s True p) (\<lambda>q. rbind (node_at s q) (\<lambda>_. Inr q)) of
        Inl e \<Rightarrow> (Inl e, s)
      | Inr q \<Rightarrow> (Inr (), set_mode s q (syscall_mode m)))"

text \<open>
  \<open>os.OpenFile\<close> with \<open>O_CREATE|O_TRUNC|O_WRONLY\<close>: the inode the handle writes to. A link in
  the last place is followed, also a dangling one.
\<close>

definition os_create :: "osfs \<Rightarrow> path \<Rightarrow> mode \<Rightarrow> (os_err + nat) \<times> osfs" where
  "os_create s p m =
     (case resolve s True p of
        Inl e \<Rightarrow> (Inl e, s)
      | Inr q \<Rightarrow>
          (case fs_get s q of
             None \<Rightarrow>
               (let i = os_next s in
                (Inr i, (put_inode i (syscall_mode m AND NOT (os_umask s), [])
                   (fs_put q (FFile i) s))\<lparr>os_next := Suc i\<rparr>))
           | Some (FFile i) \<Rightarrow>
               (case inode s i of
                  None \<Rightarrow> (Inr i, s)
                | Some (m', _) \<Rightarrow> (Inr i, put_inode i (m', []) s))
           | Some _ \<Rightarrow> (Inl EISDIR, s)))"

text \<open>Writing to, and \<open>Chmod\<close> of, an open handle.\<close>

definition write_inode :: "nat \<Rightarrow> string \<Rightarrow> osfs \<Rightarrow> osfs" where
  "write_inode i d s = (case inode s i of None \<Rightarrow> s | Some (m, _) \<Rightarrow> put_inode i (m, d) s)"

definition chmod_inode :: "nat \<Rightarrow> mode \<Rightarrow> osfs \<Rightarrow> osfs" where
  "chmod_inode i m s =
     (case inode s i of None \<Rightarrow> s | Some (_, d) \<Rightarrow> put_inode i (syscall_mode m, d) s)"

definition has_children :: "osfs \<Rightarrow> path \<Rightarrow> bool" where
  "has_children s q \<longleftrightarrow> list_ex (\<lambda>(p, _). strict_prefix q p) (os_tree s)"

definition os_remove :: "osfs \<Rightarrow> path \<Rightarrow> (os_err + unit) \<times> osfs" where
  "os_remove s p =
     (case rbind (resolve s False p) (\<lambda>q. rbind (node_at s q) (\<lambda>x. Inr (q, x))) of
        Inl e \<Rightarrow> (Inl e, s)
      | Inr (q, x) \<Rightarrow>
          if q = [] then (Inl EBUSY, s)
          else if has_children s q then (Inl ENOTEMPTY, s)
          else (Inr (), fs_del q s))"

definition os_symlink :: "osfs \<Rightarrow> string \<Rightarrow> path \<Rightarrow> (os_err + unit) \<times> osfs" where
  "os_symlink s target p =
     (case resolve s False p of
        Inl e \<Rightarrow> (Inl e, s)
      | Inr q \<Rightarrow>
          (case fs_get s q of
             Some _ \<Rightarrow> (Inl EEXIST, s)
           | None \<Rightarrow> (Inr (), fs_put q (FLink target) s)))"

definition os_link :: "osfs \<Rightarrow> path \<Rightarrow> path \<Rightarrow> (os_err + unit) \<times> osfs" where
  "os_link s src p =
     (case os_lstat s src of
        Inl e \<Rightarrow> (Inl e, s)
      | Inr (FDir _) \<Rightarrow> (Inl EPERM, s)
      | Inr x \<Rightarrow>
          (case resolve s False p of
             Inl e \<Rightarrow> (Inl e, s)
           | Inr q \<Rightarrow>
               (case fs_get s q of
                  Some _ \<Rightarrow> (Inl EEXIST, s)
                | None \<Rightarrow> (Inr (), fs_put q x s))))"

section \<open>Facts on the tree\<close>

lemma fs_get_Nil [simp]: "fs_get s [] = Some (FDir 493)"
  by (simp add: fs_get_def)

lemma fs_get_put: "q \<noteq> [] \<Longrightarrow> fs_get (fs_put q x s) p = (if p = q then Some x else fs_get s p)"
  by (simp add: fs_get_def fs_put_def)

lemma fs_get_del: "q \<noteq> [] \<Longrightarrow> fs_get (fs_del q s) p = (if p = q then None else fs_get s p)"
  by (simp add: fs_get_def fs_del_def)

lemma fs_get_put_inode [simp]: "fs_get (put_inode i x s) p = fs_get s p"
  by (simp add: fs_get_def put_inode_def)

lemma fs_get_next [simp]: "fs_get (s\<lparr>os_next := n\<rparr>) p = fs_get s p"
  by (simp add: fs_get_def)

lemma inode_put_inode: "inode (put_inode i x s) j = (if j = i then Some x else inode s j)"
  by (simp add: inode_def put_inode_def)

lemma inode_put [simp]: "inode (fs_put p x s) i = inode s i"
  by (simp add: inode_def fs_put_def)

lemma inode_del [simp]: "inode (fs_del p s) i = inode s i"
  by (simp add: inode_def fs_del_def)

lemma inode_next [simp]: "inode (s\<lparr>os_next := n\<rparr>) i = inode s i"
  by (simp add: inode_def)

lemma os_next_put [simp]:
  "os_next (fs_put p x s) = os_next s" "os_next (fs_del p s) = os_next s"
  "os_next (put_inode i y s) = os_next s"
  by (simp_all add: fs_put_def fs_del_def put_inode_def)

definition is_dir :: "osfs \<Rightarrow> path \<Rightarrow> bool" where
  "is_dir s p \<longleftrightarrow> (\<exists>m. fs_get s p = Some (FDir m))"

text \<open>A tree: whatever exists below the root is in a directory.\<close>

definition wf_tree :: "osfs \<Rightarrow> bool" where
  "wf_tree s \<longleftrightarrow> (\<forall>p w. fs_get s (p @ [w]) \<noteq> None \<longrightarrow> is_dir s p)"

lemma is_dir_Nil [simp]: "is_dir s []"
  by (simp add: is_dir_def)

lemma wf_treeD: "wf_tree s \<Longrightarrow> fs_get s (p @ [w]) \<noteq> None \<Longrightarrow> is_dir s p"
  by (auto simp: wf_tree_def)

lemma wf_tree_prefix: "wf_tree s \<Longrightarrow> fs_get s (p @ w # ws) \<noteq> None \<Longrightarrow> is_dir s p"
proof (induction ws arbitrary: w rule: rev_induct)
  case Nil
  then show ?case by (auto dest: wf_treeD)
next
  case (snoc v vs)
  then have "is_dir s (p @ w # vs)" using wf_treeD [of s "p @ w # vs" v] by simp
  then show ?case using snoc by (auto simp: is_dir_def)
qed

lemma is_dir_prefix: "wf_tree s \<Longrightarrow> is_dir s (p @ q) \<Longrightarrow> is_dir s p"
  by (cases q) (auto simp: is_dir_def dest: wf_tree_prefix)

lemma is_dir_butlast: "wf_tree s \<Longrightarrow> is_dir s p \<Longrightarrow> is_dir s (butlast p)"
  by (metis append_butlast_last_id butlast.simps(1) is_dir_prefix)

section \<open>Facts on resolution\<close>

lemma kwalk_dirs:
  "wf_tree s \<Longrightarrow> is_dir s (cur @ ws) \<Longrightarrow> list_all proper ws
    \<Longrightarrow> kwalk s f n cur (ws @ vs) = kwalk s f n (cur @ ws) vs"
proof (induction ws arbitrary: cur)
  case (Cons w ws)
  have "is_dir s (cur @ [w])" using Cons.prems is_dir_prefix [of s "cur @ [w]" ws] by simp
  then obtain m where "fs_get s (cur @ [w]) = Some (FDir m)" by (auto simp: is_dir_def)
  then have "kwalk s f n cur ((w # ws) @ vs) = kwalk s f n (cur @ [w]) (ws @ vs)"
    using Cons.prems by (simp add: kwalk.simps(2) proper_def)
  then show ?case using Cons by simp
qed simp

lemma resolve_below:
  "wf_tree s \<Longrightarrow> is_dir s rs \<Longrightarrow> list_all proper rs
    \<Longrightarrow> resolve s f (rs @ ws) = kwalk s f max_links rs ws"
  using kwalk_dirs [of s "[]" rs f max_links ws] by (simp add: resolve_def)

text \<open>
  \<open>Lstat\<close> of a path whose parents are directories or missing is the entry at that path.
\<close>

lemma lstat_lookup:
  assumes "wf_tree s" and "list_all proper cur" and "proper w"
    and "\<And>p q. cur = p @ q \<Longrightarrow> p \<noteq> [] \<Longrightarrow> fs_get s p = None \<or> is_dir s p"
  shows "os_lstat s (cur @ [w]) = node_at s (cur @ [w])"
proof (cases "is_dir s cur")
  case True
  then have "resolve s False (cur @ [w]) = kwalk s False max_links cur [w]"
    using assms by (simp add: resolve_below)
  also have "\<dots> = Inr (cur @ [w])"
    using assms(3) by (auto simp: kwalk.simps(2) proper_def split: option.splits fnode.splits)
  finally show ?thesis by (simp add: os_lstat_def)
next
  case False
  let ?P = "\<lambda>k. \<not> is_dir s (take k cur)"
  have "\<exists>k. ?P k" using False by (intro exI [of _ "length cur"]) simp
  then obtain k where k: "?P k" "\<forall>j < k. \<not> ?P j"
    using exists_least_iff [of ?P] by blast
  have "k \<noteq> 0" using k(1) by (cases k) auto
  then obtain j where kj: "k = Suc j" by (cases k) auto
  have dj: "is_dir s (take j cur)" using k(2) kj by simp
  have "j < length cur"
  proof (rule ccontr)
    assume "\<not> j < length cur"
    then have "take k cur = take j cur" using kj by simp
    then show False using k(1) dj by simp
  qed
  then have tk: "take k cur = take j cur @ [cur ! j]" by (simp add: kj take_Suc_conv_app_nth)
  have none: "fs_get s (take j cur @ [cur ! j]) = None"
    using assms(4) [OF append_take_drop_id [symmetric], of k] k(1) unfolding tk by simp
  have split: "cur @ [w] = take j cur @ (cur ! j) # drop k cur @ [w]"
    using \<open>j < length cur\<close> kj by (simp add: id_take_nth_drop [symmetric])
  have "proper (cur ! j)" using assms(2) \<open>j < length cur\<close> by (simp add: list_all_length)
  then have "kwalk s False max_links (take j cur) ((cur ! j) # drop k cur @ [w]) = Inl ENOENT"
    using none by (simp add: kwalk.simps(2) proper_def)
  moreover have "list_all proper (take j cur)"
    using assms(2) by (metis append_take_drop_id list_all_append)
  ultimately have "resolve s False (cur @ [w]) = Inl ENOENT"
    using split dj assms(1) by (metis resolve_below)
  moreover have "fs_get s (cur @ [w]) = None"
  proof (rule ccontr)
    assume some: "fs_get s (cur @ [w]) \<noteq> None"
    obtain v vs where "drop k cur @ [w] = v # vs" by (cases "drop k cur @ [w]") auto
    then have "is_dir s (take j cur @ [cur ! j])"
      using wf_tree_prefix [OF assms(1), of "take j cur @ [cur ! j]" v vs] some split by simp
    then show False using none by (simp add: is_dir_def)
  qed
  ultimately show ?thesis by (simp add: os_lstat_def node_at_def)
qed

end
