(* ===== verification/TarExtract.thy ===== *)
theory TarExtract
  imports HostFs
begin

text \<open>
  Image layers (\<open>internal/overlayutil/util.go\<close>): the checks on the names in a layer archive and
  the extraction loop, over the host file system. Reading the gzip and tar formats is the
  library's; an archive is the list of what \<open>tar.Reader.Next\<close> returns.
\<close>

section \<open>Names in an archive\<close>

datatype safe_err =
    EmptyPath | NulByte | AbsolutePath | ParentTraversal | InvalidRoot | PathEscapes
  | TooManySymlinks | StatErr os_err | NoCwd | InvalidTarget | AbsoluteTarget

definition is_sep :: "char \<Rightarrow> bool" where
  "is_sep c \<longleftrightarrow> c = slash \<or> c = CHR 0x5C"

definition safe_tar_path :: "string \<Rightarrow> string \<Rightarrow> safe_err + string" where
  "safe_tar_path root name =
     (if name = [] then Inl EmptyPath
      else if index_byte name (CHR 0x00) \<noteq> None then Inl NulByte
      else if is_abs name \<or> has_prefix name [slash] \<or> has_prefix name [CHR 0x5C]
      then Inl AbsolutePath
      else if list_ex (\<lambda>part. part = dotdot) (fields_func is_sep name) then Inl ParentTraversal
      else
        let clean = path_clean name in
        if clean = ''.'' then Inr root
        else if clean = [slash] then Inl InvalidRoot
        else
          let path = path_join [root, clean] in
          if rel_escapes (path_rel root path) then Inl PathEscapes else Inr path)"

definition split_path_parts :: "string \<Rightarrow> string list" where
  "split_path_parts p = fields_func (\<lambda>c. c = slash) p"

text \<open>
  The loop of \<open>evaluateSafePath\<close>: \<open>cur\<close> starts at the root and every existing symbolic link is
  resolved by replacing it with its target's elements; an absolute target starts again from
  the root of the image, not of the host.
\<close>

function eval_loop ::
  "osfs \<Rightarrow> path \<Rightarrow> nat \<Rightarrow> path \<Rightarrow> string list \<Rightarrow> safe_err + unit" where
  "eval_loop s root links cur [] = Inr ()"
| "eval_loop s root links cur (part # pending) =
     (if part = [] \<or> part = ''.'' then eval_loop s root links cur pending
      else if part = dotdot then
        (if cur = root then Inl PathEscapes else eval_loop s root links (butlast cur) pending)
      else
        case os_lstat s (cur @ [part]) of
          Inl e \<Rightarrow>
            if e = ENOENT then eval_loop s root links (cur @ [part]) pending else Inl (StatErr e)
        | Inr (FLink t) \<Rightarrow>
            if links + 1 > 255 then Inl TooManySymlinks
            else eval_loop s root (links + 1) (if is_abs t then root else cur)
                   (split_path_parts t @ pending)
        | Inr _ \<Rightarrow> eval_loop s root links (cur @ [part]) pending)"
  by pat_completeness auto
termination
  by (relation "measures [\<lambda>(s, root, links, cur, pending). 256 - links,
        \<lambda>(s, root, links, cur, pending). length pending]") auto

declare eval_loop.simps(2) [simp del]

definition evaluate_safe_path :: "osfs \<Rightarrow> string \<Rightarrow> string \<Rightarrow> safe_err + unit" where
  "evaluate_safe_path s root0 path0 =
     (case path_abs (os_cwd s) root0 of
        None \<Rightarrow> Inl NoCwd
      | Some root \<Rightarrow>
          (case path_abs (os_cwd s) path0 of
             None \<Rightarrow> Inl NoCwd
           | Some path \<Rightarrow>
               (let rel = path_rel root path in
                if rel_escapes rel then Inl PathEscapes
                else eval_loop s (elems root) 0 (elems root) (split_path_parts (the rel)))))"

definition ensure_no_symlink_ancestors :: "osfs \<Rightarrow> string \<Rightarrow> string \<Rightarrow> bool \<Rightarrow> safe_err + unit" where
  "ensure_no_symlink_ancestors s root path include_target =
     evaluate_safe_path s root (if include_target then path else path_dir path)"

definition validate_symlink_target :: "osfs \<Rightarrow> string \<Rightarrow> string \<Rightarrow> string \<Rightarrow> safe_err + unit" where
  "validate_symlink_target s root link_path target =
     (if target = [] \<or> index_byte target (CHR 0x00) \<noteq> None then Inl InvalidTarget
      else if has_prefix target [CHR 0x5C] then Inl AbsoluteTarget
      else
        let absolute = has_prefix target [slash] in
        if \<not> absolute \<and> is_abs target then Inl AbsoluteTarget
        else
          let converted = (if absolute then dropWhile (\<lambda>c. c = slash) target else target);
              base = (if absolute then root else path_dir link_path) in
          evaluate_safe_path s root (path_join [base, converted]))"

section \<open>The extraction loop\<close>

datatype tar_type = TypeDir | TypeReg | TypeSymlink | TypeLink | TypeOther

text \<open>
  A header and its data: \<open>th_mode\<close> is \<open>os.FileMode(hdr.Mode)\<close>, \<open>th_data\<close> what copying the entry
  reads and \<open>th_data_ok\<close> whether the copy ended without an error.
\<close>

record tar_hdr =
  th_name :: string
  th_type :: tar_type
  th_mode :: mode
  th_link :: string
  th_data :: string
  th_data_ok :: bool

datatype tar_item = TarEntry tar_hdr | TarReadError

datatype extract_err =
    OpenFailed | GzipFailed | NoWorkingDir | RootFailed os_err | ReadFailed
  | UnsafeName safe_err | UnsafeEntry safe_err | OsFailed os_err | CopyFailed | LinkToSymlink

definition hdr_mode :: "tar_hdr \<Rightarrow> mode" where
  "hdr_mode h = th_mode h AND 4095"

definition lift_os :: "(os_err + 'a) \<times> osfs \<Rightarrow> ('a \<Rightarrow> osfs \<Rightarrow> (extract_err + unit) \<times> osfs)
    \<Rightarrow> (extract_err + unit) \<times> osfs" where
  "lift_os r k = (case r of (Inl e, s) \<Rightarrow> (Inl (OsFailed e), s) | (Inr x, s) \<Rightarrow> k x s)"

definition extract_dir :: "osfs \<Rightarrow> string \<Rightarrow> string \<Rightarrow> tar_hdr \<Rightarrow> (extract_err + unit) \<times> osfs" where
  "extract_dir s root p h =
     (case ensure_no_symlink_ancestors s root p True of
        Inl e \<Rightarrow> (Inl (UnsafeEntry e), s)
      | Inr _ \<Rightarrow>
          lift_os (os_mkdir_all s (elems p) (hdr_mode h)) (\<lambda>_ s1.
          lift_os (os_chmod s1 (elems p) (hdr_mode h)) (\<lambda>_ s2. (Inr (), s2))))"

definition extract_reg :: "osfs \<Rightarrow> string \<Rightarrow> string \<Rightarrow> tar_hdr \<Rightarrow> (extract_err + unit) \<times> osfs" where
  "extract_reg s root p h =
     (case ensure_no_symlink_ancestors s root p True of
        Inl e \<Rightarrow> (Inl (UnsafeEntry e), s)
      | Inr _ \<Rightarrow>
          lift_os (os_mkdir_all s (elems (path_dir p)) 493) (\<lambda>_ s1.
          lift_os (os_create s1 (elems p) (hdr_mode h)) (\<lambda>i s2.
            let s3 = write_inode i (th_data h) s2 in
            if \<not> th_data_ok h then (Inl CopyFailed, s3)
            else (Inr (), chmod_inode i (hdr_mode h) s3))))"

text \<open>\<open>os.Remove\<close> where a missing file is no error.\<close>

definition remove_existing :: "osfs \<Rightarrow> path \<Rightarrow> (os_err + unit) \<times> osfs" where
  "remove_existing s p =
     (case os_remove s p of
        (Inl e, s1) \<Rightarrow> if e = ENOENT then (Inr (), s1) else (Inl e, s1)
      | (Inr u, s1) \<Rightarrow> (Inr (), s1))"

definition extract_symlink :: "osfs \<Rightarrow> string \<Rightarrow> string \<Rightarrow> tar_hdr \<Rightarrow> (extract_err + unit) \<times> osfs" where
  "extract_symlink s root p h =
     (case ensure_no_symlink_ancestors s root p False of
        Inl e \<Rightarrow> (Inl (UnsafeEntry e), s)
      | Inr _ \<Rightarrow>
          (case validate_symlink_target s root p (th_link h) of
             Inl e \<Rightarrow> (Inl (UnsafeEntry e), s)
           | Inr _ \<Rightarrow>
               lift_os (remove_existing s (elems p)) (\<lambda>_ s1.
               lift_os (os_symlink s1 (th_link h) (elems p)) (\<lambda>_ s2. (Inr (), s2)))))"

definition extract_hardlink :: "osfs \<Rightarrow> string \<Rightarrow> string \<Rightarrow> tar_hdr \<Rightarrow> (extract_err + unit) \<times> osfs" where
  "extract_hardlink s root p h =
     (case rbind (ensure_no_symlink_ancestors s root p False) (\<lambda>_.
             rbind (safe_tar_path root (th_link h)) (\<lambda>source.
             rbind (ensure_no_symlink_ancestors s root source True) (\<lambda>_. Inr source))) of
        Inl e \<Rightarrow> (Inl (UnsafeEntry e), s)
      | Inr source \<Rightarrow>
          (case os_lstat s (elems source) of
             Inl e \<Rightarrow> (Inl (OsFailed e), s)
           | Inr (FLink _) \<Rightarrow> (Inl LinkToSymlink, s)
           | Inr _ \<Rightarrow>
               lift_os (remove_existing s (elems p)) (\<lambda>_ s1.
               lift_os (os_link s1 (elems source) (elems p)) (\<lambda>_ s2. (Inr (), s2)))))"

definition extract_entry :: "osfs \<Rightarrow> string \<Rightarrow> tar_hdr \<Rightarrow> (extract_err + unit) \<times> osfs" where
  "extract_entry s root h =
     (case safe_tar_path root (th_name h) of
        Inl e \<Rightarrow> (Inl (UnsafeName e), s)
      | Inr p \<Rightarrow>
          (case th_type h of
             TypeDir \<Rightarrow> extract_dir s root p h
           | TypeReg \<Rightarrow> extract_reg s root p h
           | TypeSymlink \<Rightarrow> extract_symlink s root p h
           | TypeLink \<Rightarrow> extract_hardlink s root p h
           | TypeOther \<Rightarrow> (Inr (), s)))"

fun extract_loop :: "osfs \<Rightarrow> string \<Rightarrow> tar_item list \<Rightarrow> (extract_err + unit) \<times> osfs" where
  "extract_loop s root [] = (Inr (), s)"
| "extract_loop s root (TarReadError # items) = (Inl ReadFailed, s)"
| "extract_loop s root (TarEntry h # items) =
     (case extract_entry s root h of
        (Inl e, s1) \<Rightarrow> (Inl e, s1)
      | (Inr _, s1) \<Rightarrow> extract_loop s1 root items)"

text \<open>
  \<open>ExtractLayer\<close>: \<open>opened\<close> and \<open>gzip_ok\<close> are the outcomes of opening the file and the gzip
  stream, \<open>items\<close> what the tar reader then yields.
\<close>

definition extract_layer ::
  "osfs \<Rightarrow> bool \<Rightarrow> bool \<Rightarrow> tar_item list \<Rightarrow> string \<Rightarrow> (extract_err + unit) \<times> osfs" where
  "extract_layer s opened gzip_ok items rootfs_dir =
     (if \<not> opened then (Inl OpenFailed, s)
      else if \<not> gzip_ok then (Inl GzipFailed, s)
      else case path_abs (os_cwd s) rootfs_dir of
        None \<Rightarrow> (Inl NoWorkingDir, s)
      | Some root \<Rightarrow>
          (case os_mkdir_all s (elems root) 448 of
             (Inl e, s1) \<Rightarrow> (Inl (RootFailed e), s1)
           | (Inr _, s1) \<Rightarrow> extract_loop s1 root items))"

definition short_digest :: "string \<Rightarrow> string" where
  "short_digest d = (if length d > 19 then take 19 d else d)"

section \<open>An absolute link in an archive leads out of the image\<close>

text \<open>A host with \<open>/etc/passwd\<close> and an empty image root \<open>/r\<close>; the archive of the attack.\<close>

definition attack_host :: osfs where
  "attack_host =
     \<lparr>os_tree = [([''etc''], FDir 493), ([''etc'', ''passwd''], FFile 0), ([''r''], FDir 448)],
      os_inodes = [(0, (420, ''root:x:0:0''))], os_next = 1, os_umask = 18, os_cwd = Some ''/''\<rparr>"

definition attack_archive :: "tar_item list" where
  "attack_archive =
     [TarEntry \<lparr>th_name = ''evil'', th_type = TypeSymlink, th_mode = 511, th_link = ''/etc'',
        th_data = [], th_data_ok = True\<rparr>,
      TarEntry \<lparr>th_name = ''evil/passwd'', th_type = TypeReg, th_mode = 420, th_link = [],
        th_data = ''pwned'', th_data_ok = True\<rparr>]"

end
