(* ===== verification/TarSafety.thy ===== *)
theory TarSafety
  imports TarExtract
begin

text \<open>
  What the extraction loop guarantees. The check of \<open>evaluateSafePath\<close> and the kernel resolve
  a path in lock step as long as no link below the image root is absolute; then everything the
  extraction creates, changes or removes lies below the root. With an absolute link in the
  archive it does not, which is a theorem too.
\<close>

section \<open>The check and the kernel in lock step\<close>

definition nonempty :: "string \<Rightarrow> bool" where
  "nonempty w \<longleftrightarrow> w \<noteq> []"

lemma nonempty_simps [simp]: "\<not> nonempty []" "nonempty (c # w)" "nonempty dotdot"
  by (simp_all add: nonempty_def dotdot_def)

lemma proper_nonempty [simp]: "proper w \<Longrightarrow> nonempty w"
  by (simp add: nonempty_def proper_def)

lemma nonempty_append [simp]: "nonempty (v @ w) \<longleftrightarrow> nonempty v \<or> nonempty w"
  by (simp add: nonempty_def)

lemma nonempty_rev [simp]: "nonempty (rev w) \<longleftrightarrow> nonempty w"
  by (simp add: nonempty_def)

lemma fields_split_aux:
  "fields_func_aux (\<lambda>c. c = d) cur s
    = (case split_byte d s of [] \<Rightarrow> [] | w # ws \<Rightarrow> filter nonempty ((rev cur @ w) # ws))"
proof (induction s arbitrary: cur)
  case (Cons c s)
  show ?case
  proof (cases "c = d")
    case True
    then show ?thesis using Cons.IH [of "[]"] by (cases cur) (auto split: list.splits)
  next
    case False
    then show ?thesis using Cons.IH [of "c # cur"] by (auto split: list.splits)
  qed
qed (simp add: nonempty_def)

lemma split_path_parts_eq: "split_path_parts t = filter nonempty (split_byte slash t)"
  by (cases "split_byte slash t") (auto simp: split_path_parts_def fields_func_def fields_split_aux)

text \<open>\<open>grows s t\<close>: \<open>t\<close> has the entries of \<open>s\<close> and possibly more directories.\<close>

definition grows :: "osfs \<Rightarrow> osfs \<Rightarrow> bool" where
  "grows s t \<longleftrightarrow> (\<forall>p. fs_get t p = fs_get s p \<or> (fs_get s p = None \<and> is_dir t p))"

lemma grows_refl [simp]: "grows s s"
  by (simp add: grows_def)

lemma growsD: "grows s t \<Longrightarrow> fs_get t p = fs_get s p \<or> (fs_get s p = None \<and> is_dir t p)"
  by (simp add: grows_def)

text \<open>No link at or below \<open>root\<close> is absolute.\<close>

definition relative_links :: "osfs \<Rightarrow> path \<Rightarrow> bool" where
  "relative_links s root \<longleftrightarrow> (\<forall>p t. prefix root p \<and> fs_get s p = Some (FLink t) \<longrightarrow> \<not> is_abs t)"

lemma lstat_in_grown:
  assumes "wf_tree s" "wf_tree t" "grows s t" "is_dir t cur" "list_all proper cur" "proper w"
  shows "os_lstat s (cur @ [w]) = node_at s (cur @ [w])"
proof (rule lstat_lookup)
  fix p q assume "cur = p @ q" "p \<noteq> []"
  then have "is_dir t p" using is_dir_prefix assms(2,4) by blast
  then show "fs_get s p = None \<or> is_dir s p"
    using growsD [OF assms(3), of p] by (auto simp: is_dir_def)
qed (use assms in auto)

definition tail_ok :: "bool \<Rightarrow> string list \<Rightarrow> bool" where
  "tail_ok follow vs \<longleftrightarrow> vs = [] \<or> (\<exists>w. vs = [w] \<and> proper w \<and> \<not> follow)"

definition below :: "path \<Rightarrow> string list \<Rightarrow> path \<Rightarrow> bool" where
  "below root vs q \<longleftrightarrow> (if vs = [] then prefix root q else strict_prefix root q)"

lemma prefix_butlast: "prefix rs cur \<Longrightarrow> cur \<noteq> rs \<Longrightarrow> prefix rs (butlast cur)"
  by (metis append_butlast_last_id butlast.simps(1) prefix_bot.extremum_uniqueI prefix_snoc)

lemma no_slash_parts: "w \<in> set (split_byte slash t) \<Longrightarrow> slash \<notin> set w"
  by (rule split_byte_no_sep)

text \<open>
  If the check accepts the elements \<open>ws\<close> in \<open>s\<close>, the kernel resolves \<open>ws\<close>, and one more
  element that is not followed, in any grown \<open>t\<close>, to a place below the root.
\<close>

lemma eval_loop_name:
  assumes "proper w" and "os_lstat s (cur @ [w]) = node_at s (cur @ [w])"
  shows "eval_loop s root links cur (w # ws) =
     (case fs_get s (cur @ [w]) of
        Some (FLink t) \<Rightarrow>
          if links + 1 > 255 then Inl TooManySymlinks
          else eval_loop s root (links + 1) (if is_abs t then root else cur)
                 (split_path_parts t @ ws)
      | _ \<Rightarrow> eval_loop s root links (cur @ [w]) ws)"
  using assms
  by (auto simp: eval_loop.simps(2) node_at_def proper_def split: option.splits fnode.splits)

lemma eval_loop_dot: "w = [] \<or> w = ''.'' \<Longrightarrow> eval_loop s root l cur (w # ws) = eval_loop s root l cur ws"
  by (simp add: eval_loop.simps(2))

lemma dotdot_facts [simp]: "dotdot \<noteq> []" "dotdot \<noteq> ''.''" "[] \<noteq> dotdot" "''.'' \<noteq> dotdot"
  by (simp_all add: dotdot_def)

lemma eval_loop_dotdot:
  "eval_loop s root l cur (dotdot # ws)
    = (if cur = root then Inl PathEscapes else eval_loop s root l (butlast cur) ws)"
  by (simp add: eval_loop.simps(2))

lemma kwalk_last:
  assumes "tail_ok follow vs" and "prefix root cur" and "kwalk t follow n cur vs = Inr q"
  shows "below root vs q"
proof (cases "vs = []")
  case True
  then show ?thesis using assms by (simp add: below_def)
next
  case False
  then obtain w where "vs = [w]" "proper w" "\<not> follow" using assms(1) by (auto simp: tail_ok_def)
  then have "q = cur @ [w]"
    using assms(3) by (auto simp: kwalk.simps(2) proper_def split: option.splits fnode.splits)
  then show ?thesis using assms(2) False by (auto simp: below_def prefix_def strict_prefix_def)
qed

lemma proper_butlast: "list_all proper cur \<Longrightarrow> list_all proper (butlast cur)"
  by (auto simp: list_all_iff dest: in_set_butlastD)

lemma walk_confined:
  assumes "wf_tree s" "wf_tree t" "grows s t" "relative_links t root" "tail_ok follow vs"
  shows "eval_loop s root links cur (filter nonempty ws) = Inr () \<Longrightarrow> prefix root cur
    \<Longrightarrow> is_dir t cur \<Longrightarrow> list_all proper cur \<Longrightarrow> \<forall>w \<in> set ws. slash \<notin> set w
    \<Longrightarrow> kwalk t follow n cur (ws @ vs) = Inr q \<Longrightarrow> below root vs q"
proof (induction n arbitrary: links cur ws rule: less_induct)
  case (less n)
  note outer = less.IH
  from less.prems show ?case
  proof (induction ws arbitrary: cur)
    case Nil
    then show ?case using kwalk_last [OF assms(5)] by simp
  next
    case (Cons w ws)
    consider "w = []" | "w = ''.''" | "w = dotdot" | "proper w"
      using Cons.prems(5) by (auto simp: proper_def)
    then show ?case
    proof cases
      case 1
      then show ?thesis using Cons by (simp add: kwalk.simps(2))
    next
      case 2
      then show ?thesis using Cons by (simp add: kwalk.simps(2) eval_loop_dot)
    next
      case 3
      then have ne: "cur \<noteq> root"
        and ev: "eval_loop s root links (butlast cur) (filter nonempty ws) = Inr ()"
        using Cons.prems(1) by (auto simp: eval_loop_dotdot split: if_splits)
      have "kwalk t follow n (butlast cur) (ws @ vs) = Inr q"
        using Cons.prems(6) 3 by (simp add: kwalk.simps(2))
      then show ?thesis
        using Cons.IH [OF ev prefix_butlast [OF Cons.prems(2) ne]
            is_dir_butlast [OF assms(2) Cons.prems(3)]] Cons.prems(4,5)
        by (simp add: proper_butlast)
    next
      case 4
      have ls: "os_lstat s (cur @ [w]) = node_at s (cur @ [w])"
        by (rule lstat_in_grown [OF assms(1-3) Cons.prems(3,4) 4])
      have ev: "eval_loop s root links cur (w # filter nonempty ws) = Inr ()"
        using Cons.prems(1) 4 by simp
      have wk: "kwalk t follow n cur (w # ws @ vs) = Inr q" using Cons.prems(6) by simp
      have nm: "w \<noteq> []" "w \<noteq> ''.''" "w \<noteq> dotdot" using 4 by (auto simp: proper_def)
      show ?thesis
      proof (cases "fs_get t (cur @ [w])")
        case None
        then have "ws @ vs = []" "q = cur @ [w]"
          using wk nm by (auto simp: kwalk.simps(2) split: if_splits)
        then show ?thesis using Cons.prems(2) by (auto simp: below_def prefix_def)
      next
        case (Some x)
        show ?thesis
        proof (cases x)
          case (FDir m)
          then have "fs_get s (cur @ [w]) = None \<or> fs_get s (cur @ [w]) = Some (FDir m)"
            using growsD [OF assms(3), of "cur @ [w]"] Some by auto
          then have "eval_loop s root links (cur @ [w]) (filter nonempty ws) = Inr ()"
            using ev unfolding eval_loop_name [OF 4 ls] by auto
          moreover have "kwalk t follow n (cur @ [w]) (ws @ vs) = Inr q"
            using wk nm Some FDir by (simp add: kwalk.simps(2))
          moreover have "is_dir t (cur @ [w])" using Some FDir by (simp add: is_dir_def)
          ultimately show ?thesis using Cons.IH [of "cur @ [w]"] Cons.prems 4 by simp
        next
          case (FFile i)
          then have "ws @ vs = []" "q = cur @ [w]"
            using wk nm Some by (auto simp: kwalk.simps(2) split: if_splits)
          then show ?thesis using Cons.prems(2) by (auto simp: below_def prefix_def)
        next
          case (FLink l)
          have sl: "fs_get s (cur @ [w]) = Some (FLink l)"
            using growsD [OF assms(3), of "cur @ [w]"] Some FLink by (auto simp: is_dir_def)
          have rel: "\<not> is_abs l"
            using assms(4) prefix_prefix [OF Cons.prems(2), of "[w]"] Some FLink
            unfolding relative_links_def by blast
          have ev': "eval_loop s root (links + 1) cur (filter nonempty (split_byte slash l @ ws)) = Inr ()"
            using ev rel unfolding eval_loop_name [OF 4 ls] sl
            by (auto simp: split_path_parts_eq split: if_splits)
          show ?thesis
          proof (cases "ws @ vs = [] \<and> \<not> follow")
            case True
            then have "q = cur @ [w]" using wk nm Some FLink by (simp add: kwalk.simps(2))
            then show ?thesis using True Cons.prems(2) by (auto simp: below_def prefix_def)
          next
            case False
            then obtain n' where "n = Suc n'"
              and "kwalk t follow n' cur ((split_byte slash l @ ws) @ vs) = Inr q"
              using wk nm Some FLink rel by (auto simp: kwalk.simps(2) split: nat.splits if_splits)
            then show ?thesis
              using outer [of n' "links + 1" cur "split_byte slash l @ ws"] ev' Cons.prems
              by (auto dest: no_slash_parts)
          qed
        qed
      qed
    qed
  qed
qed

lemma kwalk_parent:
  "wf_tree s \<Longrightarrow> is_dir s cur \<Longrightarrow> kwalk s f n cur ws = Inr q \<Longrightarrow> is_dir s (butlast q)"
proof (induction s f n cur ws arbitrary: q rule: kwalk.induct)
  case (1 s f n cur)
  then show ?case by (auto intro: is_dir_butlast)
next
  case (2 s f n cur w ws)
  show ?case
  proof (cases "w = [] \<or> w = ''.'' \<or> w = dotdot")
    case True
    then show ?thesis
      using "2.IH"(1,2) "2.prems" is_dir_butlast [of s cur] by (auto simp: kwalk.simps(2) split: if_splits)
  next
    case False
    show ?thesis
    proof (cases "fs_get s (cur @ [w])")
      case None
      then show ?thesis using "2.prems" False by (auto simp: kwalk.simps(2) split: if_splits)
    next
      case (Some x)
      then show ?thesis
        using "2.IH"(3,4) "2.prems" False
        by (cases x) (auto simp: kwalk.simps(2) is_dir_def split: if_splits nat.splits)
    qed
  qed
qed

section \<open>The invariant of the extraction\<close>

text \<open>
  The image root is a directory of a tree, its links are relative, and no file below it shares
  its inode with a name outside (an image root never does: it is filled by extractions only).
\<close>

definition private_inodes :: "osfs \<Rightarrow> path \<Rightarrow> bool" where
  "private_inodes s rs \<longleftrightarrow>
     (\<forall>p q i. fs_get s p = Some (FFile i) \<and> fs_get s q = Some (FFile i) \<and> prefix rs p \<longrightarrow> prefix rs q)
     \<and> (\<forall>p i. fs_get s p = Some (FFile i) \<longrightarrow> i < os_next s)"

definition image_inv :: "path \<Rightarrow> osfs \<Rightarrow> bool" where
  "image_inv rs s \<longleftrightarrow> wf_tree s \<and> is_dir s rs \<and> relative_links s rs \<and> private_inodes s rs"

text \<open>Outside the root, \<open>t\<close> has the names of \<open>s\<close> with the contents of \<open>s\<close>.\<close>

definition confined :: "path \<Rightarrow> osfs \<Rightarrow> osfs \<Rightarrow> bool" where
  "confined rs s t \<longleftrightarrow> os_cwd t = os_cwd s \<and>
     (\<forall>p. \<not> prefix rs p \<longrightarrow> fs_get t p = fs_get s p
        \<and> (\<forall>i. fs_get s p = Some (FFile i) \<longrightarrow> inode t i = inode s i))"

definition step_ok :: "path \<Rightarrow> osfs \<Rightarrow> osfs \<Rightarrow> bool" where
  "step_ok rs s t \<longleftrightarrow> image_inv rs t \<and> confined rs s t"

lemma step_ok_refl: "image_inv rs s \<Longrightarrow> step_ok rs s s"
  by (simp add: step_ok_def confined_def)

lemma step_ok_trans: "step_ok rs s t \<Longrightarrow> step_ok rs t u \<Longrightarrow> step_ok rs s u"
  by (auto simp: step_ok_def confined_def)

lemma step_ok_inv: "step_ok rs s t \<Longrightarrow> image_inv rs t"
  by (simp add: step_ok_def)

lemma cwd_simps [simp]:
  "os_cwd (fs_put q x s) = os_cwd s" "os_cwd (fs_del q s) = os_cwd s"
  "os_cwd (put_inode i y s) = os_cwd s" "os_cwd (s\<lparr>os_next := n\<rparr>) = os_cwd s"
  by (simp_all add: fs_put_def fs_del_def put_inode_def)

text \<open>Creating an entry at a free place below the root.\<close>

lemma put_new_inv:
  assumes "image_inv rs s" "prefix rs q" "fs_get s q = None" "is_dir s (butlast q)"
    and "\<And>t. x = FLink t \<Longrightarrow> \<not> is_abs t"
    and "\<And>i. x = FFile i \<Longrightarrow> i < os_next s \<and> (\<forall>p. fs_get s p = Some (FFile i) \<longrightarrow> prefix rs p)"
  shows "image_inv rs (fs_put q x s)"
proof -
  have q: "q \<noteq> []" using assms(3) by auto
  have "wf_tree (fs_put q x s)"
    unfolding wf_tree_def
  proof (intro allI impI)
    fix p w assume "fs_get (fs_put q x s) (p @ [w]) \<noteq> None"
    then have "is_dir s p"
      using assms(1,4) q by (auto simp: fs_get_put image_inv_def dest: wf_treeD split: if_splits)
    then show "is_dir (fs_put q x s) p" using assms(3) q by (auto simp: is_dir_def fs_get_put)
  qed
  moreover have "is_dir (fs_put q x s) rs"
    using assms(1,3) q by (auto simp: image_inv_def is_dir_def fs_get_put)
  moreover have "relative_links (fs_put q x s) rs"
    using assms(1,5) q by (auto simp: image_inv_def relative_links_def fs_get_put)
  moreover have "private_inodes (fs_put q x s) rs"
    using assms(1,2,6) q unfolding image_inv_def private_inodes_def
    by (auto simp: fs_get_put split: if_splits)
  ultimately show ?thesis by (simp add: image_inv_def)
qed

lemma put_new_ok:
  assumes "image_inv rs s" "prefix rs q" "fs_get s q = None" "is_dir s (butlast q)"
    and "\<And>t. x = FLink t \<Longrightarrow> \<not> is_abs t"
    and "\<And>i. x = FFile i \<Longrightarrow> i < os_next s \<and> (\<forall>p. fs_get s p = Some (FFile i) \<longrightarrow> prefix rs p)"
  shows "step_ok rs s (fs_put q x s)"
proof -
  have "q \<noteq> []" using assms(3) by auto
  then have "confined rs s (fs_put q x s)"
    using assms(2) by (auto simp: confined_def fs_get_put)
  then show ?thesis using put_new_inv [OF assms] by (simp add: step_ok_def)
qed

text \<open>Changing the inode of a name below the root.\<close>

lemma put_inode_ok:
  assumes "image_inv rs s" "prefix rs q" "fs_get s q = Some (FFile i)"
  shows "step_ok rs s (put_inode i x s)"
proof -
  have "image_inv rs (put_inode i x s)"
    using assms(1)
    by (simp add: image_inv_def wf_tree_def is_dir_def relative_links_def private_inodes_def)
  moreover have "confined rs s (put_inode i x s)"
    using assms unfolding confined_def image_inv_def private_inodes_def
    by (auto simp: inode_put_inode)
  ultimately show ?thesis by (simp add: step_ok_def)
qed

lemma write_inode_ok:
  assumes "image_inv rs s" "prefix rs q" "fs_get s q = Some (FFile i)"
  shows "step_ok rs s (write_inode i d s)" "step_ok rs s (chmod_inode i m s)"
  using assms put_inode_ok [OF assms] step_ok_refl [OF assms(1)]
  by (auto simp: write_inode_def chmod_inode_def split: option.splits)

text \<open>Removing an entry strictly below the root.\<close>

lemma no_children:
  assumes "\<not> has_children s q" "strict_prefix q p"
  shows "fs_get s p = None"
proof -
  have "p \<noteq> []" using assms(2) by auto
  moreover have "(p, x) \<notin> set (os_tree s)" for x
    using assms by (auto simp: has_children_def list_ex_iff)
  ultimately show ?thesis by (auto simp: fs_get_def map_of_eq_None_iff)
qed

lemma del_ok:
  assumes "image_inv rs s" "strict_prefix rs q" "\<not> has_children s q"
  shows "step_ok rs s (fs_del q s)"
proof -
  have q: "q \<noteq> []" using assms(2) by auto
  have "wf_tree (fs_del q s)"
    unfolding wf_tree_def
  proof (intro allI impI)
    fix p w assume a: "fs_get (fs_del q s) (p @ [w]) \<noteq> None"
    then have "p \<noteq> q"
      using no_children [OF assms(3), of "p @ [w]"] q
      by (auto simp: fs_get_del strict_prefix_def prefix_def split: if_splits)
    moreover have "is_dir s p"
      using a assms(1) q by (auto simp: fs_get_del image_inv_def dest: wf_treeD split: if_splits)
    ultimately show "is_dir (fs_del q s) p" using q by (simp add: is_dir_def fs_get_del)
  qed
  moreover have "is_dir (fs_del q s) rs"
    using assms(1,2) q by (auto simp: image_inv_def is_dir_def fs_get_del)
  moreover have "relative_links (fs_del q s) rs"
    using assms(1) q by (auto simp: image_inv_def relative_links_def fs_get_del split: if_splits)
  moreover have "private_inodes (fs_del q s) rs"
    using assms(1) q unfolding image_inv_def private_inodes_def
    by (auto simp: fs_get_del split: if_splits)
  moreover have "confined rs s (fs_del q s)"
    using assms(2) q by (auto simp: confined_def fs_get_del strict_prefix_def)
  ultimately show ?thesis by (simp add: step_ok_def image_inv_def)
qed

end
