(* ===== verification/TarConfined.thy ===== *)
theory TarConfined
  imports TarSafety
begin

text \<open>
  The extraction of a whole archive stays below the image root when its symbolic links are
  relative, operation by operation; and the archive with an absolute link that does not.
\<close>

section \<open>The paths of an entry\<close>

lemma last_index_byte_append:
  assumes "c \<notin> set w"
  shows "last_index_byte (x @ c # w) c = Some (length x)"
proof -
  have "find_index (\<lambda>y. y = c) (rev w @ c # rev x) = Some (length (rev w))"
    using index_byte_append [of c "rev w" "rev x"] assms by (simp add: index_byte_def)
  then show ?thesis by (simp add: last_index_byte_def)
qed

lemma str_join_snoc: "ws \<noteq> [] \<Longrightarrow> str_join sep (ws @ [w]) = str_join sep ws @ sep @ w"
  by (induction sep ws rule: str_join.induct) auto

lemma path_dir_abs_of:
  assumes "list_all proper ps" and "proper w"
  shows "path_dir (abs_of (ps @ [w])) = abs_of ps"
proof -
  let ?x = "if ps = [] then [] else abs_of ps"
  have sl: "slash \<notin> set w" using assms(2) by (simp add: proper_def)
  have "abs_of (ps @ [w]) = ?x @ slash # w"
    by (simp add: abs_of_def unparse_def str_join_snoc)
  then have "path_dir (abs_of (ps @ [w])) = path_clean (?x @ [slash])"
    using last_index_byte_append [OF sl, of ?x] by (simp add: path_dir_def)
  also have "is_abs (?x @ [slash])" by (simp add: is_abs_append) (simp add: is_abs_def has_prefix_def)
  then have "path_clean (?x @ [slash]) = abs_of (clean_elems True (elems (?x @ [slash])))"
    by (rule path_clean_abs)
  also have "elems (?x @ [slash]) = ps"
    using assms(1) elems_append_slash [of ?x "[]"] by simp
  finally show ?thesis using assms(1) by simp
qed

lemma safe_tar_path_below:
  assumes "safe_tar_path (abs_of rs) name = Inr p" and "list_all proper rs"
  shows "\<exists>ws. list_all proper ws \<and> p = abs_of (rs @ ws)"
proof (cases "path_clean name = ''.''")
  case True
  then show ?thesis using assms(1) by (intro exI [of _ "[]"]) (auto simp: safe_tar_path_def split: if_splits)
next
  case False
  let ?j = "path_join [abs_of rs, path_clean name]"
  have p: "p = ?j" "\<not> rel_escapes (path_rel (abs_of rs) ?j)"
    using assms(1) False by (auto simp: safe_tar_path_def Let_def split: if_splits)
  let ?es = "rev (foldl (clean_step True) (rev rs) (elems (path_clean name)))"
  have j: "?j = abs_of ?es" by (rule path_join_abs_of [OF assms(2)])
  have es: "list_all proper ?es"
    using foldl_clean_rooted [of "elems (path_clean name)" "rev rs"] assms(2)
    by (auto simp: list_all_rev dest: elems_proper)
  then have "prefix rs ?es" using p(2) rel_escapes_iff [OF assms(2) es] j by simp
  then obtain ws where "?es = rs @ ws" by (auto simp: prefix_def)
  then show ?thesis using p(1) j es by (metis list_all_append)
qed

text \<open>
  A name that passes \<open>safeTarPath\<close> denotes the root itself or a path below it, made of
  proper elements only: no absolute name, no parent element and no NUL byte gets through.
\<close>

theorem safe_tar_path_sound:
  assumes "safe_tar_path (abs_of rs) name = Inr p" and "list_all proper rs"
  shows "(\<exists>ws. list_all proper ws \<and> p = abs_of (rs @ ws)) \<and> name \<noteq> [] \<and> \<not> is_abs name
    \<and> CHR 0x00 \<notin> set name \<and> dotdot \<notin> set (fields_func is_sep name)"
proof -
  have "name \<noteq> [] \<and> \<not> is_abs name \<and> CHR 0x00 \<notin> set name \<and> dotdot \<notin> set (fields_func is_sep name)"
    using assms(1) index_byte_None [of name "CHR 0x00"]
    by (auto simp: safe_tar_path_def list_ex_iff split: if_splits)
  then show ?thesis using safe_tar_path_below [OF assms] by simp
qed

theorem safe_tar_path_sound_witness:
  "\<exists>ws. list_all proper ws \<and> abs_of [''r'', ''a'', ''b''] = abs_of ([''r''] @ ws)"
proof -
  have "safe_tar_path (abs_of [''r'']) ''./a//b'' = Inr (abs_of [''r'', ''a'', ''b''])"
    by code_simp
  moreover have "list_all proper [''r'']" by code_simp
  ultimately show ?thesis using safe_tar_path_sound by blast
qed

lemma evaluate_abs_of:
  assumes "evaluate_safe_path s (abs_of rs) (abs_of ps) = Inr ()"
    and "list_all proper rs" "list_all proper ps"
  shows "\<exists>ws. ps = rs @ ws \<and> eval_loop s rs 0 rs ws = Inr ()"
proof -
  let ?rel = "path_rel (abs_of rs) (abs_of ps)"
  have ne: "\<not> rel_escapes ?rel" and ev: "eval_loop s rs 0 rs (split_path_parts (the ?rel)) = Inr ()"
    using assms by (auto simp: evaluate_safe_path_def path_abs_def Let_def split: if_splits)
  then obtain ws where ps: "ps = rs @ ws" using rel_escapes_iff assms(2,3) by (auto simp: prefix_def)
  have pw: "list_all proper ws" using assms(3) ps by simp
  show ?thesis
  proof (cases "ws = []")
    case True
    then show ?thesis using ps by simp
  next
    case False
    then have "abs_of rs \<noteq> abs_of ps" using abs_of_inj assms(2,3) ps by fastforce
    then have "the ?rel = str_join [slash] ws"
      using assms(2,3) ps by (simp add: path_rel_def strip_common_prefix)
    moreover have "split_byte slash (str_join [slash] ws) = ws"
      using pw False by (intro split_join) (auto simp: list_all_iff proper_def)
    moreover have "filter nonempty ws = ws"
      using pw by (auto simp: list_all_iff intro: filter_True)
    ultimately have "split_path_parts (the ?rel) = ws" by (simp add: split_path_parts_eq)
    then show ?thesis using ps ev by auto
  qed
qed

lemma eval_loop_prefix: "eval_loop s root l cur (xs @ ys) = Inr () \<Longrightarrow> eval_loop s root l cur xs = Inr ()"
proof (induction s root l cur xs rule: eval_loop.induct)
  case (2 s root links cur part pending)
  show ?case
  proof (cases "part = [] \<or> part = ''.'' \<or> part = dotdot")
    case True
    then show ?thesis
      using "2.IH"(1,2) "2.prems" by (auto simp: eval_loop.simps(2) split: if_splits)
  next
    case False
    show ?thesis
    proof (cases "os_lstat s (cur @ [part])")
      case (Inl e)
      then show ?thesis
        using "2.IH"(3) "2.prems" False by (auto simp: eval_loop.simps(2) split: if_splits)
    next
      case (Inr x)
      then show ?thesis
        using "2.IH"(4-6) "2.prems" False
        by (cases x) (auto simp: eval_loop.simps(2) split: if_splits)
    qed
  qed
qed simp

text \<open>The kernel's resolution of a path the check accepted.\<close>

lemma resolve_checked:
  assumes "image_inv rs s" "image_inv rs t" "grows s t" "list_all proper rs" "list_all proper ws"
    and "eval_loop s rs 0 rs ws = Inr ()" "tail_ok follow vs"
    and "resolve t follow (rs @ ws @ vs) = Inr q"
  shows "below rs vs q \<and> is_dir t (butlast q)"
proof -
  have wk: "kwalk t follow max_links rs (ws @ vs) = Inr q"
    using assms(2,4,8) by (simp add: image_inv_def resolve_below)
  have "filter nonempty ws = ws" using assms(5) by (auto simp: list_all_iff intro: filter_True)
  then have "below rs vs q"
    using walk_confined [of s t rs follow vs 0 rs ws max_links q] assms wk
    by (auto simp: image_inv_def list_all_iff proper_def)
  moreover have "is_dir t (butlast q)"
    using kwalk_parent wk assms(2) by (auto simp: image_inv_def)
  ultimately show ?thesis by simp
qed

lemma below_prefix: "below rs vs q \<Longrightarrow> prefix rs q"
  by (auto simp: below_def strict_prefix_def split: if_splits)

lemmas checked_prefix = resolve_checked [THEN conjunct1, THEN below_prefix]
lemmas checked_parent = resolve_checked [THEN conjunct2]

section \<open>The system calls on checked paths\<close>

lemma tail_ok_Nil [simp]: "tail_ok f []"
  by (simp add: tail_ok_def)

lemma tail_ok_single [simp]: "proper w \<Longrightarrow> tail_ok False [w]"
  by (simp add: tail_ok_def)

lemma put_dir_ok:
  assumes "image_inv rs s" "prefix rs q" "is_dir s q" "q \<noteq> []"
  shows "step_ok rs s (fs_put q (FDir m) s)"
proof -
  have "wf_tree (fs_put q (FDir m) s)"
    unfolding wf_tree_def
  proof (intro allI impI)
    fix p w assume "fs_get (fs_put q (FDir m) s) (p @ [w]) \<noteq> None"
    then have "fs_get s (p @ [w]) \<noteq> None"
      using assms(3,4) by (auto simp: fs_get_put is_dir_def split: if_splits)
    then have "is_dir s p" using assms(1) by (auto simp: image_inv_def dest: wf_treeD)
    then show "is_dir (fs_put q (FDir m) s) p" using assms(4) by (auto simp: is_dir_def fs_get_put)
  qed
  moreover have "is_dir (fs_put q (FDir m) s) rs"
    using assms(1,4) by (auto simp: image_inv_def is_dir_def fs_get_put)
  moreover have "relative_links (fs_put q (FDir m) s) rs"
    using assms(1,4) by (auto simp: image_inv_def relative_links_def fs_get_put)
  moreover have "private_inodes (fs_put q (FDir m) s) rs"
    using assms(1,4) unfolding image_inv_def private_inodes_def
    by (auto simp: fs_get_put split: if_splits)
  moreover have "confined rs s (fs_put q (FDir m) s)"
    using assms(2,4) by (auto simp: confined_def fs_get_put)
  ultimately show ?thesis by (simp add: step_ok_def image_inv_def)
qed

lemma mkdir_ok:
  assumes "image_inv rs s0" "image_inv rs s" "grows s0 s" "list_all proper rs" "list_all proper ws"
    and "eval_loop s0 rs 0 rs ws = Inr ()" "os_mkdir s (rs @ ws) m = (r, t)"
  shows "step_ok rs s t \<and> grows s0 t"
proof (cases "resolve s False (rs @ ws)")
  case (Inl e)
  then show ?thesis using assms by (simp add: os_mkdir_def step_ok_refl)
next
  case (Inr q)
  note rc = resolve_checked [OF assms(1,2,3,4,5,6) tail_ok_Nil, of False q]
  have q: "prefix rs q" "is_dir s (butlast q)" using rc Inr by (auto simp: below_def)
  show ?thesis
  proof (cases "fs_get s q")
    case (Some x)
    then show ?thesis using assms Inr by (simp add: os_mkdir_def step_ok_refl)
  next
    case None
    let ?x = "FDir (syscall_mode m AND NOT (os_umask s))"
    have t: "t = fs_put q ?x s" using assms(7) Inr None by (simp add: os_mkdir_def)
    have "step_ok rs s t" unfolding t by (rule put_new_ok [OF assms(2) q(1) None q(2)]) simp_all
    moreover have "q \<noteq> []" using None by auto
    then have "grows s0 t"
      using assms(3) growsD [OF assms(3), of q] None unfolding t grows_def
      by (auto simp: fs_get_put is_dir_def)
    ultimately show ?thesis by simp
  qed
qed

lemma mkdir_all_ok:
  assumes "image_inv rs s0" "list_all proper rs" "image_inv rs s" "grows s0 s"
  shows "list_all proper ws \<Longrightarrow> eval_loop s0 rs 0 rs ws = Inr ()
    \<Longrightarrow> os_mkdir_all s (rs @ ws) m = (r, t) \<Longrightarrow> step_ok rs s t \<and> grows s0 t"
proof (induction ws arbitrary: r t rule: rev_induct)
  case Nil
  have "resolve s True rs = Inr rs"
    using assms(2,3) resolve_below [of s rs True "[]"] by (simp add: image_inv_def)
  then have "\<exists>m. os_stat s rs = Inr (FDir m)"
    using assms(3) by (auto simp: os_stat_def image_inv_def is_dir_def node_at_def)
  then have "t = s" using Nil(3) by (auto simp: os_mkdir_all.simps [of s rs])
  then show ?case using assms by (simp add: step_ok_refl)
next
  case (snoc w ws)
  have pws: "list_all proper ws" using snoc.prems(1) by simp
  have ev: "eval_loop s0 rs 0 rs ws = Inr ()" using eval_loop_prefix snoc.prems(2) by blast
  have bl: "butlast (rs @ ws @ [w]) = rs @ ws" by (metis append_assoc butlast_snoc)
  show ?case
  proof (cases "os_stat s (rs @ ws @ [w])")
    case (Inr x)
    then have "t = s"
      using snoc.prems(3) by (auto simp: os_mkdir_all.simps [of s "rs @ ws @ [w]"] split: fnode.splits)
    then show ?thesis using assms by (simp add: step_ok_refl)
  next
    case (Inl e)
    obtain r1 s1 where r1: "os_mkdir_all s (rs @ ws) m = (r1, s1)" by fastforce
    have s1: "step_ok rs s s1 \<and> grows s0 s1" by (rule snoc.IH [OF pws ev r1])
    show ?thesis
    proof (cases r1)
      case (Inl e')
      then have "t = s1"
        using snoc.prems(3) \<open>os_stat s (rs @ ws @ [w]) = Inl e\<close> r1 bl
        by (simp add: os_mkdir_all.simps [of s "rs @ ws @ [w]"])
      then show ?thesis using s1 by simp
    next
      case (Inr u)
      obtain r2 s2 where r2: "os_mkdir s1 (rs @ ws @ [w]) m = (r2, s2)" by fastforce
      have "t = s2"
        using snoc.prems(3) \<open>os_stat s (rs @ ws @ [w]) = Inl e\<close> r1 r2 Inr bl
        by (auto simp: os_mkdir_all.simps [of s "rs @ ws @ [w]"]
            split: sum.splits fnode.splits)
      moreover have "step_ok rs s1 s2 \<and> grows s0 s2"
        using mkdir_ok [OF assms(1) step_ok_inv _ assms(2) snoc.prems(1,2) r2] s1 by blast
      ultimately show ?thesis using s1 step_ok_trans by blast
    qed
  qed
qed

lemma chmod_ok:
  assumes "image_inv rs s0" "image_inv rs s" "grows s0 s" "list_all proper rs" "list_all proper ws"
    and "eval_loop s0 rs 0 rs ws = Inr ()" "os_chmod s (rs @ ws) m = (r, t)"
  shows "step_ok rs s t"
proof (cases "resolve s True (rs @ ws)")
  case (Inl e)
  then show ?thesis using assms by (simp add: os_chmod_def step_ok_refl)
next
  case (Inr q)
  have q: "prefix rs q"
    using resolve_checked [OF assms(1,2,3,4,5,6) tail_ok_Nil, of True q] Inr by (simp add: below_def)
  have "t = s \<or> t = set_mode s q (syscall_mode m)"
    using assms(7) Inr by (cases "fs_get s q") (auto simp: os_chmod_def node_at_def)
  moreover have "step_ok rs s (set_mode s q (syscall_mode m))"
    using assms(2) q put_dir_ok [OF assms(2) q] put_inode_ok [OF assms(2) q] step_ok_refl [OF assms(2)]
    by (auto simp: set_mode_def is_dir_def split: option.splits fnode.splits)
  ultimately show ?thesis using step_ok_refl [OF assms(2)] by auto
qed

lemma next_ok:
  assumes "image_inv rs s"
  shows "step_ok rs s (s\<lparr>os_next := Suc (os_next s)\<rparr>)"
  using assms unfolding step_ok_def confined_def image_inv_def private_inodes_def
  by (auto simp: wf_tree_def is_dir_def relative_links_def less_Suc_eq)

lemma put_next_commute:
  "(put_inode i y (fs_put q x s))\<lparr>os_next := n\<rparr> = put_inode i y (fs_put q x (s\<lparr>os_next := n\<rparr>))"
  by (simp add: put_inode_def fs_put_def)

lemma create_ok:
  assumes "image_inv rs s0" "image_inv rs s" "grows s0 s" "list_all proper rs" "list_all proper ws"
    and "eval_loop s0 rs 0 rs ws = Inr ()" "os_create s (rs @ ws) m = (r, t)"
  shows "step_ok rs s t \<and> (\<forall>i. r = Inr i \<longrightarrow> (\<exists>q. prefix rs q \<and> fs_get t q = Some (FFile i)))"
proof (cases "resolve s True (rs @ ws)")
  case (Inl e)
  then show ?thesis using assms by (auto simp: os_create_def step_ok_refl)
next
  case (Inr q)
  have q: "prefix rs q" "is_dir s (butlast q)"
    using resolve_checked [OF assms(1,2,3,4,5,6) tail_ok_Nil, of True q] Inr by (auto simp: below_def)
  show ?thesis
  proof (cases "fs_get s q")
    case None
    let ?i = "os_next s" and ?s = "s\<lparr>os_next := Suc (os_next s)\<rparr>"
    let ?u = "fs_put q (FFile ?i) ?s"
    have qn: "q \<noteq> []" using None by auto
    have t: "r = Inr ?i" "t = put_inode ?i (syscall_mode m AND NOT (os_umask s), []) ?u"
      using assms(7) Inr None by (auto simp: os_create_def Let_def put_next_commute)
    have fresh: "fs_get s p \<noteq> Some (FFile ?i)" for p
      using assms(2) by (auto simp: image_inv_def private_inodes_def)
    have s1: "step_ok rs s ?s" by (rule next_ok [OF assms(2)])
    have u: "step_ok rs ?s ?u"
      by (rule put_new_ok [OF step_ok_inv [OF s1] q(1)]) (use None q(2) fresh in \<open>auto simp: is_dir_def\<close>)
    have gu: "fs_get ?u q = Some (FFile ?i)" using qn by (simp add: fs_get_put)
    have "step_ok rs ?u t" unfolding t(2) by (rule put_inode_ok [OF step_ok_inv [OF u] q(1) gu])
    moreover have "fs_get t q = Some (FFile ?i)" using gu unfolding t(2) by simp
    ultimately show ?thesis using s1 u t(1) q(1) step_ok_trans by blast
  next
    case (Some x)
    then show ?thesis
      using assms(7) Inr put_inode_ok [OF assms(2) q(1)] step_ok_refl [OF assms(2)] q(1)
      by (cases x) (auto simp: os_create_def split: option.splits)
  qed
qed

lemma remove_ok:
  assumes "image_inv rs s" "list_all proper rs" "list_all proper ws" "proper w"
    and "eval_loop s rs 0 rs ws = Inr ()" "os_remove s (rs @ ws @ [w]) = (r, t)"
  shows "step_ok rs s t \<and> (t = s \<or> (\<exists>q. q \<noteq> [] \<and> t = fs_del q s))"
proof (cases "resolve s False (rs @ ws @ [w])")
  case (Inl e)
  then show ?thesis using assms by (simp add: os_remove_def step_ok_refl)
next
  case (Inr q)
  have "strict_prefix rs q"
    using resolve_checked [OF assms(1,1) grows_refl assms(2,3,5) tail_ok_single [OF assms(4)] Inr]
    by (simp add: below_def)
  then have "\<not> has_children s q \<Longrightarrow> step_ok rs s (fs_del q s)" using del_ok [OF assms(1)] by simp
  moreover have "t = s \<or> (\<not> has_children s q \<and> q \<noteq> [] \<and> t = fs_del q s)"
    using assms(6) Inr by (auto simp: os_remove_def node_at_def split: option.splits if_splits)
  ultimately show ?thesis using step_ok_refl [OF assms(1)] by auto
qed

text \<open>
  After a removal the kernel resolves a path without following its last element to the same
  place as before, or not at all.
\<close>

lemma kwalk_del:
  assumes "q0 \<noteq> []"
  shows "f = False \<Longrightarrow> kwalk (fs_del q0 s) f n cur ws = Inr q \<Longrightarrow> kwalk s f n cur ws = Inr q"
proof (induction s f n cur ws arbitrary: q rule: kwalk.induct)
  case (2 s f n cur w ws)
  show ?case
  proof (cases "w = [] \<or> w = ''.'' \<or> w = dotdot")
    case True
    then show ?thesis using "2.IH"(1,2) "2.prems" by (auto simp: kwalk.simps(2) split: if_splits)
  next
    case False
    show ?thesis
    proof (cases "fs_get s (cur @ [w])")
      case None
      then show ?thesis using "2.prems" False assms by (auto simp: kwalk.simps(2) fs_get_del split: if_splits)
    next
      case (Some x)
      show ?thesis
      proof (cases "cur @ [w] = q0")
        case True
        then have "ws = []" "q = cur @ [w]"
          using "2.prems" False assms by (auto simp: kwalk.simps(2) fs_get_del split: if_splits)
        then show ?thesis using Some False "2.prems"(1) by (cases x) (auto simp: kwalk.simps(2))
      next
        case ne: False
        then have g: "fs_get (fs_del q0 s) (cur @ [w]) = Some x"
          using Some assms by (simp add: fs_get_del)
        show ?thesis
        proof (cases "ws = []")
          case True
          then show ?thesis
            using "2.IH"(3) "2.prems" False Some g by (cases x) (auto simp: kwalk.simps(2))
        next
          case wsn: False
          show ?thesis
            using "2.IH"(3,4) "2.prems" False Some g wsn
            by (cases x) (auto simp: kwalk.simps(2) split: nat.splits simp del: if_cancel split del: if_split)
        qed
      qed
    qed
  qed
qed simp

lemma resolve_del:
  assumes "t = s \<or> (\<exists>q. q \<noteq> [] \<and> t = fs_del q s)" and "resolve t False p = Inr q"
  shows "resolve s False p = Inr q"
  using assms kwalk_del unfolding resolve_def by blast

text \<open>What was removed before the new entry is made.\<close>

lemma remove_existing_ok:
  assumes "image_inv rs s" "list_all proper rs" "list_all proper ws" "proper w"
    and "eval_loop s rs 0 rs ws = Inr ()" "remove_existing s (rs @ ws @ [w]) = (r, t)"
  shows "step_ok rs s t \<and> (t = s \<or> (\<exists>q. q \<noteq> [] \<and> t = fs_del q s))"
proof -
  obtain r' where "os_remove s (rs @ ws @ [w]) = (r', t)"
    using assms(6) by (auto simp: remove_existing_def split: prod.splits sum.splits if_splits)
  then show ?thesis using remove_ok [OF assms(1-5)] by blast
qed

lemma new_place:
  assumes "image_inv rs s" "image_inv rs t" "list_all proper rs" "list_all proper ws" "proper w"
    and "eval_loop s rs 0 rs ws = Inr ()" "t = s \<or> (\<exists>q. q \<noteq> [] \<and> t = fs_del q s)"
    and "resolve t False (rs @ ws @ [w]) = Inr q"
  shows "prefix rs q \<and> is_dir t (butlast q)"
proof -
  have "resolve s False (rs @ ws @ [w]) = Inr q" by (rule resolve_del [OF assms(7,8)])
  then have "prefix rs q"
    using resolve_checked [OF assms(1,1) grows_refl assms(3,4,6) tail_ok_single [OF assms(5)]]
      below_prefix by blast
  moreover have "is_dir t (butlast q)"
    using assms(2,8) kwalk_parent [of t "[]"] unfolding resolve_def image_inv_def by auto
  ultimately show ?thesis by simp
qed

lemma symlink_ok:
  assumes "image_inv rs s" "image_inv rs t" "list_all proper rs" "list_all proper ws" "proper w"
    and "eval_loop s rs 0 rs ws = Inr ()" "t = s \<or> (\<exists>q. q \<noteq> [] \<and> t = fs_del q s)"
    and "os_symlink t target (rs @ ws @ [w]) = (r, u)" "\<not> is_abs target"
  shows "step_ok rs t u"
proof (cases "resolve t False (rs @ ws @ [w])")
  case (Inl e)
  then show ?thesis using assms by (simp add: os_symlink_def step_ok_refl)
next
  case (Inr q)
  have q: "prefix rs q" "is_dir t (butlast q)" using new_place [OF assms(1-7) Inr] by auto
  show ?thesis
  proof (cases "fs_get t q")
    case None
    then have "u = fs_put q (FLink target) t" using assms(8) Inr by (simp add: os_symlink_def)
    moreover have "step_ok rs t (fs_put q (FLink target) t)"
      by (rule put_new_ok [OF assms(2) q(1) None q(2)]) (use assms(9) in simp_all)
    ultimately show ?thesis by simp
  next
    case (Some x)
    then show ?thesis using assms Inr by (simp add: os_symlink_def step_ok_refl)
  qed
qed

lemma link_ok:
  assumes "image_inv rs s" "image_inv rs t" "list_all proper rs" "list_all proper ws" "proper w"
    and "eval_loop s rs 0 rs ws = Inr ()" "t = s \<or> (\<exists>q. q \<noteq> [] \<and> t = fs_del q s)"
    and "list_all proper vs" "eval_loop s rs 0 rs vs = Inr ()"
    and "os_link t (rs @ vs) (rs @ ws @ [w]) = (r, u)"
  shows "step_ok rs t u"
proof (cases "u = t")
  case True
  then show ?thesis using assms(2) by (simp add: step_ok_refl)
next
  case False
  then obtain x q where x: "os_lstat t (rs @ vs) = Inr x" "\<not> (\<exists>m. x = FDir m)"
    and q: "resolve t False (rs @ ws @ [w]) = Inr q" "fs_get t q = None" "u = fs_put q x t"
    using assms(10)
    by (auto simp: os_link_def split: sum.splits fnode.splits option.splits)
  obtain q1 where q1: "resolve t False (rs @ vs) = Inr q1" "fs_get t q1 = Some x"
    using x(1) by (auto simp: os_lstat_def node_at_def res_simps split: option.splits)
  have "resolve s False (rs @ vs) = Inr q1" by (rule resolve_del [OF assms(7) q1(1)])
  then have p1: "prefix rs q1"
    using resolve_checked [OF assms(1,1) grows_refl assms(3,8,9) tail_ok_Nil, of False q1]
    by (simp add: below_def)
  have p: "prefix rs q" "is_dir t (butlast q)" using new_place [OF assms(1-7) q(1)] by auto
  show ?thesis unfolding q(3)
  proof (rule put_new_ok [OF assms(2) p(1) q(2) p(2)])
    fix l assume "x = FLink l"
    then show "\<not> is_abs l"
      using q1(2) p1 assms(2) unfolding image_inv_def relative_links_def by blast
  next
    fix i assume i: "x = FFile i"
    then show "i < os_next t \<and> (\<forall>p. fs_get t p = Some (FFile i) \<longrightarrow> prefix rs p)"
      using q1(2) p1 assms(2) unfolding image_inv_def private_inodes_def by blast
  qed
qed

section \<open>Entries and archives\<close>

lemma mkdir_all_existing:
  assumes "wf_tree s" "is_dir s ps" "list_all proper ps"
  shows "os_mkdir_all s ps m = (Inr (), s)"
proof -
  have "resolve s True ps = Inr ps"
    using assms resolve_below [of s ps True "[]"] by simp
  then obtain m' where "os_stat s ps = Inr (FDir m')"
    using assms(2) by (auto simp: os_stat_def is_dir_def node_at_def)
  then show ?thesis by (simp add: os_mkdir_all.simps [of s ps])
qed

lemma lift_os_snd:
  assumes "r = (r0, s1)" and "\<And>x. r0 = Inr x \<Longrightarrow> step_ok rs s1 (snd (k x s1))" and "step_ok rs s s1"
  shows "step_ok rs s (snd (lift_os r k))"
  using assms step_ok_trans by (cases r0) (auto simp: lift_os_def)

lemma parent_elems:
  assumes "list_all proper rs" "list_all proper us" "proper w"
  shows "elems (path_dir (abs_of (rs @ us @ [w]))) = rs @ us"
  using path_dir_abs_of [of "rs @ us" w] assms by simp

lemma extract_dir_ok:
  assumes "image_inv rs s" "list_all proper rs" "list_all proper ws"
  shows "step_ok rs s (snd (extract_dir s (abs_of rs) (abs_of (rs @ ws)) h))"
proof (cases "ensure_no_symlink_ancestors s (abs_of rs) (abs_of (rs @ ws)) True")
  case (Inl e)
  then show ?thesis using assms(1) by (simp add: extract_dir_def step_ok_refl)
next
  case (Inr u)
  then have ev: "eval_loop s rs 0 rs ws = Inr ()"
    using evaluate_abs_of [of s rs "rs @ ws"] assms by (simp add: ensure_no_symlink_ancestors_def)
  obtain r1 s1 where m: "os_mkdir_all s (rs @ ws) (hdr_mode h) = (r1, s1)" by fastforce
  have s1: "step_ok rs s s1" "grows s s1"
    using mkdir_all_ok [OF assms(1,2,1) grows_refl assms(3) ev m] by auto
  obtain r2 s2 where c: "os_chmod s1 (rs @ ws) (hdr_mode h) = (r2, s2)" by fastforce
  have s2: "step_ok rs s1 s2"
    by (rule chmod_ok [OF assms(1) step_ok_inv [OF s1(1)] s1(2) assms(2,3) ev c])
  have "step_ok rs s s2" using step_ok_trans s1(1) s2 by blast
  then show ?thesis
    using Inr m c s1(1) assms(2,3)
    by (auto simp: extract_dir_def lift_os_def split: sum.splits)
qed

lemma write_tree [simp]:
  "fs_get (write_inode i d s) p = fs_get s p" "fs_get (chmod_inode i m s) p = fs_get s p"
  by (auto simp: write_inode_def chmod_inode_def split: option.splits)

lemma step_lift:
  "step_ok rs s (snd r) \<Longrightarrow> (\<And>x. fst r = Inr x \<Longrightarrow> step_ok rs (snd r) (snd (k x (snd r))))
    \<Longrightarrow> step_ok rs s (snd (lift_os r k))"
  by (cases r; cases "fst r") (auto simp: lift_os_def intro: step_ok_trans)

lemma extract_reg_ok:
  assumes "image_inv rs s" "list_all proper rs" "list_all proper ws" "rs \<noteq> []"
  shows "step_ok rs s (snd (extract_reg s (abs_of rs) (abs_of (rs @ ws)) h))"
proof (cases "ensure_no_symlink_ancestors s (abs_of rs) (abs_of (rs @ ws)) True")
  case (Inl e)
  then show ?thesis using assms(1) by (simp add: extract_reg_def step_ok_refl)
next
  case (Inr u)
  then have ev: "eval_loop s rs 0 rs ws = Inr ()"
    using evaluate_abs_of [of s rs "rs @ ws"] assms by (simp add: ensure_no_symlink_ancestors_def)
  let ?d = "elems (path_dir (abs_of (rs @ ws)))"
  obtain r1 s1 where m: "os_mkdir_all s ?d 493 = (r1, s1)" by fastforce
  have s1: "step_ok rs s s1 \<and> grows s s1"
  proof (cases ws rule: rev_cases)
    case Nil
    obtain r x where rs: "rs = r @ [x]" using assms(4) by (cases rs rule: rev_cases) auto
    then have d: "?d = r" using path_dir_abs_of [of r x] assms(2) Nil by simp
    have "is_dir s r" using assms(1) is_dir_prefix rs unfolding image_inv_def by blast
    then have "s1 = s"
      using m d rs assms(1,2) mkdir_all_existing [of s r 493] by (simp add: image_inv_def)
    then show ?thesis using assms(1) by (simp add: step_ok_refl)
  next
    case (snoc us w)
    then have d: "?d = rs @ us" using parent_elems assms(2,3) by simp
    have "eval_loop s rs 0 rs us = Inr ()" using eval_loop_prefix ev snoc by blast
    then show ?thesis
      using mkdir_all_ok [OF assms(1,2,1) grows_refl, of us] m d assms(3) snoc by auto
  qed
  obtain r2 s2 where c: "os_create s1 (rs @ ws) (hdr_mode h) = (r2, s2)" by fastforce
  have s2: "step_ok rs s1 s2 \<and> (\<forall>i. r2 = Inr i \<longrightarrow> (\<exists>q. prefix rs q \<and> fs_get s2 q = Some (FFile i)))"
    by (rule create_ok [OF assms(1) step_ok_inv _ assms(2,3) ev c]) (use s1 in auto)
  have fin: "step_ok rs s2 (write_inode i d s2)
      \<and> step_ok rs s2 (chmod_inode i md (write_inode i d s2))" if "r2 = Inr i" for i d md
  proof -
    obtain q where q: "prefix rs q" "fs_get s2 q = Some (FFile i)" using s2 \<open>r2 = Inr i\<close> by auto
    have w: "step_ok rs s2 (write_inode i d s2)"
      using write_inode_ok(1) [OF step_ok_inv q] s2 by blast
    moreover have "step_ok rs (write_inode i d s2) (chmod_inode i md (write_inode i d s2))"
      using write_inode_ok(2) [OF step_ok_inv [OF w] q(1)] q(2) by simp
    ultimately show ?thesis using step_ok_trans by blast
  qed
  have "step_ok rs s s1" "step_ok rs s s2" using step_ok_trans s1 s2 by blast+
  moreover from this have "step_ok rs s (write_inode i d s2) \<and> step_ok rs s (chmod_inode i md (write_inode i d s2))" if "r2 = Inr i" for i d md
    using step_ok_trans fin [OF that] by blast
  ultimately show ?thesis
    using Inr m c assms(2,3)
    by (auto simp: extract_reg_def lift_os_def Let_def split: sum.splits)
qed

lemma checked_parent_path:
  assumes "ensure_no_symlink_ancestors s (abs_of rs) (abs_of (rs @ ws)) False = Inr u"
    and "list_all proper rs" "list_all proper ws" "rs \<noteq> []"
  shows "\<exists>us w. ws = us @ [w] \<and> eval_loop s rs 0 rs us = Inr ()"
proof (cases ws rule: rev_cases)
  case Nil
  obtain r x where rs: "rs = r @ [x]" using assms(4) by (cases rs rule: rev_cases) auto
  then have "evaluate_safe_path s (abs_of rs) (abs_of r) = Inr ()"
    using assms Nil path_dir_abs_of [of r x] by (simp add: ensure_no_symlink_ancestors_def)
  then show ?thesis using evaluate_abs_of [of s rs r] assms(2) rs by auto
next
  case (snoc us w)
  then have "evaluate_safe_path s (abs_of rs) (abs_of (rs @ us)) = Inr ()"
    using assms path_dir_abs_of [of "rs @ us" w] by (simp add: ensure_no_symlink_ancestors_def)
  then show ?thesis using evaluate_abs_of [of s rs "rs @ us"] assms snoc by auto
qed

lemma extract_symlink_ok:
  assumes "image_inv rs s" "list_all proper rs" "list_all proper ws" "rs \<noteq> []" "\<not> is_abs (th_link h)"
  shows "step_ok rs s (snd (extract_symlink s (abs_of rs) (abs_of (rs @ ws)) h))"
proof (cases "ensure_no_symlink_ancestors s (abs_of rs) (abs_of (rs @ ws)) False")
  case (Inl e)
  then show ?thesis using assms(1) by (simp add: extract_symlink_def step_ok_refl)
next
  case (Inr u)
  then obtain us w where ws: "ws = us @ [w]" and ev: "eval_loop s rs 0 rs us = Inr ()"
    using checked_parent_path assms(2,3,4) by blast
  have pr: "list_all proper us" "proper w" using assms(3) ws by auto
  obtain r1 s1 where m: "remove_existing s (rs @ us @ [w]) = (r1, s1)" by fastforce
  have s1: "step_ok rs s s1" "s1 = s \<or> (\<exists>q. q \<noteq> [] \<and> s1 = fs_del q s)"
    using remove_existing_ok [OF assms(1,2) pr ev m] by auto
  obtain r2 s2 where c: "os_symlink s1 (th_link h) (rs @ us @ [w]) = (r2, s2)" by fastforce
  have s2: "step_ok rs s1 s2"
    by (rule symlink_ok [OF assms(1) step_ok_inv [OF s1(1)] assms(2) pr ev s1(2) c assms(5)])
  have el: "elems (abs_of (rs @ ws)) = rs @ us @ [w]" using assms(2,3) ws by simp
  have "step_ok rs s (snd (lift_os (remove_existing s (rs @ us @ [w]))
      (\<lambda>_ s1. lift_os (os_symlink s1 (th_link h) (rs @ us @ [w])) (\<lambda>_ s2. (Inr (), s2)))))"
    by (intro step_lift) (simp_all add: m c s1(1) s2 step_ok_refl [OF step_ok_inv [OF s2]])
  then show ?thesis
    using Inr el step_ok_refl [OF assms(1)]
    by (cases "validate_symlink_target s (abs_of rs) (abs_of (rs @ ws)) (th_link h)")
      (simp_all add: extract_symlink_def)
qed

lemma extract_hardlink_ok:
  assumes "image_inv rs s" "list_all proper rs" "list_all proper ws" "rs \<noteq> []"
  shows "step_ok rs s (snd (extract_hardlink s (abs_of rs) (abs_of (rs @ ws)) h))"
proof (cases "rbind (ensure_no_symlink_ancestors s (abs_of rs) (abs_of (rs @ ws)) False) (\<lambda>_.
             rbind (safe_tar_path (abs_of rs) (th_link h)) (\<lambda>source.
             rbind (ensure_no_symlink_ancestors s (abs_of rs) source True) (\<lambda>_. Inr source)))")
  case (Inl e)
  then show ?thesis using assms(1) by (simp add: extract_hardlink_def step_ok_refl)
next
  case (Inr source)
  then have en: "ensure_no_symlink_ancestors s (abs_of rs) (abs_of (rs @ ws)) False = Inr ()"
    and so: "safe_tar_path (abs_of rs) (th_link h) = Inr source"
    and es: "evaluate_safe_path s (abs_of rs) source = Inr ()"
    by (auto simp: res_simps ensure_no_symlink_ancestors_def)
  obtain us w where ws: "ws = us @ [w]" and ev: "eval_loop s rs 0 rs us = Inr ()"
    using checked_parent_path [OF en assms(2-4)] by blast
  have pr: "list_all proper us" "proper w" using assms(3) ws by auto
  obtain vs where vs: "list_all proper vs" "source = abs_of (rs @ vs)"
    using safe_tar_path_below [OF so assms(2)] by blast
  have evs: "eval_loop s rs 0 rs vs = Inr ()"
    using evaluate_abs_of [of s rs "rs @ vs"] es vs assms(2) by simp
  obtain r1 s1 where m: "remove_existing s (rs @ us @ [w]) = (r1, s1)" by fastforce
  have s1: "step_ok rs s s1" "s1 = s \<or> (\<exists>q. q \<noteq> [] \<and> s1 = fs_del q s)"
    using remove_existing_ok [OF assms(1,2) pr ev m] by auto
  obtain r2 s2 where c: "os_link s1 (rs @ vs) (rs @ us @ [w]) = (r2, s2)" by fastforce
  have s2: "step_ok rs s1 s2"
    by (rule link_ok [OF assms(1) step_ok_inv [OF s1(1)] assms(2) pr ev s1(2) vs(1) evs c])
  have el: "elems (abs_of (rs @ ws)) = rs @ us @ [w]" "elems source = rs @ vs"
    using assms(2,3) ws vs by simp_all
  have "step_ok rs s (snd (lift_os (remove_existing s (rs @ us @ [w]))
      (\<lambda>_ s1. lift_os (os_link s1 (rs @ vs) (rs @ us @ [w])) (\<lambda>_ s2. (Inr (), s2)))))"
    by (intro step_lift) (simp_all add: m c s1(1) s2 step_ok_refl [OF step_ok_inv [OF s2]])
  then show ?thesis
    using Inr el step_ok_refl [OF assms(1)]
    by (auto simp: extract_hardlink_def split: sum.split fnode.split)
qed

text \<open>An archive whose symbolic links are all relative.\<close>

fun relative_item :: "tar_item \<Rightarrow> bool" where
  "relative_item TarReadError = True"
| "relative_item (TarEntry h) = (th_type h = TypeSymlink \<longrightarrow> \<not> is_abs (th_link h))"

text \<open>An archive that places a file through a relative link.\<close>

definition relative_archive :: "tar_item list" where
  "relative_archive =
     [TarEntry \<lparr>th_name = ''etc'', th_type = TypeDir, th_mode = 493, th_link = [],
        th_data = [], th_data_ok = True\<rparr>,
      TarEntry \<lparr>th_name = ''sub'', th_type = TypeDir, th_mode = 493, th_link = [],
        th_data = [], th_data_ok = True\<rparr>,
      TarEntry \<lparr>th_name = ''sub/up'', th_type = TypeSymlink, th_mode = 511, th_link = ''../etc'',
        th_data = [], th_data_ok = True\<rparr>,
      TarEntry \<lparr>th_name = ''sub/up/passwd'', th_type = TypeReg, th_mode = 420, th_link = [],
        th_data = ''x'', th_data_ok = True\<rparr>]"

lemma attack_host_get:
  "fs_get attack_host p =
     (if p = [] then Some (FDir 493) else if p = [''etc''] then Some (FDir 493)
      else if p = [''etc'', ''passwd''] then Some (FFile 0)
      else if p = [''r''] then Some (FDir 448) else None)"
  by (simp add: attack_host_def fs_get_def)

lemma attack_host_next: "os_next attack_host = 1"
  by (simp add: attack_host_def)

lemma attack_host_inv: "image_inv [''r''] attack_host"
proof -
  have "wf_tree attack_host"
    by (auto simp: wf_tree_def attack_host_get is_dir_def append_eq_Cons_conv split: if_splits)
  moreover have "is_dir attack_host [''r'']" by (simp add: is_dir_def attack_host_get)
  moreover have "relative_links attack_host [''r'']"
    by (auto simp: relative_links_def attack_host_get split: if_splits)
  moreover have "private_inodes attack_host [''r'']"
    using attack_host_next by (auto simp: private_inodes_def attack_host_get split: if_splits)
  ultimately show ?thesis by (simp add: image_inv_def)
qed

lemma extract_entry_ok:
  assumes "image_inv rs s" "list_all proper rs" "rs \<noteq> []" "relative_item (TarEntry h)"
  shows "step_ok rs s (snd (extract_entry s (abs_of rs) h))"
proof (cases "safe_tar_path (abs_of rs) (th_name h)")
  case (Inl e)
  then show ?thesis using assms(1) by (simp add: extract_entry_def step_ok_refl)
next
  case (Inr p)
  obtain ws where ws: "list_all proper ws" "p = abs_of (rs @ ws)"
    using safe_tar_path_below [OF Inr assms(2)] by blast
  note ops = extract_dir_ok [OF assms(1,2) ws(1)] extract_reg_ok [OF assms(1,2) ws(1) assms(3)]
    extract_symlink_ok [OF assms(1,2) ws(1) assms(3)] extract_hardlink_ok [OF assms(1,2) ws(1) assms(3)]
  show ?thesis
    using Inr ws(2) ops assms(4) step_ok_refl [OF assms(1)]
    by (auto simp: extract_entry_def split: tar_type.split)
qed

lemma extract_loop_ok:
  "image_inv rs s \<Longrightarrow> list_all proper rs \<Longrightarrow> rs \<noteq> [] \<Longrightarrow> list_all relative_item items
    \<Longrightarrow> step_ok rs s (snd (extract_loop s (abs_of rs) items))"
proof (induction items arbitrary: s)
  case Nil
  then show ?case by (simp add: step_ok_refl)
next
  case (Cons x items)
  show ?case
  proof (cases x)
    case (TarEntry h)
    obtain r s1 where e: "extract_entry s (abs_of rs) h = (r, s1)" by fastforce
    have s1: "step_ok rs s s1"
      using extract_entry_ok [OF Cons.prems(1-3), of h] Cons.prems(4) e TarEntry by simp
    then have "step_ok rs s1 (snd (extract_loop s1 (abs_of rs) items))"
      using Cons.IH Cons.prems step_ok_inv by auto
    then show ?thesis using e s1 TarEntry step_ok_trans by (cases r) auto
  next
    case TarReadError
    then show ?thesis using Cons.prems(1) by (simp add: step_ok_refl)
  qed
qed

text \<open>
  C1. Extracting a layer never touches the host outside the image root, whether it succeeds or
  stops at any error, when the archive's symbolic links are relative: every name outside keeps
  its entry and its file contents, and the image root keeps the invariant the next layer needs.
\<close>

theorem extract_layer_confined:
  assumes "image_inv rs s" and "list_all proper rs" and "rs \<noteq> []" and "list_all relative_item items"
  shows "confined rs s (snd (extract_layer s opened gzip_ok items (abs_of rs)))
    \<and> image_inv rs (snd (extract_layer s opened gzip_ok items (abs_of rs)))"
proof -
  have "os_mkdir_all s rs 448 = (Inr (), s)"
    using assms(1,2) mkdir_all_existing by (simp add: image_inv_def)
  then have "snd (extract_layer s opened gzip_ok items (abs_of rs))
      \<in> {s, snd (extract_loop s (abs_of rs) items)}"
    using assms(2) by (simp add: extract_layer_def path_abs_def)
  then show ?thesis
    using extract_loop_ok [OF assms] step_ok_refl [OF assms(1)] by (auto simp: step_ok_def)
qed

theorem extract_layer_confined_witness:
  "fst (extract_layer attack_host True True relative_archive ''/r'') = Inr ()
    \<and> confined [''r''] attack_host (snd (extract_layer attack_host True True relative_archive ''/r''))"
proof -
  have "abs_of [''r''] = ''/r''" by code_simp
  moreover have "list_all relative_item relative_archive" by code_simp
  moreover have "list_all proper [[CHR ''r'']]" by code_simp
  ultimately have "confined [''r''] attack_host (snd (extract_layer attack_host True True relative_archive ''/r''))"
    using extract_layer_confined [of "[''r'']" attack_host relative_archive True True] attack_host_inv by simp
  moreover have "fst (extract_layer attack_host True True relative_archive ''/r'') = Inr ()" by code_simp
  ultimately show ?thesis by blast
qed

end
