(* ===== verification/Yaml.thy ===== *)
theory Yaml
  imports GoStrings "HOL-Library.List_Lexorder" "HOL-Library.Char_ord"
begin

text \<open>
  The values a YAML document is decoded to where the code asks for \<open>interface{}\<close>, and how
  \<open>fmt.Sprintf\<close> prints them with \<open>%v\<close>. A mapping whose keys are all strings is a \<open>YMap\<close>, any
  other mapping a \<open>YAnyMap\<close>; both list their entries in the order in which a \<open>range\<close> visits them.
  A floating point number is its shortest decimal, the digits and the power of ten they are
  multiplied with; dates, infinities and \<open>NaN\<close> are left out.
\<close>

datatype yaml =
    YNull | YBool bool | YInt int | YFloat int int | YString string
  | YList "yaml list" | YMap "(string \<times> yaml) list" | YAnyMap "(yaml \<times> yaml) list"

section \<open>Numbers\<close>

text \<open>
  The format \<open>%v\<close>: \<open>%e\<close> with at least two digits of exponent when the exponent is below -4 or
  above 5, and \<open>%f\<close> otherwise, with as many digits as are needed.
\<close>

definition two_digits :: "nat \<Rightarrow> string" where
  "two_digits n = (if n < 10 then CHR ''0'' # nat_str n else nat_str n)"

definition exp_str :: "int \<Rightarrow> string" where
  "exp_str x = (if x < 0 then ''e-'' else ''e+'') @ two_digits (nat \<bar>x\<bar>)"

definition point :: "string \<Rightarrow> string \<Rightarrow> string" where
  "point ds fs = (if fs = [] then ds else ds @ ''.'' @ fs)"

definition decimal_str :: "string \<Rightarrow> int \<Rightarrow> string" where
  "decimal_str ds e =
     (let x = int (length ds) - 1 + e in
      if x < - 4 \<or> 6 \<le> x then point [hd ds] (tl ds) @ exp_str x
      else if 0 \<le> e then ds @ replicate (nat e) (CHR ''0'')
      else if 0 \<le> x then point (take (nat (x + 1)) ds) (drop (nat (x + 1)) ds)
      else point ''0'' (replicate (nat (- x - 1)) (CHR ''0'') @ ds))"

definition float_str :: "int \<Rightarrow> int \<Rightarrow> string" where
  "float_str m e = (if m < 0 then ''-'' else []) @ decimal_str (nat_str (nat \<bar>m\<bar>)) e"

text \<open>\<open>uint32\<close> of a floating point number: the integer part, modulo \<open>2\<^sup>3\<^sup>2\<close>.\<close>

definition float_uint32 :: "int \<Rightarrow> int \<Rightarrow> nat" where
  "float_uint32 m e =
     nat ((if 0 \<le> e then m * 10 ^ nat e else sgn m * (\<bar>m\<bar> div 10 ^ nat (- e))) mod 2 ^ 32)"

section \<open>Printing a value\<close>

definition spaced :: "string list \<Rightarrow> string" where
  "spaced ws = str_join '' '' ws"

text \<open>
  A map is printed with its keys sorted. Keys of different kinds are sorted by kind first, which
  is not modelled: the entries of a \<open>YAnyMap\<close> are printed in the order of their printed keys.
\<close>

fun yaml_str :: "yaml \<Rightarrow> string" where
  "yaml_str YNull = ''<nil>''"
| "yaml_str (YBool b) = (if b then ''true'' else ''false'')"
| "yaml_str (YInt i) = int_str i"
| "yaml_str (YFloat m e) = float_str m e"
| "yaml_str (YString s) = s"
| "yaml_str (YList vs) = ''['' @ spaced (map yaml_str vs) @ '']''"
| "yaml_str (YMap kvs) =
     ''map['' @ spaced (map (\<lambda>(k, s). k @ '':'' @ s) (sort_key fst (map (\<lambda>(k, v). (k, yaml_str v)) kvs))) @ '']''"
| "yaml_str (YAnyMap kvs) =
     ''map['' @ spaced (map (\<lambda>(k, s). k @ '':'' @ s) (sort_key fst (map (\<lambda>(k, v). (yaml_str k, yaml_str v)) kvs))) @ '']''"

text \<open>A type assertion to \<open>string\<close>.\<close>

definition as_string :: "yaml option \<Rightarrow> string option" where
  "as_string v = (case v of Some (YString s) \<Rightarrow> Some s | _ \<Rightarrow> None)"

text \<open>\<open>getString\<close>: any value of the key, printed.\<close>

definition get_string :: "(string \<times> yaml) list \<Rightarrow> string \<Rightarrow> string" where
  "get_string m k = (case map_of m k of None \<Rightarrow> [] | Some v \<Rightarrow> yaml_str v)"

end
