(* ===== verification/ComposeFile.thy ===== *)
theory ComposeFile
  imports Yaml
begin

text \<open>
  The data of \<open>internal/config\<close>: a decoded Compose file (\<open>compose.go\<close>) and the configuration
  it is turned into (\<open>types.go\<close>). Decoding the YAML text is the library's; the fields of a
  service that nothing reads (\<open>stdin_open\<close>, \<open>tty\<close>, \<open>stop_signal\<close>, \<open>stop_grace_period\<close>,
  \<open>cpuset\<close>, \<open>privileged\<close>, \<open>expose\<close>, \<open>extra_hosts\<close>, \<open>build\<close>) and the top-level volumes and
  networks are left out. A number of CPUs is a pair of digits and a power of ten, like the floating point
  numbers of a YAML value.
\<close>

type_synonym 'v smap = "(string \<times> 'v) list"
type_synonym cpus = "int \<times> int"

section \<open>A Compose file\<close>

record resource_spec_raw =
  rr_cpus :: yaml
  rr_memory :: string

record restart_policy =
  pol_condition :: string
  pol_delay :: string
  pol_max_attempts :: int
  pol_window :: string

record deploy_update =
  du_parallelism :: int
  du_delay :: string
  du_failure_action :: string
  du_monitor :: string
  du_max_failure_ratio :: cpus
  du_order :: string

record placement =
  pl_constraints :: "string list"
  pl_preferences :: "string list"
  pl_max_replicas :: int

record compose_resources =
  cr_limits :: "resource_spec_raw option"
  cr_reservations :: "resource_spec_raw option"

record compose_deploy =
  cd_mode :: string
  cd_replicas :: int
  cd_resources :: "compose_resources option"
  cd_restart :: "restart_policy option"
  cd_update :: "deploy_update option"
  cd_placement :: "placement option"

record file_spec =
  fsp_file :: string
  fsp_external :: bool
  fsp_name :: string

record compose_health =
  ch_test :: yaml
  ch_interval :: string
  ch_timeout :: string
  ch_retries :: int

record compose_service =
  cs_image :: string
  cs_container_name :: string
  cs_ports :: "string list"
  cs_environment :: yaml
  cs_env_file :: yaml
  cs_volumes :: "yaml list"
  cs_depends_on :: yaml
  cs_restart :: string
  cs_restart_delay :: string
  cs_command :: yaml
  cs_entrypoint :: yaml
  cs_working_dir :: string
  cs_user :: string
  cs_dns :: yaml
  cs_cap_add :: "string list"
  cs_cap_drop :: "string list"
  cs_labels :: "string smap"
  cs_healthcheck :: "compose_health option"
  cs_networks :: yaml
  cs_network_mode :: string
  cs_read_only :: bool
  cs_sysctls :: "string smap"
  cs_ulimits :: "(int \<times> int) smap"
  cs_memory :: string
  cs_mem_limit :: string
  cs_cpus :: cpus
  cs_hostname :: string
  cs_deploy :: "compose_deploy option"
  cs_secrets :: yaml
  cs_configs :: yaml

record compose_file =
  cf_services :: "compose_service smap"
  cf_secrets :: "file_spec smap"
  cf_configs :: "file_spec smap"

section \<open>The configuration\<close>

record resource_spec =
  rs_cpus :: cpus
  rs_memory :: string

record resources_config =
  rc_limits :: "resource_spec option"
  rc_reservations :: "resource_spec option"

record deploy_config =
  dc_replicas :: int
  dc_mode :: string
  dc_resources :: "resources_config option"
  dc_restart :: "restart_policy option"
  dc_update :: "deploy_update option"
  dc_placement :: "placement option"

record health_conf =
  hcf_cmd :: string
  hcf_interval :: int
  hcf_retries :: int
  hcf_timeout :: int

record file_ref =
  fr_source :: string
  fr_target :: string
  fr_uid :: string
  fr_gid :: string
  fr_mode :: nat

record container_config =
  kc_image :: string
  kc_command :: string
  kc_ports :: "string list"
  kc_volumes :: "string list"
  kc_env :: "string smap"
  kc_env_file :: string
  kc_restart :: string
  kc_restart_delay :: string
  kc_hostname :: string
  kc_memory :: string
  kc_cpus :: cpus
  kc_workdir :: string
  kc_health :: "health_conf option"
  kc_entrypoint :: string
  kc_network_mode :: string
  kc_network :: string
  kc_labels :: "string smap"
  kc_cap_add :: "string list"
  kc_cap_drop :: "string list"
  kc_user :: string
  kc_readonly :: bool
  kc_no_new_privs :: bool
  kc_sysctls :: "string smap"
  kc_ulimits :: "string smap"
  kc_dns :: "string list"
  kc_replicas :: int
  kc_deploy :: "deploy_config option"
  kc_secrets :: "file_ref list"
  kc_configs :: "file_ref list"
  kc_depends_on :: "string smap"

record config =
  cfg_secrets :: "file_spec smap"
  cfg_configs :: "file_spec smap"
  cfg_containers :: "container_config smap"

text \<open>Go's zero value, which a map of configurations yields for a missing key.\<close>

definition no_container :: container_config where
  "no_container =
     \<lparr>kc_image = [], kc_command = [], kc_ports = [], kc_volumes = [], kc_env = [], kc_env_file = [], kc_restart = [],
      kc_restart_delay = [], kc_hostname = [], kc_memory = [], kc_cpus = (0, 0), kc_workdir = [], kc_health = None,
      kc_entrypoint = [], kc_network_mode = [], kc_network = [], kc_labels = [], kc_cap_add = [], kc_cap_drop = [],
      kc_user = [], kc_readonly = False, kc_no_new_privs = False, kc_sysctls = [], kc_ulimits = [], kc_dns = [],
      kc_replicas = 0, kc_deploy = None, kc_secrets = [], kc_configs = [], kc_depends_on = []\<rparr>"

end
