(* ===== verification/BuildPaths.thy ===== *)
theory BuildPaths
  imports TarExtract
begin

text \<open>
  The path checks of a build (\<open>internal/builder/security.go\<close>), on Unix: where \<open>COPY\<close> may read
  and write. What the file system holds is the record \<open>fs_view\<close>: \<open>Lstat\<close> of a path, the path
  \<open>EvalSymlinks\<close> resolves to, and the working directory.
\<close>

datatype lstat = NotThere | SymLink | DirEntry | FileEntry | SpecialEntry | StatFailed

record fs_view =
  fv_cwd :: "string option"
  fv_lstat :: "string \<Rightarrow> lstat"
  fv_eval :: "string \<Rightarrow> string option"

datatype path_err =
    BadSource | SourceTraversal | NoWorkingDir | SourceEscapes | SourceUnresolved | SourceLinkEscapes
  | BadDestination | DestTraversal | DestEscapes | DestUnreadable | DestLinkUnresolved | DestLinkEscapes

definition backslash :: char where
  "backslash = CHR 0x5C"

definition safe_build_source :: "fs_view \<Rightarrow> string \<Rightarrow> string \<Rightarrow> path_err + string" where
  "safe_build_source fv context_dir source =
     (if source = [] \<or> is_abs source \<or> has_prefix source [slash] \<or> has_prefix source [backslash]
      then Inl BadSource
      else if list_ex (\<lambda>part. part = dotdot) (fields_func is_sep source) then Inl SourceTraversal
      else case path_abs (fv_cwd fv) context_dir of
        None \<Rightarrow> Inl NoWorkingDir
      | Some root \<Rightarrow>
          (case path_abs (fv_cwd fv) (path_join [root, source]) of
             None \<Rightarrow> Inl NoWorkingDir
           | Some path \<Rightarrow>
               if rel_escapes (path_rel root path) then Inl SourceEscapes
               else case fv_eval fv path of
                 None \<Rightarrow> Inl SourceUnresolved
               | Some r \<Rightarrow>
                   (case path_abs (fv_cwd fv) r of
                      None \<Rightarrow> Inl NoWorkingDir
                    | Some resolved \<Rightarrow>
                        if rel_escapes (path_rel root resolved) then Inl SourceLinkEscapes else Inr resolved)))"

text \<open>The walk of \<open>ensureDestinationWithinRoot\<close> down the path; a missing element is skipped.\<close>

fun check_destination :: "fs_view \<Rightarrow> string \<Rightarrow> string \<Rightarrow> string list \<Rightarrow> path_err + unit" where
  "check_destination fv root current [] = Inr ()"
| "check_destination fv root current (part # parts) =
     (let cur = path_join [current, part] in
      case fv_lstat fv cur of
        StatFailed \<Rightarrow> Inl DestUnreadable
      | SymLink \<Rightarrow>
          (case Option.bind (fv_eval fv cur) (path_abs (fv_cwd fv)) of
             None \<Rightarrow> Inl DestLinkUnresolved
           | Some resolved \<Rightarrow>
               if rel_escapes (path_rel root resolved) then Inl DestLinkEscapes
               else check_destination fv root cur parts)
      | _ \<Rightarrow> check_destination fv root cur parts)"

definition ensure_destination_within_root :: "fs_view \<Rightarrow> string \<Rightarrow> string \<Rightarrow> path_err + unit" where
  "ensure_destination_within_root fv root0 path0 =
     (case (path_abs (fv_cwd fv) root0, path_abs (fv_cwd fv) path0) of
        (Some root, Some path) \<Rightarrow>
          (case path_rel root path of
             None \<Rightarrow> Inl DestEscapes
           | Some rel \<Rightarrow>
               if rel_escapes (Some rel) then Inl DestEscapes
               else check_destination fv root root (split_byte slash rel))
      | _ \<Rightarrow> Inl NoWorkingDir)"

definition safe_build_destination :: "fs_view \<Rightarrow> string \<Rightarrow> string \<Rightarrow> path_err + string" where
  "safe_build_destination fv rootfs destination =
     (if destination = [] \<or> str_contains destination [backslash] then Inl BadDestination
      else
        let rel = trim_prefix destination [slash] in
        if list_ex (\<lambda>part. part = dotdot) (split_byte slash rel) then Inl DestTraversal
        else case path_abs (fv_cwd fv) rootfs of
          None \<Rightarrow> Inl NoWorkingDir
        | Some root \<Rightarrow>
            let path = path_join [root, rel] in
            if rel_escapes (path_rel root path) then Inl DestEscapes
            else case ensure_destination_within_root fv root path of
              Inl e \<Rightarrow> Inl e
            | Inr _ \<Rightarrow> Inr path)"

definition build_environment :: "string list \<Rightarrow> string list \<Rightarrow> string list" where
  "build_environment build_env image_env =
     [''PATH=/usr/local/sbin:/usr/local/bin:/usr/sbin:/usr/bin:/sbin:/bin'', ''HOME=/root'', ''TERM=xterm'']
     @ build_env @ image_env"

end
