(* ===== verification/Exec.thy ===== *)
theory Exec
  imports Prelude
begin

text \<open>
  External programs. Running one is the parameter \<open>ex\<close>, which takes the argument vector and the
  host's state and yields whether it exited with status 0, what it printed, and the host's state
  afterwards.
\<close>

section \<open>Running commands\<close>

type_synonym 's exec = "string list \<Rightarrow> 's \<Rightarrow> bool \<times> string \<times> 's"

definition run :: "'s exec \<Rightarrow> string list \<Rightarrow> 's \<Rightarrow> bool \<times> 's" where
  "run ex args s = (case ex args s of (ok, out, s') \<Rightarrow> (ok, s'))"

definition run_ignored :: "'s exec \<Rightarrow> string list \<Rightarrow> 's \<Rightarrow> 's" where
  "run_ignored ex args s = snd (run ex args s)"

text \<open>\<open>if err := exec.Command(args).Run(); err != nil { return e }\<close>, then \<open>k\<close>.\<close>

definition try_run ::
  "'s exec \<Rightarrow> string list \<Rightarrow> 'e \<Rightarrow> ('s \<Rightarrow> ('e + 'a) \<times> 's) \<Rightarrow> 's \<Rightarrow> ('e + 'a) \<times> 's" where
  "try_run ex args e k s = (case run ex args s of (True, s1) \<Rightarrow> k s1 | (False, s1) \<Rightarrow> (Inl e, s1))"

end
