(* ===== verification/Volumes.thy ===== *)
theory Volumes
  imports BuildPaths StatePaths Exec "HOL-Library.List_Lexorder" "HOL-Library.Char_ord"
begin

text \<open>
  Volumes and mounts (\<open>internal/container/volumes.go\<close>, \<open>hostpath.go\<close>) and the parsing of sizes and
  environment files (\<open>parse.go\<close>, \<open>env.go\<close>). The volumes directory is an association list of the
  names in it.
\<close>

section \<open>Sizes and environment files\<close>

definition wrap64 :: "int \<Rightarrow> int" where
  "wrap64 i = signed_take_bit 63 i"

definition size_suffixes :: "(char \<times> int) list" where
  "size_suffixes = [(CHR ''T'', 2 ^ 40), (CHR ''G'', 2 ^ 30), (CHR ''M'', 2 ^ 20), (CHR ''K'', 2 ^ 10)]"

definition parse_memory_string :: "string \<Rightarrow> int option" where
  "parse_memory_string s0 =
     (if s0 = [] then Some 0
      else
        let s = to_upper s0;
            (mult, digits) = (case find (\<lambda>p. has_suffix s [fst p]) size_suffixes of
              None \<Rightarrow> (1, s) | Some p \<Rightarrow> (snd p, trim_suffix s [fst p])) in
        map_option (\<lambda>v. wrap64 (v * mult)) (parse_int64 digits))"

definition parse_disk_string :: "string \<Rightarrow> int option" where
  "parse_disk_string s = parse_memory_string s"

text \<open>The lines a scanner yields, given the file's lines.\<close>

definition parse_env_file :: "string list \<Rightarrow> string list" where
  "parse_env_file lines =
     filter (\<lambda>l. l \<noteq> [] \<and> \<not> has_prefix l ''#'' \<and> str_contains l ''='') (map trim_space lines)"

section \<open>Volume specifications\<close>

datatype volume_type = Bind | Tmpfs | Nfs | Named

record volume_spec =
  vs_type :: volume_type
  vs_source :: string
  vs_target :: string
  vs_read_only :: bool
  vs_propagation :: string
  vs_selinux :: string
  vs_no_copy :: bool
  vs_nfs_options :: string
  vs_tmpfs_size :: string
  vs_tmpfs_mode :: nat

definition spec_of :: "volume_type \<Rightarrow> string \<Rightarrow> string \<Rightarrow> volume_spec" where
  "spec_of t src dst =
     \<lparr>vs_type = t, vs_source = src, vs_target = dst, vs_read_only = False, vs_propagation = [],
      vs_selinux = [], vs_no_copy = False, vs_nfs_options = [], vs_tmpfs_size = [], vs_tmpfs_mode = 0\<rparr>"

definition apply_option :: "string \<Rightarrow> volume_spec \<Rightarrow> volume_spec" where
  "apply_option opt0 vs =
     (let opt = trim_space opt0 in
      if opt = ''ro'' then vs\<lparr>vs_read_only := True\<rparr>
      else if opt = ''rw'' then vs\<lparr>vs_read_only := False\<rparr>
      else if opt \<in> {''shared'', ''rshared'', ''slave'', ''rslave'', ''private'', ''rprivate''}
      then vs\<lparr>vs_propagation := opt\<rparr>
      else if opt = ''Z'' \<or> opt = ''z'' then vs\<lparr>vs_selinux := opt\<rparr>
      else if opt = ''nocopy'' then vs\<lparr>vs_no_copy := True\<rparr>
      else if has_prefix opt ''size='' then vs\<lparr>vs_tmpfs_size := drop 5 opt\<rparr>
      else if has_prefix opt ''mode='' then
        (case scan_octal32 (drop 5 opt) of None \<Rightarrow> vs | Some m \<Rightarrow> vs\<lparr>vs_tmpfs_mode := m\<rparr>)
      else if has_prefix opt ''nfsopts='' then vs\<lparr>vs_nfs_options := drop 8 opt\<rparr>
      else vs)"

definition apply_options :: "string \<Rightarrow> volume_spec \<Rightarrow> volume_spec" where
  "apply_options opts vs = fold apply_option (split_byte (CHR '','') opts) vs"

definition split_opts :: "string \<Rightarrow> string \<times> string" where
  "split_opts s =
     (case last_index_byte s (CHR '':'') of
        None \<Rightarrow> (s, [])
      | Some i \<Rightarrow>
          if slash \<in> set (drop (Suc i) s) \<or> backslash \<in> set (drop (Suc i) s) then (s, [])
          else (take i s, drop (Suc i) s))"

definition default_nfs_options :: string where
  "default_nfs_options = ''hard,intr,rsize=1048576,wsize=1048576''"

definition parse_volume_spec :: "string \<Rightarrow> volume_spec option" where
  "parse_volume_spec spec =
     (if has_prefix spec ''tmpfs:'' then
        (case split_opts (drop 6 spec) of (target, opts) \<Rightarrow> Some (apply_options opts (spec_of Tmpfs [] target)))
      else if has_prefix spec ''nfs://'' \<or> has_prefix spec ''nfs:'' then
        (case splitn_byte 3 (CHR '':'') (trim_prefix (trim_prefix spec ''nfs://'') ''nfs:'') of
           [server, path, rest] \<Rightarrow>
             (case split_opts rest of (target, opts) \<Rightarrow>
                Some (apply_options opts
                  ((spec_of Nfs (server @ '':'' @ path) target)\<lparr>vs_nfs_options := default_nfs_options\<rparr>)))
         | _ \<Rightarrow> None)
      else
        let fin = (\<lambda>vs. if slash \<notin> set (vs_source vs) \<and> backslash \<notin> set (vs_source vs)
                   then vs\<lparr>vs_type := Named\<rparr> else vs) in
        (case splitn_byte 3 (CHR '':'') spec of
           [src, dst] \<Rightarrow> Some (fin (spec_of Bind src dst))
         | [src, dst, opts] \<Rightarrow> Some (fin (apply_options opts (spec_of Bind src dst)))
         | parts \<Rightarrow> Some (spec_of Tmpfs [] (hd parts))))"

definition parse_volume_string :: "string \<Rightarrow> volume_spec" where
  "parse_volume_string v =
     (case parse_volume_spec v of
        Some spec \<Rightarrow> spec
      | None \<Rightarrow>
          (case splitn_byte 2 (CHR '':'') v of [a, b] \<Rightarrow> spec_of Bind a b | _ \<Rightarrow> spec_of Bind v v))"

section \<open>Checks\<close>

datatype vol_err =
    BadVolumeName | TargetNotAbsolute | TargetTraversal | UnsafeTarget | TargetEscapes
  | SourceNotAbsolute | SourceUnresolvable | SourceProtected | SourceNoStat | SourceNotDir
  | TargetSymlink | TargetUnreadable | NoRoot | NilSpec | TargetMkdir | SourceMkdir
  | MountTmpfsFailed | MountNfsFailed | MountBindFailed | RemountFailed
  | VolumeExists | VolumeMkdir | VolumeSave | VolumeMissing | VolumeInUse string | VolumeRemove

definition validate_volume_name :: "string \<Rightarrow> bool" where
  "validate_volume_name name \<longleftrightarrow>
     \<not> (name = [] \<or> name = ''.'' \<or> name = dotdot \<or> contains_any name [slash, backslash])"

definition validate_container_target :: "string \<Rightarrow> vol_err + unit" where
  "validate_container_target target =
     (if target = [] \<or> str_contains target [backslash] \<or> \<not> is_abs target then Inl TargetNotAbsolute
      else if list_ex (\<lambda>part. part = dotdot) (fields_func is_sep target) then Inl TargetTraversal
      else
        let clean = path_clean target in
        if clean = [slash] \<or> clean = ''.'' then Inl UnsafeTarget
        else if rel_escapes (path_rel [slash] clean) then Inl TargetEscapes else Inr ())"

definition protected_host_paths :: "string list" where
  "protected_host_paths =
     [''/'', ''/bin'', ''/boot'', ''/dev'', ''/etc'', ''/home'', ''/lib'', ''/lib64'', ''/media'', ''/mnt'', ''/opt'',
      ''/proc'', ''/root'', ''/run'', ''/sbin'', ''/sys'', ''/usr'', ''/var'', ''/var/lib/dck'', ''/var/run/dck'',
      ''/var/run/docker.sock'', ''/var/run/podman'', ''/var/run/containerd'',
      ''/.ssh'', ''/.aws'', ''/.kube'', ''/.docker'', ''/.gnupg'', ''/.netrc'']"

definition at_or_below :: "string \<Rightarrow> string \<Rightarrow> bool" where
  "at_or_below p d \<longleftrightarrow> p = d \<or> has_prefix p (path_clean d @ [slash])"

definition is_protected_host_path :: "fs_view \<Rightarrow> string list \<Rightarrow> string \<Rightarrow> bool" where
  "is_protected_host_path fv allowed path =
     (if path = [] \<or> \<not> is_abs path then True
      else
        let p = path_clean path;
            resolved = (if fv_lstat fv p = SymLink then (case fv_eval fv p of None \<Rightarrow> p | Some r \<Rightarrow> r) else p) in
        if list_ex (at_or_below resolved) allowed then False
        else list_ex (at_or_below resolved) protected_host_paths)"

text \<open>The paths of \<open>DCK_ALLOWED_HOST_PATHS\<close>.\<close>

definition init_host_path_policy :: "string option \<Rightarrow> string \<Rightarrow> string list" where
  "init_host_path_policy cwd env0 =
     (let env = trim_space env0 in
      if env = [] then []
      else concat (map (\<lambda>p0. let p = trim_space p0 in
             if p = [] then [] else case path_abs cwd p of None \<Rightarrow> [] | Some a \<Rightarrow> [a])
           (split_byte (CHR '':'') env)))"

text \<open>The host as the mounting code sees it; \<open>me_stat\<close> says whether a path is a directory.\<close>

record mount_env =
  me_fs :: fs_view
  me_stat :: "string \<Rightarrow> bool option"
  me_mkdir :: "string \<Rightarrow> bool"
  me_empty :: "string \<Rightarrow> bool"
  me_allowed :: "string list"
  me_volumes :: string

definition validate_bind_source :: "mount_env \<Rightarrow> string \<Rightarrow> vol_err + string" where
  "validate_bind_source me source =
     (if source = [] \<or> \<not> is_abs source then Inl SourceNotAbsolute
      else case fv_eval (me_fs me) source of
        None \<Rightarrow> Inl SourceUnresolvable
      | Some r \<Rightarrow>
          (case path_abs (fv_cwd (me_fs me)) r of
             None \<Rightarrow> Inl SourceUnresolvable
           | Some resolved \<Rightarrow>
               if is_protected_host_path (me_fs me) (me_allowed me) resolved then Inl SourceProtected
               else case me_stat me resolved of
                 None \<Rightarrow> Inl SourceNoStat
               | Some dir \<Rightarrow> if dir then Inr resolved else Inl SourceNotDir))"

definition safe_container_path :: "string \<Rightarrow> string \<Rightarrow> vol_err + string" where
  "safe_container_path root target =
     (let path = path_join [root, trim_prefix target [slash]] in
      if rel_escapes (path_rel root path) then Inl TargetEscapes else Inr path)"

fun reject_symlinks :: "fs_view \<Rightarrow> string \<Rightarrow> string list \<Rightarrow> vol_err + unit" where
  "reject_symlinks fv current [] = Inr ()"
| "reject_symlinks fv current (part # parts) =
     (let cur = path_join [current, part] in
      case fv_lstat fv cur of
        StatFailed \<Rightarrow> Inl TargetUnreadable
      | SymLink \<Rightarrow> Inl TargetSymlink
      | _ \<Rightarrow> reject_symlinks fv cur parts)"

definition reject_symlink_ancestors :: "fs_view \<Rightarrow> string \<Rightarrow> string \<Rightarrow> vol_err + unit" where
  "reject_symlink_ancestors fv root target =
     (case path_rel root target of
        None \<Rightarrow> Inl TargetEscapes
      | Some rel \<Rightarrow>
          if rel_escapes (Some rel) then Inl TargetEscapes
          else if rel = ''.'' then Inr ()
          else reject_symlinks fv root (split_byte slash rel))"

section \<open>Mounting\<close>

fun octal_str :: "nat \<Rightarrow> string" where
  "octal_str n = (if n < 8 then [digit_char n] else octal_str (n div 8) @ [digit_char (n mod 8)])"

declare octal_str.simps [simp del]

definition mount_tmpfs :: "'s exec \<Rightarrow> volume_spec \<Rightarrow> string \<Rightarrow> 's \<Rightarrow> (vol_err + unit) \<times> 's" where
  "mount_tmpfs ex spec target s =
     (let o1 = (if vs_tmpfs_size spec = [] then ''size=64M'' else ''size='' @ vs_tmpfs_size spec);
          o2 = (if 0 < vs_tmpfs_mode spec then o1 @ '',mode='' @ octal_str (vs_tmpfs_mode spec) else o1);
          opts = (if vs_read_only spec then o2 @ '',ro'' else o2) in
      try_run ex [''mount'', ''-t'', ''tmpfs'', ''-o'', opts, ''tmpfs'', target] MountTmpfsFailed (\<lambda>s1. (Inr (), s1)) s)"

definition mount_nfs :: "'s exec \<Rightarrow> volume_spec \<Rightarrow> string \<Rightarrow> 's \<Rightarrow> (vol_err + unit) \<times> 's" where
  "mount_nfs ex spec target s =
     (let o1 = (if vs_nfs_options spec = [] then default_nfs_options else vs_nfs_options spec);
          opts = (if vs_read_only spec then o1 @ '',ro'' else o1) in
      try_run ex [''mount'', ''-t'', ''nfs'', ''-o'', opts, vs_source spec, target] MountNfsFailed (\<lambda>s1. (Inr (), s1)) s)"

text \<open>The directory a bind mounts: the named volume's, or the checked host path.\<close>

definition bind_source :: "mount_env \<Rightarrow> volume_spec \<Rightarrow> vol_err + string" where
  "bind_source me spec =
     (if vs_type spec = Named then
        (if \<not> validate_volume_name (vs_source spec) then Inl BadVolumeName
         else let source = path_join [me_volumes me, vs_source spec] in
           if me_mkdir me source then Inr source else Inl SourceMkdir)
      else validate_bind_source me (vs_source spec))"

definition run_if :: "bool \<Rightarrow> 's exec \<Rightarrow> string list \<Rightarrow> 's \<Rightarrow> 's" where
  "run_if c ex args s = (if c then run_ignored ex args s else s)"

definition mount_bind :: "mount_env \<Rightarrow> 's exec \<Rightarrow> volume_spec \<Rightarrow> string \<Rightarrow> 's \<Rightarrow> (vol_err + unit) \<times> 's" where
  "mount_bind me ex spec target s =
     (case bind_source me spec of
        Inl err \<Rightarrow> (Inl err, s)
      | Inr source \<Rightarrow>
          let s1 = run_if (vs_type spec = Named \<and> \<not> vs_no_copy spec \<and> me_empty me target) ex
                     [''cp'', ''-a'', target @ ''/.'', source @ ''/''] s in
          try_run ex [''mount'', ''--bind'', source, target] MountBindFailed (\<lambda>s2.
            let s3 = run_if (vs_propagation spec \<noteq> []) ex [''mount'', ''--make-'' @ vs_propagation spec, target] s2;
                fin = (\<lambda>s4. (Inr (), run_if (vs_selinux spec \<noteq> []) ex
                         [''chcon'', ''-Rt'', ''svirt_sandbox_file_t'', target] s4)) in
            if vs_read_only spec
            then try_run ex [''mount'', ''--bind'', ''-o'', ''remount,ro'', source, target] RemountFailed fin s3
            else fin s3) s1)"

definition mount_target :: "mount_env \<Rightarrow> string \<Rightarrow> volume_spec \<Rightarrow> vol_err + string" where
  "mount_target me rootfs spec =
     rbind (validate_container_target (vs_target spec)) (\<lambda>_.
      case path_abs (fv_cwd (me_fs me)) rootfs of
        None \<Rightarrow> Inl NoRoot
      | Some root \<Rightarrow>
          rbind (safe_container_path root (vs_target spec)) (\<lambda>target.
          rbind (reject_symlink_ancestors (me_fs me) root target) (\<lambda>_.
            if me_mkdir me target then Inr target else Inl TargetMkdir)))"

definition mount_volume ::
  "mount_env \<Rightarrow> 's exec \<Rightarrow> volume_spec option \<Rightarrow> string \<Rightarrow> 's \<Rightarrow> (vol_err + unit) \<times> 's" where
  "mount_volume me ex sp rootfs s =
     (case sp of
        None \<Rightarrow> (Inl NilSpec, s)
      | Some spec \<Rightarrow>
          (case mount_target me rootfs spec of
             Inl err \<Rightarrow> (Inl err, s)
           | Inr target \<Rightarrow>
               (case vs_type spec of
                  Tmpfs \<Rightarrow> mount_tmpfs ex spec target s
                | Nfs \<Rightarrow> mount_nfs ex spec target s
                | _ \<Rightarrow> mount_bind me ex spec target s)))"

section \<open>Named volumes\<close>

record volume =
  vol_name :: string
  vol_driver :: string
  vol_mountpoint :: string

text \<open>The volumes directory: a volume, or a directory without a readable \<open>volume.json\<close>.\<close>

type_synonym volumes = "(string \<times> volume option) list"

definition create_volume ::
  "string \<Rightarrow> bool \<Rightarrow> bool \<Rightarrow> string \<Rightarrow> string \<Rightarrow> volumes \<Rightarrow> (vol_err + volume) \<times> volumes" where
  "create_volume dir mkdir_ok save_ok name driver vols =
     (if \<not> validate_volume_name name then (Inl BadVolumeName, vols)
      else if map_of vols name \<noteq> None then (Inl VolumeExists, vols)
      else if \<not> mkdir_ok then (Inl VolumeMkdir, vols)
      else
        let v = \<lparr>vol_name = name, vol_driver = driver, vol_mountpoint = path_join [dir, name]\<rparr> in
        if save_ok then (Inr v, aput name (Some v) vols) else (Inl VolumeSave, vols))"

definition list_volumes :: "volumes \<Rightarrow> volume list" where
  "list_volumes vols = concat (map (\<lambda>p. case snd p of None \<Rightarrow> [] | Some v \<Rightarrow> [v]) (sort_key fst vols))"

text \<open>\<open>users\<close> are the containers, by identifier, with the sources of their volumes.\<close>

definition remove_volume ::
  "(string \<Rightarrow> string) \<Rightarrow> string \<Rightarrow> bool \<Rightarrow> (string \<times> string list) list \<Rightarrow> string \<Rightarrow> volumes \<Rightarrow> (vol_err + unit) \<times> volumes" where
  "remove_volume h dd remove_ok users name vols =
     (if \<not> validate_volume_name name then (Inl BadVolumeName, vols)
      else if map_of vols name = None then (Inl VolumeMissing, vols)
      else case find (\<lambda>u. list_ex (\<lambda>src. resolve_volume h dd src = path_join [volumes_dir dd, name]) (snd u)) users of
        Some u \<Rightarrow> (Inl (VolumeInUse (fst u)), vols)
      | None \<Rightarrow> if remove_ok then (Inr (), adel name vols) else (Inl VolumeRemove, vols))"

end
