(* ===== verification/Secrets.thy ===== *)
theory Secrets
  imports ComposeFile Volumes TarExtract
begin

text \<open>
  Secrets and configs of a container (\<open>internal/container/secrets.go\<close>): a reference with a file
  becomes a volume, any other one a file that is written into the container's file system when
  it starts; and the loop that mounts a container's volumes (\<open>setupFilesystem\<close> of \<open>start.go\<close>).
\<close>

section \<open>References\<close>

text \<open>A volume of a container; its kind may be left open.\<close>

record volume_mount =
  vm_type :: "volume_type option"
  vm_source :: string
  vm_target :: string
  vm_read_only :: bool
  vm_propagation :: string
  vm_selinux :: string
  vm_no_copy :: bool

record secret_mount =
  sm_source :: string
  sm_target :: string
  sm_uid :: string
  sm_gid :: string
  sm_mode :: nat
  sm_data :: string

definition volume_mount_from_spec :: "string \<Rightarrow> volume_mount option" where
  "volume_mount_from_spec v =
     map_option (\<lambda>vs. \<lparr>vm_type = Some (vs_type vs), vm_source = vs_source vs, vm_target = vs_target vs,
        vm_read_only = vs_read_only vs, vm_propagation = vs_propagation vs, vm_selinux = vs_selinux vs,
        vm_no_copy = vs_no_copy vs\<rparr>) (parse_volume_spec (trim_space v))"

definition file_mount :: "string \<Rightarrow> string \<Rightarrow> volume_mount" where
  "file_mount src tgt = \<lparr>vm_type = None, vm_source = src, vm_target = tgt, vm_read_only = False,
     vm_propagation = [], vm_selinux = [], vm_no_copy = False\<rparr>"

definition ref_target :: "string \<Rightarrow> file_ref \<Rightarrow> string" where
  "ref_target dir r = (if fr_target r = [] then dir @ fr_source r else fr_target r)"

text \<open>
  One reference: a volume, or a file to write. The read of the specified file in the last branch is
  never reached, for a specification with a file has already become a volume.
\<close>

definition ref_mount :: "string \<Rightarrow> file_spec smap \<Rightarrow> file_ref \<Rightarrow> volume_mount + secret_mount" where
  "ref_mount dir specs r =
     (let target = ref_target dir r in
      case map_of specs (fr_source r) of
        Some spec \<Rightarrow>
          if fsp_file spec \<noteq> [] then Inl (file_mount (fsp_file spec) target)
          else Inr \<lparr>sm_source = fr_source r, sm_target = target, sm_uid = fr_uid r, sm_gid = fr_gid r,
                     sm_mode = fr_mode r, sm_data = []\<rparr>
      | None \<Rightarrow>
          if has_prefix (fr_source r) ''/'' then Inl (file_mount (fr_source r) target)
          else Inr \<lparr>sm_source = fr_source r, sm_target = target, sm_uid = fr_uid r, sm_gid = fr_gid r,
                     sm_mode = fr_mode r, sm_data = []\<rparr>)"

definition lefts :: "('a + 'b) list \<Rightarrow> 'a list" where
  "lefts xs = concat (map (\<lambda>x. case x of Inl a \<Rightarrow> [a] | Inr _ \<Rightarrow> []) xs)"

definition rights :: "('a + 'b) list \<Rightarrow> 'b list" where
  "rights xs = concat (map (\<lambda>x. case x of Inl _ \<Rightarrow> [] | Inr b \<Rightarrow> [b]) xs)"

definition secrets_dir :: string where
  "secrets_dir = ''/run/secrets/''"

definition parse_secrets_to_volumes :: "container_config \<Rightarrow> config \<Rightarrow> volume_mount list \<times> secret_mount list" where
  "parse_secrets_to_volumes kc cfg =
     (let ms = map (ref_mount secrets_dir (cfg_secrets cfg)) (kc_secrets kc)
             @ map (ref_mount ''/'' (cfg_configs cfg)) (kc_configs kc) in
      (lefts ms, rights ms))"

text \<open>\<open>ResolveSecretSpecs\<close> reads the files instead; \<open>read\<close> is what reading one gives.\<close>

definition resolve_mount :: "(string \<Rightarrow> string option) \<Rightarrow> string \<Rightarrow> file_spec smap \<Rightarrow> file_ref \<Rightarrow> secret_mount" where
  "resolve_mount read dir specs r =
     \<lparr>sm_source = fr_source r, sm_target = ref_target dir r, sm_uid = fr_uid r, sm_gid = fr_gid r,
      sm_mode = (if fr_mode r = 0 then 292 else fr_mode r),
      sm_data = (case map_of specs (fr_source r) of
         Some spec \<Rightarrow> if fsp_file spec \<noteq> [] then (case read (fsp_file spec) of Some d \<Rightarrow> d | None \<Rightarrow> []) else []
       | None \<Rightarrow> [])\<rparr>"

definition resolve_secret_specs :: "(string \<Rightarrow> string option) \<Rightarrow> config \<Rightarrow> secret_mount list smap" where
  "resolve_secret_specs read cfg =
     map (\<lambda>(n, kc). (n, map (resolve_mount read secrets_dir (cfg_secrets cfg)) (kc_secrets kc)
                       @ map (resolve_mount read ''/'' (cfg_configs cfg)) (kc_configs kc))) (cfg_containers cfg)"

section \<open>Mounting the volumes of a container\<close>

text \<open>A volume without a kind is a bind mount, or a named volume when its source has no slash.\<close>

definition mount_spec :: "volume_mount \<Rightarrow> volume_spec" where
  "mount_spec v =
     (spec_of (case vm_type v of
        Some t \<Rightarrow> t
      | None \<Rightarrow> if slash \<notin> set (vm_source v) \<and> backslash \<notin> set (vm_source v) then Named else Bind)
        (vm_source v) (vm_target v))
       \<lparr>vs_read_only := vm_read_only v, vs_propagation := vm_propagation v, vs_selinux := vm_selinux v,
        vs_no_copy := vm_no_copy v\<rparr>"

fun mount_all :: "mount_env \<Rightarrow> 's exec \<Rightarrow> string \<Rightarrow> volume_mount list \<Rightarrow> 's \<Rightarrow> (vol_err + unit) \<times> 's" where
  "mount_all me ex merged [] s = (Inr (), s)"
| "mount_all me ex merged (v # vs) s =
     (case mount_volume me ex (Some (mount_spec v)) merged s of
        (Inl err, s1) \<Rightarrow> (Inl err, s1)
      | (Inr _, s1) \<Rightarrow> mount_all me ex merged vs s1)"

section \<open>Writing secrets\<close>

datatype secret_err =
    SecretNotAbsolute | SecretNoFile | SecretTraversal | SecretNoRoot | SecretOutside
  | SecretDir os_err | AncestorStat os_err | AncestorLink string | SecretIsLink | SecretWrite os_err | SecretChown

definition safe_container_file_path :: "string option \<Rightarrow> string \<Rightarrow> string \<Rightarrow> secret_err + string" where
  "safe_container_file_path cwd rootfs target =
     (if target = [] \<or> str_contains target [backslash] \<or> \<not> is_abs target then Inl SecretNotAbsolute
      else
        let rel = trim_prefix target [slash] in
        if rel = [] \<or> rel = ''.'' then Inl SecretNoFile
        else if list_ex (\<lambda>part. part = dotdot) (fields_func is_sep target) then Inl SecretTraversal
        else case path_abs cwd rootfs of
          None \<Rightarrow> Inl SecretNoRoot
        | Some root \<Rightarrow>
            let p = path_join [root, rel] in
            if rel_escapes (path_rel root p) then Inl SecretOutside else Inr p)"

text \<open>The ancestors of the target, without the target itself; a missing one is passed over.\<close>

fun reject_links :: "osfs \<Rightarrow> string \<Rightarrow> string list \<Rightarrow> secret_err + unit" where
  "reject_links s current [] = Inr ()"
| "reject_links s current (part # parts) =
     (let cur = path_join [current, part] in
      if parts = [] then Inr ()
      else case os_lstat s (elems cur) of
        Inl e \<Rightarrow> if e = ENOENT then reject_links s cur parts else Inl (AncestorStat e)
      | Inr (FLink _) \<Rightarrow> Inl (AncestorLink cur)
      | Inr _ \<Rightarrow> reject_links s cur parts)"

definition reject_secret_symlink_ancestors :: "osfs \<Rightarrow> string \<Rightarrow> string \<Rightarrow> secret_err + unit" where
  "reject_secret_symlink_ancestors s root target =
     (case path_rel root target of
        None \<Rightarrow> Inl SecretOutside
      | Some rel \<Rightarrow>
          if rel_escapes (Some rel) then Inl SecretOutside else reject_links s root (split_byte slash rel))"

text \<open>\<open>os.WriteFile\<close>.\<close>

definition os_write_file :: "osfs \<Rightarrow> path \<Rightarrow> string \<Rightarrow> mode \<Rightarrow> (os_err + unit) \<times> osfs" where
  "os_write_file s p data m =
     (case os_create s p m of
        (Inl e, s1) \<Rightarrow> (Inl e, s1)
      | (Inr i, s1) \<Rightarrow> (Inr (), write_inode i data s1))"

definition owner_id :: "string \<Rightarrow> int" where
  "owner_id x = (if x = [] then - 1 else case parse_int64 x of None \<Rightarrow> - 1 | Some n \<Rightarrow> n)"

text \<open>Changing the owner, which the model has none of, is the outcome \<open>chown\<close>.\<close>

definition chown_secret :: "(string \<Rightarrow> int \<Rightarrow> int \<Rightarrow> bool) \<Rightarrow> secret_mount \<Rightarrow> string \<Rightarrow> secret_err + unit" where
  "chown_secret chown sm p =
     (let uid = owner_id (sm_uid sm); gid = owner_id (sm_gid sm) in
      if (0 \<le> uid \<or> 0 \<le> gid) \<and> \<not> chown p uid gid then Inl SecretChown else Inr ())"

definition inject_one :: "(string \<Rightarrow> int \<Rightarrow> int \<Rightarrow> bool) \<Rightarrow> string \<Rightarrow> secret_mount \<Rightarrow> osfs \<Rightarrow> (secret_err + unit) \<times> osfs" where
  "inject_one chown rootfs sm s =
     (if sm_data sm = [] then (Inr (), s)
      else case safe_container_file_path (os_cwd s) rootfs (sm_target sm) of
        Inl e \<Rightarrow> (Inl e, s)
      | Inr p \<Rightarrow>
          (case os_mkdir_all s (elems (path_dir p)) 493 of
             (Inl e, s1) \<Rightarrow> (Inl (SecretDir e), s1)
           | (Inr _, s1) \<Rightarrow>
               (case reject_secret_symlink_ancestors s1 rootfs p of
                  Inl e \<Rightarrow> (Inl e, s1)
                | Inr _ \<Rightarrow>
                    if (case os_lstat s1 (elems p) of Inr (FLink _) \<Rightarrow> True | _ \<Rightarrow> False) then (Inl SecretIsLink, s1)
                    else (case os_write_file s1 (elems p) (sm_data sm)
                                 (word_of_nat (if sm_mode sm = 0 then 292 else sm_mode sm)) of
                      (Inl e, s2) \<Rightarrow> (Inl (SecretWrite e), s2)
                    | (Inr _, s2) \<Rightarrow> (chown_secret chown sm p, s2)))))"

fun inject_secrets :: "(string \<Rightarrow> int \<Rightarrow> int \<Rightarrow> bool) \<Rightarrow> string \<Rightarrow> secret_mount list \<Rightarrow> osfs \<Rightarrow> (secret_err + unit) \<times> osfs" where
  "inject_secrets chown rootfs [] s = (Inr (), s)"
| "inject_secrets chown rootfs (sm # sms) s =
     (case inject_one chown rootfs sm s of
        (Inl e, s1) \<Rightarrow> (Inl e, s1)
      | (Inr _, s1) \<Rightarrow> inject_secrets chown rootfs sms s1)"

end
