(* ===== verification/GoTime.thy ===== *)
theory GoTime
  imports GoStrings "HOL-Library.Code_Target_Nat"
begin

text \<open>
  Go's \<open>time\<close> as far as the program uses it. An instant and a duration are a number of
  nanoseconds; the zero instant is 0. \<open>parse_duration\<close> is \<open>time.ParseDuration\<close>; a fraction is
  taken exactly, where Go multiplies in floating point (the results agree whenever the exact
  value is an integer number of nanoseconds below 2 to the 53).
\<close>

type_synonym instant = int
type_synonym duration = int

definition second :: duration where
  "second = 1000000000"

definition minute :: duration where
  "minute = 60 * second"

definition is_zero :: "instant \<Rightarrow> bool" where
  "is_zero t \<longleftrightarrow> t = 0"

definition unit_ns :: "string \<Rightarrow> nat option" where
  "unit_ns u =
     (if u = ''ns'' then Some 1
      else if u \<in> {''us'', [CHR 0xC2, CHR 0xB5, CHR ''s''], [CHR 0xCE, CHR 0xBC, CHR ''s'']} then Some 1000
      else if u = ''ms'' then Some 1000000
      else if u = ''s'' then Some 1000000000
      else if u = ''m'' then Some 60000000000
      else if u = ''h'' then Some 3600000000000
      else None)"

definition is_number_char :: "char \<Rightarrow> bool" where
  "is_number_char c \<longleftrightarrow> c = CHR ''.'' \<or> is_digit c"

text \<open>One term of a duration, a number with its unit, and the rest of the string.\<close>

definition parse_term :: "string \<Rightarrow> (nat \<times> string) option" where
  "parse_term s =
     (if s = [] \<or> \<not> is_number_char (hd s) then None
      else
        let ip = takeWhile is_digit s;
            s1 = dropWhile is_digit s;
            dot = (s1 \<noteq> [] \<and> hd s1 = CHR ''.'');
            fp = (if dot then takeWhile is_digit (tl s1) else []);
            s2 = (if dot then dropWhile is_digit (tl s1) else s1);
            u = takeWhile (\<lambda>c. \<not> is_number_char c) s2;
            rest = dropWhile (\<lambda>c. \<not> is_number_char c) s2;
            v = digits_val ip in
        if v > 2 ^ 63 \<or> (ip = [] \<and> fp = []) then None
        else case unit_ns u of
          None \<Rightarrow> None
        | Some n \<Rightarrow>
            if v > 2 ^ 63 div n then None
            else
              let w = v * n + digits_val fp * n div 10 ^ length fp in
              if w > 2 ^ 63 then None else Some (w, rest))"

lemma unit_ns_Nil: "unit_ns [] = None"
  by (simp add: unit_ns_def)

lemma parse_term_shorter: "parse_term s = Some (v, rest) \<Longrightarrow> length rest < length s"
proof -
  assume p: "parse_term s = Some (v, rest)"
  let ?s1 = "dropWhile is_digit s"
  let ?dot = "?s1 \<noteq> [] \<and> hd ?s1 = CHR ''.''"
  let ?s2 = "if ?dot then dropWhile is_digit (tl ?s1) else ?s1"
  let ?u = "takeWhile (\<lambda>c. \<not> is_number_char c) ?s2"
  have r: "rest = dropWhile (\<lambda>c. \<not> is_number_char c) ?s2" and u: "unit_ns ?u \<noteq> None"
    using p by (auto simp: parse_term_def Let_def split: if_splits option.splits)
  have "?u \<noteq> []" using u unit_ns_Nil by metis
  then have "0 < length ?u" by simp
  moreover have "length ?u + length rest = length ?s2"
    unfolding r length_append [symmetric] takeWhile_dropWhile_id by (rule refl)
  ultimately have "length rest < length ?s2" by linarith
  also have "length ?s2 \<le> length ?s1"
    using length_dropWhile_le [of is_digit "tl ?s1"] by (cases ?s1) auto
  also have "length ?s1 \<le> length s" by (rule length_dropWhile_le)
  finally show ?thesis .
qed

function parse_terms :: "string \<Rightarrow> nat \<Rightarrow> nat option" where
  "parse_terms s d =
     (if s = [] then Some d
      else case parse_term s of
        None \<Rightarrow> None
      | Some (v, rest) \<Rightarrow> if d + v > 2 ^ 63 then None else parse_terms rest (d + v))"
  by pat_completeness auto
termination
  by (relation "measure (\<lambda>(s, d). length s)") (auto dest: parse_term_shorter)

declare parse_terms.simps [simp del]

definition parse_duration :: "string \<Rightarrow> duration option" where
  "parse_duration s0 =
     (let sign = (s0 \<noteq> [] \<and> hd s0 \<in> set ''+-'');
          neg = (s0 \<noteq> [] \<and> hd s0 = CHR ''-'');
          s = (if sign then tl s0 else s0) in
      if s = ''0'' then Some 0
      else if s = [] then None
      else case parse_terms s 0 of
        None \<Rightarrow> None
      | Some d \<Rightarrow>
          if neg then Some (- int d) else if d > 2 ^ 63 - 1 then None else Some (int d))"

text \<open>A positive duration from a setting, or the default.\<close>

definition positive_duration :: "string \<Rightarrow> duration \<Rightarrow> duration" where
  "positive_duration s dflt =
     (if s = [] then dflt
      else case parse_duration s of None \<Rightarrow> dflt | Some d \<Rightarrow> if 0 < d then d else dflt)"

lemma positive_duration_pos: "0 < dflt \<Longrightarrow> 0 < positive_duration s dflt"
  by (auto simp: positive_duration_def split: option.splits)

end
