(* ===== verification/Compose.thy ===== *)
theory Compose
  imports ComposeFile GoTime
begin

text \<open>
  Reading a Compose file (\<open>internal/config/compose.go\<close>): one definition per parse function, and
  \<open>LoadCompose\<close>, which turns a decoded file into a configuration. A map that is built from another
  one has its entries in the order in which they were put.
\<close>

section \<open>Environment and commands\<close>

text \<open>An item of a list without an equals sign is passed over.\<close>

definition put_env :: "string smap \<Rightarrow> yaml \<Rightarrow> string smap" where
  "put_env m item =
     (case item of
        YString s \<Rightarrow> (case splitn_byte 2 (CHR ''='') s of [k, v] \<Rightarrow> aput k v m | _ \<Rightarrow> m)
      | _ \<Rightarrow> m)"

definition parse_compose_env :: "yaml \<Rightarrow> string smap" where
  "parse_compose_env env =
     (case env of
        YList items \<Rightarrow> foldl put_env [] items
      | YMap kvs \<Rightarrow> foldl (\<lambda>m (k, v). aput k (yaml_str v) m) [] kvs
      | _ \<Rightarrow> [])"

definition parse_compose_env_file :: "yaml \<Rightarrow> string" where
  "parse_compose_env_file ef = (case ef of YString s \<Rightarrow> s | YList (YString s # _) \<Rightarrow> s | _ \<Rightarrow> [])"

definition parse_compose_command :: "yaml \<Rightarrow> string" where
  "parse_compose_command cmd =
     (case cmd of YString s \<Rightarrow> s | YList vs \<Rightarrow> spaced (map yaml_str vs) | _ \<Rightarrow> [])"

definition to_string_slice :: "yaml \<Rightarrow> string list" where
  "to_string_slice v = (case v of YString s \<Rightarrow> [s] | YList vs \<Rightarrow> map yaml_str vs | _ \<Rightarrow> [])"

section \<open>Health check, ports, restart policy\<close>

text \<open>\<open>int(d.Seconds())\<close>: whole seconds, towards zero.\<close>

definition parse_duration_to_seconds :: "string \<Rightarrow> int" where
  "parse_duration_to_seconds d =
     (if d = [] then 0
      else case parse_duration d of None \<Rightarrow> 0 | Some ns \<Rightarrow> sgn ns * (\<bar>ns\<bar> div second))"

definition parse_compose_healthcheck :: "compose_health \<Rightarrow> health_conf" where
  "parse_compose_healthcheck hc =
     \<lparr>hcf_cmd = (case ch_test hc of YString s \<Rightarrow> s | YList vs \<Rightarrow> spaced (map yaml_str vs) | _ \<Rightarrow> []),
      hcf_interval = parse_duration_to_seconds (ch_interval hc), hcf_retries = ch_retries hc,
      hcf_timeout = parse_duration_to_seconds (ch_timeout hc)\<rparr>"

definition normalize_port :: "string \<Rightarrow> string" where
  "normalize_port p = (if str_contains p '':'' then p else ''0:'' @ p)"

definition normalize_restart :: "string \<Rightarrow> string" where
  "normalize_restart r = (if r = [] then ''always'' else r)"

section \<open>Dependencies and networks\<close>

definition service_started :: string where
  "service_started = ''service_started''"

definition put_dependency :: "string smap \<Rightarrow> yaml \<Rightarrow> string smap" where
  "put_dependency m item = (case item of YString s \<Rightarrow> aput s service_started m | _ \<Rightarrow> m)"

text \<open>The condition of a dependency; a nested map with other keys than strings has a kind of its own.\<close>

definition condition_in :: "yaml option \<Rightarrow> string" where
  "condition_in v = (case as_string v of Some c \<Rightarrow> c | None \<Rightarrow> service_started)"

definition condition_of :: "yaml \<Rightarrow> string" where
  "condition_of v =
     (case v of YString c \<Rightarrow> c | YMap m \<Rightarrow> condition_in (map_of m ''condition'') | _ \<Rightarrow> service_started)"

definition any_condition_of :: "yaml \<Rightarrow> string" where
  "any_condition_of v =
     (case v of YString c \<Rightarrow> c | YAnyMap m \<Rightarrow> condition_in (map_of m (YString ''condition'')) | _ \<Rightarrow> service_started)"

definition parse_compose_depends_on :: "yaml \<Rightarrow> string smap" where
  "parse_compose_depends_on d =
     (case d of
        YList items \<Rightarrow> foldl put_dependency [] items
      | YMap kvs \<Rightarrow> foldl (\<lambda>m (k, v). aput k (condition_of v) m) [] kvs
      | YAnyMap kvs \<Rightarrow> foldl (\<lambda>m (k, v). aput (yaml_str k) (any_condition_of v) m) [] kvs
      | _ \<Rightarrow> [])"

text \<open>Of several networks the first is taken, in a map the one the \<open>range\<close> visits first.\<close>

definition compose_network_name :: "yaml \<Rightarrow> string" where
  "compose_network_name v =
     (case v of
        YList (n # _) \<Rightarrow> yaml_str n | YMap ((n, _) # _) \<Rightarrow> n | YAnyMap ((n, _) # _) \<Rightarrow> yaml_str n | _ \<Rightarrow> [])"

section \<open>Volumes\<close>

definition compose_volume :: "yaml \<Rightarrow> string list" where
  "compose_volume v =
     (case v of
        YString s \<Rightarrow> [s]
      | YMap m \<Rightarrow>
          let str = (\<lambda>k. case as_string (map_of m k) of Some s \<Rightarrow> s | None \<Rightarrow> []);
              src = (if str ''source'' = [] then str ''src'' else str ''source''); tgt = str ''target'' in
          if src \<noteq> [] \<and> tgt \<noteq> []
          then [src @ '':'' @ tgt @ (if map_of m ''read_only'' = Some (YBool True) then '':ro'' else [])]
          else []
      | _ \<Rightarrow> [])"

section \<open>Secrets and configs\<close>

text \<open>
  A reference in its long form; the mode is only read from a floating point number, since an
  integer is an \<open>int\<close> in the decoded document, never a \<open>uint32\<close>.
\<close>

definition parse_mode :: "yaml option \<Rightarrow> nat" where
  "parse_mode v = (case v of Some (YFloat m e) \<Rightarrow> float_uint32 m e | _ \<Rightarrow> 0)"

definition file_ref_of :: "yaml \<Rightarrow> file_ref list" where
  "file_ref_of item =
     (case item of
        YString s \<Rightarrow> [\<lparr>fr_source = s, fr_target = [], fr_uid = [], fr_gid = [], fr_mode = 0\<rparr>]
      | YMap m \<Rightarrow>
          if get_string m ''source'' = [] then []
          else [\<lparr>fr_source = get_string m ''source'', fr_target = get_string m ''target'', fr_uid = get_string m ''uid'',
                 fr_gid = get_string m ''gid'', fr_mode = parse_mode (map_of m ''mode'')\<rparr>]
      | _ \<Rightarrow> [])"

text \<open>The target and the mode of a reference whose file is known.\<close>

definition resolve_ref :: "string \<Rightarrow> file_spec smap \<Rightarrow> file_ref \<Rightarrow> file_ref" where
  "resolve_ref dir specs r =
     (case map_of specs (fr_source r) of
        None \<Rightarrow> r
      | Some spec \<Rightarrow>
          if fsp_file spec = [] then r
          else r\<lparr>fr_target := (if fr_target r = [] then dir @ fr_source r else fr_target r),
                 fr_mode := (if fr_mode r = 0 then 292 else fr_mode r)\<rparr>)"

definition parse_file_refs :: "string \<Rightarrow> yaml \<Rightarrow> file_spec smap \<Rightarrow> file_ref list" where
  "parse_file_refs dir raw specs =
     (case raw of YList items \<Rightarrow> map (resolve_ref dir specs) (concat (map file_ref_of items)) | _ \<Rightarrow> [])"

definition parse_compose_secrets :: "yaml \<Rightarrow> file_spec smap \<Rightarrow> file_ref list" where
  "parse_compose_secrets = parse_file_refs ''/run/secrets/''"

definition parse_compose_configs :: "yaml \<Rightarrow> file_spec smap \<Rightarrow> file_ref list" where
  "parse_compose_configs = parse_file_refs ''/''"

section \<open>The deploy section\<close>

text \<open>\<open>Sscanf\<close> with \<open>%f\<close>: sign, digits with a point, exponent; nothing read leaves 0.\<close>

definition scan_exponent :: "string \<Rightarrow> int" where
  "scan_exponent s =
     (case s of
        [] \<Rightarrow> 0
      | c # r \<Rightarrow> if c = CHR ''e'' \<or> c = CHR ''E'' then (case scan_int r of None \<Rightarrow> 0 | Some x \<Rightarrow> x) else 0)"

definition scan_float :: "string \<Rightarrow> cpus" where
  "scan_float s0 =
     (let s1 = skip_blanks s0; neg = has_prefix s1 ''-'';
          s2 = (if neg \<or> has_prefix s1 ''+'' then tl s1 else s1);
          whole = takeWhile is_digit s2; s3 = dropWhile is_digit s2;
          frac = (if has_prefix s3 ''.'' then takeWhile is_digit (tl s3) else []);
          s4 = (if has_prefix s3 ''.'' then dropWhile is_digit (tl s3) else s3);
          digits = whole @ frac; v = int (digits_val digits) in
      if digits = [] then (0, 0) else (if neg then - v else v, scan_exponent s4 - int (length frac)))"

definition parse_cpus :: "yaml \<Rightarrow> cpus" where
  "parse_cpus v = (case v of YFloat m e \<Rightarrow> (m, e) | YInt i \<Rightarrow> (i, 0) | YString s \<Rightarrow> scan_float s | _ \<Rightarrow> (0, 0))"

definition resource_spec_of :: "resource_spec_raw \<Rightarrow> resource_spec" where
  "resource_spec_of r = \<lparr>rs_cpus = parse_cpus (rr_cpus r), rs_memory = rr_memory r\<rparr>"

definition parse_deploy_config :: "compose_deploy \<Rightarrow> deploy_config" where
  "parse_deploy_config d =
     \<lparr>dc_replicas = cd_replicas d, dc_mode = cd_mode d,
      dc_resources = map_option (\<lambda>r. \<lparr>rc_limits = map_option resource_spec_of (cr_limits r),
                                      rc_reservations = map_option resource_spec_of (cr_reservations r)\<rparr>) (cd_resources d),
      dc_restart = cd_restart d, dc_update = cd_update d, dc_placement = cd_placement d\<rparr>"

text \<open>What a deploy section adds to a container's configuration.\<close>

definition apply_deploy :: "compose_deploy option \<Rightarrow> container_config \<Rightarrow> container_config" where
  "apply_deploy d0 kc =
     (case d0 of
        None \<Rightarrow> kc
      | Some d \<Rightarrow>
          kc\<lparr>kc_deploy := Some (parse_deploy_config d),
             kc_restart_delay := (case cd_restart d of
                Some p \<Rightarrow> if kc_restart_delay kc = [] then pol_delay p else kc_restart_delay kc
              | None \<Rightarrow> kc_restart_delay kc),
             kc_replicas := (if cd_replicas d > 0 then cd_replicas d else kc_replicas kc),
             kc_memory := (case cd_resources d of
                Some r \<Rightarrow> (case cr_limits r of
                  Some l \<Rightarrow> if rr_memory l \<noteq> [] \<and> kc_memory kc = [] then rr_memory l else kc_memory kc
                | None \<Rightarrow> kc_memory kc)
              | None \<Rightarrow> kc_memory kc)\<rparr>)"

section \<open>A whole file\<close>

definition service_network :: "compose_service \<Rightarrow> string" where
  "service_network s = (if cs_network_mode s = [] then compose_network_name (cs_networks s) else cs_network_mode s)"

definition container_of :: "compose_file \<Rightarrow> compose_service \<Rightarrow> container_config" where
  "container_of cf s =
     apply_deploy (cs_deploy s)
       \<lparr>kc_image = cs_image s, kc_command = parse_compose_command (cs_command s), kc_ports = map normalize_port (cs_ports s),
        kc_volumes = concat (map compose_volume (cs_volumes s)), kc_env = parse_compose_env (cs_environment s),
        kc_env_file = parse_compose_env_file (cs_env_file s), kc_restart = normalize_restart (cs_restart s),
        kc_restart_delay = cs_restart_delay s,
        kc_hostname = (if cs_container_name s \<noteq> [] then cs_container_name s else cs_hostname s),
        kc_memory = (if cs_memory s = [] then cs_mem_limit s else cs_memory s), kc_cpus = cs_cpus s,
        kc_workdir = cs_working_dir s, kc_health = map_option parse_compose_healthcheck (cs_healthcheck s),
        kc_entrypoint = parse_compose_command (cs_entrypoint s), kc_network_mode = service_network s,
        kc_network = service_network s, kc_labels = cs_labels s, kc_cap_add = cs_cap_add s,
        kc_cap_drop = cs_cap_drop s, kc_user = cs_user s, kc_readonly = cs_read_only s, kc_no_new_privs = False,
        kc_sysctls = cs_sysctls s,
        kc_ulimits = map (\<lambda>(n, soft, hard). (n, int_str soft @ '':'' @ int_str hard)) (cs_ulimits s),
        kc_dns = to_string_slice (cs_dns s), kc_replicas = 0, kc_deploy = None,
        kc_secrets = parse_compose_secrets (cs_secrets s) (cf_secrets cf),
        kc_configs = parse_compose_configs (cs_configs s) (cf_configs cf),
        kc_depends_on = parse_compose_depends_on (cs_depends_on s)\<rparr>"

definition compose_config :: "compose_file \<Rightarrow> config" where
  "compose_config cf =
     \<lparr>cfg_secrets = cf_secrets cf, cfg_configs = cf_configs cf,
      cfg_containers = map (\<lambda>(n, s). (n, container_of cf s)) (cf_services cf)\<rparr>"

section \<open>Finding the file\<close>

datatype config_err = ReadCompose | ParseYaml | ParseToml | NeitherTomlNorYaml string | NoConfigFile

text \<open>
  The files: which paths exist, what reading one and decoding it as YAML or as TOML gives.
\<close>

record config_files =
  fi_exists :: "string \<Rightarrow> bool"
  fi_read :: "string \<Rightarrow> string option"
  fi_yaml :: "string \<Rightarrow> compose_file option"
  fi_toml :: "string \<Rightarrow> config option"
  fi_home :: string

definition load_compose :: "config_files \<Rightarrow> string \<Rightarrow> config_err + config" where
  "load_compose fi path =
     (case fi_read fi path of
        None \<Rightarrow> Inl ReadCompose
      | Some text \<Rightarrow> (case fi_yaml fi text of None \<Rightarrow> Inl ParseYaml | Some cf \<Rightarrow> Inr (compose_config cf)))"

definition load_toml :: "config_files \<Rightarrow> string \<Rightarrow> config_err + config" where
  "load_toml fi path = (case Option.bind (fi_read fi path) (fi_toml fi) of None \<Rightarrow> Inl ParseToml | Some c \<Rightarrow> Inr c)"

definition try_load :: "config_files \<Rightarrow> string \<Rightarrow> config_err + config" where
  "try_load fi path =
     (if has_suffix path ''.toml'' then load_toml fi path
      else if has_suffix path ''.yaml'' \<or> has_suffix path ''.yml'' then load_compose fi path
      else case load_toml fi path of
        Inr c \<Rightarrow> Inr c
      | Inl _ \<Rightarrow> (case load_compose fi path of Inr c \<Rightarrow> Inr c | Inl _ \<Rightarrow> Inl (NeitherTomlNorYaml path)))"

definition config_candidates :: "config_files \<Rightarrow> string list" where
  "config_candidates fi =
     [''dck.toml'', ''compose.yaml'', ''compose.yml'', ''docker-compose.yaml'', ''docker-compose.yml'']
     @ (if fi_home fi \<noteq> [] then [fi_home fi @ ''/.dck/dck.toml''] else [])"

text \<open>The configuration and the path it was found at.\<close>

definition load_config_or_compose :: "config_files \<Rightarrow> string \<Rightarrow> (config_err + config) \<times> string" where
  "load_config_or_compose fi path =
     (if path \<noteq> [] then (try_load fi path, path)
      else case find (fi_exists fi) (config_candidates fi) of
        Some p \<Rightarrow> (try_load fi p, p)
      | None \<Rightarrow> (Inl NoConfigFile, []))"

end
