(* ===== verification/UpOrder.thy ===== *)
theory UpOrder
  imports ComposeFile Prelude "HOL-Library.Multiset"
begin

text \<open>
  The order in which \<open>dck up\<close> starts services (\<open>cmd/up.go\<close>): the transitive dependencies of a
  service and Kahn's algorithm with a sorted queue. The maps of the code are association lists in
  the order a \<open>range\<close> visits them.
\<close>

section \<open>Dependencies\<close>

type_synonym containers = "container_config smap"

text \<open>The keys of \<open>services[name].DependsOn\<close>; a name that is no service has none.\<close>

definition deps_of :: "containers \<Rightarrow> string \<Rightarrow> string list" where
  "deps_of svcs n = (case map_of svcs n of None \<Rightarrow> [] | Some kc \<Rightarrow> map fst (kc_depends_on kc))"

definition all_deps :: "containers \<Rightarrow> string set" where
  "all_deps svcs = (\<Union>(n, kc) \<in> set svcs. fst ` set (kc_depends_on kc))"

lemma finite_all_deps [simp]: "finite (all_deps svcs)"
  by (auto simp: all_deps_def)

lemma deps_of_all:
  assumes "d \<in> set (deps_of svcs n)"
  shows "d \<in> all_deps svcs"
proof -
  obtain kc where kc: "map_of svcs n = Some kc" "d \<in> fst ` set (kc_depends_on kc)"
    using assms by (cases "map_of svcs n") (auto simp: deps_of_def)
  from map_of_SomeD [OF kc(1)] kc(2) show ?thesis by (auto simp: all_deps_def intro: bexI [of _ "(n, kc)"])
qed

text \<open>
  \<open>collectDeps\<close>: the recursion over the dependencies of a service and of theirs, with the names
  still to look at in one list. A name found in the map is passed over.
\<close>

function collect_deps :: "containers \<Rightarrow> string list \<Rightarrow> string list \<Rightarrow> string list" where
  "collect_deps svcs [] collected = collected"
| "collect_deps svcs (d # ds) collected =
     (if d \<in> set collected then collect_deps svcs ds collected
      else collect_deps svcs (deps_of svcs d @ ds) (collected @ [d]))"
  by pat_completeness auto
termination
proof (relation "measures [\<lambda>(svcs, ds, col). card ((all_deps svcs \<union> fst ` set svcs) - set col), \<lambda>(svcs, ds, col). length ds]", goal_cases)
  case (3 svcs d ds col)
  show ?case
  proof (cases "d \<in> all_deps svcs \<union> fst ` set svcs")
    case True
    then have "card ((all_deps svcs \<union> fst ` set svcs) - set (col @ [d])) < card ((all_deps svcs \<union> fst ` set svcs) - set col)"
      using 3 by (intro psubset_card_mono) auto
    then show ?thesis by simp
  next
    case False
    then have "map_of svcs d = None" by (simp add: map_of_eq_None_iff)
    then have "deps_of svcs d = []" by (simp add: deps_of_def)
    moreover have "(all_deps svcs \<union> fst ` set svcs) - set (col @ [d]) = (all_deps svcs \<union> fst ` set svcs) - set col"
      using False by auto
    ultimately show ?thesis by (auto simp del: set_append)
  qed
qed auto

text \<open>The names of an \<open>up\<close> that may be restricted to one service and what it needs.\<close>

definition up_names :: "containers \<Rightarrow> string \<Rightarrow> string list" where
  "up_names svcs only =
     (let names = filter (\<lambda>n. only = [] \<or> n = only) (map fst svcs) in
      if only = [] then names else collect_deps svcs (deps_of svcs only) names)"

section \<open>Kahn's algorithm\<close>

type_synonym degrees = "int smap"
type_synonym dependents = "string list smap"

definition degree :: "degrees \<Rightarrow> string \<Rightarrow> int" where
  "degree d n = (case map_of d n of None \<Rightarrow> 0 | Some i \<Rightarrow> i)"

definition dependents_of :: "dependents \<Rightarrow> string \<Rightarrow> string list" where
  "dependents_of g n = (case map_of g n of None \<Rightarrow> [] | Some ns \<Rightarrow> ns)"

text \<open>The edges of one service: only dependencies that are to be started count.\<close>

fun add_edges :: "string list \<Rightarrow> string \<Rightarrow> string list \<Rightarrow> degrees \<times> dependents \<Rightarrow> degrees \<times> dependents" where
  "add_edges names n [] dg = dg"
| "add_edges names n (dep # ds) (d, g) =
     (if dep \<in> set names
      then add_edges names n ds (aput n (degree d n + 1) d, aput dep (dependents_of g dep @ [n]) g)
      else add_edges names n ds (d, g))"

fun build_graph :: "containers \<Rightarrow> string list \<Rightarrow> string list \<Rightarrow> degrees \<times> dependents \<Rightarrow> degrees \<times> dependents" where
  "build_graph svcs names [] dg = dg"
| "build_graph svcs names (n # ns) dg = build_graph svcs names ns (add_edges names n (deps_of svcs n) dg)"

text \<open>One dependent after the other loses a dependency and joins the queue when it has none left.\<close>

fun release :: "string list \<Rightarrow> degrees \<Rightarrow> string list \<Rightarrow> degrees \<times> string list" where
  "release [] d q = (d, q)"
| "release (n # ns) d q =
     (let d1 = aput n (degree d n - 1) d in release ns d1 (if degree d1 n = 0 then q @ [n] else q))"

definition waiting :: "degrees \<Rightarrow> nat" where
  "waiting d = card {n \<in> fst ` set d. 0 < degree d n}"

lemma degree_aput [simp]: "degree (aput n i d) m = (if m = n then i else degree d m)"
  by (simp add: degree_def)

lemma release_waiting: "release ns d q = (d1, q1) \<Longrightarrow> length q1 + waiting d1 \<le> length q + waiting d"
proof (induction ns arbitrary: d q)
  case (Cons n ns)
  let ?d = "aput n (degree d n - 1) d" and ?q = "if degree d n = 1 then q @ [n] else q"
  have le: "length q1 + waiting d1 \<le> length ?q + waiting ?d"
    using Cons.prems by (intro Cons.IH) (simp add: Let_def split: if_splits)
  have sub: "{m \<in> fst ` set ?d. 0 < degree ?d m} \<subseteq> {m \<in> fst ` set d. 0 < degree d m}"
    by (auto split: if_splits) (auto simp: degree_def split: option.splits dest!: map_of_SomeD intro: rev_image_eqI)
  have fin: "finite {m \<in> fst ` set d. 0 < degree d m}" by simp
  have "length ?q + waiting ?d \<le> length q + waiting d"
  proof (cases "degree d n = 1")
    case True
    then have "map_of d n = Some 1" by (auto simp: degree_def split: option.splits)
    then have "n \<in> {m \<in> fst ` set d. 0 < degree d m}" using True by (force dest: map_of_SomeD)
    moreover have "n \<notin> {m \<in> fst ` set ?d. 0 < degree ?d m}" using True by simp
    ultimately have "waiting ?d < waiting d"
      unfolding waiting_def using sub by (intro psubset_card_mono [OF fin]) blast
    then show ?thesis using True by simp
  next
    case False
    then show ?thesis using card_mono [OF fin sub] by (simp add: waiting_def)
  qed
  with le show ?case by simp
qed simp

text \<open>The main loop; every round either empties the queue by one or lets a service wait no longer.\<close>

function kahn_loop :: "dependents \<Rightarrow> string list \<Rightarrow> degrees \<Rightarrow> string list \<Rightarrow> string list" where
  "kahn_loop g [] d res = res"
| "kahn_loop g (n # q) d res =
     (case release (dependents_of g n) d q of (d1, q1) \<Rightarrow> kahn_loop g (sort q1) d1 (res @ [n]))"
  by pat_completeness auto
termination
  by (relation "measure (\<lambda>(g, q, d, res). length q + waiting d)") (auto dest!: release_waiting [OF sym])

definition sort_by_dependencies :: "containers \<Rightarrow> string \<Rightarrow> string list" where
  "sort_by_dependencies svcs only =
     (let names = up_names svcs only;
          (d, g) = build_graph svcs names names (map (\<lambda>n. (n, 0)) names, []);
          res = kahn_loop g (sort (filter (\<lambda>n. degree d n = 0) names)) d [] in
      res @ filter (\<lambda>n. n \<notin> set res) names)"

end
