(* ===== verification/Ipv4.thy ===== *)
theory Ipv4
  imports GoStrings "HOL-Library.Word" "HOL-Library.Code_Target_Nat"
begin

unbundle bit_operations_syntax

text \<open>
  The part of Go's package \<open>net\<close> the networks rely on, for IPv4: an address is a 32-bit word,
  a network an address and a prefix length. \<open>ParseCIDR\<close> also reads IPv6; the code refuses such a
  network (\<open>To4\<close> is nil), so here it does not parse.
\<close>

type_synonym ipv4 = "32 word"
type_synonym cidr = "ipv4 \<times> nat"

section \<open>Addresses\<close>

definition parse_octet :: "string \<Rightarrow> nat option" where
  "parse_octet s =
     (case parse_digits s of
        None \<Rightarrow> None
      | Some n \<Rightarrow> if (length s > 1 \<and> hd s = CHR ''0'') \<or> n > 255 then None else Some n)"

fun ip_of_octets :: "nat list \<Rightarrow> ipv4" where
  "ip_of_octets os = word_of_nat (foldl (\<lambda>v b. 256 * v + b) 0 os)"

definition parse_ipv4 :: "string \<Rightarrow> ipv4 option" where
  "parse_ipv4 s =
     (let os = map parse_octet (split_byte (CHR ''.'') s) in
      if length os = 4 \<and> None \<notin> set os then Some (ip_of_octets (map the os)) else None)"

definition octet :: "nat \<Rightarrow> ipv4 \<Rightarrow> nat" where
  "octet i x = unat x div 2 ^ (8 * i) mod 256"

definition ip_string :: "ipv4 \<Rightarrow> string" where
  "ip_string x = str_join ''.'' (map (\<lambda>i. nat_str (octet i x)) [3, 2, 1, 0])"

lemma octet_less: "octet i x \<le> 255"
proof -
  have "octet i x < 256" unfolding octet_def by (rule mod_less_divisor) simp
  then show ?thesis by simp
qed

lemma parse_octet_nat_str: "n \<le> 255 \<Longrightarrow> parse_octet (nat_str n) = Some n"
  using nat_str_no_leading_zero [of n] nat_str_small [of n]
  by (cases "n < 10") (simp_all add: parse_octet_def)

lemma octets_sum:
  assumes "n < 2 ^ 32"
  shows "256 * (256 * (256 * (n div 2 ^ 24 mod 256) + n div 2 ^ 16 mod 256) + n div 2 ^ 8 mod 256)
    + n mod 256 = (n :: nat)"
proof -
  have a: "n div 2 ^ 8 = n div 256" "n div 2 ^ 16 = n div 256 div 256"
    "n div 2 ^ 24 = n div 256 div 256 div 256"
    by (simp_all add: div_mult2_eq [symmetric])
  have "n div 256 div 256 div 256 < 256"
    using assms by (simp add: div_mult2_eq [symmetric] less_mult_imp_div_less)
  then have b: "n div 256 div 256 div 256 mod 256 = n div 256 div 256 div 256" by simp
  have c: "256 * (m div 256) + m mod 256 = m" for m :: nat by simp
  show ?thesis
    unfolding a b c by (rule refl)
qed

lemma unat_less: "unat (x :: ipv4) < 2 ^ 32"
  by (rule order.strict_trans2 [OF unsigned_less]) simp

lemma ip_of_octets_four: "ip_of_octets [a, b, c, d] = word_of_nat (256 * (256 * (256 * a + b) + c) + d)"
  by simp

lemma octet_parts:
  "octet 3 x = unat x div 2 ^ 24 mod 256" "octet 2 x = unat x div 2 ^ 16 mod 256"
  "octet 1 x = unat x div 2 ^ 8 mod 256" "octet 0 x = unat x mod 256"
  by (simp_all add: octet_def)

lemma parse_ip_string [simp]: "parse_ipv4 (ip_string x) = Some x"
proof -
  have dot: "CHR ''.'' \<notin> set (nat_str n)" for n
    using nat_str_chars [of "CHR ''.''" n] by (auto simp: is_digit_def)
  have "split_byte (CHR ''.'') (ip_string x) = map (\<lambda>i. nat_str (octet i x)) [3, 2, 1, 0]"
    unfolding ip_string_def by (rule split_join) (simp_all add: dot)
  then have "parse_ipv4 (ip_string x) = Some (ip_of_octets (map (\<lambda>i. octet i x) [3, 2, 1, 0]))"
    by (simp add: parse_ipv4_def Let_def parse_octet_nat_str octet_less)
  moreover have "ip_of_octets (map (\<lambda>i. octet i x) [3, 2, 1, 0]) = x"
    using octets_sum [OF unat_less [of x]] by (simp only: ip_of_octets_four list.map octet_parts of_nat_unat ucast_id)
  ultimately show ?thesis by simp
qed

lemma ip_string_inject [simp]: "ip_string x = ip_string y \<longleftrightarrow> x = y"
  by (metis option.inject parse_ip_string)

section \<open>Networks\<close>

definition cidr_mask :: "nat \<Rightarrow> ipv4" where
  "cidr_mask p = push_bit (32 - p) (- 1)"

definition parse_cidr :: "string \<Rightarrow> (ipv4 \<times> cidr) option" where
  "parse_cidr s =
     (case index_byte s (CHR ''/'') of
        None \<Rightarrow> None
      | Some i \<Rightarrow>
          (case parse_ipv4 (take i s) of
             None \<Rightarrow> None
           | Some x \<Rightarrow>
               (case parse_digits (drop (Suc i) s) of
                  None \<Rightarrow> None
                | Some p \<Rightarrow> if p > 32 then None else Some (x, x AND cidr_mask p, p))))"

definition cidr_string :: "cidr \<Rightarrow> string" where
  "cidr_string c = ip_string (fst c) @ ''/'' @ nat_str (snd c)"

definition cidr_contains :: "cidr \<Rightarrow> ipv4 \<Rightarrow> bool" where
  "cidr_contains c x \<longleftrightarrow> x AND cidr_mask (snd c) = fst c AND cidr_mask (snd c)"

text \<open>A network as \<open>ParseCIDR\<close> yields it: the host bits are clear.\<close>

definition wf_cidr :: "cidr \<Rightarrow> bool" where
  "wf_cidr c \<longleftrightarrow> snd c \<le> 32 \<and> fst c AND cidr_mask (snd c) = fst c"

lemma bit_cidr_mask: "bit (cidr_mask p) i \<longleftrightarrow> 32 - p \<le> i \<and> i < 32"
  by (auto simp: cidr_mask_def bit_simps)

lemma cidr_mask_absorb: "p \<le> q \<Longrightarrow> cidr_mask q AND cidr_mask p = cidr_mask p"
  by (rule bit_eqI) (auto simp: bit_cidr_mask bit_simps)

lemma wf_parse_cidr: "parse_cidr s = Some (x, c) \<Longrightarrow> wf_cidr c \<and> cidr_contains c x"
  by (auto simp: parse_cidr_def wf_cidr_def cidr_contains_def and.assoc split: option.splits if_splits)

lemma parse_cidr_string:
  assumes "wf_cidr c"
  shows "parse_cidr (cidr_string c) = Some (fst c, c)"
proof -
  have "(CHR ''/'') \<notin> set (ip_string (fst c))"
    using nat_str_chars [of "CHR ''/''"] by (auto simp: ip_string_def is_digit_def)
  then have "index_byte (cidr_string c) (CHR ''/'') = Some (length (ip_string (fst c)))"
    using index_byte_append [of "CHR ''/''" "ip_string (fst c)"] by (simp add: cidr_string_def)
  then show ?thesis
    using assms by (cases c) (simp add: parse_cidr_def cidr_string_def wf_cidr_def)
qed

text \<open>Two networks share an address exactly when one contains the other's base address.\<close>

lemma cidr_overlap_iff:
  assumes "wf_cidr c" "wf_cidr d"
  shows "(\<exists>x. cidr_contains c x \<and> cidr_contains d x)
    \<longleftrightarrow> cidr_contains c (fst d) \<or> cidr_contains d (fst c)"
proof
  assume "\<exists>x. cidr_contains c x \<and> cidr_contains d x"
  then obtain x where x: "x AND cidr_mask (snd c) = fst c" "x AND cidr_mask (snd d) = fst d"
    using assms by (auto simp: cidr_contains_def wf_cidr_def)
  show "cidr_contains c (fst d) \<or> cidr_contains d (fst c)"
  proof (cases "snd c \<le> snd d")
    case True
    have "fst d AND cidr_mask (snd c) = x AND (cidr_mask (snd d) AND cidr_mask (snd c))"
      by (simp add: x(2) [symmetric] and.assoc)
    then show ?thesis
      using cidr_mask_absorb [OF True] x(1) assms(1) by (simp add: cidr_contains_def wf_cidr_def)
  next
    case False
    then have le: "snd d \<le> snd c" by simp
    have "fst c AND cidr_mask (snd d) = x AND (cidr_mask (snd c) AND cidr_mask (snd d))"
      by (simp add: x(1) [symmetric] and.assoc)
    then show ?thesis
      using cidr_mask_absorb [OF le] x(2) assms(2) by (simp add: cidr_contains_def wf_cidr_def)
  qed
next
  assume "cidr_contains c (fst d) \<or> cidr_contains d (fst c)"
  then show "\<exists>x. cidr_contains c x \<and> cidr_contains d x"
    by (auto simp: cidr_contains_def)
qed

lemma and_mask_parts: "x AND cidr_mask p = push_bit (32 - p) (drop_bit (32 - p) x)"
  by (rule bit_eqI) (auto simp: bit_cidr_mask bit_simps)

lemma unat_and_mask:
  "unat (x AND cidr_mask p) = 2 ^ (32 - p) * (unat x div 2 ^ (32 - p))"
proof -
  let ?k = "32 - p"
  have le: "2 ^ ?k * (unat x div 2 ^ ?k) \<le> unat x" by (simp add: mult.commute)
  have "unat (push_bit ?k (drop_bit ?k x)) = take_bit 32 (2 ^ ?k * (unat x div 2 ^ ?k))"
    unfolding unsigned_push_bit_eq unsigned_drop_bit_eq
    using unat_less [of x] by (simp add: push_bit_eq_mult drop_bit_eq_div mult.commute take_bit_nat_eq_self)
  then show ?thesis
    using order.strict_trans1 [OF le unat_less [of x]] by (simp add: and_mask_parts take_bit_nat_eq_self)
qed

text \<open>A host offset below the size of the network stays in it, without wrap-around.\<close>

lemma cidr_host:
  assumes "wf_cidr c" "h < 2 ^ (32 - snd c)"
  shows "cidr_contains c (fst c + word_of_nat h)" "unat (fst c + word_of_nat h) = unat (fst c) + h"
proof -
  let ?k = "32 - snd c"
  have b: "unat (fst c) = 2 ^ ?k * (unat (fst c) div 2 ^ ?k)"
    using unat_and_mask [of "fst c" "snd c"] assms(1) by (simp add: wf_cidr_def)
  then obtain q where q: "unat (fst c) = 2 ^ ?k * q" by blast
  have "2 ^ ?k * q < (2::nat) ^ ?k * 2 ^ snd c"
    using unat_less [of "fst c"] q assms(1)
    by (simp add: wf_cidr_def power_add [symmetric])
  then have "q < 2 ^ snd c" by simp
  then have "2 ^ ?k * (q + 1) \<le> (2::nat) ^ ?k * 2 ^ snd c" by (intro mult_le_mono2) simp
  then have lt: "unat (fst c) + h < 2 ^ 32"
    using q assms by (simp add: wf_cidr_def power_add [symmetric] algebra_simps)
  show u: "unat (fst c + word_of_nat h) = unat (fst c) + h"
    using lt by (simp add: unsigned_of_nat unat_word_ariths(1) take_bit_nat_eq_self)
  have "unat ((fst c + word_of_nat h) AND cidr_mask (snd c)) = unat (fst c)"
    using assms(2) unfolding unat_and_mask u q by simp
  then have "(fst c + word_of_nat h) AND cidr_mask (snd c) = fst c" by (rule unsigned_word_eqI [where 'a = nat])
  then show "cidr_contains c (fst c + word_of_nat h)"
    using assms(1) by (simp add: cidr_contains_def wf_cidr_def)
qed

end
