(* ===== verification/Leases.thy ===== *)
theory Leases
  imports Prelude
begin

text \<open>
  The contract between the code that starts containers and the address allocators: what
  allocating and releasing promise, and what follows for the containers that hold an address.
  Both the built-in bridge's pool and the user networks are instances.
\<close>

text \<open>
  \<open>'o\<close> is the outcome of persisting a step, which the caller cannot choose. An error may leave an
  address marked as used (the file was replaced before the error), and a release whose save
  failed may leave it marked: neither ever frees the address of another container.
\<close>

datatype ('o, 'c) lease_event = Acquire 'o 'c | Drop 'o 'c

text \<open>
  The containers' side: a container that gets an address holds it until it is dropped; one that
  already holds an address does not ask again.
\<close>

fun lease_step ::
  "('o \<Rightarrow> 's \<Rightarrow> ('e + 'a) \<times> 's) \<Rightarrow> ('o \<Rightarrow> 'a \<Rightarrow> 's \<Rightarrow> 's) \<Rightarrow> ('o, 'c) lease_event
    \<Rightarrow> 's \<times> ('c \<rightharpoonup> 'a) \<Rightarrow> 's \<times> ('c \<rightharpoonup> 'a)" where
  "lease_step alloc release (Acquire w c) (s, m) =
     (if m c \<noteq> None then (s, m)
      else case alloc w s of
        (Inl e, s') \<Rightarrow> (s', m)
      | (Inr a, s') \<Rightarrow> (s', m(c \<mapsto> a)))"
| "lease_step alloc release (Drop w c) (s, m) =
     (case m c of None \<Rightarrow> (s, m) | Some a \<Rightarrow> (release w a s, m(c := None)))"

definition lease_run ::
  "('o \<Rightarrow> 's \<Rightarrow> ('e + 'a) \<times> 's) \<Rightarrow> ('o \<Rightarrow> 'a \<Rightarrow> 's \<Rightarrow> 's) \<Rightarrow> ('o, 'c) lease_event list
    \<Rightarrow> 's \<times> ('c \<rightharpoonup> 'a) \<Rightarrow> 's \<times> ('c \<rightharpoonup> 'a)" where
  "lease_run alloc release es st = fold (lease_step alloc release) es st"

locale ip_allocator =
  fixes inv :: "'s \<Rightarrow> bool"
    and used :: "'s \<Rightarrow> 'a set"
    and usable :: "'a set"
    and alloc :: "'o \<Rightarrow> 's \<Rightarrow> ('e + 'a) \<times> 's"
    and release :: "'o \<Rightarrow> 'a \<Rightarrow> 's \<Rightarrow> 's"
  assumes alloc_value: "inv s \<Longrightarrow> alloc w s = (Inr a, s')
      \<Longrightarrow> inv s' \<and> a \<in> usable \<and> a \<notin> used s \<and> used s' = insert a (used s)"
    and alloc_error: "inv s \<Longrightarrow> alloc w s = (Inl e, s') \<Longrightarrow> inv s' \<and> used s \<subseteq> used s'"
    and release_inv: "inv s \<Longrightarrow> inv (release w a s)"
    and release_used: "inv s \<Longrightarrow> used s - {a} \<subseteq> used (release w a s)"
begin

definition leases_ok :: "'s \<times> ('c \<rightharpoonup> 'a) \<Rightarrow> bool" where
  "leases_ok st \<longleftrightarrow> inv (fst st) \<and> ran (snd st) \<subseteq> used (fst st) \<inter> usable \<and> inj_on (snd st) (dom (snd st))"

lemma acquire_ok:
  assumes "leases_ok (s, m)" "m c = None" "alloc w s = (Inr a, s')"
  shows "leases_ok (s', m(c \<mapsto> a))"
proof -
  have a: "inv s'" "a \<in> usable" "a \<notin> used s" "used s' = insert a (used s)"
    using alloc_value assms unfolding leases_ok_def by auto
  moreover have "inj_on (m(c \<mapsto> a)) (dom (m(c \<mapsto> a)))"
    using assms(1,2) a(3) by (auto simp: leases_ok_def inj_on_def ran_def dom_def)
  ultimately show ?thesis using assms(1,2) by (auto simp: leases_ok_def)
qed

lemma drop_ok:
  assumes "leases_ok (s, m)" "m c = Some a"
  shows "leases_ok (release w a s, m(c := None))"
proof -
  have "inj_on (m(c := None)) (dom (m(c := None)))"
    using assms(1) by (auto simp: leases_ok_def inj_on_def dom_def)
  moreover have "a \<notin> ran (m(c := None))"
    using assms by (auto simp: leases_ok_def inj_on_def ran_def dom_def)
  moreover have "ran (m(c := None)) \<subseteq> ran m" by (auto simp: ran_def)
  ultimately show ?thesis
    using assms(1) release_inv [of s w a] release_used [of s a w] by (auto simp: leases_ok_def)
qed

lemma lease_step_ok: "leases_ok st \<Longrightarrow> leases_ok (lease_step alloc release e st)"
proof (cases st)
  fix s m
  assume ok: "leases_ok st" and st: "st = (s, m)"
  show ?thesis
  proof (cases e)
    case (Acquire w c)
    obtain r s' where r: "alloc w s = (r, s')" by fastforce
    show ?thesis
    proof (cases r)
      case (Inl e)
      then show ?thesis
        using ok st r Acquire alloc_error [of s w e s'] by (auto simp: leases_ok_def)
    next
      case (Inr a)
      then show ?thesis using ok st r Acquire acquire_ok [of s m c w a s'] by simp
    qed
  next
    case (Drop w c)
    then show ?thesis using ok st drop_ok [of s m c _ w] by (simp split: option.split)
  qed
qed

lemma lease_run_ok: "leases_ok st \<Longrightarrow> leases_ok (lease_run alloc release es st)"
  unfolding lease_run_def by (induction es arbitrary: st) (auto simp: lease_step_ok)

text \<open>No two containers hold the same address, and every address held is one of the network's.\<close>

lemma leases_unique:
  assumes "inv s" "lease_run alloc release es (s, Map.empty) = (s', m)"
  shows "(m c = Some a \<and> m d = Some a \<longrightarrow> c = d) \<and> (m c = Some a \<longrightarrow> a \<in> usable)"
proof -
  have "leases_ok (s', m)"
    using lease_run_ok [of "(s, Map.empty)" es] assms by (simp add: leases_ok_def)
  then show ?thesis by (auto simp: leases_ok_def inj_on_def dom_def ran_def)
qed

end

end
