(* ===== verification/UserNet.thy ===== *)
theory UserNet
  imports Ipv4 Leases AtomicWrite "HOL-Library.List_Lexorder" "HOL-Library.Char_ord"
begin

text \<open>
  User networks and address allocation (\<open>internal/network/user_network.go\<close>, and the pool of the
  built-in bridge in \<open>internal/network/network.go\<close>). The state of the user networks is the
  directory of their JSON files; every save has an outcome the caller cannot choose. SHA-256 in
  hexadecimal is the argument \<open>h\<close>.
\<close>

section \<open>The networks directory\<close>

record user_network =
  un_name :: string
  un_id :: string
  un_driver :: string
  un_subnet :: string
  un_gateway :: string
  un_bridge :: string
  un_allocated :: "(string \<times> bool) list"

datatype net_entry = NetJson user_network | BadJson | SubDir

type_synonym net_dir = "(string \<times> net_entry) list"

datatype net_err =
    InvalidName | NetNotFound | NetUnreadable | EmptySubnet | NotIpv4 | UnsupportedPrefix
  | NoGateway | AlreadyExists | OverlapsBridge | OverlapsNetwork string | SaveFailed
  | BadSubnet | PoolExhausted

definition bridge_cidr :: string where
  "bridge_cidr = ''10.0.2.0/24''"

definition is_alnum :: "char \<Rightarrow> bool" where
  "is_alnum c \<longleftrightarrow> is_digit c \<or> (65 \<le> (of_char c :: nat) \<and> (of_char c :: nat) \<le> 90)
     \<or> (97 \<le> (of_char c :: nat) \<and> (of_char c :: nat) \<le> 122)"

definition valid_network_name :: "string \<Rightarrow> bool" where
  "valid_network_name name \<longleftrightarrow>
     (case name of
        [] \<Rightarrow> False
      | c # cs \<Rightarrow> is_alnum c \<and> length cs \<le> 30 \<and> list_all (\<lambda>x. is_alnum x \<or> x \<in> set ''_.-'') cs)
     \<and> name \<notin> {''bridge'', ''host'', ''none'', ''ips''}"

definition network_file :: "string \<Rightarrow> string" where
  "network_file name = name @ ''.json''"

definition network_bridge_name :: "(string \<Rightarrow> string) \<Rightarrow> string \<Rightarrow> string" where
  "network_bridge_name h name = ''dckn-'' @ take 8 (h name)"

definition network_id :: "(string \<Rightarrow> string) \<Rightarrow> string \<Rightarrow> string" where
  "network_id h name = ''dckn-'' @ take 16 (h name)"

definition save_user_network :: "write_outcome \<Rightarrow> user_network \<Rightarrow> net_dir \<Rightarrow> net_dir" where
  "save_user_network w n dir =
     (if w = NotWritten then dir else aput (network_file (un_name n)) (NetJson n) dir)"

definition load_network :: "net_dir \<Rightarrow> string \<Rightarrow> net_err + user_network" where
  "load_network dir name =
     (if \<not> valid_network_name name then Inl InvalidName
      else case map_of dir (network_file name) of
        None \<Rightarrow> Inl NetNotFound
      | Some (NetJson n) \<Rightarrow> Inr n
      | Some _ \<Rightarrow> Inl NetUnreadable)"

definition list_entry :: "net_dir \<Rightarrow> string \<times> net_entry \<Rightarrow> user_network list" where
  "list_entry dir p =
     (if snd p = SubDir \<or> \<not> has_suffix (fst p) ''.json'' \<or> fst p = ''ips.json'' then []
      else case load_network dir (trim_suffix (fst p) ''.json'') of Inl _ \<Rightarrow> [] | Inr n \<Rightarrow> [n])"

definition list_networks :: "net_dir \<Rightarrow> user_network list" where
  "list_networks dir = sort_key un_name (concat (map (list_entry dir) (sort_key fst dir)))"

section \<open>Subnets\<close>

definition gateway_of :: "ipv4 \<Rightarrow> ipv4" where
  "gateway_of x = (x AND NOT 255) OR ((x + 1) AND 255)"

definition normalize_network_cidr :: "string \<Rightarrow> net_err + string \<times> string" where
  "normalize_network_cidr s =
     (if s = [] then Inl EmptySubnet
      else case parse_cidr s of
        None \<Rightarrow> Inl NotIpv4
      | Some (x, c) \<Rightarrow>
          if snd c < 16 \<or> snd c > 29 then Inl UnsupportedPrefix
          else
            let g = gateway_of (fst c) in
            if \<not> cidr_contains c g then Inl NoGateway
            else Inr (cidr_string c, ip_string g))"

definition cidr_overlaps :: "string \<Rightarrow> string \<Rightarrow> bool" where
  "cidr_overlaps l r =
     (case (parse_cidr l, parse_cidr r) of
        (Some (x, c), Some (y, d)) \<Rightarrow> cidr_contains c (fst d) \<or> cidr_contains d (fst c)
      | _ \<Rightarrow> True)"

definition subnet_candidate :: "nat \<Rightarrow> string" where
  "subnet_candidate n = ''10.0.'' @ nat_str n @ ''.0/24''"

definition next_network_subnet :: "net_dir \<Rightarrow> string" where
  "next_network_subnet dir =
     (let used = map un_subnet (list_networks dir) in
      case find (\<lambda>c. c \<notin> set used \<and> c \<noteq> bridge_cidr) (map subnet_candidate [10..<250]) of
        Some c \<Rightarrow> c
      | None \<Rightarrow> ''10.254.0.0/24'')"

definition cidr_prefix :: "string \<Rightarrow> string" where
  "cidr_prefix s = (case parse_cidr s of None \<Rightarrow> ''24'' | Some (x, c) \<Rightarrow> nat_str (snd c))"

section \<open>Creating a network\<close>

definition create_network ::
  "(string \<Rightarrow> string) \<Rightarrow> write_outcome \<Rightarrow> string \<Rightarrow> string \<Rightarrow> net_dir
    \<Rightarrow> (net_err + user_network) \<times> net_dir" where
  "create_network h w name subnet0 dir =
     (if \<not> valid_network_name name then (Inl InvalidName, dir)
      else if map_of dir (network_file name) \<noteq> None then (Inl AlreadyExists, dir)
      else
        let subnet = (if subnet0 = [] then next_network_subnet dir else subnet0) in
        case normalize_network_cidr subnet of
          Inl e \<Rightarrow> (Inl e, dir)
        | Inr (normalized, gateway) \<Rightarrow>
            if cidr_overlaps normalized bridge_cidr then (Inl OverlapsBridge, dir)
            else case find (\<lambda>x. cidr_overlaps normalized (un_subnet x)) (list_networks dir) of
              Some x \<Rightarrow> (Inl (OverlapsNetwork (un_name x)), dir)
            | None \<Rightarrow>
                let n = \<lparr>un_name = name, un_id = network_id h name, un_driver = ''bridge'',
                         un_subnet = normalized, un_gateway = gateway,
                         un_bridge = network_bridge_name h name, un_allocated = []\<rparr>;
                    dir' = save_user_network w n dir in
                if w = Written then (Inr n, dir') else (Inl SaveFailed, dir'))"

section \<open>Addresses of a user network\<close>

definition ipv4_add :: "ipv4 \<Rightarrow> nat \<Rightarrow> ipv4" where
  "ipv4_add base offset = base + word_of_nat offset"

definition is_allocated :: "(string \<times> bool) list \<Rightarrow> string \<Rightarrow> bool" where
  "is_allocated m ip \<longleftrightarrow> map_of m ip = Some True"

definition allocate_network_ip ::
  "write_outcome \<Rightarrow> string \<Rightarrow> net_dir \<Rightarrow> (net_err + string) \<times> net_dir" where
  "allocate_network_ip w name dir =
     (case load_network dir name of
        Inl e \<Rightarrow> (Inl e, dir)
      | Inr n \<Rightarrow>
          (case parse_cidr (un_subnet n) of
             None \<Rightarrow> (Inl BadSubnet, dir)
           | Some (x, c) \<Rightarrow>
               (case find (\<lambda>v. \<not> is_allocated (un_allocated n) v)
                   (map (\<lambda>host. ip_string (ipv4_add (fst c) host)) [2..<2 ^ (32 - snd c) - 1]) of
                  None \<Rightarrow> (Inl PoolExhausted, dir)
                | Some v \<Rightarrow>
                    let dir' = save_user_network w
                          (n\<lparr>un_allocated := aput v True (un_allocated n)\<rparr>) dir in
                    if w = Written then (Inr v, dir') else (Inl SaveFailed, dir'))))"

definition release_network_ip :: "write_outcome \<Rightarrow> string \<Rightarrow> string \<Rightarrow> net_dir \<Rightarrow> net_dir" where
  "release_network_ip w name ip dir =
     (case load_network dir name of
        Inl e \<Rightarrow> dir
      | Inr n \<Rightarrow> save_user_network w (n\<lparr>un_allocated := adel ip (un_allocated n)\<rparr>) dir)"

section \<open>The pool of the built-in bridge\<close>

text \<open>The pool in memory, and the one on disk that the next process starts from.\<close>

record ip_pool =
  pool_allocated :: "(string \<times> bool) list"
  pool_file :: "(string \<times> bool) list option"

definition load_pool :: "(string \<times> bool) list option \<Rightarrow> ip_pool" where
  "load_pool f = \<lparr>pool_allocated = (case f of None \<Rightarrow> [] | Some m \<Rightarrow> m), pool_file = f\<rparr>"

definition save_pool :: "write_outcome \<Rightarrow> ip_pool \<Rightarrow> ip_pool" where
  "save_pool w p = (if w = NotWritten then p else p\<lparr>pool_file := Some (pool_allocated p)\<rparr>)"

definition bridge_host :: "nat \<Rightarrow> ipv4" where
  "bridge_host i = ((case parse_cidr bridge_cidr of None \<Rightarrow> 0 | Some (x, c) \<Rightarrow> fst c) AND NOT 255)
     OR (word_of_nat i AND 255)"

definition allocate_ip :: "write_outcome \<Rightarrow> ip_pool \<Rightarrow> (net_err + string) \<times> ip_pool" where
  "allocate_ip w p =
     (case find (\<lambda>v. \<not> is_allocated (pool_allocated p) v)
         (map (\<lambda>i. ip_string (bridge_host i))
           [2..<2 ^ (32 - (case parse_cidr bridge_cidr of None \<Rightarrow> 0 | Some (x, c) \<Rightarrow> snd c)) - 1]) of
        None \<Rightarrow> (Inl PoolExhausted, p)
      | Some v \<Rightarrow>
          (Inr v, save_pool w (p\<lparr>pool_allocated := aput v True (pool_allocated p)\<rparr>)))"

definition release_ip :: "write_outcome \<Rightarrow> string \<Rightarrow> ip_pool \<Rightarrow> ip_pool" where
  "release_ip w ip p = save_pool w (p\<lparr>pool_allocated := adel ip (pool_allocated p)\<rparr>)"

end
