(* ===== verification/NetAlloc.thy ===== *)
theory NetAlloc
  imports UserNet
begin

text \<open>
  What the networks promise: an address handed out lies in its subnet, is not in use and is
  recorded; no two containers share one; user networks never overlap each other nor the
  built-in bridge.
\<close>

section \<open>Lookups after a save\<close>

lemma network_file_inject [simp]: "network_file a = network_file b \<longleftrightarrow> a = b"
  by (simp add: network_file_def)

lemma load_after_save:
  "valid_network_name (un_name n) \<Longrightarrow> w \<noteq> NotWritten
    \<Longrightarrow> load_network (save_user_network w n dir) name
      = (if name = un_name n then Inr n else load_network dir name)"
  by (auto simp: load_network_def save_user_network_def)

lemma save_not_written [simp]: "save_user_network NotWritten n dir = dir"
  by (simp add: save_user_network_def)

lemma load_valid: "load_network dir name = Inr n \<Longrightarrow> valid_network_name name"
  by (auto simp: load_network_def split: if_splits)

section \<open>Addresses of a user network\<close>

definition used_ips :: "string \<Rightarrow> net_dir \<Rightarrow> string set" where
  "used_ips name dir =
     (case load_network dir name of
        Inl _ \<Rightarrow> {} | Inr n \<Rightarrow> {v. is_allocated (un_allocated n) v})"

text \<open>The addresses a container can get: all but the network's, the gateway's and broadcast.\<close>

definition usable_ips :: "cidr \<Rightarrow> string set" where
  "usable_ips c = (\<lambda>host. ip_string (fst c + word_of_nat host)) ` {2..<2 ^ (32 - snd c) - 1}"

text \<open>The network \<open>name\<close> is stored under its name with the subnet \<open>c\<close>.\<close>

definition has_subnet :: "string \<Rightarrow> cidr \<Rightarrow> net_dir \<Rightarrow> bool" where
  "has_subnet name c dir \<longleftrightarrow>
     (\<exists>n x. load_network dir name = Inr n \<and> un_name n = name \<and> parse_cidr (un_subnet n) = Some (x, c))"

lemma has_subnet_wf: "has_subnet name c dir \<Longrightarrow> wf_cidr c"
  by (metis has_subnet_def wf_parse_cidr)

lemma usable_in_subnet:
  assumes "wf_cidr c" "v \<in> usable_ips c"
  shows "\<exists>y. v = ip_string y \<and> cidr_contains c y \<and> unat (fst c) + 1 < unat y
    \<and> unat y + 1 < unat (fst c) + 2 ^ (32 - snd c)"
proof -
  obtain host where h: "v = ip_string (fst c + word_of_nat host)" "2 \<le> host" "host < 2 ^ (32 - snd c) - 1"
    using assms(2) by (auto simp: usable_ips_def)
  then show ?thesis using cidr_host [OF assms(1), of host] by auto
qed

lemma is_allocated_aput [simp]:
  "is_allocated (aput v b m) u \<longleftrightarrow> (if u = v then b else is_allocated m u)"
  by (auto simp: is_allocated_def)

lemma is_allocated_adel [simp]: "is_allocated (adel v m) u \<longleftrightarrow> u \<noteq> v \<and> is_allocated m u"
  by (auto simp: is_allocated_def)

text \<open>The cases of an allocation.\<close>

lemma allocate_cases:
  assumes "has_subnet name c dir"
  obtains (exhausted) "allocate_network_ip w name dir = (Inl PoolExhausted, dir)"
      "usable_ips c \<subseteq> used_ips name dir"
    | (found) n v dir' where "load_network dir name = Inr n" "v \<in> usable_ips c"
      "v \<notin> used_ips name dir"
      "dir' = save_user_network w (n\<lparr>un_allocated := aput v True (un_allocated n)\<rparr>) dir"
      "allocate_network_ip w name dir = (if w = Written then Inr v else Inl SaveFailed, dir')"
proof -
  obtain n x where n: "load_network dir name = Inr n" "parse_cidr (un_subnet n) = Some (x, c)"
    using assms by (auto simp: has_subnet_def)
  let ?vs = "map (\<lambda>host. ip_string (ipv4_add (fst c) host)) [2..<2 ^ (32 - snd c) - 1]"
  have vs: "set ?vs = usable_ips c" by (simp add: usable_ips_def ipv4_add_def)
  have us: "used_ips name dir = {v. is_allocated (un_allocated n) v}" by (simp add: used_ips_def n)
  show ?thesis
  proof (cases "find (\<lambda>v. \<not> is_allocated (un_allocated n) v) ?vs")
    case None
    then have "usable_ips c \<subseteq> used_ips name dir" unfolding find_None_conv vs us by auto
    moreover have "allocate_network_ip w name dir = (Inl PoolExhausted, dir)"
      using None by (simp add: allocate_network_ip_def n)
    ultimately show ?thesis using exhausted by blast
  next
    case (Some v)
    then have "v \<in> set ?vs \<and> \<not> is_allocated (un_allocated n) v" by (rule find_Some_conv)
    then have "v \<in> usable_ips c" "v \<notin> used_ips name dir" using vs us by auto
    moreover have "allocate_network_ip w name dir
        = (if w = Written then Inr v else Inl SaveFailed,
           save_user_network w (n\<lparr>un_allocated := aput v True (un_allocated n)\<rparr>) dir)"
      using Some by (simp add: allocate_network_ip_def n Let_def)
    ultimately show ?thesis using found n(1) by blast
  qed
qed

lemma saved_network:
  assumes "has_subnet name c dir" "load_network dir name = Inr n" "w \<noteq> NotWritten"
  shows "load_network (save_user_network w (n\<lparr>un_allocated := m\<rparr>) dir) name
    = Inr (n\<lparr>un_allocated := m\<rparr>)"
  using assms load_valid [OF assms(2)] by (auto simp: has_subnet_def load_after_save)

lemma saved_subnet:
  assumes "has_subnet name c dir" "load_network dir name = Inr n"
  shows "has_subnet name c (save_user_network w (n\<lparr>un_allocated := m\<rparr>) dir)"
  using assms saved_network [OF assms, of w m] by (cases "w = NotWritten") (auto simp: has_subnet_def)

interpretation user_net: ip_allocator "has_subnet name c" "used_ips name" "usable_ips c"
  "\<lambda>w. allocate_network_ip w name" "\<lambda>w. release_network_ip w name"
proof unfold_locales
  fix s w a s'
  assume h: "has_subnet name c s" and r: "allocate_network_ip w name s = (Inr a, s')"
  show "has_subnet name c s' \<and> a \<in> usable_ips c \<and> a \<notin> used_ips name s
      \<and> used_ips name s' = insert a (used_ips name s)"
    using h
  proof (cases rule: allocate_cases [where w = w])
    case (found n v dir')
    then have w: "w = Written" "a = v" "s' = dir'" using r by (auto split: if_splits)
    have "load_network s' name = Inr (n\<lparr>un_allocated := aput v True (un_allocated n)\<rparr>)"
      using saved_network [OF h found(1), of w] found(4) w by simp
    then have "used_ips name s' = insert a (used_ips name s)"
      using found(1) w(2) by (auto simp: used_ips_def)
    then show ?thesis using found w saved_subnet [OF h found(1)] by simp
  qed (use r in auto)
next
  fix s w e s'
  assume h: "has_subnet name c s" and r: "allocate_network_ip w name s = (Inl e, s')"
  show "has_subnet name c s' \<and> used_ips name s \<subseteq> used_ips name s'"
    using h
  proof (cases rule: allocate_cases [where w = w])
    case exhausted
    then show ?thesis using r h by simp
  next
    case (found n v dir')
    then have s': "s' = dir'" using r by (auto split: if_splits)
    show ?thesis
    proof (cases "w = NotWritten")
      case True
      then show ?thesis using s' found(4) h by simp
    next
      case False
      then have "load_network s' name = Inr (n\<lparr>un_allocated := aput v True (un_allocated n)\<rparr>)"
        using saved_network [OF h found(1), of w] found(4) s' by simp
      then show ?thesis using found(1,4) s' saved_subnet [OF h found(1)] by (auto simp: used_ips_def)
    qed
  qed
next
  fix s w a
  assume h: "has_subnet name c s"
  then obtain n where n: "load_network s name = Inr n" by (auto simp: has_subnet_def)
  show "has_subnet name c (release_network_ip w name a s)"
    using saved_subnet [OF h n] by (simp add: release_network_ip_def n)
  show "used_ips name s - {a} \<subseteq> used_ips name (release_network_ip w name a s)"
  proof (cases "w = NotWritten")
    case False
    then show ?thesis
      using saved_network [OF h n False] n by (auto simp: release_network_ip_def used_ips_def)
  qed (simp add: release_network_ip_def n)
qed

section \<open>Addresses of the built-in bridge\<close>

definition bridge_net :: cidr where
  "bridge_net = (167772672, 24)"

lemma parse_bridge_cidr: "parse_cidr bridge_cidr = Some (167772672, bridge_net)"
  by code_simp

lemma bridge_host_add:
  assumes "i < 256"
  shows "bridge_host i = ipv4_add (fst bridge_net) i"
proof -
  have e: "word_of_nat i AND (255 :: ipv4) = word_of_nat i"
  proof -
    have "word_of_nat i AND mask 8 = (word_of_nat i :: ipv4)"
      using assms by (simp add: take_bit_eq_mask [symmetric] take_bit_of_nat take_bit_nat_eq_self)
    then show ?thesis by (simp add: mask_eq_exp_minus_1)
  qed
  have "push_bit 8 y + (word_of_nat i AND mask 8) = push_bit 8 y OR (word_of_nat i AND mask 8 :: ipv4)" for y
    by (rule disjunctive_add) (auto simp: bit_simps)
  from this [of 655362] show ?thesis
    using e by (simp add: bridge_host_def parse_bridge_cidr ipv4_add_def bridge_net_def mask_eq_exp_minus_1
      push_bit_eq_mult)
qed

lemma bridge_hosts: "map bridge_host [2..<255] = map (ipv4_add (fst bridge_net)) [2..<255]"
  by (rule map_cong) (use bridge_host_add in auto)

definition pool_used :: "ip_pool \<Rightarrow> string set" where
  "pool_used p = {v. is_allocated (pool_allocated p) v}"

definition bridge_pool_ips :: "string list" where
  "bridge_pool_ips = map ip_string (map (ipv4_add (fst bridge_net)) [2..<255])"

lemma save_pool_allocated [simp]: "pool_allocated (save_pool w p) = pool_allocated p"
  by (simp add: save_pool_def)

lemma allocate_ip_find:
  "allocate_ip w p =
     (case find (\<lambda>v. v \<notin> pool_used p) bridge_pool_ips of
        None \<Rightarrow> (Inl PoolExhausted, p)
      | Some v \<Rightarrow> (Inr v, save_pool w (p\<lparr>pool_allocated := aput v True (pool_allocated p)\<rparr>)))"
proof -
  have "map (\<lambda>i. ip_string (bridge_host i)) [2..<255] = map ip_string (map bridge_host [2..<255])"
    by simp
  then have h: "map (\<lambda>i. ip_string (bridge_host i)) [2..<255] = bridge_pool_ips"
    unfolding bridge_hosts bridge_pool_ips_def .
  have n: "2 ^ (32 - (case Some (167772672 :: ipv4, bridge_net) of None \<Rightarrow> 0 | Some (x, c) \<Rightarrow> snd c)) - 1
      = (255 :: nat)"
    by (simp add: bridge_net_def)
  show ?thesis
    unfolding allocate_ip_def parse_bridge_cidr n h by (simp only: pool_used_def mem_Collect_eq)
qed

lemma bridge_values: "set bridge_pool_ips = usable_ips bridge_net"
proof -
  have n: "2 ^ (32 - snd bridge_net) - 1 = (255 :: nat)" by (simp add: bridge_net_def)
  show ?thesis
    unfolding usable_ips_def n bridge_pool_ips_def set_map set_upt image_image ipv4_add_def by (rule refl)
qed

lemma bridge_pool_ips_head:
  "bridge_pool_ips = ''10.0.2.2'' # ''10.0.2.3'' # map ip_string (map (ipv4_add (fst bridge_net)) [4..<255])"
proof -
  have "ip_string (ipv4_add (fst bridge_net) 2) = ''10.0.2.2''" by code_simp
  moreover have "ip_string (ipv4_add (fst bridge_net) 3) = ''10.0.2.3''" by code_simp
  moreover have "[2..<255] = 2 # 3 # [4..<255 :: nat]"
    using upt_conv_Cons [of 2 255] upt_conv_Cons [of 3 255] by (simp only: Suc_numeral arith_simps)
  ultimately show ?thesis by (simp only: bridge_pool_ips_def list.map)
qed

interpretation bridge_pool: ip_allocator "\<lambda>_. True" pool_used "usable_ips bridge_net" allocate_ip release_ip
proof unfold_locales
  fix s w a s'
  assume r: "allocate_ip w s = (Inr a, s')"
  then have f: "find (\<lambda>v. v \<notin> pool_used s) bridge_pool_ips = Some a"
    and s': "s' = save_pool w (s\<lparr>pool_allocated := aput a True (pool_allocated s)\<rparr>)"
    unfolding allocate_ip_find by (auto split: option.splits)
  show "True \<and> a \<in> usable_ips bridge_net \<and> a \<notin> pool_used s \<and> pool_used s' = insert a (pool_used s)"
    using find_Some_conv [OF f] s' unfolding bridge_values by (auto simp: pool_used_def)
next
  fix s w e s'
  assume "allocate_ip w s = (Inl e, s')"
  then show "True \<and> pool_used s \<subseteq> pool_used s'"
    unfolding allocate_ip_find by (auto split: option.splits)
qed (auto simp: release_ip_def pool_used_def)


definition sample_net_dir :: net_dir where
  "sample_net_dir =
     [(''web.json'', NetJson \<lparr>un_name = ''web'', un_id = ''dckn-0123456789abcdef'',
        un_driver = ''bridge'', un_subnet = ''10.9.8.0/29'', un_gateway = ''10.9.8.1'',
        un_bridge = ''dckn-01234567'', un_allocated = []\<rparr>)]"


text \<open>
  C12. An allocation from a user network fails for want of an address only when every host
  address of the subnet is in use; otherwise it takes one that was free and records it.
\<close>

theorem allocate_network_ip_complete:
  assumes "has_subnet name c dir"
  shows "fst (allocate_network_ip w name dir) = Inl PoolExhausted \<longleftrightarrow> usable_ips c \<subseteq> used_ips name dir"
  using assms
proof (cases rule: allocate_cases [where w = w])
  case (found n v dir')
  then show ?thesis by auto
qed auto

definition full_net_dir :: net_dir where
  "full_net_dir =
     [(''web.json'', NetJson \<lparr>un_name = ''web'', un_id = ''dckn-0123456789abcdef'',
        un_driver = ''bridge'', un_subnet = ''10.9.8.0/29'', un_gateway = ''10.9.8.1'',
        un_bridge = ''dckn-01234567'', un_allocated =
          [(''10.9.8.2'', True), (''10.9.8.3'', True), (''10.9.8.4'', True), (''10.9.8.5'', True), (''10.9.8.6'', True)]\<rparr>)]"

theorem allocate_network_ip_complete_witness:
  "usable_ips (168364032, 29) \<subseteq> used_ips ''web'' full_net_dir"
proof -
  have n: "load_network full_net_dir ''web'' = Inr \<lparr>un_name = ''web'', un_id = ''dckn-0123456789abcdef'',
      un_driver = ''bridge'', un_subnet = ''10.9.8.0/29'', un_gateway = ''10.9.8.1'',
      un_bridge = ''dckn-01234567'', un_allocated = 
          [(''10.9.8.2'', True), (''10.9.8.3'', True), (''10.9.8.4'', True), (''10.9.8.5'', True), (''10.9.8.6'', True)]\<rparr>" by code_simp
  moreover have p: "parse_cidr ''10.9.8.0/29'' = Some (168364032, (168364032, 29))" by code_simp
  ultimately have h: "has_subnet ''web'' (168364032, 29) full_net_dir" by (simp add: has_subnet_def)
  have l: "map (\<lambda>host. ip_string (ipv4_add 168364032 host)) [2..<7]
      = [''10.9.8.2'', ''10.9.8.3'', ''10.9.8.4'', ''10.9.8.5'', ''10.9.8.6'']" by code_simp
  have "fst (allocate_network_ip Written ''web'' full_net_dir) = Inl PoolExhausted"
    by (simp add: allocate_network_ip_def n p l is_allocated_def Let_def del: upt_rec_numeral)
  with allocate_network_ip_complete [OF h, of Written] show ?thesis by simp
qed

text \<open>
  The same for the built-in bridge 10.0.2.0/24, whose allocations never fail on a save:
  containers hold distinct addresses between 10.0.2.2 and 10.0.2.254.
\<close>

theorem bridge_leases_unique:
  assumes "lease_run allocate_ip release_ip es (load_pool f, Map.empty) = (p, m)" and "m a = Some v"
  shows "(m b = Some v \<longrightarrow> a = b) \<and> v \<in> (\<lambda>h. ip_string (167772672 + word_of_nat h)) ` {2..<255}"
  using bridge_pool.leases_unique [OF TrueI assms(1)] assms(2)
  by (auto simp: usable_ips_def bridge_net_def)

theorem bridge_leases_unique_witness:
  "snd (lease_run allocate_ip release_ip [Acquire NotWritten ''a'', Acquire Written ''b'', Drop Written ''a'']
      (load_pool None, Map.empty)) ''b'' = Some ''10.0.2.3''
   \<and> snd (lease_run allocate_ip release_ip [Acquire NotWritten ''a'', Acquire Written ''b'', Drop Written ''a'']
      (load_pool None, Map.empty)) ''a'' \<noteq> Some ''10.0.2.3''"
  (is "snd ?r _ = _ \<and> _")
proof -
  have b: "snd ?r ''b'' = Some ''10.0.2.3''"
    by (simp add: lease_run_def allocate_ip_find bridge_pool_ips_head load_pool_def pool_used_def
      is_allocated_def)
  have "snd ?r ''a'' = Some ''10.0.2.3'' \<longrightarrow> ''b'' = ''a''"
    using bridge_leases_unique [OF surjective_pairing b, of "''a''"] by (rule conjunct1)
  moreover have "''b'' \<noteq> ''a''" by simp
  ultimately have "snd ?r ''a'' \<noteq> Some ''10.0.2.3''" by blast
  then show ?thesis using b by (rule conjI [rotated])
qed

end
