(* ===== verification/Firewall.thy ===== *)
theory Firewall
  imports Exec NetAlloc "HOL-Library.Multiset"
begin

text \<open>
  The networks' firewall rules and interfaces (\<open>internal/network/network.go\<close>,
  \<open>user_network.go\<close>, \<open>segmentation.go\<close>). The code drives the external programs \<open>ip\<close>,
  \<open>iptables\<close>, \<open>nsenter\<close>, \<open>ufw\<close> and \<open>socat\<close>; running a program is the parameter \<open>ex\<close>, which
  takes the argument vector and the host's state and yields whether it exited with status 0,
  what it printed, and the host's state afterwards. What \<open>iptables\<close> is relied on for is the
  predicate \<open>iptables_ok\<close>.
\<close>

datatype fw_err =
    NatFailed | ForwardFailed | DnatFailed | OutputDnatFailed | CreateBridgeFailed
  | AssignGatewayFailed | EnableBridgeFailed | LoadFailed net_err | CreateVethFailed
  | MoveVethFailed | AttachFailed | HostUpFailed | LoopbackFailed | RenameFailed
  | AddressFailed | LinkUpFailed | RouteFailed | RemoveBridgeFailed | StillUsed
  | RemoveFileFailed | SocatMissing | SocatStart | ChainFailed | FlushFailed | DeleteFailed
  | NilPolicy | IsolationFailed

section \<open>The rules of a user network\<close>

definition nat_table :: "string list" where
  "nat_table = [''-t'', ''nat'']"

definition ipt :: "string list \<Rightarrow> string \<Rightarrow> string list \<Rightarrow> string list" where
  "ipt pre op rest = ''iptables'' # pre @ op # rest"

definition masq_rule :: "string \<Rightarrow> string \<Rightarrow> string list" where
  "masq_rule subnet bridge =
     [''POSTROUTING'', ''-s'', subnet, ''!'', ''-o'', bridge, ''-j'', ''MASQUERADE'']"

definition forward_rules :: "string \<Rightarrow> string list list" where
  "forward_rules bridge =
     [[''FORWARD'', ''-i'', bridge, ''-j'', ''ACCEPT''], [''FORWARD'', ''-o'', bridge, ''-j'', ''ACCEPT'']]"

fun delete_forward :: "'s exec \<Rightarrow> string list list \<Rightarrow> 's \<Rightarrow> 's" where
  "delete_forward ex [] s = s"
| "delete_forward ex (r # rs) s = delete_forward ex rs (run_ignored ex (ipt [] ''-D'' r) s)"

definition firewall_rollback ::
  "'s exec \<Rightarrow> user_network \<Rightarrow> bool \<Rightarrow> string list list \<Rightarrow> 's \<Rightarrow> 's" where
  "firewall_rollback ex n masq_added added s =
     delete_forward ex added
       (if masq_added
        then run_ignored ex (ipt nat_table ''-D'' (masq_rule (un_subnet n) (un_bridge n))) s else s)"

fun add_forward ::
  "'s exec \<Rightarrow> user_network \<Rightarrow> bool \<Rightarrow> string list list \<Rightarrow> string list list \<Rightarrow> 's
    \<Rightarrow> (fw_err + unit) \<times> 's" where
  "add_forward ex n masq_added added [] s = (Inr (), s)"
| "add_forward ex n masq_added added (r # rs) s =
     (case run ex (ipt [] ''-C'' r) s of
        (True, s1) \<Rightarrow> add_forward ex n masq_added added rs s1
      | (False, s1) \<Rightarrow>
          (case run ex (ipt [] ''-A'' r) s1 of
             (False, s2) \<Rightarrow> (Inl ForwardFailed, firewall_rollback ex n masq_added added s2)
           | (True, s2) \<Rightarrow> add_forward ex n masq_added (added @ [r]) rs s2))"

definition ensure_network_firewall :: "'s exec \<Rightarrow> user_network \<Rightarrow> 's \<Rightarrow> (fw_err + unit) \<times> 's" where
  "ensure_network_firewall ex n s =
     (let masq = masq_rule (un_subnet n) (un_bridge n) in
      case run ex (ipt nat_table ''-C'' masq) s of
        (True, s1) \<Rightarrow> add_forward ex n False [] (forward_rules (un_bridge n)) s1
      | (False, s1) \<Rightarrow>
          (case run ex (ipt nat_table ''-A'' masq) s1 of
             (False, s2) \<Rightarrow> (Inl NatFailed, s2)
           | (True, s2) \<Rightarrow> add_forward ex n True [] (forward_rules (un_bridge n)) s2))"

definition delete_link_if :: "'s exec \<Rightarrow> bool \<Rightarrow> string \<Rightarrow> 's \<Rightarrow> 's" where
  "delete_link_if ex created bridge s =
     (if created then run_ignored ex [''ip'', ''link'', ''delete'', bridge] s else s)"

text \<open>Setting the bridge up, and the firewall, once the bridge exists.\<close>

definition enable_bridge :: "'s exec \<Rightarrow> bool \<Rightarrow> user_network \<Rightarrow> 's \<Rightarrow> (fw_err + unit) \<times> 's" where
  "enable_bridge ex created n s =
     (case run ex [''ip'', ''link'', ''set'', un_bridge n, ''up''] s of
        (False, s1) \<Rightarrow> (Inl EnableBridgeFailed, delete_link_if ex created (un_bridge n) s1)
      | (True, s1) \<Rightarrow>
          (case ensure_network_firewall ex n s1 of
             (Inl e, s2) \<Rightarrow> (Inl e, delete_link_if ex created (un_bridge n) s2)
           | (Inr u, s2) \<Rightarrow> (Inr (), s2)))"

definition ensure_user_network ::
  "'s exec \<Rightarrow> net_dir \<Rightarrow> string \<Rightarrow> 's \<Rightarrow> (fw_err + unit) \<times> 's" where
  "ensure_user_network ex dir name s =
     (case load_network dir name of
        Inl e \<Rightarrow> (Inl (LoadFailed e), s)
      | Inr n \<Rightarrow>
          (case run ex [''ip'', ''link'', ''show'', un_bridge n] s of
             (True, s1) \<Rightarrow> enable_bridge ex False n s1
           | (False, s1) \<Rightarrow>
               try_run ex [''ip'', ''link'', ''add'', un_bridge n, ''type'', ''bridge''] CreateBridgeFailed (\<lambda>s2.
               (case run ex [''ip'', ''addr'', ''add'',
                       un_gateway n @ ''/'' @ cidr_prefix (un_subnet n), ''dev'', un_bridge n] s2 of
                  (False, s3) \<Rightarrow>
                    (Inl AssignGatewayFailed, run_ignored ex [''ip'', ''link'', ''delete'', un_bridge n] s3)
                | (True, s3) \<Rightarrow> enable_bridge ex True n s3)) s1))"

definition remove_network_firewall :: "'s exec \<Rightarrow> bool \<Rightarrow> user_network \<Rightarrow> 's \<Rightarrow> 's" where
  "remove_network_firewall ex has_iptables n s =
     (if \<not> has_iptables then s
      else delete_forward ex (forward_rules (un_bridge n))
        (run_ignored ex (ipt nat_table ''-D'' (masq_rule (un_subnet n) (un_bridge n))) s))"

text \<open>
  \<open>has_ip\<close> and \<open>has_iptables\<close> are what \<open>LookPath\<close> finds; \<open>removed\<close> whether \<open>os.Remove\<close>
  succeeds.
\<close>

definition remove_network ::
  "'s exec \<Rightarrow> bool \<Rightarrow> bool \<Rightarrow> bool \<Rightarrow> string \<Rightarrow> net_dir \<times> 's \<Rightarrow> (fw_err + unit) \<times> net_dir \<times> 's" where
  "remove_network ex has_iptables has_ip removed name st =
     (case st of (dir, s) \<Rightarrow>
      (case load_network dir name of
        Inl e \<Rightarrow> (Inl (LoadFailed e), dir, s)
      | Inr n \<Rightarrow>
          if un_allocated n \<noteq> [] then (Inl StillUsed, dir, s)
          else
            let s1 = remove_network_firewall ex has_iptables n s;
                fin = (\<lambda>s'. if removed then (Inr (), adel (network_file name) dir, s')
                            else (Inl RemoveFileFailed, dir, s')) in
            if \<not> has_ip then fin s1
            else case run ex [''ip'', ''link'', ''show'', un_bridge n] s1 of
              (False, s2) \<Rightarrow> fin s2
            | (True, s2) \<Rightarrow>
                (case run ex [''ip'', ''link'', ''delete'', un_bridge n] s2 of
                   (False, s3) \<Rightarrow> (Inl RemoveBridgeFailed, dir, s3)
                 | (True, s3) \<Rightarrow> fin s3)))"

section \<open>Published ports\<close>

text \<open>\<open>strings.Replace(s, old, new, 1)\<close>.\<close>

definition str_replace_first :: "string \<Rightarrow> string \<Rightarrow> string \<Rightarrow> string" where
  "str_replace_first s old new =
     (case str_index s old of
        None \<Rightarrow> s | Some i \<Rightarrow> take i s @ new @ drop (i + length old) s)"

definition dnat_match :: "string \<Rightarrow> int \<Rightarrow> string \<Rightarrow> bool" where
  "dnat_match chain host_port line \<longleftrightarrow>
     has_prefix line (''-A '' @ chain) \<and> str_contains line (''--dport '' @ int_str host_port)
     \<and> str_contains line ''-j DNAT''"

definition dnat_delete_args :: "string \<Rightarrow> string list" where
  "dnat_delete_args line = ''iptables'' # nat_table @ str_fields (str_replace_first line ''-A'' ''-D'')"

fun delete_lines :: "'s exec \<Rightarrow> string \<Rightarrow> int \<Rightarrow> string list \<Rightarrow> 's \<Rightarrow> 's" where
  "delete_lines ex chain port [] s = s"
| "delete_lines ex chain port (l # ls) s =
     delete_lines ex chain port ls
       (if dnat_match chain port l then run_ignored ex (dnat_delete_args l) s else s)"

definition remove_existing_dnat :: "'s exec \<Rightarrow> string \<Rightarrow> int \<Rightarrow> string \<Rightarrow> 's \<Rightarrow> 's" where
  "remove_existing_dnat ex chain host_port protocol s =
     (case ex [''iptables-save'', ''-t'', ''nat''] s of
        (False, out, s1) \<Rightarrow> s1
      | (True, out, s1) \<Rightarrow> delete_lines ex chain host_port (split_byte (CHR 0x0A) out) s1)"

definition dnat_target :: "string \<Rightarrow> int \<Rightarrow> string" where
  "dnat_target ip port = ip @ '':'' @ int_str port"

definition prerouting_rule :: "string \<Rightarrow> int \<Rightarrow> int \<Rightarrow> string \<Rightarrow> string list" where
  "prerouting_rule ip host_port container_port protocol =
     [''PREROUTING'', ''-p'', protocol, ''--dport'', int_str host_port,
      ''-j'', ''DNAT'', ''--to-destination'', dnat_target ip container_port]"

definition output_rule :: "string \<Rightarrow> int \<Rightarrow> int \<Rightarrow> string \<Rightarrow> string list" where
  "output_rule ip host_port container_port protocol =
     [''OUTPUT'', ''-p'', protocol, ''--dport'', int_str host_port,
      ''-m'', ''addrtype'', ''--dst-type'', ''LOCAL'',
      ''-j'', ''DNAT'', ''--to-destination'', dnat_target ip container_port]"

definition accept_rule :: "string \<Rightarrow> int \<Rightarrow> string \<Rightarrow> string list" where
  "accept_rule ip container_port protocol =
     [''FORWARD'', ''-p'', protocol, ''-d'', ip, ''--dport'', int_str container_port, ''-j'', ''ACCEPT'']"

definition docker_user_rule :: "string \<Rightarrow> int \<Rightarrow> string \<Rightarrow> string list" where
  "docker_user_rule ip container_port protocol =
     [''-p'', protocol, ''-d'', ip, ''--dport'', int_str container_port, ''-j'', ''ACCEPT'']"

definition ensure_docker_user_rule :: "'s exec \<Rightarrow> string \<Rightarrow> int \<Rightarrow> string \<Rightarrow> 's \<Rightarrow> 's" where
  "ensure_docker_user_rule ex ip container_port protocol s =
     (case run ex [''iptables'', ''-L'', ''DOCKER-USER'', ''-n'', ''-v''] s of
        (False, s1) \<Rightarrow> s1
      | (True, s1) \<Rightarrow>
          (case ex [''iptables'', ''-L'', ''DOCKER-USER'', ''-n'', ''--line-numbers''] s1 of
             (ok, out, s2) \<Rightarrow>
               if ok \<and> str_contains out (''-d '' @ ip) then s2
               else run_ignored ex (''iptables'' # ''-I'' # ''DOCKER-USER'' # ''1''
                      # docker_user_rule ip container_port protocol) s2))"

definition port_arg :: "int \<Rightarrow> string \<Rightarrow> string" where
  "port_arg host_port protocol = int_str host_port @ ''/'' @ protocol"

definition ufw_allow_port :: "'s exec \<Rightarrow> int \<Rightarrow> string \<Rightarrow> 's \<Rightarrow> 's" where
  "ufw_allow_port ex host_port protocol s =
     (case run ex [''ufw'', ''status''] s of
        (False, s1) \<Rightarrow> s1
      | (True, s1) \<Rightarrow> run_ignored ex [''ufw'', ''allow'', port_arg host_port protocol] s1)"

definition ufw_deny_port :: "'s exec \<Rightarrow> int \<Rightarrow> string \<Rightarrow> 's \<Rightarrow> 's" where
  "ufw_deny_port ex host_port protocol s =
     (case run ex [''ufw'', ''status''] s of
        (False, s1) \<Rightarrow> s1
      | (True, s1) \<Rightarrow> run_ignored ex [''ufw'', ''delete'', ''allow'', port_arg host_port protocol] s1)"

text \<open>The rules of a published port that go to \<open>iptables\<close>, with their roll-back.\<close>

definition add_port_rules ::
  "'s exec \<Rightarrow> string \<Rightarrow> int \<Rightarrow> int \<Rightarrow> string \<Rightarrow> 's \<Rightarrow> (fw_err + unit) \<times> 's" where
  "add_port_rules ex ip hp cp proto s =
     (case run ex (ipt nat_table ''-A'' (prerouting_rule ip hp cp proto)) s of
        (False, s1) \<Rightarrow> (Inl DnatFailed, s1)
      | (True, s1) \<Rightarrow>
          (case run ex (ipt nat_table ''-A'' (output_rule ip hp cp proto)) s1 of
             (False, s2) \<Rightarrow>
               (Inl OutputDnatFailed, run_ignored ex (ipt nat_table ''-D'' (prerouting_rule ip hp cp proto)) s2)
           | (True, s2) \<Rightarrow>
               (case run ex (ipt [] ''-A'' (accept_rule ip cp proto)) s2 of
                  (False, s3) \<Rightarrow>
                    (Inl ForwardFailed,
                     run_ignored ex (ipt nat_table ''-D'' (output_rule ip hp cp proto))
                      (run_ignored ex (ipt nat_table ''-D'' (prerouting_rule ip hp cp proto)) s3))
                | (True, s3) \<Rightarrow>
                    (Inr (), ufw_allow_port ex hp proto (ensure_docker_user_rule ex ip cp proto s3)))))"

text \<open>
  The running \<open>socat\<close> processes are a list of keys; \<open>has_socat\<close> is \<open>LookPath\<close> and starting the
  process is a command.
\<close>

definition socat_key :: "int \<Rightarrow> string \<Rightarrow> int \<Rightarrow> string \<Rightarrow> string" where
  "socat_key hp ip cp proto = int_str hp @ '':'' @ ip @ '':'' @ int_str cp @ '':'' @ proto"

definition start_socat_forward ::
  "'s exec \<Rightarrow> bool \<Rightarrow> int \<Rightarrow> string \<Rightarrow> int \<Rightarrow> string \<Rightarrow> string list \<times> 's
    \<Rightarrow> (fw_err + unit) \<times> string list \<times> 's" where
  "start_socat_forward ex has_socat hp ip cp proto st =
     (case st of (proxies, s) \<Rightarrow>
      if \<not> has_socat then (Inl SocatMissing, proxies, s)
      else
        let key = socat_key hp ip cp proto;
            live = filter (\<lambda>k. k \<noteq> key) proxies in
        case run ex [''socat'', ''TCP-LISTEN:'' @ int_str hp @ '',fork,reuseaddr'',
               ''TCP:'' @ dnat_target ip cp] s of
          (False, s1) \<Rightarrow> (Inl SocatStart, live, s1)
        | (True, s1) \<Rightarrow> (Inr (), key # live, s1))"

definition add_port_forwarding ::
  "'s exec \<Rightarrow> bool \<Rightarrow> string \<Rightarrow> int \<Rightarrow> int \<Rightarrow> string \<Rightarrow> string list \<times> 's
    \<Rightarrow> (fw_err + unit) \<times> string list \<times> 's" where
  "add_port_forwarding ex has_socat ip hp cp proto st =
     (case st of (proxies, s) \<Rightarrow>
      let s1 = remove_existing_dnat ex ''OUTPUT'' hp proto (remove_existing_dnat ex ''PREROUTING'' hp proto s) in
      case add_port_rules ex ip hp cp proto s1 of
        (Inl DnatFailed, s2) \<Rightarrow>
          (case start_socat_forward ex has_socat hp ip cp proto (proxies, s2) of
             (Inl e, st2) \<Rightarrow> (Inl DnatFailed, st2)
           | (Inr u, st2) \<Rightarrow> (Inr (), st2))
      | (r, s2) \<Rightarrow> (r, proxies, s2))"

definition remove_port_forwarding ::
  "'s exec \<Rightarrow> string \<Rightarrow> int \<Rightarrow> int \<Rightarrow> string \<Rightarrow> string list \<times> 's \<Rightarrow> string list \<times> 's" where
  "remove_port_forwarding ex ip hp cp proto st =
     (case st of (proxies, s) \<Rightarrow>
      let s1 = run_ignored ex (ipt nat_table ''-D'' (prerouting_rule ip hp cp proto)) s;
          s2 = run_ignored ex (ipt nat_table ''-D'' (output_rule ip hp cp proto)) s1;
          s3 = run_ignored ex (ipt [] ''-D'' (accept_rule ip cp proto)) s2;
          s4 = run_ignored ex (''iptables'' # ''-D'' # ''DOCKER-USER'' # docker_user_rule ip cp proto) s3 in
      (filter (\<lambda>k. k \<noteq> socat_key hp ip cp proto) proxies, ufw_deny_port ex hp proto s4))"

end
