(* ===== verification/FirewallProps.thy ===== *)
theory FirewallProps
  imports Firewall
begin

text \<open>
  The firewall operations are all or nothing: on an error the rules are those from before. What
  is relied on of \<open>iptables\<close>, as its manual documents it: \<open>-C\<close> changes nothing and succeeds only
  on a rule that is there, \<open>-A\<close> adds one rule or fails without effect, \<open>-D\<close> removes one, and it
  does not fail on a rule that is there.
\<close>

definition command_tables :: "string list set" where
  "command_tables = {[], nat_table}"

definition iptables_ok :: "'s exec \<Rightarrow> ('s \<Rightarrow> (string list \<times> string list) multiset) \<Rightarrow> bool" where
  "iptables_ok ex rules \<longleftrightarrow> (\<forall>pre \<in> command_tables. \<forall>r s.
     (case run ex (ipt pre ''-C'' r) s of (ok, s') \<Rightarrow>
        rules s' = rules s \<and> (ok \<longrightarrow> (pre, r) \<in># rules s))
     \<and> (case run ex (ipt pre ''-A'' r) s of (ok, s') \<Rightarrow>
        rules s' = (if ok then add_mset (pre, r) (rules s) else rules s))
     \<and> (case run ex (ipt pre ''-D'' r) s of (ok, s') \<Rightarrow>
        rules s' = (if ok then rules s - {#(pre, r)#} else rules s) \<and> ((pre, r) \<in># rules s \<longrightarrow> ok)))"

lemma in_tables [simp]: "[] \<in> command_tables" "nat_table \<in> command_tables"
  by (simp_all add: command_tables_def)

lemma iptables_okD:
  assumes "iptables_ok ex rules" "pre \<in> command_tables"
  shows "run ex (ipt pre ''-C'' r) s = (ok, s') \<Longrightarrow> rules s' = rules s \<and> (ok \<longrightarrow> (pre, r) \<in># rules s)"
    "run ex (ipt pre ''-A'' r) s = (ok, s') \<Longrightarrow> rules s' = (if ok then add_mset (pre, r) (rules s) else rules s)"
    "run ex (ipt pre ''-D'' r) s = (ok, s')
      \<Longrightarrow> rules s' = (if ok then rules s - {#(pre, r)#} else rules s) \<and> ((pre, r) \<in># rules s \<longrightarrow> ok)"
  using assms(1) [unfolded iptables_ok_def, rule_format, OF assms(2), of s r] by simp_all

lemmas check_rules = iptables_okD(1)
lemmas append_rules = iptables_okD(2)

lemma delete_rules:
  assumes "iptables_ok ex rules" "pre \<in> command_tables"
  shows "rules (run_ignored ex (ipt pre ''-D'' r) s) = rules s - {#(pre, r)#}"
proof -
  obtain ok s' where r: "run ex (ipt pre ''-D'' r) s = (ok, s')" by fastforce
  then show ?thesis
    using iptables_okD(3) [OF assms r] by (cases ok) (auto simp: run_ignored_def diff_single_trivial)
qed

lemma add_mset_subsetD: "add_mset x A \<subseteq># B \<Longrightarrow> A \<subseteq># B \<and> x \<in># B"
  by (drule mset_subset_eq_insertD) (simp add: subset_mset.less_imp_le)

lemma delete_forward_rules:
  "iptables_ok ex rules
    \<Longrightarrow> rules (delete_forward ex rs s) = rules s - mset (map (Pair []) rs)"
  by (induction rs arbitrary: s) (simp_all add: delete_rules)

text \<open>The rules added so far are exactly those the roll-back removes.\<close>

definition added_rules :: "user_network \<Rightarrow> bool \<Rightarrow> string list list \<Rightarrow> (string list \<times> string list) multiset" where
  "added_rules n masq added =
     (if masq then {#(nat_table, masq_rule (un_subnet n) (un_bridge n))#} else {#}) + mset (map (Pair []) added)"

lemma firewall_rollback_rules:
  "iptables_ok ex rules \<Longrightarrow> rules s = R + added_rules n masq added
    \<Longrightarrow> rules (firewall_rollback ex n masq added s) = R"
  by (simp add: firewall_rollback_def delete_forward_rules delete_rules added_rules_def)

lemma add_forward_rules:
  assumes ok: "iptables_ok ex rules"
  shows "rules s = R + added_rules n masq added \<Longrightarrow> add_forward ex n masq added rs s = (res, s')
    \<Longrightarrow> (case res of
          Inl e \<Rightarrow> rules s' = R
        | Inr u \<Rightarrow> rules s \<subseteq># rules s' \<and> (\<forall>r \<in> set rs. ([], r) \<in># rules s'))"
proof (induction rs arbitrary: s added)
  case Nil
  then show ?case by auto
next
  case (Cons r rs)
  obtain c s1 where c: "run ex (ipt [] ''-C'' r) s = (c, s1)" by fastforce
  have s1: "rules s1 = rules s" "c \<longrightarrow> ([], r) \<in># rules s"
    using check_rules [OF ok _ c] by auto
  show ?case
  proof (cases c)
    case True
    have "add_forward ex n masq added rs s1 = (res, s')" using Cons.prems(2) c True by simp
    from Cons.IH [OF _ this] show ?thesis
      using Cons.prems(1) s1 True by (auto split: sum.splits dest: mset_subset_eqD)
  next
    case False
    obtain a s2 where a: "run ex (ipt [] ''-A'' r) s1 = (a, s2)" by fastforce
    have s2: "rules s2 = (if a then add_mset ([], r) (rules s1) else rules s1)"
      using append_rules [OF ok _ a] by simp
    show ?thesis
    proof (cases a)
      case True
      have "add_forward ex n masq (added @ [r]) rs s2 = (res, s')"
        using Cons.prems(2) c a False True by simp
      moreover have "rules s2 = R + added_rules n masq (added @ [r])"
        using s2 s1 True Cons.prems(1) by (simp add: added_rules_def)
      ultimately have ih: "case res of Inl e \<Rightarrow> rules s' = R
          | Inr u \<Rightarrow> rules s2 \<subseteq># rules s' \<and> (\<forall>r \<in> set rs. ([], r) \<in># rules s')"
        using Cons.IH by blast
      then show ?thesis
        using s2 s1(1) True by (auto split: sum.splits dest: add_mset_subsetD)
    next
      case f: False
      then have "res = Inl ForwardFailed" "s' = firewall_rollback ex n masq added s2"
        using Cons.prems(2) c a False by auto
      then show ?thesis
        using firewall_rollback_rules [OF ok] s2 s1(1) f Cons.prems(1) by simp
    qed
  qed
qed

text \<open>
  C7. Setting up a network's firewall is all or nothing: on success its three rules are present
  and none was removed, on an error the rules are exactly those from before, whichever command
  failed.
\<close>

theorem ensure_network_firewall_atomic:
  assumes "iptables_ok ex rules" and "ensure_network_firewall ex n s = (res, s')"
  shows "case res of
      Inl e \<Rightarrow> rules s' = rules s
    | Inr u \<Rightarrow> rules s \<subseteq># rules s' \<and> (nat_table, masq_rule (un_subnet n) (un_bridge n)) \<in># rules s'
        \<and> ([], [''FORWARD'', ''-i'', un_bridge n, ''-j'', ''ACCEPT'']) \<in># rules s'
        \<and> ([], [''FORWARD'', ''-o'', un_bridge n, ''-j'', ''ACCEPT'']) \<in># rules s'"
proof -
  let ?m = "masq_rule (un_subnet n) (un_bridge n)"
  obtain c s1 where c: "run ex (ipt nat_table ''-C'' ?m) s = (c, s1)" by fastforce
  have s1: "rules s1 = rules s" "c \<longrightarrow> (nat_table, ?m) \<in># rules s"
    using check_rules [OF assms(1) _ c] by auto
  show ?thesis
  proof (cases c)
    case True
    then have "add_forward ex n False [] (forward_rules (un_bridge n)) s1 = (res, s')"
      using assms(2) c by (simp add: ensure_network_firewall_def)
    from add_forward_rules [OF assms(1) _ this, of "rules s"] show ?thesis
      using s1 True by (auto simp: added_rules_def forward_rules_def split: sum.splits dest: mset_subset_eqD)
  next
    case False
    obtain a s2 where a: "run ex (ipt nat_table ''-A'' ?m) s1 = (a, s2)" by fastforce
    have s2: "rules s2 = (if a then add_mset (nat_table, ?m) (rules s1) else rules s1)"
      using append_rules [OF assms(1) _ a] by simp
    show ?thesis
    proof (cases a)
      case True
      then have "add_forward ex n True [] (forward_rules (un_bridge n)) s2 = (res, s')"
        using assms(2) c a False by (simp add: ensure_network_firewall_def)
      from add_forward_rules [OF assms(1) _ this, of "rules s"] show ?thesis
        using s1 s2 True
        by (auto simp: added_rules_def forward_rules_def split: sum.splits dest: add_mset_subsetD)
    next
      case f: False
      then show ?thesis
        using assms(2) c a False s1 s2 by (auto simp: ensure_network_firewall_def)
    qed
  qed
qed

text \<open>
  An \<open>iptables\<close> whose state is its list of rules and where the commands in \<open>flt\<close> fail.
\<close>

definition split_table :: "string list \<Rightarrow> string list \<times> string list" where
  "split_table args = (if take 1 args = [''-t''] then (take 2 args, drop 2 args) else ([], args))"

definition list_iptables :: "(string list \<Rightarrow> bool) \<Rightarrow> (string list \<times> string list) list exec" where
  "list_iptables flt argv rs =
     (case split_table (tl argv) of (pre, args) \<Rightarrow>
        if hd args = ''-C'' then ((pre, tl args) \<in> set rs \<and> \<not> flt argv, [], rs)
        else if hd args = ''-A'' then
          (if flt argv then (False, [], rs) else (True, [], rs @ [(pre, tl args)]))
        else if hd args = ''-D'' then ((pre, tl args) \<in> set rs, [], remove1 (pre, tl args) rs)
        else (False, [], rs))"

lemma list_iptables_ok: "iptables_ok (list_iptables flt) mset"
  by (auto simp: iptables_ok_def command_tables_def nat_table_def run_def ipt_def list_iptables_def
    split_table_def diff_single_trivial)

theorem ensure_network_firewall_atomic_witness:
  "mset (snd (ensure_network_firewall
      (list_iptables (\<lambda>argv. argv = ipt [] ''-A'' [''FORWARD'', ''-o'', ''b0'', ''-j'', ''ACCEPT'']))
      \<lparr>un_name = ''web'', un_id = [], un_driver = ''bridge'', un_subnet = ''10.9.8.0/29'',
       un_gateway = ''10.9.8.1'', un_bridge = ''b0'', un_allocated = []\<rparr>
      [([], [''INPUT'', ''-j'', ''DROP''])])) = {#([], [''INPUT'', ''-j'', ''DROP''])#}"
  (is "mset (snd ?r) = _")
proof -
  have "fst ?r = Inl ForwardFailed" by code_simp
  then have "?r = (Inl ForwardFailed, snd ?r)" by (metis prod.collapse)
  from ensure_network_firewall_atomic [OF list_iptables_ok this] show ?thesis by simp
qed

text \<open>
  Publishing a port is all or nothing as well: when it fails, the rules are those that were
  left after the old rules of the port had been removed.
\<close>

theorem add_port_rules_atomic:
  assumes "iptables_ok ex rules" and "add_port_rules ex ip hp cp proto s = (Inl e, s')"
  shows "rules s' = rules s"
proof -
  obtain a1 s1 where a1: "run ex (ipt nat_table ''-A'' (prerouting_rule ip hp cp proto)) s = (a1, s1)" by fastforce
  obtain a2 s2 where a2: "run ex (ipt nat_table ''-A'' (output_rule ip hp cp proto)) s1 = (a2, s2)" by fastforce
  obtain a3 s3 where a3: "run ex (ipt [] ''-A'' (accept_rule ip cp proto)) s2 = (a3, s3)" by fastforce
  note added = append_rules [OF assms(1) _ a1] append_rules [OF assms(1) _ a2] append_rules [OF assms(1) _ a3]
  show ?thesis
    using assms(2) added
    by (cases a1; cases a2; cases a3) (auto simp: add_port_rules_def a1 a2 a3 delete_rules [OF assms(1)])
qed

theorem add_port_rules_atomic_witness:
  "mset (snd (add_port_rules
      (list_iptables (\<lambda>argv. argv = ipt [] ''-A'' (accept_rule ''10.0.2.2'' 80 ''tcp'')))
      ''10.0.2.2'' 8080 80 ''tcp'' [([], [''INPUT'', ''-j'', ''DROP''])]))
    = {#([], [''INPUT'', ''-j'', ''DROP''])#}"
  (is "mset (snd ?r) = _")
proof -
  have "fst ?r = Inl ForwardFailed" by code_simp
  then have "?r = (Inl ForwardFailed, snd ?r)" by (metis prod.collapse)
  from add_port_rules_atomic [OF list_iptables_ok this] show ?thesis by simp
qed

text \<open>
  Removing the old rules of a port takes other ports' rules with it: the rule of UDP port
  8080 of another container matches when TCP port 80 is published, and is deleted.
\<close>

theorem remove_existing_dnat_other_port:
  "dnat_match ''PREROUTING'' 80
     ''-A PREROUTING -p udp -m udp --dport 8080 -j DNAT --to-destination 10.0.2.9:53''
   \<and> dnat_delete_args ''-A PREROUTING -p udp -m udp --dport 8080 -j DNAT --to-destination 10.0.2.9:53''
     = [''iptables'', ''-t'', ''nat'', ''-D'', ''PREROUTING'', ''-p'', ''udp'', ''-m'', ''udp'',
        ''--dport'', ''8080'', ''-j'', ''DNAT'', ''--to-destination'', ''10.0.2.9:53'']"
  by code_simp

end
