(* ===== verification/NetPlumbing.thy ===== *)
theory NetPlumbing
  imports FirewallProps
begin

text \<open>
  Interfaces of containers and network policies (\<open>internal/network/network.go\<close>,
  \<open>segmentation.go\<close>): the veth pair of a container with its roll-back, the built-in bridge, the
  cleanup after a container, and the policy chains.
\<close>

section \<open>The veth pair of a container\<close>

definition network_short_id :: "string \<Rightarrow> string" where
  "network_short_id cid = (if length cid \<le> 8 then cid else take 8 cid)"

definition host_if :: "string \<Rightarrow> string" where
  "host_if cid = ''ve'' @ network_short_id cid"

definition cont_if :: "string \<Rightarrow> string" where
  "cont_if cid = ''vc'' @ network_short_id cid"

text \<open>\<open>alive pid\<close> is whether \<open>/proc/<pid>/ns/net\<close> exists; at most \<open>n\<close> attempts are made.\<close>

fun move_veth_loop :: "'s exec \<Rightarrow> ('s \<Rightarrow> bool) \<Rightarrow> string list \<Rightarrow> nat \<Rightarrow> 's \<Rightarrow> bool \<times> 's" where
  "move_veth_loop ex alive args 0 s = (False, s)"
| "move_veth_loop ex alive args (Suc n) s =
     (case run ex args s of
        (True, s1) \<Rightarrow> (True, s1)
      | (False, s1) \<Rightarrow> if alive s1 then move_veth_loop ex alive args n s1 else (False, s1))"

definition move_veth_to_netns ::
  "'s exec \<Rightarrow> (int \<Rightarrow> 's \<Rightarrow> bool) \<Rightarrow> string \<Rightarrow> int \<Rightarrow> 's \<Rightarrow> bool \<times> 's" where
  "move_veth_to_netns ex alive ifn pid s =
     (if pid \<le> 0 then (False, s)
      else move_veth_loop ex (alive pid) [''ip'', ''link'', ''set'', ifn, ''netns'', int_str pid] 50 s)"

definition in_netns :: "int \<Rightarrow> string list \<Rightarrow> string list" where
  "in_netns pid args = [''nsenter'', ''-t'', int_str pid, ''-n'', ''--''] @ args"

text \<open>What is run after the pair exists and its container end has moved, with the errors.\<close>

definition veth_commands :: "string \<Rightarrow> int \<Rightarrow> string \<Rightarrow> string \<Rightarrow> string \<Rightarrow> string \<Rightarrow> (string list \<times> fw_err) list" where
  "veth_commands cid pid ip bridge gateway prefix_len =
     [([''ip'', ''link'', ''set'', host_if cid, ''master'', bridge], AttachFailed),
      ([''ip'', ''link'', ''set'', host_if cid, ''up''], HostUpFailed),
      (in_netns pid [''ip'', ''link'', ''set'', ''lo'', ''up''], LoopbackFailed),
      (in_netns pid [''ip'', ''link'', ''set'', cont_if cid, ''name'', ''eth0''], RenameFailed),
      (in_netns pid [''ip'', ''addr'', ''add'', ip @ ''/'' @ prefix_len, ''dev'', ''eth0''], AddressFailed),
      (in_netns pid [''ip'', ''link'', ''set'', ''eth0'', ''up''], LinkUpFailed),
      (in_netns pid [''ip'', ''route'', ''add'', ''default'', ''via'', gateway], RouteFailed)]"

fun run_all :: "'s exec \<Rightarrow> (string list \<times> 'e) list \<Rightarrow> 's \<Rightarrow> ('e + unit) \<times> 's" where
  "run_all ex [] s = (Inr (), s)"
| "run_all ex ((args, e) # cs) s = try_run ex args e (run_all ex cs) s"

definition flush_bridge_neigh :: "'s exec \<Rightarrow> string \<Rightarrow> string \<Rightarrow> 's \<Rightarrow> 's" where
  "flush_bridge_neigh ex bridge ip s =
     run_ignored ex [''ip'', ''neigh'', ''flush'', ''dev'', bridge, ''to'', ip] s"

definition setup_veth_on_bridge ::
  "'s exec \<Rightarrow> (int \<Rightarrow> 's \<Rightarrow> bool) \<Rightarrow> string \<Rightarrow> int \<Rightarrow> string \<Rightarrow> string \<Rightarrow> string \<Rightarrow> string \<Rightarrow> 's
    \<Rightarrow> (fw_err + unit) \<times> 's" where
  "setup_veth_on_bridge ex alive cid pid ip bridge gateway prefix_len s =
     try_run ex [''ip'', ''link'', ''add'', host_if cid, ''type'', ''veth'', ''peer'', ''name'', cont_if cid]
       CreateVethFailed (\<lambda>s1.
         case (case move_veth_to_netns ex alive (cont_if cid) pid s1 of
                 (False, s2) \<Rightarrow> (Inl MoveVethFailed, s2)
               | (True, s2) \<Rightarrow> run_all ex (veth_commands cid pid ip bridge gateway prefix_len) s2) of
           (Inl e, s3) \<Rightarrow> (Inl e, run_ignored ex [''ip'', ''link'', ''delete'', host_if cid] s3)
         | (Inr u, s3) \<Rightarrow> (Inr (), flush_bridge_neigh ex bridge ip s3)) s"

definition bridge_name :: string where
  "bridge_name = ''dck0''"

definition bridge_ip :: string where
  "bridge_ip = ''10.0.2.1''"

definition setup_veth ::
  "'s exec \<Rightarrow> (int \<Rightarrow> 's \<Rightarrow> bool) \<Rightarrow> string \<Rightarrow> int \<Rightarrow> string \<Rightarrow> 's \<Rightarrow> (fw_err + unit) \<times> 's" where
  "setup_veth ex alive cid pid ip s =
     setup_veth_on_bridge ex alive cid pid ip bridge_name bridge_ip ''24'' s"

section \<open>The built-in bridge\<close>

text \<open>
  \<open>containers\<close> are the file names in the containers directory, if it could be read. A link whose
  name starts with none of them is deleted.
\<close>

definition orphan_link :: "string list option \<Rightarrow> string \<Rightarrow> string option" where
  "orphan_link containers line =
     (let fields = str_fields line in
      if \<not> has_prefix line ''ve'' \<or> length fields < 2 then None
      else
        let ifn = trim_suffix (fields ! 1) '':'' in
        case containers of
          None \<Rightarrow> None
        | Some names \<Rightarrow>
            if list_ex (\<lambda>f. has_prefix (trim_suffix f ''.json'') (trim_prefix ifn ''ve'')) names
            then None else Some ifn)"

fun delete_orphans :: "'s exec \<Rightarrow> string list option \<Rightarrow> string list \<Rightarrow> 's \<Rightarrow> 's" where
  "delete_orphans ex containers [] s = s"
| "delete_orphans ex containers (l # ls) s =
     delete_orphans ex containers ls
       (case orphan_link containers l of
          None \<Rightarrow> s | Some ifn \<Rightarrow> run_ignored ex [''ip'', ''link'', ''delete'', ifn] s)"

definition remove_orphan_veths :: "'s exec \<Rightarrow> string list option \<Rightarrow> 's \<Rightarrow> 's" where
  "remove_orphan_veths ex containers s =
     (case ex [''ip'', ''-o'', ''link'', ''show'', ''master'', bridge_name] s of
        (False, out, s1) \<Rightarrow> s1
      | (True, out, s1) \<Rightarrow> delete_orphans ex containers (split_byte (CHR 0x0A) out) s1)"

text \<open>Add a rule unless it is there.\<close>

definition ensure_rule :: "'s exec \<Rightarrow> string list \<Rightarrow> string list \<Rightarrow> 's \<Rightarrow> 's" where
  "ensure_rule ex pre r s =
     (case run ex (ipt pre ''-C'' r) s of
        (True, s1) \<Rightarrow> s1 | (False, s1) \<Rightarrow> run_ignored ex (ipt pre ''-A'' r) s1)"

definition ensure_bridge :: "'s exec \<Rightarrow> string list option \<Rightarrow> 's \<Rightarrow> 's" where
  "ensure_bridge ex containers s =
     (let s1 = remove_orphan_veths ex containers s;
          s2 = (case run ex [''ip'', ''link'', ''show'', bridge_name] s1 of
                  (True, t) \<Rightarrow> t
                | (False, t) \<Rightarrow>
                    run_ignored ex [''ip'', ''addr'', ''add'', bridge_ip @ ''/24'', ''dev'', bridge_name]
                      (run_ignored ex [''ip'', ''link'', ''add'', bridge_name, ''type'', ''bridge''] t));
          s3 = run_ignored ex [''ip'', ''link'', ''set'', bridge_name, ''up''] s2;
          s4 = ensure_rule ex nat_table (masq_rule bridge_cidr bridge_name) s3;
          s5 = ensure_rule ex [] [''FORWARD'', ''-i'', bridge_name, ''-j'', ''ACCEPT''] s4 in
      ensure_rule ex [] [''FORWARD'', ''-o'', bridge_name, ''-j'', ''ACCEPT''] s5)"

text \<open>
  \<open>EnsureSysctl\<close>: the two commands, and the lines of the configuration file. \<open>need\<close> is the order one
  run iterates over the settings in; the result is None when the file is left alone.
\<close>

definition sysctl_settings :: "string list" where
  "sysctl_settings = [''net.ipv4.ip_forward=1'', ''net.ipv4.conf.all.route_localnet=1'']"

definition sysctl_conf :: "string list \<Rightarrow> string option \<Rightarrow> string list option" where
  "sysctl_conf need conf =
     (let entries = (case conf of None \<Rightarrow> [] | Some d \<Rightarrow> split_byte (CHR 0x0A) d);
          missing = filter (\<lambda>kv. \<not> list_ex (\<lambda>line. str_contains line kv) entries) need in
      if missing = [] then None
      else Some (''# dck: container networking sysctls'' # filter (\<lambda>l. l \<noteq> []) (entries @ missing)))"

definition ensure_sysctl :: "'s exec \<Rightarrow> 's \<Rightarrow> 's" where
  "ensure_sysctl ex s =
     run_ignored ex [''sysctl'', ''-w'', ''net.ipv4.conf.all.route_localnet=1'']
       (run_ignored ex [''sysctl'', ''-w'', ''net.ipv4.ip_forward=1''] s)"

definition ensure_ufw :: "'s exec \<Rightarrow> 's \<Rightarrow> 's" where
  "ensure_ufw ex s =
     (case run ex [''ufw'', ''status''] s of
        (False, s1) \<Rightarrow> s1
      | (True, s1) \<Rightarrow>
          run_ignored ex [''ufw'', ''route'', ''allow'', ''out'', ''on'', bridge_name]
            (run_ignored ex [''ufw'', ''route'', ''allow'', ''in'', ''on'', bridge_name] s1))"

definition ensure_net_base :: "'s exec \<Rightarrow> string list option \<Rightarrow> 's \<Rightarrow> 's" where
  "ensure_net_base ex containers s = ensure_bridge ex containers (ensure_ufw ex (ensure_sysctl ex s))"

section \<open>Cleaning up after a container\<close>

definition lower_char :: "char \<Rightarrow> char" where
  "lower_char c = (let n = of_char c :: nat in if 65 \<le> n \<and> n \<le> 90 then char_of (n + 32) else c)"

definition is_missing_network_interface :: "string \<Rightarrow> bool" where
  "is_missing_network_interface out =
     (let m = map lower_char out in
      str_contains m ''cannot find device'' \<or> str_contains m ''does not exist''
      \<or> str_contains m ''no such device'')"

text \<open>The warnings \<open>RemoveVeth\<close> prints are the second component.\<close>

definition remove_veth :: "'s exec \<Rightarrow> string \<Rightarrow> 's \<Rightarrow> 's \<times> string list" where
  "remove_veth ex cid s =
     (let ifn = host_if cid in
      case ex [''ip'', ''link'', ''show'', ifn] s of
        (False, out, s1) \<Rightarrow>
          (s1, if is_missing_network_interface out then [] else [''ip link show''])
      | (True, out, s1) \<Rightarrow>
          (case run ex [''ip'', ''link'', ''delete'', ifn] s1 of
             (True, s2) \<Rightarrow> (s2, [])
           | (False, s2) \<Rightarrow>
               (case ex [''ip'', ''link'', ''show'', ifn] s2 of
                  (shown, out2, s3) \<Rightarrow>
                    (s3, if \<not> shown \<and> is_missing_network_interface out2 then [] else [''ip link delete'']))))"

record port_rule =
  pr_host_port :: int
  pr_container_port :: int
  pr_protocol :: string
  pr_container_ip :: string

fun remove_ports :: "'s exec \<Rightarrow> string \<Rightarrow> port_rule list \<Rightarrow> string list \<times> 's \<Rightarrow> string list \<times> 's" where
  "remove_ports ex ip [] st = st"
| "remove_ports ex ip (p # ps) st =
     remove_ports ex ip ps
       (remove_port_forwarding ex ip (pr_host_port p) (pr_container_port p) (pr_protocol p) st)"

definition cleanup_container_network ::
  "'s exec \<Rightarrow> write_outcome \<Rightarrow> string \<Rightarrow> string \<Rightarrow> port_rule list \<Rightarrow> string list \<times> ip_pool \<times> 's
    \<Rightarrow> string list \<times> ip_pool \<times> 's" where
  "cleanup_container_network ex w cid ip ports st =
     (case st of (proxies, pool, s) \<Rightarrow>
      (case remove_ports ex ip ports (proxies, s) of (proxies1, s1) \<Rightarrow>
        (proxies1, release_ip w ip pool, fst (remove_veth ex cid s1))))"

section \<open>Network policies\<close>

record network_rule =
  nr_protocol :: string
  nr_port :: int
  nr_source :: string
  nr_destination :: string
  nr_action :: string

record network_policy =
  np_name :: string
  np_ingress :: "network_rule list"
  np_egress :: "network_rule list"

definition opt_arg :: "bool \<Rightarrow> string \<Rightarrow> string \<Rightarrow> string list" where
  "opt_arg c flag v = (if c then [flag, v] else [])"

definition rule_args :: "string \<Rightarrow> network_rule \<Rightarrow> string list" where
  "rule_args chain r =
     [''iptables'', ''-A'', chain]
     @ opt_arg (nr_protocol r \<noteq> []) ''-p'' (nr_protocol r)
     @ opt_arg (0 < nr_port r) ''--dport'' (int_str (nr_port r))
     @ opt_arg (nr_source r \<noteq> []) ''-s'' (nr_source r)
     @ opt_arg (nr_destination r \<noteq> []) ''-d'' (nr_destination r)
     @ [''-j'', if nr_action r = ''allow'' then ''ACCEPT''
               else if nr_action r = ''deny'' \<or> nr_action r = ''drop'' then ''DROP'' else ''ACCEPT'']"

definition flush_chain :: "'s exec \<Rightarrow> string \<Rightarrow> 's \<Rightarrow> bool \<times> 's" where
  "flush_chain ex chain s = run ex [''iptables'', ''-F'', chain] s"

definition delete_chain :: "'s exec \<Rightarrow> string \<Rightarrow> 's \<Rightarrow> bool \<times> 's" where
  "delete_chain ex chain s = run ex [''iptables'', ''-X'', chain] s"

definition create_chain :: "'s exec \<Rightarrow> string \<Rightarrow> 's \<Rightarrow> bool \<times> 's" where
  "create_chain ex chain s =
     (case run ex [''iptables'', ''-N'', chain] s of
        (True, s1) \<Rightarrow> (True, s1) | (False, s1) \<Rightarrow> flush_chain ex chain s1)"

definition policy_chain :: "string \<Rightarrow> string" where
  "policy_chain name = ''DCK-'' @ to_upper name"

text \<open>\<open>applyRule\<close> is given the table but does not use it.\<close>

definition apply_rule :: "'s exec \<Rightarrow> string \<Rightarrow> string \<Rightarrow> network_rule \<Rightarrow> 's \<Rightarrow> 's" where
  "apply_rule ex chain table_name r s = run_ignored ex (rule_args chain r) s"

definition apply_network_policy ::
  "'s exec \<Rightarrow> network_policy option \<Rightarrow> 's \<Rightarrow> (fw_err + unit) \<times> 's" where
  "apply_network_policy ex p s =
     (case p of
        None \<Rightarrow> (Inl NilPolicy, s)
      | Some pol \<Rightarrow>
          let chain = policy_chain (np_name pol) in
          (case create_chain ex chain s of
             (False, s1) \<Rightarrow> (Inl ChainFailed, s1)
           | (True, s1) \<Rightarrow>
               let s2 = fold (apply_rule ex chain ''INPUT'') (np_ingress pol) s1;
                   s3 = fold (apply_rule ex chain ''OUTPUT'') (np_egress pol) s2 in
               (Inr (), run_ignored ex [''iptables'', ''-A'', chain, ''-j'', ''DROP''] s3)))"

definition remove_network_policy :: "'s exec \<Rightarrow> string \<Rightarrow> 's \<Rightarrow> (fw_err + unit) \<times> 's" where
  "remove_network_policy ex name s =
     (case flush_chain ex (policy_chain name) s of
        (False, s1) \<Rightarrow> (Inl FlushFailed, s1)
      | (True, s1) \<Rightarrow>
          (case delete_chain ex (policy_chain name) s1 of
             (False, s2) \<Rightarrow> (Inl DeleteFailed, s2) | (True, s2) \<Rightarrow> (Inr (), s2)))"

definition isolation_args :: "string \<Rightarrow> string \<Rightarrow> string list" where
  "isolation_args op cid =
     [''iptables'', op, ''FORWARD'', ''-i'', host_if cid, ''-o'', bridge_name, ''-j'', ''DROP'',
      op, ''FORWARD'', ''-i'', bridge_name, ''-o'', host_if cid, ''-j'', ''DROP'']"

definition apply_container_isolation :: "'s exec \<Rightarrow> string \<Rightarrow> bool \<Rightarrow> 's \<Rightarrow> (fw_err + unit) \<times> 's" where
  "apply_container_isolation ex cid isolate s =
     try_run ex (isolation_args (if isolate then ''-A'' else ''-D'') cid) IsolationFailed (\<lambda>s1. (Inr (), s1)) s"

end
