(* ===== verification/Containers.thy ===== *)
theory Containers
  imports NetPlumbing GoTime StatePaths
begin

text \<open>
  Containers and their persisted state (\<open>internal/container/types.go\<close>, \<open>create.go\<close>, \<open>list.go\<close>,
  \<open>restart_guard.go\<close>, \<open>dns.go\<close>). A container is the value one process holds in memory; its file
  is another value, and loading one corrects a file that still claims to run. The fields that
  are only copied from the options are left out.
\<close>

section \<open>The data\<close>

datatype status = Created | Running | Stopped

record port_map =
  pm_host_port :: int
  pm_container_port :: int
  pm_protocol :: string

record namespaces =
  ns_mount :: nat
  ns_pid :: nat
  ns_network :: nat
  ns_ipc :: nat
  ns_uts :: nat

definition no_namespaces :: namespaces where
  "no_namespaces = \<lparr>ns_mount = 0, ns_pid = 0, ns_network = 0, ns_ipc = 0, ns_uts = 0\<rparr>"

record container =
  ct_id :: string
  ct_name :: string
  ct_image :: string
  ct_tag :: string
  ct_pid :: int
  ct_unshare_pid :: int
  ct_ns :: namespaces
  ct_status :: status
  ct_cmd :: "string list"
  ct_ports :: "port_map list"
  ct_hostname :: string
  ct_working_dir :: string
  ct_restart :: string
  ct_restart_delay :: string
  ct_restart_max :: int
  ct_restart_window :: string
  ct_attempts :: int
  ct_window_start :: instant
  ct_last_started :: instant
  ct_blocked :: bool
  ct_auto_backup :: bool
  ct_backup_interval :: string
  ct_backup_retention :: int
  ct_backup_dir :: string
  ct_last_backup :: instant
  ct_next_backup :: instant
  ct_ip :: string
  ct_detach :: bool
  ct_remove_on_exit :: bool
  ct_stopped_by_user :: bool
  ct_last_exit :: instant
  ct_cgroup :: string
  ct_network_mode :: string
  ct_dns :: "string list option"
  ct_console_pid :: int
  ct_forward_pids :: "int list"
  ct_cleanup_started :: bool

text \<open>A file of the containers directory: a container, or something that does not parse as one.\<close>

datatype cfile = CJson container | CBad

text \<open>What is done to the rest of the host, in order.\<close>

datatype effect =
    Signal int string | CleanupCgroup string | RemoveOverlay string | RemoveConsole string
  | RemoveLog string | CancelHealth string | Emit string string

text \<open>
  The state a process works on. \<open>w_saves\<close> are the outcomes of the saves to come, all of them
  successful once the list is used up; \<open>w_stopped\<close> is the process-wide \<open>stoppedContainers\<close>.
\<close>

record 's world =
  w_dir :: "(string \<times> cfile) list"
  w_stopped :: "string list"
  w_dns :: "(string \<times> string) list"
  w_pool :: ip_pool
  w_nets :: net_dir
  w_proxies :: "string list"
  w_saves :: "write_outcome list"
  w_effects :: "effect list"
  w_host :: 's

text \<open>
  What the process reads of the host: a process's \<open>stat\<close> line, if it is there, its command line, whether it
  exits within a grace period after the effects so far, and the members of a cgroup.
\<close>

record 's env =
  e_ex :: "'s exec"
  e_hash :: "string \<Rightarrow> string"
  e_rootless :: bool
  e_stat :: "effect list \<Rightarrow> int \<Rightarrow> string option"
  e_cmdline :: "int \<Rightarrow> string"
  e_exits :: "effect list \<Rightarrow> int \<Rightarrow> bool"
  e_cgroup_procs :: "effect list \<Rightarrow> string \<Rightarrow> bool"

section \<open>Saving and loading\<close>

definition container_file :: "'s env \<Rightarrow> string \<Rightarrow> string" where
  "container_file e cid = safe_part (e_hash e) cid @ ''.json''"

definition next_save :: "'s world \<Rightarrow> write_outcome \<times> 's world" where
  "next_save w = (case w_saves w of [] \<Rightarrow> (Written, w) | o1 # os \<Rightarrow> (o1, w\<lparr>w_saves := os\<rparr>))"

definition effect :: "effect \<Rightarrow> 's world \<Rightarrow> 's world" where
  "effect f w = w\<lparr>w_effects := w_effects w @ [f]\<rparr>"

text \<open>\<open>Save\<close>: the runtime-only fields are not in the file.\<close>

definition save :: "'s env \<Rightarrow> container \<Rightarrow> 's world \<Rightarrow> bool \<times> 's world" where
  "save e c w =
     (case next_save w of (o1, w1) \<Rightarrow>
        (o1 = Written,
         if o1 = NotWritten then w1
         else w1\<lparr>w_dir := aput (container_file e (ct_id c)) (CJson (c\<lparr>ct_cleanup_started := False\<rparr>)) (w_dir w1)\<rparr>))"

text \<open>\<open>/proc/<pid>/stat\<close> as \<open>pidAlive\<close> reads it: the state is the first field after the last \<open>)\<close>.\<close>

definition stat_alive :: "string \<Rightarrow> bool" where
  "stat_alive stat =
     (case last_index_byte stat (CHR '')'') of
        None \<Rightarrow> True
      | Some i \<Rightarrow>
          (case str_fields (drop (Suc i) stat) of
             [] \<Rightarrow> True | f # fs \<Rightarrow> f \<noteq> ''Z'' \<and> f \<noteq> ''X''))"

definition pid_alive :: "'s env \<Rightarrow> 's world \<Rightarrow> int \<Rightarrow> bool" where
  "pid_alive e w pid \<longleftrightarrow>
     0 < pid \<and> (case e_stat e (w_effects w) pid of None \<Rightarrow> False | Some stat \<Rightarrow> stat_alive stat)"

definition process_alive :: "'s env \<Rightarrow> 's world \<Rightarrow> container \<Rightarrow> bool" where
  "process_alive e w c \<longleftrightarrow>
     (0 < ct_unshare_pid c \<and> pid_alive e w (ct_unshare_pid c)
        \<and> str_contains (e_cmdline e (ct_unshare_pid c)) (ct_id c))
     \<or> (0 < ct_pid c \<and> pid_alive e w (ct_pid c))"

definition clear_processes :: "container \<Rightarrow> container" where
  "clear_processes c = c\<lparr>ct_pid := 0, ct_unshare_pid := 0, ct_ns := no_namespaces, ct_status := Stopped\<rparr>"

definition normalize_loaded_state :: "'s env \<Rightarrow> container \<Rightarrow> 's world \<Rightarrow> container \<times> 's world" where
  "normalize_loaded_state e c w =
     (if ct_status c = Running \<and> \<not> process_alive e w c
      then let c' = clear_processes c in (c', snd (save e c' w))
      else (c, w))"

text \<open>\<open>os.ReadDir\<close> sorts by file name.\<close>

definition dir_entries :: "'s world \<Rightarrow> (string \<times> cfile) list" where
  "dir_entries w = sort_key fst (w_dir w)"

definition load_file :: "'s env \<Rightarrow> cfile \<Rightarrow> 's world \<Rightarrow> container option \<times> 's world" where
  "load_file e f w =
     (case f of
        CBad \<Rightarrow> (None, w)
      | CJson c \<Rightarrow> (case normalize_loaded_state e c w of (c', w') \<Rightarrow> (Some c', w')))"

definition named_in :: "string \<Rightarrow> string \<times> cfile \<Rightarrow> bool" where
  "named_in cid p = (case snd p of CBad \<Rightarrow> False | CJson c \<Rightarrow> ct_name c = cid)"

definition load :: "'s env \<Rightarrow> string \<Rightarrow> 's world \<Rightarrow> container option \<times> 's world" where
  "load e cid w =
     (case map_of (w_dir w) (container_file e cid) of
        Some f \<Rightarrow> load_file e f w
      | None \<Rightarrow>
          (case find (\<lambda>p. has_prefix (trim_suffix (fst p) ''.json'') cid) (dir_entries w) of
             Some p \<Rightarrow> load_file e (snd p) w
           | None \<Rightarrow>
               (case find (named_in cid) (dir_entries w) of
                  Some p \<Rightarrow> load_file e (snd p) w
                | None \<Rightarrow> (None, w))))"

fun list_loop :: "'s env \<Rightarrow> bool \<Rightarrow> (string \<times> cfile) list \<Rightarrow> 's world \<Rightarrow> container list \<times> 's world" where
  "list_loop e all_of [] w = ([], w)"
| "list_loop e all_of (p # ps) w =
     (if \<not> has_suffix (fst p) ''.json'' then list_loop e all_of ps w
      else case load e (trim_suffix (fst p) ''.json'') w of
        (None, w1) \<Rightarrow> list_loop e all_of ps w1
      | (Some c, w1) \<Rightarrow>
          if \<not> all_of \<and> ct_status c \<noteq> Running then list_loop e all_of ps w1
          else (case list_loop e all_of ps w1 of (cs, w2) \<Rightarrow> (c # cs, w2)))"

definition list_containers :: "'s env \<Rightarrow> bool \<Rightarrow> 's world \<Rightarrow> container list \<times> 's world" where
  "list_containers e all_of w = list_loop e all_of (dir_entries w) w"

definition find_by_name :: "'s env \<Rightarrow> string \<Rightarrow> 's world \<Rightarrow> container option \<times> 's world" where
  "find_by_name e name w =
     (case list_containers e True w of (cs, w1) \<Rightarrow> (find (\<lambda>c. ct_name c = name) cs, w1))"

text \<open>\<open>DeleteState\<close>, which fails when there is no file.\<close>

definition delete_state :: "'s env \<Rightarrow> container \<Rightarrow> 's world \<Rightarrow> bool \<times> 's world" where
  "delete_state e c w =
     (case map_of (w_dir w) (container_file e (ct_id c)) of
        None \<Rightarrow> (False, w)
      | Some _ \<Rightarrow> (True, w\<lparr>w_dir := adel (container_file e (ct_id c)) (w_dir w)\<rparr>))"

section \<open>Names of containers\<close>

definition register_dns_name :: "string \<Rightarrow> string \<Rightarrow> (string \<times> string) list \<Rightarrow> (string \<times> string) list" where
  "register_dns_name name ip entries = aput name ip entries"

definition unregister_dns_name :: "string \<Rightarrow> (string \<times> string) list \<Rightarrow> (string \<times> string) list" where
  "unregister_dns_name name entries = filter (\<lambda>p. fst p \<noteq> name) entries"

definition resolve_dns_name :: "string \<Rightarrow> (string \<times> string) list \<Rightarrow> string" where
  "resolve_dns_name name entries = (case map_of entries name of None \<Rightarrow> [] | Some ip \<Rightarrow> ip)"

text \<open>The text appended to a container's \<open>/etc/hosts\<close>, once.\<close>

definition hosts_content :: "string \<Rightarrow> string \<Rightarrow> (string \<times> string) list \<Rightarrow> string" where
  "hosts_content hosts name entries =
     (if str_contains hosts ''# dck-managed'' then hosts
      else hosts @ [CHR 0x0A] @ ''# dck-managed names'' @ [CHR 0x0A]
        @ concat (map (\<lambda>(n, ip). if n \<noteq> name then ip @ [CHR 0x09] @ n @ [CHR 0x0A] else []) entries))"

section \<open>The crash-loop guard\<close>

definition restart_max_attempts :: "container \<Rightarrow> int" where
  "restart_max_attempts c = (if ct_restart_max c \<le> 0 then 5 else ct_restart_max c)"

definition restart_window_duration :: "container \<Rightarrow> duration" where
  "restart_window_duration c = positive_duration (ct_restart_window c) (10 * minute)"

definition reset_restart_guard :: "instant \<Rightarrow> container \<Rightarrow> container" where
  "reset_restart_guard now c = c\<lparr>ct_attempts := 0, ct_window_start := now, ct_blocked := False\<rparr>"

definition open_window :: "instant \<Rightarrow> container \<Rightarrow> container" where
  "open_window now c =
     (if is_zero (ct_window_start c) \<or> now - ct_window_start c \<ge> restart_window_duration c
      then c\<lparr>ct_window_start := now, ct_attempts := 0\<rparr> else c)"

definition allow_automatic_restart ::
  "'s env \<Rightarrow> instant \<Rightarrow> container \<Rightarrow> 's world \<Rightarrow> bool \<times> container \<times> 's world" where
  "allow_automatic_restart e now c w =
     (if ct_blocked c then (False, c, w)
      else
        let c1 = open_window now c in
        if ct_attempts c1 \<ge> restart_max_attempts c1
        then let c2 = c1\<lparr>ct_blocked := True\<rparr> in (False, c2, snd (save e c2 w))
        else
          let c2 = c1\<lparr>ct_attempts := ct_attempts c1 + 1\<rparr> in
          (case save e c2 w of (ok, w1) \<Rightarrow> (ok, c2, w1)))"

definition mark_stable_if_needed :: "instant \<Rightarrow> container \<Rightarrow> container" where
  "mark_stable_if_needed now c =
     (if \<not> is_zero (ct_last_started c) \<and> now - ct_last_started c \<ge> minute
      then reset_restart_guard now c else c)"

end
