(* ===== verification/Lifecycle.thy ===== *)
theory Lifecycle
  imports Containers
begin

text \<open>
  Starting, stopping, restarting and removing containers (\<open>internal/container/start.go\<close>,
  \<open>stop.go\<close>, \<open>remove.go\<close>, \<open>rename.go\<close>, \<open>port_mgr.go\<close>). An operation takes the container its
  process holds and the world, and returns both.
\<close>

datatype life_err =
    AlreadyRunning | NotRunning | SaveError | DirsFailed | RootlessNetwork | FilesystemFailed
  | UnshareFailed | IoFailed | PipeFailed | SpawnFailed | HandshakeFailed | NoInitProcess
  | NetFailed fw_err | RootlessFailed | ReleaseFailed | NamespacesFailed | RemovedDuringStart
  | StillRunning | OverlayFailed | DeleteFailedErr | NameTaken | PortNotFound | PortForwardFailed

type_synonym 's step = "(life_err + unit) \<times> container \<times> 's world"

section \<open>Releasing what a container holds\<close>

definition on_host :: "('s \<Rightarrow> 's) \<Rightarrow> 's world \<Rightarrow> 's world" where
  "on_host f w = w\<lparr>w_host := f (w_host w)\<rparr>"

text \<open>Only a process that looks like this container's forwarder is killed.\<close>

definition forwarder_matches :: "string \<Rightarrow> port_map list \<Rightarrow> bool" where
  "forwarder_matches command ports \<longleftrightarrow>
     (str_contains command ''socat'' \<or> str_contains command ''rootlesskit'')
     \<and> list_ex (\<lambda>p. str_contains command (''LISTEN:'' @ int_str (pm_host_port p))
          \<and> str_contains command ('':'' @ int_str (pm_container_port p))) ports"

definition cleanup_forwarders :: "'s env \<Rightarrow> int list \<Rightarrow> port_map list \<Rightarrow> 's world \<Rightarrow> 's world" where
  "cleanup_forwarders e pids ports w =
     fold (\<lambda>pid. effect (Signal pid ''TERM''))
       (filter (\<lambda>pid. 0 < pid \<and> forwarder_matches (e_cmdline e pid) ports) pids) w"

definition cleanup_rootless_ports :: "'s env \<Rightarrow> container \<Rightarrow> 's world \<Rightarrow> container \<times> 's world" where
  "cleanup_rootless_ports e c w =
     (if ct_forward_pids c = [] then (c, w)
      else (c\<lparr>ct_forward_pids := []\<rparr>, cleanup_forwarders e (ct_forward_pids c) (ct_ports c) w))"

definition kill_console_serve :: "'s env \<Rightarrow> container \<Rightarrow> 's world \<Rightarrow> container \<times> 's world" where
  "kill_console_serve e c w =
     (if ct_console_pid c \<le> 0 then (c, w)
      else if e_exits e (w_effects w) (ct_console_pid c) then (c\<lparr>ct_console_pid := 0\<rparr>, w)
      else (c\<lparr>ct_console_pid := 0\<rparr>, effect (Signal (ct_console_pid c) ''KILL'') w))"

definition user_network_mode :: "string \<Rightarrow> bool" where
  "user_network_mode mode \<longleftrightarrow> mode \<noteq> [] \<and> mode \<noteq> ''bridge''"

definition port_rules :: "container \<Rightarrow> port_rule list" where
  "port_rules c =
     map (\<lambda>p. \<lparr>pr_host_port = pm_host_port p, pr_container_port = pm_container_port p,
               pr_protocol = pm_protocol p, pr_container_ip = ct_ip c\<rparr>) (ct_ports c)"

definition release_user_network :: "'s env \<Rightarrow> container \<Rightarrow> 's world \<Rightarrow> 's world" where
  "release_user_network e c w =
     (case next_save w of (o1, w1) \<Rightarrow>
       let s1 = fst (remove_veth (e_ex e) (ct_id c) (w_host w1)) in
       (case remove_ports (e_ex e) (ct_ip c) (port_rules c) (w_proxies w1, s1) of (proxies, s2) \<Rightarrow>
          w1\<lparr>w_nets := release_network_ip o1 (ct_network_mode c) (ct_ip c) (w_nets w1),
             w_proxies := proxies, w_host := s2\<rparr>))"

definition release_bridge :: "'s env \<Rightarrow> container \<Rightarrow> 's world \<Rightarrow> 's world" where
  "release_bridge e c w =
     (case next_save w of (o1, w1) \<Rightarrow>
       (case cleanup_container_network (e_ex e) o1 (ct_id c) (ct_ip c) (port_rules c)
               (w_proxies w1, w_pool w1, w_host w1) of (proxies, pool, s) \<Rightarrow>
          w1\<lparr>w_proxies := proxies, w_pool := pool, w_host := s\<rparr>))"

definition cleanup_network :: "'s env \<Rightarrow> container \<Rightarrow> 's world \<Rightarrow> container \<times> 's world" where
  "cleanup_network e c w =
     (case cleanup_rootless_ports e c w of (c1, w1) \<Rightarrow>
       if ct_ip c1 = [] then (c1, w1)
       else (c1\<lparr>ct_ip := []\<rparr>,
             if user_network_mode (ct_network_mode c1) then release_user_network e c1 w1
             else release_bridge e c1 w1))"

definition cleanup_cgroup :: "container \<Rightarrow> 's world \<Rightarrow> 's world" where
  "cleanup_cgroup c w = (if ct_cgroup c = [] then w else effect (CleanupCgroup (ct_cgroup c)) w)"

section \<open>Stopping\<close>

definition kill_recorded_processes :: "'s env \<Rightarrow> int \<Rightarrow> int \<Rightarrow> 's world \<Rightarrow> 's world" where
  "kill_recorded_processes e pid target0 w =
     (let target = (if target0 \<le> 0 then pid else target0) in
      if target \<le> 0 then w
      else
        let init = (if pid = target then 0 else pid);
            w1 = effect (Signal target ''TERM'') w;
            w2 = (if 0 < init then effect (Signal init ''TERM'') w1 else w1) in
        if e_exits e (w_effects w2) (if 0 < init then init else target) then w2
        else
          let w3 = effect (Signal target ''KILL'') w2 in
          if 0 < init then effect (Signal init ''KILL'') w3 else w3)"

definition finalize_stop_state :: "'s env \<Rightarrow> container \<Rightarrow> 's world \<Rightarrow> container \<times> 's world" where
  "finalize_stop_state e c w =
     (case cleanup_rootless_ports e c w of (c1, w1) \<Rightarrow>
      (case kill_console_serve e c1 w1 of (c2, w2) \<Rightarrow>
      (case cleanup_network e c2 (effect (CancelHealth (ct_id c2)) w2) of (c3, w3) \<Rightarrow>
        let w4 = effect (RemoveConsole (ct_id c3)) (cleanup_cgroup c3 w3);
            w5 = w4\<lparr>w_dns := unregister_dns_name (ct_name c3) (w_dns w4)\<rparr>;
            c4 = clear_processes c3;
            w6 = snd (save e c4 w5) in
        (c4, effect (Emit ''stop'' (ct_id c4)) w6))))"

text \<open>\<open>find_unshare\<close> is what \<open>ps\<close> reports as the \<open>unshare\<close> parent of a process, 0 when there is none.\<close>

definition stop_container :: "'s env \<Rightarrow> (int \<Rightarrow> int) \<Rightarrow> container \<Rightarrow> 's world \<Rightarrow> 's step" where
  "stop_container e find_unshare c w =
     (if ct_status c \<noteq> Running then
        (case (if 0 < ct_pid c \<or> 0 < ct_unshare_pid c \<or> pid_alive e w (ct_console_pid c)
               then
                 (case cleanup_rootless_ports e c
                         (kill_recorded_processes e (ct_pid c) (ct_unshare_pid c) w) of (c1, w1) \<Rightarrow>
                  (case kill_console_serve e c1 w1 of (c2, w2) \<Rightarrow>
                  (case cleanup_network e c2 w2 of (c3, w3) \<Rightarrow> (c3, cleanup_cgroup c3 w3))))
               else (c, w)) of (c4, w4) \<Rightarrow>
           if ct_status c4 = Stopped \<and> ct_restart c4 \<noteq> [] \<and> ct_restart c4 \<noteq> ''no'' then
             let c5 = c4\<lparr>ct_stopped_by_user := True\<rparr>;
                 w5 = w4\<lparr>w_stopped := ct_id c5 # w_stopped w4\<rparr> in
             (case save e c5 w5 of (ok, w6) \<Rightarrow> (if ok then Inr () else Inl SaveError, c5, w6))
           else (Inl NotRunning, c4, w4))
      else if ct_cleanup_started c then (Inr (), c, w)
      else
        let c1 = c\<lparr>ct_cleanup_started := True, ct_stopped_by_user := True\<rparr>;
            w1 = w\<lparr>w_stopped := ct_id c1 # w_stopped w\<rparr> in
        (case save e c1 w1 of (ok, w2) \<Rightarrow>
           if \<not> ok then (Inl SaveError, c1, w2)
           else
             let t1 = (if ct_unshare_pid c1 \<le> 0 then find_unshare (ct_pid c1) else ct_unshare_pid c1);
                 target = (if t1 \<le> 0 then ct_pid c1 else t1);
                 w3 = (if target \<le> 0 then w2 else kill_recorded_processes e (ct_pid c1) target w2) in
             (case finalize_stop_state e c1 w3 of (c2, w4) \<Rightarrow> (Inr (), c2, w4))))"

section \<open>When the main process exits\<close>

definition should_restart :: "string \<Rightarrow> int \<Rightarrow> bool \<Rightarrow> bool" where
  "should_restart policy exit_code stopped_by_user =
     (if stopped_by_user then False
      else if policy = ''always'' then True
      else if policy = ''unless-stopped'' then True
      else if policy = ''on-failure'' then exit_code \<noteq> 0
      else False)"

definition restart_delay :: "container \<Rightarrow> duration" where
  "restart_delay c = positive_duration (ct_restart_delay c) second"

definition finalize_stopped ::
  "'s env \<Rightarrow> instant \<Rightarrow> int \<Rightarrow> container \<Rightarrow> 's world \<Rightarrow> (bool \<times> bool) \<times> container \<times> 's world" where
  "finalize_stopped e now exit_code c w =
     (if ct_cleanup_started c then ((False, False), c, w)
      else
        let by_user = (ct_stopped_by_user c \<or> ct_id c \<in> set (w_stopped w));
            w1 = w\<lparr>w_dns := unregister_dns_name (ct_name c) (w_dns w)\<rparr>;
            c1 = (clear_processes (c\<lparr>ct_cleanup_started := True\<rparr>))\<lparr>ct_last_exit := now\<rparr> in
        (case cleanup_network e c1 w1 of (c2, w2) \<Rightarrow>
        (case kill_console_serve e c2 w2 of (c3, w3) \<Rightarrow>
          let w4 = cleanup_cgroup c3 w3;
              w5 = snd (save e c3 w4);
              c4 = mark_stable_if_needed now c3 in
          ((True, should_restart (ct_restart c4) exit_code by_user), c4, w5))))"

definition cleanup_container :: "'s env \<Rightarrow> container \<Rightarrow> 's world \<Rightarrow> container \<times> 's world" where
  "cleanup_container e c w =
     (let w1 = (if 0 < ct_console_pid c then effect (Signal (ct_console_pid c) ''KILL'') w else w);
          c1 = (if 0 < ct_console_pid c then c\<lparr>ct_console_pid := 0\<rparr> else c) in
      case cleanup_network e c1 (effect (CancelHealth (ct_id c1)) w1) of (c2, w2) \<Rightarrow>
        let w3 = effect (RemoveLog (ct_id c2)) (effect (RemoveOverlay (ct_id c2)) (effect (RemoveConsole (ct_id c2)) w2));
            w4 = cleanup_cgroup c2 w3 in
        (c2, snd (delete_state e c2 w4)))"

text \<open>\<open>HandleMainProcessExit\<close>, called by the supervisor with a container it loads itself.\<close>

definition handle_main_process_exit :: "'s env \<Rightarrow> instant \<Rightarrow> string \<Rightarrow> 's world \<Rightarrow> bool \<times> 's world" where
  "handle_main_process_exit e now cid w =
     (case load e cid w of
        (None, w1) \<Rightarrow> (False, w1)
      | (Some c, w1) \<Rightarrow>
          (case finalize_stopped e now 0 c w1 of ((fin, restart), c1, w2) \<Rightarrow>
             if \<not> fin then (False, w2)
             else (True, if \<not> restart \<and> ct_remove_on_exit c1 then snd (cleanup_container e c1 w2) else w2)))"

definition can_restart_after_delay :: "'s env \<Rightarrow> container \<Rightarrow> 's world \<Rightarrow> bool \<times> 's world" where
  "can_restart_after_delay e c w =
     (if ct_id c \<in> set (w_stopped w) then (False, w)
      else case load e (ct_id c) w of
        (None, w1) \<Rightarrow> (False, w1)
      | (Some latest, w1) \<Rightarrow> (ct_status latest = Stopped \<and> \<not> ct_stopped_by_user latest, w1))"

text \<open>What the monitor of a detached container does after the exit of the main process.\<close>

datatype after_exit = NotOwner | RestartScheduled duration | CrashLoop | RemovedAfterExit | LeftStopped

definition monitor_exit ::
  "'s env \<Rightarrow> instant \<Rightarrow> int \<Rightarrow> container \<Rightarrow> 's world \<Rightarrow> after_exit \<times> container \<times> 's world" where
  "monitor_exit e now exit_code c w =
     (case finalize_stopped e now exit_code c w of ((fin, restart), c1, w1) \<Rightarrow>
        if \<not> fin then (NotOwner, c1, w1)
        else if restart \<and> (\<not> ct_detach c1 \<or> ct_restart c1 = ''on-failure'') then
          (case allow_automatic_restart e now c1 w1 of (ok, c2, w2) \<Rightarrow>
             (if ok then RestartScheduled (restart_delay c2) else CrashLoop, c2, w2))
        else if ct_remove_on_exit c1 then
          (case cleanup_container e c1 w1 of (c2, w2) \<Rightarrow> (RemovedAfterExit, c2, w2))
        else (LeftStopped, c1, w1))"

text \<open>
  The health check: its settings with their defaults, and the loop over the results of the
  checks. The loop ends by killing the process at the check whose index is the result.
\<close>

record healthcheck =
  hc_cmd :: string
  hc_interval :: int
  hc_retries :: int
  hc_timeout :: int

definition health_settings :: "healthcheck \<Rightarrow> duration \<times> int \<times> duration" where
  "health_settings hc =
     (if hc_interval hc = 0 then 30 * second else hc_interval hc * second,
      if hc_retries hc = 0 then 3 else hc_retries hc,
      if hc_timeout hc = 0 then 10 * second else hc_timeout hc * second)"

fun health_loop :: "int \<Rightarrow> int \<Rightarrow> bool list \<Rightarrow> nat option" where
  "health_loop retries failures [] = None"
| "health_loop retries failures (ok # rs) =
     (if ok then map_option Suc (health_loop retries 0 rs)
      else if failures + 1 \<ge> retries then Some 0
      else map_option Suc (health_loop retries (failures + 1) rs))"

end
