(* ===== verification/Dockerfile.thy ===== *)
theory Dockerfile
  imports GoStrings
begin

text \<open>
  The Dockerfile parser (\<open>internal/builder/parser.go\<close>) and the substitution of build arguments
  (\<open>expandBuildArg\<close> in \<open>builder.go\<close>). A string builder is the list of the bytes written so far,
  kept in reverse.
\<close>

section \<open>Words\<close>

text \<open>
  \<open>SplitSpaceRespectingQuotes\<close>: \<open>sq\<close> and \<open>dq\<close> are inside single and double quotes, \<open>esc\<close> after a
  backslash, \<open>cur\<close> the current word in reverse.
\<close>

definition flush_word :: "string \<Rightarrow> string list" where
  "flush_word cur = (if cur = [] then [] else [rev cur])"

fun split_quotes :: "bool \<Rightarrow> bool \<Rightarrow> bool \<Rightarrow> string \<Rightarrow> string \<Rightarrow> string list" where
  "split_quotes sq dq esc cur [] = flush_word cur"
| "split_quotes sq dq esc cur (c # s) =
     (if esc then split_quotes sq dq False (c # cur) s
      else if c = CHR 0x5C \<and> dq then split_quotes sq dq True cur s
      else if c = CHR 0x27 \<and> \<not> dq then split_quotes (\<not> sq) dq False (c # cur) s
      else if c = CHR 0x22 \<and> \<not> sq then split_quotes sq (\<not> dq) False (c # cur) s
      else if ascii_space c \<and> \<not> sq \<and> \<not> dq then flush_word cur @ split_quotes sq dq False [] s
      else split_quotes sq dq False (c # cur) s)"

definition split_space_respecting_quotes :: "string \<Rightarrow> string list" where
  "split_space_respecting_quotes s = split_quotes False False False [] s"

text \<open>\<open>SplitShellWords\<close>: the words without the quotes around them.\<close>

definition unquote_word :: "string \<Rightarrow> string" where
  "unquote_word p =
     (if length p \<ge> 2 \<and> ((hd p = CHR 0x27 \<and> last p = CHR 0x27) \<or> (hd p = CHR 0x22 \<and> last p = CHR 0x22))
      then butlast (tl p) else p)"

definition split_shell_words :: "string \<Rightarrow> string list" where
  "split_shell_words s = map unquote_word (split_space_respecting_quotes s)"

section \<open>Exec form\<close>

text \<open>An element of a JSON array, between two commas.\<close>

definition json_item :: "string \<Rightarrow> string list" where
  "json_item cur =
     (let val = trim_bytes (trim_space (rev cur)) {CHR 0x22, CHR 0x27} in if val = [] then [] else [val])"

fun json_items :: "bool \<Rightarrow> bool \<Rightarrow> bool \<Rightarrow> string \<Rightarrow> string \<Rightarrow> string list" where
  "json_items sq dq esc cur [] = json_item cur"
| "json_items sq dq esc cur (c # s) =
     (if esc then json_items sq dq False (c # cur) s
      else if c = CHR 0x5C \<and> dq then json_items sq dq True cur s
      else if c = CHR 0x27 \<and> \<not> dq then json_items (\<not> sq) dq False cur s
      else if c = CHR 0x22 \<and> \<not> sq then json_items sq (\<not> dq) False cur s
      else if c = CHR '','' \<and> \<not> sq \<and> \<not> dq then json_item cur @ json_items sq dq False [] s
      else json_items sq dq False (c # cur) s)"

definition parse_json_array :: "string \<Rightarrow> string list" where
  "parse_json_array s0 =
     (let s = trim_space s0 in
      if \<not> has_prefix s ''['' \<or> \<not> has_suffix s '']'' then split_space_respecting_quotes s
      else json_items False False False [] (take (length s - 2) (drop 1 s)))"

definition get_exec_form :: "string list \<Rightarrow> string list option" where
  "get_exec_form args =
     (case args of
        [a] \<Rightarrow> (let parsed = parse_json_array a in if parsed = [] then None else Some parsed)
      | _ \<Rightarrow> None)"

section \<open>Instructions\<close>

datatype instr_type =
    From | Run | Cmd | Entrypoint | Env | Workdir | Copy | Add | Expose | Label | User | Volume
  | Shell | Arg | StopSignal | Healthcheck | Maintainer | OnBuild

definition instruction_types :: "(string \<times> instr_type) list" where
  "instruction_types =
     [(''FROM'', From), (''RUN'', Run), (''CMD'', Cmd), (''ENTRYPOINT'', Entrypoint), (''ENV'', Env),
      (''WORKDIR'', Workdir), (''COPY'', Copy), (''ADD'', Add), (''EXPOSE'', Expose), (''LABEL'', Label),
      (''USER'', User), (''VOLUME'', Volume), (''SHELL'', Shell), (''ARG'', Arg),
      (''STOPSIGNAL'', StopSignal), (''HEALTHCHECK'', Healthcheck), (''MAINTAINER'', Maintainer),
      (''ONBUILD'', OnBuild)]"

record instruction =
  in_type :: instr_type
  in_args :: "string list"
  in_raw :: string

definition parse_env_args :: "string \<Rightarrow> string list" where
  "parse_env_args s =
     (if str_contains s ''='' then split_space_respecting_quotes s
      else case splitn_byte 2 (CHR '' '') s of
        [k, v] \<Rightarrow> [k, trim_space v]
      | parts \<Rightarrow> parts)"

definition parse_label_args :: "string \<Rightarrow> string list" where
  "parse_label_args s = split_space_respecting_quotes s"

text \<open>The index of the first white space, as \<open>strings.IndexFunc\<close> finds it.\<close>

fun index_space :: "string \<Rightarrow> nat option" where
  "index_space [] = None"
| "index_space (c # s) = (if space_len (c # s) \<noteq> 0 then Some 0 else map_option Suc (index_space s))"

definition split_instruction :: "string \<Rightarrow> string list" where
  "split_instruction line0 =
     (let line = trim_space line0 in
      if has_prefix line ''['' then parse_json_array line
      else case index_space line of
        None \<Rightarrow> [line]
      | Some idx \<Rightarrow>
          let inst = take idx line; rest = trim_space (drop idx line) in
          inst #
            (if has_prefix rest ''['' then parse_json_array rest
             else if inst = ''ENV'' then parse_env_args rest
             else if inst = ''LABEL'' then parse_label_args rest
             else if inst = ''EXPOSE'' then str_fields rest
             else split_space_respecting_quotes rest))"

definition parse_instruction :: "string \<Rightarrow> string + instruction option" where
  "parse_instruction line =
     (case split_instruction line of
        [] \<Rightarrow> Inr None
      | p # args \<Rightarrow>
          (case map_of instruction_types (to_upper p) of
             None \<Rightarrow> Inl p
           | Some t \<Rightarrow> Inr (Some \<lparr>in_type = t, in_args = args, in_raw = line\<rparr>)))"

text \<open>
  The loop of \<open>ParseInstructions\<close>: the line number, the pending text of a continued line, and
  the lines left. An error carries the line's number and the unknown keyword. A continuation
  that the file ends in is dropped.
\<close>

fun parse_lines :: "nat \<Rightarrow> string option \<Rightarrow> string list \<Rightarrow> (nat \<times> string) + instruction list" where
  "parse_lines i pend [] = Inr []"
| "parse_lines i pend (raw # rest) =
     (let line = trim_right raw;
          continued = has_suffix line [CHR 0x5C];
          body = (if continued then butlast line else line);
          text = (case pend of None \<Rightarrow> body | Some p \<Rightarrow> p @ '' '' @ trim_left body) in
      if continued then parse_lines (Suc i) (Some text) rest
      else
        let l = trim_space text in
        if l = [] \<or> has_prefix l ''#'' then parse_lines (Suc i) None rest
        else case parse_instruction l of
          Inl kw \<Rightarrow> Inl (Suc i, kw)
        | Inr inst \<Rightarrow>
            (case parse_lines (Suc i) None rest of
               Inl e \<Rightarrow> Inl e
             | Inr insts \<Rightarrow> Inr (case inst of None \<Rightarrow> insts | Some x \<Rightarrow> x # insts)))"

definition parse_instructions :: "string \<Rightarrow> (nat \<times> string) + instruction list" where
  "parse_instructions content = parse_lines 0 None (split_byte (CHR 0x0A) content)"

section \<open>Build arguments\<close>

definition is_word_char :: "char \<Rightarrow> bool" where
  "is_word_char c \<longleftrightarrow>
     c = CHR ''_'' \<or> (97 \<le> (of_char c :: nat) \<and> (of_char c :: nat) \<le> 122)
     \<or> (65 \<le> (of_char c :: nat) \<and> (of_char c :: nat) \<le> 90) \<or> is_digit c"

definition arg_value :: "(string \<times> string) list \<Rightarrow> string \<Rightarrow> string" where
  "arg_value args name = (case map_of args name of None \<Rightarrow> [] | Some v \<Rightarrow> v)"

function expand_build_arg :: "(string \<times> string) list \<Rightarrow> string \<Rightarrow> string" where
  "expand_build_arg args [] = []"
| "expand_build_arg args (c # s) =
     (if c \<noteq> CHR ''$'' then c # expand_build_arg args s
      else if has_prefix s ''{'' then
        (let rest = dropWhile (\<lambda>x. x \<noteq> CHR ''}'') (tl s) in
         if rest = [] then c # s
         else arg_value args (takeWhile (\<lambda>x. x \<noteq> CHR ''}'') (tl s)) @ expand_build_arg args (tl rest))
      else
        (let name = takeWhile is_word_char s in
         if name = [] then c # expand_build_arg args s
         else arg_value args name @ expand_build_arg args (dropWhile is_word_char s)))"
  by pat_completeness auto
termination
proof (relation "measure (length \<circ> snd)", goal_cases)
  case (3 args c s rest)
  have "length rest \<le> length (tl s)" unfolding 3(3) by (rule length_dropWhile_le)
  then show ?case by simp
qed (auto simp: length_dropWhile_le less_Suc_eq_le)

definition substitute_args :: "string list \<Rightarrow> (string \<times> string) list \<Rightarrow> string list" where
  "substitute_args args build_args = map (expand_build_arg build_args) args"

text \<open>\<open>ARG name[=default]\<close>: the default is used unless a value was given already.\<close>

definition handle_arg :: "string list \<Rightarrow> (string \<times> string) list \<Rightarrow> (string \<times> string) list" where
  "handle_arg args build_args =
     (let s = str_join '' '' args;
          (name, dflt) = (case str_index s ''='' of None \<Rightarrow> (s, []) | Some i \<Rightarrow> (take i s, drop (Suc i) s)) in
      if map_of build_args name = None \<and> dflt \<noteq> [] then aput name dflt build_args else build_args)"

end
