(* ===== verification/Create.thy ===== *)
theory Create
  imports Secrets Compose UpOrder Lifecycle Dockerfile
begin

text \<open>
  Making a container from options (\<open>New\<close> in \<open>internal/container/create.go\<close>), the options that
  \<open>dck up\<close> derives from a configuration, and the configuration that \<open>dck up --generate\<close> writes for
  a container (\<open>cmd/up.go\<close>). The fields of a container that the runtime only copies from the
  options are the record \<open>container_more\<close> beside the \<open>container\<close> of the lifecycle.
\<close>

section \<open>Options\<close>

text \<open>The limits are 64-bit numbers.\<close>

record ulimit =
  ul_name :: string
  ul_soft :: nat
  ul_hard :: nat

record create_opts =
  co_name :: string
  co_cmd :: "string list"
  co_startup :: string
  co_ports :: "port_map list"
  co_volumes :: "volume_mount list"
  co_env :: "string list"
  co_hostname :: string
  co_restart :: string
  co_restart_delay :: string
  co_restart_max :: int
  co_restart_window :: string
  co_auto_backup :: bool
  co_backup_interval :: string
  co_backup_retention :: int
  co_backup_dir :: string
  co_detach :: bool
  co_interactive :: bool
  co_tty :: bool
  co_remove_on_exit :: bool
  co_memory :: int
  co_cpus :: cpus
  co_disk :: int
  co_working_dir :: string
  co_health :: "healthcheck option"
  co_labels :: "string smap"
  co_cap_add :: "string list"
  co_cap_drop :: "string list"
  co_user :: string
  co_readonly :: bool
  co_no_new_privs :: bool
  co_sysctls :: "string smap"
  co_dns :: "string list option"
  co_network_mode :: string
  co_entrypoint :: string
  co_ulimits :: "ulimit list"
  co_seccomp :: string
  co_apparmor :: string
  co_isolated :: bool
  co_encrypted_backup :: bool
  co_audit :: bool

definition zero_opts :: create_opts where
  "zero_opts =
     \<lparr>co_name = [], co_cmd = [], co_startup = [], co_ports = [], co_volumes = [], co_env = [], co_hostname = [],
      co_restart = [], co_restart_delay = [], co_restart_max = 0, co_restart_window = [], co_auto_backup = False,
      co_backup_interval = [], co_backup_retention = 0, co_backup_dir = [], co_detach = False, co_interactive = False,
      co_tty = False, co_remove_on_exit = False, co_memory = 0, co_cpus = (0, 0), co_disk = 0, co_working_dir = [],
      co_health = None, co_labels = [], co_cap_add = [], co_cap_drop = [], co_user = [], co_readonly = False,
      co_no_new_privs = False, co_sysctls = [], co_dns = None, co_network_mode = [], co_entrypoint = [],
      co_ulimits = [], co_seccomp = [], co_apparmor = [], co_isolated = False, co_encrypted_backup = False,
      co_audit = False\<rparr>"

record container_more =
  cm_startup :: string
  cm_volumes :: "volume_mount list"
  cm_env :: "string list"
  cm_interactive :: bool
  cm_tty :: bool
  cm_memory :: int
  cm_cpus :: cpus
  cm_disk :: int
  cm_health :: "healthcheck option"
  cm_labels :: "string smap"
  cm_cap_add :: "string list"
  cm_cap_drop :: "string list"
  cm_user :: string
  cm_readonly :: bool
  cm_no_new_privs :: bool
  cm_sysctls :: "string smap"
  cm_entrypoint :: string
  cm_ulimits :: "ulimit list"
  cm_seccomp :: string
  cm_apparmor :: string
  cm_isolated :: bool
  cm_encrypted_backup :: bool
  cm_audit :: bool
  cm_secrets :: "secret_mount list"

section \<open>New\<close>

text \<open>What an image's \<open>config.json\<close> says, when it can be read.\<close>

record image_defaults =
  id_cmd :: "string list"
  id_entrypoint :: "string list"
  id_working_dir :: string

definition work_dir :: "image_defaults option \<Rightarrow> create_opts \<Rightarrow> string" where
  "work_dir img opts =
     (if co_working_dir opts \<noteq> [] then co_working_dir opts
      else case map_option id_working_dir img of
        Some (c # cs) \<Rightarrow> c # cs
      | _ \<Rightarrow>
          (case find (\<lambda>v. has_prefix (vm_target v) [slash] \<and> vm_target v \<noteq> [slash]) (co_volumes opts) of
             Some v \<Rightarrow> vm_target v
           | None \<Rightarrow> ''/home/container''))"

definition command_of :: "image_defaults option \<Rightarrow> create_opts \<Rightarrow> string list" where
  "command_of img opts =
     (if co_cmd opts = [] then
        let cmd = (case img of
              None \<Rightarrow> []
            | Some d \<Rightarrow>
                if co_entrypoint opts \<noteq> [] then co_entrypoint opts # id_cmd d
                else if id_entrypoint d \<noteq> [] then id_entrypoint d @ id_cmd d
                else id_cmd d) in
        if cmd = [] then [''/bin/sh''] else cmd
      else if co_entrypoint opts \<noteq> [] then co_entrypoint opts # co_cmd opts
      else case img of
        None \<Rightarrow> co_cmd opts
      | Some d \<Rightarrow> id_entrypoint d @ co_cmd opts)"

definition new_container ::
  "string \<Rightarrow> image_defaults option \<Rightarrow> string \<times> string \<Rightarrow> create_opts \<Rightarrow> container \<times> container_more" where
  "new_container cid img nt opts =
     (\<lparr>ct_id = cid, ct_name = (if co_name opts = [] then take 12 cid else co_name opts),
       ct_image = fst nt, ct_tag = snd nt, ct_pid = 0, ct_unshare_pid = 0, ct_ns = no_namespaces, ct_status = Created,
       ct_cmd = command_of img opts, ct_ports = co_ports opts,
       ct_hostname = (if co_hostname opts = [] then take 12 cid else co_hostname opts),
       ct_working_dir = work_dir img opts, ct_restart = co_restart opts, ct_restart_delay = co_restart_delay opts,
       ct_restart_max = co_restart_max opts, ct_restart_window = co_restart_window opts, ct_attempts = 0,
       ct_window_start = 0, ct_last_started = 0, ct_blocked = False, ct_auto_backup = co_auto_backup opts,
       ct_backup_interval = co_backup_interval opts, ct_backup_retention = co_backup_retention opts,
       ct_backup_dir = co_backup_dir opts, ct_last_backup = 0, ct_next_backup = 0, ct_ip = [],
       ct_detach = co_detach opts, ct_remove_on_exit = co_remove_on_exit opts, ct_stopped_by_user = False,
       ct_last_exit = 0, ct_cgroup = [], ct_network_mode = co_network_mode opts, ct_dns = co_dns opts,
       ct_console_pid = 0, ct_forward_pids = [], ct_cleanup_started = False\<rparr>,
      \<lparr>cm_startup = co_startup opts, cm_volumes = co_volumes opts, cm_env = co_env opts,
       cm_interactive = co_interactive opts, cm_tty = co_tty opts, cm_memory = co_memory opts, cm_cpus = co_cpus opts,
       cm_disk = co_disk opts, cm_health = co_health opts, cm_labels = co_labels opts, cm_cap_add = co_cap_add opts,
       cm_cap_drop = co_cap_drop opts, cm_user = co_user opts, cm_readonly = co_readonly opts,
       cm_no_new_privs = co_no_new_privs opts, cm_sysctls = co_sysctls opts, cm_entrypoint = co_entrypoint opts,
       cm_ulimits = co_ulimits opts, cm_seccomp = co_seccomp opts, cm_apparmor = co_apparmor opts,
       cm_isolated = co_isolated opts, cm_encrypted_backup = co_encrypted_backup opts, cm_audit = co_audit opts,
       cm_secrets = []\<rparr>)"

definition resolve_and_set_secrets :: "container_config \<Rightarrow> config \<Rightarrow> container_more \<Rightarrow> container_more" where
  "resolve_and_set_secrets kc cfg m =
     (case parse_secrets_to_volumes kc cfg of (vols, secs) \<Rightarrow> m\<lparr>cm_volumes := cm_volumes m @ vols, cm_secrets := secs\<rparr>)"

section \<open>The options of a service\<close>

text \<open>A published port; one whose numbers cannot be read or are not positive is passed over.\<close>

definition up_port :: "string \<Rightarrow> port_map list" where
  "up_port p =
     (let (spec, proto) = (case splitn_byte 2 slash p of [a, b] \<Rightarrow> (a, b) | _ \<Rightarrow> (p, ''tcp'')) in
      case splitn_byte 2 (CHR '':'') spec of
        [a, b] \<Rightarrow>
          (case (scan_int a, scan_int b) of
             (Some host, Some cont) \<Rightarrow>
               if 0 < host \<and> 0 < cont
               then [\<lparr>pm_host_port = host, pm_container_port = cont, pm_protocol = proto\<rparr>] else []
           | _ \<Rightarrow> [])
      | _ \<Rightarrow> [])"

text \<open>\<open>ParseUint\<close> with its error ignored: 0 for what is no number, the largest value when out of range.\<close>

definition parse_uint64 :: "string \<Rightarrow> nat" where
  "parse_uint64 s = (case parse_digits s of None \<Rightarrow> 0 | Some n \<Rightarrow> min n (2 ^ 64 - 1))"

definition up_ulimit :: "string \<times> string \<Rightarrow> ulimit list" where
  "up_ulimit u =
     (case splitn_byte 2 (CHR '':'') (snd u) of
        [a, b] \<Rightarrow> [\<lparr>ul_name = fst u, ul_soft = parse_uint64 a, ul_hard = parse_uint64 b\<rparr>]
      | _ \<Rightarrow> [])"

definition up_volume :: "string \<Rightarrow> volume_mount list" where
  "up_volume v = (case volume_mount_from_spec v of None \<Rightarrow> [] | Some m \<Rightarrow> [m])"

definition health_of :: "health_conf \<Rightarrow> healthcheck" where
  "health_of hc = \<lparr>hc_cmd = hcf_cmd hc, hc_interval = hcf_interval hc, hc_retries = hcf_retries hc, hc_timeout = hcf_timeout hc\<rparr>"

text \<open>The options, given the entries of the environment file.\<close>

definition up_options :: "string \<Rightarrow> container_config \<Rightarrow> string list \<Rightarrow> create_opts" where
  "up_options name kc file_env =
     zero_opts\<lparr>co_name := name, co_detach := True,
       co_restart := (if kc_restart kc = [] then ''always'' else kc_restart kc), co_restart_delay := kc_restart_delay kc,
       co_cmd := (if kc_command kc = [] then [] else split_shell_words (kc_command kc)), co_hostname := kc_hostname kc,
       co_memory := (if kc_memory kc = [] then 0 else case parse_memory_string (kc_memory kc) of None \<Rightarrow> 0 | Some m \<Rightarrow> m),
       co_cpus := (if 0 < fst (kc_cpus kc) then kc_cpus kc else (0, 0)), co_working_dir := kc_workdir kc,
       co_ports := concat (map up_port (kc_ports kc)), co_volumes := concat (map up_volume (kc_volumes kc)),
       co_env := map (\<lambda>(k, v). k @ ''='' @ v) (kc_env kc) @ file_env, co_health := map_option health_of (kc_health kc),
       co_entrypoint := kc_entrypoint kc, co_network_mode := kc_network_mode kc, co_labels := kc_labels kc,
       co_cap_add := kc_cap_add kc, co_cap_drop := kc_cap_drop kc, co_user := kc_user kc, co_readonly := kc_readonly kc,
       co_no_new_privs := kc_no_new_privs kc, co_sysctls := kc_sysctls kc,
       co_dns := (if kc_dns kc = [] then None else Some (kc_dns kc)),
       co_ulimits := concat (map up_ulimit (kc_ulimits kc))\<rparr>"

section \<open>The configuration of a container\<close>

definition bytes_to_human :: "int \<Rightarrow> string" where
  "bytes_to_human b =
     (if b \<ge> 2 ^ 30 then int_str (b div 2 ^ 30) @ ''g''
      else if b \<ge> 2 ^ 20 then int_str (b div 2 ^ 20) @ ''m''
      else int_str (sgn b * (\<bar>b\<bar> div 2 ^ 10)) @ ''k'')"

definition port_text :: "port_map \<Rightarrow> string" where
  "port_text p =
     int_str (pm_host_port p) @ '':'' @ int_str (pm_container_port p)
     @ (if pm_protocol p \<noteq> [] \<and> pm_protocol p \<noteq> ''tcp'' then slash # pm_protocol p else [])"

definition volume_words :: "volume_mount \<Rightarrow> string list" where
  "volume_words v =
     (if vm_read_only v then [''ro'']
      else if vm_propagation v \<noteq> [] \<or> vm_selinux v \<noteq> [] \<or> vm_no_copy v then [''rw''] else [])
     @ (if vm_propagation v \<noteq> [] then [vm_propagation v] else [])
     @ (if vm_selinux v \<noteq> [] then [vm_selinux v] else [])
     @ (if vm_no_copy v then [''nocopy''] else [])"

definition volume_text :: "volume_mount \<Rightarrow> string" where
  "volume_text v =
     vm_source v @ '':'' @ vm_target v
     @ (if volume_words v = [] then [] else CHR '':'' # str_join '','' (volume_words v))"

definition put_env_word :: "string smap \<Rightarrow> string \<Rightarrow> string smap" where
  "put_env_word m en = (case splitn_byte 2 (CHR ''='') en of [k, v] \<Rightarrow> aput k v m | _ \<Rightarrow> m)"

definition put_ulimit :: "string smap \<Rightarrow> ulimit \<Rightarrow> string smap" where
  "put_ulimit m u = aput (ul_name u) (nat_str (ul_soft u) @ '':'' @ nat_str (ul_hard u)) m"

definition health_conf_of :: "healthcheck \<Rightarrow> health_conf" where
  "health_conf_of hc =
     \<lparr>hcf_cmd = hc_cmd hc, hcf_interval = hc_interval hc, hcf_retries = hc_retries hc, hcf_timeout = hc_timeout hc\<rparr>"

definition generate_one :: "container \<times> container_more \<Rightarrow> container_config" where
  "generate_one p =
     (let c = fst p; m = snd p in
      no_container\<lparr>kc_image := ct_image c @ '':'' @ ct_tag c, kc_restart := ct_restart c,
        kc_restart_delay := ct_restart_delay c, kc_hostname := ct_hostname c, kc_workdir := ct_working_dir c,
        kc_user := cm_user m, kc_readonly := cm_readonly m, kc_no_new_privs := cm_no_new_privs m,
        kc_network_mode := ct_network_mode c, kc_network := ct_network_mode c, kc_entrypoint := cm_entrypoint m,
        kc_labels := cm_labels m, kc_cap_add := cm_cap_add m, kc_cap_drop := cm_cap_drop m,
        kc_dns := (case ct_dns c of None \<Rightarrow> [] | Some ds \<Rightarrow> ds),
        kc_cpus := (if 0 < fst (cm_cpus m) then cm_cpus m else (0, 0)),
        kc_memory := (if 0 < cm_memory m then bytes_to_human (cm_memory m) else []),
        kc_command := (if cm_startup m \<noteq> [] then cm_startup m else if ct_cmd c \<noteq> [] then str_join '' '' (ct_cmd c) else []),
        kc_ports := map port_text (ct_ports c), kc_volumes := map volume_text (cm_volumes m),
        kc_env := foldl put_env_word [] (cm_env m), kc_sysctls := cm_sysctls m,
        kc_ulimits := foldl put_ulimit [] (cm_ulimits m), kc_health := map_option health_conf_of (cm_health m)\<rparr>)"

text \<open>A later container of the same name replaces an earlier one; one without a name is left out.\<close>

definition put_generated :: "containers \<Rightarrow> container \<times> container_more \<Rightarrow> containers" where
  "put_generated m p = (if ct_name (fst p) = [] then m else aput (ct_name (fst p)) (generate_one p) m)"

definition generate_config :: "(container \<times> container_more) list \<Rightarrow> config" where
  "generate_config all = \<lparr>cfg_secrets = [], cfg_configs = [], cfg_containers = foldl put_generated [] all\<rparr>"

end
