(* ===== verification/Starting.thy ===== *)
theory Starting
  imports Lifecycle
begin

text \<open>
  Starting a container (\<open>startInternal\<close> in \<open>internal/container/start.go\<close>) with its roll-back, and
  the operations built on it. What the kernel and the file system answer during one start is
  the record \<open>start_env\<close>.
\<close>

record 's start_env =
  se_dirs_ok :: bool
  se_filesystem_ok :: bool
  se_unshare_ok :: bool
  se_io :: "int option"
  se_pipes_ok :: bool
  se_spawn :: "int option"
  se_ready :: bool
  se_child :: int
  se_cgroup :: "string option"
  se_netns :: "int \<Rightarrow> 's \<Rightarrow> bool"
  se_has_slirp :: bool
  se_forward :: "port_map \<Rightarrow> int list option"
  se_release_ok :: bool
  se_namespaces :: "namespaces option"
  se_meanwhile :: "'s world \<Rightarrow> 's world"
  se_now :: instant
  se_has_socat :: bool

definition needs_network :: "container \<Rightarrow> bool" where
  "needs_network c \<longleftrightarrow> ct_network_mode c \<noteq> ''none'' \<and> ct_network_mode c \<noteq> ''host''"

definition rootless_unsupported :: "'s env \<Rightarrow> container \<Rightarrow> bool" where
  "rootless_unsupported e c \<longleftrightarrow> e_rootless e \<and> ct_network_mode c \<notin> {[], ''bridge'', ''host'', ''none''}"

definition init_network_environment :: "string list \<Rightarrow> string list" where
  "init_network_environment env =
     filter (\<lambda>en. \<not> (has_prefix en ''DCK_INIT_READY_FD='' \<or> has_prefix en ''DCK_INIT_GO_FD='')) env
     @ [''DCK_INIT_READY_FD=3'', ''DCK_INIT_GO_FD=4'']"

text \<open>The argument vector of \<open>unshare\<close>.\<close>

definition unshare_args :: "string \<Rightarrow> container \<Rightarrow> string \<Rightarrow> string list" where
  "unshare_args bin c merged =
     (if ct_network_mode c \<noteq> ''host'' then [''--net''] else [])
     @ [''--fork'', ''--pid'', ''--mount'', ''--uts'', ''--ipc'', ''--kill-child'', bin, ''init'', ct_id c, merged]"

definition is_container_init_commandline :: "string \<Rightarrow> string \<Rightarrow> bool" where
  "is_container_init_commandline cmdline cid \<longleftrightarrow>
     cid \<noteq> [] \<and> (let args = split_byte (CHR 0x00) cmdline in
       length args \<ge> 3 \<and> args ! 1 = ''init'' \<and> args ! 2 = cid)"

section \<open>Networking\<close>

fun forward_ports :: "'s env \<Rightarrow> bool \<Rightarrow> string \<Rightarrow> port_map list \<Rightarrow> 's world \<Rightarrow> 's world" where
  "forward_ports e has_socat ip [] w = w"
| "forward_ports e has_socat ip (p # ps) w =
     (case add_port_forwarding (e_ex e) has_socat ip (pm_host_port p) (pm_container_port p)
             (pm_protocol p) (w_proxies w, w_host w) of (r, proxies, s) \<Rightarrow>
        forward_ports e has_socat ip ps (w\<lparr>w_proxies := proxies, w_host := s\<rparr>))"

text \<open>Allocation from the bridge or from a user network, and its undoing when the veth fails.\<close>

definition allocate_address :: "string \<Rightarrow> 's world \<Rightarrow> (net_err + string) \<times> 's world" where
  "allocate_address name w =
     (case next_save w of (o1, w1) \<Rightarrow>
        if name = [] then (case allocate_ip o1 (w_pool w1) of (r, pool) \<Rightarrow> (r, w1\<lparr>w_pool := pool\<rparr>))
        else (case allocate_network_ip o1 name (w_nets w1) of (r, nets) \<Rightarrow> (r, w1\<lparr>w_nets := nets\<rparr>)))"

definition release_address :: "string \<Rightarrow> string \<Rightarrow> 's world \<Rightarrow> 's world" where
  "release_address name ip w =
     (case next_save w of (o1, w1) \<Rightarrow>
        if name = [] then w1\<lparr>w_pool := release_ip o1 ip (w_pool w1)\<rparr>
        else w1\<lparr>w_nets := release_network_ip o1 name ip (w_nets w1)\<rparr>)"

text \<open>The bridge, gateway, prefix length and allocation name of a container's network.\<close>

definition choose_network :: "'s env \<Rightarrow> container \<Rightarrow> 's world
    \<Rightarrow> (fw_err + (string \<times> string \<times> string \<times> string)) \<times> 's world" where
  "choose_network e c w =
     (if user_network_mode (ct_network_mode c) then
        (case load_network (w_nets w) (ct_network_mode c) of
           Inl err \<Rightarrow> (Inl (LoadFailed err), w)
         | Inr n \<Rightarrow>
             (case ensure_user_network (e_ex e) (w_nets w) (un_name n) (w_host w) of
                (Inl err, s) \<Rightarrow> (Inl err, w\<lparr>w_host := s\<rparr>)
              | (Inr u, s) \<Rightarrow>
                  (Inr (un_bridge n, un_gateway n, cidr_prefix (un_subnet n), un_name n), w\<lparr>w_host := s\<rparr>)))
      else (Inr (bridge_name, bridge_ip, ''24'', []),
            on_host (ensure_net_base (e_ex e) (Some (map fst (dir_entries w)))) w))"

definition setup_networking ::
  "'s env \<Rightarrow> 's start_env \<Rightarrow> container \<Rightarrow> int \<Rightarrow> 's world \<Rightarrow> 's step" where
  "setup_networking e se c pid w =
     (case choose_network e c w of
        (Inl err, w1) \<Rightarrow> (Inl (NetFailed err), c, w1)
      | (Inr (bridge, gateway, plen, name), w1) \<Rightarrow>
          (case allocate_address name w1 of
             (Inl err, w2) \<Rightarrow> (Inl (NetFailed (LoadFailed err)), c, w2)
           | (Inr ip, w2) \<Rightarrow>
               (case setup_veth_on_bridge (e_ex e) (se_netns se) (ct_id c) pid ip bridge gateway plen (w_host w2) of
                  (Inl err, s) \<Rightarrow> (Inl (NetFailed err), c, release_address name ip (w2\<lparr>w_host := s\<rparr>))
                | (Inr u, s) \<Rightarrow>
                    (Inr (), c\<lparr>ct_ip := ip\<rparr>,
                     forward_ports e (se_has_socat se) ip (ct_ports c) (w2\<lparr>w_host := s\<rparr>)))))"

text \<open>Without root, \<open>slirp4netns\<close> provides the network; when the pool is empty a fixed address is used.\<close>

definition setup_rootless_network :: "'s env \<Rightarrow> bool \<Rightarrow> int \<Rightarrow> 's world \<Rightarrow> string option \<times> 's world" where
  "setup_rootless_network e has_slirp pid w =
     (if \<not> has_slirp then (None, w)
      else case run (e_ex e) [''slirp4netns'', ''--configure'', ''--mtu'', ''65520'', ''-c'', int_str pid, ''tap0''] (w_host w) of
        (False, s) \<Rightarrow> (None, w\<lparr>w_host := s\<rparr>)
      | (True, s) \<Rightarrow>
          (case allocate_address [] (w\<lparr>w_host := s\<rparr>) of
             (Inl err, w1) \<Rightarrow> (Some ''10.0.2.100'', w1)
           | (Inr ip, w1) \<Rightarrow> (Some ip, w1)))"

definition setup_container_resources ::
  "'s env \<Rightarrow> 's start_env \<Rightarrow> container \<Rightarrow> int \<Rightarrow> 's world \<Rightarrow> 's step" where
  "setup_container_resources e se c pid w =
     (let c1 = (case se_cgroup se of None \<Rightarrow> c | Some path \<Rightarrow> c\<lparr>ct_cgroup := path\<rparr>) in
      if \<not> needs_network c1 then (Inr (), c1, w)
      else if e_rootless e then
        (if rootless_unsupported e c1 then (Inl RootlessNetwork, c1, w)
         else case setup_rootless_network e (se_has_slirp se) pid w of
           (None, w1) \<Rightarrow> (Inl RootlessFailed, c1, w1)
         | (Some ip, w1) \<Rightarrow>
             (Inr (), c1\<lparr>ct_ip := ip,
                ct_forward_pids := ct_forward_pids c1
                  @ concat (map (\<lambda>p. case se_forward se p of None \<Rightarrow> [] | Some pids \<Rightarrow> pids) (ct_ports c1))\<rparr>, w1))
      else setup_networking e se c1 pid w)"

section \<open>Starting\<close>

definition abort_start :: "'s env \<Rightarrow> int \<Rightarrow> container \<Rightarrow> 's world \<Rightarrow> container \<times> 's world" where
  "abort_start e unshare c w =
     (let w1 = effect (Signal unshare ''KILL'') w;
          w2 = w1\<lparr>w_dns := unregister_dns_name (ct_name c) (w_dns w1)\<rparr> in
      case cleanup_rootless_ports e c w2 of (c1, w3) \<Rightarrow>
      (case kill_console_serve e c1 w3 of (c2, w4) \<Rightarrow>
      (case cleanup_network e c2 w4 of (c3, w5) \<Rightarrow>
        (c3, effect (RemoveOverlay (ct_id c3)) (effect (RemoveConsole (ct_id c3)) (cleanup_cgroup c3 w5))))))"

definition is_being_removed :: "string \<Rightarrow> 's world \<Rightarrow> bool" where
  "is_being_removed cid w \<longleftrightarrow> map_of (w_dir w) (cid @ ''.removing'') \<noteq> None"

definition abort_with :: "'s env \<Rightarrow> life_err \<Rightarrow> int \<Rightarrow> container \<Rightarrow> 's world \<Rightarrow> 's step" where
  "abort_with e err unshare c w = (case abort_start e unshare c w of (c1, w1) \<Rightarrow> (Inl err, c1, w1))"

text \<open>From the namespaces on: registration of the name, the check for a removal, and the save.\<close>

definition finish_start ::
  "'s env \<Rightarrow> 's start_env \<Rightarrow> int \<Rightarrow> container \<Rightarrow> 's world \<Rightarrow> 's step" where
  "finish_start e se unshare c w0 =
     (let w = (if ct_ip c \<noteq> [] then w0\<lparr>w_dns := register_dns_name (ct_name c) (ct_ip c) (w_dns w0)\<rparr> else w0) in
      case se_namespaces se of
        None \<Rightarrow> abort_with e NamespacesFailed unshare c w
      | Some ns \<Rightarrow>
          let w1 = se_meanwhile se w in
          if map_of (w_dir w1) (container_file e (ct_id c)) = None \<or> is_being_removed (ct_id c) w1
          then abort_with e RemovedDuringStart unshare c w1
          else
            let c1 = c\<lparr>ct_pid := se_child se, ct_unshare_pid := unshare, ct_ns := ns, ct_status := Running,
                       ct_stopped_by_user := False, ct_last_started := se_now se\<rparr> in
            (case save e c1 w1 of (ok, w2) \<Rightarrow>
               if \<not> ok then (Inl SaveError, c1, w2) else (Inr (), c1, effect (Emit ''start'' (ct_id c1)) w2)))"

text \<open>Once the init process runs.\<close>

definition start_spawned ::
  "'s env \<Rightarrow> 's start_env \<Rightarrow> int \<Rightarrow> container \<Rightarrow> 's world \<Rightarrow> 's step" where
  "start_spawned e se unshare c w =
     (if needs_network c \<and> \<not> se_ready se then abort_with e HandshakeFailed unshare c w
      else if se_child se \<le> 0 then abort_with e NoInitProcess unshare c w
      else case setup_container_resources e se c (se_child se) w of
        (Inl err, c1, w1) \<Rightarrow> abort_with e err unshare c1 w1
      | (Inr u, c1, w1) \<Rightarrow>
          if needs_network c \<and> \<not> se_release_ok se then abort_with e ReleaseFailed unshare c1 w1
          else finish_start e se unshare c1 w1)"

definition start_internal :: "'s env \<Rightarrow> 's start_env \<Rightarrow> container \<Rightarrow> 's world \<Rightarrow> 's step" where
  "start_internal e se c0 w0 =
     (let w = w0\<lparr>w_stopped := filter (\<lambda>x. x \<noteq> ct_id c0) (w_stopped w0)\<rparr>;
          c = c0\<lparr>ct_cleanup_started := False\<rparr> in
      if ct_status c = Running then (Inl AlreadyRunning, c, w)
      else
        let c1 = c\<lparr>ct_status := Created\<rparr> in
        (case (if ct_ip c1 \<noteq> [] then cleanup_network e c1 w else (c1, w)) of (c2, w2) \<Rightarrow>
        (case kill_console_serve e c2 w2 of (c3, w3) \<Rightarrow>
           if \<not> se_dirs_ok se then (Inl DirsFailed, c3, w3)
           else if rootless_unsupported e c3 then (Inl RootlessNetwork, c3, w3)
           else if \<not> se_filesystem_ok se then (Inl FilesystemFailed, c3, w3)
           else if \<not> se_unshare_ok se then (Inl UnshareFailed, c3, w3)
           else case se_io se of
             None \<Rightarrow> (Inl IoFailed, c3, w3)
           | Some console \<Rightarrow>
               let c4 = (if ct_detach c3 then c3\<lparr>ct_console_pid := console\<rparr> else c3) in
               if needs_network c4 \<and> \<not> se_pipes_ok se then (Inl PipeFailed, c4, w3)
               else case se_spawn se of
                 None \<Rightarrow> (Inl SpawnFailed, c4, w3)
               | Some unshare \<Rightarrow> start_spawned e se unshare c4 w3)))"

text \<open>\<open>restart\<close>, and the delayed restart of the monitor: the delay has passed.\<close>

definition restart_container :: "'s env \<Rightarrow> 's start_env \<Rightarrow> container \<Rightarrow> 's world \<Rightarrow> 's step" where
  "restart_container e se c w =
     (case can_restart_after_delay e c w of
        (False, w1) \<Rightarrow> (Inr (), c, w1)
      | (True, w1) \<Rightarrow> start_internal e se (c\<lparr>ct_status := Created, ct_cleanup_started := False\<rparr>) w1)"

text \<open>What a foreground run does after its process has exited.\<close>

definition foreground_exit ::
  "'s env \<Rightarrow> 's start_env \<Rightarrow> instant \<Rightarrow> int \<Rightarrow> container \<Rightarrow> 's world \<Rightarrow> 's step" where
  "foreground_exit e se now exit_code c w =
     (case finalize_stopped e now exit_code c w of ((fin, restart), c1, w1) \<Rightarrow>
        if \<not> fin then (Inr (), c1, w1)
        else if restart then
          (case allow_automatic_restart e now c1 w1 of (ok, c2, w2) \<Rightarrow>
             if ok then restart_container e se c2 w2 else (Inr (), c2, w2))
        else if ct_remove_on_exit c1 then
          (case cleanup_container e c1 w1 of (c2, w2) \<Rightarrow> (Inr (), c2, w2))
        else (Inr (), c1, w1))"

section \<open>Removing and renaming\<close>

definition has_live_processes :: "'s env \<Rightarrow> container \<Rightarrow> 's world \<Rightarrow> bool" where
  "has_live_processes e c w \<longleftrightarrow>
     process_alive e w c \<or> pid_alive e w (ct_console_pid c)
     \<or> (ct_cgroup c \<noteq> [] \<and> e_cgroup_procs e (w_effects w) (ct_cgroup c))"

definition add_marker :: "bool \<Rightarrow> string \<Rightarrow> 's world \<Rightarrow> 's world" where
  "add_marker ok cid w = (if ok then w\<lparr>w_dir := aput (cid @ ''.removing'') CBad (w_dir w)\<rparr> else w)"

definition drop_marker :: "string \<Rightarrow> 's world \<Rightarrow> 's world" where
  "drop_marker cid w = w\<lparr>w_dir := adel (cid @ ''.removing'') (w_dir w)\<rparr>"

text \<open>The part of \<open>Remove\<close> between writing the tombstone and its deferred removal.\<close>

definition remove_body ::
  "'s env \<Rightarrow> (int \<Rightarrow> int) \<Rightarrow> bool \<Rightarrow> bool \<Rightarrow> container \<Rightarrow> 's world \<Rightarrow> 's step" where
  "remove_body e find_unshare overlay_ok force c w =
     (if has_live_processes e c w \<and> \<not> force then (Inl StillRunning, c, w)
      else
        (case (if has_live_processes e c w then
                 (if ct_status c = Running then snd (stop_container e find_unshare c w)
                  else (c, kill_recorded_processes e (ct_pid c) (ct_unshare_pid c) w))
               else (c, w)) of (c1, w1) \<Rightarrow>
        (case kill_console_serve e c1 w1 of (c2, w2) \<Rightarrow>
        (case cleanup_rootless_ports e c2 w2 of (c3, w3) \<Rightarrow>
        (case cleanup_network e c3 w3 of (c4, w4) \<Rightarrow>
          let w5 = effect (RemoveOverlay (ct_id c4)) (cleanup_cgroup c4 w4) in
          if \<not> overlay_ok then (Inl OverlayFailed, c4, w5)
          else
            let w6 = effect (RemoveConsole (ct_id c4)) (effect (RemoveLog (ct_id c4)) w5) in
            (case delete_state e c4 w6 of (ok, w7) \<Rightarrow>
               if ok then (Inr (), c4, effect (Emit ''destroy'' (ct_id c4)) w7)
               else (Inl DeleteFailedErr, c4, w7)))))))"

definition remove_container ::
  "'s env \<Rightarrow> (int \<Rightarrow> int) \<Rightarrow> bool \<Rightarrow> bool \<Rightarrow> bool \<Rightarrow> container \<Rightarrow> 's world \<Rightarrow> 's step" where
  "remove_container e find_unshare marker_ok overlay_ok force c w =
     (case remove_body e find_unshare overlay_ok force c (add_marker marker_ok (ct_id c) w) of (r, c1, w1) \<Rightarrow>
        (r, c1, drop_marker (ct_id c) w1))"

definition rename_container :: "'s env \<Rightarrow> string \<Rightarrow> container \<Rightarrow> 's world \<Rightarrow> 's step" where
  "rename_container e name c w =
     (if ct_name c = name then (Inr (), c, w)
      else case find_by_name e name w of
        (Some other, w1) \<Rightarrow> (Inl NameTaken, c, w1)
      | (None, w1) \<Rightarrow>
          let c1 = c\<lparr>ct_name := name\<rparr> in
          (case save e c1 w1 of (ok, w2) \<Rightarrow> (if ok then Inr () else Inl SaveError, c1, w2)))"

definition add_port ::
  "'s env \<Rightarrow> 's start_env \<Rightarrow> int \<Rightarrow> int \<Rightarrow> string \<Rightarrow> container \<Rightarrow> 's world \<Rightarrow> 's step" where
  "add_port e se hp cp proto0 c w =
     (let proto = (if proto0 = [] then ''tcp'' else proto0);
          pm = \<lparr>pm_host_port = hp, pm_container_port = cp, pm_protocol = proto\<rparr>;
          fin = (\<lambda>c1 w1. let c2 = c1\<lparr>ct_ports := ct_ports c1 @ [pm]\<rparr> in
                  (case save e c2 w1 of (ok, w2) \<Rightarrow> (if ok then Inr () else Inl SaveError, c2, w2))) in
      if ct_status c = Running \<and> ct_ip c \<noteq> [] then
        (if e_rootless e then
           (case se_forward se pm of
              None \<Rightarrow> (Inl PortForwardFailed, c, w)
            | Some pids \<Rightarrow> fin (c\<lparr>ct_forward_pids := ct_forward_pids c @ pids\<rparr>) w)
         else
           (case add_port_forwarding (e_ex e) (se_has_socat se) (ct_ip c) hp cp proto (w_proxies w, w_host w) of
              (Inl err, proxies, s) \<Rightarrow> (Inl PortForwardFailed, c, w\<lparr>w_proxies := proxies, w_host := s\<rparr>)
            | (Inr u, proxies, s) \<Rightarrow> fin c (w\<lparr>w_proxies := proxies, w_host := s\<rparr>)))
      else fin c w)"

definition unforward_port :: "'s env \<Rightarrow> container \<Rightarrow> port_map \<Rightarrow> 's world \<Rightarrow> 's world" where
  "unforward_port e c p w =
     (if ct_status c = Running \<and> ct_ip c \<noteq> [] then
        (case remove_port_forwarding (e_ex e) (ct_ip c) (pm_host_port p) (pm_container_port p)
                (pm_protocol p) (w_proxies w, w_host w) of (proxies, s) \<Rightarrow>
           w\<lparr>w_proxies := proxies, w_host := s\<rparr>)
      else w)"

definition remove_port :: "'s env \<Rightarrow> int \<Rightarrow> string \<Rightarrow> container \<Rightarrow> 's world \<Rightarrow> 's step" where
  "remove_port e hp proto0 c w =
     (let proto = (if proto0 = [] then ''tcp'' else proto0);
          hit = (\<lambda>p. pm_host_port p = hp \<and> pm_protocol p = proto);
          w1 = fold (unforward_port e c) (filter hit (ct_ports c)) w in
      if filter hit (ct_ports c) = [] then (Inl PortNotFound, c, w1)
      else
        let c1 = c\<lparr>ct_ports := filter (\<lambda>p. \<not> hit p) (ct_ports c)\<rparr> in
        (case save e c1 w1 of (ok, w2) \<Rightarrow> (if ok then Inr () else Inl SaveError, c1, w2)))"

end
