(* ===== verification/Up.thy ===== *)
theory Up
  imports Create Starting
begin

text \<open>
  \<open>dck up\<close> (\<open>cmd/up.go\<close>): the services of a configuration are taken in the order of their
  dependencies; each one is found again, or created, and started. The state is the world of the
  lifecycle, with what the command itself keeps; what the image store, the environment files, the
  random identifiers and the other processes contribute is the record \<open>up_env\<close>.
\<close>

section \<open>The state of the command\<close>

record 's up_env =
  ue_env :: "'s env"
  ue_pull :: "string \<Rightarrow> (string \<times> string) option"
  ue_image :: "string \<times> string \<Rightarrow> image_defaults option"
  ue_env_file :: "string \<Rightarrow> string list option"
  ue_ids :: "nat \<Rightarrow> string"
  ue_start :: "string \<Rightarrow> 's start_env"
  ue_poll :: "string \<Rightarrow> nat \<Rightarrow> 's world \<Rightarrow> 's world"
  ue_timed_out :: "string \<Rightarrow> nat \<Rightarrow> bool"

text \<open>
  \<open>us_compose\<close> is the map of services to containers that the state file holds, \<open>us_ready\<close> the
  services marked ready, \<open>us_made\<close> the containers the run has made, \<open>us_drawn\<close> the number of
  identifiers drawn and \<open>us_waited\<close> the time spent on dependencies.
\<close>

record 's up_state =
  us_world :: "'s world"
  us_compose :: "string smap"
  us_ready :: "string list"
  us_started :: nat
  us_made :: "(container \<times> container_more) list"
  us_drawn :: nat
  us_waited :: duration

section \<open>Waiting\<close>

definition dep_timeout :: duration where
  "dep_timeout = 120 * second"

definition dep_poll_interval :: duration where
  "dep_poll_interval = 2 * second"

text \<open>
  \<open>waitForDependency\<close>: nobody changes the map while it is polled. The result is whether the
  dependency was ready, and the time spent.
\<close>

function wait_for_dependency :: "string \<Rightarrow> string list \<Rightarrow> duration \<Rightarrow> bool \<times> duration" where
  "wait_for_dependency dep ready elapsed =
     (if dep \<in> set ready then (True, elapsed)
      else if dep_timeout \<le> elapsed then (False, elapsed)
      else wait_for_dependency dep ready (elapsed + dep_poll_interval))"
  by pat_completeness auto
termination
  by (relation "measure (\<lambda>(dep, ready, elapsed). nat (dep_timeout - elapsed))")
    (auto simp: dep_timeout_def dep_poll_interval_def second_def)

declare wait_for_dependency.simps [simp del]

text \<open>
  The wait of one service for all of its dependencies: one that is not ready in time is
  reported, and the \<open>continue\<close> that follows goes on to the next dependency.
\<close>

fun wait_for_dependencies :: "string \<Rightarrow> string smap \<Rightarrow> string list \<Rightarrow> duration \<Rightarrow> duration" where
  "wait_for_dependencies name [] ready t = t"
| "wait_for_dependencies name ((dep, cond) # deps) ready t =
     (if dep = name then wait_for_dependencies name deps ready t
      else wait_for_dependencies name deps ready (t + snd (wait_for_dependency dep ready 0)))"

text \<open>
  \<open>waitForHealthy\<close> of a container with a health check. \<open>ue_poll\<close> is what happens before the
  \<open>k\<close>-th poll and \<open>ue_timed_out\<close> says that the time is up in the pause after it; a poll that
  cannot load the container pauses without looking at the time.
\<close>

partial_function (option) wait_for_healthy ::
  "'s up_env \<Rightarrow> string \<Rightarrow> nat \<Rightarrow> 's world \<Rightarrow> 's world option" where
  "wait_for_healthy ue cid k w =
     (case load (ue_env ue) cid (ue_poll ue cid k w) of
        (None, w1) \<Rightarrow> wait_for_healthy ue cid (Suc k) w1
      | (Some c, w1) \<Rightarrow>
          if ct_status c = Running then Some w1
          else if ue_timed_out ue cid k then Some w1
          else wait_for_healthy ue cid (Suc k) w1)"

definition need_healthy :: "containers \<Rightarrow> string \<Rightarrow> bool" where
  "need_healthy svcs name \<longleftrightarrow>
     list_ex (\<lambda>(n, kc). map_of (kc_depends_on kc) name = Some ''service_healthy'') svcs"

section \<open>A container that is there already\<close>

definition in_world :: "'s world \<Rightarrow> 's up_state \<Rightarrow> 's up_state" where
  "in_world w s = s\<lparr>us_world := w\<rparr>"

text \<open>By the name of the service, or by the identifier in the state file, with a new name then.\<close>

definition find_existing :: "'s up_env \<Rightarrow> string \<Rightarrow> 's up_state \<Rightarrow> container option \<times> 's up_state" where
  "find_existing ue name s =
     (case find_by_name (ue_env ue) name (us_world s) of
        (Some c, w1) \<Rightarrow> (Some c, in_world w1 s)
      | (None, w1) \<Rightarrow>
          (case map_of (us_compose s) name of
             None \<Rightarrow> (None, in_world w1 s)
           | Some old \<Rightarrow>
               (case load (ue_env ue) old w1 of
                  (None, w2) \<Rightarrow> (None, in_world w2 s)
                | (Some c, w2) \<Rightarrow>
                    if ct_name c = name then (Some c, in_world w2 s)
                    else (case rename_container (ue_env ue) name c w2 of
                      (r, c1, w3) \<Rightarrow> (Some c1, in_world w3 s)))))"

definition mark_started :: "string \<Rightarrow> string \<Rightarrow> 's up_state \<Rightarrow> 's up_state" where
  "mark_started name cid s = s\<lparr>us_compose := aput name cid (us_compose s), us_started := us_started s + 1\<rparr>"

definition mark_ready :: "string \<Rightarrow> 's up_state \<Rightarrow> 's up_state" where
  "mark_ready name s = s\<lparr>us_ready := name # us_ready s\<rparr>"

definition with_restart :: "container_config \<Rightarrow> container \<Rightarrow> container" where
  "with_restart kc c =
     (let c1 = (if kc_restart kc \<noteq> [] \<and> ct_restart c \<noteq> kc_restart kc then c\<lparr>ct_restart := kc_restart kc\<rparr> else c) in
      if kc_restart_delay kc \<noteq> [] \<and> ct_restart_delay c1 \<noteq> kc_restart_delay kc
      then c1\<lparr>ct_restart_delay := kc_restart_delay kc\<rparr> else c1)"

definition start_existing :: "'s up_env \<Rightarrow> string \<Rightarrow> container \<Rightarrow> 's up_state \<Rightarrow> 's up_state" where
  "start_existing ue name c s =
     (if ct_status c = Running then mark_ready name (mark_started name (ct_id c) s)
      else case start_internal (ue_env ue) (ue_start ue (ct_id c)) (c\<lparr>ct_status := Created\<rparr>) (us_world s) of
        (Inl err, c1, w1) \<Rightarrow> in_world w1 s
      | (Inr u, c1, w1) \<Rightarrow> mark_ready name (mark_started name (ct_id c1) (in_world w1 s)))"

definition reuse_container :: "'s up_env \<Rightarrow> string \<Rightarrow> container_config \<Rightarrow> container \<Rightarrow> 's up_state \<Rightarrow> 's up_state" where
  "reuse_container ue name kc c s =
     (let c1 = with_restart kc c in
      if c1 = c then start_existing ue name c s
      else case save (ue_env ue) c1 (us_world s) of
        (ok, w1) \<Rightarrow> if ok then start_existing ue name c1 (in_world w1 s) else in_world w1 s)"

section \<open>A new container\<close>

text \<open>A network of the user that cannot be loaded is created.\<close>

definition ensure_network :: "'s up_env \<Rightarrow> string \<Rightarrow> 's world \<Rightarrow> bool \<times> 's world" where
  "ensure_network ue mode w =
     (if mode \<in> {[], ''bridge'', ''host'', ''none''} then (True, w)
      else case load_network (w_nets w) mode of
        Inr n \<Rightarrow> (True, w)
      | Inl _ \<Rightarrow>
          (case next_save w of (o1, w1) \<Rightarrow>
             (case create_network (e_hash (ue_env ue)) o1 mode [] (w_nets w1) of
                (r, nets) \<Rightarrow> (is_ok r, w1\<lparr>w_nets := nets\<rparr>))))"

definition file_entries :: "'s up_env \<Rightarrow> container_config \<Rightarrow> string list option" where
  "file_entries ue kc =
     (if kc_env_file kc = [] then Some [] else map_option parse_env_file (ue_env_file ue (kc_env_file kc)))"

text \<open>\<open>New\<close> is called a second time when there are secrets or configs, with an identifier of its own.\<close>

definition make_container ::
  "'s up_env \<Rightarrow> config \<Rightarrow> container_config \<Rightarrow> string \<times> string \<Rightarrow> create_opts \<Rightarrow> nat \<Rightarrow> (container \<times> container_more) \<times> nat" where
  "make_container ue cfg kc img opts drawn =
     (let new = (\<lambda>k os. new_container (ue_ids ue k) (ue_image ue img) img os) in
      if kc_secrets kc = [] \<and> kc_configs kc = [] then (new drawn opts, drawn + 1)
      else
        (case parse_secrets_to_volumes kc cfg of (vols, secs) \<Rightarrow>
         (case new (drawn + 1) (opts\<lparr>co_volumes := co_volumes opts @ vols\<rparr>) of (c, m) \<Rightarrow>
            ((c, m\<lparr>cm_secrets := secs\<rparr>), drawn + 2))))"

definition start_made ::
  "'s up_env \<Rightarrow> config \<Rightarrow> string \<Rightarrow> container \<times> container_more \<Rightarrow> 's up_state \<Rightarrow> 's up_state option" where
  "start_made ue cfg name p s =
     (let c = fst p in
      case save (ue_env ue) c (us_world s) of
        (False, w1) \<Rightarrow> Some (in_world w1 s)
      | (True, w1) \<Rightarrow>
          (case start_internal (ue_env ue) (ue_start ue (ct_id c)) c w1 of
             (Inl err, c1, w2) \<Rightarrow> Some (in_world w2 s)
           | (Inr u, c1, w2) \<Rightarrow>
               let s1 = mark_started name (ct_id c1) (in_world w2 s) in
               if need_healthy (cfg_containers cfg) name \<and> cm_health (snd p) \<noteq> None
               then map_option (\<lambda>w3. mark_ready name (in_world w3 s1)) (wait_for_healthy ue (ct_id c1) 0 w2)
               else Some (mark_ready name s1)))"

definition create_for_service ::
  "'s up_env \<Rightarrow> config \<Rightarrow> string \<Rightarrow> container_config \<Rightarrow> string \<times> string \<Rightarrow> 's up_state \<Rightarrow> 's up_state option" where
  "create_for_service ue cfg name kc img s =
     (case file_entries ue kc of
        None \<Rightarrow> Some s
      | Some entries \<Rightarrow>
          (case ensure_network ue (kc_network_mode kc) (us_world s) of
             (False, w1) \<Rightarrow> Some (in_world w1 s)
           | (True, w1) \<Rightarrow>
               (case make_container ue cfg kc img (up_options name kc entries) (us_drawn s) of (p, drawn) \<Rightarrow>
                  start_made ue cfg name p
                    ((in_world w1 s)\<lparr>us_made := us_made s @ [p], us_drawn := drawn\<rparr>))))"

section \<open>The command\<close>

definition up_service :: "'s up_env \<Rightarrow> config \<Rightarrow> string \<Rightarrow> 's up_state \<Rightarrow> 's up_state option" where
  "up_service ue cfg name s0 =
     (let kc = (case map_of (cfg_containers cfg) name of None \<Rightarrow> no_container | Some k \<Rightarrow> k) in
      if kc_image kc = [] then Some s0
      else
        let s = s0\<lparr>us_waited := wait_for_dependencies name (kc_depends_on kc) (us_ready s0) (us_waited s0)\<rparr> in
        case ue_pull ue (kc_image kc) of
          None \<Rightarrow> Some s
        | Some img \<Rightarrow>
            (case find_existing ue name s of
               (Some c, s1) \<Rightarrow> Some (reuse_container ue name kc c s1)
             | (None, s1) \<Rightarrow> create_for_service ue cfg name kc img s1))"

fun up_loop :: "'s up_env \<Rightarrow> config \<Rightarrow> string list \<Rightarrow> 's up_state \<Rightarrow> 's up_state option" where
  "up_loop ue cfg [] s = Some s"
| "up_loop ue cfg (name # names) s = Option.bind (up_service ue cfg name s) (up_loop ue cfg names)"

definition first_state :: "string smap \<Rightarrow> 's world \<Rightarrow> 's up_state" where
  "first_state compose w =
     \<lparr>us_world = w, us_compose = compose, us_ready = [], us_started = 0, us_made = [], us_drawn = 0, us_waited = 0\<rparr>"

text \<open>
  The whole command: the state file of the configuration is an association list from its paths,
  missing or unreadable ones being empty maps, and the result is the map that is written back to
  the path with \<open>.state\<close> appended. (A state file that holds \<open>null\<close> is not modelled: the code
  assigns to the nil map and panics.)
\<close>

definition up ::
  "'s up_env \<Rightarrow> config_files \<Rightarrow> (string \<Rightarrow> string smap) \<Rightarrow> string \<Rightarrow> string \<Rightarrow> 's world
    \<Rightarrow> (config_err + (string \<times> 's up_state)) option" where
  "up ue fi state_file path only w =
     (case load_config_or_compose fi path of
        (Inl e, p) \<Rightarrow> Some (Inl e)
      | (Inr cfg, p) \<Rightarrow>
          map_option (\<lambda>s. Inr (p @ ''.state'', s))
            (up_loop ue cfg (sort_by_dependencies (cfg_containers cfg) only)
               (first_state (state_file (p @ ''.state'')) w)))"

end
