(* ===== verification/Supervisor.thy ===== *)
theory Supervisor
  imports Starting
begin

text \<open>
  The supervisor (\<open>cmd/supervisor.go\<close>): a loop that finalizes containers whose processes are gone
  and starts those whose policy asks for it. Its memory is \<open>managed\<close>, the restart deadlines (0
  for a healthy container), and \<open>finalized\<close>, the exits already handled. \<open>start\<close> is what the
  kernel answers when the container of a given identifier is started.
\<close>

record supervisor =
  sv_managed :: "(string \<times> instant) list"
  sv_finalized :: "string list"

definition eligible_for_supervisor :: "container \<Rightarrow> bool" where
  "eligible_for_supervisor c \<longleftrightarrow>
     ct_detach c \<and> \<not> ct_stopped_by_user c \<and> ct_status c \<noteq> Running \<and> \<not> ct_blocked c
     \<and> (ct_restart c = ''always'' \<or> ct_restart c = ''unless-stopped'')"

definition supervisor_restart_delay :: "container \<Rightarrow> duration" where
  "supervisor_restart_delay c = positive_duration (ct_restart_delay c) second"

definition exit_deadline :: "instant \<Rightarrow> container \<Rightarrow> instant" where
  "exit_deadline dflt c =
     (if is_zero (ct_last_exit c) then dflt else ct_last_exit c + supervisor_restart_delay c)"

text \<open>The deadline of a container that is not running, and what is recorded for it.\<close>

definition restart_deadline :: "instant \<Rightarrow> container \<Rightarrow> (string \<times> instant) list
    \<Rightarrow> instant \<times> (string \<times> instant) list" where
  "restart_deadline now c managed =
     (case map_of managed (ct_id c) of
        None \<Rightarrow> (let d = exit_deadline now c in (d, aput (ct_id c) d managed))
      | Some d \<Rightarrow>
          if is_zero d \<and> \<not> is_zero (ct_last_exit c)
          then (let d' = exit_deadline now c in (d', aput (ct_id c) d' managed))
          else (d, managed))"

text \<open>The start of a container the supervisor has decided on, from its file.\<close>

definition supervisor_start ::
  "'s env \<Rightarrow> (string \<Rightarrow> 's start_env) \<Rightarrow> instant \<Rightarrow> container \<Rightarrow> supervisor \<Rightarrow> 's world
    \<Rightarrow> supervisor \<times> 's world" where
  "supervisor_start e start now c sv w =
     (if is_being_removed (ct_id c) w then (sv\<lparr>sv_managed := adel (ct_id c) (sv_managed sv)\<rparr>, w)
      else case load e (ct_id c) w of
        (None, w1) \<Rightarrow> (sv\<lparr>sv_managed := adel (ct_id c) (sv_managed sv)\<rparr>, w1)
      | (Some fresh, w1) \<Rightarrow>
          if ct_status fresh = Running \<or> ct_stopped_by_user fresh \<or> ct_blocked fresh then (sv, w1)
          else
            (case start_internal e (start (ct_id fresh)) fresh w1 of (r, fresh1, w2) \<Rightarrow>
              let d = (case r of Inr _ \<Rightarrow> 0 | Inl _ \<Rightarrow> now + supervisor_restart_delay fresh1) in
              (sv\<lparr>sv_managed := aput (ct_id c) d (sv_managed sv),
                 sv_finalized := filter (\<lambda>x. x \<noteq> ct_id fresh1) (sv_finalized sv)\<rparr>, w2)))"

definition adopt_one ::
  "'s env \<Rightarrow> (string \<Rightarrow> 's start_env) \<Rightarrow> instant \<Rightarrow> container \<Rightarrow> supervisor \<Rightarrow> 's world
    \<Rightarrow> supervisor \<times> 's world" where
  "adopt_one e start now c sv w =
     (if ct_stopped_by_user c \<or> ct_restart c = ''no'' \<or> ct_restart c = []
      then (sv\<lparr>sv_managed := adel (ct_id c) (sv_managed sv)\<rparr>, w)
      else if ct_status c = Running then
        (if ct_detach c then sv\<lparr>sv_managed := aput (ct_id c) 0 (sv_managed sv)\<rparr> else sv, w)
      else case restart_deadline now c (sv_managed sv) of (d, managed) \<Rightarrow>
        let sv1 = sv\<lparr>sv_managed := managed\<rparr> in
        if now < d then (sv1, w)
        else if \<not> eligible_for_supervisor c then (sv1, w)
        else case allow_automatic_restart e now c w of (ok, c1, w1) \<Rightarrow>
          if ok then supervisor_start e start now c1 sv1 w1 else (sv1, w1))"

fun adopt_loop ::
  "'s env \<Rightarrow> (string \<Rightarrow> 's start_env) \<Rightarrow> instant \<Rightarrow> container list \<Rightarrow> supervisor \<Rightarrow> 's world
    \<Rightarrow> supervisor \<times> 's world" where
  "adopt_loop e start now [] sv w = (sv, w)"
| "adopt_loop e start now (c # cs) sv w =
     (case adopt_one e start now c sv w of (sv1, w1) \<Rightarrow> adopt_loop e start now cs sv1 w1)"

definition adopt_eligible_containers ::
  "'s env \<Rightarrow> (string \<Rightarrow> 's start_env) \<Rightarrow> instant \<Rightarrow> supervisor \<Rightarrow> 's world \<Rightarrow> supervisor \<times> 's world" where
  "adopt_eligible_containers e start now sv w =
     (case list_containers e True w of (cs, w1) \<Rightarrow> adopt_loop e start now cs sv w1)"

definition finalize_one ::
  "'s env \<Rightarrow> instant \<Rightarrow> container \<Rightarrow> supervisor \<Rightarrow> 's world \<Rightarrow> supervisor \<times> 's world" where
  "finalize_one e now c sv w =
     (if \<not> ct_detach c then (sv, w)
      else if process_alive e w c
      then (sv\<lparr>sv_finalized := filter (\<lambda>x. x \<noteq> ct_id c) (sv_finalized sv)\<rparr>, w)
      else if ct_id c \<in> set (sv_finalized sv) then (sv, w)
      else case handle_main_process_exit e now (ct_id c) w of (done_it, w1) \<Rightarrow>
        (if done_it then sv\<lparr>sv_finalized := ct_id c # sv_finalized sv\<rparr> else sv, w1))"

fun finalize_loop ::
  "'s env \<Rightarrow> instant \<Rightarrow> container list \<Rightarrow> supervisor \<Rightarrow> 's world \<Rightarrow> supervisor \<times> 's world" where
  "finalize_loop e now [] sv w = (sv, w)"
| "finalize_loop e now (c # cs) sv w =
     (case finalize_one e now c sv w of (sv1, w1) \<Rightarrow> finalize_loop e now cs sv1 w1)"

definition finalize_exited_containers ::
  "'s env \<Rightarrow> instant \<Rightarrow> supervisor \<Rightarrow> 's world \<Rightarrow> supervisor \<times> 's world" where
  "finalize_exited_containers e now sv w =
     (case list_containers e True w of (cs, w1) \<Rightarrow>
      (case finalize_loop e now cs sv w1 of (sv1, w2) \<Rightarrow>
         (sv1\<lparr>sv_finalized := filter (\<lambda>x. x \<in> set (map ct_id cs)) (sv_finalized sv1)\<rparr>, w2)))"

definition handle_exited_container_process ::
  "'s env \<Rightarrow> instant \<Rightarrow> int \<Rightarrow> 's world \<Rightarrow> 's world" where
  "handle_exited_container_process e now pid w =
     (case list_containers e True w of (cs, w1) \<Rightarrow>
        (case find (\<lambda>c. ct_unshare_pid c = pid) cs of
           None \<Rightarrow> w1 | Some c \<Rightarrow> snd (handle_main_process_exit e now (ct_id c) w1)))"

definition reap_exited_containers :: "'s env \<Rightarrow> instant \<Rightarrow> int list \<Rightarrow> 's world \<Rightarrow> 's world" where
  "reap_exited_containers e now pids w = fold (handle_exited_container_process e now) pids w"

section \<open>Automatic backups\<close>

definition automatic_backup_interval :: "duration \<Rightarrow> container \<Rightarrow> duration" where
  "automatic_backup_interval dflt c = positive_duration (ct_backup_interval c) dflt"

definition backup_due :: "duration \<Rightarrow> instant \<Rightarrow> container \<Rightarrow> bool" where
  "backup_due dflt now c \<longleftrightarrow>
     ct_auto_backup c \<and> \<not> ct_stopped_by_user c \<and> ct_status c = Running
     \<and> \<not> (\<not> is_zero (ct_next_backup c) \<and> now < ct_next_backup c)
     \<and> \<not> (\<not> is_zero (ct_last_backup c) \<and> now < ct_last_backup c + automatic_backup_interval dflt c)"

definition min_backup_retry_delay :: "duration \<Rightarrow> duration" where
  "min_backup_retry_delay interval = (if interval < minute then interval else minute)"

text \<open>The containers a tick starts a backup of, given those whose backup is still running.\<close>

definition backups_started :: "duration \<Rightarrow> instant \<Rightarrow> container list \<Rightarrow> string list \<Rightarrow> container list" where
  "backups_started dflt now cs in_flight =
     filter (\<lambda>c. backup_due dflt now c \<and> ct_id c \<notin> set in_flight) cs"

text \<open>What the supervisor does every second.\<close>

definition supervisor_tick ::
  "'s env \<Rightarrow> (string \<Rightarrow> 's start_env) \<Rightarrow> instant \<Rightarrow> int list \<Rightarrow> supervisor \<Rightarrow> 's world \<Rightarrow> supervisor \<times> 's world" where
  "supervisor_tick e start now exited sv w =
     (case finalize_exited_containers e now sv (reap_exited_containers e now exited w) of (sv1, w1) \<Rightarrow>
        adopt_eligible_containers e start now sv1 w1)"

end
