(* ===== verification/GuardProps.thy ===== *)
theory GuardProps
  imports Supervisor
begin

text \<open>
  The crash-loop guard, the health check, and loading: containers restart a bounded number of
  times, a health check kills after exactly the configured run of failures, and a loaded
  container never claims to run when its processes are gone.
\<close>

section \<open>Saving\<close>

lemma save_frame [simp]:
  "w_stopped (snd (save e c w)) = w_stopped w" "w_dns (snd (save e c w)) = w_dns w"
  "w_pool (snd (save e c w)) = w_pool w" "w_nets (snd (save e c w)) = w_nets w"
  "w_effects (snd (save e c w)) = w_effects w" "w_host (snd (save e c w)) = w_host w"
  by (auto simp: save_def next_save_def split: list.split)

lemma save_file:
  "map_of (w_dir (snd (save e c w))) (container_file e (ct_id c)) = map_of (w_dir w) (container_file e (ct_id c))
   \<or> map_of (w_dir (snd (save e c w))) (container_file e (ct_id c)) = Some (CJson (c\<lparr>ct_cleanup_started := False\<rparr>))"
  by (auto simp: save_def next_save_def split: list.split)

lemma save_ok_file:
  "save e c w = (True, w') \<Longrightarrow>
    map_of (w_dir w') (container_file e (ct_id c)) = Some (CJson (c\<lparr>ct_cleanup_started := False\<rparr>))"
  by (auto simp: save_def next_save_def split: list.splits if_splits)

section \<open>The crash-loop guard\<close>

text \<open>The results of a sequence of restart requests at the given times.\<close>

fun guard_results :: "'s env \<Rightarrow> container \<Rightarrow> 's world \<Rightarrow> instant list \<Rightarrow> bool list" where
  "guard_results e c w [] = []"
| "guard_results e c w (t # ts) =
     (case allow_automatic_restart e t c w of (ok, c1, w1) \<Rightarrow> ok # guard_results e c1 w1 ts)"

lemma restart_max_pos: "0 < restart_max_attempts c"
  by (simp add: restart_max_attempts_def)

lemma guard_fields [simp]:
  "restart_max_attempts (c\<lparr>ct_attempts := n\<rparr>) = restart_max_attempts c"
  "restart_max_attempts (c\<lparr>ct_blocked := b\<rparr>) = restart_max_attempts c"
  "restart_max_attempts (c\<lparr>ct_window_start := t\<rparr>) = restart_max_attempts c"
  "restart_window_duration (c\<lparr>ct_attempts := n\<rparr>) = restart_window_duration c"
  "restart_window_duration (c\<lparr>ct_blocked := b\<rparr>) = restart_window_duration c"
  by (simp_all add: restart_max_attempts_def restart_window_duration_def)

text \<open>Inside an open window a request changes only the attempts and the block.\<close>

lemma open_window_inside:
  "\<not> is_zero (ct_window_start c) \<Longrightarrow> t < ct_window_start c + restart_window_duration c
    \<Longrightarrow> open_window t c = c"
  by (simp add: open_window_def)

lemma allow_inside:
  assumes "\<not> is_zero (ct_window_start c)" "t < ct_window_start c + restart_window_duration c"
    "allow_automatic_restart e t c w = (ok, c1, w1)"
  shows "ct_window_start c1 = ct_window_start c" "restart_window_duration c1 = restart_window_duration c"
    "restart_max_attempts c1 = restart_max_attempts c" "ct_attempts c \<le> ct_attempts c1"
    "ok \<Longrightarrow> ct_attempts c1 = ct_attempts c + 1 \<and> ct_attempts c1 \<le> restart_max_attempts c"
    "ct_attempts c1 \<le> max (ct_attempts c) (restart_max_attempts c)"
  using assms(3) open_window_inside [OF assms(1,2)]
  by (auto simp: allow_automatic_restart_def Let_def split: if_splits prod.splits)

lemma guard_results_bound:
  assumes "\<not> is_zero (ct_window_start c)" "ct_attempts c \<le> restart_max_attempts c"
    "list_all (\<lambda>t. t < ct_window_start c + restart_window_duration c) ts"
  shows "int (length (filter (\<lambda>ok. ok) (guard_results e c w ts))) \<le> restart_max_attempts c - ct_attempts c"
  using assms
proof (induction ts arbitrary: c w)
  case (Cons t ts)
  obtain ok c1 w1 where a: "allow_automatic_restart e t c w = (ok, c1, w1)" by (metis prod_cases3)
  have t: "t < ct_window_start c + restart_window_duration c" using Cons.prems(3) by simp
  note i = allow_inside [OF Cons.prems(1) t a]
  have "int (length (filter (\<lambda>ok. ok) (guard_results e c1 w1 ts))) \<le> restart_max_attempts c1 - ct_attempts c1"
    using Cons.IH [of c1 w1] Cons.prems i by (auto simp: max_def split: if_splits)
  then show ?case using a i(3-5) by (cases ok) auto
qed simp

lemma reset_fields [simp]:
  "restart_max_attempts (reset_restart_guard t c) = restart_max_attempts c"
  "restart_window_duration (reset_restart_guard t c) = restart_window_duration c"
  "ct_attempts (reset_restart_guard t c) = 0" "ct_window_start (reset_restart_guard t c) = t"
  by (simp_all add: reset_restart_guard_def restart_max_attempts_def restart_window_duration_def)

text \<open>
  C9. A crash-looping container is restarted at most \<open>restartMaxAttempts\<close> times within one
  window, however often and whenever in it the restart is asked for, and whatever saves fail.
\<close>

theorem restart_budget:
  assumes "t0 \<noteq> 0" and "list_all (\<lambda>t. t < t0 + restart_window_duration c) ts"
  shows "int (length (filter (\<lambda>ok. ok) (guard_results e (reset_restart_guard t0 c) w ts))) \<le> restart_max_attempts c"
  using guard_results_bound [of "reset_restart_guard t0 c" ts e w] restart_max_pos [of c] assms
  by (simp add: is_zero_def)

definition sample_container :: container where
  "sample_container =
     \<lparr>ct_id = ''0123456789abcdef'', ct_name = ''web'', ct_image = ''alpine'', ct_tag = ''latest'', ct_pid = 0,
      ct_unshare_pid = 0, ct_ns = no_namespaces, ct_status = Stopped, ct_cmd = [''/bin/sh''], ct_ports = [],
      ct_hostname = ''web'', ct_working_dir = ''/srv'', ct_restart = ''always'', ct_restart_delay = [],
      ct_restart_max = 2, ct_restart_window = [], ct_attempts = 0, ct_window_start = 0, ct_last_started = 0,
      ct_blocked = False, ct_auto_backup = False, ct_backup_interval = [], ct_backup_retention = 0, ct_backup_dir = [], ct_last_backup = 0,
      ct_next_backup = 0, ct_ip = [], ct_detach = True, ct_remove_on_exit = False,
      ct_stopped_by_user = False, ct_last_exit = 0, ct_cgroup = [], ct_network_mode = ''none'',
      ct_dns = None, ct_console_pid = 0, ct_forward_pids = [], ct_cleanup_started = False\<rparr>"

definition sample_env :: "unit env" where
  "sample_env =
     \<lparr>e_ex = (\<lambda>_ s. (True, [], s)), e_hash = (\<lambda>_. ''00''), e_rootless = False,
      e_stat = (\<lambda>_ _. None), e_cmdline = (\<lambda>_. []), e_exits = (\<lambda>_ _. True),
      e_cgroup_procs = (\<lambda>_ _. False)\<rparr>"

definition sample_world :: "(string \<times> cfile) list \<Rightarrow> unit world" where
  "sample_world dir =
     \<lparr>w_dir = dir, w_stopped = [], w_dns = [], w_pool = load_pool None, w_nets = [], w_proxies = [],
      w_saves = [], w_effects = [], w_host = ()\<rparr>"

theorem restart_budget_witness:
  "guard_results sample_env (reset_restart_guard 1000 sample_container) (sample_world []) [1001, 1002, 1003, 1004]
      = [True, True, False, False]
    \<and> int (length (filter (\<lambda>ok. ok) (guard_results sample_env (reset_restart_guard 1000 sample_container)
        (sample_world []) [1001, 1002, 1003, 1004]))) \<le> restart_max_attempts sample_container"
proof
  show "guard_results sample_env (reset_restart_guard 1000 sample_container) (sample_world [])
    [1001, 1002, 1003, 1004] = [True, True, False, False]"
    by code_simp
  have "list_all (\<lambda>t. t < 1000 + restart_window_duration sample_container) [1001, 1002, 1003, 1004]"
    by code_simp
  then show "int (length (filter (\<lambda>ok. ok) (guard_results sample_env (reset_restart_guard 1000 sample_container)
        (sample_world []) [1001, 1002, 1003, 1004]))) \<le> restart_max_attempts sample_container"
    by (intro restart_budget) simp_all
qed

section \<open>The health check\<close>

lemma health_loop_Some:
  "health_loop r f rs = Some k \<Longrightarrow> 0 \<le> f \<Longrightarrow>
    k < length rs \<and> r \<le> int k + 1 + f \<and> (\<forall>i \<le> k. int k - int i < r \<longrightarrow> \<not> rs ! i)"
proof (induction r f rs arbitrary: k rule: health_loop.induct)
  case (2 r f ok rs)
  show ?case
  proof (cases "\<not> ok \<and> r \<le> f + 1")
    case True
    then show ?thesis using "2.prems" by auto
  next
    case False
    then obtain k' where k: "k = Suc k'" "health_loop r (if ok then 0 else f + 1) rs = Some k'"
      using "2.prems" by (auto split: if_splits)
    then have h: "k' < length rs" "r \<le> int k' + 1 + (if ok then 0 else f + 1)"
      "\<forall>i \<le> k'. int k' - int i < r \<longrightarrow> \<not> rs ! i"
      using "2.IH" False "2.prems"(2) by (auto split: if_splits)
    have "\<not> (ok # rs) ! i" if "i \<le> k" "int k - int i < r" for i
    proof (cases i)
      case 0
      then show ?thesis using h(2) k(1) that by (auto split: if_splits)
    next
      case (Suc j)
      then show ?thesis using h(3) k(1) that by auto
    qed
    then show ?thesis using h(1,2) k(1) "2.prems"(2) by (auto split: if_splits)
  qed
qed simp

lemma health_loop_None:
  "health_loop r f rs = None \<Longrightarrow> 0 \<le> f \<Longrightarrow> f < r \<Longrightarrow>
    (\<forall>n. r \<le> int n + f \<and> n \<le> length rs \<longrightarrow> (\<exists>i < n. rs ! i))
    \<and> (\<forall>j n. r \<le> int n \<and> j + n \<le> length rs \<longrightarrow> (\<exists>i. j \<le> i \<and> i < j + n \<and> rs ! i))"
proof (induction r f rs rule: health_loop.induct)
  case (1 r f)
  then show ?case by auto
next
  case (2 r f ok rs)
  let ?f = "if ok then 0 else f + 1"
  have step: "health_loop r ?f rs = None" "ok \<or> f + 1 < r"
    using "2.prems"(1) by (auto split: if_splits)
  have A: "\<exists>i < n. rs ! i" if "r \<le> int n + ?f" "n \<le> length rs" for n
    using "2.IH" step "2.prems"(2,3) that by (cases ok) auto
  have B: "\<exists>i. j \<le> i \<and> i < j + n \<and> rs ! i" if "r \<le> int n" "j + n \<le> length rs" for j n
    using "2.IH" step "2.prems"(2,3) that by (cases ok) auto
  have A': "\<exists>i < n. (ok # rs) ! i" if n: "r \<le> int n + f" "n \<le> length (ok # rs)" for n
  proof (cases n)
    case 0
    then show ?thesis using n "2.prems"(3) by simp
  next
    case (Suc m)
    show ?thesis
    proof (cases ok)
      case True
      then show ?thesis using Suc by (intro exI [of _ 0]) simp
    next
      case False
      then obtain i where "i < m" "rs ! i" using A [of m] n Suc by auto
      then show ?thesis using Suc by (intro exI [of _ "Suc i"]) simp
    qed
  qed
  have "\<exists>i. j \<le> i \<and> i < j + n \<and> (ok # rs) ! i" if j: "r \<le> int n" "j + n \<le> length (ok # rs)" for j n
  proof (cases j)
    case 0
    then show ?thesis using A' [of n] j "2.prems"(2) by auto
  next
    case (Suc j')
    then obtain i where "j' \<le> i" "i < j' + n" "rs ! i" using B [of n j'] j by auto
    then show ?thesis using Suc by (intro exI [of _ "Suc i"]) simp
  qed
  then show ?case using A' by blast
qed

text \<open>
  The health check kills the container exactly after the configured number of consecutive
  failed checks: when it kills, the last \<open>retries\<close> results up to then were failures, and as long
  as it does not, every run of \<open>retries\<close> results contains a success.
\<close>

theorem health_check_exact:
  assumes "0 < retries"
  shows "case health_loop retries 0 rs of
      Some k \<Rightarrow> k < length rs \<and> retries \<le> int k + 1
        \<and> (\<forall>i. int k + 1 - retries \<le> int i \<and> i \<le> k \<longrightarrow> \<not> rs ! i)
    | None \<Rightarrow> (\<forall>j n. retries \<le> int n \<and> j + n \<le> length rs \<longrightarrow> (\<exists>i. j \<le> i \<and> i < j + n \<and> rs ! i))"
proof (cases "health_loop retries 0 rs")
  case None
  then show ?thesis using health_loop_None [of retries 0 rs] assms by simp
next
  case (Some k)
  then show ?thesis using health_loop_Some [OF Some] by auto
qed

theorem health_check_exact_witness:
  "health_loop 3 0 [False, False, True, False, False, False, True] = Some 5
    \<and> (5::nat) < 7 \<and> \<not> [False, False, True, False, False, False, True] ! 5"
proof -
  have k: "health_loop 3 0 [False, False, True, False, False, False, True] = Some 5" by code_simp
  have "5 < length [False, False, True, False, False, False, True]
      \<and> (\<forall>i. int 5 + 1 - 3 \<le> int i \<and> i \<le> 5 \<longrightarrow> \<not> [False, False, True, False, False, False, True] ! i)"
    using health_check_exact [of 3 "[False, False, True, False, False, False, True]"] unfolding k by auto
  then have "int 5 + 1 - 3 \<le> int 5 \<and> 5 \<le> (5::nat) \<longrightarrow> \<not> [False, False, True, False, False, False, True] ! 5"
    by blast
  then show ?thesis using k by simp
qed

section \<open>Loading\<close>

lemma normalize_alive:
  "normalize_loaded_state e c w = (c', w') \<Longrightarrow> ct_status c' = Running
    \<Longrightarrow> c' = c \<and> w' = w \<and> process_alive e w c"
  by (auto simp: normalize_loaded_state_def clear_processes_def Let_def split: if_splits)

lemma load_file_alive:
  "load_file e f w = (Some c, w') \<Longrightarrow> ct_status c = Running
    \<Longrightarrow> f = CJson c \<and> w' = w \<and> process_alive e w c"
  by (auto simp: load_file_def split: cfile.splits prod.splits dest: normalize_alive)

lemma load_from_file:
  assumes "load e cid w = (Some c, w')"
  shows "\<exists>n f. (n, f) \<in> set (w_dir w) \<and> load_file e f w = (Some c, w')"
proof (cases "map_of (w_dir w) (container_file e cid)")
  case (Some f)
  then have "(container_file e cid, f) \<in> set (w_dir w)" by (rule map_of_SomeD)
  then show ?thesis using assms Some by (auto simp: load_def)
next
  case None
  have found: "\<exists>n f. (n, f) \<in> set (w_dir w) \<and> load_file e f w = (Some c, w')"
    if "find P (dir_entries w) = Some p" "load_file e (snd p) w = (Some c, w')" for P p
    using find_Some_conv [OF that(1)] that(2) by (cases p) (auto simp: dir_entries_def)
  show ?thesis
  proof (cases "find (\<lambda>p. has_prefix (trim_suffix (fst p) ''.json'') cid) (dir_entries w)")
    case (Some p)
    then show ?thesis using assms None found [OF Some] by (simp add: load_def)
  next
    case nothing: None
    then obtain p where "find (named_in cid) (dir_entries w) = Some p" "load_file e (snd p) w = (Some c, w')"
      using assms None by (auto simp: load_def split: option.splits)
    then show ?thesis by (rule found)
  qed
qed


definition crashed_world :: "unit world" where
  "crashed_world = sample_world
     [(''0123456789abcdef.json'', CJson (sample_container\<lparr>ct_status := Running, ct_pid := 42\<rparr>))]"


end
