(* ===== verification/LifecycleProps.thy ===== *)
theory LifecycleProps
  imports GuardProps
begin

text \<open>
  Stopping, finishing and starting containers: what a container holds is released, a container
  stopped by its user stays stopped, a failed start holds nothing, and where the code falls
  short of that.
\<close>

section \<open>What the cleanup steps leave alone\<close>

lemma effect_frame [simp]:
  "w_dir (effect f w) = w_dir w" "w_stopped (effect f w) = w_stopped w" "w_pool (effect f w) = w_pool w"
  "w_nets (effect f w) = w_nets w" "w_dns (effect f w) = w_dns w" "w_saves (effect f w) = w_saves w"
  by (simp_all add: effect_def)

lemma fold_effect_frame [simp]:
  "w_dir (fold (\<lambda>x. effect (F x)) xs w) = w_dir w" "w_stopped (fold (\<lambda>x. effect (F x)) xs w) = w_stopped w"
  "w_saves (fold (\<lambda>x. effect (F x)) xs w) = w_saves w"
  by (induction xs arbitrary: w) simp_all

lemma next_save_frame:
  "next_save w = (o1, w1) \<Longrightarrow> w_dir w1 = w_dir w \<and> w_stopped w1 = w_stopped w \<and> w_pool w1 = w_pool w
    \<and> w_nets w1 = w_nets w \<and> (w_saves w = [] \<longrightarrow> o1 = Written \<and> w_saves w1 = [])"
  by (auto simp: next_save_def split: list.splits)

lemma cleanup_rootless_frame:
  "cleanup_rootless_ports e c w = (c', w') \<Longrightarrow>
    c' = c\<lparr>ct_forward_pids := []\<rparr> \<and> w_dir w' = w_dir w \<and> w_stopped w' = w_stopped w
    \<and> w_saves w' = w_saves w"
  by (auto simp: cleanup_rootless_ports_def cleanup_forwarders_def split: if_splits)

lemma kill_console_frame:
  "kill_console_serve e c w = (c', w') \<Longrightarrow>
    c' = c\<lparr>ct_console_pid := ct_console_pid c'\<rparr> \<and> ct_console_pid c' \<le> 0
    \<and> w_dir w' = w_dir w \<and> w_stopped w' = w_stopped w \<and> w_saves w' = w_saves w"
  by (auto simp: kill_console_serve_def split: if_splits)

lemma cleanup_network_frame:
  "cleanup_network e c w = (c', w') \<Longrightarrow>
    c' = c\<lparr>ct_forward_pids := [], ct_ip := []\<rparr> \<and> w_dir w' = w_dir w \<and> w_stopped w' = w_stopped w
    \<and> (w_saves w = [] \<longrightarrow> w_saves w' = [])"
  by (auto simp: cleanup_network_def release_user_network_def release_bridge_def Let_def
    split: prod.splits if_splits dest!: cleanup_rootless_frame next_save_frame)

lemma cleanup_network_ip:
  assumes "cleanup_network e c w = (c', w')"
  shows "ct_ip c' = []"
proof -
  have "c' = c\<lparr>ct_forward_pids := [], ct_ip := []\<rparr>" using cleanup_network_frame [OF assms] by blast
  then show ?thesis by simp
qed

lemma cleanup_cgroup_frame [simp]:
  "w_dir (cleanup_cgroup c w) = w_dir w" "w_stopped (cleanup_cgroup c w) = w_stopped w"
  "w_saves (cleanup_cgroup c w) = w_saves w"
  by (simp_all add: cleanup_cgroup_def)

lemma kill_recorded_frame [simp]:
  "w_dir (kill_recorded_processes e p t w) = w_dir w"
  "w_stopped (kill_recorded_processes e p t w) = w_stopped w"
  "w_saves (kill_recorded_processes e p t w) = w_saves w"
  by (simp_all add: kill_recorded_processes_def Let_def)

lemmas cleanup_frames = cleanup_rootless_frame kill_console_frame cleanup_network_frame

section \<open>The exit of the main process\<close>

lemma clear_processes_fields [simp]:
  "ct_status (clear_processes c) = Stopped" "ct_pid (clear_processes c) = 0"
  "ct_unshare_pid (clear_processes c) = 0" "ct_ns (clear_processes c) = no_namespaces"
  "ct_id (clear_processes c) = ct_id c" "ct_restart (clear_processes c) = ct_restart c"
  "ct_stopped_by_user (clear_processes c) = ct_stopped_by_user c"
  "ct_cleanup_started (clear_processes c) = ct_cleanup_started c"
  by (simp_all add: clear_processes_def)

lemma mark_stable_fields [simp]:
  "ct_status (mark_stable_if_needed t c) = ct_status c" "ct_pid (mark_stable_if_needed t c) = ct_pid c"
  "ct_unshare_pid (mark_stable_if_needed t c) = ct_unshare_pid c"
  "ct_ns (mark_stable_if_needed t c) = ct_ns c" "ct_ip (mark_stable_if_needed t c) = ct_ip c"
  "ct_cleanup_started (mark_stable_if_needed t c) = ct_cleanup_started c"
  "ct_console_pid (mark_stable_if_needed t c) = ct_console_pid c"
  "ct_restart (mark_stable_if_needed t c) = ct_restart c" "ct_id (mark_stable_if_needed t c) = ct_id c"
  by (simp_all add: mark_stable_if_needed_def reset_restart_guard_def)

text \<open>The steps of \<open>finalizeStopped\<close> when it is the first to get there.\<close>

lemma finalize_stopped_steps:
  assumes "finalize_stopped e now code c w = ((True, r), c', w')"
  obtains c3 w4 where "c' = mark_stable_if_needed now c3" "w' = snd (save e c3 w4)"
    "c3 = (clear_processes (c\<lparr>ct_cleanup_started := True\<rparr>))
       \<lparr>ct_last_exit := now, ct_forward_pids := [], ct_ip := [], ct_console_pid := ct_console_pid c3\<rparr>"
    "ct_console_pid c3 \<le> 0" "w_dir w4 = w_dir w" "w_stopped w4 = w_stopped w" "w_saves w = [] \<longrightarrow> w_saves w4 = []"
    "r = should_restart (ct_restart c) code (ct_stopped_by_user c \<or> ct_id c \<in> set (w_stopped w))"
    "\<not> ct_cleanup_started c"
proof -
  let ?w1 = "w\<lparr>w_dns := unregister_dns_name (ct_name c) (w_dns w)\<rparr>"
  let ?c1 = "(clear_processes (c\<lparr>ct_cleanup_started := True\<rparr>))\<lparr>ct_last_exit := now\<rparr>"
  have n: "\<not> ct_cleanup_started c" using assms by (auto simp: finalize_stopped_def)
  obtain c2 w2 where c2: "cleanup_network e ?c1 ?w1 = (c2, w2)" by fastforce
  obtain c3 w3 where c3: "kill_console_serve e c2 w2 = (c3, w3)" by fastforce
  have f2: "c2 = ?c1\<lparr>ct_forward_pids := [], ct_ip := []\<rparr>" "w_dir w2 = w_dir w" "w_stopped w2 = w_stopped w"
    using cleanup_network_frame [OF c2] by simp_all
  have f3: "c3 = c2\<lparr>ct_console_pid := ct_console_pid c3\<rparr>" "ct_console_pid c3 \<le> 0"
    "w_dir w3 = w_dir w2" "w_stopped w3 = w_stopped w2"
    using kill_console_frame [OF c3] by simp_all
  have r: "c' = mark_stable_if_needed now c3" "w' = snd (save e c3 (cleanup_cgroup c3 w3))"
    "r = should_restart (ct_restart (mark_stable_if_needed now c3)) code (ct_stopped_by_user c \<or> ct_id c \<in> set (w_stopped w))"
    using assms n c2 c3 by (auto simp: finalize_stopped_def Let_def)
  have saves: "w_saves w = [] \<longrightarrow> w_saves (cleanup_cgroup c3 w3) = []"
    using cleanup_network_frame [OF c2] kill_console_frame [OF c3] by simp
  have "ct_restart c3 = ct_restart c"
    by (subst f3(1), subst f2(1)) simp
  then show ?thesis
    using that [of c3 "cleanup_cgroup c3 w3"] r n f3 f2 saves by simp
qed

text \<open>
  The first to finalize a container that exited leaves it stopped, without processes,
  namespaces, address or console, and its file, when the save does not fail, says the same;
  whoever comes second does nothing.
\<close>

theorem finalize_stopped_releases:
  assumes "finalize_stopped e now code c w = ((True, r), c', w')"
  shows "ct_status c' = Stopped \<and> ct_pid c' = 0 \<and> ct_unshare_pid c' = 0 \<and> ct_ns c' = no_namespaces
    \<and> ct_ip c' = [] \<and> ct_console_pid c' \<le> 0
    \<and> (map_of (w_dir w') (container_file e (ct_id c)) = map_of (w_dir w) (container_file e (ct_id c))
       \<or> (\<exists>d. map_of (w_dir w') (container_file e (ct_id c)) = Some (CJson d)
            \<and> ct_status d = Stopped \<and> ct_pid d = 0 \<and> ct_ip d = [] \<and> ct_last_exit d = now))
    \<and> finalize_stopped e now2 code2 c' w2 = ((False, False), c', w2)"
  using assms
proof (rule finalize_stopped_steps)
  fix c3 w4
  assume c': "c' = mark_stable_if_needed now c3" and w': "w' = snd (save e c3 w4)"
    and c3: "c3 = (clear_processes (c\<lparr>ct_cleanup_started := True\<rparr>))
       \<lparr>ct_last_exit := now, ct_forward_pids := [], ct_ip := [], ct_console_pid := ct_console_pid c3\<rparr>"
    and con: "ct_console_pid c3 \<le> 0" and dir: "w_dir w4 = w_dir w"
  have f: "ct_status c3 = Stopped" "ct_pid c3 = 0" "ct_unshare_pid c3 = 0" "ct_ns c3 = no_namespaces"
    "ct_ip c3 = []" "ct_cleanup_started c3" "ct_id c3 = ct_id c" "ct_last_exit c3 = now"
    by (subst c3, simp)+
  have "map_of (w_dir w') (container_file e (ct_id c)) = map_of (w_dir w) (container_file e (ct_id c))
      \<or> map_of (w_dir w') (container_file e (ct_id c)) = Some (CJson (c3\<lparr>ct_cleanup_started := False\<rparr>))"
    using save_file [of e c3 w4] w' dir f(7) by simp
  then show ?thesis
    using c' f con by (auto simp: finalize_stopped_def)
qed

theorem finalize_stopped_releases_witness:
  "ct_pid (fst (snd (finalize_stopped sample_env 5000 1
      (sample_container\<lparr>ct_status := Running, ct_pid := 42, ct_console_pid := 7\<rparr>) (sample_world [])))) = 0"
  (is "ct_pid (fst (snd ?r)) = 0")
proof -
  have "fst ?r = (True, True)" by code_simp
  then have "?r = ((True, True), fst (snd ?r), snd (snd ?r))" by (metis prod.collapse)
  from finalize_stopped_releases [OF this] show ?thesis by blast
qed

text \<open>
  A container that ran long enough to count as stable has its crash-loop guard reset in
  memory only: the file that the next process reads still has the old count and the old block.
\<close>

theorem stable_reset_not_persisted:
  assumes "finalize_stopped e now code c w = ((True, r), c', w')" and "w_saves w = []"
    and "ct_last_started c \<noteq> 0" and "minute \<le> now - ct_last_started c"
  shows "ct_attempts c' = 0 \<and> \<not> ct_blocked c'
    \<and> (\<exists>d. map_of (w_dir w') (container_file e (ct_id c)) = Some (CJson d)
        \<and> ct_attempts d = ct_attempts c \<and> ct_blocked d = ct_blocked c)"
  using assms(1)
proof (rule finalize_stopped_steps)
  fix c3 w4
  assume c': "c' = mark_stable_if_needed now c3" and w': "w' = snd (save e c3 w4)"
    and c3: "c3 = (clear_processes (c\<lparr>ct_cleanup_started := True\<rparr>))
       \<lparr>ct_last_exit := now, ct_forward_pids := [], ct_ip := [], ct_console_pid := ct_console_pid c3\<rparr>"
    and saves: "w_saves w = [] \<longrightarrow> w_saves w4 = []"
  have f: "ct_attempts c3 = ct_attempts c" "ct_blocked c3 = ct_blocked c" "ct_id c3 = ct_id c"
    "ct_last_started c3 = ct_last_started c"
    by (subst c3, simp add: clear_processes_def)+
  have "save e c3 w4 = (True, w')"
    using saves assms(2) w' by (simp add: save_def next_save_def)
  from save_ok_file [OF this] show ?thesis
    using c' f assms(3,4) by (simp add: mark_stable_if_needed_def reset_restart_guard_def is_zero_def)
qed

theorem stable_reset_not_persisted_witness:
  "ct_attempts (fst (snd (finalize_stopped sample_env (minute + 5) 1
      (sample_container\<lparr>ct_attempts := 2, ct_blocked := True, ct_last_started := 5\<rparr>) (sample_world [])))) = 0"
  (is "ct_attempts (fst (snd ?r)) = 0")
proof -
  have "fst ?r = (True, True)" by code_simp
  then have e: "?r = ((True, True), fst (snd ?r), snd (snd ?r))" by (metis prod.collapse)
  show ?thesis
    using stable_reset_not_persisted [OF e] by (simp add: sample_world_def minute_def second_def)
qed

section \<open>Stopping\<close>

lemma stop_fields:
  assumes "finalize_stop_state e c w = (c', w')"
  shows "ct_stopped_by_user c' = ct_stopped_by_user c \<and> ct_id c' = ct_id c \<and> ct_status c' = Stopped
    \<and> ct_pid c' = 0 \<and> ct_ip c' = [] \<and> ct_cleanup_started c' = ct_cleanup_started c \<and> w_stopped w' = w_stopped w
    \<and> (map_of (w_dir w') (container_file e (ct_id c)) = map_of (w_dir w) (container_file e (ct_id c))
       \<or> map_of (w_dir w') (container_file e (ct_id c)) = Some (CJson (c'\<lparr>ct_cleanup_started := False\<rparr>)))"
proof -
  obtain c1 w1 where 1: "cleanup_rootless_ports e c w = (c1, w1)" by fastforce
  obtain c2 w2 where 2: "kill_console_serve e c1 w1 = (c2, w2)" by fastforce
  obtain c3 w3 where 3: "cleanup_network e c2 (effect (CancelHealth (ct_id c2)) w2) = (c3, w3)" by fastforce
  note f = cleanup_rootless_frame [OF 1] kill_console_frame [OF 2] cleanup_network_frame [OF 3]
  have i: "ct_id c3 = ct_id c" "ct_stopped_by_user c3 = ct_stopped_by_user c"
    "ct_cleanup_started c3 = ct_cleanup_started c" "ct_ip c3 = []"
  proof -
    have c2: "c2 = c\<lparr>ct_forward_pids := [], ct_console_pid := ct_console_pid c2\<rparr>" using f by simp
    have c3: "c3 = c2\<lparr>ct_forward_pids := [], ct_ip := []\<rparr>" using f by simp
    show "ct_id c3 = ct_id c" "ct_stopped_by_user c3 = ct_stopped_by_user c"
      "ct_cleanup_started c3 = ct_cleanup_started c" "ct_ip c3 = []"
      by (subst c3, simp, subst c2, simp)+ (subst c3, simp)
  qed
  let ?c4 = "clear_processes c3"
  let ?w4 = "effect (RemoveConsole (ct_id c3)) (cleanup_cgroup c3 w3)"
  let ?w5 = "?w4\<lparr>w_dns := unregister_dns_name (ct_name c3) (w_dns ?w4)\<rparr>"
  have "finalize_stop_state e c w = (?c4, effect (Emit ''stop'' (ct_id ?c4)) (snd (save e ?c4 ?w5)))"
    by (simp add: finalize_stop_state_def Let_def 1 2 3)
  from trans [OF sym [OF this] assms] have c': "c' = ?c4" and w': "w' = effect (Emit ''stop'' (ct_id ?c4)) (snd (save e ?c4 ?w5))"
    by blast+
  have p: "ct_stopped_by_user ?c4 = ct_stopped_by_user c3" "ct_id ?c4 = ct_id c3" "ct_status ?c4 = Stopped" "ct_pid ?c4 = 0"
    "ct_ip ?c4 = ct_ip c3" "ct_cleanup_started ?c4 = ct_cleanup_started c3"
    by (simp_all add: clear_processes_def)
  have d: "w_stopped ?w5 = w_stopped w \<and> w_dir ?w5 = w_dir w" using f by simp
  have s: "map_of (w_dir w') (container_file e (ct_id c)) = map_of (w_dir w) (container_file e (ct_id c))
       \<or> map_of (w_dir w') (container_file e (ct_id c)) = Some (CJson (?c4\<lparr>ct_cleanup_started := False\<rparr>))"
    and t: "w_stopped w' = w_stopped w"
    using save_file [of e ?c4 ?w5] d unfolding w' by (simp_all add: p i)
  show ?thesis using s t unfolding c' by (simp add: p i)
qed

text \<open>The cleanup of a container whose state says it is not running.\<close>

definition stale_cleanup :: "'s env \<Rightarrow> container \<Rightarrow> 's world \<Rightarrow> container \<times> 's world" where
  "stale_cleanup e c w =
     (if 0 < ct_pid c \<or> 0 < ct_unshare_pid c \<or> pid_alive e w (ct_console_pid c)
      then
        (case cleanup_rootless_ports e c
                (kill_recorded_processes e (ct_pid c) (ct_unshare_pid c) w) of (c1, w1) \<Rightarrow>
         (case kill_console_serve e c1 w1 of (c2, w2) \<Rightarrow>
         (case cleanup_network e c2 w2 of (c3, w3) \<Rightarrow> (c3, cleanup_cgroup c3 w3))))
      else (c, w))"

lemma stale_cleanup_frame:
  assumes "stale_cleanup e c w = (c', w')"
  shows "ct_id c' = ct_id c \<and> ct_cleanup_started c' = ct_cleanup_started c \<and> w_stopped w' = w_stopped w"
proof (cases "0 < ct_pid c \<or> 0 < ct_unshare_pid c \<or> pid_alive e w (ct_console_pid c)")
  case True
  obtain c1 w1 where 1: "cleanup_rootless_ports e c
      (kill_recorded_processes e (ct_pid c) (ct_unshare_pid c) w) = (c1, w1)" by fastforce
  obtain c2 w2 where 2: "kill_console_serve e c1 w1 = (c2, w2)" by fastforce
  obtain c3 w3 where 3: "cleanup_network e c2 w2 = (c3, w3)" by fastforce
  note f = cleanup_rootless_frame [OF 1] kill_console_frame [OF 2] cleanup_network_frame [OF 3]
  have c2: "c2 = c\<lparr>ct_forward_pids := [], ct_console_pid := ct_console_pid c2\<rparr>" using f by simp
  have c3: "c3 = c2\<lparr>ct_forward_pids := [], ct_ip := []\<rparr>" using f by simp
  have "ct_id c3 = ct_id c" "ct_cleanup_started c3 = ct_cleanup_started c"
    by (subst c3, simp, subst c2, simp)+
  moreover have "c' = c3" "w' = cleanup_cgroup c3 w3"
    using assms True 1 2 3 by (auto simp: stale_cleanup_def)
  ultimately show ?thesis using f by simp
next
  case False
  then show ?thesis using assms by (auto simp: stale_cleanup_def)
qed

text \<open>What holds after a successful stop.\<close>

lemma stop_ok_state:
  assumes "stop_container e fu c w = (Inr u, c', w')" and "\<not> ct_cleanup_started c"
  shows "ct_id c' = ct_id c" "ct_stopped_by_user c'" "ct_id c \<in> set (w_stopped w')"
    "\<exists>d. map_of (w_dir w') (container_file e (ct_id c)) = Some (CJson d) \<and> ct_stopped_by_user d"
proof -
  have "ct_id c' = ct_id c \<and> ct_stopped_by_user c' \<and> ct_id c \<in> set (w_stopped w')
    \<and> (\<exists>d. map_of (w_dir w') (container_file e (ct_id c)) = Some (CJson d) \<and> ct_stopped_by_user d)"
  proof (cases "ct_status c = Running")
    case False
    obtain c4 w4 where s: "stale_cleanup e c w = (c4, w4)" by fastforce
    let ?c5 = "c4\<lparr>ct_stopped_by_user := True\<rparr>" and ?w5 = "w4\<lparr>w_stopped := ct_id c4 # w_stopped w4\<rparr>"
    have r: "stop_container e fu c w =
        (if ct_status c4 = Stopped \<and> ct_restart c4 \<noteq> [] \<and> ct_restart c4 \<noteq> ''no''
         then (case save e ?c5 ?w5 of (ok, w6) \<Rightarrow> (if ok then Inr () else Inl SaveError, ?c5, w6))
         else (Inl NotRunning, c4, w4))"
      using False s unfolding stale_cleanup_def stop_container_def by (simp add: Let_def)
    then have ok: "save e ?c5 ?w5 = (True, w')" and c': "c' = ?c5"
      using assms(1) by (auto split: if_splits prod.splits)
    have "w_stopped w' = w_stopped ?w5" using save_frame(1) [of e ?c5 ?w5] ok by simp
    then show ?thesis
      using save_ok_file [OF ok] c' stale_cleanup_frame [OF s] by simp
  next
    case True
    let ?c1 = "c\<lparr>ct_cleanup_started := True, ct_stopped_by_user := True\<rparr>"
    let ?w1 = "w\<lparr>w_stopped := ct_id c # w_stopped w\<rparr>"
    obtain ok w2 where s: "save e ?c1 ?w1 = (ok, w2)" by fastforce
    have ok: "ok" using assms True s by (auto simp: stop_container_def Let_def split: if_splits)
    let ?t1 = "if ct_unshare_pid c \<le> 0 then fu (ct_pid c) else ct_unshare_pid c"
    let ?t = "if ?t1 \<le> 0 then ct_pid c else ?t1"
    let ?w3 = "if ?t \<le> 0 then w2 else kill_recorded_processes e (ct_pid c) ?t w2"
    obtain c2 w4 where f2: "finalize_stop_state e ?c1 ?w3 = (c2, w4)" by fastforce
    have "stop_container e fu c w = (Inr (), c2, w4)"
      using True assms(2) s ok f2 unfolding stop_container_def Let_def
      by (cases "ct_unshare_pid c \<le> 0"; cases "fu (ct_pid c) \<le> 0"; cases "ct_pid c \<le> 0") simp_all
    then have fin: "finalize_stop_state e ?c1 ?w3 = (c', w')" using assms(1) f2 by simp
    have f: "w_stopped w2 = ct_id c # w_stopped w" using save_frame(1) [of e ?c1 ?w1] s by simp
    have saved: "map_of (w_dir ?w3) (container_file e (ct_id c)) = Some (CJson (?c1\<lparr>ct_cleanup_started := False\<rparr>))"
      using save_ok_file [of e ?c1 ?w1 w2] s ok by simp
    have st: "w_stopped ?w3 = ct_id c # w_stopped w" using f by simp
    note sf = stop_fields [OF fin]
    have id: "ct_id ?c1 = ct_id c" "ct_stopped_by_user ?c1" by simp_all
    have "ct_id c' = ct_id c" "ct_stopped_by_user c'" "w_stopped w' = ct_id c # w_stopped w"
      using sf id st by simp_all
    moreover have "\<exists>d. map_of (w_dir w') (container_file e (ct_id c)) = Some (CJson d) \<and> ct_stopped_by_user d"
    proof -
      have "map_of (w_dir w') (container_file e (ct_id c)) = map_of (w_dir ?w3) (container_file e (ct_id c))
        \<or> map_of (w_dir w') (container_file e (ct_id c)) = Some (CJson (c'\<lparr>ct_cleanup_started := False\<rparr>))"
        using sf id by simp
      then show ?thesis using saved \<open>ct_stopped_by_user c'\<close> by (elim disjE) simp_all
    qed
    ultimately show ?thesis by simp
  qed
  then show "ct_id c' = ct_id c" "ct_stopped_by_user c'" "ct_id c \<in> set (w_stopped w')"
    "\<exists>d. map_of (w_dir w') (container_file e (ct_id c)) = Some (CJson d) \<and> ct_stopped_by_user d" by simp_all
qed



section \<open>Starting\<close>

lemma abort_with_frame:
  "abort_with e err u c w = (r, c', w') \<Longrightarrow> r = Inl err \<and> ct_ip c' = [] \<and> w_dir w' = w_dir w"
proof -
  assume a: "abort_with e err u c w = (r, c', w')"
  let ?w2 = "(effect (Signal u ''KILL'') w)\<lparr>w_dns := unregister_dns_name (ct_name c) (w_dns (effect (Signal u ''KILL'') w))\<rparr>"
  obtain c1 w3 where 1: "cleanup_rootless_ports e c ?w2 = (c1, w3)" by fastforce
  obtain c2 w4 where 2: "kill_console_serve e c1 w3 = (c2, w4)" by fastforce
  obtain c3 w5 where 3: "cleanup_network e c2 w4 = (c3, w5)" by fastforce
  have r: "r = Inl err" "c' = c3"
    "w' = effect (RemoveOverlay (ct_id c3)) (effect (RemoveConsole (ct_id c3)) (cleanup_cgroup c3 w5))"
    using a 1 2 3 unfolding abort_with_def abort_start_def Let_def by auto
  have "w_dir w5 = w_dir w"
    using cleanup_rootless_frame [OF 1] kill_console_frame [OF 2] cleanup_network_frame [OF 3] by simp
  then show ?thesis using r cleanup_network_ip [OF 3] by simp
qed

lemma allocate_address_frame:
  "allocate_address n w = (r, w') \<Longrightarrow> w_dir w' = w_dir w"
  by (auto simp: allocate_address_def split: prod.splits if_splits dest: next_save_frame)

lemma setup_resources_status:
  assumes "setup_container_resources e se c pid w = (r, c', w')"
  shows "ct_status c' = ct_status c"
proof -
  let ?c1 = "case se_cgroup se of None \<Rightarrow> c | Some path \<Rightarrow> c\<lparr>ct_cgroup := path\<rparr>"
  have c1: "ct_status ?c1 = ct_status c" by (simp split: option.split)
  have "ct_status c' = ct_status ?c1"
  proof (cases "needs_network ?c1 \<and> \<not> e_rootless e")
    case True
    then have "setup_networking e se ?c1 pid w = (r, c', w')"
      using assms unfolding setup_container_resources_def Let_def by simp
    then show ?thesis
      by (auto simp: setup_networking_def split: prod.splits sum.splits)
  next
    case False
    then show ?thesis
      using assms unfolding setup_container_resources_def Let_def
      by (auto split: if_splits prod.splits option.splits)
  qed
  then show ?thesis using c1 by simp
qed

lemma abort_with_status: "abort_with e err u c w = (r, c', w') \<Longrightarrow> ct_status c' = ct_status c"
proof -
  assume a: "abort_with e err u c w = (r, c', w')"
  let ?w2 = "(effect (Signal u ''KILL'') w)\<lparr>w_dns := unregister_dns_name (ct_name c) (w_dns (effect (Signal u ''KILL'') w))\<rparr>"
  obtain c1 w3 where 1: "cleanup_rootless_ports e c ?w2 = (c1, w3)" by fastforce
  obtain c2 w4 where 2: "kill_console_serve e c1 w3 = (c2, w4)" by fastforce
  obtain c3 w5 where 3: "cleanup_network e c2 w4 = (c3, w5)" by fastforce
  have r: "c' = c3" using a 1 2 3 unfolding abort_with_def abort_start_def Let_def by auto
  have c2: "c2 = c\<lparr>ct_forward_pids := [], ct_console_pid := ct_console_pid c2\<rparr>"
    using cleanup_rootless_frame [OF 1] kill_console_frame [OF 2] by simp
  have c3: "c3 = c2\<lparr>ct_forward_pids := [], ct_ip := []\<rparr>" using cleanup_network_frame [OF 3] by blast
  show ?thesis unfolding r by (subst c3, simp, subst c2, simp)
qed

lemma finish_start_error:
  assumes "finish_start e se u c w = (Inl err, c', w')" "err \<noteq> SaveError"
  shows "ct_ip c' = [] \<and> ct_status c' = ct_status c"
  using assms
  by (auto simp: finish_start_def Let_def split: option.splits if_splits prod.splits
      dest: abort_with_frame abort_with_status)

lemma start_spawned_error:
  assumes "start_spawned e se u c w = (Inl err, c', w')" "err \<noteq> SaveError"
  shows "ct_ip c' = [] \<and> ct_status c' = ct_status c"
proof -
  obtain r c1 w1 where s: "setup_container_resources e se c (se_child se) w = (r, c1, w1)"
    by (metis prod_cases3)
  have st: "ct_status c1 = ct_status c" by (rule setup_resources_status [OF s])
  have done_it: "ct_ip c' = [] \<and> ct_status c' = ct_status d"
    if "abort_with e x u d v = (Inl err, c', w')" for x d v
    using abort_with_frame [OF that] abort_with_status [OF that] by simp
  show ?thesis
    using assms s st done_it finish_start_error [of e se u c1 w1 err c' w']
    unfolding start_spawned_def by (auto split: sum.splits if_splits)
qed

lemma start_prepared:
  assumes "ct_status c \<noteq> Running"
  shows "\<exists>c3 w3. start_internal e se c w =
      (if \<not> se_dirs_ok se then (Inl DirsFailed, c3, w3)
       else if rootless_unsupported e c3 then (Inl RootlessNetwork, c3, w3)
       else if \<not> se_filesystem_ok se then (Inl FilesystemFailed, c3, w3)
       else if \<not> se_unshare_ok se then (Inl UnshareFailed, c3, w3)
       else case se_io se of
         None \<Rightarrow> (Inl IoFailed, c3, w3)
       | Some console \<Rightarrow>
           let c4 = (if ct_detach c3 then c3\<lparr>ct_console_pid := console\<rparr> else c3) in
           if needs_network c4 \<and> \<not> se_pipes_ok se then (Inl PipeFailed, c4, w3)
           else case se_spawn se of
             None \<Rightarrow> (Inl SpawnFailed, c4, w3)
           | Some unshare \<Rightarrow> start_spawned e se unshare c4 w3)
    \<and> ct_ip c3 = [] \<and> ct_status c3 = Created \<and> ct_network_mode c3 = ct_network_mode c \<and> w_dir w3 = w_dir w
    \<and> (\<exists>v. w_pool v = w_pool w \<and> w_dir v = w_dir w \<and>
        (ct_ip c \<noteq> [] \<and> \<not> user_network_mode (ct_network_mode c) \<and> ct_forward_pids c = []
           \<longrightarrow> w_pool w3 = w_pool (release_bridge e (c\<lparr>ct_cleanup_started := False, ct_status := Created\<rparr>) v)))"
proof -
  let ?w = "w\<lparr>w_stopped := filter (\<lambda>x. x \<noteq> ct_id c) (w_stopped w)\<rparr>"
  let ?c1 = "c\<lparr>ct_cleanup_started := False, ct_status := Created\<rparr>"
  obtain c2 w2 where 2: "(if ct_ip ?c1 \<noteq> [] then cleanup_network e ?c1 ?w else (?c1, ?w)) = (c2, w2)" by fastforce
  obtain c3 w3 where 3: "kill_console_serve e c2 w2 = (c3, w3)" by fastforce
  have c2: "ct_ip c2 = [] \<and> ct_status c2 = Created \<and> ct_network_mode c2 = ct_network_mode c \<and> w_dir w2 = w_dir w"
  proof (cases "ct_ip ?c1 = []")
    case True
    then show ?thesis using 2 by auto
  next
    case False
    then have n: "cleanup_network e ?c1 ?w = (c2, w2)" using 2 by simp
    have "c2 = ?c1\<lparr>ct_forward_pids := [], ct_ip := []\<rparr>" "w_dir w2 = w_dir w"
      using cleanup_network_frame [OF n] by simp_all
    then show ?thesis by simp
  qed
  have c3: "c3 = c2\<lparr>ct_console_pid := ct_console_pid c3\<rparr>" "w_dir w3 = w_dir w2"
    using kill_console_frame [OF 3] by simp_all
  have f3: "ct_ip c3 = [] \<and> ct_status c3 = Created \<and> ct_network_mode c3 = ct_network_mode c"
    by (subst (1 2 3) c3(1)) (use c2 in simp)
  have pool: "w_pool w3 = w_pool w2" using 3 by (auto simp: kill_console_serve_def split: if_splits)
  have rel: "w_pool w2 = w_pool (release_bridge e ?c1 ?w)"
    if "ct_ip c \<noteq> []" "\<not> user_network_mode (ct_network_mode c)" "ct_forward_pids c = []"
    using 2 that by (auto simp: cleanup_network_def cleanup_rootless_ports_def)
  show ?thesis
    using assms f3 c3(2) c2 pool rel 2 3
    by (intro exI [of _ c3] exI [of _ w3] conjI exI [of _ ?w])
      (simp_all add: start_internal_def Let_def)
qed


end
