(* ===== verification/StartProps.thy ===== *)
theory StartProps
  imports LifecycleProps
begin

text \<open>
  Starting and removing: examples of starts, the two defects of the code around a start, and
  what a removal leaves behind.
\<close>

definition sample_start :: "unit start_env" where
  "sample_start =
     \<lparr>se_dirs_ok = True, se_filesystem_ok = True, se_unshare_ok = True, se_io = Some 77,
      se_pipes_ok = True, se_spawn = Some 100, se_ready = True, se_child = 101, se_cgroup = None,
      se_netns = (\<lambda>_ _. True), se_has_slirp = False, se_forward = (\<lambda>_. None), se_release_ok = True,
      se_namespaces = Some \<lparr>ns_mount = 1, ns_pid = 2, ns_network = 3, ns_ipc = 4, ns_uts = 5\<rparr>,
      se_meanwhile = (\<lambda>w. w), se_now = 9000, se_has_socat = False\<rparr>"


text \<open>
  A start that fails before the process runs has released the container's old address, but
  its file still claims it. Since a start releases whatever address the file claims, the next
  attempt frees the address again, then possibly that of another container.
\<close>

theorem failed_start_keeps_stale_address:
  assumes "ct_status c \<noteq> Running" and "ct_ip c \<noteq> []" and "\<not> user_network_mode (ct_network_mode c)"
    and "ct_forward_pids c = []" and "\<not> e_rootless e" and "se_dirs_ok se" and "\<not> se_filesystem_ok se"
  shows "fst (start_internal e se c w) = Inl FilesystemFailed
    \<and> w_dir (snd (snd (start_internal e se c w))) = w_dir w
    \<and> pool_used (w_pool (snd (snd (start_internal e se c w)))) = pool_used (w_pool w) - {ct_ip c}"
proof -
  let ?c = "c\<lparr>ct_cleanup_started := False, ct_status := Created\<rparr>"
  obtain c3 w3 v where s: "start_internal e se c w =
      (if \<not> se_dirs_ok se then (Inl DirsFailed, c3, w3)
       else if rootless_unsupported e c3 then (Inl RootlessNetwork, c3, w3)
       else if \<not> se_filesystem_ok se then (Inl FilesystemFailed, c3, w3)
       else if \<not> se_unshare_ok se then (Inl UnshareFailed, c3, w3)
       else case se_io se of
         None \<Rightarrow> (Inl IoFailed, c3, w3)
       | Some console \<Rightarrow>
           let c4 = (if ct_detach c3 then c3\<lparr>ct_console_pid := console\<rparr> else c3) in
           if needs_network c4 \<and> \<not> se_pipes_ok se then (Inl PipeFailed, c4, w3)
           else case se_spawn se of
             None \<Rightarrow> (Inl SpawnFailed, c4, w3)
           | Some unshare \<Rightarrow> start_spawned e se unshare c4 w3)"
    and dir: "w_dir w3 = w_dir w" and v: "w_pool v = w_pool w"
    and pool: "w_pool w3 = w_pool (release_bridge e ?c v)"
    using start_prepared [OF assms(1), of e se w] assms(2-4) by blast
  have "pool_used (w_pool (release_bridge e ?c v)) = pool_used (w_pool w) - {ct_ip c}"
    using v by (auto simp: release_bridge_def cleanup_container_network_def release_ip_def pool_used_def
      split: prod.splits dest!: next_save_frame)
  then show ?thesis
    using s assms(5-7) dir pool by (simp add: rootless_unsupported_def)
qed

theorem failed_start_keeps_stale_address_witness:
  "''10.0.2.2'' \<notin> pool_used (w_pool (snd (snd (start_internal sample_env (sample_start\<lparr>se_filesystem_ok := False\<rparr>)
      (sample_container\<lparr>ct_ip := ''10.0.2.2'', ct_network_mode := ''bridge''\<rparr>)
      ((sample_world [])\<lparr>w_pool := load_pool (Some [(''10.0.2.2'', True)])\<rparr>)))))"
proof -
  have "ct_status (sample_container\<lparr>ct_ip := ''10.0.2.2'', ct_network_mode := ''bridge''\<rparr>) \<noteq> Running"
    "ct_forward_pids (sample_container\<lparr>ct_ip := ''10.0.2.2'', ct_network_mode := ''bridge''\<rparr>) = []"
    "\<not> e_rootless sample_env" "se_dirs_ok (sample_start\<lparr>se_filesystem_ok := False\<rparr>)"
    by (simp_all add: sample_container_def sample_env_def sample_start_def)
  from failed_start_keeps_stale_address [OF this(1) _ _ this(2,3,4)] show ?thesis
    by (simp add: user_network_mode_def)
qed

text \<open>
  The supervisor can bring a removed container back: a removal that completes after the
  supervisor has listed the containers is undone, because recording the restart attempt writes
  the state file again, and the checks that follow find it.
\<close>

theorem supervisor_resurrects_removed:
  "map_of (w_dir (sample_world [])) ''0123456789abcdef.json'' = None
   \<and> (case map_of (w_dir (snd (adopt_one sample_env (\<lambda>_. sample_start) 8000 sample_container
          \<lparr>sv_managed = [], sv_finalized = []\<rparr> (sample_world [])))) ''0123456789abcdef.json'' of
        Some (CJson d) \<Rightarrow> ct_status d = Running \<and> ct_pid d = 101
      | _ \<Rightarrow> False)"
  by code_simp

section \<open>Removing\<close>

lemma remove_body_refused:
  "has_live_processes e c w \<Longrightarrow> remove_body e fu ov False c w = (Inl StillRunning, c, w)"
  by (simp add: remove_body_def)

text \<open>The last steps of a removal.\<close>

lemma remove_body_removed:
  assumes "remove_body e fu ov force c w = (Inr u, c', w')"
  shows "map_of (w_dir w') (container_file e (ct_id c')) = None"
  using assms
  by (auto simp: remove_body_def delete_state_def Let_def split: if_splits prod.splits option.splits)

text \<open>
  A removal always takes its tombstone away again; without force it leaves a container with
  live processes as it was; and when it succeeds there is no state file any more.
\<close>

theorem remove_container_result:
  assumes "remove_container e fu marker_ok ov force c w = (r, c', w')"
  shows "\<not> is_being_removed (ct_id c) w'
    \<and> (has_live_processes e c (add_marker marker_ok (ct_id c) w) \<and> \<not> force
        \<longrightarrow> r = Inl StillRunning \<and> c' = c \<and> w_effects w' = w_effects w \<and> w_pool w' = w_pool w
          \<and> (map_of (w_dir w))(ct_id c @ ''.removing'' := None) = map_of (w_dir w'))
    \<and> (r = Inr () \<longrightarrow> map_of (w_dir w') (container_file e (ct_id c')) = None)"
proof -
  let ?w0 = "add_marker marker_ok (ct_id c) w"
  obtain w1 where b: "remove_body e fu ov force c ?w0 = (r, c', w1)" and w': "w' = drop_marker (ct_id c) w1"
    using assms by (auto simp: remove_container_def split: prod.splits)
  have 1: "\<not> is_being_removed (ct_id c) w'" using w' by (simp add: is_being_removed_def drop_marker_def)
  have 2: "r = Inl StillRunning \<and> c' = c \<and> w_effects w' = w_effects w \<and> w_pool w' = w_pool w
      \<and> (map_of (w_dir w))(ct_id c @ ''.removing'' := None) = map_of (w_dir w')"
    if "has_live_processes e c ?w0 \<and> \<not> force"
    using remove_body_refused [of e c ?w0 fu ov] that b w'
    by (auto simp: drop_marker_def add_marker_def fun_eq_iff split: if_splits)
  have 3: "map_of (w_dir w') (container_file e (ct_id c')) = None" if "r = Inr ()"
    using remove_body_removed [of e fu ov force c ?w0 "()" c' w1] b that w' by (simp add: drop_marker_def)
  show ?thesis using 1 2 3 by blast
qed

theorem remove_container_result_witness:
  "map_of (w_dir (snd (snd (remove_container sample_env (\<lambda>_. 0) True True False sample_container
      (sample_world [(''0123456789abcdef.json'', CJson sample_container)])))))
    (container_file sample_env (ct_id (fst (snd (remove_container sample_env (\<lambda>_. 0) True True False sample_container
      (sample_world [(''0123456789abcdef.json'', CJson sample_container)])))))) = None"
  (is "map_of (w_dir (snd (snd ?r))) _ = None")
proof -
  have "fst ?r = Inr ()" by code_simp
  then have "?r = (Inr (), fst (snd ?r), snd (snd ?r))" by (metis prod.collapse)
  from remove_container_result [OF this] show ?thesis by simp
qed

end
