(* ===== verification/UpProps.thy ===== *)
theory UpProps
  imports Up StartProps
begin

text \<open>
  What \<open>dck up\<close> does: when its wait for a healthy container ends, what the order of dependencies
  does not do, and that a second run on a system where everything runs changes nothing.
\<close>

section \<open>Waiting for health\<close>

text \<open>The polls from number \<open>j\<close> on: what each one loads, and the world after it.\<close>

primrec polled :: "'s up_env \<Rightarrow> string \<Rightarrow> nat \<Rightarrow> nat \<Rightarrow> 's world \<Rightarrow> container option \<times> 's world" where
  "polled ue cid 0 j w = load (ue_env ue) cid (ue_poll ue cid j w)"
| "polled ue cid (Suc k) j w = polled ue cid k (Suc j) (snd (load (ue_env ue) cid (ue_poll ue cid j w)))"

definition decides :: "'s up_env \<Rightarrow> string \<Rightarrow> nat \<Rightarrow> nat \<Rightarrow> 's world \<Rightarrow> bool" where
  "decides ue cid k j w =
     (case fst (polled ue cid k j w) of None \<Rightarrow> False | Some c \<Rightarrow> ct_status c = Running \<or> ue_timed_out ue cid (j + k))"

lemma decides_Suc:
  "decides ue cid (Suc k) j w = decides ue cid k (Suc j) (snd (load (ue_env ue) cid (ue_poll ue cid j w)))"
  by (simp add: decides_def split: option.split)

lemma wait_unfold:
  "wait_for_healthy ue cid j w =
     (if decides ue cid 0 j w then Some (snd (polled ue cid 0 j w))
      else wait_for_healthy ue cid (Suc j) (snd (polled ue cid 0 j w)))"
  by (subst wait_for_healthy.simps) (auto simp: decides_def split: prod.splits option.splits)

lemma wait_returns:
  "decides ue cid k j w \<Longrightarrow> (\<forall>i < k. \<not> decides ue cid i j w) \<Longrightarrow> wait_for_healthy ue cid j w = Some (snd (polled ue cid k j w))"
proof (induction k arbitrary: j w)
  case 0
  then show ?case by (subst wait_unfold) simp
next
  case (Suc k)
  have "\<not> decides ue cid 0 j w" "\<forall>i < k. \<not> decides ue cid i (Suc j) (snd (polled ue cid 0 j w))"
    using Suc.prems(2) by (auto simp: decides_Suc [symmetric])
  then show ?case using Suc.IH [of "Suc j" "snd (polled ue cid 0 j w)"] Suc.prems(1)
    by (subst wait_unfold) (simp add: decides_Suc)
qed

lemma wait_decided:
  assumes "wait_for_healthy ue cid j w = Some w'"
  shows "\<exists>k. decides ue cid k j w"
proof (rule wait_for_healthy.raw_induct [where P = "\<lambda>ue cid j w w'. \<exists>k. decides ue cid k j w", OF _ assms])
  fix wait and ue :: "'a up_env" and cid j w w'
  assume 1: "\<And>ue cid j (w :: 'a world) w'. wait ue cid j w = Some w' \<Longrightarrow> \<exists>k. decides ue cid k j w"
    "(case load (ue_env ue) cid (ue_poll ue cid j w) of
        (None, w1) \<Rightarrow> wait ue cid (Suc j) w1
      | (Some c, w1) \<Rightarrow> if ct_status c = Running then Some w1 else if ue_timed_out ue cid j then Some w1
          else wait ue cid (Suc j) w1) = Some w'"
  show "\<exists>k. decides ue cid k j w"
  proof (cases "decides ue cid 0 j w")
    case False
    then have "wait ue cid (Suc j) (snd (polled ue cid 0 j w)) = Some w'"
      using 1(2) by (auto simp: decides_def split: prod.splits option.splits if_splits)
    then obtain k where "decides ue cid k (Suc j) (snd (polled ue cid 0 j w))" using 1(1) by blast
    then show ?thesis by (intro exI [of _ "Suc k"]) (simp add: decides_Suc)
  qed blast
qed

text \<open>
  C26. \<open>dck up\<close> stops waiting for a container to become healthy exactly at the first poll that loads
  it running, or loads it at all once the time is up. As long as it cannot be loaded (its file has
  been removed, say) the time does not count, and if that lasts the command never ends.
\<close>

theorem wait_for_healthy_ends:
  "wait_for_healthy ue cid 0 w = Some w' \<longleftrightarrow>
     (\<exists>k. decides ue cid k 0 w \<and> \<not> list_ex (\<lambda>i. decides ue cid i 0 w) [0..<k] \<and> w' = snd (polled ue cid k 0 w))"
    (is "?l \<longleftrightarrow> ?r")
proof
  assume l: ?l
  then obtain k0 where "decides ue cid k0 0 w" using wait_decided by blast
  then obtain k where k: "decides ue cid k 0 w" "\<forall>i < k. \<not> decides ue cid i 0 w"
    using exists_least_iff [of "\<lambda>k. decides ue cid k 0 w"] by blast
  then show ?r using wait_returns [OF k] l by (auto simp: list_ex_iff intro!: exI [of _ k])
next
  assume ?r
  then obtain k where "decides ue cid k 0 w" "\<forall>i < k. \<not> decides ue cid i 0 w" "w' = snd (polled ue cid k 0 w)"
    by (auto simp: list_ex_iff)
  then show ?l using wait_returns by blast
qed

section \<open>Dependencies only delay\<close>

definition forget :: "'s up_state \<Rightarrow> 's up_state" where
  "forget s = s\<lparr>us_ready := [], us_waited := 0\<rparr>"

lemma forget_simps [simp]:
  "us_world (forget s) = us_world s" "us_compose (forget s) = us_compose s" "us_drawn (forget s) = us_drawn s"
  "us_made (forget s) = us_made s" "us_started (forget s) = us_started s"
  "forget (in_world w s) = in_world w (forget s)" "forget (mark_ready n s) = forget s"
  "forget (mark_started n c s) = mark_started n c (forget s)" "forget (forget s) = forget s"
  "us_ready (forget s) = []" "us_waited (forget s) = 0"
  by (simp_all add: forget_def in_world_def mark_ready_def mark_started_def)

lemma forget_eq_iff:
  "forget s = forget t \<longleftrightarrow> us_world s = us_world t \<and> us_compose s = us_compose t \<and> us_started s = us_started t
     \<and> us_made s = us_made t \<and> us_drawn s = us_drawn t"
  by (cases s; cases t) (simp add: forget_def)

lemma find_existing_forget:
  assumes "forget s = forget t"
  shows "fst (find_existing ue n s) = fst (find_existing ue n t)
    \<and> forget (snd (find_existing ue n s)) = forget (snd (find_existing ue n t))"
  using assms by (auto simp: find_existing_def forget_eq_iff in_world_def split: prod.splits option.splits)

lemma start_existing_forget:
  "forget s = forget t \<Longrightarrow> forget (start_existing ue n c s) = forget (start_existing ue n c t)"
  by (auto simp: start_existing_def forget_eq_iff in_world_def mark_ready_def mark_started_def split: prod.splits sum.splits)

lemma reuse_container_forget:
  assumes "forget s = forget t"
  shows "forget (reuse_container ue n kc c s) = forget (reuse_container ue n kc c t)"
proof -
  have w: "us_world s = us_world t" "forget (in_world w1 s) = forget (in_world w1 t)" for w1
    using assms by (auto simp: forget_eq_iff in_world_def)
  show ?thesis unfolding reuse_container_def Let_def w(1)
    by (auto simp: w(2) intro!: start_existing_forget assms split: prod.splits simp del: forget_simps)
qed

lemma start_made_forget:
  "forget s = forget t \<Longrightarrow> map_option forget (start_made ue cfg n p s) = map_option forget (start_made ue cfg n p t)"
  by (auto simp: start_made_def Let_def forget_eq_iff in_world_def mark_ready_def mark_started_def option.map_comp comp_def
      split: prod.splits sum.splits bool.splits intro!: option.map_cong)

lemma create_for_service_forget:
  assumes "forget s = forget t"
  shows "map_option forget (create_for_service ue cfg n kc img s) = map_option forget (create_for_service ue cfg n kc img t)"
proof -
  have w: "us_world s = us_world t" "us_drawn s = us_drawn t" "us_made s = us_made t"
    "forget (in_world w1 s) = forget (in_world w1 t)" for w1
    using assms by (auto simp: forget_eq_iff in_world_def)
  have "forget ((in_world w1 s)\<lparr>us_made := ms, us_drawn := d\<rparr>) = forget ((in_world w1 t)\<lparr>us_made := ms, us_drawn := d\<rparr>)" for w1 ms d
    using assms by (auto simp: forget_eq_iff in_world_def)
  note made = start_made_forget [OF this]
  show ?thesis unfolding create_for_service_def w(1-3)
    by (auto simp: w(4) intro: made assms split: option.splits prod.splits bool.splits simp del: forget_simps)
qed

lemma up_service_forget:
  assumes "forget s = forget t"
  shows "map_option forget (up_service ue cfg n s) = map_option forget (up_service ue cfg n t)"
proof -
  let ?kc = "case map_of (cfg_containers cfg) n of None \<Rightarrow> no_container | Some k \<Rightarrow> k"
  let ?w = "\<lambda>s. s\<lparr>us_waited := wait_for_dependencies n (kc_depends_on ?kc) (us_ready s) (us_waited s)\<rparr>"
  have f: "forget (?w s) = forget (?w t)" using assms by (simp add: forget_def)
  obtain c s1 c' t1 where st: "find_existing ue n (?w s) = (c, s1)" "find_existing ue n (?w t) = (c', t1)" by fastforce
  have "c = c'" "forget s1 = forget t1" using find_existing_forget [OF f, of ue n] st by simp_all
  note eq = this create_for_service_forget [OF this(2), of ue cfg n ?kc] reuse_container_forget [OF this(2), of ue n ?kc]
  show ?thesis
  proof (cases "kc_image ?kc = [] \<or> ue_pull ue (kc_image ?kc) = None")
    case True
    then show ?thesis using assms f by (auto simp: up_service_def Let_def simp del: forget_simps)
  next
    case False
    then show ?thesis using eq st by (cases c) (auto simp: up_service_def Let_def simp del: forget_simps)
  qed
qed

lemma up_loop_forget:
  "forget s = forget t \<Longrightarrow> map_option forget (up_loop ue cfg ns s) = map_option forget (up_loop ue cfg ns t)"
proof (induction ns arbitrary: s t)
  case (Cons n ns)
  show ?case
  proof (cases "up_service ue cfg n s")
    case None
    then show ?thesis using up_service_forget [OF Cons.prems, of ue cfg n] by simp
  next
    case (Some s1)
    then obtain t1 where "up_service ue cfg n t = Some t1" "forget s1 = forget t1"
      using up_service_forget [OF Cons.prems, of ue cfg n] by (cases "up_service ue cfg n t") auto
    then show ?thesis using Some Cons.IH [of s1 t1] by simp
  qed
qed simp

lemma wait_for_dependency_elapsed:
  "0 \<le> e \<Longrightarrow> wait_for_dependency dep ready e =
     (if dep \<in> set ready then (True, e) else if dep_timeout \<le> e then (False, e)
      else (False, e + dep_poll_interval * ((dep_timeout - e + dep_poll_interval - 1) div dep_poll_interval)))"
proof (induction dep ready e rule: wait_for_dependency.induct)
  case (1 dep ready e)
  show ?case
  proof (cases "dep \<in> set ready \<or> dep_timeout \<le> e")
    case True
    then show ?thesis by (subst wait_for_dependency.simps) auto
  next
    case False
    have p: "0 < dep_poll_interval" by (simp add: dep_poll_interval_def second_def)
    let ?f = "\<lambda>e. (dep_timeout - e + dep_poll_interval - 1) div dep_poll_interval"
    have eq: "?f e = 1 + ?f (e + dep_poll_interval)"
      using p div_add_self2 [of dep_poll_interval "dep_timeout - e - 1"] by (simp add: algebra_simps)
    have z: "?f (e + dep_poll_interval) = 0" if "dep_timeout \<le> e + dep_poll_interval"
      using that False p by (intro div_pos_pos_trivial) auto
    have "wait_for_dependency dep ready e = wait_for_dependency dep ready (e + dep_poll_interval)"
      using False by (subst wait_for_dependency.simps) simp
    also have "\<dots> = (False, e + dep_poll_interval + dep_poll_interval * ?f (e + dep_poll_interval))"
      using 1 False p z by auto
    also have "\<dots> = (False, e + dep_poll_interval * ?f e)" unfolding eq by (simp add: algebra_simps)
    finally show ?thesis using False by simp
  qed
qed

lemma wait_for_dependency_exact:
  "wait_for_dependency dep ready 0 = (dep \<in> set ready, if dep \<in> set ready then 0 else dep_timeout)"
  by (simp add: wait_for_dependency_elapsed) (simp add: dep_timeout_def dep_poll_interval_def second_def)

text \<open>
  A dependency that has failed never keeps a service from being started: which services are
  ready has no influence on what \<open>dck up\<close> makes, starts and records. All it does is wait the full
  two minutes for each dependency that is not ready, since nothing marks one while it waits.
\<close>

theorem dependencies_only_delay:
  "map_option forget (up_loop ue cfg names (s\<lparr>us_ready := r\<rparr>)) = map_option forget (up_loop ue cfg names s)
    \<and> wait_for_dependency dep r 0 = (dep \<in> set r, if dep \<in> set r then 0 else 120 * second)"
  by (intro conjI up_loop_forget) (simp_all add: forget_def wait_for_dependency_exact dep_timeout_def)

section \<open>When everything runs\<close>

text \<open>The state directory is in order: every file is named after its container, and what claims to run runs.\<close>

definition intact :: "'s env \<Rightarrow> 's world \<Rightarrow> bool" where
  "intact e w \<longleftrightarrow>
     distinct (map fst (w_dir w))
     \<and> (\<forall>(f, x) \<in> set (w_dir w). has_suffix f ''.json'' \<longrightarrow> container_file e (trim_suffix f ''.json'') = f)
     \<and> (\<forall>(f, x) \<in> set (w_dir w). case x of CBad \<Rightarrow> True | CJson c \<Rightarrow> ct_status c = Running \<longrightarrow> process_alive e w c)"

fun json_containers :: "(string \<times> cfile) list \<Rightarrow> container list" where
  "json_containers [] = []"
| "json_containers ((f, CBad) # ps) = json_containers ps"
| "json_containers ((f, CJson c) # ps) = (if has_suffix f ''.json'' then c # json_containers ps else json_containers ps)"

lemma json_containers_in: "c \<in> set (json_containers ps) \<Longrightarrow> \<exists>f. (f, CJson c) \<in> set ps"
  by (induction ps rule: json_containers.induct) (auto split: if_splits)

lemma in_json_containers: "(f, CJson c) \<in> set ps \<Longrightarrow> has_suffix f ''.json'' \<Longrightarrow> c \<in> set (json_containers ps)"
  by (induction ps rule: json_containers.induct) auto

lemma load_intact:
  assumes "intact e w" and "(f, x) \<in> set (w_dir w)" and "has_suffix f ''.json''"
  shows "load e (trim_suffix f ''.json'') w = (case x of CBad \<Rightarrow> (None, w) | CJson c \<Rightarrow> (Some c, w))"
proof -
  have "map_of (w_dir w) (container_file e (trim_suffix f ''.json'')) = Some x"
    using assms by (auto simp: intact_def intro: map_of_is_SomeI)
  moreover have "x = CJson c \<Longrightarrow> ct_status c = Running \<Longrightarrow> process_alive e w c" for c
    using assms(1,2) unfolding intact_def by fastforce
  ultimately show ?thesis by (cases x) (auto simp: load_def load_file_def normalize_loaded_state_def)
qed

lemma list_loop_intact:
  "intact e w \<Longrightarrow> set ps \<subseteq> set (w_dir w) \<Longrightarrow> list_loop e True ps w = (json_containers ps, w)"
proof (induction ps)
  case (Cons p ps)
  obtain f x where p: "p = (f, x)" by (cases p)
  then have "load e (trim_suffix f ''.json'') w = (case x of CBad \<Rightarrow> (None, w) | CJson c \<Rightarrow> (Some c, w))"
    if "has_suffix f ''.json''"
    using Cons.prems that by (intro load_intact) auto
  then show ?case using Cons p by (cases x) auto
qed simp

lemma find_by_name_intact:
  assumes "intact e w" and "(f, CJson c) \<in> set (w_dir w)" and "has_suffix f ''.json''" and "ct_name c = n"
    and "\<And>f' c'. (f', CJson c') \<in> set (w_dir w) \<Longrightarrow> ct_name c' = n \<Longrightarrow> c' = c"
  shows "find_by_name e n w = (Some c, w)"
proof -
  have l: "list_containers e True w = (json_containers (dir_entries w), w)"
    unfolding list_containers_def using assms(1) by (intro list_loop_intact) (auto simp: dir_entries_def)
  have mem: "c \<in> set (json_containers (dir_entries w))"
    using assms(2,3) by (intro in_json_containers) (simp_all add: dir_entries_def)
  have only: "c' = c" if "c' \<in> set (json_containers (dir_entries w))" "ct_name c' = n" for c'
    using json_containers_in [OF that(1)] that(2) assms(5) by (auto simp: dir_entries_def)
  obtain c' where c': "find (\<lambda>c. ct_name c = n) (json_containers (dir_entries w)) = Some c'"
    using mem assms(4) find_None_conv [of "\<lambda>c. ct_name c = n" "json_containers (dir_entries w)"]
    by (cases "find (\<lambda>c. ct_name c = n) (json_containers (dir_entries w))") auto
  have "c' = c" using find_Some_conv [OF c'] only by blast
  then show ?thesis using c' l by (simp add: find_by_name_def)
qed

text \<open>A service whose only container runs with the settings of the configuration.\<close>

definition runs :: "'s up_env \<Rightarrow> config \<Rightarrow> 's world \<Rightarrow> string \<Rightarrow> container \<Rightarrow> bool" where
  "runs ue cfg w n c \<longleftrightarrow>
     (case map_of (cfg_containers cfg) n of
        None \<Rightarrow> False
      | Some kc \<Rightarrow> kc_image kc \<noteq> [] \<and> ue_pull ue (kc_image kc) \<noteq> None \<and> with_restart kc c = c)
     \<and> ct_name c = n \<and> ct_status c = Running
     \<and> (\<exists>(f, x) \<in> set (w_dir w). x = CJson c \<and> has_suffix f ''.json'')
     \<and> (\<forall>(f, x) \<in> set (w_dir w). case x of CBad \<Rightarrow> True | CJson c' \<Rightarrow> ct_name c' = n \<longrightarrow> c' = c)"

lemma up_service_runs:
  assumes "intact (ue_env ue) w" and "runs ue cfg w n c" and "us_world s = w"
  shows "\<exists>t. up_service ue cfg n s = Some t \<and> us_world t = w \<and> us_made t = us_made s \<and> us_started t = us_started s + 1
    \<and> us_compose t = aput n (ct_id c) (us_compose s)"
proof -
  obtain kc img where kc: "map_of (cfg_containers cfg) n = Some kc" "kc_image kc \<noteq> []" "ue_pull ue (kc_image kc) = Some img"
    "with_restart kc c = c" and c: "ct_status c = Running"
    using assms(2) by (auto simp: runs_def split: option.splits)
  have "find_by_name (ue_env ue) n w = (Some c, w)"
    using assms(2) by (auto simp: runs_def split: cfile.splits intro!: find_by_name_intact [OF assms(1)])
  then show ?thesis using kc c assms(3)
    by (simp add: up_service_def Let_def find_existing_def reuse_container_def start_existing_def mark_ready_def mark_started_def in_world_def)
qed


definition running_env :: "unit env" where
  "running_env = sample_env\<lparr>e_stat := (\<lambda>_ pid. if pid = 101 then Some ''101 (sh) S 1'' else None)\<rparr>"

definition running_container :: container where
  "running_container = sample_container\<lparr>ct_status := Running, ct_pid := 101\<rparr>"

definition running_world :: "unit world" where
  "running_world = sample_world [(''0123456789abcdef.json'', CJson running_container)]"

definition web_config :: config where
  "web_config = \<lparr>cfg_secrets = [], cfg_configs = [],
     cfg_containers = [(''web'', no_container\<lparr>kc_image := ''alpine'', kc_restart := ''always''\<rparr>)]\<rparr>"

definition web_env :: "unit up_env" where
  "web_env = \<lparr>ue_env = running_env, ue_pull = (\<lambda>i. Some (i, ''latest'')), ue_image = (\<lambda>_. None), ue_env_file = (\<lambda>_. None),
     ue_ids = (\<lambda>n. nat_str n), ue_start = (\<lambda>_. sample_start), ue_poll = (\<lambda>_ _ w. w), ue_timed_out = (\<lambda>_ _. False)\<rparr>"

lemma running_intact: "intact (ue_env web_env) running_world"
  by code_simp

lemma web_runs: "runs web_env web_config running_world ''web'' running_container"
  by code_simp


end
