(* ===== verification/PathGuard.thy ===== *)
theory PathGuard
  imports BuildPaths TarConfined
begin

text \<open>
  The contract shared by the repository's checks of a path that comes from outside: what a check
  accepts lies at or below the root it was given. The clients that join names to an accepted
  path, or remove what lies below a root, rely on this only.
\<close>

locale path_guard =
  fixes guard :: "string \<Rightarrow> string \<Rightarrow> 'e + string"
  assumes guard_below: "list_all proper rs \<Longrightarrow> guard (abs_of rs) name = Inr p
    \<Longrightarrow> \<exists>ws. list_all proper ws \<and> p = abs_of (rs @ ws)"
begin

lemma guard_prefix:
  "list_all proper rs \<Longrightarrow> guard (abs_of rs) name = Inr p \<Longrightarrow> prefix rs (abs_elems p) \<and> is_abs p"
  using guard_below [of rs name p] by auto

lemma guard_not_escapes:
  assumes "list_all proper rs" and "guard (abs_of rs) name = Inr p"
  shows "\<not> rel_escapes (path_rel (abs_of rs) p)"
proof -
  obtain ws where "list_all proper ws" "p = abs_of (rs @ ws)" using guard_below assms by blast
  then show ?thesis using assms(1) rel_escapes_iff [of rs "rs @ ws"] by simp
qed

text \<open>A further name joined to an accepted path stays below the root if it has no parent element.\<close>

lemma guard_join:
  assumes "list_all proper rs" and "guard (abs_of rs) name = Inr p" and "list_all proper (elems s)"
  shows "prefix rs (abs_elems (path_join [p, s]))"
proof -
  obtain ws where "list_all proper ws" "p = abs_of (rs @ ws)" using guard_below assms by blast
  then show ?thesis using assms path_join_abs_of_proper [of "rs @ ws" s] by simp
qed

text \<open>Paths accepted for roots that do not contain each other are different.\<close>

lemma guards_disjoint:
  assumes "list_all proper rs" "list_all proper qs" "\<not> prefix rs qs" "\<not> prefix qs rs"
    and "guard (abs_of rs) m = Inr p" and "guard (abs_of qs) n = Inr q"
  shows "p \<noteq> q"
proof
  assume "p = q"
  then have "prefix rs (abs_elems p)" "prefix qs (abs_elems p)"
    using guard_prefix assms by blast+
  then show False using assms(3,4) prefix_same_cases by blast
qed

end

section \<open>The checks of a build\<close>

lemma path_abs_abs_of [simp]: "list_all proper rs \<Longrightarrow> path_abs cwd (abs_of rs) = Some (abs_of rs)"
  by (simp add: path_abs_def)

lemma clean_elems_subset: "set (foldl (clean_step r) out ws) \<subseteq> insert dotdot (set ws \<union> set out)"
  by (induction ws arbitrary: out) (fastforce simp: clean_step_def split: list.splits if_splits)+

lemma path_clean_is_abs [simp]: "is_abs (path_clean u) = is_abs u"
proof (cases "is_abs u")
  case True
  then show ?thesis by (simp add: path_clean_abs_elems)
next
  case False
  let ?ws = "clean_elems False (elems u)"
  have "w \<noteq> [] \<and> slash \<notin> set w" if "w \<in> set ?ws" for w
  proof -
    have "w = dotdot \<or> w \<in> set (elems u)"
      using that clean_elems_subset [of False "[]" "elems u"] by (auto simp: clean_elems_def)
    then have "w = dotdot \<or> proper w" using elems_proper by blast
    then show ?thesis by (auto simp: proper_def dotdot_def slash_def)
  qed
  then have "\<not> is_abs (path_clean u)"
  proof (cases ?ws)
    case (Cons w ws)
    then obtain c v where "w = c # v" "c \<noteq> slash" using \<open>\<And>w. w \<in> set ?ws \<Longrightarrow> w \<noteq> [] \<and> slash \<notin> set w\<close> [of w]
      by (cases w) auto
    then show ?thesis using False Cons
      by (cases ws) (simp_all add: path_clean_def unparse_def is_abs_def has_prefix_def)
  qed (use False in \<open>simp add: path_clean_def unparse_def is_abs_def has_prefix_def slash_def\<close>)
  then show ?thesis using False by simp
qed

text \<open>A path that \<open>Abs\<close> has returned and that does not escape an absolute root lies below it.\<close>

lemma path_abs_cleaned: "path_abs cwd s = Some p \<Longrightarrow> p = [] \<or> (\<exists>u. p = path_clean u)"
  by (auto simp: path_abs_def path_join_def Let_def split: if_splits)

lemma not_escaping_abs: "\<not> rel_escapes (path_rel (abs_of rs) p) \<Longrightarrow> is_abs p"
  by (cases "is_abs p")
    (auto simp: path_rel_def rel_escapes_def Let_def split: if_splits dest: arg_cong [where f = is_abs])

lemma abs_below:
  assumes "path_abs cwd s = Some p" and "list_all proper rs" and "\<not> rel_escapes (path_rel (abs_of rs) p)"
  shows "\<exists>ws. list_all proper ws \<and> p = abs_of (rs @ ws)"
proof -
  have a: "is_abs p" using assms(3) by (rule not_escaping_abs)
  then have "p \<noteq> []" by (auto simp: is_abs_def has_prefix_def)
  then obtain u where "p = path_clean u" using path_abs_cleaned [OF assms(1)] by blast
  then have p: "p = abs_of (abs_elems u)" using a by (simp add: path_clean_abs_elems)
  then have "prefix rs (abs_elems u)" using assms(2,3) by (simp add: rel_escapes_iff)
  then show ?thesis using p by (metis abs_elems_proper list_all_append prefixE)
qed

interpretation build_source: path_guard "safe_build_source fv"
proof
  fix rs name p
  assume r: "list_all proper rs" and "safe_build_source fv (abs_of rs) name = Inr p"
  then show "\<exists>ws. list_all proper ws \<and> p = abs_of (rs @ ws)"
    by (auto simp: safe_build_source_def intro: abs_below split: if_splits option.splits)
qed

text \<open>A path without parent elements joined to an absolute root.\<close>

lemma no_dotdot_proper: "dotdot \<notin> set (split_byte slash s) \<Longrightarrow> list_all proper (elems s)"
  using elems_proper [of _ s] by (auto simp: list_all_iff elems_def)

lemma join_below:
  assumes "list_all proper rs" and "list_all proper (elems s)"
  shows "\<exists>ws. list_all proper ws \<and> path_join [abs_of rs, s] = abs_of (rs @ ws)"
  using assms path_join_abs_of_proper by blast

interpretation build_destination: path_guard "safe_build_destination fv"
proof
  fix rs name p
  assume r: "list_all proper rs" and s: "safe_build_destination fv (abs_of rs) name = Inr p"
  then have "dotdot \<notin> set (split_byte slash (trim_prefix name [slash]))"
    and "p = path_join [abs_of rs, trim_prefix name [slash]]"
    by (auto simp: safe_build_destination_def list_ex_iff Let_def split: if_splits sum.splits)
  then show "\<exists>ws. list_all proper ws \<and> p = abs_of (rs @ ws)"
    using join_below [OF r no_dotdot_proper] by simp
qed

interpretation tar_member: path_guard safe_tar_path
  by unfold_locales (rule safe_tar_path_below)

end
