(* ===== verification/Builder.thy ===== *)
theory Builder
  imports Dockerfile BuildPaths StatePaths
begin

text \<open>
  The image builder (\<open>internal/builder/builder.go\<close>): the state of a build, one operation per
  instruction and the loop over the Dockerfile. What the registry, the kernel and the file
  system answer is the record \<open>build_env\<close>; where the build writes on disk is recorded in
  \<open>bs_written\<close>, in order. Creation times are left out.
\<close>

section \<open>The state of a build\<close>

record health_config =
  hcfg_test :: "string list"
  hcfg_interval :: string
  hcfg_timeout :: string
  hcfg_retries :: int
  hcfg_start_period :: string

record image_config_inner =
  ic_cmd :: "string list"
  ic_entrypoint :: "string list"
  ic_env :: "string list"
  ic_working_dir :: string
  ic_user :: string
  ic_labels :: "(string \<times> string) list"
  ic_exposed :: "(string \<times> unit) list"
  ic_volumes :: "(string \<times> unit) list"
  ic_stop_signal :: string
  ic_healthcheck :: "health_config option"
  ic_shell :: "string list"

record image_config =
  cf_author :: string
  cf_config :: image_config_inner
  cf_history :: "string list"
  cf_diff_ids :: "string list"

record build_layer =
  bl_digest :: string
  bl_size :: int
  bl_command :: string

record saved_stage =
  ss_rootfs :: string
  ss_lower :: string
  ss_layers :: "build_layer list"
  ss_config :: image_config

record build_state =
  bs_rootfs :: string
  bs_lower :: string
  bs_layers :: "build_layer list"
  bs_config :: image_config
  bs_stack_idx :: nat
  bs_stages :: "(string \<times> saved_stage) list"
  bs_written :: "string list"

text \<open>The configuration of a base image; its lists may be absent.\<close>

record base_config =
  bc_cmd :: "string list option"
  bc_entrypoint :: "string list option"
  bc_env :: "string list option"
  bc_working_dir :: string
  bc_user :: string

record build_env =
  be_hash :: "string \<Rightarrow> string"
  be_data_dir :: string
  be_context :: string
  be_pull :: "string \<Rightarrow> (string \<times> string) option"
  be_config :: "string \<Rightarrow> string \<Rightarrow> base_config option"
  be_manifest :: "string \<Rightarrow> string \<Rightarrow> (string \<times> int) list option"
  be_layers_cached :: "string \<Rightarrow> string \<Rightarrow> bool"
  be_resolve :: "string \<Rightarrow> bool"
  be_missing :: "string \<Rightarrow> bool"
  be_exists :: "string \<Rightarrow> bool"
  be_mount :: "string \<Rightarrow> string \<Rightarrow> bool"
  be_exec :: "string list \<Rightarrow> string list \<Rightarrow> bool"
  be_layer :: "string \<Rightarrow> (string \<times> int) option"
  be_extract :: "string \<Rightarrow> string \<Rightarrow> bool"
  be_fs :: fs_view
  be_mkdir :: "string \<Rightarrow> bool"
  be_write :: "string \<Rightarrow> bool"
  be_copy :: "string \<Rightarrow> string \<Rightarrow> bool"

datatype build_err =
    FromPanics | PullFailed string | CacheBase | BaseLayerMissing string | MountFailed | ShellPanics
  | RunFailed | LayerError | ExtractFailed | CopyArgs | PathErr path_err | MkdirFailed
  | StageNotFound string | CopyFailed string | ChownFailed | BadRetries string | HealthPanics
  | NoInstructions | FirstNotFrom | LayerNotCached | WriteFailed | ParseFailed "nat \<times> string"

definition new_inner :: image_config_inner where
  "new_inner = \<lparr>ic_cmd = [], ic_entrypoint = [], ic_env = [], ic_working_dir = [], ic_user = [],
     ic_labels = [], ic_exposed = [], ic_volumes = [], ic_stop_signal = [], ic_healthcheck = None,
     ic_shell = [''/bin/sh'', ''-c'']\<rparr>"

definition new_config :: image_config where
  "new_config = \<lparr>cf_author = [], cf_config = new_inner, cf_history = [], cf_diff_ids = []\<rparr>"

definition new_build :: build_state where
  "new_build = \<lparr>bs_rootfs = [], bs_lower = [], bs_layers = [], bs_config = new_config,
     bs_stack_idx = 0, bs_stages = [], bs_written = []\<rparr>"

definition map_inner :: "(image_config_inner \<Rightarrow> image_config_inner) \<Rightarrow> build_state \<Rightarrow> build_state" where
  "map_inner f bs = bs\<lparr>bs_config := (bs_config bs)\<lparr>cf_config := f (cf_config (bs_config bs))\<rparr>\<rparr>"

definition add_layer :: "build_layer \<Rightarrow> build_state \<Rightarrow> build_state" where
  "add_layer l bs = bs\<lparr>bs_layers := bs_layers bs @ [l],
     bs_config := (bs_config bs)\<lparr>cf_diff_ids := cf_diff_ids (bs_config bs) @ [bl_digest l]\<rparr>\<rparr>"

definition written :: "string \<Rightarrow> build_state \<Rightarrow> build_state" where
  "written p bs = bs\<lparr>bs_written := bs_written bs @ [p]\<rparr>"

section \<open>FROM\<close>

text \<open>Saving the stage that ends here and starting the next one.\<close>

definition stage_alias :: "string list \<Rightarrow> string" where
  "stage_alias args =
     (if length args \<ge> 3 \<and> to_upper (args ! 1) = ''AS'' then args ! 2 else [])"

definition save_stage :: "string \<Rightarrow> build_state \<Rightarrow> build_state" where
  "save_stage alias bs =
     (if cf_history (bs_config bs) = [] then bs
      else
        let key = (if alias \<noteq> [] then alias else ''stage_'' @ nat_str (length (bs_stages bs))) in
        bs\<lparr>bs_stages := aput key \<lparr>ss_rootfs = bs_rootfs bs, ss_lower = bs_lower bs,
             ss_layers = bs_layers bs, ss_config = bs_config bs\<rparr> (bs_stages bs),
           bs_rootfs := [], bs_lower := [], bs_layers := [], bs_config := new_config, bs_stack_idx := 0\<rparr>)"

definition from_stage :: "saved_stage \<Rightarrow> build_state \<Rightarrow> build_state" where
  "from_stage st bs =
     bs\<lparr>bs_rootfs := ss_rootfs st, bs_lower := ss_lower st, bs_layers := bs_layers bs @ ss_layers st,
        bs_config := (bs_config bs)\<lparr>cf_diff_ids := cf_diff_ids (bs_config bs) @ cf_diff_ids (ss_config st),
                                    cf_config := cf_config (ss_config st)\<rparr>\<rparr>"

definition inherit_config :: "base_config \<Rightarrow> image_config_inner \<Rightarrow> image_config_inner" where
  "inherit_config b c =
     c\<lparr>ic_cmd := (case bc_cmd b of None \<Rightarrow> ic_cmd c | Some v \<Rightarrow> v),
       ic_entrypoint := (case bc_entrypoint b of None \<Rightarrow> ic_entrypoint c | Some v \<Rightarrow> v),
       ic_env := (case bc_env b of None \<Rightarrow> ic_env c | Some v \<Rightarrow> v),
       ic_working_dir := (if bc_working_dir b \<noteq> [] then bc_working_dir b else ic_working_dir c),
       ic_user := (if bc_user b \<noteq> [] then bc_user b else ic_user c)\<rparr>"

fun add_base_layers ::
  "build_env \<Rightarrow> string \<Rightarrow> (string \<times> int) list \<Rightarrow> build_state \<Rightarrow> build_err + build_state" where
  "add_base_layers e ref [] bs = Inr bs"
| "add_base_layers e ref ((digest, sz) # ls) bs =
     (if \<not> be_resolve e digest then Inl (BaseLayerMissing digest)
      else add_base_layers e ref ls
        (add_layer \<lparr>bl_digest = digest, bl_size = sz, bl_command = ''FROM '' @ ref\<rparr> bs))"

definition handle_from :: "build_env \<Rightarrow> string list \<Rightarrow> build_state \<Rightarrow> build_err + build_state" where
  "handle_from e args bs0 =
     (case args of
        [] \<Rightarrow> Inl FromPanics
      | ref # _ \<Rightarrow>
          let bs = save_stage (stage_alias args) bs0 in
          (case map_of (bs_stages bs) ref of
             Some st \<Rightarrow> Inr (from_stage st bs)
           | None \<Rightarrow>
               (case be_pull e ref of
                  None \<Rightarrow> Inl (PullFailed ref)
                | Some (name, tag) \<Rightarrow>
                    let rootfs = image_rootfs_dir (be_hash e) (be_data_dir e) name tag;
                        bs1 = bs\<lparr>bs_rootfs := rootfs, bs_lower := rootfs, bs_stack_idx := 0\<rparr>;
                        bs2 = (case be_config e name tag of None \<Rightarrow> bs1 | Some b \<Rightarrow> map_inner (inherit_config b) bs1) in
                    (case be_manifest e name tag of
                       None \<Rightarrow> Inr bs2
                     | Some layers \<Rightarrow>
                         if \<not> be_layers_cached e name tag then Inl CacheBase
                         else add_base_layers e ref layers bs2))))"

section \<open>RUN\<close>

definition step_number :: "build_state \<Rightarrow> nat" where
  "step_number bs = length (cf_history (bs_config bs)) + 2"

definition command_text :: "string list \<Rightarrow> string" where
  "command_text args = str_join '' '' (case get_exec_form args of Some parsed \<Rightarrow> parsed | None \<Rightarrow> args)"

definition default_shell :: "string list \<Rightarrow> string list" where
  "default_shell shell = (if shell = [] then [''/bin/sh'', ''-c''] else shell)"

text \<open>A shell that the rootfs does not have is replaced by the first candidate it has.\<close>

definition resolve_shell :: "build_env \<Rightarrow> string \<Rightarrow> string list \<Rightarrow> string list" where
  "resolve_shell e merged shell0 =
     (let shell = default_shell shell0 in
      if be_missing e (path_join [merged, hd shell]) then
        (case find (\<lambda>cand. be_exists e (path_join [merged, cand]))
                [''/bin/sh'', ''/usr/bin/sh'', ''/bin/bash'', ''/usr/bin/bash'', ''/bin/dash'', ''/usr/bin/dash''] of
           None \<Rightarrow> shell | Some cand \<Rightarrow> [cand, ''-c''])
      else shell)"

definition run_argv :: "build_env \<Rightarrow> string \<Rightarrow> string \<Rightarrow> string \<Rightarrow> string list" where
  "run_argv e merged shell cmd =
     (if be_exists e merged
      then [''unshare'', ''--fork'', ''--pid'', ''--mount'', ''--ipc'', ''--uts'', ''--'', ''chroot'', merged, shell, ''-c'', cmd]
      else [shell, ''-c'', cmd])"

definition handle_run ::
  "build_env \<Rightarrow> string list \<Rightarrow> string \<Rightarrow> string list \<Rightarrow> build_state \<Rightarrow> build_err + build_state" where
  "handle_run e run_env build_tmp args bs =
     (let cmd = command_text args;
          run_id = ''run_'' @ nat_str (step_number bs);
          upper = path_join [build_tmp, run_id, ''upper''];
          merged = path_join [build_tmp, run_id, ''merged''] in
      if \<not> be_mount e (bs_lower bs) merged then Inl MountFailed
      else
        let shell = resolve_shell e merged (ic_shell (cf_config (bs_config bs)));
            env = build_environment run_env (ic_env (cf_config (bs_config bs))) in
        if \<not> be_exec e (run_argv e merged (hd shell) cmd) env then Inl RunFailed
        else case be_layer e upper of
          None \<Rightarrow> Inl LayerError
        | Some (digest, sz) \<Rightarrow>
            let bs1 = add_layer \<lparr>bl_digest = digest, bl_size = sz, bl_command = cmd\<rparr> bs;
                idx = Suc (bs_stack_idx bs1);
                new_rootfs = path_join [build_tmp, ''rootfs_'' @ nat_str idx] in
            if \<not> be_extract e digest new_rootfs then Inl ExtractFailed
            else if \<not> be_extract e digest (bs_rootfs bs1) then Inl ExtractFailed
            else Inr (written (bs_rootfs bs1) (written new_rootfs
                   (bs1\<lparr>bs_stack_idx := idx, bs_lower := bs_rootfs bs1 @ '':'' @ new_rootfs\<rparr>))))"

section \<open>COPY and ADD\<close>

text \<open>The flags in front; the rest are sources and a destination.\<close>

fun copy_flags :: "string \<Rightarrow> string \<Rightarrow> string list \<Rightarrow> string \<times> string \<times> string list" where
  "copy_flags chown from [] = (chown, from, [])"
| "copy_flags chown from (a # args) =
     (if has_prefix a ''--'' then
        (if has_prefix a ''--chown='' then copy_flags (trim_prefix a ''--chown='') from args
         else if has_prefix a ''--from='' then copy_flags chown (trim_prefix a ''--from='') args
         else copy_flags chown from args)
      else (chown, from, a # args))"

definition copy_source :: "build_env \<Rightarrow> build_state \<Rightarrow> string \<Rightarrow> string \<Rightarrow> build_err + string" where
  "copy_source e bs from src =
     (if from \<noteq> [] then
        (case map_of (bs_stages bs) from of
           None \<Rightarrow> Inl (StageNotFound from)
         | Some st \<Rightarrow>
             (case safe_build_destination (be_fs e) (ss_rootfs st) src of
                Inl err \<Rightarrow> Inl (PathErr err) | Inr p \<Rightarrow> Inr p))
      else
        (case safe_build_source (be_fs e) (be_context e) src of
           Inl err \<Rightarrow> Inl (PathErr err) | Inr p \<Rightarrow> Inr p))"

fun copy_sources ::
  "build_env \<Rightarrow> string \<Rightarrow> string \<Rightarrow> string \<Rightarrow> string list \<Rightarrow> build_state \<Rightarrow> build_err + build_state" where
  "copy_sources e from dst_path copy_dir [] bs = Inr bs"
| "copy_sources e from dst_path copy_dir (src # srcs) bs =
     (case copy_source e bs from src of
        Inl err \<Rightarrow> Inl err
      | Inr sp \<Rightarrow>
          let dest = path_join [dst_path, path_base src]; cache = path_join [copy_dir, path_base src] in
          if \<not> be_copy e sp dest then Inl (CopyFailed src)
          else if \<not> be_copy e sp cache then Inl (CopyFailed src)
          else copy_sources e from dst_path copy_dir srcs (written cache (written dest bs)))"

definition chown_ok :: "build_env \<Rightarrow> string \<Rightarrow> string \<Rightarrow> string list \<Rightarrow> bool" where
  "chown_ok e chown dst_path srcs \<longleftrightarrow>
     chown = [] \<or> list_all (\<lambda>src. be_exec e [''chown'', ''-R'', chown, path_join [dst_path, path_base src]] []) srcs"

definition handle_copy ::
  "build_env \<Rightarrow> string \<Rightarrow> string list \<Rightarrow> build_state \<Rightarrow> build_err + build_state" where
  "handle_copy e build_tmp args0 bs =
     (case copy_flags [] [] args0 of (chown, from, args) \<Rightarrow>
        if length args < 2 then Inl CopyArgs
        else
          let srcs = butlast args; dst = last args in
          (case safe_build_destination (be_fs e) (bs_rootfs bs) dst of
             Inl err \<Rightarrow> Inl (PathErr err)
           | Inr dst_path \<Rightarrow>
               if \<not> be_mkdir e dst_path then Inl MkdirFailed
               else
                 let copy_dir = path_join [build_tmp, ''copy_'' @ nat_str (step_number bs)] in
                 (case copy_sources e from dst_path copy_dir srcs (written dst_path bs) of
                    Inl err \<Rightarrow> Inl err
                  | Inr bs1 \<Rightarrow>
                      if \<not> chown_ok e chown dst_path srcs then Inl ChownFailed
                      else case be_layer e copy_dir of
                        None \<Rightarrow> Inl LayerError
                      | Some (digest, sz) \<Rightarrow>
                          Inr ((add_layer \<lparr>bl_digest = digest, bl_size = sz,
                                  bl_command = ''COPY ['' @ str_join '' '' srcs @ ''] '' @ dst\<rparr> bs1)
                               \<lparr>bs_stack_idx := Suc (bs_stack_idx bs1)\<rparr>))))"

section \<open>Configuration instructions\<close>

definition handle_workdir :: "string list \<Rightarrow> build_state \<Rightarrow> build_state" where
  "handle_workdir args bs =
     (let dir0 = str_join '' '' args;
          wd = ic_working_dir (cf_config (bs_config bs));
          dir = (if \<not> is_abs dir0 \<and> wd \<noteq> [] then path_join [wd, dir0] else dir0) in
      written (path_join [bs_rootfs bs, dir]) (map_inner (\<lambda>c. c\<lparr>ic_working_dir := dir\<rparr>) bs))"

definition env_entries :: "string list \<Rightarrow> string list" where
  "env_entries args =
     (case args of
        k # v # rest \<Rightarrow>
          if \<not> str_contains k ''='' then [k @ ''='' @ v] else filter (\<lambda>a. str_contains a ''='') args
      | _ \<Rightarrow> filter (\<lambda>a. str_contains a ''='') args)"

definition handle_env :: "string list \<Rightarrow> build_state \<Rightarrow> build_state" where
  "handle_env args bs = map_inner (\<lambda>c. c\<lparr>ic_env := ic_env c @ env_entries args\<rparr>) bs"

definition handle_cmd :: "instruction \<Rightarrow> build_state \<Rightarrow> build_state" where
  "handle_cmd inst bs =
     map_inner (\<lambda>c. c\<lparr>ic_cmd :=
       (if str_contains (in_raw inst) ''CMD ['' then in_args inst
        else case get_exec_form (in_args inst) of
          Some parsed \<Rightarrow> parsed
        | None \<Rightarrow> default_shell (ic_shell c) @ [str_join '' '' (in_args inst)])\<rparr>) bs"

definition handle_entrypoint :: "instruction \<Rightarrow> build_state \<Rightarrow> build_state" where
  "handle_entrypoint inst bs =
     map_inner (\<lambda>c. c\<lparr>ic_entrypoint :=
       (if in_args inst = [] then []
        else if str_contains (in_raw inst) ''ENTRYPOINT ['' then in_args inst
        else case get_exec_form (in_args inst) of
          Some parsed \<Rightarrow> parsed
        | None \<Rightarrow> [''/bin/sh'', ''-c'', str_join '' '' (in_args inst)])\<rparr>) bs"

definition handle_expose :: "string list \<Rightarrow> build_state \<Rightarrow> build_state" where
  "handle_expose args bs =
     map_inner (\<lambda>c. c\<lparr>ic_exposed :=
       fold (\<lambda>p. aput (if str_contains p ''/'' then p else p @ ''/tcp'') ()) args (ic_exposed c)\<rparr>) bs"

definition put_label :: "string \<Rightarrow> (string \<times> string) list \<Rightarrow> (string \<times> string) list" where
  "put_label a ls = (case splitn_byte 2 (CHR ''='') a of [k, v] \<Rightarrow> aput k v ls | _ \<Rightarrow> ls)"

definition handle_label :: "string list \<Rightarrow> build_state \<Rightarrow> build_state" where
  "handle_label args bs = map_inner (\<lambda>c. c\<lparr>ic_labels := fold put_label args (ic_labels c)\<rparr>) bs"

definition handle_user :: "string list \<Rightarrow> build_state \<Rightarrow> build_state" where
  "handle_user args bs = map_inner (\<lambda>c. c\<lparr>ic_user := str_join '' '' args\<rparr>) bs"

definition handle_volume :: "string list \<Rightarrow> build_state \<Rightarrow> build_state" where
  "handle_volume args bs =
     map_inner (\<lambda>c. c\<lparr>ic_volumes :=
       fold (\<lambda>v. aput (trim_bytes v {CHR 0x22, CHR 0x27}) ()) args (ic_volumes c)\<rparr>) bs"

definition handle_shell :: "string list \<Rightarrow> build_state \<Rightarrow> build_state" where
  "handle_shell args bs =
     (case get_exec_form args of
        Some parsed \<Rightarrow> map_inner (\<lambda>c. c\<lparr>ic_shell := parsed\<rparr>) bs | None \<Rightarrow> bs)"

definition handle_stop_signal :: "string list \<Rightarrow> build_state \<Rightarrow> build_state" where
  "handle_stop_signal args bs = map_inner (\<lambda>c. c\<lparr>ic_stop_signal := str_join '' '' args\<rparr>) bs"

text \<open>
  The options of \<open>HEALTHCHECK\<close>. After \<open>NONE\<close> the configuration is nil and any further option
  with a value dereferences it.
\<close>

definition new_health :: health_config where
  "new_health = \<lparr>hcfg_test = [], hcfg_interval = [], hcfg_timeout = [], hcfg_retries = 0, hcfg_start_period = []\<rparr>"

definition with_health :: "health_config option \<Rightarrow> (health_config \<Rightarrow> health_config) \<Rightarrow> build_err + health_config option" where
  "with_health hc f = (case hc of None \<Rightarrow> Inl HealthPanics | Some h \<Rightarrow> Inr (Some (f h)))"

definition health_option ::
  "string \<Rightarrow> string \<Rightarrow> health_config option \<Rightarrow> build_err + health_config option" where
  "health_option flag v hc =
     (if flag = ''--INTERVAL'' then with_health hc (\<lambda>h. h\<lparr>hcfg_interval := v\<rparr>)
      else if flag = ''--TIMEOUT'' then with_health hc (\<lambda>h. h\<lparr>hcfg_timeout := v\<rparr>)
      else if flag = ''--RETRIES'' then
        (case hc of
           None \<Rightarrow> Inl HealthPanics
         | Some h \<Rightarrow> (case scan_int v of None \<Rightarrow> Inl (BadRetries v) | Some n \<Rightarrow> Inr (Some (h\<lparr>hcfg_retries := n\<rparr>))))
      else with_health hc (\<lambda>h. h\<lparr>hcfg_start_period := v\<rparr>))"

definition health_flags :: "string list" where
  "health_flags = [''--INTERVAL'', ''--TIMEOUT'', ''--RETRIES'', ''--START-PERIOD'']"

fun health_args ::
  "string list \<Rightarrow> health_config option \<Rightarrow> build_err + health_config option" where
  "health_args [] hc = Inr hc"
| "health_args [a] hc =
     (if to_upper a \<in> set health_flags then Inr hc
      else if to_upper a = ''NONE'' then Inr None
      else with_health hc (\<lambda>h. h\<lparr>hcfg_test := [a]\<rparr>))"
| "health_args (a # b # rest) hc =
     (if to_upper a \<in> set health_flags then
        (case health_option (to_upper a) b hc of Inl err \<Rightarrow> Inl err | Inr hc' \<Rightarrow> health_args rest hc')
      else if to_upper a = ''NONE'' then health_args (b # rest) None
      else with_health hc (\<lambda>h. h\<lparr>hcfg_test := a # b # rest\<rparr>))"

definition handle_healthcheck :: "string list \<Rightarrow> build_state \<Rightarrow> build_err + build_state" where
  "handle_healthcheck args bs =
     (if args = [] then Inr (map_inner (\<lambda>c. c\<lparr>ic_healthcheck := None\<rparr>) bs)
      else case health_args args (Some new_health) of
        Inl err \<Rightarrow> Inl err
      | Inr None \<Rightarrow> Inr bs
      | Inr (Some h) \<Rightarrow> Inr (map_inner (\<lambda>c. c\<lparr>ic_healthcheck := Some h\<rparr>) bs))"

definition handle_maintainer :: "string list \<Rightarrow> build_state \<Rightarrow> build_state" where
  "handle_maintainer args bs = bs\<lparr>bs_config := (bs_config bs)\<lparr>cf_author := str_join '' '' args\<rparr>\<rparr>"

section \<open>The build\<close>

definition build_step ::
  "build_env \<Rightarrow> string list \<Rightarrow> string \<Rightarrow> instruction \<Rightarrow> build_state \<times> (string \<times> string) list
    \<Rightarrow> build_err + build_state \<times> (string \<times> string) list" where
  "build_step e run_env tmp inst0 st =
     (case st of (bs, build_args) \<Rightarrow>
       let inst = inst0\<lparr>in_args := substitute_args (in_args inst0) build_args\<rparr>;
           args = in_args inst;
           keep = (\<lambda>r. case r of Inl err \<Rightarrow> Inl err | Inr b \<Rightarrow> Inr (b, build_args)) in
       case in_type inst of
         From \<Rightarrow> keep (handle_from e args bs)
       | Run \<Rightarrow> keep (handle_run e run_env tmp args bs)
       | Copy \<Rightarrow> keep (handle_copy e tmp args bs)
       | Add \<Rightarrow> keep (handle_copy e tmp args bs)
       | Workdir \<Rightarrow> Inr (handle_workdir args bs, build_args)
       | Env \<Rightarrow> Inr (handle_env args bs, build_args)
       | Cmd \<Rightarrow> Inr (handle_cmd inst bs, build_args)
       | Entrypoint \<Rightarrow> Inr (handle_entrypoint inst bs, build_args)
       | Expose \<Rightarrow> Inr (handle_expose args bs, build_args)
       | Label \<Rightarrow> Inr (handle_label args bs, build_args)
       | User \<Rightarrow> Inr (handle_user args bs, build_args)
       | Volume \<Rightarrow> Inr (handle_volume args bs, build_args)
       | Shell \<Rightarrow> Inr (handle_shell args bs, build_args)
       | Arg \<Rightarrow> Inr (bs, handle_arg args build_args)
       | StopSignal \<Rightarrow> Inr (handle_stop_signal args bs, build_args)
       | Healthcheck \<Rightarrow> keep (handle_healthcheck args bs)
       | Maintainer \<Rightarrow> Inr (handle_maintainer args bs, build_args)
       | OnBuild \<Rightarrow> Inr (bs, build_args))"

definition record_history :: "string \<Rightarrow> build_state \<Rightarrow> build_state" where
  "record_history raw bs = bs\<lparr>bs_config := (bs_config bs)\<lparr>cf_history := cf_history (bs_config bs) @ [raw]\<rparr>\<rparr>"

fun build_loop ::
  "build_env \<Rightarrow> string list \<Rightarrow> string \<Rightarrow> instruction list \<Rightarrow> build_state \<times> (string \<times> string) list
    \<Rightarrow> build_err + build_state" where
  "build_loop e run_env tmp [] st = Inr (fst st)"
| "build_loop e run_env tmp (inst # insts) st =
     (case build_step e run_env tmp inst st of
        Inl err \<Rightarrow> Inl err
      | Inr (bs, build_args) \<Rightarrow>
          build_loop e run_env tmp insts (record_history (in_raw inst) bs, build_args))"

text \<open>
  What \<open>finalize\<close> writes: the image's name and tag, the configuration, the digests of its
  manifest, and its rootfs.
\<close>

record built_image =
  bi_name :: string
  bi_tag :: string
  bi_config :: image_config
  bi_manifest :: "(string \<times> int) list"
  bi_rootfs :: string

definition finalize_build :: "build_env \<Rightarrow> string \<Rightarrow> string \<Rightarrow> build_state \<Rightarrow> build_err + built_image" where
  "finalize_build e name0 tag0 bs =
     (let tag = (if tag0 = [] then ''latest'' else tag0);
          name = (if str_contains name0 ''/'' then name0 else ''library/'' @ name0);
          img_dir = image_dir (be_hash e) (be_data_dir e) name tag;
          rootfs = image_rootfs_dir (be_hash e) (be_data_dir e) name tag in
      if \<not> be_mkdir e img_dir then Inl MkdirFailed
      else if \<not> list_all (\<lambda>l. be_resolve e (bl_digest l)) (bs_layers bs) then Inl LayerNotCached
      else if \<not> be_write e (path_join [img_dir, ''config.json'']) then Inl WriteFailed
      else if \<not> be_write e (path_join [img_dir, ''manifest.json'']) then Inl WriteFailed
      else if \<not> list_all (\<lambda>l. be_extract e (bl_digest l) rootfs) (bs_layers bs) then Inl ExtractFailed
      else if \<not> be_write e (path_join [img_dir, ''image.json'']) then Inl WriteFailed
      else Inr \<lparr>bi_name = name, bi_tag = tag, bi_config = bs_config bs,
             bi_manifest = map (\<lambda>l. (bl_digest l, bl_size l)) (bs_layers bs), bi_rootfs = rootfs\<rparr>)"

definition build_image ::
  "build_env \<Rightarrow> (string \<times> string) list \<Rightarrow> string \<Rightarrow> string \<Rightarrow> string \<Rightarrow> build_err + built_image" where
  "build_image e build_args name tag dockerfile =
     (case parse_instructions dockerfile of
        Inl err \<Rightarrow> Inl (ParseFailed err)
      | Inr [] \<Rightarrow> Inl NoInstructions
      | Inr (inst # insts) \<Rightarrow>
          if in_type inst \<noteq> From then Inl FirstNotFrom
          else case build_loop e (map (\<lambda>(k, v). k @ ''='' @ v) build_args)
                  (path_join [be_data_dir e, ''build'']) (inst # insts) (new_build, build_args) of
            Inl err \<Rightarrow> Inl err
          | Inr bs \<Rightarrow> finalize_build e name tag bs)"

end
