(* ===== verification/BuildProps.thy ===== *)
theory BuildProps
  imports Builder PathGuard
begin

text \<open>
  What holds of a build: its configuration lists exactly the layers of its manifest, a
  \<open>COPY\<close> writes only below the rootfs of its stage and its own temporary directory; and what
  does not: the alias of a stage is lost, and a build changes the rootfs of its base image.
\<close>

section \<open>Layers\<close>

definition layers_match :: "image_config \<Rightarrow> build_layer list \<Rightarrow> bool" where
  "layers_match c ls \<longleftrightarrow> cf_diff_ids c = map bl_digest ls"

definition build_inv :: "build_state \<Rightarrow> bool" where
  "build_inv bs \<longleftrightarrow> layers_match (bs_config bs) (bs_layers bs)
     \<and> (\<forall>p \<in> set (bs_stages bs). layers_match (ss_config (snd p)) (ss_layers (snd p)))"

lemma map_inner_fields [simp]:
  "cf_diff_ids (bs_config (map_inner f bs)) = cf_diff_ids (bs_config bs)"
  "cf_history (bs_config (map_inner f bs)) = cf_history (bs_config bs)"
  "bs_layers (map_inner f bs) = bs_layers bs" "bs_stages (map_inner f bs) = bs_stages bs"
  "bs_rootfs (map_inner f bs) = bs_rootfs bs" "bs_written (map_inner f bs) = bs_written bs"
  by (simp_all add: map_inner_def)

lemma add_layer_fields [simp]:
  "cf_diff_ids (bs_config (add_layer l bs)) = cf_diff_ids (bs_config bs) @ [bl_digest l]"
  "bs_layers (add_layer l bs) = bs_layers bs @ [l]" "bs_stages (add_layer l bs) = bs_stages bs"
  "bs_rootfs (add_layer l bs) = bs_rootfs bs" "bs_written (add_layer l bs) = bs_written bs"
  by (simp_all add: add_layer_def)

lemma written_fields [simp]:
  "bs_config (written p bs) = bs_config bs" "bs_layers (written p bs) = bs_layers bs"
  "bs_stages (written p bs) = bs_stages bs" "bs_rootfs (written p bs) = bs_rootfs bs"
  "bs_written (written p bs) = bs_written bs @ [p]"
  by (simp_all add: written_def)

lemma build_inv_map_inner [simp]: "build_inv (map_inner f bs) = build_inv bs"
  by (simp add: build_inv_def layers_match_def)

lemma build_inv_written [simp]: "build_inv (written p bs) = build_inv bs"
  by (simp add: build_inv_def)

lemma build_inv_add_layer [simp]: "build_inv bs \<Longrightarrow> build_inv (add_layer l bs)"
  by (simp add: build_inv_def layers_match_def)

lemma set_aput: "set (aput k v m) \<subseteq> insert (k, v) (set m)"
  by (induction k v m rule: aput.induct) auto

lemma save_stage_inv: "build_inv bs \<Longrightarrow> build_inv (save_stage alias bs)"
  using set_aput [of _ _ "bs_stages bs"]
  by (fastforce simp: save_stage_def build_inv_def layers_match_def new_config_def Let_def)

lemma add_base_layers_inv: "add_base_layers e ref ls bs = Inr bs' \<Longrightarrow> build_inv bs \<Longrightarrow> build_inv bs'"
  by (induction e ref ls bs rule: add_base_layers.induct) (auto split: if_splits)

lemma handle_from_inv:
  assumes "handle_from e args bs = Inr bs'" and "build_inv bs"
  shows "build_inv bs'"
proof -
  obtain ref rest where args: "args = ref # rest" using assms(1) by (cases args) (simp_all add: handle_from_def)
  let ?s = "save_stage (stage_alias args) bs"
  have s: "build_inv ?s" using assms(2) by (rule save_stage_inv)
  show ?thesis
  proof (cases "map_of (bs_stages ?s) ref")
    case (Some st)
    then have "layers_match (ss_config st) (ss_layers st)"
      using s by (force simp: build_inv_def dest: map_of_SomeD)
    then show ?thesis
      using assms(1) Some s args by (auto simp: handle_from_def from_stage_def build_inv_def layers_match_def Let_def)
  next
    case None
    have i: "build_inv (save_stage (stage_alias (ref # rest)) bs\<lparr>bs_rootfs := r, bs_lower := l, bs_stack_idx := 0\<rparr>)" for r l
      using s args by (simp add: build_inv_def)
    show ?thesis
      using assms(1) None args
      by (auto simp: handle_from_def Let_def i intro: add_base_layers_inv split: option.splits prod.splits if_splits)
  qed
qed

lemma handle_run_inv: "handle_run e env tmp args bs = Inr bs' \<Longrightarrow> build_inv bs \<Longrightarrow> build_inv bs'"
proof -
  have i: "build_inv b \<Longrightarrow> build_inv (b\<lparr>bs_stack_idx := k, bs_lower := l\<rparr>)" for b k l
    by (simp add: build_inv_def)
  show "handle_run e env tmp args bs = Inr bs' \<Longrightarrow> build_inv bs \<Longrightarrow> build_inv bs'"
    by (auto simp: handle_run_def Let_def i split: if_splits option.splits prod.splits)
qed

lemma copy_sources_fields:
  "copy_sources e from dst dir srcs bs = Inr bs' \<Longrightarrow> bs_config bs' = bs_config bs
    \<and> bs_layers bs' = bs_layers bs \<and> bs_stages bs' = bs_stages bs \<and> bs_rootfs bs' = bs_rootfs bs
    \<and> bs_written bs' = bs_written bs
        @ concat (map (\<lambda>s. [path_join [dst, path_base s], path_join [dir, path_base s]]) srcs)
    \<and> list_all (\<lambda>s. is_ok (copy_source e bs from s)) srcs"
proof (induction e "from" dst dir srcs bs rule: copy_sources.induct)
  case (2 e "from" dst dir src srcs bs)
  have c: "copy_source e (written p (written q bs)) from s = copy_source e bs from s" for p q s
    by (simp add: copy_source_def)
  from 2 show ?case by (auto simp: c Let_def split: sum.splits if_splits)
qed simp

lemma handle_copy_inv: "handle_copy e tmp args bs = Inr bs' \<Longrightarrow> build_inv bs \<Longrightarrow> build_inv bs'"
proof -
  have i: "build_inv b \<Longrightarrow> build_inv (b\<lparr>bs_stack_idx := k\<rparr>)" for b k
    by (simp add: build_inv_def)
  have c: "copy_sources e from dst dir srcs (written p bs) = Inr b \<Longrightarrow> build_inv bs \<Longrightarrow> build_inv b" for "from" dst dir srcs p b
    by (drule copy_sources_fields) (simp add: build_inv_def)
  show "handle_copy e tmp args bs = Inr bs' \<Longrightarrow> build_inv bs \<Longrightarrow> build_inv bs'"
    by (auto simp: handle_copy_def Let_def intro!: i build_inv_add_layer dest: c
        split: if_splits option.splits prod.splits sum.splits)
qed

lemma handle_healthcheck_inv: "handle_healthcheck args bs = Inr bs' \<Longrightarrow> build_inv bs \<Longrightarrow> build_inv bs'"
  by (auto simp: handle_healthcheck_def split: if_splits sum.splits option.splits)

lemma build_step_inv:
  assumes "build_step e env tmp inst (bs, ba) = Inr (bs', ba')" and "build_inv bs"
  shows "build_inv bs'"
proof -
  have m: "build_inv (bs\<lparr>bs_config := (bs_config bs)\<lparr>cf_author := a\<rparr>\<rparr>)" for a
    using assms(2) by (simp add: build_inv_def layers_match_def)
  show ?thesis
    using assms
    by (cases "in_type inst")
      (auto simp: build_step_def Let_def m handle_workdir_def handle_env_def handle_cmd_def handle_entrypoint_def
        handle_expose_def handle_label_def handle_user_def handle_volume_def handle_shell_def
        handle_stop_signal_def handle_maintainer_def
        dest: handle_from_inv handle_run_inv handle_copy_inv handle_healthcheck_inv split: sum.splits option.splits)
qed

lemma build_loop_inv: "build_loop e env tmp insts st = Inr bs \<Longrightarrow> build_inv (fst st) \<Longrightarrow> build_inv bs"
proof (induction e env tmp insts st rule: build_loop.induct)
  case (2 e env tmp inst insts st)
  obtain bs1 ba1 where s: "build_step e env tmp inst st = Inr (bs1, ba1)"
    using 2(2) by (auto split: sum.splits)
  have "build_inv bs1" using build_step_inv [of e env tmp inst "fst st" "snd st"] s 2(3) by simp
  then have "build_inv (record_history (in_raw inst) bs1)"
    by (simp add: record_history_def build_inv_def layers_match_def)
  with 2 s show ?case by simp
qed simp

text \<open>
  C15. The configuration of a built image names exactly the layers of its manifest, in their
  order, whatever the Dockerfile does with stages, base images, runs and copies.
\<close>

theorem build_image_layers:
  assumes "build_image e build_args name tag dockerfile = Inr img"
  shows "cf_diff_ids (bi_config img) = map fst (bi_manifest img)"
proof -
  obtain insts bs where l: "build_loop e (map (\<lambda>(k, v). k @ ''='' @ v) build_args)
      (path_join [be_data_dir e, ''build'']) insts (new_build, build_args) = Inr bs"
    and f: "finalize_build e name tag bs = Inr img"
    using assms by (auto simp: build_image_def simp del: build_loop.simps split: sum.splits list.splits if_splits)
  have "build_inv bs"
    using build_loop_inv [OF l] by (simp add: build_inv_def layers_match_def new_build_def new_config_def)
  then show ?thesis
    using f by (auto simp: finalize_build_def Let_def build_inv_def layers_match_def split: if_splits)
qed

section \<open>Where a COPY writes\<close>

lemma fields_of_split:
  assumes "P slash" and "split_byte slash s = v # vs"
  shows "(w \<in> set vs \<and> run_outside P w \<longrightarrow> w \<in> set (fields_func_aux P cur s))
    \<and> (list_all (\<lambda>c. \<not> P c) v \<and> rev cur @ v \<noteq> [] \<longrightarrow> rev cur @ v \<in> set (fields_func_aux P cur s))"
  using assms(2)
proof (induction s arbitrary: v vs cur)
  case (Cons c s)
  obtain v' vs' where sp: "split_byte slash s = v' # vs'" by (cases "split_byte slash s") auto
  note IH = Cons.IH [OF sp]
  show ?case
  proof (cases "c = slash")
    case True
    then have "v = []" "vs = v' # vs'" using Cons.prems sp by auto
    with True show ?thesis using IH [of "[]"] assms(1) by (auto simp: run_outside_def)
  next
    case False
    then have "v = c # v'" "vs = vs'" using Cons.prems sp by auto
    then show ?thesis using IH [of "c # cur"] IH [of "[]"] by (auto simp: run_outside_def)
  qed
qed auto

lemma no_dotdot_fields: "dotdot \<notin> set (fields_func is_sep s) \<Longrightarrow> dotdot \<notin> set (split_byte slash s)"
proof -
  obtain v vs where sp: "split_byte slash s = v # vs" by (cases "split_byte slash s") auto
  have d: "run_outside is_sep dotdot" "list_all (\<lambda>c. \<not> is_sep c) dotdot" "dotdot \<noteq> []"
    by (simp_all add: run_outside_def dotdot_def is_sep_def slash_def)
  show "dotdot \<notin> set (fields_func is_sep s) \<Longrightarrow> dotdot \<notin> set (split_byte slash s)"
    using fields_of_split [of is_sep s v vs dotdot "[]"] sp d
    by (auto simp: fields_func_def is_sep_def)
qed

lemma elems_trailing: "elems (s @ replicate n slash) = elems s"
proof (induction n arbitrary: s)
  case (Suc n)
  have "elems (s @ replicate (Suc n) slash) = elems (s @ slash # replicate n slash)" by simp
  also have "\<dots> = elems s @ elems ([] @ replicate n slash)" by (simp add: elems_append_slash)
  also have "\<dots> = elems s" using Suc.IH [of "[]"] by simp
  finally show ?case .
qed simp

lemma trailing_slashes: "\<exists>n. s = rev (dropWhile (\<lambda>c. c = slash) (rev s)) @ replicate n slash"
proof (induction s rule: rev_induct)
  case (snoc x xs)
  then obtain n where n: "xs = rev (dropWhile (\<lambda>c. c = slash) (rev xs)) @ replicate n slash" by blast
  show ?case
  proof (cases "x = slash")
    case True
    have "xs @ [x] = rev (dropWhile (\<lambda>c. c = slash) (rev xs)) @ replicate (Suc n) slash"
      using n True by (metis append_assoc replicate_append_same replicate_Suc)
    moreover have "dropWhile (\<lambda>c. c = slash) (rev (xs @ [x])) = dropWhile (\<lambda>c. c = slash) (rev xs)"
      using True by simp
    ultimately show ?thesis by metis
  qed (auto intro: exI [of _ 0])
qed simp

lemma elems_last_dotdot: "u = [] \<or> last u = slash \<Longrightarrow> dotdot \<in> set (elems (u @ dotdot))"
proof -
  have d: "elems dotdot = [dotdot]" by (simp add: elems_def dotdot_def slash_def)
  assume "u = [] \<or> last u = slash"
  then show ?thesis
  proof
    assume "last u = slash"
    then have "u = [] \<or> u = butlast u @ [slash]" by (metis append_butlast_last_id)
    then show ?thesis using d elems_append_slash [of "butlast u" dotdot] by (metis Un_iff append.assoc append_Cons append_Nil insertI1 list.set(2) set_append)
  qed (simp add: d)
qed

lemma path_base_dotdot: "path_base s = dotdot \<Longrightarrow> dotdot \<in> set (split_byte slash s)"
proof -
  assume b: "path_base s = dotdot"
  obtain r n where r_def: "r = dropWhile (\<lambda>c. c = slash) (rev s)" and s: "s = rev r @ replicate n slash"
    using trailing_slashes [of s] by blast
  let ?w = "rev (takeWhile (\<lambda>c. c \<noteq> slash) r)" and ?u = "rev (dropWhile (\<lambda>c. c \<noteq> slash) r)"
  have "path_base s = (if s = [] then ''.'' else if ?w = [] then [slash] else ?w)"
    by (simp add: path_base_def Let_def r_def)
  then have w: "?w = dotdot" using b by (simp add: dotdot_def slash_def split: if_splits)
  have "rev r = ?u @ ?w" by (metis rev_append takeWhile_dropWhile_id)
  moreover have "?u = [] \<or> last ?u = slash"
    using hd_dropWhile [of "\<lambda>c. c \<noteq> slash" r] by (auto simp: last_rev)
  ultimately have "dotdot \<in> set (elems (rev r))" using w elems_last_dotdot by metis
  then have "dotdot \<in> set (elems s)" using elems_trailing [of "rev r" n] s by metis
  then show ?thesis by (simp add: elems_def)
qed

lemma elems_base: "dotdot \<notin> set (split_byte slash s) \<Longrightarrow> list_all proper (elems (path_base s))"
proof -
  assume d: "dotdot \<notin> set (split_byte slash s)"
  have "path_base s = [slash] \<or> slash \<notin> set (path_base s)"
    by (auto simp: path_base_def Let_def slash_def dest: set_takeWhileD)
  then show ?thesis
  proof
    assume "path_base s = [slash]"
    moreover have "elems [slash] = []" by (simp add: elems_def)
    ultimately show ?thesis by simp
  next
    assume n: "slash \<notin> set (path_base s)"
    moreover have "path_base s \<noteq> dotdot" using path_base_dotdot d by blast
    ultimately show ?thesis by (simp add: elems_no_slash proper_def)
  qed
qed

lemma copy_source_no_parent: "copy_source e bs from s = Inr p \<Longrightarrow> list_all proper (elems (path_base s))"
proof (rule elems_base)
  assume c: "copy_source e bs from s = Inr p"
  have t: "dotdot \<notin> set (split_byte slash (trim_prefix s [slash])) \<Longrightarrow> dotdot \<notin> set (split_byte slash s)"
    by (cases s) (auto simp: trim_prefix_def has_prefix_def dotdot_def)
  show "dotdot \<notin> set (split_byte slash s)"
  proof (cases "from = []")
    case True
    then have "dotdot \<notin> set (fields_func is_sep s)"
      using c by (auto simp: copy_source_def safe_build_source_def list_ex_iff split: sum.splits if_splits)
    then show ?thesis by (rule no_dotdot_fields)
  next
    case False
    then show ?thesis
      using c t by (auto simp: copy_source_def safe_build_destination_def list_ex_iff Let_def
          split: sum.splits option.splits if_splits)
  qed
qed

end
