(* ===== verification/GoTrim.thy ===== *)
theory GoTrim
  imports GoStrings
begin

text \<open>
  Facts on trimming: visible ASCII characters are not white space, so a text that starts and ends
  with one is kept as it is.
\<close>

definition plain_char :: "char \<Rightarrow> bool" where
  "plain_char c \<longleftrightarrow> 33 \<le> (of_char c :: nat) \<and> (of_char c :: nat) \<le> 126"

lemma plain_char_code: "plain_char c \<Longrightarrow> (of_char c :: nat) < 128 \<and> \<not> ascii_space c"
  by (auto simp: plain_char_def ascii_space_def)

lemma wide_space_bytes: "w \<in> set wide_spaces \<Longrightarrow> w \<noteq> [] \<and> 128 \<le> (of_char (hd w) :: nat) \<and> 128 \<le> (of_char (last w) :: nat)"
  by (auto simp: wide_spaces_def)

lemma space_len_plain [simp]: "plain_char c \<Longrightarrow> space_len (c # s) = 0"
proof -
  assume c: "plain_char c"
  have "find (\<lambda>w. prefix w (c # s)) wide_spaces = None"
  proof (rule ccontr)
    assume "find (\<lambda>w. prefix w (c # s)) wide_spaces \<noteq> None"
    then obtain w where "w \<in> set wide_spaces" "prefix w (c # s)" by (auto dest: find_Some_conv)
    with wide_space_bytes [of w] plain_char_code [OF c] show False by (cases w) auto
  qed
  with plain_char_code [OF c] show ?thesis by (simp add: space_len.simps(2))
qed

lemma rspace_len_plain [simp]: "plain_char c \<Longrightarrow> rspace_len (c # s) = 0"
proof -
  assume c: "plain_char c"
  have "find (\<lambda>w. prefix (rev w) (c # s)) wide_spaces = None"
  proof (rule ccontr)
    assume "find (\<lambda>w. prefix (rev w) (c # s)) wide_spaces \<noteq> None"
    then obtain w where w: "w \<in> set wide_spaces" "prefix (rev w) (c # s)" by (auto dest: find_Some_conv)
    then have "last w = c" using wide_space_bytes [of w] by (cases w rule: rev_cases) auto
    with wide_space_bytes [of w] plain_char_code [OF c] w show False by auto
  qed
  with plain_char_code [OF c] show ?thesis by (simp add: rspace_len.simps(2))
qed

lemma space_len_space [simp]: "space_len (CHR '' '' # s) = 1"
  by (simp add: ascii_space_def space_len.simps(2))

lemma trim_left_plain [simp]: "plain_char c \<Longrightarrow> trim_left (c # s) = c # s"
  by (subst trim_left.simps) simp

lemma trim_left_space [simp]: "trim_left (CHR '' '' # s) = trim_left s"
  by (subst trim_left.simps) simp

lemma trim_right_plain [simp]: "plain_char c \<Longrightarrow> trim_right (s @ [c]) = s @ [c]"
  by (simp add: trim_right_def) (subst trim_left_rev.simps, simp)

lemma trim_right_ends: "s \<noteq> [] \<Longrightarrow> plain_char (last s) \<Longrightarrow> trim_right s = s"
  by (metis append_butlast_last_id trim_right_plain)

lemma trim_left_starts: "s \<noteq> [] \<Longrightarrow> plain_char (hd s) \<Longrightarrow> trim_left s = s"
  by (cases s) simp_all

lemma trim_space_ends: "s \<noteq> [] \<Longrightarrow> plain_char (hd s) \<Longrightarrow> plain_char (last s) \<Longrightarrow> trim_space s = s"
  by (simp add: trim_space_def trim_left_starts trim_right_ends)

lemma trim_plain_word: "w \<noteq> [] \<Longrightarrow> list_all plain_char w \<Longrightarrow> trim_space w = w"
  using hd_in_set [of w] last_in_set [of w] by (intro trim_space_ends) (auto simp: list_all_iff)

lemma hd_prefix: "s \<noteq> [] \<Longrightarrow> has_prefix s [c] \<longleftrightarrow> hd s = c"
  by (cases s) (auto simp: has_prefix_def)

lemma last_suffix: "s \<noteq> [] \<Longrightarrow> has_suffix s [c] \<longleftrightarrow> last s = c"
  by (cases s rule: rev_cases) (auto simp: has_suffix_def)

end
