(* ===== verification/VolumeProps.thy ===== *)
theory VolumeProps
  imports Volumes PathGuard BuildProps GoTrim
begin

text \<open>
  Facts on volumes: a mount stays below the container's rootfs, specifications are read back as
  they were written, and where the parsing of sizes wraps around.
\<close>

section \<open>Mount targets\<close>

lemma validated_target:
  "validate_container_target t = Inr () \<Longrightarrow> is_abs t \<and> path_clean t \<noteq> [slash] \<and> dotdot \<notin> set (split_byte slash t)"
  using no_dotdot_fields [of t]
  by (auto simp: validate_container_target_def list_ex_iff Let_def split: if_splits)

lemma safe_container_path_eq: "safe_container_path root t = Inr p \<Longrightarrow> p = path_join [root, trim_prefix t [slash]]"
  by (auto simp: safe_container_path_def Let_def split: if_splits)

lemma elems_trim_slash [simp]: "elems (trim_prefix t [slash]) = elems t"
  by (cases t) (auto simp: trim_prefix_def has_prefix_def)

lemma container_path_below:
  assumes "list_all proper rs" and "validate_container_target t = Inr ()" and "safe_container_path (abs_of rs) t = Inr p"
  shows "list_all proper (elems t) \<and> p = abs_of (rs @ elems t)"
proof -
  have "list_all proper (elems t)" using validated_target [OF assms(2)] no_dotdot_proper by blast
  then show ?thesis
    using safe_container_path_eq [OF assms(3)] path_join_abs_of_proper [OF assms(1), of "trim_prefix t [slash]"] by simp
qed

interpretation container_target: path_guard
  "\<lambda>root target. rbind (validate_container_target target) (\<lambda>_. safe_container_path root target)"
proof
  fix rs name p
  assume "list_all proper rs"
    and "rbind (validate_container_target name) (\<lambda>_. safe_container_path (abs_of rs) name) = Inr p"
  then show "\<exists>ws. list_all proper ws \<and> p = abs_of (rs @ ws)"
    using container_path_below [of rs name p] by (auto simp: res_simps)
qed

lemma path_rel_below:
  assumes "list_all proper rs" "list_all proper ws" "ws \<noteq> []"
  shows "path_rel (abs_of rs) (abs_of (rs @ ws)) = Some (str_join [slash] ws)"
proof -
  have "abs_of rs \<noteq> abs_of (rs @ ws)" using abs_of_inj [of rs "rs @ ws"] assms by auto
  then show ?thesis using assms by (simp add: path_rel_def strip_common_prefix)
qed

lemma reject_symlinks_none:
  "list_all proper rs \<Longrightarrow> list_all proper ws \<Longrightarrow> reject_symlinks fv (abs_of rs) ws = Inr ()
    \<Longrightarrow> 0 < k \<Longrightarrow> k \<le> length ws \<Longrightarrow> fv_lstat fv (abs_of (rs @ take k ws)) \<noteq> SymLink"
proof (induction ws arbitrary: rs k)
  case (Cons w ws)
  have j: "path_join [abs_of rs, w] = abs_of (rs @ [w])"
    using Cons.prems by (simp add: path_join_abs_of_proper)
  have r: "fv_lstat fv (abs_of (rs @ [w])) \<noteq> SymLink" "reject_symlinks fv (abs_of (rs @ [w])) ws = Inr ()"
    using Cons.prems(3) j by (auto simp: Let_def split: lstat.splits)
  show ?case
  proof (cases "k = 1")
    case True
    then show ?thesis using r(1) by simp
  next
    case False
    then have "fv_lstat fv (abs_of ((rs @ [w]) @ take (k - 1) ws)) \<noteq> SymLink"
      using Cons.prems r(2) by (intro Cons.IH) auto
    then show ?thesis using False Cons.prems by (cases k) auto
  qed
qed simp

lemma reject_ancestors_none:
  assumes "reject_symlink_ancestors fv (abs_of rs) (abs_of (rs @ ws)) = Inr ()"
    and "list_all proper rs" "list_all proper ws" "ws \<noteq> []"
  shows "\<forall>k. 0 < k \<and> k \<le> length ws \<longrightarrow> fv_lstat fv (abs_of (rs @ take k ws)) \<noteq> SymLink"
proof -
  have sp: "split_byte slash (str_join [slash] ws) = ws"
    using assms(3,4) by (intro split_join) (auto simp: list_all_iff proper_def)
  have "str_join [slash] ws \<noteq> ''.''"
  proof
    assume "str_join [slash] ws = ''.''"
    then have "ws = split_byte slash ''.''" using sp by simp
    then have "ws = [''.'']" by (simp add: slash_def)
    then show False using assms(3) by (simp add: proper_def)
  qed
  then have "reject_symlinks fv (abs_of rs) ws = Inr ()"
    using assms(1) path_rel_below [OF assms(2-4)] sp by (simp add: reject_symlink_ancestors_def split: if_splits)
  then show ?thesis using reject_symlinks_none [OF assms(2,3)] by blast
qed

lemma mount_target_facts:
  assumes "mount_target me (abs_of rs) spec = Inr t" and "list_all proper rs"
  shows "\<exists>ws. ws \<noteq> [] \<and> list_all proper ws \<and> t = abs_of (rs @ ws)
    \<and> (\<forall>k. 0 < k \<and> k \<le> length ws \<longrightarrow> fv_lstat (me_fs me) (abs_of (rs @ take k ws)) \<noteq> SymLink)"
proof -
  have v: "validate_container_target (vs_target spec) = Inr ()"
    and g: "safe_container_path (abs_of rs) (vs_target spec) = Inr t"
    and l: "reject_symlink_ancestors (me_fs me) (abs_of rs) t = Inr ()"
    using assms by (auto simp: mount_target_def res_simps split: if_splits)
  let ?ws = "elems (vs_target spec)"
  note b = container_path_below [OF assms(2) v g]
  have "path_clean (vs_target spec) = abs_of ?ws"
    using validated_target [OF v] b by (simp add: path_clean_abs)
  then have ne: "?ws \<noteq> []" using validated_target [OF v] by (auto simp: abs_of_Nil)
  have "\<forall>k. 0 < k \<and> k \<le> length ?ws \<longrightarrow> fv_lstat (me_fs me) (abs_of (rs @ take k ?ws)) \<noteq> SymLink"
    using l b assms(2) ne by (intro reject_ancestors_none) simp_all
  then show ?thesis using ne b by blast
qed

lemma mount_bind_source: "fst (mount_bind me ex spec t s) = Inr () \<Longrightarrow> \<exists>src. bind_source me spec = Inr src"
  by (auto simp: mount_bind_def split: sum.splits)

lemma bind_source_unprotected:
  "bind_source me spec = Inr src \<Longrightarrow> vs_type spec = Bind \<Longrightarrow> \<not> is_protected_host_path (me_fs me) (me_allowed me) src"
  by (auto simp: bind_source_def validate_bind_source_def split: if_splits option.splits)


definition sample_mount_env :: mount_env where
  "sample_mount_env =
     \<lparr>me_fs = \<lparr>fv_cwd = Some ''/'', fv_lstat = (\<lambda>p. NotThere), fv_eval = (\<lambda>p. Some p)\<rparr>,
      me_stat = (\<lambda>p. Some True), me_mkdir = (\<lambda>p. True), me_empty = (\<lambda>p. False), me_allowed = [''/srv''],
      me_volumes = ''/d/volumes''\<rparr>"

lemma sample_mount: "fst (mount_volume sample_mount_env (\<lambda>a s. (True, [], s)) (Some (spec_of Bind ''/srv/data'' ''/data'')) ''/d/c'' ()) = Inr ()"
proof -
  have v: "validate_container_target ''/data'' = Inr ()" by code_simp
  have t: "safe_container_path ''/d/c'' ''/data'' = Inr ''/d/c/data''" by code_simp
  have r: "path_rel ''/d/c'' ''/d/c/data'' = Some ''data''" by code_simp
  have e: "\<not> rel_escapes (Some ''data'')" by code_simp
  have s: "split_byte slash ''data'' = [''data'']" by code_simp
  have a: "path_abs (Some ''/'') ''/d/c'' = Some ''/d/c''" by code_simp
  have b: "path_abs (Some ''/'') ''/srv/data'' = Some ''/srv/data''" by code_simp
  have c: "path_clean ''/srv/data'' = ''/srv/data''" by code_simp
  have d: "at_or_below ''/srv/data'' ''/srv''" by code_simp
  have i: "is_abs ''/srv/data''" by code_simp
  have "reject_symlink_ancestors (me_fs sample_mount_env) ''/d/c'' ''/d/c/data'' = Inr ()"
    by (simp add: reject_symlink_ancestors_def r e s sample_mount_env_def)
  then have m: "mount_target sample_mount_env ''/d/c'' (spec_of Bind ''/srv/data'' ''/data'') = Inr ''/d/c/data''"
    by (simp add: mount_target_def v t a sample_mount_env_def spec_of_def)
  have bs: "bind_source sample_mount_env (spec_of Bind ''/srv/data'' ''/data'') = Inr ''/srv/data''"
    by (simp add: bind_source_def validate_bind_source_def is_protected_host_path_def sample_mount_env_def
        spec_of_def b c d i Let_def)
  have "vs_type (spec_of Bind ''/srv/data'' ''/data'') = Bind" by (simp add: spec_of_def)
  then show ?thesis
    by (simp add: mount_volume_def m mount_bind_def bs try_run_def run_def run_if_def Let_def)
qed


section \<open>Specifications\<close>

definition spec_options :: "volume_spec \<Rightarrow> string list" where
  "spec_options vs =
     (if vs_read_only vs then [''ro''] else [])
     @ (if vs_propagation vs = [] then [] else [vs_propagation vs])
     @ (if vs_selinux vs = [] then [] else [vs_selinux vs])
     @ (if vs_no_copy vs then [''nocopy''] else [])"

definition print_volume_spec :: "volume_spec \<Rightarrow> string" where
  "print_volume_spec vs =
     vs_source vs @ '':'' @ vs_target vs
     @ (if spec_options vs = [] then [] else '':'' @ str_join '','' (spec_options vs))"

definition plain_spec :: "volume_spec \<Rightarrow> bool" where
  "plain_spec vs \<longleftrightarrow>
     CHR '':'' \<notin> set (vs_source vs) \<and> CHR '':'' \<notin> set (vs_target vs)
     \<and> vs_source vs \<noteq> ''tmpfs'' \<and> vs_source vs \<noteq> ''nfs''
     \<and> vs_type vs = (if slash \<in> set (vs_source vs) \<or> backslash \<in> set (vs_source vs) then Bind else Named)
     \<and> vs_propagation vs \<in> {[], ''shared'', ''rshared'', ''slave'', ''rslave'', ''private'', ''rprivate''}
     \<and> vs_selinux vs \<in> {[], ''Z'', ''z''}
     \<and> vs_nfs_options vs = [] \<and> vs_tmpfs_size vs = [] \<and> vs_tmpfs_mode vs = 0"

lemma trim_words:
  "trim_space ''ro'' = ''ro''" "trim_space ''nocopy'' = ''nocopy''" "trim_space ''Z'' = ''Z''" "trim_space ''z'' = ''z''"
  "trim_space ''shared'' = ''shared''" "trim_space ''rshared'' = ''rshared''" "trim_space ''slave'' = ''slave''"
  "trim_space ''rslave'' = ''rslave''" "trim_space ''private'' = ''private''" "trim_space ''rprivate'' = ''rprivate''"
  by (rule trim_plain_word; simp add: plain_char_def)+

lemma apply_option_words:
  "apply_option ''ro'' vs = vs\<lparr>vs_read_only := True\<rparr>" "apply_option ''nocopy'' vs = vs\<lparr>vs_no_copy := True\<rparr>"
  "apply_option ''Z'' vs = vs\<lparr>vs_selinux := ''Z''\<rparr>" "apply_option ''z'' vs = vs\<lparr>vs_selinux := ''z''\<rparr>"
  "apply_option ''shared'' vs = vs\<lparr>vs_propagation := ''shared''\<rparr>"
  "apply_option ''rshared'' vs = vs\<lparr>vs_propagation := ''rshared''\<rparr>"
  "apply_option ''slave'' vs = vs\<lparr>vs_propagation := ''slave''\<rparr>"
  "apply_option ''rslave'' vs = vs\<lparr>vs_propagation := ''rslave''\<rparr>"
  "apply_option ''private'' vs = vs\<lparr>vs_propagation := ''private''\<rparr>"
  "apply_option ''rprivate'' vs = vs\<lparr>vs_propagation := ''rprivate''\<rparr>"
  unfolding apply_option_def Let_def trim_words by simp_all

lemma apply_propagation:
  "p \<in> {[], ''shared'', ''rshared'', ''slave'', ''rslave'', ''private'', ''rprivate''} \<Longrightarrow>
    fold apply_option (if p = [] then [] else [p]) vs = (if p = [] then vs else vs\<lparr>vs_propagation := p\<rparr>)"
  by (elim insertE emptyE) (simp_all add: apply_option_words)

lemma apply_selinux:
  "p \<in> {[], ''Z'', ''z''} \<Longrightarrow>
    fold apply_option (if p = [] then [] else [p]) vs = (if p = [] then vs else vs\<lparr>vs_selinux := p\<rparr>)"
  by (elim insertE emptyE) (simp_all add: apply_option_words)

lemma apply_spec_options:
  assumes "plain_spec vs"
  shows "fold apply_option (spec_options vs) (spec_of Bind (vs_source vs) (vs_target vs)) = vs\<lparr>vs_type := Bind\<rparr>"
proof -
  have p: "vs_propagation vs \<in> {[], ''shared'', ''rshared'', ''slave'', ''rslave'', ''private'', ''rprivate''}"
    and q: "vs_selinux vs \<in> {[], ''Z'', ''z''}"
    and z: "vs_nfs_options vs = [] \<and> vs_tmpfs_size vs = [] \<and> vs_tmpfs_mode vs = 0"
    using assms unfolding plain_spec_def by blast+
  show ?thesis
    unfolding spec_options_def fold_append o_def apply_propagation [OF p] apply_selinux [OF q]
    using z by (cases vs) (simp add: spec_of_def apply_option_words)
qed

lemma option_no_comma: "plain_spec vs \<Longrightarrow> w \<in> set (spec_options vs) \<Longrightarrow> CHR '','' \<notin> set w"
  by (auto simp: spec_options_def plain_spec_def split: if_splits)

text \<open>A text with a plain source is read as source, target and options.\<close>

lemma text_not_special:
  assumes "CHR '':'' \<notin> set src" and "src \<noteq> ''tmpfs''" and "src \<noteq> ''nfs''"
  shows "\<not> has_prefix (src @ '':'' @ t) ''tmpfs:'' \<and> \<not> has_prefix (src @ '':'' @ t) ''nfs:''
    \<and> \<not> has_prefix (src @ '':'' @ t) ''nfs://''"
proof -
  have p: "\<not> prefix (w @ CHR '':'' # r) (src @ '':'' @ t)" if w: "CHR '':'' \<notin> set w" "src \<noteq> w" for w r
  proof
    assume "prefix (w @ CHR '':'' # r) (src @ '':'' @ t)"
    then obtain u where u: "src @ CHR '':'' # t = w @ CHR '':'' # u" by (auto simp: prefix_def)
    then have "index_byte (w @ CHR '':'' # u) (CHR '':'') = Some (length src)"
      using assms(1) index_byte_append by metis
    then have "length w = length src" using w(1) by (simp add: index_byte_append)
    then show False using u w(2) by simp
  qed
  show ?thesis using p [of "''tmpfs''" "[]"] p [of "''nfs''" "[]"] p [of "''nfs''" "''//''"] assms(2,3)
    by (simp add: has_prefix_def)
qed

definition named_if_bare :: "volume_spec \<Rightarrow> volume_spec" where
  "named_if_bare vs =
     (if slash \<notin> set (vs_source vs) \<and> backslash \<notin> set (vs_source vs) then vs\<lparr>vs_type := Named\<rparr> else vs)"

lemma parse_spec_text:
  assumes "CHR '':'' \<notin> set src" and "src \<noteq> ''tmpfs''" and "src \<noteq> ''nfs''" and "CHR '':'' \<notin> set dst"
    and "\<And>w. w \<in> set ws \<Longrightarrow> CHR '','' \<notin> set w"
  shows "parse_volume_spec (src @ '':'' @ dst @ (if ws = [] then [] else '':'' @ str_join '','' ws))
    = Some (named_if_bare (fold apply_option ws (spec_of Bind src dst)))"
proof (cases "ws = []")
  case True
  have "splitn_byte 3 (CHR '':'') (src @ '':'' @ dst) = [src, dst]"
    using assms(1,4) splitn_byte_append [of "CHR '':''" src 1 dst] splitn_byte_no_sep [of "CHR '':''" dst 1]
    by (simp add: numeral_eq_Suc)
  then show ?thesis using True text_not_special [OF assms(1-3), of dst]
    by (simp add: parse_volume_spec_def Let_def named_if_bare_def)
next
  case False
  let ?o = "str_join '','' ws"
  have "splitn_byte 3 (CHR '':'') (src @ '':'' @ dst @ '':'' @ ?o) = [src, dst, ?o]"
    using assms(1,4) splitn_byte_append [of "CHR '':''" src 1 "dst @ CHR '':'' # ?o"]
      splitn_byte_append [of "CHR '':''" dst 0 ?o]
    by (simp add: numeral_eq_Suc)
  moreover have "split_byte (CHR '','') ?o = ws" using False assms(5) by (intro split_join) auto
  ultimately show ?thesis using False text_not_special [OF assms(1-3), of "dst @ '':'' @ ?o"]
    by (simp add: parse_volume_spec_def Let_def named_if_bare_def apply_options_def)
qed

text \<open>
  A bind or named-volume specification is read back as it was written, with every
  combination of its options. (A volume named \<open>tmpfs\<close> or \<open>nfs\<close> is not: it reads as a tmpfs.)
\<close>

theorem volume_spec_roundtrip:
  assumes "plain_spec vs"
  shows "parse_volume_spec (print_volume_spec vs) = Some vs"
proof -
  have "parse_volume_spec (print_volume_spec vs)
      = Some (named_if_bare (fold apply_option (spec_options vs) (spec_of Bind (vs_source vs) (vs_target vs))))"
    unfolding print_volume_spec_def using assms option_no_comma [OF assms]
    by (intro parse_spec_text) (auto simp: plain_spec_def)
  then show ?thesis unfolding apply_spec_options [OF assms] using assms
    by (cases vs) (auto simp: named_if_bare_def plain_spec_def)
qed

theorem volume_spec_roundtrip_witness:
  "parse_volume_spec (print_volume_spec ((spec_of Bind ''/srv/a'' ''/data'')\<lparr>vs_read_only := True, vs_propagation := ''rslave''\<rparr>))
   = Some ((spec_of Bind ''/srv/a'' ''/data'')\<lparr>vs_read_only := True, vs_propagation := ''rslave''\<rparr>)"
  by (rule volume_spec_roundtrip) (simp add: plain_spec_def spec_of_def slash_def)


section \<open>Sizes\<close>

definition unshouted :: "char \<Rightarrow> bool" where
  "unshouted c \<longleftrightarrow> (of_char c :: nat) < 97"

lemma upper_char_unshouted: "unshouted c \<Longrightarrow> upper_char c = c"
  by (simp add: unshouted_def upper_char_def)

lemma to_upper_unshouted: "list_all unshouted s \<Longrightarrow> to_upper s = s"
proof (induction s rule: to_upper.induct)
  case (3 c d s)
  have "c \<noteq> CHR 0xC4" "c \<noteq> CHR 0xC5" using 3(4) by (auto simp: unshouted_def)
  then show ?case using 3 upper_char_unshouted by simp
qed (simp_all add: upper_char_unshouted)

lemma digit_unshouted: "is_digit c \<Longrightarrow> unshouted c"
  by (simp add: is_digit_def unshouted_def)

lemma parse_int64_nat_str: "int64_ok (int n) \<Longrightarrow> parse_int64 (nat_str n) = Some (int n)"
proof -
  obtain c s where n: "nat_str n = c # s" by (cases "nat_str n") simp_all
  then have "is_digit c" using nat_str_chars [of c n] by simp
  then have "c \<noteq> CHR ''-''" "c \<noteq> CHR ''+''" by (auto simp: is_digit_def)
  then show "int64_ok (int n) \<Longrightarrow> parse_int64 (nat_str n) = Some (int n)"
    using n parse_digits_nat_str [of n] by (simp add: check_int64_def)
qed

lemma wrap64_eq: "0 \<le> i \<Longrightarrow> wrap64 i = i \<longleftrightarrow> i < 2 ^ 63"
  by (auto simp: wrap64_def signed_take_bit_int_eq_self_iff)

text \<open>
  A size with a suffix is the number times the suffix's power of 1024 modulo \<open>2 ^ 64\<close>, which
  is the size that was meant exactly as long as that is below \<open>2 ^ 63\<close>; nothing rejects a larger
  one.
\<close>

theorem parse_memory_string_wraps:
  assumes "map_of size_suffixes c = Some m" and "n < 2 ^ 63"
  shows "parse_memory_string (nat_str n @ [c]) = Some (wrap64 (int n * m))
    \<and> (wrap64 (int n * m) = int n * m \<longleftrightarrow> int n * m < 2 ^ 63)"
proof -
  have c: "unshouted c" "find (\<lambda>p. has_suffix (nat_str n @ [c]) [fst p]) size_suffixes = Some (c, m)" "0 < m"
    using assms(1) by (auto simp: size_suffixes_def unshouted_def last_suffix split: if_splits)
  then have "to_upper (nat_str n @ [c]) = nat_str n @ [c]"
    using nat_str_chars digit_unshouted by (intro to_upper_unshouted) (auto simp: list_all_iff)
  moreover have "int64_ok (int n)" using assms(2) by (simp add: int64_ok_def)
  ultimately have "parse_memory_string (nat_str n @ [c]) = Some (wrap64 (int n * m))"
    using c parse_int64_nat_str by (simp add: parse_memory_string_def)
  then show ?thesis using c(3) by (simp add: wrap64_eq)
qed

theorem parse_memory_string_wraps_witness:
  "parse_memory_string (nat_str 16777216 @ ''T'') = Some 0"
proof -
  have "wrap64 (int 16777216 * 2 ^ 40) = 0" by (simp add: wrap64_def)
  then show ?thesis using parse_memory_string_wraps [of "CHR ''T''" "2 ^ 40" 16777216]
    by (simp add: size_suffixes_def)
qed

end
