(* ===== verification/GenerateProps.thy ===== *)
theory GenerateProps
  imports Create VolumeProps
begin

text \<open>
  \<open>dck up --generate\<close> against \<open>dck up\<close>: what of a container survives being written as a
  configuration and read back, and what does not.
\<close>

section \<open>Maps made of lists\<close>

lemma aput_fresh: "k \<notin> fst ` set m \<Longrightarrow> aput k v m = m @ [(k, v)]"
  by (induction k v m rule: aput.induct) auto

lemma foldl_aput_fresh:
  "distinct (map fst m @ map f xs) \<Longrightarrow> foldl (\<lambda>m x. aput (f x) (g x) m) m xs = m @ map (\<lambda>x. (f x, g x)) xs"
proof (induction xs arbitrary: m)
  case (Cons x xs)
  have "aput (f x) (g x) m = m @ [(f x, g x)]" using Cons.prems by (intro aput_fresh) auto
  then show ?case using Cons.IH [of "m @ [(f x, g x)]"] Cons.prems by simp
qed simp

lemma splitn_two: "c \<notin> set w \<Longrightarrow> splitn_byte 2 c (w @ c # s) = [w, s]"
  using splitn_byte_append [of c w 0 s] by (simp add: numeral_2_eq_2)

lemma splitn_two_none: "c \<notin> set s \<Longrightarrow> splitn_byte 2 c s = [s]"
  using splitn_byte_no_sep [of c s 1] by (simp add: numeral_2_eq_2)

section \<open>Ports\<close>

definition plain_port :: "port_map \<Rightarrow> bool" where
  "plain_port p \<longleftrightarrow> 0 < pm_host_port p \<and> pm_host_port p < 2 ^ 63 \<and> 0 < pm_container_port p \<and> pm_container_port p < 2 ^ 63
     \<and> pm_protocol p \<noteq> []"

lemma digit_plain: "is_digit c \<Longrightarrow> plain_char c"
  by (simp add: is_digit_def plain_char_def)

lemma scan_int_str:
  assumes "0 \<le> i" and "i < 2 ^ 63"
  shows "scan_int (int_str i) = Some i"
proof -
  obtain c s where cs: "nat_str (nat i) = c # s" by (cases "nat_str (nat i)") simp_all
  then have d: "is_digit c" "list_all is_digit (c # s)" using nat_str_digits [of "nat i"] by auto
  then have "skip_blanks (c # s) = c # s" by (simp add: skip_blanks_def digit_plain)
  moreover have "c \<noteq> CHR ''-''" "c \<noteq> CHR ''+''" using d(1) by (auto simp: is_digit_def)
  moreover have "takeWhile is_digit (c # s) = c # s" using d(2) by (simp add: takeWhile_eq_all_conv list_all_iff)
  moreover have "parse_digits (c # s) = Some (nat i)" using parse_digits_nat_str [of "nat i"] cs by simp
  ultimately show ?thesis using assms cs by (simp add: scan_int_def int_str_def check_int64_def int64_ok_def Let_def)
qed

lemma int_str_digits: "0 \<le> i \<Longrightarrow> c \<in> set (int_str i) \<Longrightarrow> is_digit c"
  by (auto simp: int_str_def dest: nat_str_chars)

lemma up_port_text:
  assumes "plain_port p"
  shows "up_port (port_text p) = [p]"
proof -
  let ?h = "int_str (pm_host_port p)" and ?c = "int_str (pm_container_port p)"
  have d: "x \<in> set ?h \<union> set ?c \<Longrightarrow> is_digit x" for x
    using assms int_str_digits [OF less_imp_le] by (auto simp: plain_port_def)
  have c: "CHR '':'' \<notin> set ?h" and s: "slash \<notin> set (?h @ '':'' @ ?c)"
    using d [of "CHR '':''"] d [of slash] by (auto simp: is_digit_def slash_def)
  have n: "scan_int ?h = Some (pm_host_port p)" "scan_int ?c = Some (pm_container_port p)"
    using assms by (auto simp: plain_port_def intro!: scan_int_str)
  show ?thesis
  proof (cases "pm_protocol p = ''tcp''")
    case True
    then show ?thesis using assms n splitn_two_none [OF s] splitn_two [OF c, of ?c]
      by (cases p) (simp add: up_port_def port_text_def plain_port_def)
  next
    case False
    then show ?thesis using assms n splitn_two [OF s, of "pm_protocol p"] splitn_two [OF c, of ?c]
      by (cases p) (simp add: up_port_def port_text_def plain_port_def)
  qed
qed

section \<open>Volumes\<close>

definition volume_spec_of :: "volume_mount \<Rightarrow> volume_spec" where
  "volume_spec_of v =
     (spec_of (case vm_type v of Some t \<Rightarrow> t | None \<Rightarrow> Tmpfs) (vm_source v) (vm_target v))
       \<lparr>vs_read_only := vm_read_only v, vs_propagation := vm_propagation v, vs_selinux := vm_selinux v,
        vs_no_copy := vm_no_copy v\<rparr>"

text \<open>A bind mount or named volume, whose text neither starts nor ends with white space.\<close>

definition plain_volume :: "volume_mount \<Rightarrow> bool" where
  "plain_volume v \<longleftrightarrow> vm_type v \<noteq> None \<and> plain_spec (volume_spec_of v) \<and> trim_space (volume_text v) = volume_text v"

lemma apply_rw: "apply_option ''rw'' vs = vs\<lparr>vs_read_only := False\<rparr>"
  using trim_plain_word [of "''rw''"] by (simp add: apply_option_def plain_char_def)

lemma volume_words_eq:
  "volume_words v = (if vm_read_only v \<or> spec_options (volume_spec_of v) = [] then [] else [''rw''])
      @ spec_options (volume_spec_of v)"
  by (auto simp: volume_words_def spec_options_def volume_spec_of_def)

lemma volume_words_fold:
  assumes "plain_spec (volume_spec_of v)"
  shows "fold apply_option (volume_words v) (spec_of Bind (vm_source v) (vm_target v)) = (volume_spec_of v)\<lparr>vs_type := Bind\<rparr>"
proof -
  note eq = apply_spec_options [OF assms]
  have rw: "fold apply_option (if b then [] else [''rw'']) (spec_of Bind src dst) = spec_of Bind src dst" for b src dst
    by (simp add: apply_rw) (simp add: spec_of_def)
  have "vs_source (volume_spec_of v) = vm_source v" "vs_target (volume_spec_of v) = vm_target v"
    by (simp_all add: volume_spec_of_def spec_of_def)
  with eq show ?thesis unfolding volume_words_eq fold_append o_def rw by simp
qed

lemma up_volume_text:
  assumes "plain_volume v"
  shows "up_volume (volume_text v) = [v]"
proof -
  let ?vs = "volume_spec_of v"
  have p: "plain_spec ?vs" and t: "trim_space (volume_text v) = volume_text v" and ty: "vm_type v \<noteq> None"
    using assms by (simp_all add: plain_volume_def)
  have src: "vs_source ?vs = vm_source v" "vs_target ?vs = vm_target v" by (simp_all add: volume_spec_of_def spec_of_def)
  have f: "CHR '':'' \<notin> set (vm_source v)" "vm_source v \<noteq> ''tmpfs''" "vm_source v \<noteq> ''nfs''" "CHR '':'' \<notin> set (vm_target v)"
    and kind: "vs_type ?vs = (if slash \<in> set (vs_source ?vs) \<or> backslash \<in> set (vs_source ?vs) then Bind else Named)"
    using p unfolding plain_spec_def src by blast+
  have comma: "CHR '','' \<notin> set w" if "w \<in> set (volume_words v)" for w
    using that option_no_comma [OF p, of w] unfolding volume_words_eq by (auto split: if_splits)
  have eq: "volume_text v = vm_source v @ '':'' @ vm_target v
        @ (if volume_words v = [] then [] else '':'' @ str_join '','' (volume_words v))"
    by (simp add: volume_text_def)
  have "parse_volume_spec (volume_text v) = Some (named_if_bare (fold apply_option (volume_words v) (spec_of Bind (vm_source v) (vm_target v))))"
    unfolding eq using f comma by (intro parse_spec_text)
  also have "named_if_bare (fold apply_option (volume_words v) (spec_of Bind (vm_source v) (vm_target v))) = ?vs"
  proof -
    show ?thesis unfolding volume_words_fold [OF p] using kind by (cases "?vs") (simp add: named_if_bare_def)
  qed
  finally have "parse_volume_spec (trim_space (volume_text v)) = Some ?vs" using t by simp
  then have "volume_mount_from_spec (volume_text v) = Some \<lparr>vm_type = Some (vs_type ?vs), vm_source = vs_source ?vs,
      vm_target = vs_target ?vs, vm_read_only = vs_read_only ?vs, vm_propagation = vs_propagation ?vs,
      vm_selinux = vs_selinux ?vs, vm_no_copy = vs_no_copy ?vs\<rparr>"
    unfolding volume_mount_from_spec_def by simp
  also have "\<dots> = Some v" using ty by (cases v) (auto simp: volume_spec_of_def spec_of_def)
  finally show ?thesis by (simp add: up_volume_def)
qed

section \<open>Environment and limits\<close>

definition plain_env :: "string list \<Rightarrow> bool" where
  "plain_env env \<longleftrightarrow> list_all (\<lambda>w. CHR ''='' \<in> set w) env \<and> distinct (map (takeWhile (\<lambda>c. c \<noteq> CHR ''='')) env)"

lemma take_drop_sep:
  "c \<notin> set k \<Longrightarrow> takeWhile (\<lambda>x. x \<noteq> c) (k @ c # v) = k \<and> dropWhile (\<lambda>x. x \<noteq> c) (k @ c # v) = c # v"
  by (induction k) auto

lemma put_env_word_split:
  assumes "CHR ''='' \<in> set w"
  shows "put_env_word m w = aput (takeWhile (\<lambda>c. c \<noteq> CHR ''='') w) (tl (dropWhile (\<lambda>c. c \<noteq> CHR ''='') w)) m
    \<and> takeWhile (\<lambda>c. c \<noteq> CHR ''='') w @ ''='' @ tl (dropWhile (\<lambda>c. c \<noteq> CHR ''='') w) = w"
proof -
  obtain k v where w: "w = k @ CHR ''='' # v" "CHR ''='' \<notin> set k" using split_list_first [OF assms] by blast
  then show ?thesis using take_drop_sep [of "CHR ''=''" k v] by (simp add: put_env_word_def splitn_two)
qed

lemma foldl_cong_in: "(\<And>m x. x \<in> set xs \<Longrightarrow> f m x = g m x) \<Longrightarrow> foldl f m xs = foldl g m xs"
  by (induction xs arbitrary: m) auto

lemma env_roundtrip:
  assumes "plain_env env"
  shows "map (\<lambda>(k, v). k @ ''='' @ v) (foldl put_env_word [] env) = env"
proof -
  let ?k = "takeWhile (\<lambda>c. c \<noteq> CHR ''='')" and ?v = "\<lambda>w. tl (dropWhile (\<lambda>c. c \<noteq> CHR ''='') w)"
  have "foldl put_env_word [] env = foldl (\<lambda>m w. aput (?k w) (?v w) m) [] env"
    using assms put_env_word_split by (intro foldl_cong_in) (auto simp: plain_env_def list_all_iff)
  also have "\<dots> = map (\<lambda>w. (?k w, ?v w)) env"
    using assms foldl_aput_fresh [of "[]" ?k env ?v] by (simp add: plain_env_def)
  finally show ?thesis using assms put_env_word_split by (auto simp: plain_env_def list_all_iff intro: map_idI)
qed

definition plain_ulimits :: "ulimit list \<Rightarrow> bool" where
  "plain_ulimits us \<longleftrightarrow> distinct (map ul_name us) \<and> list_all (\<lambda>u. ul_soft u < 2 ^ 64 \<and> ul_hard u < 2 ^ 64) us"

lemma up_ulimit_text:
  assumes "ul_soft u < 2 ^ 64" and "ul_hard u < 2 ^ 64"
  shows "up_ulimit (ul_name u, nat_str (ul_soft u) @ '':'' @ nat_str (ul_hard u)) = [u]"
proof -
  have "CHR '':'' \<notin> set (nat_str (ul_soft u))" using nat_str_chars [of "CHR '':''"] by (auto simp: is_digit_def)
  then show ?thesis using assms splitn_two [of "CHR '':''" "nat_str (ul_soft u)" "nat_str (ul_hard u)"]
    by (cases u) (simp add: up_ulimit_def parse_uint64_def)
qed

lemma ulimits_roundtrip:
  assumes "plain_ulimits us"
  shows "concat (map up_ulimit (foldl put_ulimit [] us)) = us"
proof -
  let ?v = "\<lambda>u. nat_str (ul_soft u) @ '':'' @ nat_str (ul_hard u)"
  have "foldl put_ulimit [] us = map (\<lambda>u. (ul_name u, ?v u)) us"
    using assms foldl_aput_fresh [of "[]" ul_name us ?v] by (simp add: plain_ulimits_def put_ulimit_def [abs_def])
  moreover have "map up_ulimit (map (\<lambda>u. (ul_name u, ?v u)) us) = map (\<lambda>u. [u]) us"
    using assms up_ulimit_text by (simp add: plain_ulimits_def list_all_iff)
  ultimately show ?thesis by (simp only:) simp
qed

section \<open>Sizes\<close>

lemma to_upper_digits: "list_all is_digit ds \<Longrightarrow> to_upper (ds @ [c]) = ds @ [upper_char c]"
proof (induction ds)
  case (Cons d ds)
  obtain x xs where x: "ds @ [c] = x # xs" by (cases "ds @ [c]") simp_all
  have d: "d \<noteq> CHR 0xC4" "d \<noteq> CHR 0xC5" "upper_char d = d"
    using Cons.prems by (auto simp: is_digit_def upper_char_def)
  have "to_upper (d # ds @ [c]) = d # to_upper (ds @ [c])" unfolding x using d by simp
  then show ?case using Cons by simp
qed simp

lemma parse_memory_lower:
  assumes "map_of size_suffixes (upper_char c) = Some m" and "upper_char (upper_char c) = upper_char c"
    and "0 \<le> b" and "b < 2 ^ 63" and "b * m < 2 ^ 63"
  shows "parse_memory_string (int_str b @ [c]) = Some (b * m)"
proof -
  have d: "list_all is_digit (nat_str (nat b))" using nat_str_digits by simp
  have "parse_memory_string (nat_str (nat b) @ [c]) = parse_memory_string (nat_str (nat b) @ [upper_char c])"
    using assms(2) by (simp add: parse_memory_string_def to_upper_digits [OF d])
  also have "\<dots> = Some (b * m)" using parse_memory_string_wraps [OF assms(1), of "nat b"] assms(3-5) by simp
  finally show ?thesis using assms(3) by (simp add: int_str_def)
qed

text \<open>A size that is a whole number of the largest unit it reaches.\<close>

definition whole_size :: "int \<Rightarrow> bool" where
  "whole_size b \<longleftrightarrow>
     0 \<le> b \<and> b < 2 ^ 63 \<and> (if b \<ge> 2 ^ 30 then b mod 2 ^ 30 = 0 else if b \<ge> 2 ^ 20 then b mod 2 ^ 20 = 0 else b mod 2 ^ 10 = 0)"

lemma memory_roundtrip:
  assumes "whole_size b" and "0 < b"
  shows "parse_memory_string (bytes_to_human b) = Some b"
proof -
  have u: "map_of size_suffixes (upper_char (CHR ''g'')) = Some (2 ^ 30)" "map_of size_suffixes (upper_char (CHR ''m'')) = Some (2 ^ 20)"
    "map_of size_suffixes (upper_char (CHR ''k'')) = Some (2 ^ 10)"
    "upper_char (upper_char (CHR ''g'')) = upper_char (CHR ''g'')" "upper_char (upper_char (CHR ''m'')) = upper_char (CHR ''m'')"
    "upper_char (upper_char (CHR ''k'')) = upper_char (CHR ''k'')"
    by code_simp+
  have w: "b mod 2 ^ n = 0 \<Longrightarrow> b div 2 ^ n * 2 ^ n = b" for n
    using div_mult_mod_eq [of b "2 ^ n"] by simp
  have l: "b div 2 ^ n < 2 ^ 63" "0 \<le> b div 2 ^ n" for n
    using assms by (auto simp: whole_size_def intro: le_less_trans [OF zdiv_mono2 [of b 1]] pos_imp_zdiv_nonneg_iff [THEN iffD2])
  have step: "parse_memory_string (int_str (b div 2 ^ n) @ [c]) = Some b"
    if "map_of size_suffixes (upper_char c) = Some (2 ^ n)" "upper_char (upper_char c) = upper_char c" "b mod 2 ^ n = 0" for n c
    using parse_memory_lower [OF that(1,2) l(2,1)] w [OF that(3)] assms by (simp add: whole_size_def)
  show ?thesis
    using assms step [OF u(1,4)] step [OF u(2,5)] step [OF u(3,6)]
    by (simp add: whole_size_def bytes_to_human_def split: if_splits)
qed

section \<open>A whole container\<close>

definition plain_container :: "container \<times> container_more \<Rightarrow> bool" where
  "plain_container p \<longleftrightarrow>
     (let c = fst p; m = snd p in
      ct_name c \<noteq> [] \<and> ct_hostname c \<noteq> [] \<and> ct_working_dir c \<noteq> [] \<and> ct_restart c \<noteq> [] \<and> ct_dns c \<noteq> Some []
      \<and> list_all plain_port (ct_ports c) \<and> list_all plain_volume (cm_volumes m) \<and> plain_env (cm_env m)
      \<and> plain_ulimits (cm_ulimits m) \<and> whole_size (cm_memory m) \<and> (0 < fst (cm_cpus m) \<or> cm_cpus m = (0, 0)))"

definition same_settings :: "container \<times> container_more \<Rightarrow> container \<times> container_more \<Rightarrow> bool" where
  "same_settings p q \<longleftrightarrow>
     (let c = fst p; m = snd p; c' = fst q; m' = snd q in
      ct_name c' = ct_name c \<and> ct_ports c' = ct_ports c \<and> ct_hostname c' = ct_hostname c
      \<and> ct_working_dir c' = ct_working_dir c \<and> ct_restart c' = ct_restart c \<and> ct_restart_delay c' = ct_restart_delay c
      \<and> ct_network_mode c' = ct_network_mode c \<and> ct_dns c' = ct_dns c \<and> cm_volumes m' = cm_volumes m
      \<and> cm_env m' = cm_env m \<and> cm_memory m' = cm_memory m \<and> cm_cpus m' = cm_cpus m \<and> cm_health m' = cm_health m
      \<and> cm_labels m' = cm_labels m \<and> cm_cap_add m' = cm_cap_add m \<and> cm_cap_drop m' = cm_cap_drop m
      \<and> cm_user m' = cm_user m \<and> cm_readonly m' = cm_readonly m \<and> cm_no_new_privs m' = cm_no_new_privs m
      \<and> cm_sysctls m' = cm_sysctls m \<and> cm_entrypoint m' = cm_entrypoint m \<and> cm_ulimits m' = cm_ulimits m)"

lemma health_roundtrip: "map_option health_of (map_option health_conf_of h) = h"
  by (cases h) (simp_all add: health_of_def health_conf_of_def)

lemma generated_options:
  assumes "plain_container (c, m)"
  shows "concat (map up_port (map port_text (ct_ports c))) = ct_ports c
    \<and> concat (map up_volume (map volume_text (cm_volumes m))) = cm_volumes m"
proof -
  have "map up_port (map port_text (ct_ports c)) = map (\<lambda>p. [p]) (ct_ports c)"
    using assms up_port_text by (simp add: plain_container_def Let_def list_all_iff)
  moreover have "map up_volume (map volume_text (cm_volumes m)) = map (\<lambda>p. [p]) (cm_volumes m)"
    using assms up_volume_text by (simp add: plain_container_def Let_def list_all_iff)
  ultimately show ?thesis by (simp only:) simp
qed


definition sample_opts :: create_opts where
  "sample_opts = zero_opts\<lparr>co_name := ''web'', co_hostname := ''web'', co_working_dir := ''/srv'', co_restart := ''always'',
     co_entrypoint := ''/entry'', co_cmd := [''serve''], co_memory := 536870912, co_env := [''A=1=2'', ''B=''],
     co_ports := [\<lparr>pm_host_port = 8080, pm_container_port = 80, pm_protocol = ''tcp''\<rparr>,
                  \<lparr>pm_host_port = 53, pm_container_port = 53, pm_protocol = ''udp''\<rparr>],
     co_ulimits := [\<lparr>ul_name = ''nofile'', ul_soft = 1024, ul_hard = 4096\<rparr>],
     co_volumes := [\<lparr>vm_type = Some Bind, vm_source = ''/data'', vm_target = ''/srv'', vm_read_only = False,
       vm_propagation = ''rslave'', vm_selinux = [], vm_no_copy = False\<rparr>]\<rparr>"

definition sample_pair :: "container \<times> container_more" where
  "sample_pair = new_container ''0123456789abcdef'' None (''nginx'', ''1'') sample_opts"

lemma sample_plain: "plain_container sample_pair"
  by code_simp


text \<open>
  The command is no such setting: \<open>New\<close> has already put the entrypoint before it, and the
  generated configuration holds both, so that the new container runs the entrypoint with itself
  as its first argument.
\<close>

theorem generate_doubles_entrypoint:
  "ct_cmd (fst sample_pair) = [''/entry'', ''serve'']
    \<and> ct_cmd (fst (new_container ''fedcba9876543210'' None (''nginx'', ''1'') (up_options ''web'' (generate_one sample_pair) [])))
      = [''/entry'', ''/entry'', ''serve'']"
  by code_simp

text \<open>
  A port of a Compose file without a host port is never published: it becomes host port 0, which
  \<open>dck up\<close> passes over.
\<close>

theorem container_port_never_published:
  assumes "CHR '':'' \<notin> set p"
  shows "up_port (normalize_port p) = []"
proof -
  have z: "scan_int ''0'' = Some 0" by code_simp
  have c: "splitn_byte 2 (CHR '':'') (''0:'' @ a) = [''0'', a]" for a
    using splitn_two [of "CHR '':''" "''0''" a] by simp
  have "up_port (''0:'' @ p) = []"
  proof (cases "slash \<in> set p")
    case True
    then obtain a b where p: "p = a @ slash # b" "slash \<notin> set a" using split_list_first by metis
    then show ?thesis using splitn_two [of slash "''0:'' @ a" b] c [of a] z
      by (simp add: up_port_def slash_def split: option.splits)
  next
    case False
    then show ?thesis using splitn_two_none [of slash "''0:'' @ p"] c [of p] z
      by (simp add: up_port_def slash_def split: option.splits)
  qed
  then show ?thesis using assms by (simp add: normalize_port_def str_contains_single)
qed

end
