(* ===== verification/NetCreate.thy ===== *)
theory NetCreate
  imports NetAlloc
begin

text \<open>
  Creating networks: the subnet a network gets, and that the networks of a host never overlap.
\<close>

section \<open>Subnets\<close>

lemma set_low_bit: "bit m 0 \<Longrightarrow> (x AND NOT m) OR ((x OR 1) AND m) = x OR (1 :: ipv4)"
  by (rule bit_eqI) (auto simp: bit_simps bit_1_iff)

lemma wf_cidr_low_bit: "wf_cidr c \<Longrightarrow> snd c < 32 \<Longrightarrow> \<not> bit (fst c) 0"
  by (metis bit_and_iff bit_cidr_mask diff_is_0_eq le_zero_eq linorder_not_le wf_cidr_def)

lemma gateway_of_add:
  assumes "wf_cidr c" "snd c < 32"
  shows "gateway_of (fst c) = fst c + 1"
proof -
  have "fst c + 1 = fst c OR 1"
    by (rule disjunctive_add) (use wf_cidr_low_bit [OF assms] in \<open>auto simp: bit_1_iff intro!: Nat.gr0I\<close>)
  moreover have "bit (255 :: ipv4) 0" by simp
  ultimately show ?thesis using set_low_bit [of 255 "fst c"] by (simp add: gateway_of_def)
qed

lemma normalize_cases:
  assumes "normalize_network_cidr s = Inr (n, g)"
  obtains x c where "parse_cidr s = Some (x, c)" "wf_cidr c" "cidr_contains c x" "16 \<le> snd c" "snd c \<le> 29"
    "n = cidr_string c" "g = ip_string (fst c + 1)" "cidr_contains c (fst c + 1)" "parse_cidr n = Some (fst c, c)"
proof -
  obtain x c where c: "parse_cidr s = Some (x, c)" "16 \<le> snd c" "snd c \<le> 29"
    "n = cidr_string c" "g = ip_string (gateway_of (fst c))" "cidr_contains c (gateway_of (fst c))"
    using assms by (auto simp: normalize_network_cidr_def Let_def split: option.splits if_splits)
  have w: "wf_cidr c" "cidr_contains c x" using wf_parse_cidr [OF c(1)] by auto
  have "gateway_of (fst c) = fst c + 1" using gateway_of_add w(1) c(3) by simp
  moreover have "parse_cidr n = Some (fst c, c)" using parse_cidr_string w(1) c(4) by simp
  ultimately show ?thesis using that c w by simp
qed

text \<open>
  A subnet that \<open>normalizeNetworkCIDR\<close> accepts comes back as a network string that parses to
  the network of the given address, with a prefix from 16 to 29; its gateway is the first host
  address; and normalizing the result again changes nothing.
\<close>

theorem normalize_network_cidr_sound:
  assumes "normalize_network_cidr s = Inr (n, g)"
  shows "\<exists>x c. parse_cidr s = Some (x, c) \<and> parse_cidr n = Some (fst c, c) \<and> cidr_contains c x
    \<and> 16 \<le> snd c \<and> snd c \<le> 29 \<and> g = ip_string (fst c + 1) \<and> cidr_contains c (fst c + 1)
    \<and> normalize_network_cidr n = Inr (n, g)"
  using assms
proof (cases rule: normalize_cases)
  case (1 x c)
  have "n \<noteq> []" by (simp add: 1(6) cidr_string_def)
  then have "normalize_network_cidr n = Inr (n, g)"
    using 1 gateway_of_add [OF 1(2)] by (simp add: normalize_network_cidr_def Let_def not_less)
  then show ?thesis using 1 by blast
qed

theorem normalize_network_cidr_sound_witness:
  "normalize_network_cidr ''10.9.8.7/24'' = Inr (''10.9.8.0/24'', ''10.9.8.1'')
    \<and> normalize_network_cidr ''10.9.8.0/24'' = Inr (''10.9.8.0/24'', ''10.9.8.1'')"
proof -
  have a: "normalize_network_cidr ''10.9.8.7/24'' = Inr (''10.9.8.0/24'', ''10.9.8.1'')" by code_simp
  from normalize_network_cidr_sound [OF a] a show ?thesis by blast
qed

text \<open>The overlap check of two networks that parse is exact.\<close>

lemma cidr_overlaps_exact:
  assumes "parse_cidr l = Some (x, c)" "parse_cidr r = Some (y, d)"
  shows "cidr_overlaps l r \<longleftrightarrow> (\<exists>z. cidr_contains c z \<and> cidr_contains d z)"
  using assms wf_parse_cidr [OF assms(1)] wf_parse_cidr [OF assms(2)]
  by (simp add: cidr_overlaps_def cidr_overlap_iff)

section \<open>The networks of a host\<close>

text \<open>The addresses of a network as its file records it.\<close>

definition net_addrs :: "user_network \<Rightarrow> ipv4 set" where
  "net_addrs n = (case parse_cidr (un_subnet n) of None \<Rightarrow> {} | Some (x, c) \<Rightarrow> {z. cidr_contains c z})"

definition bridge_addrs :: "ipv4 set" where
  "bridge_addrs = {z. cidr_contains bridge_net z}"

text \<open>
  The directory as the code leaves it: one file per network, under its name; every subnet
  parses; the networks are pairwise disjoint and disjoint from the built-in bridge.
\<close>

definition networks_ok :: "net_dir \<Rightarrow> bool" where
  "networks_ok dir \<longleftrightarrow> distinct (map fst dir)
     \<and> (\<forall>name n. load_network dir name = Inr n \<longrightarrow> un_name n = name \<and> parse_cidr (un_subnet n) \<noteq> None
          \<and> net_addrs n \<inter> bridge_addrs = {})
     \<and> (\<forall>name n name' n'. load_network dir name = Inr n \<and> load_network dir name' = Inr n' \<and> name \<noteq> name'
          \<longrightarrow> net_addrs n \<inter> net_addrs n' = {})"

lemma networks_okD:
  assumes "networks_ok dir" "load_network dir name = Inr n"
  shows "un_name n = name" "parse_cidr (un_subnet n) \<noteq> None" "net_addrs n \<inter> bridge_addrs = {}"
    "load_network dir name' = Inr n' \<Longrightarrow> name \<noteq> name' \<Longrightarrow> net_addrs n \<inter> net_addrs n' = {}"
  using assms unfolding networks_ok_def by blast+

lemma valid_name_file:
  assumes "valid_network_name name"
  shows "has_suffix (network_file name) ''.json''" "network_file name \<noteq> ''ips.json''"
    "trim_suffix (network_file name) ''.json'' = name"
proof -
  show "has_suffix (network_file name) ''.json''" by (simp add: network_file_def)
  show "trim_suffix (network_file name) ''.json'' = name" by (simp add: network_file_def)
  show "network_file name \<noteq> ''ips.json''"
  proof
    assume "network_file name = ''ips.json''"
    then have "name @ ''.json'' = ''ips'' @ ''.json''" by (simp add: network_file_def)
    then have "name = ''ips''" by (rule append_same_eq [THEN iffD1])
    then show False using assms by (simp add: valid_network_name_def)
  qed
qed

lemma in_list_networks:
  assumes "load_network dir name = Inr n"
  shows "n \<in> set (list_networks dir)"
proof -
  have v: "valid_network_name name" and f: "map_of dir (network_file name) = Some (NetJson n)"
    using assms by (auto simp: load_network_def split: if_splits option.splits net_entry.splits)
  have "(network_file name, NetJson n) \<in> set dir" using map_of_SomeD [OF f] .
  moreover have "n \<in> set (list_entry dir (network_file name, NetJson n))"
    using valid_name_file [OF v] assms by (simp add: list_entry_def)
  ultimately show ?thesis by (auto simp: list_networks_def)
qed

text \<open>Storing a network under its name keeps the directory well-formed when it overlaps no other.\<close>

lemma networks_ok_save:
  assumes "networks_ok dir" "valid_network_name (un_name n)" "parse_cidr (un_subnet n) \<noteq> None"
    "net_addrs n \<inter> bridge_addrs = {}"
    "\<And>name m. load_network dir name = Inr m \<Longrightarrow> name \<noteq> un_name n \<Longrightarrow> net_addrs n \<inter> net_addrs m = {}"
  shows "networks_ok (save_user_network w n dir)"
proof (cases "w = NotWritten")
  case True
  then show ?thesis using assms(1) by simp
next
  case False
  have l: "load_network (save_user_network w n dir) name
      = (if name = un_name n then Inr n else load_network dir name)" for name
    using load_after_save assms(2) False by blast
  have "distinct (map fst (save_user_network w n dir))"
    using assms(1) by (simp add: networks_ok_def save_user_network_def)
  then show ?thesis
    using assms unfolding networks_ok_def l by (auto split: if_splits)
qed

lemma created_disjoint:
  assumes "networks_ok dir" "parse_cidr s = Some (x, c)" "\<not> cidr_overlaps s bridge_cidr"
    "find (\<lambda>m. cidr_overlaps s (un_subnet m)) (list_networks dir) = None"
  shows "{z. cidr_contains c z} \<inter> bridge_addrs = {}"
    "load_network dir name = Inr m \<Longrightarrow> {z. cidr_contains c z} \<inter> net_addrs m = {}"
proof -
  show "{z. cidr_contains c z} \<inter> bridge_addrs = {}"
    using cidr_overlaps_exact [OF assms(2) parse_bridge_cidr] assms(3) by (auto simp: bridge_addrs_def)
  assume m: "load_network dir name = Inr m"
  then obtain y d where d: "parse_cidr (un_subnet m) = Some (y, d)"
    using networks_okD(2) [OF assms(1) m] by auto
  have "\<not> cidr_overlaps s (un_subnet m)"
    using in_list_networks [OF m] assms(4) by (auto simp: find_None_conv)
  then show "{z. cidr_contains c z} \<inter> net_addrs m = {}"
    using cidr_overlaps_exact [OF assms(2) d] by (auto simp: net_addrs_def d)
qed

text \<open>
  C11. The networks of a host never overlap: creating a network, whatever subnet is asked for and
  however its file is written, leaves all user networks pairwise disjoint and disjoint from the
  built-in bridge, and a network it returns is stored under its name.
\<close>

theorem create_network_disjoint:
  assumes "networks_ok dir"
  shows "networks_ok (snd (create_network h w name subnet dir))
    \<and> (case fst (create_network h w name subnet dir) of
         Inl _ \<Rightarrow> True
       | Inr n \<Rightarrow> load_network dir name = Inl NetNotFound
           \<and> load_network (snd (create_network h w name subnet dir)) name = Inr n)"
proof -
  let ?s = "if subnet = [] then next_network_subnet dir else subnet"
  show ?thesis
  proof (cases "valid_network_name name \<and> map_of dir (network_file name) = None")
    case False
    then show ?thesis using assms by (auto simp: create_network_def)
  next
    case True
    show ?thesis
    proof (cases "normalize_network_cidr ?s")
      case (Inl e)
      then show ?thesis using True assms by (simp add: create_network_def Let_def)
    next
      case (Inr p)
      obtain nz g where p: "p = (nz, g)" by (cases p)
      show ?thesis
      proof (cases "cidr_overlaps nz bridge_cidr \<or> find (\<lambda>x. cidr_overlaps nz (un_subnet x)) (list_networks dir) \<noteq> None")
        case bad: True
        then show ?thesis
          using True Inr p assms by (auto simp: create_network_def Let_def split: option.splits)
      next
        case False
        let ?n = "\<lparr>un_name = name, un_id = network_id h name, un_driver = ''bridge'',
          un_subnet = nz, un_gateway = g, un_bridge = network_bridge_name h name, un_allocated = []\<rparr>"
        obtain x c where nz: "parse_cidr nz = Some (x, c)"
          using normalize_cases [of ?s nz g] Inr p by blast
        have ok: "networks_ok (save_user_network w ?n dir)"
          by (rule networks_ok_save)
            (use assms True nz created_disjoint [OF assms nz] False in \<open>auto simp: net_addrs_def\<close>)
        have r: "create_network h w name subnet dir =
            (if w = Written then Inr ?n else Inl SaveFailed, save_user_network w ?n dir)"
          using True Inr p False by (simp add: create_network_def Let_def)
        have "load_network (save_user_network w ?n dir) name = Inr ?n" if "w = Written"
          using load_after_save [of ?n w dir name] that True by simp
        moreover have "load_network dir name = Inl NetNotFound" using True by (simp add: load_network_def)
        ultimately show ?thesis using ok unfolding r by simp
      qed
    qed
  qed
qed

theorem create_network_disjoint_witness:
  "networks_ok (snd (create_network (\<lambda>_. ''0123456789abcdef0123'') Written ''web'' ''10.9.8.0/29'' []))"
proof -
  have "networks_ok []" by (simp add: networks_ok_def load_network_def)
  then show ?thesis using create_network_disjoint by blast
qed

end
