(* ===== verification/PlumbingProps.thy ===== *)
theory PlumbingProps
  imports NetPlumbing
begin

text \<open>
  What the commands of the network plumbing are, in order: an executor that keeps a log of the
  commands run and their outcomes.
\<close>

definition log_ex :: "'s exec \<Rightarrow> ((string list \<times> bool) list \<times> 's) exec" where
  "log_ex ex args st = (case ex args (snd st) of (ok, out, s') \<Rightarrow> (ok, out, fst st @ [(args, ok)], s'))"

lemma run_log [simp]:
  "run (log_ex ex) args (l, s) = (let r = run ex args s in (fst r, l @ [(args, fst r)], snd r))"
  by (auto simp: run_def log_ex_def Let_def split: prod.split)

lemma run_ignored_log [simp]:
  "run_ignored (log_ex ex) args (l, s) = (l @ [(args, fst (run ex args s))], run_ignored ex args s)"
  by (simp add: run_ignored_def Let_def)

definition args_in :: "string list set \<Rightarrow> (string list \<times> bool) list \<Rightarrow> bool" where
  "args_in A l \<longleftrightarrow> fst ` set l \<subseteq> A"

lemma args_in_simps [simp]:
  "args_in A []" "args_in A (l @ m) \<longleftrightarrow> args_in A l \<and> args_in A m"
  "args_in A ((a, b) # l) \<longleftrightarrow> a \<in> A \<and> args_in A l"
  by (auto simp: args_in_def)

lemma args_in_notin: "args_in A l \<Longrightarrow> a \<notin> A \<Longrightarrow> a \<notin> fst ` set l"
  by (auto simp: args_in_def)

lemma args_in_mono: "args_in A l \<Longrightarrow> A \<subseteq> B \<Longrightarrow> args_in B l"
  by (auto simp: args_in_def)

lemma move_loop_log:
  "move_veth_loop (log_ex ex) alive args n (l, s) = (r, l', s')
    \<Longrightarrow> \<exists>m. l' = l @ m \<and> args_in {args} m \<and> length m \<le> n"
proof (induction n arbitrary: l s)
  case (Suc n)
  show ?case
  proof (cases "fst (run ex args s)")
    case True
    then show ?thesis using Suc.prems by (auto simp: Let_def)
  next
    case False
    let ?l = "l @ [(args, False)]" and ?s = "snd (run ex args s)"
    show ?thesis
    proof (cases "alive (?l, ?s)")
      case True
      then obtain m where "l' = ?l @ m" "args_in {args} m" "length m \<le> n"
        using Suc.IH [of ?l ?s] Suc.prems False by (auto simp: Let_def)
      then show ?thesis by (intro exI [of _ "(args, False) # m"]) simp
    next
      case dead: False
      then show ?thesis using Suc.prems False by (auto simp: Let_def)
    qed
  qed
qed simp

lemma run_all_log:
  "run_all (log_ex ex) cs (l, s) = (r, l', s')
    \<Longrightarrow> \<exists>m. l' = l @ m \<and> args_in (fst ` set cs) m"
proof (induction cs arbitrary: l s)
  case (Cons c cs)
  obtain args e where c: "c = (args, e)" by (cases c)
  show ?case
  proof (cases "fst (run ex args s)")
    case True
    then have "run_all (log_ex ex) cs (l @ [(args, True)], snd (run ex args s)) = (r, l', s')"
      using Cons.prems c by (simp add: try_run_def Let_def)
    from Cons.IH [OF this] obtain m where "l' = l @ (args, True) # m" "args_in (fst ` set cs) m" by auto
    then show ?thesis
      using c by (intro exI [of _ "(args, True) # m"]) (auto intro: args_in_mono)
  next
    case False
    then show ?thesis using Cons.prems c by (auto simp: try_run_def Let_def)
  qed
qed simp

lemma run_all_length:
  "run_all (log_ex ex) cs (l, s) = (r, l', s') \<Longrightarrow> length l' \<le> length l + length cs"
proof (induction cs arbitrary: l s)
  case (Cons c cs)
  obtain args e where c: "c = (args, e)" by (cases c)
  show ?case
  proof (cases "fst (run ex args s)")
    case True
    then have "run_all (log_ex ex) cs (l @ [(args, True)], snd (run ex args s)) = (r, l', s')"
      using Cons.prems c by (simp add: try_run_def Let_def)
    from Cons.IH [OF this] show ?thesis by simp
  next
    case False
    then show ?thesis using Cons.prems c by (auto simp: try_run_def Let_def)
  qed
qed simp

definition delete_pair :: "string \<Rightarrow> string list" where
  "delete_pair cid = [''ip'', ''link'', ''delete'', host_if cid]"

lemma veth_commands_no_delete: "delete_pair cid \<notin> fst ` set (veth_commands cid pid ip bridge gateway p)"
  by (simp add: delete_pair_def veth_commands_def in_netns_def)

abbreviation add_veth :: "string \<Rightarrow> string list" where
  "add_veth cid \<equiv> [''ip'', ''link'', ''add'', host_if cid, ''type'', ''veth'', ''peer'', ''name'', cont_if cid]"

abbreviation move_veth :: "string \<Rightarrow> int \<Rightarrow> string list" where
  "move_veth cid pid \<equiv> [''ip'', ''link'', ''set'', cont_if cid, ''netns'', int_str pid]"

lemma move_veth_log:
  assumes "move_veth_to_netns (log_ex ex) alive (cont_if cid) pid ([a], s) = (mv, l, s')"
  shows "\<exists>m. l = a # m \<and> args_in {move_veth cid pid} m \<and> length m \<le> 50"
proof (cases "pid \<le> 0")
  case True
  then show ?thesis using assms by (auto simp: move_veth_to_netns_def)
next
  case False
  then show ?thesis
    using assms move_loop_log [of ex "alive pid" "move_veth cid pid" 50 "[a]" s mv l s']
    by (auto simp: move_veth_to_netns_def)
qed

lemma veth_log_no_delete:
  assumes "l2 = (add_veth cid, True) # m" and "args_in {move_veth cid pid} m"
    and "args_in (fst ` set (veth_commands cid pid ip bridge gateway p)) m3"
  shows "delete_pair cid \<notin> fst ` set (l2 @ m3)"
proof -
  have "delete_pair cid \<notin> fst ` set m" using args_in_notin [OF assms(2)] by (simp add: delete_pair_def)
  moreover have "delete_pair cid \<notin> fst ` set m3" using args_in_notin [OF assms(3)] veth_commands_no_delete by blast
  ultimately show ?thesis using assms(1) by (simp add: delete_pair_def image_Un)
qed

text \<open>
  C8. Attaching a container to a bridge undoes itself: on an error the last command deletes the
  pair, unless the pair could not be created, in which case nothing else was run; on success the
  pair is never deleted. Moving the interface is tried at most 50 times.
\<close>

theorem setup_veth_rollback:
  assumes "setup_veth_on_bridge (log_ex ex) alive cid pid ip bridge gateway p ([], s) = (res, l, s')"
  shows "case res of
      Inr _ \<Rightarrow> delete_pair cid \<notin> fst ` set l \<and> length l \<le> 59
    | Inl e \<Rightarrow> (e = CreateVethFailed \<and> length l = 1) \<or> (l \<noteq> [] \<and> fst (last l) = delete_pair cid)"
proof (cases "fst (run ex (add_veth cid) s)")
  case False
  then show ?thesis using assms by (auto simp: setup_veth_on_bridge_def try_run_def Let_def)
next
  case True
  let ?s1 = "([(add_veth cid, True)], snd (run ex (add_veth cid) s))"
  obtain mv l2 s2 where mv: "move_veth_to_netns (log_ex ex) alive (cont_if cid) pid ?s1 = (mv, l2, s2)"
    by (metis prod_cases3)
  obtain m where m: "l2 = (add_veth cid, True) # m" "args_in {move_veth cid pid} m" "length m \<le> 50"
    using move_veth_log [OF mv] by blast
  obtain r3 l3 s3 where r3: "run_all (log_ex ex) (veth_commands cid pid ip bridge gateway p) (l2, s2) = (r3, l3, s3)"
    by (metis prod_cases3)
  obtain m3 where m3: "l3 = l2 @ m3" "args_in (fst ` set (veth_commands cid pid ip bridge gateway p)) m3"
    using run_all_log [OF r3] by auto
  show ?thesis
  proof (cases "mv \<and> is_ok r3")
    case False
    then show ?thesis using assms True mv r3
      by (cases mv; cases r3) (auto simp: setup_veth_on_bridge_def try_run_def Let_def delete_pair_def split: prod.splits)
  next
    case ok: True
    then obtain u where u: "r3 = Inr u" by (auto simp: is_ok_iff)
    have "length m3 \<le> 7" using run_all_length [OF r3] m3(1) by (simp add: veth_commands_def)
    then show ?thesis using assms True mv ok u r3 m m3(1) veth_log_no_delete [OF m(1,2) m3(2)]
      by (auto simp: setup_veth_on_bridge_def try_run_def Let_def flush_bridge_neigh_def delete_pair_def)
  qed
qed

theorem setup_veth_rollback_witness:
  "fst (last (fst (snd (setup_veth_on_bridge
      (log_ex (\<lambda>args s. (''route'' \<notin> set args, [], s))) (\<lambda>_ _. True) ''0123456789'' 42 ''10.0.2.5''
      bridge_name bridge_ip ''24'' ([], ()))))) = delete_pair ''0123456789''"
  (is "fst (last (fst (snd ?r))) = _")
proof -
  have e: "fst ?r = Inl RouteFailed" by code_simp
  then have "?r = (Inl RouteFailed, fst (snd ?r), snd (snd ?r))" by (metis prod.collapse)
  from setup_veth_rollback [OF this] show ?thesis by simp
qed

section \<open>Policies\<close>

lemma rule_args_chain: "take (Suc 0) (drop 2 (rule_args chain r)) = [chain]"
  by (simp add: rule_args_def)

lemma apply_rule_log:
  "apply_rule (log_ex ex) chain t r (l, s)
    = (l @ [(rule_args chain r, fst (run ex (rule_args chain r) s))], run_ignored ex (rule_args chain r) s)"
  by (simp add: apply_rule_def)

lemma apply_rules_log:
  "\<exists>m. fst (fold (apply_rule (log_ex ex) chain t) rs (l, s)) = l @ m
    \<and> list_all (\<lambda>c. take 1 (drop 2 (fst c)) = [chain]) m"
proof (induction rs arbitrary: l s)
  case (Cons r rs)
  obtain m where "fst (fold (apply_rule (log_ex ex) chain t) rs (l @ [(rule_args chain r, fst (run ex (rule_args chain r) s))],
      run_ignored ex (rule_args chain r) s)) = l @ (rule_args chain r, fst (run ex (rule_args chain r) s)) # m"
    "list_all (\<lambda>c. take 1 (drop 2 (fst c)) = [chain]) m"
    using Cons.IH [of "l @ [(rule_args chain r, fst (run ex (rule_args chain r) s))]"] by auto
  then show ?case
    using rule_args_chain [of chain r]
    by (intro exI [of _ "(rule_args chain r, fst (run ex (rule_args chain r) s)) # m"])
      (simp add: apply_rule_log)
qed simp

text \<open>
  A network policy never takes effect: every command it runs is about its own chain, and
  none makes \<open>INPUT\<close>, \<open>OUTPUT\<close> or \<open>FORWARD\<close> jump to it.
\<close>

theorem policy_chain_unreferenced:
  "list_all (\<lambda>c. take 1 (drop 2 (fst c)) = [policy_chain (np_name p)])
     (fst (snd (apply_network_policy (log_ex ex) (Some p) ([], s))))"
proof -
  let ?c = "policy_chain (np_name p)"
  have app: "\<exists>m. fst (fold (apply_rule (log_ex ex) ?c t) rs st) = fst st @ m
      \<and> list_all (\<lambda>c. take 1 (drop 2 (fst c)) = [?c]) m" for t rs st
    using apply_rules_log [of ex ?c t rs "fst st" "snd st"] by simp
  obtain ok l1 s1 where c: "create_chain (log_ex ex) ?c ([], s) = (ok, l1, s1)" by (metis prod_cases3)
  have l1: "list_all (\<lambda>c. take 1 (drop 2 (fst c)) = [?c]) l1"
    using c by (auto simp: create_chain_def flush_chain_def Let_def split: bool.splits)
  let ?f1 = "fold (apply_rule (log_ex ex) ?c ''INPUT'') (np_ingress p) (l1, s1)"
  let ?f2 = "fold (apply_rule (log_ex ex) ?c ''OUTPUT'') (np_egress p) ?f1"
  have "list_all (\<lambda>c. take 1 (drop 2 (fst c)) = [?c]) (fst ?f2)"
    using l1 app [of "''INPUT''" "np_ingress p" "(l1, s1)"] app [of "''OUTPUT''" "np_egress p" ?f1] by auto
  then show ?thesis
    using c l1 by (cases ?f2; cases ok) (simp_all add: apply_network_policy_def Let_def)
qed

text \<open>The lines of \<open>ip -o link\<close> start with the interface's index, so no orphan is ever found.\<close>

lemma orphan_line_never_matches:
  "is_digit c \<Longrightarrow> orphan_link containers (c # line) = None"
  by (auto simp: orphan_link_def has_prefix_def is_digit_def Let_def)

end
