(* ===== verification/DockerProps.thy ===== *)
theory DockerProps
  imports Dockerfile GoTrim
begin

text \<open>
  Facts on the Dockerfile parser: its words are never longer than their input, shell quoting and
  instructions in exec form are read back as they were written, and the substitution of build
  arguments is the evaluation of a template.
\<close>

section \<open>Words\<close>

lemma flush_word_simps [simp]: "flush_word [] = []" "cur \<noteq> [] \<Longrightarrow> flush_word cur = [rev cur]"
  by (simp_all add: flush_word_def)

lemma split_quotes_bounded:
  "sum_list (map (\<lambda>w. length w + 1) (split_quotes sq dq esc cur s)) \<le> length cur + length s + 1
   \<and> [] \<notin> set (split_quotes sq dq esc cur s)"
proof (induction sq dq esc cur s rule: split_quotes.induct)
  case (1 sq dq esc cur)
  then show ?case by (simp add: flush_word_def)
next
  case (2 sq dq esc cur c s)
  then show ?case
    by (cases "cur = []") auto
qed

lemma sum_list_lengths: "sum_list (map (\<lambda>w. length w + 1) ws) = sum_list (map length ws) + length ws"
  by (induction ws) simp_all

text \<open>
  The words of a shell line are never longer in total than the line itself, separators
  included, for any bytes whatsoever: the tokenizer does not amplify its input.
\<close>

theorem split_shell_words_bounded:
  "sum_list (map length (split_shell_words s)) + length (split_shell_words s) \<le> length s + 1"
proof -
  have "length (unquote_word w) \<le> length w" for w by (simp add: unquote_word_def)
  then have "sum_list (map length (split_shell_words s)) \<le> sum_list (map length (split_space_respecting_quotes s))"
    unfolding split_shell_words_def by (simp add: sum_list_mono)
  with split_quotes_bounded [of False False False "[]" s] show ?thesis
    unfolding sum_list_lengths by (simp add: split_shell_words_def split_space_respecting_quotes_def)
qed

text \<open>Words in single quotes.\<close>

definition single_quote :: "string \<Rightarrow> string" where
  "single_quote w = [CHR 0x27] @ w @ [CHR 0x27]"

lemma split_quoted_body:
  "CHR 0x27 \<notin> set w \<Longrightarrow> split_quotes True False False cur (w @ s) = split_quotes True False False (rev w @ cur) s"
  by (induction w arbitrary: cur) auto

lemma split_single_quoted:
  assumes "CHR 0x27 \<notin> set w"
  shows "split_quotes False False False [] (single_quote w @ s)
    = split_quotes False False False (rev (single_quote w)) s"
  using assms by (simp add: single_quote_def split_quoted_body)

lemma split_shell_words_quoted:
  assumes "list_all (\<lambda>w. CHR 0x27 \<notin> set w) ws"
  shows "split_shell_words (str_join '' '' (map single_quote ws)) = ws"
proof -
  have "split_quotes False False False [] (str_join '' '' (map single_quote ws)) = map single_quote ws"
    using assms
  proof (induction ws)
    case (Cons w ws)
    show ?case
    proof (cases ws)
      case Nil
      then show ?thesis using Cons split_single_quoted [of w "[]"] by (simp add: single_quote_def flush_word_def)
    next
      case (Cons v vs)
      then have "str_join '' '' (map single_quote (w # ws)) = single_quote w @ CHR '' '' # str_join '' '' (map single_quote ws)"
        by simp
      then show ?thesis using Cons.IH Cons.prems
        by (simp add: split_single_quoted ascii_space_def) (simp add: single_quote_def flush_word_def)
    qed
  qed simp
  moreover have "unquote_word (single_quote w) = w" for w
    by (simp add: unquote_word_def single_quote_def)
  ultimately show ?thesis by (simp add: split_shell_words_def split_space_respecting_quotes_def comp_def)
qed


section \<open>Printing a Dockerfile in exec form\<close>

definition safe_char :: "char \<Rightarrow> bool" where
  "safe_char c \<longleftrightarrow> (plain_char c \<or> c = CHR '' '') \<and> c \<notin> {CHR 0x22, CHR 0x27, CHR 0x5C}"

definition safe_arg :: "string \<Rightarrow> bool" where
  "safe_arg a \<longleftrightarrow> a \<noteq> [] \<and> list_all safe_char a \<and> hd a \<noteq> CHR '' '' \<and> last a \<noteq> CHR '' ''"

definition keyword :: "instr_type \<Rightarrow> string" where
  "keyword t = (case find (\<lambda>p. snd p = t) instruction_types of None \<Rightarrow> [] | Some p \<Rightarrow> fst p)"

definition double_quote :: "string \<Rightarrow> string" where
  "double_quote a = [CHR 0x22] @ a @ [CHR 0x22]"

definition print_instruction :: "instr_type \<times> string list \<Rightarrow> string" where
  "print_instruction i = keyword (fst i) @ '' ['' @ str_join '', '' (map double_quote (snd i)) @ '']''"

lemma safe_arg_ends: "safe_arg a \<Longrightarrow> a \<noteq> [] \<and> plain_char (hd a) \<and> plain_char (last a)"
  using hd_in_set [of a] last_in_set [of a] unfolding safe_arg_def safe_char_def list_all_iff by blast

text \<open>The array of a printed instruction.\<close>

lemma json_quoted_body:
  "list_all safe_char a \<Longrightarrow> json_items False True False cur (a @ CHR 0x22 # s) = json_items False False False (rev a @ cur) s"
  by (induction a arbitrary: cur) (auto simp: safe_char_def)

lemma trim_bytes_keep: "a \<noteq> [] \<Longrightarrow> hd a \<notin> cs \<Longrightarrow> last a \<notin> cs \<Longrightarrow> trim_bytes a cs = a"
  by (simp add: trim_bytes_def dropWhile_eq_self_iff [THEN iffD2] hd_rev)

lemma json_item_arg:
  assumes "safe_arg a" and "cur \<in> {[], '' ''}"
  shows "json_item (rev a @ cur) = [a]"
proof -
  have "trim_space (rev (rev a @ cur)) = a"
    using assms safe_arg_ends [OF assms(1)]
    by (auto simp: trim_space_def trim_left_starts trim_right_ends)
  moreover have "trim_bytes a {CHR 0x22, CHR 0x27} = a"
    using assms(1) by (intro trim_bytes_keep) (auto simp: safe_arg_def safe_char_def list_all_iff)
  ultimately show ?thesis using assms(1) by (simp add: json_item_def safe_arg_def)
qed

lemma json_items_args:
  assumes "list_all safe_arg (a # args)" and "cur \<in> {[], '' ''}"
  shows "json_items False False False cur (str_join '', '' (map double_quote (a # args))) = a # args"
  using assms
proof (induction args arbitrary: a cur)
  case Nil
  then show ?case using json_item_arg [of a cur] json_quoted_body [of a cur "[]"]
    by (simp add: double_quote_def safe_arg_def)
next
  case (Cons b args)
  have a: "list_all safe_char a" "safe_arg a" using Cons.prems by (auto simp: safe_arg_def)
  have j: "str_join '', '' (map double_quote (a # b # args))
      = CHR 0x22 # a @ CHR 0x22 # CHR '','' # CHR '' '' # str_join '', '' (map double_quote (b # args))"
    by (simp add: double_quote_def)
  have "json_items False False False cur (str_join '', '' (map double_quote (a # b # args)))
      = json_item (rev a @ cur) @ json_items False False False '' '' (str_join '', '' (map double_quote (b # args)))"
    unfolding j by (simp add: json_quoted_body [OF a(1)] del: str_join.simps list.map)
  also have "\<dots> = a # b # args"
    using Cons.IH [of b "'' ''"] Cons.prems json_item_arg [OF a(2) Cons.prems(2)] by (simp del: str_join.simps list.map)
  finally show ?case .
qed

definition exec_form :: "string list \<Rightarrow> string" where
  "exec_form args = ''['' @ str_join '', '' (map double_quote args) @ '']''"

lemma exec_form_ends [simp]: "exec_form args \<noteq> []" "hd (exec_form args) = CHR ''[''" "last (exec_form args) = CHR '']''"
  by (simp_all add: exec_form_def)

lemma plain_brackets [simp]: "plain_char (CHR ''['')" "plain_char (CHR '']'')"
  by (simp_all add: plain_char_def)

lemma parse_exec_form:
  assumes "list_all safe_arg args"
  shows "parse_json_array (exec_form args) = args"
proof -
  have t: "trim_space (exec_form args) = exec_form args" by (rule trim_space_ends) simp_all
  have "has_prefix (exec_form args) ''[''" "has_suffix (exec_form args) '']''"
    by (simp_all add: exec_form_def has_prefix_def has_suffix_def suffix_def)
  moreover have "take (length (exec_form args) - 2) (drop 1 (exec_form args)) = str_join '', '' (map double_quote args)"
    by (simp add: exec_form_def)
  moreover have "json_items False False False [] (str_join '', '' (map double_quote args)) = args"
    using assms json_items_args [of "hd args" "tl args" "[]"]
    by (cases args) (simp_all add: json_item_def trim_space_def trim_right_def trim_left.simps trim_left_rev.simps trim_bytes_def)
  ultimately show ?thesis by (simp add: parse_json_array_def t)
qed

section \<open>Parsing it back\<close>

lemma print_exec: "print_instruction i = keyword (fst i) @ CHR '' '' # exec_form (snd i)"
  by (simp add: print_instruction_def exec_form_def)

lemma keyword_facts:
  "keyword t \<noteq> []" "list_all plain_char (keyword t)" "hd (keyword t) \<noteq> CHR ''#''" "hd (keyword t) \<noteq> CHR ''[''"
  "to_upper (keyword t) = keyword t" "map_of instruction_types (keyword t) = Some t"
  by (cases t; simp add: keyword_def instruction_types_def plain_char_def upper_char_def)+

lemma index_space_plain: "list_all plain_char w \<Longrightarrow> index_space (w @ CHR '' '' # s) = Some (length w)"
  by (induction w) simp_all

lemma print_ends:
  "print_instruction i \<noteq> [] \<and> hd (print_instruction i) = hd (keyword (fst i))
   \<and> plain_char (hd (print_instruction i)) \<and> last (print_instruction i) = CHR '']''"
proof -
  have "plain_char (hd (keyword (fst i)))"
    using keyword_facts(1,2) [of "fst i"] by (cases "keyword (fst i)") simp_all
  then show ?thesis using keyword_facts(1) [of "fst i"] by (simp add: print_exec)
qed

lemma trim_space_print: "trim_space (print_instruction i) = print_instruction i"
  using print_ends [of i] by (intro trim_space_ends) auto

lemma split_printed:
  assumes "list_all safe_arg (snd i)"
  shows "split_instruction (print_instruction i) = keyword (fst i) # snd i"
proof -
  let ?k = "keyword (fst i)" and ?e = "exec_form (snd i)"
  have "\<not> has_prefix (print_instruction i) ''[''"
    using print_ends [of i] keyword_facts(4) [of "fst i"] by (simp add: hd_prefix)
  moreover have "index_space (print_instruction i) = Some (length ?k)"
    using keyword_facts(2) by (simp add: print_exec index_space_plain)
  moreover have "trim_space (CHR '' '' # ?e) = ?e"
    by (simp add: trim_space_def trim_left_starts trim_right_ends)
  ultimately show ?thesis
    using parse_exec_form [OF assms] trim_space_print [of i]
    by (simp add: split_instruction_def print_exec hd_prefix)
qed

lemma parse_printed:
  assumes "list_all safe_arg (snd i)"
  shows "parse_instruction (print_instruction i)
    = Inr (Some \<lparr>in_type = fst i, in_args = snd i, in_raw = print_instruction i\<rparr>)"
  using keyword_facts(5,6) by (simp add: parse_instruction_def split_printed [OF assms])

definition as_printed :: "instr_type \<times> string list \<Rightarrow> instruction" where
  "as_printed i = \<lparr>in_type = fst i, in_args = snd i, in_raw = print_instruction i\<rparr>"

lemma parse_printed_lines:
  "list_all (\<lambda>i. list_all safe_arg (snd i)) is
    \<Longrightarrow> parse_lines n None (map print_instruction is) = Inr (map as_printed is)"
proof (induction "is" arbitrary: n)
  case (Cons i "is")
  let ?p = "print_instruction i"
  have t: "trim_right ?p = ?p" using print_ends [of i] by (simp add: trim_right_ends)
  have "\<not> has_suffix ?p [CHR 0x5C]" "\<not> has_prefix ?p ''#''" "?p \<noteq> []"
    using print_ends [of i] keyword_facts(3) [of "fst i"] by (simp_all add: last_suffix hd_prefix)
  then have "parse_lines n None (?p # map print_instruction is) =
      (case parse_instruction ?p of
         Inl kw \<Rightarrow> Inl (Suc n, kw)
       | Inr inst \<Rightarrow>
           (case parse_lines (Suc n) None (map print_instruction is) of
              Inl e \<Rightarrow> Inl e
            | Inr insts \<Rightarrow> Inr (case inst of None \<Rightarrow> insts | Some x \<Rightarrow> x # insts)))"
    by (simp add: t trim_space_print)
  then show ?case
    using Cons.IH [of "Suc n"] Cons.prems parse_printed [of i] by (simp add: as_printed_def)
qed simp

lemma set_str_join: "set (str_join sep ws) \<subseteq> set sep \<union> \<Union> (set ` set ws)"
  by (induction sep ws rule: str_join.induct) auto

lemma keyword_no_newline: "CHR 0x0A \<notin> set (keyword t)"
  by (cases t; simp add: keyword_def instruction_types_def)

lemma safe_char_no_newline: "safe_char c \<Longrightarrow> c \<noteq> CHR 0x0A"
  by (auto simp: safe_char_def plain_char_def)

lemma not_in_join: "c \<notin> set sep \<Longrightarrow> \<forall>w \<in> set ws. c \<notin> set w \<Longrightarrow> c \<notin> set (str_join sep ws)"
  using set_str_join [of sep ws] by blast

lemma no_newline:
  assumes "list_all safe_arg (snd i)"
  shows "CHR 0x0A \<notin> set (print_instruction i)"
proof -
  have "CHR 0x0A \<notin> set (double_quote a)" if "a \<in> set (snd i)" for a
  proof -
    have "list_all safe_char a" using that assms by (simp add: list_all_iff safe_arg_def)
    then have "CHR 0x0A \<notin> set a" using safe_char_no_newline by (auto simp: list_all_iff)
    then show ?thesis by (simp add: double_quote_def)
  qed
  then have "CHR 0x0A \<notin> set (str_join '', '' (map double_quote (snd i)))"
    by (intro not_in_join) simp_all
  then show ?thesis by (simp add: print_instruction_def keyword_no_newline)
qed



section \<open>Templates of build arguments\<close>

datatype segment = Lit string | Bare string | Braced string

fun render :: "segment \<Rightarrow> string" where
  "render (Lit s) = s"
| "render (Bare v) = CHR ''$'' # v"
| "render (Braced v) = CHR ''$'' # CHR ''{'' # v @ ''}''"

fun segment_value :: "(string \<times> string) list \<Rightarrow> segment \<Rightarrow> string" where
  "segment_value args (Lit s) = s"
| "segment_value args (Bare v) = arg_value args v"
| "segment_value args (Braced v) = arg_value args v"

text \<open>A name without braces must end where the next segment begins.\<close>

fun wf_template :: "segment list \<Rightarrow> bool" where
  "wf_template [] = True"
| "wf_template (Lit s # ts) = (CHR ''$'' \<notin> set s \<and> wf_template ts)"
| "wf_template (Bare v # ts) =
     (v \<noteq> [] \<and> list_all is_word_char v \<and> \<not> list_ex is_word_char (take 1 (concat (map render ts)))
      \<and> wf_template ts)"
| "wf_template (Braced v # ts) = (CHR ''}'' \<notin> set v \<and> wf_template ts)"

lemma expand_literal: "CHR ''$'' \<notin> set s \<Longrightarrow> expand_build_arg args (s @ t) = s @ expand_build_arg args t"
  by (induction s) auto

lemma take_while_word:
  "list_all P v \<Longrightarrow> \<not> list_ex P (take 1 t) \<Longrightarrow> takeWhile P (v @ t) = v \<and> dropWhile P (v @ t) = t"
  by (cases t) (auto simp: list_all_iff takeWhile_append dropWhile_append)

text \<open>
  C17. Substituting build arguments evaluates a template: literals stay, \<open>$name\<close> and \<open>${name}\<close>
  become the argument's value, and a name that is not an argument becomes empty.
\<close>

theorem expand_build_arg_template:
  assumes "wf_template ts"
  shows "expand_build_arg args (concat (map render ts)) = concat (map (segment_value args) ts)"
  using assms
proof (induction ts rule: wf_template.induct)
  case (3 v ts)
  let ?t = "concat (map render ts)"
  have w: "takeWhile is_word_char (v @ ?t) = v" "dropWhile is_word_char (v @ ?t) = ?t"
    using 3(2) take_while_word [of is_word_char v ?t] by simp_all
  have "\<not> has_prefix (v @ ?t) ''{''"
    using 3(2) by (cases v) (auto simp: has_prefix_def is_word_char_def is_digit_def)
  with 3 w show ?case by simp
next
  case (4 v ts)
  have "takeWhile (\<lambda>x. x \<noteq> CHR ''}'') (v @ CHR ''}'' # concat (map render ts)) = v"
    "dropWhile (\<lambda>x. x \<noteq> CHR ''}'') (v @ CHR ''}'' # concat (map render ts)) = CHR ''}'' # concat (map render ts)"
    using 4(2) by (auto simp: takeWhile_append dropWhile_append)
  with 4 show ?case by (simp add: has_prefix_def)
qed (auto simp: expand_literal)

theorem expand_build_arg_template_witness:
  "expand_build_arg [(''V'', ''3.19'')] (concat (map render [Lit ''alpine:'', Braced ''V'', Lit ''-'', Bare ''W'']))
   = ''alpine:3.19-''"
  using expand_build_arg_template [of "[Lit ''alpine:'', Braced ''V'', Lit ''-'', Bare ''W'']" "[(''V'', ''3.19'')]"]
  by (simp add: is_word_char_def arg_value_def)

end
