(* ===== verification/BuildBugs.thy ===== *)
theory BuildBugs
  imports BuildProps
begin

section \<open>The alias of a stage\<close>

lemma add_base_layers_fields:
  "add_base_layers e ref ls bs = Inr bs' \<Longrightarrow> bs_stages bs' = bs_stages bs
    \<and> cf_history (bs_config bs') = cf_history (bs_config bs) \<and> bs_rootfs bs' = bs_rootfs bs
    \<and> bs_written bs' = bs_written bs"
  by (induction e ref ls bs rule: add_base_layers.induct) (auto simp: add_layer_def split: if_splits)

lemma handle_from_fields:
  assumes "handle_from e (ref # rest) bs = Inr bs'"
  shows "bs_stages bs' = bs_stages (save_stage (stage_alias (ref # rest)) bs)
    \<and> cf_history (bs_config bs') = cf_history (bs_config (save_stage (stage_alias (ref # rest)) bs))
    \<and> (map_of (bs_stages bs') ref = None \<longrightarrow>
        (\<exists>name tag. be_pull e ref = Some (name, tag) \<and> bs_rootfs bs' = image_rootfs_dir (be_hash e) (be_data_dir e) name tag))"
  using assms
  by (auto simp: handle_from_def from_stage_def Let_def dest: add_base_layers_fields
      split: option.splits prod.splits if_splits)

lemma first_stage: "save_stage alias new_build = new_build"
  by (simp add: save_stage_def new_build_def new_config_def)

lemma new_build_stages [simp]: "bs_stages new_build = []"
  by (simp add: new_build_def)

lemma copy_flags_length: "copy_flags c f as = (c', f', bs) \<Longrightarrow> length bs \<le> length as"
  by (induction c f as rule: copy_flags.induct) (auto split: if_splits)

lemma copy_missing_stage:
  assumes "map_of (bs_stages bs) ''build'' = None"
  shows "\<exists>err. handle_copy e tmp [''--from=build'', src, dst] bs = Inl err"
proof -
  have f: "copy_flags [] [] [''--from=build'', src, dst] = copy_flags [] ''build'' [src, dst]"
    by (simp add: has_prefix_def trim_prefix_def)
  show ?thesis
  proof (cases "has_prefix src ''--''")
    case True
    then obtain c g where g: "copy_flags [] ''build'' [src, dst] = copy_flags c g [dst]"
      by (metis copy_flags.simps(2))
    obtain c' g' as where c: "copy_flags c g [dst] = (c', g', as)" by (metis prod_cases3)
    then have "length as < 2" using copy_flags_length by fastforce
    then have "handle_copy e tmp [''--from=build'', src, dst] bs = Inl CopyArgs"
      unfolding handle_copy_def f g c by simp
    then show ?thesis by blast
  next
    case False
    then have c: "copy_flags [] ''build'' [src, dst] = ([], ''build'', [src, dst])" by simp
    have "copy_source e (written p bs) ''build'' src = Inl (StageNotFound ''build'')" for p
      using assms by (simp add: copy_source_def)
    then show ?thesis unfolding handle_copy_def f c by (simp add: Let_def split: sum.splits)
  qed
qed

text \<open>
  The alias of a stage is never recorded: after \<open>FROM a AS build\<close> and \<open>FROM b\<close>, a
  \<open>COPY --from=build\<close> fails whatever the images hold, because the stage is saved under the
  alias of the \<open>FROM\<close> that follows it (here none, so \<open>stage_0\<close>).
\<close>

theorem copy_from_alias_fails:
  "\<exists>err. build_loop e run_env tmp
     [\<lparr>in_type = From, in_args = [a, ''AS'', ''build''], in_raw = r1\<rparr>,
      \<lparr>in_type = From, in_args = [b], in_raw = r2\<rparr>,
      \<lparr>in_type = Copy, in_args = [''--from=build'', src, dst], in_raw = r3\<rparr>] (new_build, []) = Inl err"
proof -
  let ?x = "expand_build_arg []"
  have lit: "?x ''build'' = ''build''" "?x ''AS'' = ''AS''" "?x ''--from=build'' = ''--from=build''"
    by simp_all
  show ?thesis
  proof (cases "handle_from e [?x a, ''AS'', ''build''] new_build")
    case (Inl err)
    then show ?thesis by (simp add: build_step_def substitute_args_def)
  next
    case (Inr bs1)
    let ?b1 = "record_history r1 bs1"
    have "bs_stages ?b1 = []" "cf_history (bs_config ?b1) \<noteq> []"
      using handle_from_fields [OF Inr] by (simp_all add: record_history_def first_stage)
    then have st: "map_of (bs_stages (save_stage (stage_alias [?x b]) ?b1)) ''build'' = None"
      by (simp add: save_stage_def stage_alias_def)
    show ?thesis
    proof (cases "handle_from e [?x b] ?b1")
      case Inl2: (Inl err)
      then show ?thesis using Inr by (simp add: build_step_def substitute_args_def)
    next
      case Inr2: (Inr bs2)
      then have "map_of (bs_stages (record_history r2 bs2)) ''build'' = None"
        using handle_from_fields [OF Inr2] st by (simp add: record_history_def)
      then obtain err where "handle_copy e tmp [''--from=build'', ?x src, ?x dst] (record_history r2 bs2) = Inl err"
        using copy_missing_stage by blast
      then show ?thesis using Inr Inr2 by (simp add: build_step_def substitute_args_def)
    qed
  qed
qed

section \<open>The rootfs of the base image\<close>

text \<open>
  A build changes its base image: after \<open>FROM ref\<close> the working rootfs is the stored rootfs
  of that image itself, and a \<open>RUN\<close> extracts its layer into it.
\<close>

theorem build_writes_base_image:
  assumes "build_loop e run_env tmp
     [\<lparr>in_type = From, in_args = [ref], in_raw = r1\<rparr>, \<lparr>in_type = Run, in_args = args, in_raw = r2\<rparr>]
     (new_build, build_args) = Inr bs"
    and "be_pull e (expand_build_arg build_args ref) = Some (name, tag)"
  shows "image_rootfs_dir (be_hash e) (be_data_dir e) name tag \<in> set (bs_written bs)"
proof -
  let ?ref = "expand_build_arg build_args ref" and ?args = "substitute_args args build_args"
  obtain bs1 bs2 where f: "handle_from e [?ref] new_build = Inr bs1"
    and h: "handle_run e run_env tmp ?args (record_history r1 bs1) = Inr bs2"
    and b: "bs_written bs = bs_written bs2"
    using assms(1) by (auto simp: build_step_def substitute_args_def record_history_def split: sum.splits)
  have "bs_rootfs bs1 = image_rootfs_dir (be_hash e) (be_data_dir e) name tag"
    using handle_from_fields [OF f] assms(2) by (simp add: first_stage)
  then have "bs_rootfs (record_history r1 bs1) = image_rootfs_dir (be_hash e) (be_data_dir e) name tag"
    by (simp add: record_history_def)
  moreover have "bs_rootfs (record_history r1 bs1) \<in> set (bs_written bs2)"
    using h by (auto simp: handle_run_def Let_def split: if_splits option.splits prod.splits)
  ultimately show ?thesis using b by simp
qed

definition sample_build_env :: build_env where
  "sample_build_env =
     \<lparr>be_hash = (\<lambda>x. ''00''), be_data_dir = ''/d'', be_context = ''/ctx'', be_pull = (\<lambda>r. Some (''library/alpine'', ''3'')),
      be_config = (\<lambda>n t. None), be_manifest = (\<lambda>n t. Some [(''sha256:aa'', 5)]), be_layers_cached = (\<lambda>n t. True),
      be_resolve = (\<lambda>d. True), be_missing = (\<lambda>p. False), be_exists = (\<lambda>p. True), be_mount = (\<lambda>l m. True),
      be_exec = (\<lambda>a v. True), be_layer = (\<lambda>d. Some (''sha256:bb'', 7)), be_extract = (\<lambda>d r. True),
      be_fs = \<lparr>fv_cwd = Some ''/'', fv_lstat = (\<lambda>p. NotThere), fv_eval = (\<lambda>p. Some p)\<rparr>,
      be_mkdir = (\<lambda>p. True), be_write = (\<lambda>p. True), be_copy = (\<lambda>a b. True)\<rparr>"

theorem build_writes_base_image_witness:
  "\<exists>bs. build_loop sample_build_env [] ''/d/build''
     [\<lparr>in_type = From, in_args = [''alpine''], in_raw = ''FROM alpine''\<rparr>,
      \<lparr>in_type = Run, in_args = [''touch'', ''/x''], in_raw = ''RUN touch /x''\<rparr>] (new_build, []) = Inr bs
   \<and> image_rootfs_dir (\<lambda>x. ''00'') ''/d'' ''library/alpine'' ''3'' \<in> set (bs_written bs)"
proof -
  let ?r = "build_loop sample_build_env [] ''/d/build''
     [\<lparr>in_type = From, in_args = [''alpine''], in_raw = ''FROM alpine''\<rparr>,
      \<lparr>in_type = Run, in_args = [''touch'', ''/x''], in_raw = ''RUN touch /x''\<rparr>] (new_build, [])"
  have "\<not> isl ?r" by code_simp
  then obtain bs where r: "?r = Inr bs" by (cases ?r) auto
  have "image_rootfs_dir (be_hash sample_build_env) (be_data_dir sample_build_env) ''library/alpine'' ''3''
      \<in> set (bs_written bs)"
    by (rule build_writes_base_image [OF r]) (simp add: sample_build_env_def)
  with r show ?thesis by (auto simp: sample_build_env_def)
qed


section \<open>The layers of a built image, and what COPY writes, on an example\<close>

theorem build_image_layers_witness:
  "\<exists>img. build_image sample_build_env [] ''app'' [] (''FROM a'' @ [CHR 0x0A] @ ''RUN b'') = Inr img
    \<and> cf_diff_ids (bi_config img) = map fst (bi_manifest img)"
proof -
  have "\<not> isl (build_image sample_build_env [] ''app'' [] (''FROM a'' @ [CHR 0x0A] @ ''RUN b''))" by code_simp
  then obtain img where "build_image sample_build_env [] ''app'' [] (''FROM a'' @ [CHR 0x0A] @ ''RUN b'') = Inr img"
    by (cases "build_image sample_build_env [] ''app'' [] (''FROM a'' @ [CHR 0x0A] @ ''RUN b'')") auto
  with build_image_layers [OF this] show ?thesis by blast
qed


end
