(* ===== verification/Cluster.thy ===== *)
theory Cluster
  imports AtomicWrite GoTime
begin

text \<open>
  The cluster a node belongs to (\<open>internal/orchestrator/cluster.go\<close>, \<open>types.go\<close>): its
  configuration in memory and in \<open>cluster.json\<close>, creating, joining and leaving a cluster, and the
  requests its peers send. What other nodes, the clock and the random generator answer is the
  record \<open>orch_env\<close>; each answer may depend on the events so far.
\<close>

section \<open>The data\<close>

datatype node_role = Leader | Worker
datatype node_state = NodeActive | NodeInactive | NodeLeft

record node =
  nd_id :: string
  nd_name :: string
  nd_address :: string
  nd_api_port :: int
  nd_role :: node_role
  nd_state :: node_state
  nd_cores :: int
  nd_mem_total :: int
  nd_mem_avail :: int
  nd_last_seen :: instant
  nd_joined :: instant

record service_port =
  sp_port :: int
  sp_target :: int
  sp_protocol :: string

record update_config =
  uc_parallelism :: int
  uc_delay :: int
  uc_failure_action :: string
  uc_order :: string

record service_health =
  sh_test :: "string list"
  sh_interval :: int
  sh_timeout :: int
  sh_retries :: int

text \<open>The number of CPUs is only copied; it is counted in thousandths. Labels may be a nil map.\<close>

record service =
  sv_name :: string
  sv_image :: string
  sv_replicas :: int
  sv_ports :: "service_port list"
  sv_env :: "(string \<times> string) list"
  sv_volumes :: "string list"
  sv_command :: string
  sv_restart :: string
  sv_memory :: string
  sv_cpus :: int
  sv_labels :: "(string \<times> string) list option"
  sv_created :: instant
  sv_updated :: instant
  sv_update :: "update_config option"
  sv_health :: "service_health option"

type_synonym services = "(string \<times> service) list"

record service_replica =
  rp_id :: string
  rp_service :: string
  rp_node :: string
  rp_container :: string
  rp_status :: string
  rp_created :: instant

record cluster_config =
  cc_id :: string
  cc_name :: string
  cc_node_id :: string
  cc_node_name :: string
  cc_bind_addr :: string
  cc_bind_port :: int
  cc_nodes :: "(string \<times> node) list"
  cc_services :: services
  cc_created :: instant

definition empty_config :: cluster_config where
  "empty_config = \<lparr>cc_id = [], cc_name = [], cc_node_id = [], cc_node_name = [], cc_bind_addr = [],
     cc_bind_port = 0, cc_nodes = [], cc_services = [], cc_created = 0\<rparr>"

text \<open>A JSON file: absent, unreadable, or the value it holds.\<close>

datatype 'a json_file = Absent | Unreadable | Json 'a

datatype orch_event =
    EvPulled string | EvStarted string string | EvScheduled string string | EvStopped string string
  | EvFailed | EvSlept | EvRequest string

text \<open>
  A process's memory (\<open>clusterConf\<close>, which services file it has loaded) and the files all
  processes of the node share. \<open>o_saves\<close> are the outcomes of the atomic writes to come, all
  successful once the list is used up; \<open>o_records\<close> holds the replica files of each service.
\<close>

record orch =
  o_conf :: cluster_config
  o_loaded_here :: bool
  o_loaded_file :: bool
  o_cluster_file :: "cluster_config json_file"
  o_backup_file :: "cluster_config json_file"
  o_services_file :: "services json_file"
  o_records :: "(string \<times> (string \<times> service_replica option) list) list"
  o_saves :: "write_outcome list"
  o_log :: "orch_event list"

text \<open>A process that has just started on the given files.\<close>

definition new_process :: "orch \<Rightarrow> orch" where
  "new_process s = s\<lparr>o_conf := empty_config, o_loaded_here := False, o_loaded_file := False\<rparr>"

record join_info =
  ji_id :: string
  ji_name :: string
  ji_nodes :: "(string \<times> node) list"
  ji_services :: services

text \<open>The answer to a request: none, or a status with the decoded body if it decodes.\<close>

datatype 'a answer = NoAnswer | Answer int "'a option"

record start_opts =
  so_image :: "string \<times> string"
  so_name :: string
  so_ports :: "(int \<times> int \<times> string) list"
  so_volumes :: "string list"
  so_env :: "string list"
  so_restart :: string
  so_cmd :: "string list"
  so_labels :: "(string \<times> string) list"
  so_memory :: int
  so_cpus :: int

datatype start_result = SaveFails | StartFails string | StartedAs string
datatype remove_result = LoadFails string | RemoveFails string | Removed

record orch_env =
  oe_now :: "orch_event list \<Rightarrow> instant"
  oe_cancelled :: "orch_event list \<Rightarrow> bool"
  oe_new_id :: "orch_event list \<Rightarrow> string"
  oe_dir_ok :: "orch_event list \<Rightarrow> bool"
  oe_hostname :: string
  oe_cores :: int
  oe_mem_total :: int
  oe_mem_avail :: int
  oe_join :: "orch_event list \<Rightarrow> string \<Rightarrow> join_info answer"
  oe_pull :: "orch_event list \<Rightarrow> string \<Rightarrow> (string \<times> string) option"
  oe_start :: "orch_event list \<Rightarrow> start_opts \<Rightarrow> start_result"
  oe_post :: "orch_event list \<Rightarrow> node \<Rightarrow> string \<Rightarrow> service \<Rightarrow> string answer"
  oe_delete :: "orch_event list \<Rightarrow> node \<Rightarrow> string \<Rightarrow> string + int"
  oe_remove_local :: "orch_event list \<Rightarrow> string \<Rightarrow> remove_result"
  oe_read_dir_fails :: "orch_event list \<Rightarrow> string \<Rightarrow> bool"
  oe_remove_fails :: "orch_event list \<Rightarrow> string \<Rightarrow> string \<Rightarrow> bool"

definition happened :: "orch_event \<Rightarrow> orch \<Rightarrow> orch" where
  "happened ev s = s\<lparr>o_log := o_log s @ [ev]\<rparr>"

section \<open>Loading and saving\<close>

text \<open>An empty map of labels is left out of the file and read back as nil.\<close>

definition json_service :: "service \<Rightarrow> service" where
  "json_service sv = (if sv_labels sv = Some [] then sv\<lparr>sv_labels := None\<rparr> else sv)"

definition json_services :: "services \<Rightarrow> services" where
  "json_services = map (\<lambda>(k, sv). (k, json_service sv))"

definition json_config :: "cluster_config \<Rightarrow> cluster_config" where
  "json_config c = c\<lparr>cc_services := json_services (cc_services c)\<rparr>"

text \<open>\<open>state.WriteFileAtomic\<close> below a directory that is created and made private first.\<close>

definition put_file :: "orch_env \<Rightarrow> (orch \<Rightarrow> orch) \<Rightarrow> orch \<Rightarrow> bool \<times> orch" where
  "put_file e upd s =
     (if \<not> oe_dir_ok e (o_log s) then (False, s)
      else case o_saves s of
        [] \<Rightarrow> (True, upd s)
      | w # ws \<Rightarrow>
          (w = Written, if w = NotWritten then s\<lparr>o_saves := ws\<rparr> else upd (s\<lparr>o_saves := ws\<rparr>)))"

definition save_cluster_config :: "orch_env \<Rightarrow> orch \<Rightarrow> bool \<times> orch" where
  "save_cluster_config e = put_file e (\<lambda>s. s\<lparr>o_cluster_file := Json (json_config (o_conf s))\<rparr>)"

datatype orch_err =
    NotInCluster | UnreadableState | AlreadyInCluster string | SaveFailed
  | JoinRequest string | JoinRejected string int | JoinDecode
  | NodeNotFound string | LoadLocal string string | RemoveLocal string string
  | RemoveRequest string string | RemoveStatus string int
  | NoAvailableNodes | NoActiveNodes | ImagePull string | BadVolume string
  | SaveContainer | StartContainer string | ScheduleRequest string | ScheduleDecode string | ScheduleStatus string int
  | ServiceExists string | ServiceNotFound string | NegativeReplicas | ListReplicas string
  | ReplicaRemoval string | ReplicaState string | Replacement string orch_err | OldReplica string orch_err
  | Cancelled

definition load_cluster_config :: "orch \<Rightarrow> (orch_err + unit) \<times> orch" where
  "load_cluster_config s =
     (case o_cluster_file s of
        Absent \<Rightarrow> (Inl NotInCluster, s)
      | Unreadable \<Rightarrow> (Inl UnreadableState, s)
      | Json cfg \<Rightarrow> (Inr (), s\<lparr>o_conf := cfg\<rparr>))"

section \<open>Creating, joining and leaving\<close>

definition local_node :: "orch_env \<Rightarrow> instant \<Rightarrow> string \<Rightarrow> string \<Rightarrow> string \<Rightarrow> int \<Rightarrow> node_role \<Rightarrow> node" where
  "local_node e now nid name addr port role =
     \<lparr>nd_id = nid, nd_name = name, nd_address = addr, nd_api_port = port, nd_role = role,
      nd_state = NodeActive, nd_cores = oe_cores e, nd_mem_total = oe_mem_total e,
      nd_mem_avail = oe_mem_total e, nd_last_seen = now, nd_joined = now\<rparr>"

definition add_node :: "node \<Rightarrow> orch \<Rightarrow> orch" where
  "add_node n s = s\<lparr>o_conf := (o_conf s)\<lparr>cc_nodes := aput (nd_id n) n (cc_nodes (o_conf s))\<rparr>\<rparr>"

text \<open>A node is a member when its configuration loads and names a cluster.\<close>

definition member :: "orch \<Rightarrow> bool" where
  "member s \<longleftrightarrow>
     (case load_cluster_config s of (Inl _, _) \<Rightarrow> False | (Inr _, s1) \<Rightarrow> cc_id (o_conf s1) \<noteq> [])"

text \<open>The two random identifiers are drawn one after the other.\<close>

definition init_cluster :: "orch_env \<Rightarrow> string \<Rightarrow> string \<Rightarrow> int \<Rightarrow> orch \<Rightarrow> (orch_err + unit) \<times> orch" where
  "init_cluster e name addr port s0 =
     (let s1 = snd (load_cluster_config s0) in
      if member s0 then (Inl (AlreadyInCluster (cc_id (o_conf s1))), s1)
      else
        let now = oe_now e (o_log s1);
            s2 = s1\<lparr>o_conf := (o_conf s1)\<lparr>cc_id := oe_new_id e (o_log s1), cc_name := name\<rparr>\<rparr>;
            s3 = happened (EvRequest ''id'') s2;
            s4 = s3\<lparr>o_conf := (o_conf s3)\<lparr>cc_node_id := oe_new_id e (o_log s3), cc_node_name := oe_hostname e,
                     cc_bind_addr := addr, cc_bind_port := port, cc_created := now\<rparr>\<rparr>;
            s5 = add_node (local_node e now (cc_node_id (o_conf s4)) (cc_node_name (o_conf s4)) addr port Leader) s4 in
        (case save_cluster_config e s5 of (ok, s6) \<Rightarrow> (if ok then Inr () else Inl SaveFailed, s6)))"

fun put_all :: "(string \<times> 'v) list \<Rightarrow> (string \<times> 'v) list \<Rightarrow> (string \<times> 'v) list" where
  "put_all [] m = m"
| "put_all ((k, v) # kvs) m = put_all kvs (aput k v m)"

definition join_cluster :: "orch_env \<Rightarrow> string \<Rightarrow> string \<Rightarrow> int \<Rightarrow> orch \<Rightarrow> (orch_err + unit) \<times> orch" where
  "join_cluster e peer addr port s0 =
     (let s1 = snd (load_cluster_config s0) in
      if member s0 then (Inl (AlreadyInCluster (cc_id (o_conf s1))), s1)
      else
        let nid = oe_new_id e (o_log s1); s2 = happened (EvRequest peer) s1 in
        (case oe_join e (o_log s1) peer of
           NoAnswer \<Rightarrow> (Inl (JoinRequest peer), s2)
         | Answer status body \<Rightarrow>
             if status \<noteq> 200 then (Inl (JoinRejected peer status), s2)
             else
               (case body of
                  None \<Rightarrow> (Inl JoinDecode, s2)
                | Some ji \<Rightarrow>
                    let conf = (o_conf s2)\<lparr>cc_id := ji_id ji, cc_name := ji_name ji, cc_node_id := nid,
                          cc_node_name := oe_hostname e, cc_bind_addr := addr, cc_bind_port := port,
                          cc_created := oe_now e (o_log s2),
                          cc_nodes := put_all (ji_nodes ji) (cc_nodes (o_conf s2)),
                          cc_services := put_all (ji_services ji) (cc_services (o_conf s2))\<rparr> in
                    (case save_cluster_config e (s2\<lparr>o_conf := conf\<rparr>) of
                       (ok, s3) \<Rightarrow> (if ok then Inr () else Inl SaveFailed, s3)))))"

text \<open>Leaving tells every peer, keeps a copy of the configuration, and starts an empty one.\<close>

definition leave_cluster :: "orch_env \<Rightarrow> orch \<Rightarrow> (orch_err + unit) \<times> orch" where
  "leave_cluster e s0 =
     (case load_cluster_config s0 of
        (Inl err, s1) \<Rightarrow> (Inl err, s1)
      | (Inr _, s1) \<Rightarrow>
          if cc_id (o_conf s1) = [] then (Inl NotInCluster, s1)
          else
            let peers = filter (\<lambda>(i, n). i \<noteq> cc_node_id (o_conf s1)) (cc_nodes (o_conf s1));
                s2 = fold (\<lambda>(i, n). happened (EvRequest (nd_id n))) peers s1 in
            (case put_file e (\<lambda>s. s\<lparr>o_backup_file := Json (json_config (o_conf s))\<rparr>) s2 of
               (False, s3) \<Rightarrow> (Inl SaveFailed, s3)
             | (True, s3) \<Rightarrow>
                 (case save_cluster_config e (s3\<lparr>o_conf := empty_config\<rparr>) of
                    (False, s4) \<Rightarrow> (Inl SaveFailed, s4\<lparr>o_conf := o_conf s3\<rparr>)
                  | (True, s4) \<Rightarrow> (Inr (), s4))))"

definition list_nodes :: "orch \<Rightarrow> (orch_err + node list) \<times> orch" where
  "list_nodes s =
     (case load_cluster_config s of
        (Inl err, s1) \<Rightarrow> (Inl err, s1)
      | (Inr _, s1) \<Rightarrow> (Inr (sort_key nd_joined (map snd (cc_nodes (o_conf s1)))), s1))"

definition get_node :: "orch \<Rightarrow> (orch_err + node option) \<times> orch" where
  "get_node s =
     (case load_cluster_config s of
        (Inl err, s1) \<Rightarrow> (Inl err, s1)
      | (Inr _, s1) \<Rightarrow>
          if cc_node_id (o_conf s1) = [] then (Inl NotInCluster, s1)
          else (Inr (map_of (cc_nodes (o_conf s1)) (cc_node_id (o_conf s1))), s1))"

definition get_cluster_info :: "orch \<Rightarrow> cluster_config \<times> orch" where
  "get_cluster_info s = (let s1 = snd (load_cluster_config s) in (o_conf s1, s1))"

definition get_my_address :: "orch \<Rightarrow> string \<Rightarrow> string" where
  "get_my_address s local_addr = (if cc_bind_addr (o_conf s) \<noteq> [] then cc_bind_addr (o_conf s) else local_addr)"

definition cluster_auth_header :: "string \<Rightarrow> string \<Rightarrow> string" where
  "cluster_auth_header token env_token =
     (let t = (if token = [] then env_token else token) in if t \<noteq> [] then ''Bearer '' @ t else [])"

section \<open>Requests of peers\<close>

text \<open>The decoded bodies; \<open>None\<close> stands for one that does not decode.\<close>

record join_request =
  jr_node_id :: string
  jr_node_name :: string
  jr_address :: string
  jr_api_port :: int

definition handle_join :: "orch_env \<Rightarrow> join_request option \<Rightarrow> orch \<Rightarrow> (int \<times> join_info option) \<times> orch" where
  "handle_join e body s =
     (case body of
        None \<Rightarrow> ((400, None), s)
      | Some r \<Rightarrow>
          let s1 = add_node (local_node e (oe_now e (o_log s)) (jr_node_id r) (jr_node_name r)
                     (jr_address r) (jr_api_port r) Worker) s in
          (case save_cluster_config e s1 of
             (False, s2) \<Rightarrow> ((500, None), s2)
           | (True, s2) \<Rightarrow>
               ((200, Some \<lparr>ji_id = cc_id (o_conf s2), ji_name = cc_name (o_conf s2),
                   ji_nodes = cc_nodes (o_conf s2), ji_services = json_services (cc_services (o_conf s2))\<rparr>), s2)))"

definition handle_leave :: "orch_env \<Rightarrow> string option \<Rightarrow> orch \<Rightarrow> int \<times> orch" where
  "handle_leave e body s =
     (case body of
        None \<Rightarrow> (400, s)
      | Some nid \<Rightarrow>
          (case map_of (cc_nodes (o_conf s)) nid of
             None \<Rightarrow> (200, s)
           | Some n \<Rightarrow>
               (case save_cluster_config e
                    (s\<lparr>o_conf := (o_conf s)\<lparr>cc_nodes := aput nid (n\<lparr>nd_state := NodeLeft\<rparr>) (cc_nodes (o_conf s))\<rparr>\<rparr>) of
                  (ok, s1) \<Rightarrow> (if ok then 200 else 500, s1))))"

text \<open>A heartbeat on the wire: where it goes, whom it reports and how much memory that one has.\<close>

record heartbeat =
  hb_address :: string
  hb_port :: int
  hb_node :: string
  hb_mem :: int

definition peers :: "cluster_config \<Rightarrow> node list" where
  "peers c = filter (\<lambda>n. nd_id n \<noteq> cc_node_id c \<and> nd_state n = NodeActive) (map snd (cc_nodes c))"

definition propagate_heartbeat :: "cluster_config \<Rightarrow> string \<Rightarrow> heartbeat list" where
  "propagate_heartbeat c nid =
     map (\<lambda>n. \<lparr>hb_address = nd_address n, hb_port = nd_api_port n, hb_node = nid, hb_mem = 0\<rparr>) (peers c)"

text \<open>The node's new configuration and the heartbeats it sends on.\<close>

definition handle_heartbeat :: "instant \<Rightarrow> (string \<times> int) option \<Rightarrow> cluster_config \<Rightarrow> int \<times> cluster_config \<times> heartbeat list" where
  "handle_heartbeat now body c =
     (case body of
        None \<Rightarrow> (400, c, [])
      | Some (nid, mem) \<Rightarrow>
          let c1 = (case map_of (cc_nodes c) nid of
                      None \<Rightarrow> c
                    | Some n \<Rightarrow>
                        c\<lparr>cc_nodes := aput nid (n\<lparr>nd_last_seen := now, nd_state := NodeActive,
                            nd_mem_avail := (if mem > 0 then mem else nd_mem_avail n)\<rparr>) (cc_nodes c)\<rparr>) in
          (200, c1, propagate_heartbeat c1 nid))"

definition send_heartbeat :: "orch_env \<Rightarrow> cluster_config \<Rightarrow> heartbeat list" where
  "send_heartbeat e c =
     (if cc_id c = [] \<or> cc_node_id c = [] then []
      else map (\<lambda>n. \<lparr>hb_address = nd_address n, hb_port = nd_api_port n, hb_node = cc_node_id c, hb_mem = oe_mem_avail e\<rparr>)
             (peers c))"

text \<open>The handler of cluster requests, by method and path.\<close>

datatype cluster_body = JoinBody "join_request option" | NodeBody "(string \<times> int) option"

definition cluster_handler ::
  "orch_env \<Rightarrow> string \<Rightarrow> string \<Rightarrow> cluster_body \<Rightarrow> orch \<Rightarrow> int \<times> join_info option \<times> orch" where
  "cluster_handler e meth path body s =
     (if meth = ''POST'' then
        (if has_suffix path ''/join'' then
           (case handle_join e (case body of JoinBody b \<Rightarrow> b | NodeBody _ \<Rightarrow> None) s of ((st, ji), s1) \<Rightarrow> (st, ji, s1))
         else if has_suffix path ''/leave'' then
           (case handle_leave e (case body of NodeBody b \<Rightarrow> map_option fst b | JoinBody _ \<Rightarrow> None) s of (st, s1) \<Rightarrow> (st, None, s1))
         else if has_suffix path ''/heartbeat'' then
           (case handle_heartbeat (oe_now e (o_log s)) (case body of NodeBody b \<Rightarrow> b | JoinBody _ \<Rightarrow> None) (o_conf s) of
              (st, c, _) \<Rightarrow> (st, None, s\<lparr>o_conf := c\<rparr>))
         else (404, None, s))
      else (200, None, s))"

text \<open>\<open>/proc/meminfo\<close>: the value of a field in bytes, 0 when it is not there.\<close>

fun meminfo_field :: "string \<Rightarrow> string list \<Rightarrow> int" where
  "meminfo_field key [] = 0"
| "meminfo_field key (l # ls) =
     (if has_prefix l key then
        (case str_fields l of
           _ # v # _ \<Rightarrow> (case scan_int v of None \<Rightarrow> meminfo_field key ls | Some n \<Rightarrow> n * 1024)
         | _ \<Rightarrow> meminfo_field key ls)
      else meminfo_field key ls)"

definition mem_total :: "string \<Rightarrow> int" where
  "mem_total meminfo = meminfo_field ''MemTotal:'' (split_byte (CHR 0x0A) meminfo)"

definition mem_avail :: "string \<Rightarrow> int" where
  "mem_avail meminfo = meminfo_field ''MemAvailable:'' (split_byte (CHR 0x0A) meminfo)"

end
