(* ===== verification/Services.thy ===== *)
theory Services
  imports Cluster Dockerfile Volumes "HOL-Library.List_Lexorder" "HOL-Library.Char_ord"
begin

text \<open>
  Services and their replicas (\<open>internal/orchestrator/service.go\<close>, \<open>scheduler.go\<close>): the service
  definitions, the record kept of every replica, placing a replica on a node, healing,
  reconciling and rolling updates. A service that the code updates through a pointer is
  returned with its new value.
\<close>

section \<open>The services file\<close>

definition set_services :: "services \<Rightarrow> orch \<Rightarrow> orch" where
  "set_services m s = s\<lparr>o_conf := (o_conf s)\<lparr>cc_services := m\<rparr>\<rparr>"

definition mem_services :: "orch \<Rightarrow> services" where
  "mem_services s = cc_services (o_conf s)"

text \<open>Without a file the services in memory are kept only if they were never saved.\<close>

definition load_services :: "orch_env \<Rightarrow> orch \<Rightarrow> (orch_err + unit) \<times> orch" where
  "load_services e s =
     (if \<not> oe_dir_ok e (o_log s) then (Inl UnreadableState, s)
      else case o_services_file s of
        Unreadable \<Rightarrow> (Inl UnreadableState, s)
      | Absent \<Rightarrow>
          (Inr (), (set_services (if \<not> o_loaded_here s \<or> o_loaded_file s then [] else mem_services s) s)
             \<lparr>o_loaded_here := True, o_loaded_file := False\<rparr>)
      | Json m \<Rightarrow> (Inr (), (set_services m s)\<lparr>o_loaded_here := True, o_loaded_file := True\<rparr>))"

definition save_services :: "orch_env \<Rightarrow> orch \<Rightarrow> (orch_err + unit) \<times> orch" where
  "save_services e s =
     (case put_file e (\<lambda>s. s\<lparr>o_services_file := Json (json_services (mem_services s))\<rparr>) s of
        (False, s1) \<Rightarrow> (Inl SaveFailed, s1)
      | (True, s1) \<Rightarrow> (Inr (), s1\<lparr>o_loaded_here := True, o_loaded_file := True\<rparr>))"

section \<open>Creating, listing and scaling services\<close>

record service_opts =
  op_ports :: "service_port list option"
  op_env :: "(string \<times> string) list option"
  op_volumes :: "string list option"
  op_command :: string
  op_restart :: string
  op_memory :: string
  op_cpus :: int
  op_labels :: "(string \<times> string) list option"
  op_update :: "update_config option"
  op_health :: "service_health option"

definition no_opts :: service_opts where
  "no_opts = \<lparr>op_ports = None, op_env = None, op_volumes = None, op_command = [], op_restart = [],
     op_memory = [], op_cpus = 0, op_labels = None, op_update = None, op_health = None\<rparr>"

definition or_else :: "'a option \<Rightarrow> 'a \<Rightarrow> 'a" where
  "or_else o1 d = (case o1 of None \<Rightarrow> d | Some x \<Rightarrow> x)"

definition or_option :: "'a option \<Rightarrow> 'a option \<Rightarrow> 'a option" where
  "or_option o1 d = (case o1 of None \<Rightarrow> d | Some x \<Rightarrow> Some x)"

definition or_string :: "string \<Rightarrow> string \<Rightarrow> string" where
  "or_string s d = (if s \<noteq> [] then s else d)"

definition new_service :: "instant \<Rightarrow> string \<Rightarrow> string \<Rightarrow> int \<Rightarrow> service_opts \<Rightarrow> service" where
  "new_service now name img replicas opts =
     \<lparr>sv_name = name, sv_image = img, sv_replicas = replicas, sv_ports = or_else (op_ports opts) [],
      sv_env = or_else (op_env opts) [], sv_volumes = or_else (op_volumes opts) [],
      sv_command = op_command opts, sv_restart = op_restart opts, sv_memory = op_memory opts,
      sv_cpus = op_cpus opts, sv_labels = op_labels opts, sv_created = now, sv_updated = now,
      sv_update = op_update opts, sv_health = op_health opts\<rparr>"

definition create_service ::
  "orch_env \<Rightarrow> string \<Rightarrow> string \<Rightarrow> int \<Rightarrow> service_opts \<Rightarrow> orch \<Rightarrow> (orch_err + service) \<times> orch" where
  "create_service e name img replicas opts s =
     (case load_services e s of
        (Inl err, s1) \<Rightarrow> (Inl err, s1)
      | (Inr _, s1) \<Rightarrow>
          if map_of (mem_services s1) name \<noteq> None then (Inl (ServiceExists name), s1)
          else
            let sv = new_service (oe_now e (o_log s1)) name img replicas opts in
            (case save_services e (set_services (aput name sv (mem_services s1)) s1) of
               (Inl err, s2) \<Rightarrow> (Inl err, set_services (adel name (mem_services s2)) s2)
             | (Inr _, s2) \<Rightarrow> (Inr sv, s2)))"

definition list_services :: "orch_env \<Rightarrow> orch \<Rightarrow> (orch_err + service list) \<times> orch" where
  "list_services e s =
     (case load_services e s of
        (Inl err, s1) \<Rightarrow> (Inl err, s1)
      | (Inr _, s1) \<Rightarrow> (Inr (sort_key sv_created (map snd (mem_services s1))), s1))"

definition get_service :: "orch_env \<Rightarrow> string \<Rightarrow> orch \<Rightarrow> (orch_err + service) \<times> orch" where
  "get_service e name s =
     (case load_services e s of
        (Inl err, s1) \<Rightarrow> (Inl err, s1)
      | (Inr _, s1) \<Rightarrow>
          (case map_of (mem_services s1) name of
             None \<Rightarrow> (Inl (ServiceNotFound name), s1) | Some sv \<Rightarrow> (Inr sv, s1)))"

definition scale_service :: "orch_env \<Rightarrow> string \<Rightarrow> int \<Rightarrow> orch \<Rightarrow> (orch_err + service) \<times> orch" where
  "scale_service e name replicas s =
     (case get_service e name s of
        (Inl err, s1) \<Rightarrow> (Inl err, s1)
      | (Inr sv, s1) \<Rightarrow>
          if replicas < 0 then (Inl NegativeReplicas, s1)
          else
            let sv1 = sv\<lparr>sv_replicas := replicas, sv_updated := oe_now e (o_log s1)\<rparr> in
            (case save_services e (set_services (aput name sv1 (mem_services s1)) s1) of
               (Inl err, s2) \<Rightarrow> (Inl err, s2)
             | (Inr _, s2) \<Rightarrow> (Inr sv1, s2)))"

section \<open>The records of replicas\<close>

text \<open>A directory lists its files by name.\<close>

definition dir_put :: "string \<Rightarrow> 'v \<Rightarrow> (string \<times> 'v) list \<Rightarrow> (string \<times> 'v) list" where
  "dir_put k v d = insort_key fst (k, v) (adel k d)"

definition replica_file :: "string \<Rightarrow> string" where
  "replica_file rid = rid @ ''.json''"

definition record_dir :: "orch \<Rightarrow> string \<Rightarrow> (string \<times> service_replica option) list" where
  "record_dir s name = or_else (map_of (o_records s) name) []"

text \<open>A file that is not a replica's, or does not parse, is passed over.\<close>

definition readable_replicas :: "(string \<times> service_replica option) list \<Rightarrow> service_replica list" where
  "readable_replicas d = List.map_filter (\<lambda>(f, r). if has_suffix f ''.json'' then r else None) d"

definition get_service_replicas :: "orch_env \<Rightarrow> string \<Rightarrow> orch \<Rightarrow> orch_err + service_replica list" where
  "get_service_replicas e name s =
     (case map_of (o_records s) name of
        None \<Rightarrow> Inr []
      | Some d \<Rightarrow> if oe_read_dir_fails e (o_log s) name then Inl (ListReplicas name) else Inr (readable_replicas d))"

text \<open>The callers that ignore the error see no replicas then.\<close>

definition known_replicas :: "orch_env \<Rightarrow> string \<Rightarrow> orch \<Rightarrow> service_replica list" where
  "known_replicas e name s = (case get_service_replicas e name s of Inl _ \<Rightarrow> [] | Inr rs \<Rightarrow> rs)"

definition running_count :: "service_replica list \<Rightarrow> nat" where
  "running_count rs = length (filter (\<lambda>r. rp_status r = ''running'') rs)"

definition new_replica :: "instant \<Rightarrow> string \<Rightarrow> string \<Rightarrow> string \<Rightarrow> string \<Rightarrow> service_replica" where
  "new_replica now name rid cid nid =
     \<lparr>rp_id = rid, rp_service = name, rp_node = nid, rp_container = cid, rp_status = ''running'', rp_created = now\<rparr>"

definition file_replica :: "string \<Rightarrow> service_replica \<Rightarrow> orch \<Rightarrow> orch" where
  "file_replica name r s =
     s\<lparr>o_records := aput name (dir_put (replica_file (rp_id r)) (Some r) (record_dir s name)) (o_records s)\<rparr>"

definition save_replica :: "orch_env \<Rightarrow> string \<Rightarrow> string \<Rightarrow> string \<Rightarrow> string \<Rightarrow> orch \<Rightarrow> orch" where
  "save_replica e name rid cid nid s =
     snd (put_file e (file_replica name (new_replica (oe_now e (o_log s)) name rid cid nid)) s)"

definition drop_record :: "string \<Rightarrow> string \<Rightarrow> orch \<Rightarrow> orch" where
  "drop_record name rid s =
     (case map_of (o_records s) name of
        None \<Rightarrow> s
      | Some d \<Rightarrow> s\<lparr>o_records := aput name (adel (replica_file rid) d) (o_records s)\<rparr>)"

text \<open>\<open>os.Remove\<close> of a replica's file: only an error other than its absence counts.\<close>

definition remove_record :: "orch_env \<Rightarrow> string \<Rightarrow> string \<Rightarrow> orch \<Rightarrow> bool \<times> orch" where
  "remove_record e name rid s =
     (if oe_remove_fails e (o_log s) name rid then (False, s) else (True, drop_record name rid s))"

definition remove_replica_state :: "orch_env \<Rightarrow> string \<Rightarrow> string \<Rightarrow> orch \<Rightarrow> orch" where
  "remove_replica_state e name rid s = snd (remove_record e name rid s)"

section \<open>Placing a replica\<close>

definition short_id :: "string \<Rightarrow> nat \<Rightarrow> string" where
  "short_id i n = (if n = 0 \<or> length i \<le> n then i else take n i)"

definition replica_port :: "service_port \<Rightarrow> int \<times> int \<times> string" where
  "replica_port p =
     (if sp_port p = 0 then sp_target p else sp_port p, sp_target p,
      if sp_protocol p = [] then ''tcp'' else sp_protocol p)"

definition bad_volume :: "string list \<Rightarrow> string option" where
  "bad_volume vs = find (\<lambda>v. parse_volume_spec (trim_space v) = None) vs"

definition replica_opts ::
  "string \<times> string \<Rightarrow> string \<Rightarrow> string \<Rightarrow> (string \<times> string) list \<Rightarrow> service \<Rightarrow> start_opts" where
  "replica_opts img name rid labels sv =
     \<lparr>so_image = img, so_name = name @ ''.'' @ short_id rid 8, so_ports = map replica_port (sv_ports sv),
      so_volumes = sv_volumes sv, so_env = map (\<lambda>(k, v). k @ ''='' @ v) (sv_env sv),
      so_restart = (if sv_restart sv = [] then ''always'' else sv_restart sv),
      so_cmd = (if sv_command sv \<noteq> [] then split_shell_words (sv_command sv) else []),
      so_labels = labels, so_memory = 0, so_cpus = 0\<rparr>"

text \<open>
  \<open>startLocalReplica\<close>; the label is written into the service's own map when it has one.
\<close>

definition start_local_replica ::
  "orch_env \<Rightarrow> string \<Rightarrow> service \<Rightarrow> orch \<Rightarrow> (orch_err + unit) \<times> service \<times> orch" where
  "start_local_replica e name sv s =
     (case oe_pull e (o_log s) (sv_image sv) of
        None \<Rightarrow> (Inl (ImagePull (sv_image sv)), sv, happened EvFailed s)
      | Some img \<Rightarrow>
          let s1 = happened (EvPulled (sv_image sv)) s in
          (case bad_volume (sv_volumes sv) of
             Some v \<Rightarrow> (Inl (BadVolume v), sv, s1)
           | None \<Rightarrow>
               let labels = aput ''dck.service'' name (or_else (sv_labels sv) []);
                   sv1 = (if sv_labels sv = None then sv else sv\<lparr>sv_labels := Some labels\<rparr>);
                   rid = oe_new_id e (o_log s1);
                   opts = replica_opts img name rid labels sv in
               (case oe_start e (o_log s1) opts of
                  SaveFails \<Rightarrow> (Inl SaveContainer, sv1, happened EvFailed s1)
                | StartFails msg \<Rightarrow> (Inl (StartContainer msg), sv1, happened EvFailed s1)
                | StartedAs cid \<Rightarrow>
                    (Inr (), sv1, save_replica e name rid cid (cc_node_id (o_conf s1)) (happened (EvStarted name cid) s1)))))"

definition start_remote_replica ::
  "orch_env \<Rightarrow> string \<Rightarrow> service \<Rightarrow> node \<Rightarrow> orch \<Rightarrow> (orch_err + unit) \<times> orch" where
  "start_remote_replica e name sv n s =
     (let rid = oe_new_id e (o_log s) in
      case oe_post e (o_log s) n rid sv of
        NoAnswer \<Rightarrow> (Inl (ScheduleRequest (nd_name n)), happened EvFailed s)
      | Answer status None \<Rightarrow> (Inl (ScheduleDecode (nd_name n)), happened EvFailed s)
      | Answer status (Some cid) \<Rightarrow>
          if status \<noteq> 200 \<and> status \<noteq> 201 then (Inl (ScheduleStatus (nd_name n) status), happened EvFailed s)
          else (Inr (), save_replica e name rid cid (nd_id n) (happened (EvScheduled (nd_id n) cid) s)))"

text \<open>The active nodes, this one last.\<close>

definition active_nodes :: "node list \<Rightarrow> orch \<Rightarrow> node list \<times> orch" where
  "active_nodes nodes s =
     (let others = filter (\<lambda>n. nd_state n = NodeActive \<and> nd_id n \<noteq> cc_node_id (o_conf s)) nodes in
      case get_node s of
        (Inr (Some n), s1) \<Rightarrow> (if nd_state n = NodeActive then others @ [n] else others, s1)
      | (_, s1) \<Rightarrow> (others, s1))"

definition schedule_replica ::
  "orch_env \<Rightarrow> string \<Rightarrow> service \<Rightarrow> orch \<Rightarrow> (orch_err + unit) \<times> service \<times> orch" where
  "schedule_replica e name sv s =
     (case list_nodes s of
        (Inl _, s1) \<Rightarrow> (Inl NoAvailableNodes, sv, s1)
      | (Inr [], s1) \<Rightarrow> (Inl NoAvailableNodes, sv, s1)
      | (Inr nodes, s1) \<Rightarrow>
          (case active_nodes nodes s1 of
             ([], s2) \<Rightarrow> (Inl NoActiveNodes, sv, s2)
           | (active, s2) \<Rightarrow>
               let target = hd (sort_key (\<lambda>n. - nd_mem_avail n) active) in
               if nd_id target = cc_node_id (o_conf s2) then start_local_replica e name sv s2
               else (case start_remote_replica e name sv target s2 of (r, s3) \<Rightarrow> (r, sv, s3))))"

definition remove_remote_replica :: "orch_env \<Rightarrow> string \<Rightarrow> string \<Rightarrow> orch \<Rightarrow> (orch_err + unit) \<times> orch" where
  "remove_remote_replica e nid cid s =
     (case map_of (cc_nodes (o_conf s)) nid of
        None \<Rightarrow> (Inl (NodeNotFound nid), s)
      | Some n \<Rightarrow>
          if nid = cc_node_id (o_conf s) then
            (case oe_remove_local e (o_log s) cid of
               LoadFails msg \<Rightarrow> (Inl (LoadLocal cid msg), happened EvFailed s)
             | RemoveFails msg \<Rightarrow> (Inl (RemoveLocal cid msg), happened EvFailed s)
             | Removed \<Rightarrow> (Inr (), happened (EvStopped nid cid) s))
          else
            (case oe_delete e (o_log s) n cid of
               Inl msg \<Rightarrow> (Inl (RemoveRequest (nd_name n) msg), happened EvFailed s)
             | Inr status \<Rightarrow>
                 if status \<noteq> 200 \<and> status \<noteq> 204 \<and> status \<noteq> 404
                 then (Inl (RemoveStatus (nd_name n) status), happened EvFailed s)
                 else (Inr (), happened (EvStopped nid cid) s)))"

text \<open>The text of the errors of a removal, which \<open>RemoveService\<close> looks into.\<close>

definition removal_text :: "orch_err \<Rightarrow> string" where
  "removal_text err =
     (case err of
        NodeNotFound n \<Rightarrow> ''node '' @ n @ '' not found''
      | LoadLocal c msg \<Rightarrow> ''load local container '' @ c @ '': '' @ msg
      | RemoveLocal c msg \<Rightarrow> ''remove local container '' @ c @ '': '' @ msg
      | RemoveRequest n msg \<Rightarrow> ''remove on '' @ n @ '': '' @ msg
      | RemoveStatus n st \<Rightarrow> ''remove on '' @ n @ '': status '' @ int_str st
      | _ \<Rightarrow> [])"

section \<open>Removing and updating a service\<close>

fun remove_replicas :: "orch_env \<Rightarrow> string \<Rightarrow> service_replica list \<Rightarrow> orch \<Rightarrow> (orch_err + unit) \<times> orch" where
  "remove_replicas e name [] s = (Inr (), s)"
| "remove_replicas e name (r # rs) s =
     (case remove_remote_replica e (rp_node r) (rp_container r) s of
        (res, s1) \<Rightarrow>
          if (case res of Inl err \<Rightarrow> \<not> str_contains (removal_text err) ''not found'' | Inr _ \<Rightarrow> False)
          then (Inl (ReplicaRemoval (rp_id r)), s1)
          else
            (case remove_record e name (rp_id r) s1 of
               (False, s2) \<Rightarrow> (Inl (ReplicaState (rp_id r)), s2)
             | (True, s2) \<Rightarrow> remove_replicas e name rs s2))"

definition remove_service :: "orch_env \<Rightarrow> string \<Rightarrow> orch \<Rightarrow> (orch_err + unit) \<times> orch" where
  "remove_service e name s =
     (case get_service e name s of
        (Inl err, s1) \<Rightarrow> (Inl err, s1)
      | (Inr _, s1) \<Rightarrow>
          (case get_service_replicas e name s1 of
             Inl err \<Rightarrow> (Inl err, s1)
           | Inr rs \<Rightarrow>
               (case remove_replicas e name rs s1 of
                  (Inl err, s2) \<Rightarrow> (Inl err, s2)
                | (Inr _, s2) \<Rightarrow>
                    (case load_services e s2 of
                       (Inl err, s3) \<Rightarrow> (Inl err, s3)
                     | (Inr _, s3) \<Rightarrow> save_services e (set_services (adel name (mem_services s3)) s3)))))"

text \<open>One replica of a rolling update, in either order.\<close>

definition roll_replica ::
  "orch_env \<Rightarrow> string \<Rightarrow> string \<Rightarrow> string \<Rightarrow> service_replica \<Rightarrow> service \<Rightarrow> orch \<Rightarrow> (orch_err + unit) \<times> service \<times> orch" where
  "roll_replica e name img order r sv s =
     (let place = (\<lambda>s. case schedule_replica e name (sv\<lparr>sv_image := img\<rparr>) s of
                         (res, sv1, s1) \<Rightarrow> (res, sv\<lparr>sv_labels := sv_labels sv1\<rparr>, s1)) in
      if oe_cancelled e (o_log s) then (Inl Cancelled, sv, s)
      else if order = ''start-first'' then
        (case place s of
           (Inl err, sv1, s1) \<Rightarrow> (Inl (Replacement (rp_id r) err), sv1, s1)
         | (Inr _, sv1, s1) \<Rightarrow>
             (case remove_remote_replica e (rp_node r) (rp_container r) s1 of
                (Inl err, s2) \<Rightarrow> (Inl (OldReplica (rp_id r) err), sv1, s2)
              | (Inr _, s2) \<Rightarrow> (Inr (), sv1, remove_replica_state e name (rp_id r) s2)))
      else
        (case remove_remote_replica e (rp_node r) (rp_container r) s of
           (Inl err, s1) \<Rightarrow> (Inl (OldReplica (rp_id r) err), sv, s1)
         | (Inr _, s1) \<Rightarrow>
             (case place s1 of
                (Inl err, sv1, s2) \<Rightarrow> (Inl (Replacement (rp_id r) err), sv1, s2)
              | (Inr _, sv1, s2) \<Rightarrow> (Inr (), sv1, remove_replica_state e name (rp_id r) s2))))"

fun roll_batch ::
  "orch_env \<Rightarrow> string \<Rightarrow> string \<Rightarrow> string \<Rightarrow> service_replica list \<Rightarrow> service \<Rightarrow> orch \<Rightarrow> (orch_err + unit) \<times> service \<times> orch" where
  "roll_batch e name img order [] sv s = (Inr (), sv, s)"
| "roll_batch e name img order (r # rs) sv s =
     (case roll_replica e name img order r sv s of
        (Inl err, sv1, s1) \<Rightarrow> (Inl err, sv1, s1)
      | (Inr _, sv1, s1) \<Rightarrow> roll_batch e name img order rs sv1 s1)"

text \<open>Batches of \<open>Suc p\<close> replicas, with a pause in between when one is configured.\<close>

function roll_batches ::
  "orch_env \<Rightarrow> string \<Rightarrow> string \<Rightarrow> string \<Rightarrow> nat \<Rightarrow> bool \<Rightarrow> service_replica list \<Rightarrow> service \<Rightarrow> orch
     \<Rightarrow> (orch_err + unit) \<times> service \<times> orch" where
  "roll_batches e name img order p pause rs sv s =
     (if rs = [] then (Inr (), sv, s)
      else
        (case roll_batch e name img order (take (Suc p) rs) sv s of
           (Inl err, sv1, s1) \<Rightarrow> (Inl err, sv1, s1)
         | (Inr _, sv1, s1) \<Rightarrow>
             if pause \<and> drop (Suc p) rs \<noteq> [] then
               (if oe_cancelled e (o_log s1) then (Inl Cancelled, sv1, s1)
                else roll_batches e name img order p pause (drop (Suc p) rs) sv1 (happened EvSlept s1))
             else roll_batches e name img order p pause (drop (Suc p) rs) sv1 s1))"
  by pat_completeness auto
termination by (relation "measure (\<lambda>(e, name, img, order, p, pause, rs, sv, s). length rs)") auto

declare roll_batches.simps [simp del]

definition parallelism :: "service \<Rightarrow> nat" where
  "parallelism sv = (case sv_update sv of None \<Rightarrow> 1 | Some u \<Rightarrow> if uc_parallelism u > 0 then nat (uc_parallelism u) else 1)"

definition update_pause :: "service \<Rightarrow> bool" where
  "update_pause sv = (case sv_update sv of None \<Rightarrow> False | Some u \<Rightarrow> uc_delay u > 0)"

definition update_order :: "service \<Rightarrow> string" where
  "update_order sv = (case sv_update sv of None \<Rightarrow> ''stop-first'' | Some u \<Rightarrow> if uc_order u \<noteq> [] then uc_order u else ''stop-first'')"

definition rolling_update_service :: "orch_env \<Rightarrow> string \<Rightarrow> string \<Rightarrow> orch \<Rightarrow> (orch_err + unit) \<times> orch" where
  "rolling_update_service e name img s =
     (case get_service e name s of
        (Inl err, s1) \<Rightarrow> (Inl err, s1)
      | (Inr sv, s1) \<Rightarrow>
          (case roll_batches e name img (update_order sv) (parallelism sv - 1) (update_pause sv) (known_replicas e name s1) sv s1 of
             (Inl err, sv1, s2) \<Rightarrow> (Inl err, s2)
           | (Inr _, sv1, s2) \<Rightarrow>
               let sv2 = sv1\<lparr>sv_image := img, sv_updated := oe_now e (o_log s2)\<rparr> in
               save_services e (set_services (aput name sv2 (mem_services s2)) s2)))"

definition update_service ::
  "orch_env \<Rightarrow> string \<Rightarrow> string \<Rightarrow> service_opts \<Rightarrow> orch \<Rightarrow> (orch_err + service) \<times> orch" where
  "update_service e name img opts s =
     (if oe_cancelled e (o_log s) then (Inl Cancelled, s)
      else case get_service e name s of
        (Inl err, s1) \<Rightarrow> (Inl err, s1)
      | (Inr sv, s1) \<Rightarrow>
          let sv1 = sv\<lparr>sv_ports := or_else (op_ports opts) (sv_ports sv), sv_env := or_else (op_env opts) (sv_env sv),
                sv_volumes := or_else (op_volumes opts) (sv_volumes sv), sv_command := or_string (op_command opts) (sv_command sv),
                sv_restart := or_string (op_restart opts) (sv_restart sv), sv_update := or_option (op_update opts) (sv_update sv),
                sv_updated := oe_now e (o_log s1)\<rparr> in
          (case save_services e (set_services (aput name sv1 (mem_services s1)) s1) of
             (Inl err, s2) \<Rightarrow> (Inl err, s2)
           | (Inr _, s2) \<Rightarrow>
               if img \<noteq> [] \<and> img \<noteq> sv_image sv then
                 (case rolling_update_service e name img s2 of
                    (Inl err, s3) \<Rightarrow> (Inl err, s3) | (Inr _, s3) \<Rightarrow> get_service e name s3)
               else get_service e name s2))"

section \<open>Healing and reconciling\<close>

text \<open>Scheduling \<open>n\<close> replicas; the flag tells whether the context was cancelled.\<close>

fun heal_loop :: "orch_env \<Rightarrow> string \<Rightarrow> nat \<Rightarrow> service \<Rightarrow> orch \<Rightarrow> bool \<times> orch" where
  "heal_loop e name 0 sv s = (False, s)"
| "heal_loop e name (Suc n) sv s =
     (if oe_cancelled e (o_log s) then (True, s)
      else case schedule_replica e name sv s of
        (_, sv1, s1) \<Rightarrow>
          if oe_cancelled e (o_log s1) then (True, s1) else heal_loop e name n sv1 (happened EvSlept s1))"

fun heal_services :: "orch_env \<Rightarrow> services \<Rightarrow> orch \<Rightarrow> orch" where
  "heal_services e [] s = s"
| "heal_services e ((name, sv) # svs) s =
     (case heal_loop e name (nat (sv_replicas sv) - running_count (known_replicas e name s)) sv s of
        (True, s1) \<Rightarrow> s1 | (False, s1) \<Rightarrow> heal_services e svs s1)"

definition auto_heal_services :: "orch_env \<Rightarrow> orch \<Rightarrow> orch" where
  "auto_heal_services e s = heal_services e (mem_services s) s"

fun reconcile_scale_up :: "orch_env \<Rightarrow> string \<Rightarrow> nat \<Rightarrow> service \<Rightarrow> orch \<Rightarrow> orch" where
  "reconcile_scale_up e name 0 sv s = s"
| "reconcile_scale_up e name (Suc n) sv s =
     (if oe_cancelled e (o_log s) then s
      else case schedule_replica e name sv s of (_, sv1, s1) \<Rightarrow> reconcile_scale_up e name n sv1 s1)"

fun scale_down_loop :: "orch_env \<Rightarrow> string \<Rightarrow> service_replica list \<Rightarrow> orch \<Rightarrow> orch" where
  "scale_down_loop e name [] s = s"
| "scale_down_loop e name (r # rs) s =
     (if oe_cancelled e (o_log s) then s
      else case remove_remote_replica e (rp_node r) (rp_container r) s of
        (Inl _, s1) \<Rightarrow> scale_down_loop e name rs s1
      | (Inr _, s1) \<Rightarrow> scale_down_loop e name rs (snd (remove_record e name (rp_id r) s1)))"

text \<open>The newest go first, whatever their status.\<close>

definition reconcile_scale_down :: "orch_env \<Rightarrow> string \<Rightarrow> service_replica list \<Rightarrow> nat \<Rightarrow> orch \<Rightarrow> orch" where
  "reconcile_scale_down e name rs n s = scale_down_loop e name (take n (sort_key (\<lambda>r. - rp_created r) rs)) s"

definition reconcile_service :: "orch_env \<Rightarrow> string \<Rightarrow> service \<Rightarrow> orch \<Rightarrow> orch" where
  "reconcile_service e name sv s =
     (let rs = known_replicas e name s; running = int (running_count rs) in
      if running < sv_replicas sv then reconcile_scale_up e name (nat (sv_replicas sv - running)) sv s
      else if running > sv_replicas sv then reconcile_scale_down e name rs (nat (running - sv_replicas sv)) s
      else s)"

definition reconcile_services :: "orch_env \<Rightarrow> orch \<Rightarrow> orch" where
  "reconcile_services e s = fold (\<lambda>(name, sv). reconcile_service e name sv) (mem_services s) s"

end
