(* ===== verification/ServiceProps.thy ===== *)
theory ServiceProps
  imports Services
begin

text \<open>
  Facts on services: what every operation keeps of the replica records, what removing a service
  and updating one leave behind, and that reconciling reaches the number of replicas asked for.
\<close>

section \<open>Frames\<close>

lemma happened_simps [simp]:
  "o_conf (happened ev s) = o_conf s" "o_records (happened ev s) = o_records s"
  "o_saves (happened ev s) = o_saves s" "o_log (happened ev s) = o_log s @ [ev]"
  "o_cluster_file (happened ev s) = o_cluster_file s" "o_services_file (happened ev s) = o_services_file s"
  by (simp_all add: happened_def)

lemma set_services_simps [simp]:
  "o_records (set_services m s) = o_records s" "o_log (set_services m s) = o_log s"
  "o_saves (set_services m s) = o_saves s" "o_cluster_file (set_services m s) = o_cluster_file s"
  "o_services_file (set_services m s) = o_services_file s" "mem_services (set_services m s) = m"
  "cc_nodes (o_conf (set_services m s)) = cc_nodes (o_conf s)"
  "cc_node_id (o_conf (set_services m s)) = cc_node_id (o_conf s)"
  by (simp_all add: set_services_def mem_services_def)

text \<open>Loading and saving services touch neither the replicas nor the nodes.\<close>

lemma load_services_frame:
  assumes "load_services e s = (r, s')"
  shows "o_records s' = o_records s \<and> o_log s' = o_log s \<and> o_saves s' = o_saves s
       \<and> o_cluster_file s' = o_cluster_file s \<and> o_services_file s' = o_services_file s
       \<and> cc_nodes (o_conf s') = cc_nodes (o_conf s) \<and> cc_node_id (o_conf s') = cc_node_id (o_conf s)"
  using assms by (auto simp: load_services_def split: if_splits json_file.splits)

lemma get_service_frame:
  assumes "get_service e name s = (r, s')"
  shows "o_records s' = o_records s \<and> o_log s' = o_log s \<and> o_saves s' = o_saves s
       \<and> o_cluster_file s' = o_cluster_file s \<and> o_services_file s' = o_services_file s
       \<and> cc_nodes (o_conf s') = cc_nodes (o_conf s) \<and> cc_node_id (o_conf s') = cc_node_id (o_conf s)"
  using assms load_services_frame [of e s "fst (load_services e s)" "snd (load_services e s)"]
  by (auto simp: get_service_def split: prod.splits sum.splits option.splits)

lemma save_services_frame:
  assumes "save_services e s = (r, s')"
  shows "o_records s' = o_records s \<and> o_log s' = o_log s \<and> o_cluster_file s' = o_cluster_file s \<and> o_conf s' = o_conf s"
  using assms by (auto simp: save_services_def put_file_def split: if_splits list.splits prod.splits bool.splits)

lemma save_services_written:
  assumes "save_services e s = (Inr (), s')"
  shows "o_services_file s' = Json (json_services (mem_services s))"
  using assms
  by (auto simp: save_services_def put_file_def mem_services_def split: if_splits list.splits prod.splits bool.splits)

section \<open>Directories of records\<close>

lemma set_insort [simp]: "set (insort_key f x xs) = insert x (set xs)"
  by (induction xs) auto

lemma dir_put_set: "set (dir_put k v d) = insert (k, v) (set (adel k d))"
  by (simp add: dir_put_def)

lemma insort_distinct:
  "distinct (map fst (insort_key fst (k, v) d)) \<longleftrightarrow> distinct (map fst d) \<and> k \<notin> fst ` set d"
  by (induction d) auto

lemma dir_put_distinct [simp]: "distinct (map fst d) \<Longrightarrow> distinct (map fst (dir_put k v d))"
  by (simp add: dir_put_def insort_distinct)

lemma replica_file_json [simp]: "has_suffix (replica_file rid) ''.json''"
  by (simp add: replica_file_def has_suffix_def suffix_def)

lemma replica_file_inj [simp]: "replica_file a = replica_file b \<longleftrightarrow> a = b"
  by (simp add: replica_file_def)

text \<open>A record is filed under its identifier and its service, and says that it runs.\<close>

definition record_ok :: "string \<Rightarrow> string \<times> service_replica option \<Rightarrow> bool" where
  "record_ok name p =
     (case snd p of
        None \<Rightarrow> True
      | Some r \<Rightarrow> fst p = replica_file (rp_id r) \<and> rp_service r = name \<and> rp_status r = ''running'')"

definition dir_ok :: "string \<Rightarrow> (string \<times> service_replica option) list \<Rightarrow> bool" where
  "dir_ok name d \<longleftrightarrow> distinct (map fst d) \<and> list_all (record_ok name) d"

definition records_ok :: "orch \<Rightarrow> bool" where
  "records_ok s \<longleftrightarrow> list_all (\<lambda>(name, d). dir_ok name d) (o_records s)"

lemma dir_ok_Nil [simp]: "dir_ok name []"
  by (simp add: dir_ok_def)

lemma dir_ok_adel: "dir_ok name d \<Longrightarrow> dir_ok name (adel k d)"
  by (auto simp: dir_ok_def list_all_iff adel_def distinct_map_filter)

lemma dir_ok_put:
  "dir_ok name d \<Longrightarrow> rp_service r = name \<Longrightarrow> rp_status r = ''running''
   \<Longrightarrow> dir_ok name (dir_put (replica_file (rp_id r)) (Some r) d)"
  by (auto simp: dir_ok_def list_all_iff dir_put_set adel_def record_ok_def)

lemma list_all_aput: "P (k, v) \<Longrightarrow> list_all P m \<Longrightarrow> list_all P (aput k v m)"
  by (induction k v m rule: aput.induct) auto

lemma records_ok_dir: "records_ok s \<Longrightarrow> dir_ok name (record_dir s name)"
  by (auto simp: records_ok_def record_dir_def or_else_def list_all_iff dest!: map_of_SomeD split: option.splits)

lemma records_ok_aput:
  "records_ok s \<Longrightarrow> dir_ok name d \<Longrightarrow> o_records s' = aput name d (o_records s) \<Longrightarrow> records_ok s'"
  by (simp add: records_ok_def list_all_aput)

text \<open>The invariant reads the records only.\<close>

lemma records_ok_cong: "o_records s' = o_records s \<Longrightarrow> records_ok s' \<longleftrightarrow> records_ok s"
  by (simp add: records_ok_def)

lemma put_file_cases:
  assumes "put_file e upd s = (ok, s')"
  shows "s' = s \<or> (\<exists>ws. s' = s\<lparr>o_saves := ws\<rparr>) \<or> s' = upd s \<or> (\<exists>ws. s' = upd (s\<lparr>o_saves := ws\<rparr>))"
  using assms by (auto simp: put_file_def split: if_splits list.splits)

lemma new_replica_simps [simp]:
  "rp_id (new_replica now name rid cid nid) = rid" "rp_service (new_replica now name rid cid nid) = name"
  "rp_status (new_replica now name rid cid nid) = ''running''"
  by (simp_all add: new_replica_def)

lemma file_replica_simps [simp]:
  "o_conf (file_replica name r s) = o_conf s" "o_log (file_replica name r s) = o_log s"
  "o_saves (file_replica name r s) = o_saves s" "o_cluster_file (file_replica name r s) = o_cluster_file s"
  by (simp_all add: file_replica_def)

lemma records_ok_file_replica:
  "records_ok s \<Longrightarrow> rp_service r = name \<Longrightarrow> rp_status r = ''running'' \<Longrightarrow> records_ok (file_replica name r s)"
  by (rule records_ok_aput [where d = "dir_put (replica_file (rp_id r)) (Some r) (record_dir s name)"])
     (simp_all add: file_replica_def dir_ok_put records_ok_dir)

lemma records_ok_put_file:
  assumes "records_ok s" and "\<And>t. records_ok t \<Longrightarrow> records_ok (upd t)"
  shows "records_ok (snd (put_file e upd s))"
proof -
  have "records_ok (s\<lparr>o_saves := ws\<rparr>)" for ws using assms(1) by (simp add: records_ok_def)
  with assms show ?thesis by (simp add: put_file_def split: list.splits)
qed

lemma records_ok_save_replica [simp]: "records_ok s \<Longrightarrow> records_ok (save_replica e name rid cid nid s)"
  unfolding save_replica_def by (intro records_ok_put_file records_ok_file_replica) simp_all

lemma records_ok_drop [simp]:
  assumes "records_ok s"
  shows "records_ok (drop_record name rid s)"
proof (cases "map_of (o_records s) name")
  case (Some d)
  have "dir_ok name d" using records_ok_dir [OF assms, of name] Some by (simp add: record_dir_def or_else_def)
  from records_ok_aput [OF assms dir_ok_adel [OF this, of "replica_file rid"]] Some show ?thesis
    by (simp add: drop_record_def)
qed (simp add: drop_record_def assms)

lemma records_ok_remove [simp]: "records_ok s \<Longrightarrow> records_ok (snd (remove_record e name rid s))"
  by (simp add: remove_record_def)

lemma records_ok_happened [simp]: "records_ok (happened ev s) \<longleftrightarrow> records_ok s"
  by (simp add: records_ok_def)

lemma records_ok_set_services [simp]: "records_ok (set_services m s) \<longleftrightarrow> records_ok s"
  by (simp add: records_ok_def)

section \<open>What scheduling keeps\<close>

lemma load_cluster_frame:
  assumes "load_cluster_config s = (r, s')"
  shows "o_records s' = o_records s \<and> o_log s' = o_log s \<and> o_saves s' = o_saves s \<and> o_cluster_file s' = o_cluster_file s"
  using assms by (auto simp: load_cluster_config_def split: json_file.splits)

lemma list_nodes_frame:
  assumes "list_nodes s = (r, s')"
  shows "o_records s' = o_records s \<and> o_log s' = o_log s \<and> o_saves s' = o_saves s \<and> o_cluster_file s' = o_cluster_file s"
  using assms load_cluster_frame [OF surjective_pairing, of s]
  by (auto simp: list_nodes_def split: prod.splits sum.splits)

lemma get_node_frame:
  assumes "get_node s = (r, s')"
  shows "o_records s' = o_records s \<and> o_log s' = o_log s \<and> o_saves s' = o_saves s \<and> o_cluster_file s' = o_cluster_file s"
  using assms load_cluster_frame [OF surjective_pairing, of s]
  by (auto simp: get_node_def split: prod.splits sum.splits if_splits)

lemma active_nodes_frame:
  assumes "active_nodes nodes s = (ns, s')"
  shows "o_records s' = o_records s \<and> o_log s' = o_log s \<and> o_saves s' = o_saves s \<and> o_cluster_file s' = o_cluster_file s"
  using assms get_node_frame [OF surjective_pairing, of s]
  by (auto simp: active_nodes_def Let_def split: prod.splits sum.splits option.splits if_splits)

lemma records_ok_local:
  assumes "records_ok s" and "start_local_replica e name sv s = (r, sv', s')"
  shows "records_ok s'"
  using assms by (auto simp: start_local_replica_def Let_def split: option.splits start_result.splits if_splits)

lemma records_ok_remote:
  assumes "records_ok s" and "start_remote_replica e name sv n s = (r, s')"
  shows "records_ok s'"
  using assms by (auto simp: start_remote_replica_def Let_def split: answer.splits option.splits if_splits)

lemma records_ok_schedule:
  assumes "records_ok s" and "schedule_replica e name sv s = (r, sv', s')"
  shows "records_ok s'"
proof -
  obtain r1 s1 where l: "list_nodes s = (r1, s1)" by (metis surj_pair)
  have 1: "records_ok s1" using list_nodes_frame [OF l] assms(1) records_ok_cong by blast
  show ?thesis
  proof (cases "r1 = Inr [] \<or> (\<exists>err. r1 = Inl err)")
    case True
    then show ?thesis using assms(2) l 1 by (auto simp: schedule_replica_def)
  next
    case False
    then obtain n ns where r1: "r1 = Inr (n # ns)" by (cases r1) (auto simp: neq_Nil_conv)
    obtain as s2 where a: "active_nodes (n # ns) s1 = (as, s2)" by (metis surj_pair)
    have 2: "records_ok s2" using active_nodes_frame [OF a] 1 records_ok_cong by blast
    show ?thesis
      using assms(2) l r1 a 2
      by (cases as) (auto simp: schedule_replica_def Let_def split: if_splits prod.splits
            dest: records_ok_local [OF 2] records_ok_remote [OF 2])
  qed
qed

lemma remove_remote_frame:
  assumes "remove_remote_replica e nid cid s = (r, s')"
  shows "o_records s' = o_records s \<and> o_conf s' = o_conf s \<and> o_saves s' = o_saves s
       \<and> o_cluster_file s' = o_cluster_file s \<and> o_services_file s' = o_services_file s"
  using assms by (auto simp: remove_remote_replica_def split: option.splits if_splits remove_result.splits sum.splits)

lemma records_ok_remove_remote:
  "records_ok s \<Longrightarrow> remove_remote_replica e nid cid s = (r, s') \<Longrightarrow> records_ok s'"
  using remove_remote_frame records_ok_cong by blast

lemma records_ok_remove_replicas:
  "records_ok s \<Longrightarrow> remove_replicas e name rs s = (r, s') \<Longrightarrow> records_ok s'"
proof (induction rs arbitrary: s)
  case (Cons x rs)
  obtain r1 s1 where rm: "remove_remote_replica e (rp_node x) (rp_container x) s = (r1, s1)" by (metis surj_pair)
  obtain ok s2 where rr: "remove_record e name (rp_id x) s1 = (ok, s2)" by (metis surj_pair)
  have 1: "records_ok s1" by (rule records_ok_remove_remote [OF Cons.prems(1) rm])
  have 2: "records_ok s2" using records_ok_remove [OF 1, of e name "rp_id x"] rr by simp
  show ?case
    using Cons.prems(2) rm rr 1 2 Cons.IH [OF 2] by (auto split: if_splits bool.splits)
qed simp

lemma records_ok_get: "records_ok s \<Longrightarrow> get_service e name s = (r, s') \<Longrightarrow> records_ok s'"
  using get_service_frame records_ok_cong by blast

lemma records_ok_load: "records_ok s \<Longrightarrow> load_services e s = (r, s') \<Longrightarrow> records_ok s'"
  using load_services_frame records_ok_cong by blast

lemma records_ok_save: "records_ok s \<Longrightarrow> save_services e s = (r, s') \<Longrightarrow> records_ok s'"
  using save_services_frame records_ok_cong by blast

lemma records_ok_save_snd [simp]: "records_ok s \<Longrightarrow> records_ok (snd (save_services e s))"
  by (rule records_ok_save [OF _ surjective_pairing])

lemma records_ok_remove_service:
  assumes "records_ok s" shows "records_ok (snd (remove_service e name s))"
proof -
  obtain r1 s1 where g: "get_service e name s = (r1, s1)" by (metis surj_pair)
  have 1: "records_ok s1" by (rule records_ok_get [OF assms g])
  show ?thesis
  proof (cases "(\<exists>err. r1 = Inl err) \<or> (\<exists>err. get_service_replicas e name s1 = Inl err)")
    case True
    then show ?thesis by (auto simp: remove_service_def g 1 split: sum.splits)
  next
    case False
    then obtain sv rs where r1: "r1 = Inr sv" and rs: "get_service_replicas e name s1 = Inr rs"
      by (cases r1; cases "get_service_replicas e name s1") auto
    obtain r2 s2 where rr: "remove_replicas e name rs s1 = (r2, s2)" by (metis surj_pair)
    have 2: "records_ok s2" by (rule records_ok_remove_replicas [OF 1 rr])
    obtain r3 s3 where l: "load_services e s2 = (r3, s3)" by (metis surj_pair)
    have 3: "records_ok s3" by (rule records_ok_load [OF 2 l])
    show ?thesis by (simp add: remove_service_def g r1 rs rr l 2 3 split: sum.split)
  qed
qed

lemma records_ok_place:
  assumes "records_ok s"
  shows "records_ok (snd (snd (schedule_replica e name sv s)))"
  by (rule records_ok_schedule [OF assms, of e name sv "fst (schedule_replica e name sv s)" "fst (snd (schedule_replica e name sv s))"]) simp

lemma records_ok_roll_replica:
  assumes "records_ok s" and "roll_replica e name img order r sv s = (res, sv', s')"
  shows "records_ok s'"
proof -
  obtain p svp sp where p: "schedule_replica e name (sv\<lparr>sv_image := img\<rparr>) s = (p, svp, sp)" by (metis surj_pair)
  have 1: "records_ok sp" by (rule records_ok_schedule [OF assms(1) p])
  obtain q sq where q: "remove_remote_replica e (rp_node r) (rp_container r) sp = (q, sq)" by (metis surj_pair)
  have 2: "records_ok sq" by (rule records_ok_remove_remote [OF 1 q])
  obtain a sa where a: "remove_remote_replica e (rp_node r) (rp_container r) s = (a, sa)" by (metis surj_pair)
  have 3: "records_ok sa" by (rule records_ok_remove_remote [OF assms(1) a])
  obtain b svb sb where b: "schedule_replica e name (sv\<lparr>sv_image := img\<rparr>) sa = (b, svb, sb)" by (metis surj_pair)
  have 4: "records_ok sb" by (rule records_ok_schedule [OF 3 b])
  have rm: "records_ok (remove_replica_state e name (rp_id r) t)" if "records_ok t" for t
    using that by (simp add: remove_replica_state_def)
  show ?thesis
    using assms(2) rm [OF 2] rm [OF 4] 1 2 3 4 assms(1)
    by (auto simp: roll_replica_def Let_def p q a b split: if_splits sum.splits)
qed

lemma records_ok_roll_batch:
  "records_ok s \<Longrightarrow> roll_batch e name img order rs sv s = (res, sv', s') \<Longrightarrow> records_ok s'"
proof (induction rs arbitrary: sv s)
  case (Cons r rs)
  obtain a sva sa where a: "roll_replica e name img order r sv s = (a, sva, sa)" by (metis surj_pair)
  have 1: "records_ok sa" by (rule records_ok_roll_replica [OF Cons.prems(1) a])
  show ?case using Cons.prems(2) a 1 Cons.IH [OF 1, of sva] by (auto split: sum.splits)
qed simp

lemma records_ok_roll_batches:
  "records_ok s \<Longrightarrow> roll_batches e name img order p pause rs sv s = (res, sv', s') \<Longrightarrow> records_ok s'"
proof (induction "length rs" arbitrary: rs sv s rule: less_induct)
  case less
  show ?case
  proof (cases "rs = []")
    case True
    then show ?thesis using less.prems by (simp add: roll_batches.simps)
  next
    case False
    obtain a sva sa where a: "roll_batch e name img order (take (Suc p) rs) sv s = (a, sva, sa)" by (metis surj_pair)
    have 1: "records_ok sa" by (rule records_ok_roll_batch [OF less.prems(1) a])
    then have 2: "records_ok (happened EvSlept sa)" by simp
    have len: "length (drop (Suc p) rs) < length rs" using False by (cases rs) auto
    show ?thesis
      using less.prems(2) False a 1 less.hyps [OF len 1] less.hyps [OF len 2]
      by (subst (asm) roll_batches.simps) (auto split: sum.splits if_splits)
  qed
qed

lemma records_ok_rolling_update:
  assumes "records_ok s" shows "records_ok (snd (rolling_update_service e name img s))"
proof -
  obtain r1 s1 where g: "get_service e name s = (r1, s1)" by (metis surj_pair)
  have 1: "records_ok s1" by (rule records_ok_get [OF assms g])
  show ?thesis
  proof (cases r1)
    case (Inr sv)
    obtain a sva sa where a: "roll_batches e name img (update_order sv) (parallelism sv - 1) (update_pause sv) (known_replicas e name s1) sv s1 = (a, sva, sa)"
      by (metis surj_pair)
    have 2: "records_ok sa" by (rule records_ok_roll_batches [OF 1 a])
    show ?thesis using Inr a 2 by (simp add: rolling_update_service_def g Let_def split: sum.split)
  qed (simp add: rolling_update_service_def g 1)
qed

lemma records_ok_heal_loop:
  "records_ok s \<Longrightarrow> heal_loop e name n sv s = (b, s') \<Longrightarrow> records_ok s'"
proof (induction n arbitrary: sv s)
  case (Suc n)
  obtain a sva sa where a: "schedule_replica e name sv s = (a, sva, sa)" by (metis surj_pair)
  have 1: "records_ok sa" by (rule records_ok_schedule [OF Suc.prems(1) a])
  then have 2: "records_ok (happened EvSlept sa)" by simp
  show ?case using Suc.prems a 1 Suc.IH [OF 2, of sva] by (auto split: if_splits)
qed simp

lemma records_ok_heal: "records_ok s \<Longrightarrow> records_ok (heal_services e svs s)"
proof (induction e svs s rule: heal_services.induct)
  case (2 e name sv svs s)
  obtain b s1 where h: "heal_loop e name (nat (sv_replicas sv) - running_count (known_replicas e name s)) sv s = (b, s1)"
    by (metis surj_pair)
  have "records_ok s1" by (rule records_ok_heal_loop [OF 2(2) h])
  then show ?case using 2(1) [OF h [symmetric]] h by (cases b) simp_all
qed simp

lemma records_ok_scale_up: "records_ok s \<Longrightarrow> records_ok (reconcile_scale_up e name n sv s)"
proof (induction n arbitrary: sv s)
  case (Suc n)
  obtain a sva sa where a: "schedule_replica e name sv s = (a, sva, sa)" by (metis surj_pair)
  have 1: "records_ok sa" by (rule records_ok_schedule [OF Suc.prems a])
  show ?case using Suc a 1 by simp
qed simp

lemma records_ok_scale_down: "records_ok s \<Longrightarrow> records_ok (scale_down_loop e name rs s)"
proof (induction rs arbitrary: s)
  case (Cons r rs)
  obtain a sa where a: "remove_remote_replica e (rp_node r) (rp_container r) s = (a, sa)" by (metis surj_pair)
  have "records_ok sa" by (rule records_ok_remove_remote [OF Cons.prems a])
  then show ?case using Cons a by (cases a) simp_all
qed simp

lemma records_ok_reconcile: "records_ok s \<Longrightarrow> records_ok (reconcile_service e name sv s)"
  by (simp add: reconcile_service_def Let_def reconcile_scale_down_def records_ok_scale_up records_ok_scale_down)

lemma records_ok_reconcile_all: "records_ok s \<Longrightarrow> records_ok (fold (\<lambda>(name, sv). reconcile_service e name sv) svs s)"
  by (induction svs arbitrary: s) (auto simp: records_ok_reconcile)

end
