(* ===== verification/ServiceSystem.thy ===== *)
theory ServiceSystem
  imports ServiceProps
begin

text \<open>
  The services of a node as a transition system: one step is one operation, run by a process that
  has just started or goes on, and every state reachable from a node without replicas keeps the
  invariant of the records. Then what removing and updating a service leave behind.
\<close>

section \<open>Steps\<close>

inductive service_step :: "orch_env \<Rightarrow> orch \<Rightarrow> orch \<Rightarrow> bool" for e where
  process: "service_step e s (new_process s)"
| create: "create_service e name img n opts s = (r, s') \<Longrightarrow> service_step e s s'"
| list_all_services: "list_services e s = (r, s') \<Longrightarrow> service_step e s s'"
| scale: "scale_service e name n s = (r, s') \<Longrightarrow> service_step e s s'"
| remove: "remove_service e name s = (r, s') \<Longrightarrow> service_step e s s'"
| update: "update_service e name img opts s = (r, s') \<Longrightarrow> service_step e s s'"
| roll: "rolling_update_service e name img s = (r, s') \<Longrightarrow> service_step e s s'"
| heal: "service_step e s (auto_heal_services e s)"
| reconcile: "service_step e s (reconcile_services e s)"
| nodes: "list_nodes s = (r, s') \<Longrightarrow> service_step e s s'"

abbreviation service_steps :: "orch_env \<Rightarrow> orch \<Rightarrow> orch \<Rightarrow> bool" where
  "service_steps e \<equiv> (service_step e)\<^sup>*\<^sup>*"

inductive_cases service_stepE: "service_step e s s'"

lemma records_ok_create:
  assumes "records_ok s" shows "records_ok (snd (create_service e name img n opts s))"
proof -
  obtain r1 s1 where l: "load_services e s = (r1, s1)" by (metis surj_pair)
  have 1: "records_ok s1" by (rule records_ok_load [OF assms l])
  obtain r2 s2 where sv: "save_services e (set_services (aput name (new_service (oe_now e (o_log s1)) name img n opts) (mem_services s1)) s1) = (r2, s2)"
    by (metis surj_pair)
  have "records_ok s2" using records_ok_save [OF _ sv] 1 by simp
  with 1 show ?thesis by (simp add: create_service_def l sv Let_def split: sum.split)
qed

lemma records_ok_scale:
  assumes "records_ok s" shows "records_ok (snd (scale_service e name n s))"
proof -
  obtain r1 s1 where g: "get_service e name s = (r1, s1)" by (metis surj_pair)
  have 1: "records_ok s1" by (rule records_ok_get [OF assms g])
  then show ?thesis
    by (cases r1) (simp_all add: scale_service_def g Let_def case_prod_beta split: sum.split)
qed

lemma records_ok_get_snd [simp]: "records_ok s \<Longrightarrow> records_ok (snd (get_service e name s))"
  by (rule records_ok_get [OF _ surjective_pairing])

lemma records_ok_update:
  assumes "records_ok s" shows "records_ok (snd (update_service e name img opts s))"
proof -
  obtain r1 s1 where g: "get_service e name s = (r1, s1)" by (metis surj_pair)
  have 1: "records_ok s1" by (rule records_ok_get [OF assms g])
  have 2: "records_ok (snd (save_services e (set_services m s1)))" for m using 1 by simp
  show ?thesis
    using assms 1 2 records_ok_rolling_update [OF 2]
    by (cases r1) (auto simp: update_service_def g Let_def case_prod_beta split: sum.split)
qed

lemma records_ok_list: "records_ok s \<Longrightarrow> records_ok (snd (list_services e s))"
  using records_ok_load [OF _ surjective_pairing, of s e]
  by (auto simp: list_services_def case_prod_beta split: sum.split)

lemma records_ok_step:
  assumes "service_step e s s'" and "records_ok s"
  shows "records_ok s'"
  using assms
proof cases
  case process
  with assms(2) show ?thesis by (simp add: new_process_def records_ok_def)
next
  case create
  with records_ok_create [OF assms(2)] show ?thesis by (metis snd_conv)
next
  case list_all_services
  with records_ok_list [OF assms(2)] show ?thesis by (metis snd_conv)
next
  case scale
  with records_ok_scale [OF assms(2)] show ?thesis by (metis snd_conv)
next
  case remove
  with records_ok_remove_service [OF assms(2)] show ?thesis by (metis snd_conv)
next
  case update
  with records_ok_update [OF assms(2)] show ?thesis by (metis snd_conv)
next
  case roll
  with records_ok_rolling_update [OF assms(2)] show ?thesis by (metis snd_conv)
next
  case heal
  with assms(2) show ?thesis by (simp add: auto_heal_services_def records_ok_heal)
next
  case reconcile
  with assms(2) show ?thesis by (simp add: reconcile_services_def records_ok_reconcile_all)
next
  case nodes
  with assms(2) list_nodes_frame records_ok_cong show ?thesis by blast
qed

lemma records_ok_steps: "service_steps e s s' \<Longrightarrow> records_ok s \<Longrightarrow> records_ok s'"
  by (induction rule: rtranclp_induct) (auto intro: records_ok_step)

section \<open>Healing counts records\<close>

lemma dir_ok_running:
  "dir_ok name d \<Longrightarrow> running_count (readable_replicas d) = length (readable_replicas d)"
  unfolding running_count_def
  by (rule arg_cong [where f = length], rule filter_True)
     (auto simp: dir_ok_def list_all_iff record_ok_def readable_replicas_def map_filter_def split: if_splits)

lemma known_replicas_dir:
  "\<not> oe_read_dir_fails e (o_log s) name \<Longrightarrow> known_replicas e name s = readable_replicas (record_dir s name)"
  by (auto simp: known_replicas_def get_service_replicas_def record_dir_def or_else_def readable_replicas_def map_filter_def split: option.splits)

lemma heal_enough:
  assumes "list_all (\<lambda>(name, sv). sv_replicas sv \<le> int (running_count (known_replicas e name s))) svs"
  shows "heal_services e svs s = s"
  using assms by (induction svs) (auto simp: nat_le_iff)

text \<open>
  The healing loop never notices a dead replica: in every state reachable from a node without
  records, a service with as many records as replicas asked for is left as it is, whatever
  happened to the containers.
\<close>

theorem healing_counts_records:
  assumes "service_steps e s0 s" and "o_records s0 = []"
    and "\<And>name. \<not> oe_read_dir_fails e (o_log s) name"
    and "list_all (\<lambda>(name, sv). sv_replicas sv \<le> int (length (readable_replicas (record_dir s name)))) (mem_services s)"
  shows "auto_heal_services e s = s"
proof -
  have "records_ok s" using records_ok_steps [OF assms(1)] assms(2) by (simp add: records_ok_def)
  then have "running_count (readable_replicas (record_dir s name)) = length (readable_replicas (record_dir s name))" for name
    by (rule dir_ok_running [OF records_ok_dir])
  then show ?thesis
    using assms(3,4) by (simp add: auto_heal_services_def heal_enough known_replicas_dir)
qed

section \<open>Removing a service\<close>

lemma str_contains_append: "str_contains (a @ b) b"
  by (induction a) (cases b; simp add: has_prefix_def)+

lemma node_not_found_text: "str_contains (removal_text (NodeNotFound n)) ''not found''"
  using str_contains_append [of "''node '' @ n @ '' ''" "''not found''"] by (simp add: removal_text_def)

text \<open>A process that has not loaded the cluster finds no node, and takes every replica for gone.\<close>

lemma remove_replicas_unloaded:
  assumes "cc_nodes (o_conf s) = []" and "remove_replicas e name rs s = (Inr (), s')"
  shows "o_log s' = o_log s \<and> o_conf s' = o_conf s \<and> o_services_file s' = o_services_file s \<and>
         o_loaded_here s' = o_loaded_here s \<and> o_loaded_file s' = o_loaded_file s \<and>
         record_dir s' name = fold (\<lambda>r. adel (replica_file (rp_id r))) rs (record_dir s name)"
  using assms
proof (induction rs arbitrary: s)
  case (Cons r rs)
  have d: "o_log (drop_record name (rp_id r) s) = o_log s" "o_conf (drop_record name (rp_id r) s) = o_conf s"
    "o_services_file (drop_record name (rp_id r) s) = o_services_file s"
    "o_loaded_here (drop_record name (rp_id r) s) = o_loaded_here s" "o_loaded_file (drop_record name (rp_id r) s) = o_loaded_file s"
    "record_dir (drop_record name (rp_id r) s) name = adel (replica_file (rp_id r)) (record_dir s name)"
    by (simp_all add: drop_record_def record_dir_def or_else_def adel_def split: option.split)
  have "remove_replicas e name rs (drop_record name (rp_id r) s) = (Inr (), s')"
    using Cons.prems
    by (simp add: remove_remote_replica_def node_not_found_text remove_record_def split: if_splits)
  with Cons.IH [of "drop_record name (rp_id r) s"] Cons.prems(1) d show ?case by simp
qed simp

lemma fold_adel: "set (fold (\<lambda>r. adel (f r)) rs d) = {p \<in> set d. \<forall>r \<in> set rs. fst p \<noteq> f r}"
  by (induction rs arbitrary: d) (auto simp: adel_def)

lemma set_readable: "r \<in> set (readable_replicas d) \<longleftrightarrow> (\<exists>f. (f, Some r) \<in> set d \<and> has_suffix f ''.json'')"
  by (induction d) (auto simp: readable_replicas_def map_filter_simps split: option.splits if_splits)

lemma readable_gone:
  assumes "dir_ok name d"
  shows "readable_replicas (fold (\<lambda>r. adel (replica_file (rp_id r))) (readable_replicas d) d) = []"
proof -
  have "r \<notin> set (readable_replicas (fold (\<lambda>r. adel (replica_file (rp_id r))) (readable_replicas d) d))" for r
  proof
    assume "r \<in> set (readable_replicas (fold (\<lambda>r. adel (replica_file (rp_id r))) (readable_replicas d) d))"
    then obtain f where f: "(f, Some r) \<in> set d" "has_suffix f ''.json''"
      and 1: "\<forall>r' \<in> set (readable_replicas d). f \<noteq> replica_file (rp_id r')"
      by (auto simp: set_readable fold_adel)
    from f assms have "f = replica_file (rp_id r)" by (auto simp: dir_ok_def list_all_iff record_ok_def)
    moreover have "r \<in> set (readable_replicas d)" using f by (auto simp: set_readable)
    ultimately show False using 1 by blast
  qed
  then show ?thesis by (metis list.set_intros(1) neq_Nil_conv)
qed

text \<open>
  Removing a service from a process that has only just started, as \<open>dck service rm\<close> does,
  succeeds without stopping a single container: the service and all records of its replicas are
  gone, and no request was sent to any node.
\<close>

theorem service_rm_leaks:
  assumes "records_ok s" and "remove_service e name (new_process s) = (Inr (), s')"
  shows "o_log s' = o_log s
       \<and> readable_replicas (record_dir s' name) = []
       \<and> (\<exists>m. o_services_file s' = Json m \<and> map_of m name = None)"
proof -
  let ?s = "new_process s"
  obtain r1 s1 where g: "get_service e name ?s = (r1, s1)" by (metis surj_pair)
  obtain sv where r1: "r1 = Inr sv" using assms(2) g by (cases r1) (auto simp: remove_service_def)
  have f1: "cc_nodes (o_conf s1) = []" "o_log s1 = o_log s" "o_records s1 = o_records s"
    using get_service_frame [OF g] by (simp_all add: new_process_def empty_config_def)
  obtain rs where rs: "get_service_replicas e name s1 = Inr rs"
    using assms(2) g r1 by (cases "get_service_replicas e name s1") (auto simp: remove_service_def)
  then have rs': "rs = readable_replicas (record_dir s name)"
    by (auto simp: get_service_replicas_def record_dir_def or_else_def f1 readable_replicas_def map_filter_def
        split: option.splits if_splits)
  obtain s2 where rr: "remove_replicas e name rs s1 = (Inr (), s2)"
    using assms(2) g r1 rs by (auto simp: remove_service_def split: prod.splits sum.splits)
  note f2 = remove_replicas_unloaded [OF f1(1) rr]
  obtain s3 where l: "load_services e s2 = (Inr (), s3)"
    using assms(2) g r1 rs rr by (auto simp: remove_service_def split: prod.splits sum.splits)
  have f3: "o_records s3 = o_records s2" "o_log s3 = o_log s2" using load_services_frame [OF l] by simp_all
  have sv: "save_services e (set_services (adel name (mem_services s3)) s3) = (Inr (), s')"
    using assms(2) g r1 rs rr l by (simp add: remove_service_def)
  have f4: "o_records s' = o_records s3" "o_log s' = o_log s3" using save_services_frame [OF sv] by simp_all
  have "record_dir s' name = fold (\<lambda>r. adel (replica_file (rp_id r))) rs (record_dir s name)"
    using f1 f2 f3 f4 by (simp add: record_dir_def)
  with readable_gone [OF records_ok_dir [OF assms(1)]] rs' have "readable_replicas (record_dir s' name) = []" by simp
  moreover have "o_services_file s' = Json (json_services (adel name (mem_services s3)))"
    using save_services_written [OF sv] by simp
  moreover have "map_of (json_services (adel name m)) name = None" for m
    by (induction m) (auto simp: json_services_def adel_def)
  ultimately show ?thesis using f1 f2 f3 f4 by simp
qed

section \<open>Rolling updates\<close>

lemma schedule_conf:
  assumes "schedule_replica e name sv s = (Inr (), sv', s')" and "o_cluster_file s = Json cfg"
  shows "o_conf s' = cfg \<and> o_cluster_file s' = Json cfg"
proof -
  have l: "list_nodes s = (Inr (sort_key nd_joined (map snd (cc_nodes cfg))), s\<lparr>o_conf := cfg\<rparr>)"
    using assms(2) by (simp add: list_nodes_def load_cluster_config_def)
  obtain n ns where ns: "sort_key nd_joined (map snd (cc_nodes cfg)) = n # ns"
    using assms(1) l by (cases "sort_key nd_joined (map snd (cc_nodes cfg))") (auto simp: schedule_replica_def)
  obtain as s2 where a: "active_nodes (n # ns) (s\<lparr>o_conf := cfg\<rparr>) = (as, s2)" by (metis surj_pair)
  have s2: "o_conf s2 = cfg" "o_cluster_file s2 = Json cfg"
    using a assms(2)
    by (auto simp: active_nodes_def get_node_def load_cluster_config_def Let_def split: if_splits option.splits)
  have sr: "o_conf (save_replica e name rid cid nid t) = o_conf t"
    "o_cluster_file (save_replica e name rid cid nid t) = o_cluster_file t" for rid cid nid t
    by (simp_all add: save_replica_def put_file_def split: list.split)
  show ?thesis
    using assms(1) l ns a s2
    by (cases as)
       (auto simp: schedule_replica_def start_local_replica_def start_remote_replica_def Let_def sr
         split: if_splits option.splits start_result.splits answer.splits prod.splits)
qed

lemma remove_state_frame [simp]:
  "o_conf (remove_replica_state e name rid s) = o_conf s"
  "o_cluster_file (remove_replica_state e name rid s) = o_cluster_file s"
  by (simp_all add: remove_replica_state_def remove_record_def drop_record_def split: option.split)

lemma roll_replica_conf:
  assumes "roll_replica e name img order r sv s = (Inr (), sv', s')" and "o_cluster_file s = Json cfg"
  shows "o_conf s' = cfg \<and> o_cluster_file s' = Json cfg"
proof (cases "order = ''start-first''")
  case True
  obtain p svp sp where p: "schedule_replica e name (sv\<lparr>sv_image := img\<rparr>) s = (p, svp, sp)" by (metis surj_pair)
  obtain q sq where q: "remove_remote_replica e (rp_node r) (rp_container r) sp = (q, sq)" by (metis surj_pair)
  have "p = Inr ()" using assms(1) True p by (cases p) (auto simp: roll_replica_def split: if_splits)
  with schedule_conf [OF _ assms(2)] p have "o_conf sp = cfg" "o_cluster_file sp = Json cfg" by blast+
  with remove_remote_frame [OF q] show ?thesis
    using assms(1) True p q by (auto simp: roll_replica_def split: if_splits sum.splits)
next
  case False
  obtain a sa where a: "remove_remote_replica e (rp_node r) (rp_container r) s = (a, sa)" by (metis surj_pair)
  obtain b svb sb where b: "schedule_replica e name (sv\<lparr>sv_image := img\<rparr>) sa = (b, svb, sb)" by (metis surj_pair)
  have "b = Inr ()" "a = Inr ()"
    using assms(1) False a b by (cases a; cases b; auto simp: roll_replica_def split: if_splits)+
  moreover have "o_cluster_file sa = Json cfg" using remove_remote_frame [OF a] assms(2) by simp
  ultimately have "o_conf sb = cfg" "o_cluster_file sb = Json cfg" using schedule_conf b by blast+
  then show ?thesis
    using assms(1) False a b by (auto simp: roll_replica_def split: if_splits sum.splits)
qed

lemma roll_batch_conf:
  assumes "roll_batch e name img order rs sv s = (Inr (), sv', s')" and "o_cluster_file s = Json cfg"
  shows "o_cluster_file s' = Json cfg \<and> (rs \<noteq> [] \<or> o_conf s = cfg \<longrightarrow> o_conf s' = cfg)"
  using assms
proof (induction rs arbitrary: sv s)
  case (Cons r rs)
  obtain a sva sa where a: "roll_replica e name img order r sv s = (a, sva, sa)" by (metis surj_pair)
  then have "a = Inr ()" using Cons.prems(1) by (cases a) auto
  with a roll_replica_conf [OF _ Cons.prems(2)] have "o_conf sa = cfg" "o_cluster_file sa = Json cfg" by blast+
  with Cons.IH [of sva sa] Cons.prems(1) a \<open>a = Inr ()\<close> show ?case by simp
qed simp

lemma roll_batches_conf:
  assumes "roll_batches e name img order p pause rs sv s = (Inr (), sv', s')" and "o_cluster_file s = Json cfg"
  shows "o_cluster_file s' = Json cfg \<and> (rs \<noteq> [] \<or> o_conf s = cfg \<longrightarrow> o_conf s' = cfg)"
  using assms
proof (induction "length rs" arbitrary: rs sv s rule: less_induct)
  case less
  show ?case
  proof (cases "rs = []")
    case True
    then show ?thesis using less.prems by (simp add: roll_batches.simps)
  next
    case False
    obtain a sva sa where a: "roll_batch e name img order (take (Suc p) rs) sv s = (a, sva, sa)" by (metis surj_pair)
    have ok: "a = Inr ()" using less.prems(1) False a by (subst (asm) roll_batches.simps) (cases a; simp)
    have 1: "o_cluster_file sa = Json cfg" "o_conf sa = cfg"
      using roll_batch_conf [OF a [unfolded ok] less.prems(2)] False by simp_all
    have len: "length (drop (Suc p) rs) < length rs" using False by (cases rs) auto
    have "roll_batches e name img order p pause (drop (Suc p) rs) sva sa = (Inr (), sv', s')
        \<or> roll_batches e name img order p pause (drop (Suc p) rs) sva (happened EvSlept sa) = (Inr (), sv', s')"
      using less.prems(1) False a ok by (subst (asm) roll_batches.simps) (auto split: if_splits)
    then show ?thesis
      using less.hyps [OF len, of sva sa] less.hyps [OF len, of sva "happened EvSlept sa"] 1 by fastforce
  qed
qed

text \<open>
  A rolling update of a service that has a replica forgets the other services: placing the
  replacement reloads the cluster's configuration over the services in memory, so afterwards the
  services file names this service and those of \<open>cluster.json\<close>, and no other.
\<close>

theorem rolling_update_forgets_services:
  assumes "rolling_update_service e name img s = (Inr (), s')" and "o_cluster_file s = Json cfg"
    and "known_replicas e name s \<noteq> []"
  shows "\<exists>m. o_services_file s' = Json m \<and> fst ` set m = insert name (fst ` set (cc_services cfg))"
proof -
  obtain r1 s1 where g: "get_service e name s = (r1, s1)" by (metis surj_pair)
  obtain sv where r1: "r1 = Inr sv" using assms(1) g by (cases r1) (auto simp: rolling_update_service_def)
  note f1 = get_service_frame [OF g]
  have k: "known_replicas e name s1 = known_replicas e name s"
    using f1 by (simp add: known_replicas_def get_service_replicas_def split: option.split)
  obtain a sv2 s2 where b: "roll_batches e name img (update_order sv) (parallelism sv - 1) (update_pause sv)
      (known_replicas e name s1) sv s1 = (a, sv2, s2)" by (metis surj_pair)
  have a: "a = Inr ()" using assms(1) g r1 b by (cases a) (auto simp: rolling_update_service_def)
  have "mem_services s2 = cc_services cfg"
    using roll_batches_conf [OF b [unfolded a]] f1 assms(2,3) k by (simp add: mem_services_def)
  moreover obtain sv3 where sv3: "save_services e (set_services (aput name sv3 (mem_services s2)) s2) = (Inr (), s')"
    using assms(1) g r1 b a by (auto simp: rolling_update_service_def Let_def)
  ultimately have "o_services_file s' = Json (json_services (aput name sv3 (cc_services cfg)))"
    using save_services_written [OF sv3] by simp
  moreover have "fst ` set (json_services m) = fst ` set m" for m
    by (induction m) (auto simp: json_services_def)
  ultimately show ?thesis by auto
qed

lemma schedule_fails_records:
  assumes "schedule_replica e name sv s = (Inl err, sv', s')"
  shows "o_records s' = o_records s \<and> prefix (o_log s) (o_log s')"
proof -
  obtain r1 s1 where l: "list_nodes s = (r1, s1)" by (metis surj_pair)
  note f1 = list_nodes_frame [OF l]
  show ?thesis
  proof (cases "r1 = Inr [] \<or> (\<exists>err. r1 = Inl err)")
    case True
    then show ?thesis using assms l f1 by (auto simp: schedule_replica_def)
  next
    case False
    then obtain n ns where r1: "r1 = Inr (n # ns)" by (cases r1) (auto simp: neq_Nil_conv)
    obtain as s2 where a: "active_nodes (n # ns) s1 = (as, s2)" by (metis surj_pair)
    note f2 = active_nodes_frame [OF a]
    show ?thesis
      using assms l r1 a f1 f2
      by (cases as)
         (auto simp: schedule_replica_def start_local_replica_def start_remote_replica_def Let_def
           split: if_splits option.splits start_result.splits answer.splits prod.splits)
  qed
qed

text \<open>
  A stop-first update whose replacement cannot be placed loses a replica for good: its container
  has been stopped, its record stays, and reconciling the service afterwards changes nothing.
\<close>

theorem failed_replacement_not_reconciled:
  assumes "roll_replica e name img order r sv s = (Inl (Replacement (rp_id r) err), sv', s')"
    and "order \<noteq> ''start-first''"
    and "int (running_count (known_replicas e name s)) = sv_replicas sv"
    and "\<And>log. \<not> oe_read_dir_fails e log name"
  shows "EvStopped (rp_node r) (rp_container r) \<in> set (o_log s') \<and> reconcile_service e name sv s' = s'"
proof -
  obtain a sa where a: "remove_remote_replica e (rp_node r) (rp_container r) s = (a, sa)" by (metis surj_pair)
  obtain b svb sb where b: "schedule_replica e name (sv\<lparr>sv_image := img\<rparr>) sa = (b, svb, sb)" by (metis surj_pair)
  have ok: "a = Inr ()" "b = Inl err" "s' = sb"
    using assms(1,2) a b by (cases a; cases b; auto simp: roll_replica_def split: if_splits)+
  have st: "EvStopped (rp_node r) (rp_container r) \<in> set (o_log sa)"
    using a ok(1) by (auto simp: remove_remote_replica_def split: option.splits if_splits remove_result.splits sum.splits)
  note f = schedule_fails_records [OF b [unfolded ok]]
  have "known_replicas e name s' = known_replicas e name s"
    using f remove_remote_frame [OF a] assms(4) ok(3)
    by (simp add: known_replicas_def get_service_replicas_def split: option.split)
  with assms(3) have "reconcile_service e name sv s' = s'" by (simp add: reconcile_service_def)
  moreover have "EvStopped (rp_node r) (rp_container r) \<in> set (o_log s')"
    using st f ok(3) set_mono_prefix by blast
  ultimately show ?thesis by blast
qed

end
