(* ===== verification/ServiceLive.thy ===== *)
theory ServiceLive
  imports ServiceSystem
begin

text \<open>
  Reconciling reaches the number of replicas a service asks for, on a cluster where nothing
  fails: scaling up files one new record per missing replica, scaling down removes one per
  surplus replica.
\<close>

section \<open>Counting records\<close>

lemma readable_Cons:
  "readable_replicas ((f, x) # d) =
     (case x of None \<Rightarrow> readable_replicas d
      | Some r \<Rightarrow> if has_suffix f ''.json'' then r # readable_replicas d else readable_replicas d)"
  by (simp add: readable_replicas_def map_filter_simps split: option.split)

lemma running_Cons [simp]:
  "running_count (r # rs) = (if rp_status r = ''running'' then Suc (running_count rs) else running_count rs)"
  by (simp add: running_count_def)

lemma running_insort:
  "running_count (readable_replicas (insort_key fst (f, x) d)) = running_count (readable_replicas ((f, x) # d))"
  by (induction d) (auto simp: readable_Cons running_count_def split: option.splits)

lemma adel_absent: "k \<notin> fst ` set d \<Longrightarrow> adel k d = d"
  unfolding adel_def by (rule filter_True) auto

lemma running_put:
  assumes "replica_file (rp_id r) \<notin> fst ` set d" and "rp_status r = ''running''"
  shows "running_count (readable_replicas (dir_put (replica_file (rp_id r)) (Some r) d)) = Suc (running_count (readable_replicas d))"
  using assms by (simp add: dir_put_def adel_absent running_insort readable_Cons)

lemma running_adel:
  assumes "dir_ok name d" and "r \<in> set (readable_replicas d)"
  shows "Suc (running_count (readable_replicas (adel (replica_file (rp_id r)) d))) = running_count (readable_replicas d)"
  using assms
proof (induction d)
  case (Cons p d)
  obtain f x where p: "p = (f, x)" by (metis surj_pair)
  have ok: "dir_ok name d" "f \<notin> fst ` set d" and px: "record_ok name (f, x)"
    using Cons.prems(1) by (auto simp: dir_ok_def p)
  show ?case
  proof (cases "f = replica_file (rp_id r)")
    case True
    have "r \<notin> set (readable_replicas d)"
    proof
      assume "r \<in> set (readable_replicas d)"
      then obtain g where "(g, Some r) \<in> set d" by (auto simp: set_readable)
      with ok have "g = replica_file (rp_id r)" by (auto simp: dir_ok_def list_all_iff record_ok_def)
      with \<open>(g, Some r) \<in> set d\<close> ok(2) True show False by force
    qed
    with Cons.prems(2) have x: "x = Some r"
      by (auto simp: p readable_Cons split: option.splits if_splits)
    have "adel f d = d" by (rule adel_absent [OF ok(2)])
    then have "adel (replica_file (rp_id r)) (p # d) = d" using True by (simp add: adel_def p)
    with x px True show ?thesis by (simp add: p readable_Cons record_ok_def running_count_def)
  next
    case False
    have "r \<in> set (readable_replicas d)"
    proof (rule ccontr)
      assume "r \<notin> set (readable_replicas d)"
      with Cons.prems(2) have "x = Some r" by (auto simp: p readable_Cons split: option.splits if_splits)
      with px False show False by (simp add: record_ok_def)
    qed
    moreover have "adel (replica_file (rp_id r)) (p # d) = p # adel (replica_file (rp_id r)) d"
      using False by (simp add: adel_def p)
    ultimately show ?thesis
      using Cons.IH [OF ok(1)] by (simp add: p readable_Cons running_count_def split: option.split)
  qed
qed (simp add: readable_replicas_def map_filter_def)

lemma readable_distinct:
  assumes "dir_ok name d" shows "distinct (map rp_id (readable_replicas d))"
  using assms
proof (induction d)
  case (Cons p d)
  obtain f x where p: "p = (f, x)" by (metis surj_pair)
  have ok: "dir_ok name d" "f \<notin> fst ` set d" and px: "record_ok name (f, x)"
    using Cons.prems by (auto simp: dir_ok_def p)
  have "rp_id r \<noteq> rp_id r'" if "x = Some r" "r' \<in> set (readable_replicas d)" for r r'
  proof
    assume eq: "rp_id r = rp_id r'"
    from \<open>r' \<in> _\<close> obtain g where g: "(g, Some r') \<in> set d" by (auto simp: set_readable)
    with ok have "g = replica_file (rp_id r')" by (auto simp: dir_ok_def list_all_iff record_ok_def)
    moreover have "f = replica_file (rp_id r)" using px \<open>x = Some r\<close> by (simp add: record_ok_def)
    ultimately show False using g ok(2) eq by force
  qed
  with Cons.IH [OF ok(1)] show ?case by (auto simp: p readable_Cons split: option.split)
qed (simp add: readable_replicas_def map_filter_def)

section \<open>Scaling up\<close>

definition has_active_node :: "cluster_config \<Rightarrow> bool" where
  "has_active_node c \<longleftrightarrow>
     list_ex (\<lambda>(i, n). nd_state n = NodeActive \<and> nd_id n \<noteq> cc_node_id c) (cc_nodes c)
     \<or> (cc_node_id c \<noteq> [] \<and> (case map_of (cc_nodes c) (cc_node_id c) of None \<Rightarrow> False | Some n \<Rightarrow> nd_state n = NodeActive))"

text \<open>What a replica that is placed leaves behind.\<close>

definition placed :: "orch_env \<Rightarrow> string \<Rightarrow> orch \<Rightarrow> orch \<Rightarrow> bool" where
  "placed e name s s' \<longleftrightarrow>
     (\<exists>log r. length (o_log s) \<le> length log \<and> length log < length (o_log s') \<and> rp_id r = oe_new_id e log
        \<and> rp_status r = ''running'' \<and> rp_service r = name
        \<and> record_dir s' name = dir_put (replica_file (rp_id r)) (Some r) (record_dir s name))"

lemma record_dir_aput: "record_dir (s\<lparr>o_records := aput name d m\<rparr>) name = d"
  by (simp add: record_dir_def or_else_def)

lemma placed_save_replica:
  assumes "oe_dir_ok e (o_log t)" and "o_saves t = []" and "record_dir t name = record_dir s name"
    and "length (o_log s) \<le> length log" and "length log < length (o_log t)"
  shows "placed e name s (save_replica e name (oe_new_id e log) cid nid t)"
proof -
  let ?r = "new_replica (oe_now e (o_log t)) name (oe_new_id e log) cid nid"
  have "save_replica e name (oe_new_id e log) cid nid t = file_replica name ?r t"
    using assms(1,2) by (simp add: save_replica_def put_file_def)
  moreover have "record_dir (file_replica name ?r t) name = dir_put (replica_file (rp_id ?r)) (Some ?r) (record_dir s name)"
    using assms(3) by (simp add: file_replica_def record_dir_aput)
  ultimately show ?thesis
    using assms(4,5) unfolding placed_def by (intro exI [of _ log] exI [of _ ?r]) simp
qed

lemma save_replica_frame:
  "o_conf (save_replica e name rid cid nid t) = o_conf t"
  "o_cluster_file (save_replica e name rid cid nid t) = o_cluster_file t"
  "o_saves t = [] \<Longrightarrow> o_saves (save_replica e name rid cid nid t) = []"
  "o_log (save_replica e name rid cid nid t) = o_log t"
  by (simp_all add: save_replica_def put_file_def split: list.split)

lemma start_local_succeeds:
  assumes "oe_pull e (o_log s) (sv_image sv) = Some img" and "bad_volume (sv_volumes sv) = None"
    and "\<And>log opts. \<exists>cid. oe_start e log opts = StartedAs cid"
  shows "\<exists>cid sv'. sv_volumes sv' = sv_volumes sv \<and>
    start_local_replica e name sv s = (Inr (), sv', save_replica e name (oe_new_id e (o_log s @ [EvPulled (sv_image sv)])) cid
      (cc_node_id (o_conf s)) (happened (EvStarted name cid) (happened (EvPulled (sv_image sv)) s)))"
proof -
  let ?rid = "oe_new_id e (o_log s @ [EvPulled (sv_image sv)])"
  obtain cid where "oe_start e (o_log s @ [EvPulled (sv_image sv)])
      (replica_opts img name ?rid (aput ''dck.service'' name (or_else (sv_labels sv) [])) sv) = StartedAs cid"
    using assms(3) by blast
  with assms(1,2) show ?thesis by (auto simp: start_local_replica_def Let_def)
qed

lemma start_remote_succeeds:
  assumes "oe_post e (o_log s) n (oe_new_id e (o_log s)) sv = Answer 201 (Some cid)"
  shows "start_remote_replica e name sv n s =
    (Inr (), save_replica e name (oe_new_id e (o_log s)) cid (nd_id n) (happened (EvScheduled (nd_id n) cid) s))"
  by (simp add: start_remote_replica_def Let_def assms)

lemma schedule_succeeds:
  assumes "o_cluster_file s = Json cfg" and "o_saves s = []" and "has_active_node cfg"
    and "\<And>log. oe_dir_ok e log" and "\<And>log i. oe_pull e log i \<noteq> None" and "bad_volume (sv_volumes sv) = None"
    and "\<And>log opts. \<exists>cid. oe_start e log opts = StartedAs cid"
    and "\<And>log n rid sv. \<exists>cid. oe_post e log n rid sv = Answer 201 (Some cid)"
  shows "\<exists>sv' s'. schedule_replica e name sv s = (Inr (), sv', s') \<and> placed e name s s' \<and> sv_volumes sv' = sv_volumes sv
           \<and> o_cluster_file s' = Json cfg \<and> o_saves s' = []"
proof -
  let ?nodes = "sort_key nd_joined (map snd (cc_nodes cfg))" and ?s1 = "s\<lparr>o_conf := cfg\<rparr>"
  have l: "list_nodes s = (Inr ?nodes, ?s1)" using assms(1) by (simp add: list_nodes_def load_cluster_config_def)
  have "cc_nodes cfg \<noteq> []" using assms(3) by (auto simp: has_active_node_def split: option.splits)
  then obtain n ns where ns: "?nodes = n # ns"
    by (metis length_0_conv length_map length_sort list.exhaust)
  obtain as s2 where a: "active_nodes (n # ns) ?s1 = (as, s2)" by (metis surj_pair)
  have s2: "s2 = ?s1"
    using a assms(1) by (auto simp: active_nodes_def get_node_def load_cluster_config_def Let_def split: if_splits option.splits)
  have "as \<noteq> []"
  proof
    assume "as = []"
    with a have f: "filter (\<lambda>n. nd_state n = NodeActive \<and> nd_id n \<noteq> cc_node_id cfg) (n # ns) = []"
      by (auto simp: active_nodes_def Let_def split: prod.splits sum.splits option.splits if_splits)
    have "\<not> list_ex (\<lambda>(i, n). nd_state n = NodeActive \<and> nd_id n \<noteq> cc_node_id cfg) (cc_nodes cfg)"
    proof
      assume "list_ex (\<lambda>(i, n). nd_state n = NodeActive \<and> nd_id n \<noteq> cc_node_id cfg) (cc_nodes cfg)"
      then obtain i m where m: "(i, m) \<in> set (cc_nodes cfg)" "nd_state m = NodeActive" "nd_id m \<noteq> cc_node_id cfg"
        by (auto simp: list_ex_iff)
      then have "m \<in> set ?nodes" by force
      moreover have "\<not> (nd_state x = NodeActive \<and> nd_id x \<noteq> cc_node_id cfg)" if "x \<in> set ?nodes" for x
        using f that unfolding filter_empty_conv ns by blast
      ultimately show False using m by blast
    qed
    with assms(1,3) a \<open>as = []\<close> show False
      by (auto simp: has_active_node_def active_nodes_def get_node_def load_cluster_config_def Let_def split: option.splits)
  qed
  then obtain b bs where as: "as = b # bs" by (cases as) auto
  let ?t = "hd (sort_key (\<lambda>n. - nd_mem_avail n) (b # bs))"
  have sch: "schedule_replica e name sv s =
      (if nd_id ?t = cc_node_id cfg then start_local_replica e name sv ?s1
       else case start_remote_replica e name sv ?t ?s1 of (r, s3) \<Rightarrow> (r, sv, s3))"
    using l ns a s2 as by (simp add: schedule_replica_def)
  show ?thesis
  proof (cases "nd_id ?t = cc_node_id cfg")
    case True
    obtain img where img: "oe_pull e (o_log s) (sv_image sv) = Some img" using assms(5) by blast
    obtain cid sv' where st: "sv_volumes sv' = sv_volumes sv" "start_local_replica e name sv ?s1 =
        (Inr (), sv', save_replica e name (oe_new_id e (o_log s @ [EvPulled (sv_image sv)])) cid (cc_node_id cfg)
          (happened (EvStarted name cid) (happened (EvPulled (sv_image sv)) ?s1)))"
      using start_local_succeeds [of e ?s1 sv img name] img assms(6,7) by auto
    moreover have "placed e name s (save_replica e name (oe_new_id e (o_log s @ [EvPulled (sv_image sv)])) cid (cc_node_id cfg)
          (happened (EvStarted name cid) (happened (EvPulled (sv_image sv)) ?s1)))"
      by (rule placed_save_replica) (simp_all add: assms record_dir_def)
    ultimately show ?thesis using sch True assms(1,2) by (simp add: save_replica_frame)
  next
    case False
    obtain cid where cid: "oe_post e (o_log s) ?t (oe_new_id e (o_log s)) sv = Answer 201 (Some cid)" using assms(8) by blast
    have "start_remote_replica e name sv ?t ?s1 =
        (Inr (), save_replica e name (oe_new_id e (o_log s)) cid (nd_id ?t) (happened (EvScheduled (nd_id ?t) cid) ?s1))"
      using start_remote_succeeds [of e ?s1 ?t sv cid name] cid by simp
    moreover have "placed e name s (save_replica e name (oe_new_id e (o_log s)) cid (nd_id ?t) (happened (EvScheduled (nd_id ?t) cid) ?s1))"
      by (rule placed_save_replica) (simp_all add: assms record_dir_def)
    ultimately show ?thesis using sch False assms(1,2) by (simp add: save_replica_frame)
  qed
qed

lemma scale_up_reaches:
  assumes "o_cluster_file s = Json cfg" and "o_saves s = []" and "has_active_node cfg"
    and env: "\<And>log. \<not> oe_cancelled e log" "\<And>log. oe_dir_ok e log" "\<And>log i. oe_pull e log i \<noteq> None"
      "\<And>log opts. \<exists>cid. oe_start e log opts = StartedAs cid"
      "\<And>log n rid sv. \<exists>cid. oe_post e log n rid sv = Answer 201 (Some cid)"
    and ids: "\<And>log log'. length log \<noteq> length log' \<Longrightarrow> oe_new_id e log \<noteq> oe_new_id e log'"
    and fresh: "\<And>log. length (o_log s) \<le> length log \<Longrightarrow> replica_file (oe_new_id e log) \<notin> fst ` set (record_dir s name)"
    and "bad_volume (sv_volumes sv) = None"
  shows "running_count (readable_replicas (record_dir (reconcile_scale_up e name n sv s) name))
       = running_count (readable_replicas (record_dir s name)) + n"
  using assms(1-3,10,11)
proof (induction n arbitrary: sv s)
  case (Suc n)
  obtain sv' s' where sch: "schedule_replica e name sv s = (Inr (), sv', s')" and pl: "placed e name s s'"
    and inv: "sv_volumes sv' = sv_volumes sv" "o_cluster_file s' = Json cfg" "o_saves s' = []"
    using schedule_succeeds [OF Suc.prems(1-3) env(2,3) Suc.prems(5) env(4,5)] by blast
  obtain log r where r: "length (o_log s) \<le> length log" "length log < length (o_log s')" "rp_id r = oe_new_id e log"
      "rp_status r = ''running''" "record_dir s' name = dir_put (replica_file (rp_id r)) (Some r) (record_dir s name)"
    using pl by (auto simp: placed_def)
  have "replica_file (rp_id r) \<notin> fst ` set (record_dir s name)" using r(1,3) Suc.prems(4) by simp
  then have one: "running_count (readable_replicas (record_dir s' name)) = Suc (running_count (readable_replicas (record_dir s name)))"
    using running_put r(4,5) by simp
  have "replica_file (oe_new_id e log') \<notin> fst ` set (record_dir s' name)" if "length (o_log s') \<le> length log'" for log'
  proof -
    have "replica_file (oe_new_id e log') \<notin> fst ` set (record_dir s name)" using Suc.prems(4) that r(1,2) by simp
    moreover have "oe_new_id e log' \<noteq> oe_new_id e log" using that r(2) by (intro ids) simp
    ultimately show ?thesis using r(3,5) by (auto simp: dir_put_set adel_def)
  qed
  from Suc.IH [OF inv(2,3) Suc.prems(3) this] inv(1) Suc.prems(5) sch one env(1) show ?case by simp
qed simp

section \<open>Scaling down\<close>

lemma record_dir_drop: "record_dir (drop_record name rid s) name = adel (replica_file rid) (record_dir s name)"
  by (simp add: drop_record_def record_dir_def or_else_def adel_def split: option.split)

lemma remove_remote_succeeds:
  assumes "map_of (cc_nodes (o_conf s)) nid \<noteq> None" and "\<And>log cid. oe_remove_local e log cid = Removed"
    and "\<And>log n cid. oe_delete e log n cid = Inr 200"
  shows "\<exists>s'. remove_remote_replica e nid cid s = (Inr (), s')"
  using assms by (auto simp: remove_remote_replica_def)

lemma readable_adel:
  "dir_ok name d \<Longrightarrow> set (readable_replicas (adel (replica_file i) d)) = {r \<in> set (readable_replicas d). rp_id r \<noteq> i}"
  by (auto simp: set_readable adel_def dir_ok_def list_all_iff record_ok_def; force)

lemma scale_down_reaches:
  assumes env: "\<And>log. \<not> oe_cancelled e log" "\<And>log cid. oe_remove_local e log cid = Removed"
      "\<And>log n cid. oe_delete e log n cid = Inr 200" "\<And>log rid. \<not> oe_remove_fails e log name rid"
    and "dir_ok name (record_dir s name)" and "set rs \<subseteq> set (readable_replicas (record_dir s name))"
    and "distinct (map rp_id rs)" and "\<And>r. r \<in> set rs \<Longrightarrow> map_of (cc_nodes (o_conf s)) (rp_node r) \<noteq> None"
  shows "running_count (readable_replicas (record_dir (scale_down_loop e name rs s) name)) + length rs
       = running_count (readable_replicas (record_dir s name))"
  using assms(5-8)
proof (induction rs arbitrary: s)
  case (Cons r rs)
  obtain s1 where rm: "remove_remote_replica e (rp_node r) (rp_container r) s = (Inr (), s1)"
    using remove_remote_succeeds [of s "rp_node r" e "rp_container r"] Cons.prems(4) [of r] env(2,3) by auto
  note f = remove_remote_frame [OF rm]
  let ?s2 = "drop_record name (rp_id r) s1"
  have step: "scale_down_loop e name (r # rs) s = scale_down_loop e name rs ?s2"
    using env(1,4) rm by (simp add: remove_record_def)
  have d1: "record_dir s1 name = record_dir s name" using f by (simp add: record_dir_def)
  have d2: "record_dir ?s2 name = adel (replica_file (rp_id r)) (record_dir s name)" by (simp add: record_dir_drop d1)
  have one: "Suc (running_count (readable_replicas (record_dir ?s2 name))) = running_count (readable_replicas (record_dir s name))"
    unfolding d2 using Cons.prems(1,2) by (intro running_adel) auto
  have "dir_ok name (record_dir ?s2 name)" unfolding d2 by (rule dir_ok_adel [OF Cons.prems(1)])
  moreover have "set rs \<subseteq> set (readable_replicas (record_dir ?s2 name))"
    unfolding d2 readable_adel [OF Cons.prems(1)] using Cons.prems(2,3) by (auto simp: image_iff)
  moreover have "o_conf ?s2 = o_conf s" using f by (simp add: drop_record_def split: option.split)
  ultimately show ?case using Cons.IH [of ?s2] Cons.prems(3,4) step one by simp
qed simp

section \<open>Reconciling\<close>

lemma distinct_map_insort: "distinct (map g (insort_key f x xs)) \<longleftrightarrow> distinct (map g (x # xs))"
  by (induction xs) auto

lemma distinct_map_sort: "distinct (map g (sort_key f xs)) \<longleftrightarrow> distinct (map g xs)"
  by (induction xs) (simp_all add: distinct_map_insort)

text \<open>
  C18. On a cluster where nothing fails, reconciling a service reaches exactly the number of
  replicas it asks for, whether some are missing or too many.
\<close>

theorem reconcile_converges:
  assumes "records_ok s" and "o_cluster_file s = Json cfg" and "o_saves s = []" and "has_active_node cfg"
    and "0 \<le> sv_replicas sv" and "bad_volume (sv_volumes sv) = None"
    and env: "\<And>log. \<not> oe_cancelled e log" "\<And>log. oe_dir_ok e log" "\<And>log i. oe_pull e log i \<noteq> None"
      "\<And>log opts. \<exists>cid. oe_start e log opts = StartedAs cid"
      "\<And>log n rid sv. \<exists>cid. oe_post e log n rid sv = Answer 201 (Some cid)"
      "\<And>log cid. oe_remove_local e log cid = Removed" "\<And>log n cid. oe_delete e log n cid = Inr 200"
      "\<And>log rid. \<not> oe_remove_fails e log name rid" "\<And>log. \<not> oe_read_dir_fails e log name"
    and ids: "\<And>log log'. length log \<noteq> length log' \<Longrightarrow> oe_new_id e log \<noteq> oe_new_id e log'"
    and fresh: "\<And>log. length (o_log s) \<le> length log \<Longrightarrow> replica_file (oe_new_id e log) \<notin> fst ` set (record_dir s name)"
    and known: "\<And>r. r \<in> set (readable_replicas (record_dir s name)) \<Longrightarrow> map_of (cc_nodes (o_conf s)) (rp_node r) \<noteq> None"
  shows "int (running_count (known_replicas e name (reconcile_service e name sv s))) = sv_replicas sv"
proof -
  let ?rs = "readable_replicas (record_dir s name)"
  have d: "dir_ok name (record_dir s name)" by (rule records_ok_dir [OF assms(1)])
  have run: "running_count ?rs = length ?rs" by (rule dir_ok_running [OF d])
  note known_dir = known_replicas_dir [OF env(9)]
  consider "int (length ?rs) = sv_replicas sv" | "int (length ?rs) < sv_replicas sv" | "int (length ?rs) > sv_replicas sv"
    by linarith
  then show ?thesis
  proof cases
    case 1
    then show ?thesis by (simp add: reconcile_service_def Let_def known_dir run)
  next
    case 2
    let ?n = "nat (sv_replicas sv - int (length ?rs))"
    have "reconcile_service e name sv s = reconcile_scale_up e name ?n sv s"
      using 2 by (simp add: reconcile_service_def Let_def known_dir run)
    then show ?thesis
      using scale_up_reaches [OF assms(2-4) env(1-5) ids fresh assms(6), of ?n] 2 by (simp add: known_dir run)
  next
    case 3
    let ?n = "nat (int (length ?rs) - sv_replicas sv)"
    let ?del = "take ?n (sort_key (\<lambda>r. - rp_created r) ?rs)"
    have eq: "reconcile_service e name sv s = scale_down_loop e name ?del s"
      using 3 by (simp add: reconcile_service_def Let_def known_dir run reconcile_scale_down_def)
    have sub: "set ?del \<subseteq> set ?rs" using set_take_subset [of ?n "sort_key (\<lambda>r. - rp_created r) ?rs"] by simp
    have dist: "distinct (map rp_id ?del)"
      using readable_distinct [OF d] by (simp add: take_map [symmetric] distinct_take distinct_map_sort)
    have len: "length ?del = ?n" using 3 assms(5) by simp
    have "map_of (cc_nodes (o_conf s)) (rp_node r) \<noteq> None" if "r \<in> set ?del" for r
      using that sub known by blast
    from scale_down_reaches [OF env(1,6,7,8) d sub dist this]
    have "running_count (readable_replicas (record_dir (reconcile_service e name sv s) name)) + ?n = length ?rs"
      unfolding eq len run .
    then show ?thesis using 3 assms(5) by (simp add: known_dir)
  qed
qed

end
