(* ===== verification/ServiceWitness.thy ===== *)
theory ServiceWitness
  imports ServiceLive
begin

text \<open>
  A small cluster of one node, on which the hypotheses of the theorems on services hold.
\<close>

definition calm_env :: orch_env where
  "calm_env = \<lparr>oe_now = (\<lambda>log. int (length log)), oe_cancelled = (\<lambda>log. False), oe_new_id = (\<lambda>log. nat_str (length log)),
     oe_dir_ok = (\<lambda>log. True), oe_hostname = ''host'', oe_cores = 4, oe_mem_total = 8000, oe_mem_avail = 4000,
     oe_join = (\<lambda>log p. NoAnswer), oe_pull = (\<lambda>log i. Some (i, ''latest'')),
     oe_start = (\<lambda>log opts. StartedAs (''c'' @ nat_str (length log))),
     oe_post = (\<lambda>log n rid sv. Answer 201 (Some (''r'' @ nat_str (length log)))),
     oe_delete = (\<lambda>log n c. Inr 200), oe_remove_local = (\<lambda>log c. Removed),
     oe_read_dir_fails = (\<lambda>log n. False), oe_remove_fails = (\<lambda>log n i. False)\<rparr>"

definition one_node :: node where
  "one_node = local_node calm_env 0 ''n1'' ''host'' ''10.0.0.1'' 2375 Leader"

definition one_config :: cluster_config where
  "one_config = empty_config\<lparr>cc_id := ''c1'', cc_node_id := ''n1'', cc_nodes := [(''n1'', one_node)]\<rparr>"

definition web :: service where
  "web = new_service 0 ''web'' ''nginx'' 1 no_opts"

definition old_replica :: service_replica where
  "old_replica = new_replica 0 ''web'' ''old'' ''c-old'' ''n1''"

definition one_state :: orch where
  "one_state = \<lparr>o_conf = one_config, o_loaded_here = False, o_loaded_file = False, o_cluster_file = Json one_config,
     o_backup_file = Absent, o_services_file = Json [(''db'', web\<lparr>sv_name := ''db''\<rparr>), (''web'', web)],
     o_records = [(''web'', [(''old.json'', Some old_replica)])], o_saves = [], o_log = []\<rparr>"

definition bare_state :: orch where
  "bare_state = one_state\<lparr>o_services_file := Absent, o_records := []\<rparr>"

text \<open>A service is created, healing places its replica, and listing reads the services back.\<close>

definition healed_state :: orch where
  "healed_state = snd (list_services calm_env (auto_heal_services calm_env
     (snd (create_service calm_env ''web'' ''nginx'' 1 no_opts bare_state))))"

lemma healed_steps: "service_steps calm_env bare_state healed_state"
proof -
  let ?s1 = "snd (create_service calm_env ''web'' ''nginx'' 1 no_opts bare_state)"
  let ?s2 = "auto_heal_services calm_env ?s1"
  have "service_step calm_env bare_state ?s1" by (rule service_step.create [OF surjective_pairing])
  moreover have "service_step calm_env ?s1 ?s2" by (rule service_step.heal)
  moreover have "service_step calm_env ?s2 healed_state"
    unfolding healed_state_def by (rule service_step.list_all_services [OF surjective_pairing])
  ultimately show ?thesis by (meson converse_rtranclp_into_rtranclp rtranclp.rtrancl_refl)
qed

lemma healing_counts_records_witness:
  "auto_heal_services calm_env healed_state = healed_state \<and> map fst (mem_services healed_state) = [''web'']"
proof -
  have "list_all (\<lambda>(name, sv). sv_replicas sv \<le> int (length (readable_replicas (record_dir healed_state name)))) (mem_services healed_state)"
    by code_simp
  moreover have "o_records bare_state = []" by (simp add: bare_state_def)
  moreover have "\<not> oe_read_dir_fails calm_env (o_log healed_state) name" for name by (simp add: calm_env_def)
  moreover have "map fst (mem_services healed_state) = [''web'']" by code_simp
  ultimately show ?thesis using healing_counts_records [OF healed_steps] by blast
qed

lemma records_ok_one: "records_ok one_state"
  by (simp add: records_ok_def one_state_def dir_ok_def record_ok_def old_replica_def new_replica_def replica_file_def)

lemma service_rm_leaks_witness:
  "o_log (snd (remove_service calm_env ''web'' (new_process one_state))) = []
   \<and> readable_replicas (record_dir (snd (remove_service calm_env ''web'' (new_process one_state))) ''web'') = []"
proof -
  have "fst (remove_service calm_env ''web'' (new_process one_state)) = Inr ()" by code_simp
  then have "remove_service calm_env ''web'' (new_process one_state)
      = (Inr (), snd (remove_service calm_env ''web'' (new_process one_state)))"
    by (metis surjective_pairing)
  from service_rm_leaks [OF records_ok_one this] show ?thesis by (simp add: one_state_def)
qed

lemma rolling_update_forgets_services_witness:
  "\<exists>m. o_services_file (snd (rolling_update_service calm_env ''web'' ''nginx:2'' one_state)) = Json m
       \<and> fst ` set m = {''web''}"
proof -
  have "fst (rolling_update_service calm_env ''web'' ''nginx:2'' one_state) = Inr ()" by code_simp
  then have 1: "rolling_update_service calm_env ''web'' ''nginx:2'' one_state
      = (Inr (), snd (rolling_update_service calm_env ''web'' ''nginx:2'' one_state))"
    by (metis surjective_pairing)
  have 2: "o_cluster_file one_state = Json one_config" by (simp add: one_state_def)
  have 3: "known_replicas calm_env ''web'' one_state \<noteq> []" by code_simp
  from rolling_update_forgets_services [OF 1 2 3] show ?thesis by (simp add: one_config_def empty_config_def)
qed

lemma failed_replacement_not_reconciled_witness:
  "EvStopped ''n1'' ''c-old'' \<in> set (o_log (snd (snd (roll_replica (calm_env\<lparr>oe_start := \<lambda>log opts. SaveFails\<rparr>)
     ''web'' ''nginx:2'' ''stop-first'' old_replica web one_state))))"
proof -
  let ?e = "calm_env\<lparr>oe_start := \<lambda>log opts. SaveFails\<rparr>"
  let ?r = "roll_replica ?e ''web'' ''nginx:2'' ''stop-first'' old_replica web one_state"
  have "fst ?r = Inl (Replacement (rp_id old_replica) SaveContainer)" by code_simp
  then have 1: "?r = (Inl (Replacement (rp_id old_replica) SaveContainer), fst (snd ?r), snd (snd ?r))"
    by (metis surjective_pairing)
  have 2: "int (running_count (known_replicas ?e ''web'' one_state)) = sv_replicas web" by code_simp
  have 3: "\<not> oe_read_dir_fails ?e log ''web''" for log by (simp add: calm_env_def)
  have 4: "''stop-first'' \<noteq> ''start-first''" by simp
  from failed_replacement_not_reconciled [OF 1 4 2 3] show ?thesis by (simp add: old_replica_def new_replica_def)
qed

lemma reconcile_converges_witness:
  "int (running_count (known_replicas calm_env ''web'' (reconcile_service calm_env ''web'' (web\<lparr>sv_replicas := 3\<rparr>) one_state))) = 3"
proof -
  have new: "replica_file (nat_str n) \<noteq> ''old.json''" for n
  proof
    assume "replica_file (nat_str n) = ''old.json''"
    then have "nat_str n = ''old''" by (simp add: replica_file_def)
    then have "is_digit (CHR ''o'')" using nat_str_digits [of n] by (simp add: list_all_iff)
    then show False by (simp add: is_digit_def)
  qed
  have "int (running_count (known_replicas calm_env ''web'' (reconcile_service calm_env ''web'' (web\<lparr>sv_replicas := 3\<rparr>) one_state)))
      = sv_replicas (web\<lparr>sv_replicas := 3\<rparr>)"
  proof (rule reconcile_converges [where cfg = one_config])
    show "records_ok one_state" by (rule records_ok_one)
    show "has_active_node one_config" by code_simp
    show "bad_volume (sv_volumes (web\<lparr>sv_replicas := 3\<rparr>)) = None" by code_simp
    show "map_of (cc_nodes (o_conf one_state)) (rp_node r) \<noteq> None"
      if "r \<in> set (readable_replicas (record_dir one_state ''web''))" for r
    proof -
      have "readable_replicas (record_dir one_state ''web'') = [old_replica]" by code_simp
      with that show ?thesis by (simp add: old_replica_def new_replica_def one_state_def one_config_def)
    qed
    show "replica_file (oe_new_id calm_env log) \<notin> fst ` set (record_dir one_state ''web'')" for log
      using new by (simp add: calm_env_def one_state_def record_dir_def or_else_def)
  qed (simp_all add: calm_env_def one_state_def nat_str_inject)
  then show ?thesis by simp
qed

end
