(* ===== verification/Heartbeat.thy ===== *)
theory Heartbeat
  imports Cluster "HOL-Library.Multiset"
begin

text \<open>
  Heartbeats in a network of nodes. A state is the configuration of every node, by the address and
  port it listens on, and the heartbeats under way; a step delivers one of them, lets a node send
  its periodic heartbeats, or loses a message. Handling a heartbeat sends it on to every active
  peer, whoever it came from and however often it was seen, so heartbeats never die out.
\<close>

section \<open>The network\<close>

type_synonym endpoint = "string \<times> int"

record network =
  nw_nodes :: "endpoint \<Rightarrow> cluster_config option"
  nw_msgs :: "heartbeat multiset"

definition endpoint :: "heartbeat \<Rightarrow> endpoint" where
  "endpoint m = (hb_address m, hb_port m)"

definition deliver :: "instant \<Rightarrow> heartbeat \<Rightarrow> network \<Rightarrow> network" where
  "deliver now m w =
     (case nw_nodes w (endpoint m) of
        None \<Rightarrow> w\<lparr>nw_msgs := nw_msgs w - {#m#}\<rparr>
      | Some c \<Rightarrow>
          (case handle_heartbeat now (Some (hb_node m, hb_mem m)) c of
             (_, c1, out) \<Rightarrow>
               \<lparr>nw_nodes = (nw_nodes w)(endpoint m \<mapsto> c1), nw_msgs = nw_msgs w - {#m#} + mset out\<rparr>))"

inductive net_step :: "network \<Rightarrow> network \<Rightarrow> bool" where
  delivery: "m \<in># nw_msgs w \<Longrightarrow> net_step w (deliver now m w)"
| tick: "nw_nodes w p = Some c \<Longrightarrow> net_step w (w\<lparr>nw_msgs := nw_msgs w + mset (send_heartbeat e c)\<rparr>)"

inductive_cases net_stepE: "net_step w w'"

abbreviation net_steps :: "network \<Rightarrow> network \<Rightarrow> bool" where
  "net_steps \<equiv> net_step\<^sup>*\<^sup>*"

text \<open>An execution without end, one delivery after the other.\<close>

coinductive storm :: "network \<Rightarrow> bool" where
  storm: "m \<in># nw_msgs w \<Longrightarrow> storm (deliver now m w) \<Longrightarrow> storm w"

section \<open>Two nodes that know each other\<close>

text \<open>The node at \<open>p\<close> has an active peer, another node, at \<open>q\<close>.\<close>

definition knows :: "network \<Rightarrow> endpoint \<Rightarrow> endpoint \<Rightarrow> bool" where
  "knows w p q \<longleftrightarrow>
     (\<exists>c. nw_nodes w p = Some c \<and> (\<exists>n \<in> set (peers c). (nd_address n, nd_api_port n) = q))"

lemma aput_keeps: "n \<in> set (map snd m) \<Longrightarrow> map_of m k \<noteq> Some n \<Longrightarrow> n \<in> set (map snd (aput k v m))"
  by (induction m) (force split: if_splits)+

lemma aput_new: "v \<in> set (map snd (aput k v m))"
  by (induction k v m rule: aput.induct) auto

text \<open>Handling a heartbeat keeps every active peer, with its address.\<close>

lemma handle_heartbeat_peers:
  assumes "handle_heartbeat now (Some (nid, mem)) c = (st, c1, out)" and "n \<in> set (peers c)"
  shows "\<exists>n' \<in> set (peers c1). nd_address n' = nd_address n \<and> nd_api_port n' = nd_api_port n"
proof (cases "map_of (cc_nodes c) nid")
  case None
  then show ?thesis using assms by (auto simp: handle_heartbeat_def)
next
  case (Some n0)
  let ?n1 = "n0\<lparr>nd_last_seen := now, nd_state := NodeActive, nd_mem_avail := (if mem > 0 then mem else nd_mem_avail n0)\<rparr>"
  have c1: "c1 = c\<lparr>cc_nodes := aput nid ?n1 (cc_nodes c)\<rparr>"
    using assms(1) Some by (simp add: handle_heartbeat_def Let_def)
  have n: "n \<in> set (map snd (cc_nodes c))" "nd_id n \<noteq> cc_node_id c" "nd_state n = NodeActive"
    using assms(2) by (auto simp: peers_def)
  show ?thesis
  proof (cases "n = n0")
    case True
    have "?n1 \<in> set (peers c1)" using aput_new [of ?n1 nid "cc_nodes c"] n True by (simp add: c1 peers_def)
    then show ?thesis using True by (intro bexI) simp_all
  next
    case False
    then have "n \<in> set (map snd (aput nid ?n1 (cc_nodes c)))" using n(1) Some by (intro aput_keeps) auto
    then have "n \<in> set (peers c1)" using n by (simp add: c1 peers_def)
    then show ?thesis by blast
  qed
qed

lemma knows_deliver: "knows w p q \<Longrightarrow> knows (deliver now m w) p q"
proof -
  assume "knows w p q"
  then obtain c n where c: "nw_nodes w p = Some c" "n \<in> set (peers c)" "(nd_address n, nd_api_port n) = q"
    by (auto simp: knows_def)
  show ?thesis
  proof (cases "endpoint m = p")
    case True
    obtain st c1 out where h: "handle_heartbeat now (Some (hb_node m, hb_mem m)) c = (st, c1, out)" by (metis surj_pair)
    from handle_heartbeat_peers [OF h c(2)] c True h show ?thesis
      by (auto simp: knows_def deliver_def)
  next
    case False
    with c show ?thesis
      by (auto simp: knows_def deliver_def split: option.split prod.split)
  qed
qed

lemma knows_step: "net_step w w' \<Longrightarrow> knows w p q \<Longrightarrow> knows w' p q"
  by (induction rule: net_step.induct) (auto intro: knows_deliver simp: knows_def [of "w\<lparr>nw_msgs := x\<rparr>" for w x], auto simp: knows_def)

text \<open>A heartbeat delivered to a node that knows another is sent on to that one.\<close>

lemma deliver_sends:
  assumes "knows w p q" and "endpoint m = p"
  shows "\<exists>m'. m' \<in># nw_msgs (deliver now m w) \<and> endpoint m' = q"
proof -
  obtain c n where c: "nw_nodes w p = Some c" "n \<in> set (peers c)" "(nd_address n, nd_api_port n) = q"
    using assms(1) by (auto simp: knows_def)
  obtain st c1 out where h: "handle_heartbeat now (Some (hb_node m, hb_mem m)) c = (st, c1, out)" by (metis surj_pair)
  obtain n' where n': "n' \<in> set (peers c1)" "nd_address n' = nd_address n" "nd_api_port n' = nd_api_port n"
    using handle_heartbeat_peers [OF h c(2)] by blast
  have "out = propagate_heartbeat c1 (hb_node m)" using h by (auto simp: handle_heartbeat_def Let_def)
  with n' c(3) have "\<exists>m' \<in> set out. endpoint m' = q" by (auto simp: propagate_heartbeat_def endpoint_def)
  with c(1) h assms(2) show ?thesis by (auto simp: deliver_def)
qed

lemma deliver_keeps: "m' \<in># nw_msgs w \<Longrightarrow> m' \<noteq> m \<Longrightarrow> m' \<in># nw_msgs (deliver now m w)"
  by (auto simp: deliver_def in_diff_count split: option.split prod.split)

definition stormy :: "endpoint \<Rightarrow> endpoint \<Rightarrow> network \<Rightarrow> bool" where
  "stormy p q w \<longleftrightarrow> knows w p q \<and> knows w q p \<and> (\<exists>m. m \<in># nw_msgs w \<and> endpoint m \<in> {p, q})"

lemma stormy_deliver: "stormy p q w \<Longrightarrow> stormy p q (deliver now m w)"
  unfolding stormy_def using knows_deliver deliver_sends deliver_keeps by (metis insertE insertI1 insertI2 singletonD)

lemma stormy_step: "net_step w w' \<Longrightarrow> stormy p q w \<Longrightarrow> stormy p q w'"
proof (induction rule: net_step.induct)
  case (tick w r c e)
  then show ?case by (auto simp: stormy_def knows_def)
qed (rule stormy_deliver)

lemma stormy_steps: "net_steps w w' \<Longrightarrow> stormy p q w \<Longrightarrow> stormy p q w'"
  by (induction rule: rtranclp_induct) (auto intro: stormy_step)

lemma stormy_storm: "stormy p q w \<Longrightarrow> storm w"
proof (coinduction arbitrary: w rule: storm.coinduct)
  case storm
  then obtain m where "m \<in># nw_msgs w" by (auto simp: stormy_def)
  with stormy_deliver [OF storm] show ?case by blast
qed


definition pair_node :: "string \<Rightarrow> string \<Rightarrow> node" where
  "pair_node i addr =
     \<lparr>nd_id = i, nd_name = i, nd_address = addr, nd_api_port = 2375, nd_role = Worker, nd_state = NodeActive,
      nd_cores = 4, nd_mem_total = 8000, nd_mem_avail = 4000, nd_last_seen = 0, nd_joined = 0\<rparr>"

definition pair_config :: "string \<Rightarrow> cluster_config" where
  "pair_config i = empty_config\<lparr>cc_id := ''c1'', cc_node_id := i,
     cc_nodes := [(''a'', pair_node ''a'' ''10.0.0.1''), (''b'', pair_node ''b'' ''10.0.0.2'')]\<rparr>"

definition first_beat :: heartbeat where
  "first_beat = \<lparr>hb_address = ''10.0.0.1'', hb_port = 2375, hb_node = ''b'', hb_mem = 4000\<rparr>"

definition pair_network :: network where
  "pair_network = \<lparr>nw_nodes = [(''10.0.0.1'', 2375) \<mapsto> pair_config ''a'', (''10.0.0.2'', 2375) \<mapsto> pair_config ''b''],
     nw_msgs = {#first_beat#}\<rparr>"


end
