(* ===== verification/Ip.thy ===== *)
theory Ip
  imports Ipv4
begin

text \<open>
  \<open>net.ParseIP\<close> for both families: an IPv6 address is its eight groups, and one that maps an
  IPv4 address is that address, as \<open>To4\<close> sees it.
\<close>

datatype net_ip = V4 ipv4 | V6 "nat list"

definition hex_val :: "char \<Rightarrow> nat option" where
  "hex_val c =
     (let n = of_char c :: nat in
      if 48 \<le> n \<and> n \<le> 57 then Some (n - 48)
      else if 97 \<le> n \<and> n \<le> 102 then Some (n - 87)
      else if 65 \<le> n \<and> n \<le> 70 then Some (n - 55)
      else None)"

definition is_hex :: "char \<Rightarrow> bool" where
  "is_hex c \<longleftrightarrow> hex_val c \<noteq> None"

definition hex_group :: "string \<Rightarrow> nat" where
  "hex_group ds = foldl (\<lambda>v c. 16 * v + the (hex_val c)) 0 ds"

text \<open>
  The groups of an address from left to right; the option is where the double colon stands. The
  last two groups may be an IPv4 address.
\<close>

function v6_groups :: "nat option \<Rightarrow> nat list \<Rightarrow> string \<Rightarrow> (nat option \<times> nat list) option" where
  "v6_groups ell gs s =
     (let ds = takeWhile is_hex s; rest = dropWhile is_hex s in
      if length gs \<ge> 8 then (if s = [] then Some (ell, gs) else None)
      else if ds = [] \<or> length ds > 4 then None
      else if rest \<noteq> [] \<and> hd rest = CHR ''.'' then
        (if (ell = None \<and> length gs \<noteq> 6) \<or> length gs > 6 then None
         else map_option (\<lambda>v. (ell, gs @ [unat v div 65536, unat v mod 65536])) (parse_ipv4 s))
      else
        (case rest of
           [] \<Rightarrow> Some (ell, gs @ [hex_group ds])
         | c # t \<Rightarrow>
             if c \<noteq> CHR '':'' \<or> t = [] then None
             else if hd t = CHR '':'' then
               (if ell \<noteq> None then None
                else if tl t = [] then Some (Some (Suc (length gs)), gs @ [hex_group ds])
                else v6_groups (Some (Suc (length gs))) (gs @ [hex_group ds]) (tl t))
             else v6_groups ell (gs @ [hex_group ds]) t))"
  by pat_completeness auto
termination
proof (relation "measure (\<lambda>(ell, gs, s). length s)", goal_cases)
  case 1
  show ?case by simp
next
  case (2 ell gs s ds rest c t)
  then have "length rest \<le> length s" using length_dropWhile_le [of is_hex s] by simp
  moreover have "length rest = Suc (length t)" using 2 by (metis length_Cons)
  ultimately show ?case by (cases t; cases s) simp_all
next
  case (3 ell gs s ds rest c t)
  then have "length rest \<le> length s" using length_dropWhile_le [of is_hex s] by simp
  moreover have "length rest = Suc (length t)" using 3 by (metis length_Cons)
  ultimately show ?case by (cases t; cases s) simp_all
qed

declare v6_groups.simps [simp del]

definition v6_expand :: "nat option \<times> nat list \<Rightarrow> nat list option" where
  "v6_expand p =
     (case p of (ell, gs) \<Rightarrow>
        if length gs < 8
        then map_option (\<lambda>k. take k gs @ replicate (8 - length gs) 0 @ drop k gs) ell
        else if ell \<noteq> None then None else Some gs)"

definition parse_ipv6 :: "string \<Rightarrow> nat list option" where
  "parse_ipv6 s =
     (if has_prefix s ''::'' then
        (if length s = 2 then Some (replicate 8 0)
         else Option.bind (v6_groups (Some 0) [] (drop 2 s)) v6_expand)
      else Option.bind (v6_groups None [] s) v6_expand)"

definition net_ip :: "nat list \<Rightarrow> net_ip" where
  "net_ip gs = (if take 6 gs = [0, 0, 0, 0, 0, 65535] then V4 (word_of_nat (65536 * gs ! 6 + gs ! 7)) else V6 gs)"

definition parse_ip :: "string \<Rightarrow> net_ip option" where
  "parse_ip s =
     (case find (\<lambda>c. c \<in> {CHR ''.'', CHR '':'', CHR ''%''}) s of
        None \<Rightarrow> None
      | Some c \<Rightarrow>
          if c = CHR ''.'' then map_option V4 (parse_ipv4 s)
          else if c = CHR '':'' \<and> CHR ''%'' \<notin> set s then map_option net_ip (parse_ipv6 s)
          else None)"

definition is_loopback :: "net_ip \<Rightarrow> bool" where
  "is_loopback ip = (case ip of V4 a \<Rightarrow> octet 3 a = 127 | V6 gs \<Rightarrow> gs = [0, 0, 0, 0, 0, 0, 0, 1])"

lemma find_first: "list_all (\<lambda>x. \<not> P x) a \<Longrightarrow> P b \<Longrightarrow> find P (a @ b # c) = Some b"
  by (induction a) simp_all

lemma parse_ip_string_v4 [simp]: "parse_ip (ip_string x) = Some (V4 x)"
proof -
  have ex: "\<exists>r. ip_string x = nat_str (octet 3 x) @ CHR ''.'' # r" by (simp add: ip_string_def)
  obtain r where r: "ip_string x = nat_str (octet 3 x) @ CHR ''.'' # r" using ex by blast
  have digits: "list_all is_digit (nat_str (octet 3 x))" using nat_str_digits by blast
  have "list_all (\<lambda>c. c \<notin> {CHR ''.'', CHR '':'', CHR ''%''}) (nat_str (octet 3 x))"
    by (rule list.pred_mono_strong [OF digits]) (auto simp: is_digit_def)
  from find_first [OF this, of "CHR ''.''" r] r
  have "find (\<lambda>c. c \<in> {CHR ''.'', CHR '':'', CHR ''%''}) (ip_string x) = Some (CHR ''.'')" by simp
  then show ?thesis by (simp add: parse_ip_def)
qed

end
