(* ===== verification/ApiServer.thy ===== *)
theory ApiServer
  imports Ip Cluster Dockerfile Volumes
begin

text \<open>
  The API server (\<open>internal/api/server.go\<close>, \<open>cluster.go\<close>): which hosts it may listen on, the
  chain of handlers a request passes (cross-origin check, rate limiter, authentication, routing)
  and the requests of the cluster's nodes. \<open>url.Parse\<close> of the origin and the peer's host of
  the connection are part of the request.
\<close>

section \<open>Starting\<close>

definition is_external_host :: "string \<Rightarrow> bool" where
  "is_external_host host0 =
     (let host = trim_space host0 in
      if host = [] then True
      else if host = ''localhost'' then False
      else
        let h = (if has_prefix host ''['' \<and> has_suffix host '']'' then trim_suffix (trim_prefix host ''['') '']'' else host) in
        case parse_ip h of Some ip \<Rightarrow> \<not> is_loopback ip | None \<Rightarrow> True)"

datatype server_err = TlsIncomplete | NoTokenOnExternal

text \<open>The checks before the server listens.\<close>

definition start_server :: "string \<Rightarrow> string \<Rightarrow> string \<Rightarrow> string \<Rightarrow> server_err + unit" where
  "start_server token host cert key =
     (if (cert = []) \<noteq> (key = []) then Inl TlsIncomplete
      else if is_external_host host \<and> token = [] then Inl NoTokenOnExternal
      else Inr ())"

section \<open>A request\<close>

record origin =
  or_scheme :: string
  or_host :: string
  or_bare :: bool

record request =
  rq_method :: string
  rq_path :: string
  rq_auth :: string
  rq_origin :: "origin option"
  rq_host :: string

datatype route =
    PingRoute | VersionRoute | InfoRoute | ContainersList | ContainersCreate | ContainersRouter
  | ImagesList | ImagesRouter | SystemPrune | ClusterRouter | ClusterContainers | MetricsRoute | RootRoute

text \<open>\<open>http.ServeMux\<close>: an exact pattern, or the longest one that ends in a slash and fits.\<close>

definition exact_routes :: "(string \<times> route) list" where
  "exact_routes = [(''/_ping'', PingRoute), (''/version'', VersionRoute), (''/info'', InfoRoute),
     (''/containers/json'', ContainersList), (''/containers/create'', ContainersCreate),
     (''/images/json'', ImagesList), (''/system/prune'', SystemPrune),
     (''/cluster/containers'', ClusterContainers), (''/metrics'', MetricsRoute)]"

definition route_of :: "string \<Rightarrow> route" where
  "route_of path =
     (case map_of exact_routes path of
        Some r \<Rightarrow> r
      | None \<Rightarrow>
          if has_prefix path ''/containers/'' then ContainersRouter
          else if has_prefix path ''/images/'' then ImagesRouter
          else if has_prefix path ''/cluster/'' then ClusterRouter
          else RootRoute)"

section \<open>Cross-origin requests\<close>

definition allowed_cors_origins :: "string \<Rightarrow> string list" where
  "allowed_cors_origins env =
     [''localhost'', ''127.0.0.1'', ''::1'']
     @ (if env \<noteq> [] then filter (\<lambda>h. h \<noteq> []) (map trim_space (split_byte (CHR '','') env)) else [])"

definition is_allowed_cors_origin :: "string list \<Rightarrow> origin option \<Rightarrow> bool" where
  "is_allowed_cors_origin allowed o1 =
     (case o1 of
        None \<Rightarrow> False
      | Some p \<Rightarrow> or_bare p \<and> or_scheme p \<in> {''http'', ''https''} \<and> or_host p \<in> set allowed)"

section \<open>The rate limiter\<close>

text \<open>Tokens are counted in billionths, so that a nanosecond refills 25 of them.\<close>

record rate_bucket =
  rb_tokens :: int
  rb_last :: instant

definition token :: int where
  "token = 1000000000"

definition bucket_size :: int where
  "bucket_size = 50 * token"

definition refill_rate :: int where
  "refill_rate = 25"

type_synonym clients = "(string \<times> rate_bucket) list"

definition refill :: "instant \<Rightarrow> rate_bucket \<Rightarrow> int" where
  "refill now b = min bucket_size (rb_tokens b + (now - rb_last b) * refill_rate)"

definition prune_clients :: "instant \<Rightarrow> clients \<Rightarrow> clients" where
  "prune_clients now cs = filter (\<lambda>(h, b). \<not> rb_last b < now - 5 * minute) cs"

definition loopback_host :: "string \<Rightarrow> bool" where
  "loopback_host h = (case parse_ip h of Some ip \<Rightarrow> is_loopback ip | None \<Rightarrow> False)"

definition rate_limiter :: "instant \<Rightarrow> string \<Rightarrow> clients \<Rightarrow> bool \<times> clients" where
  "rate_limiter now host cs =
     (if loopback_host host then (True, cs)
      else
        let b = (case map_of cs host of Some b \<Rightarrow> b | None \<Rightarrow> \<lparr>rb_tokens = bucket_size, rb_last = now\<rparr>);
            t = refill now b in
        if t < token then (False, aput host \<lparr>rb_tokens = t, rb_last = now\<rparr> cs)
        else
          let cs1 = aput host \<lparr>rb_tokens = t - token, rb_last = now\<rparr> cs in
          (True, if length cs1 > 4096 then prune_clients now cs1 else cs1))"

section \<open>The chain of handlers\<close>

definition auth_ok :: "string \<Rightarrow> request \<Rightarrow> bool" where
  "auth_ok tok r \<longleftrightarrow> tok = [] \<or> rq_auth r = ''Bearer '' @ tok"

datatype outcome = Preflight | RateLimited | Forbidden | Handled route

record api_config =
  ap_token :: string
  ap_cors :: "string list"
  ap_strict_metrics :: bool

definition mux :: "api_config \<Rightarrow> request \<Rightarrow> outcome" where
  "mux cfg r =
     (let rt = route_of (rq_path r) in
      if rt = MetricsRoute \<and> ap_strict_metrics cfg \<and> \<not> auth_ok (ap_token cfg) r then Forbidden else Handled rt)"

definition serve :: "api_config \<Rightarrow> instant \<Rightarrow> request \<Rightarrow> clients \<Rightarrow> outcome \<times> clients" where
  "serve cfg now r cs =
     (if is_allowed_cors_origin (ap_cors cfg) (rq_origin r) \<and> rq_method r = ''OPTIONS'' then (Preflight, cs)
      else case rate_limiter now (rq_host r) cs of
        (False, cs1) \<Rightarrow> (RateLimited, cs1)
      | (True, cs1) \<Rightarrow> (if auth_ok (ap_token cfg) r then mux cfg r else Forbidden, cs1))"

fun serve_all :: "api_config \<Rightarrow> (instant \<times> request) list \<Rightarrow> clients \<Rightarrow> outcome list" where
  "serve_all cfg [] cs = []"
| "serve_all cfg ((now, r) # rs) cs = (case serve cfg now r cs of (o1, cs1) \<Rightarrow> o1 # serve_all cfg rs cs1)"

section \<open>Requests of the cluster's nodes\<close>

datatype cluster_endpoint = Replicas | Health | Unknown string

definition cluster_endpoint :: "string \<Rightarrow> cluster_endpoint" where
  "cluster_endpoint path =
     (let ep = hd (splitn_byte 2 (CHR ''/'') (trim_prefix path ''/cluster/'')) in
      if ep = ''replicas'' then Replicas else if ep = ''health'' then Health else Unknown ep)"

record replica_request =
  rr_service :: string
  rr_image :: string
  rr_replica :: string
  rr_ports :: "service_port list"
  rr_env :: "(string \<times> string) list"
  rr_volumes :: "string list"
  rr_command :: string
  rr_restart :: string
  rr_labels :: "(string \<times> string) list"

definition put_label_if :: "string \<Rightarrow> string \<Rightarrow> (string \<times> string) list \<Rightarrow> (string \<times> string) list" where
  "put_label_if k v m = (if v \<noteq> [] then aput k v m else m)"

definition last_part :: "string \<Rightarrow> string" where
  "last_part name = (case last_index_byte name (CHR ''/'') of None \<Rightarrow> name | Some i \<Rightarrow> drop (Suc i) name)"

definition short_replica :: "string \<Rightarrow> string" where
  "short_replica rid = take 8 rid"

definition request_opts :: "string \<times> string \<Rightarrow> replica_request \<Rightarrow> start_opts" where
  "request_opts img r =
     (let name = (if rr_service r \<noteq> [] then rr_service r else last_part (fst img)) in
      \<lparr>so_image = img, so_name = (if rr_replica r \<noteq> [] then name @ ''.'' @ short_replica (rr_replica r) else name),
       so_ports = map (\<lambda>p. (if sp_port p = 0 then sp_target p else sp_port p, sp_target p,
                           if sp_protocol p = [] then ''tcp'' else sp_protocol p)) (rr_ports r),
       so_volumes = rr_volumes r, so_env = map (\<lambda>(k, v). k @ ''='' @ v) (rr_env r),
       so_restart = (if rr_restart r = [] then ''no'' else rr_restart r),
       so_cmd = (if rr_command r \<noteq> [] then split_shell_words (rr_command r) else []),
       so_labels = put_label_if ''dck.replica'' (rr_replica r) (put_label_if ''dck.service'' (rr_service r) (rr_labels r)),
       so_memory = 0, so_cpus = 0\<rparr>)"

definition handle_replica_create :: "orch_env \<Rightarrow> replica_request option \<Rightarrow> orch \<Rightarrow> (int \<times> string option) \<times> orch" where
  "handle_replica_create e body s =
     (case body of
        None \<Rightarrow> ((400, None), s)
      | Some r \<Rightarrow>
          if rr_image r = [] then ((400, None), s)
          else (case oe_pull e (o_log s) (rr_image r) of
            None \<Rightarrow> ((404, None), happened EvFailed s)
          | Some img \<Rightarrow>
              let s1 = happened (EvPulled (rr_image r)) s in
              if \<not> list_all (\<lambda>v. parse_volume_spec (trim_space v) \<noteq> None) (rr_volumes r) then ((400, None), s1)
              else
                (case oe_start e (o_log s1) (request_opts img r) of
                   SaveFails \<Rightarrow> ((500, None), happened EvFailed s1)
                 | StartFails msg \<Rightarrow> ((500, None), happened EvFailed s1)
                 | StartedAs cid \<Rightarrow> ((201, Some cid), happened (EvStarted (rr_service r) cid) s1))))"

definition handle_replica_remove :: "orch_env \<Rightarrow> string \<Rightarrow> orch \<Rightarrow> int \<times> orch" where
  "handle_replica_remove e path s =
     (let cid = trim_suffix (trim_prefix path ''/cluster/replicas/'') ''/'' in
      if cid = [] then (400, s)
      else case oe_remove_local e (o_log s) cid of
        LoadFails _ \<Rightarrow> (404, happened EvFailed s)
      | RemoveFails _ \<Rightarrow> (500, happened EvFailed s)
      | Removed \<Rightarrow> (200, happened (EvStopped [] cid) s))"

definition handle_cluster_router ::
  "orch_env \<Rightarrow> string \<Rightarrow> string \<Rightarrow> replica_request option \<Rightarrow> orch \<Rightarrow> (int \<times> string option) \<times> orch" where
  "handle_cluster_router e meth path body s =
     (case cluster_endpoint path of
        Health \<Rightarrow> ((200, None), s)
      | Unknown _ \<Rightarrow> ((404, None), s)
      | Replicas \<Rightarrow>
          if meth = ''POST'' then handle_replica_create e body s
          else if meth = ''DELETE'' then (case handle_replica_remove e path s of (st, s1) \<Rightarrow> ((st, None), s1))
          else ((405, None), s))"

text \<open>
  What a peer that runs this server answers to a request to join, which carries the caller's
  token: the status alone, for the body of an error has none of the fields of a cluster.
\<close>

definition join_answer :: "api_config \<Rightarrow> orch_env \<Rightarrow> instant \<Rightarrow> request \<Rightarrow> clients \<Rightarrow> orch \<Rightarrow> join_info answer" where
  "join_answer cfg e now r cs s =
     (case fst (serve cfg now r cs) of
        Preflight \<Rightarrow> Answer 204 None
      | RateLimited \<Rightarrow> Answer 429 None
      | Forbidden \<Rightarrow> Answer 403 None
      | Handled ClusterRouter \<Rightarrow> Answer (fst (fst (handle_cluster_router e (rq_method r) (rq_path r) None s))) None
      | Handled _ \<Rightarrow> Answer 200 None)"

end
