(* ===== verification/ApiProps.thy ===== *)
theory ApiProps
  imports ApiServer
begin

text \<open>
  Facts on the API server: a host outside the machine needs the token, the limiter bounds what a
  host may ask for in any span of time, and a node that asks to join is always turned away.
\<close>

section \<open>Authentication\<close>

text \<open>
  A server that listens on an external host only handles requests that carry its token, and
  it has one.
\<close>

theorem external_server_guarded:
  assumes "start_server (ap_token cfg) host cert key = Inr ()" and "is_external_host host"
    and "serve cfg now r cs = (Handled rt, cs')"
  shows "ap_token cfg \<noteq> [] \<and> rq_auth r = ''Bearer '' @ ap_token cfg"
proof -
  have "ap_token cfg \<noteq> []" using assms(1,2) by (auto simp: start_server_def split: if_splits)
  moreover have "auth_ok (ap_token cfg) r"
    using assms(3) by (auto simp: serve_def split: if_splits prod.splits bool.splits)
  ultimately show ?thesis by (simp add: auth_ok_def)
qed

section \<open>The rate limiter\<close>

lemmas rate_defs = token_def bucket_size_def refill_rate_def minute_def second_def

definition clients_ok :: "instant \<Rightarrow> clients \<Rightarrow> bool" where
  "clients_ok now cs \<longleftrightarrow>
     distinct (map fst cs) \<and> list_all (\<lambda>(h, b). 0 \<le> rb_tokens b \<and> rb_last b \<le> now) cs"

definition available :: "instant \<Rightarrow> clients \<Rightarrow> string \<Rightarrow> int" where
  "available now cs h = (case map_of cs h of None \<Rightarrow> bucket_size | Some b \<Rightarrow> refill now b)"

lemma clients_ok_Nil [simp]: "clients_ok now []"
  by (simp add: clients_ok_def)

lemma clients_ok_later: "clients_ok now cs \<Longrightarrow> now \<le> now' \<Longrightarrow> clients_ok now' cs"
  by (auto simp: clients_ok_def list_all_iff)

lemma clients_ok_bucket: "clients_ok now cs \<Longrightarrow> map_of cs h = Some b \<Longrightarrow> 0 \<le> rb_tokens b \<and> rb_last b \<le> now"
  by (auto simp: clients_ok_def list_all_iff dest: map_of_SomeD)

lemma list_all_aput': "P (k, v) \<Longrightarrow> list_all P m \<Longrightarrow> list_all P (aput k v m)"
  by (induction k v m rule: aput.induct) auto

lemma clients_ok_aput: "clients_ok now cs \<Longrightarrow> 0 \<le> t \<Longrightarrow> clients_ok now (aput h \<lparr>rb_tokens = t, rb_last = now\<rparr> cs)"
  by (simp add: clients_ok_def list_all_aput')

lemma clients_ok_prune: "clients_ok now cs \<Longrightarrow> clients_ok now (prune_clients now cs)"
  by (auto simp: clients_ok_def prune_clients_def list_all_iff distinct_map_filter)

lemma available_bounds: "clients_ok now cs \<Longrightarrow> 0 \<le> available now cs h \<and> available now cs h \<le> bucket_size"
  using clients_ok_bucket [of now cs h]
  by (auto simp: available_def refill_def rate_defs split: option.split)

text \<open>A bucket that is dropped would have been full again.\<close>

lemma available_prune:
  assumes "clients_ok now cs" shows "available now (prune_clients now cs) h = available now cs h"
proof (cases "map_of cs h")
  case None
  then have "map_of (prune_clients now cs) h = None"
    by (auto simp: prune_clients_def map_of_eq_None_iff)
  with None show ?thesis by (simp add: available_def)
next
  case (Some b)
  have d: "distinct (map fst cs)" using assms by (simp add: clients_ok_def)
  then have m: "map_of (prune_clients now cs) h = (if rb_last b < now - 5 * minute then None else Some b)"
    using Some by (induction cs) (auto simp: prune_clients_def map_of_eq_None_iff image_iff split: if_splits dest: map_of_SomeD)
  have "refill now b = bucket_size" if "rb_last b < now - 5 * minute"
    using that clients_ok_bucket [OF assms Some] by (simp add: refill_def rate_defs)
  with m Some show ?thesis by (simp add: available_def)
qed

lemma available_later:
  assumes "clients_ok now cs" and "now \<le> now'"
  shows "available now' cs h \<le> available now cs h + (now' - now) * refill_rate"
  using assms(2) by (auto simp: available_def refill_def rate_defs min_def split: option.split)

lemma rate_limiter_step:
  assumes "clients_ok now cs" and "rate_limiter now host cs = (ok, cs')" and "\<not> loopback_host h"
  shows "clients_ok now cs' \<and> available now cs' h = available now cs h - (if ok \<and> host = h then token else 0)"
proof (cases "loopback_host host")
  case True
  then show ?thesis using assms by (auto simp: rate_limiter_def)
next
  case False
  let ?b = "case map_of cs host of Some b \<Rightarrow> b | None \<Rightarrow> \<lparr>rb_tokens = bucket_size, rb_last = now\<rparr>"
  let ?t = "refill now ?b"
  have t: "?t = available now cs host" by (simp add: available_def refill_def split: option.split)
  have av: "available now (aput host \<lparr>rb_tokens = x, rb_last = now\<rparr> cs) h = (if host = h then min bucket_size x else available now cs h)" for x
    by (simp add: available_def refill_def)
  note b = available_bounds [OF assms(1), of host]
  show ?thesis
  proof (cases "?t < token")
    case True
    then have "ok = False" "cs' = aput host \<lparr>rb_tokens = ?t, rb_last = now\<rparr> cs"
      using assms(2) False by (simp_all add: rate_limiter_def Let_def)
    with av [of ?t] b t show ?thesis by (auto intro: clients_ok_aput [OF assms(1)])
  next
    case ge: False
    let ?cs1 = "aput host \<lparr>rb_tokens = ?t - token, rb_last = now\<rparr> cs"
    have ok: "ok = True" "cs' = ?cs1 \<or> cs' = prune_clients now ?cs1"
      using assms(2) False ge by (auto simp: rate_limiter_def Let_def split: if_splits)
    have c1: "clients_ok now ?cs1" using ge by (intro clients_ok_aput assms(1)) simp
    have "available now ?cs1 h = available now cs h - (if host = h then token else 0)"
      using b unfolding av t by (auto simp: token_def)
    with ok c1 show ?thesis using clients_ok_prune [OF c1] available_prune [OF c1] by auto
  qed
qed

definition admitted :: "string \<Rightarrow> (instant \<times> request) list \<Rightarrow> outcome list \<Rightarrow> nat" where
  "admitted h rs os = length (filter (\<lambda>((now, r), o1). rq_host r = h \<and> o1 \<noteq> Preflight \<and> o1 \<noteq> RateLimited) (zip rs os))"

lemma admitted_bound:
  assumes "clients_ok t0 cs" and "sorted (t0 # map fst rs @ [t1])" and "\<not> loopback_host h"
  shows "token * int (admitted h rs (serve_all cfg rs cs)) \<le> available t0 cs h + (t1 - t0) * refill_rate"
  using assms(1,2)
proof (induction rs arbitrary: t0 cs)
  case Nil
  then show ?case using available_bounds [OF Nil(1), of h] by (simp add: admitted_def rate_defs)
next
  case (Cons p rs)
  obtain now r where p: "p = (now, r)" by (metis surj_pair)
  have le: "t0 \<le> now" and srt: "sorted (now # map fst rs @ [t1])" using Cons.prems(2) by (auto simp: p)
  have ok: "clients_ok now cs" by (rule clients_ok_later [OF Cons.prems(1) le])
  obtain o1 cs1 where s: "serve cfg now r cs = (o1, cs1)" by (metis surj_pair)
  obtain adm cs2 where l: "rate_limiter now (rq_host r) cs = (adm, cs2)" by (metis surj_pair)
  note step = rate_limiter_step [OF ok l assms(3)]
  let ?one = "if rq_host r = h \<and> o1 \<noteq> Preflight \<and> o1 \<noteq> RateLimited then 1 else 0 :: int"
  have "clients_ok now cs1 \<and> token * ?one \<le> available now cs h - available now cs1 h"
    using s l step ok by (auto simp: serve_def mux_def Let_def rate_defs split: if_splits bool.splits)
  moreover have "int (admitted h (p # rs) (serve_all cfg (p # rs) cs)) = ?one + int (admitted h rs (serve_all cfg rs cs1))"
    using s by (simp add: admitted_def p)
  moreover have "available now cs h \<le> available t0 cs h + (now - t0) * refill_rate"
    by (rule available_later [OF Cons.prems(1) le])
  ultimately show ?case using Cons.IH [OF _ srt, of cs1] by (simp add: algebra_simps)
qed

text \<open>
  In any span of time a host outside the machine gets at most 50 requests past the limiter, and
  25 more for every second of the span, whatever buckets are dropped meanwhile.
\<close>

theorem rate_limiter_bound:
  assumes "clients_ok t0 cs" and "sorted (t0 # map fst rs @ [t1])" and "\<not> loopback_host h"
  shows "token * int (admitted h rs (serve_all cfg rs cs)) \<le> 50 * token + 25 * (t1 - t0)"
  using admitted_bound [OF assms, of cfg] available_bounds [OF assms(1), of h]
  by (simp add: bucket_size_def refill_rate_def)

section \<open>Joining a cluster\<close>

lemma join_endpoint: "cluster_endpoint ''/cluster/join'' = Unknown ''join''"
  by code_simp

lemma join_route: "route_of ''/cluster/join'' = ClusterRouter"
  by code_simp

lemma join_answer_status:
  assumes "rq_method r = ''POST''" and "rq_path r = ''/cluster/join''"
  shows "\<exists>st. join_answer cfg e now r cs s = Answer st None \<and> st \<noteq> 200"
proof -
  obtain o1 cs1 where o1: "serve cfg now r cs = (o1, cs1)" by (metis surj_pair)
  have "o1 \<in> {RateLimited, Forbidden, Handled ClusterRouter}"
    using o1 assms by (auto simp: serve_def mux_def Let_def join_route split: if_splits bool.splits prod.splits)
  then show ?thesis
    using o1 assms by (auto simp: join_answer_def handle_cluster_router_def join_endpoint)
qed


section \<open>Witnesses\<close>

definition open_request :: request where
  "open_request = \<lparr>rq_method = ''POST'', rq_path = ''/cluster/join'', rq_auth = ''Bearer s3cret'', rq_origin = None, rq_host = ''10.0.0.7''\<rparr>"

definition guarded_config :: api_config where
  "guarded_config = \<lparr>ap_token = ''s3cret'', ap_cors = allowed_cors_origins [], ap_strict_metrics = True\<rparr>"

lemma external_server_guarded_witness: "rq_auth open_request = ''Bearer '' @ ap_token guarded_config"
proof -
  have 1: "start_server (ap_token guarded_config) ''0.0.0.0'' [] [] = Inr ()" by code_simp
  have 2: "is_external_host ''0.0.0.0''" by code_simp
  have "fst (serve guarded_config 0 open_request []) = Handled ClusterRouter" by code_simp
  then have 3: "serve guarded_config 0 open_request [] = (Handled ClusterRouter, snd (serve guarded_config 0 open_request []))"
    by (metis surjective_pairing)
  from external_server_guarded [OF 1 2 3] show ?thesis by blast
qed

lemma rate_limiter_bound_witness:
  "token * int (admitted ''10.0.0.7'' (replicate 60 (0, open_request)) (serve_all guarded_config (replicate 60 (0, open_request)) []))
     \<le> 50 * token + 25 * (0 - 0)"
proof (rule rate_limiter_bound)
  show "\<not> loopback_host ''10.0.0.7''" by code_simp
  show "sorted ((0 :: instant) # map fst (replicate 60 (0, open_request)) @ [0])" by (simp add: sorted_append)
qed simp

definition lonely_env :: orch_env where
  "lonely_env = \<lparr>oe_now = (\<lambda>log. 0), oe_cancelled = (\<lambda>log. False), oe_new_id = (\<lambda>log. ''id''),
     oe_dir_ok = (\<lambda>log. True), oe_hostname = ''host'', oe_cores = 4, oe_mem_total = 8000, oe_mem_avail = 4000,
     oe_join = (\<lambda>log p. NoAnswer), oe_pull = (\<lambda>log i. None), oe_start = (\<lambda>log opts. SaveFails),
     oe_post = (\<lambda>log n rid sv. NoAnswer), oe_delete = (\<lambda>log n c. Inr 404), oe_remove_local = (\<lambda>log c. Removed),
     oe_read_dir_fails = (\<lambda>log n. False), oe_remove_fails = (\<lambda>log n i. False)\<rparr>"

definition no_cluster :: orch where
  "no_cluster = \<lparr>o_conf = empty_config, o_loaded_here = False, o_loaded_file = False, o_cluster_file = Absent,
     o_backup_file = Absent, o_services_file = Absent, o_records = [], o_saves = [], o_log = []\<rparr>"


end
