(* ===== verification/Dns.thy ===== *)
theory Dns
  imports Ip Services
begin

text \<open>
  Service discovery over DNS (\<open>internal/orchestrator/dns.go\<close>): the cache of addresses, the names
  of queries and the response, written byte by byte into a buffer as the code does.
\<close>

type_synonym byte = "8 word"

section \<open>Names\<close>

definition byte_char :: "byte \<Rightarrow> char" where
  "byte_char b = char_of (unat b)"

text \<open>The labels of a name up to the empty one; \<open>None\<close> when one runs past the end.\<close>

function dns_labels :: "byte list \<Rightarrow> string list option" where
  "dns_labels [] = Some []"
| "dns_labels (b # bs) =
     (if b = 0 then Some []
      else if unat b > length bs then None
      else map_option (\<lambda>ls. map byte_char (take (unat b) bs) # ls) (dns_labels (drop (unat b) bs)))"
  by pat_completeness auto
termination by (relation "measure length") auto

definition join_labels :: "string list \<Rightarrow> string" where
  "join_labels = str_join ''.''"

definition parse_dns_name :: "byte list \<Rightarrow> string" where
  "parse_dns_name bs = (case dns_labels bs of None \<Rightarrow> [] | Some ls \<Rightarrow> join_labels ls)"

text \<open>\<open>split\<close>: a part after the last separator only if it is not empty.\<close>

fun split_parts :: "char \<Rightarrow> string \<Rightarrow> string \<Rightarrow> string list" where
  "split_parts sep cur [] = (if cur = [] then [] else [cur])"
| "split_parts sep cur (c # s) = (if c = sep then cur # split_parts sep [] s else split_parts sep (cur @ [c]) s)"

definition split_dns_name :: "string \<Rightarrow> string list" where
  "split_dns_name s = split_parts (CHR ''.'') [] s"

definition extract_service_name :: "string \<Rightarrow> string" where
  "extract_service_name qname =
     (let parts = split_dns_name qname in
      if length parts \<ge> 4 \<and> parts ! 1 = ''svc'' \<and> parts ! 2 = ''cluster'' \<and> parts ! 3 = ''local''
      then parts ! 0 else [])"

section \<open>The cache\<close>

record dns_entry =
  de_name :: string
  de_addresses :: "string list"
  de_updated :: instant

type_synonym dns_cache = "(string \<times> dns_entry) list"

text \<open>No address is ever found: the loop over the replicas collects nothing.\<close>

definition discover_service :: "orch_env \<Rightarrow> string \<Rightarrow> orch \<Rightarrow> string list" where
  "discover_service e name s =
     (case get_service e name s of
        (Inl _, _) \<Rightarrow> []
      | (Inr _, s1) \<Rightarrow>
          (case get_service_replicas e name s1 of Inl _ \<Rightarrow> [] | Inr rs \<Rightarrow> concat (map (\<lambda>r. []) rs)))"

definition resolve_service :: "orch_env \<Rightarrow> instant \<Rightarrow> string \<Rightarrow> orch \<Rightarrow> dns_cache \<Rightarrow> string list \<times> dns_cache" where
  "resolve_service e now name s cache =
     (case map_of cache name of
        Some d \<Rightarrow>
          if now - de_updated d < 30 * second then (de_addresses d, cache)
          else
            (let as = discover_service e name s in (as, aput name \<lparr>de_name = name, de_addresses = as, de_updated = now\<rparr> cache))
      | None \<Rightarrow>
          (let as = discover_service e name s in (as, aput name \<lparr>de_name = name, de_addresses = as, de_updated = now\<rparr> cache)))"

definition update_dns_entry :: "instant \<Rightarrow> string \<Rightarrow> string list \<Rightarrow> dns_cache \<Rightarrow> dns_cache" where
  "update_dns_entry now name as cache = aput name \<lparr>de_name = name, de_addresses = as, de_updated = now\<rparr> cache"

definition add_dns_record :: "instant \<Rightarrow> string \<Rightarrow> string \<Rightarrow> dns_cache \<Rightarrow> dns_cache" where
  "add_dns_record now name ip cache =
     (case map_of cache name of
        None \<Rightarrow> aput name \<lparr>de_name = name, de_addresses = [ip], de_updated = now\<rparr> cache
      | Some d \<Rightarrow>
          aput name (d\<lparr>de_addresses := (if ip \<in> set (de_addresses d) then de_addresses d else de_addresses d @ [ip]),
                       de_updated := now\<rparr>) cache)"

definition remove_dns_record :: "instant \<Rightarrow> string \<Rightarrow> string \<Rightarrow> dns_cache \<Rightarrow> dns_cache" where
  "remove_dns_record now name ip cache =
     (case map_of cache name of
        None \<Rightarrow> cache
      | Some d \<Rightarrow> aput name (d\<lparr>de_addresses := filter (\<lambda>a. a \<noteq> ip) (de_addresses d), de_updated := now\<rparr>) cache)"

section \<open>The response\<close>

text \<open>Writing past the end of a slice panics, which is \<open>None\<close>.\<close>

definition put_byte :: "nat \<Rightarrow> byte \<Rightarrow> byte list \<Rightarrow> byte list option" where
  "put_byte i b buf = (if i < length buf then Some (buf[i := b]) else None)"

fun put_bytes :: "nat \<Rightarrow> byte list \<Rightarrow> byte list \<Rightarrow> byte list option" where
  "put_bytes i [] buf = Some buf"
| "put_bytes i (b # bs) buf = Option.bind (put_byte i b buf) (put_bytes (Suc i) bs)"

text \<open>A pointer to the name, type A, class IN, 60 seconds to live, four bytes of data.\<close>

definition record_head :: "byte list" where
  "record_head = [0xC0, 0x0C, 0, 1, 0, 1, 0, 0, 0, 60, 0, 4]"

definition ip_bytes :: "ipv4 \<Rightarrow> byte list" where
  "ip_bytes a = map (\<lambda>i. word_of_nat (octet i a)) [3, 2, 1, 0]"

text \<open>An address that does not parse is skipped; \<open>To4\<close> of an IPv6 address is nil, and indexing it panics.\<close>

fun put_answers :: "nat \<Rightarrow> string list \<Rightarrow> byte list \<Rightarrow> (nat \<times> byte list) option" where
  "put_answers off [] buf = Some (off, buf)"
| "put_answers off (a # as) buf =
     (case parse_ip a of
        None \<Rightarrow> put_answers off as buf
      | Some ip \<Rightarrow>
          Option.bind (put_bytes off record_head buf) (\<lambda>buf1.
            case ip of
              V6 _ \<Rightarrow> None
            | V4 v \<Rightarrow> Option.bind (put_bytes (off + 12) (ip_bytes v) buf1) (put_answers (off + 16) as)))"

definition build_dns_response :: "byte list \<Rightarrow> string list \<Rightarrow> byte list option" where
  "build_dns_response query addresses =
     (let n = length addresses;
          buf = query @ replicate (4 + 16 * n) 0 in
      if length query < 12 then None
      else
        let buf1 = buf[2 := buf ! 2 OR 0x80, 6 := word_of_nat (n div 256), 7 := word_of_nat n] in
        map_option (\<lambda>(off, b). take off b) (put_answers (length query) addresses (take 12 buf1 @ drop 12 query @ drop (length query) buf1)))"

datatype query_result = NoReply | Reply "byte list" | Panics

definition handle_dns_query ::
  "orch_env \<Rightarrow> instant \<Rightarrow> byte list \<Rightarrow> orch \<Rightarrow> dns_cache \<Rightarrow> query_result \<times> dns_cache" where
  "handle_dns_query e now data s cache =
     (if length data < 12 then (NoReply, cache)
      else
        let qname = parse_dns_name (drop 12 data); name = extract_service_name qname in
        if qname = [] \<or> name = [] then (NoReply, cache)
        else
          (case resolve_service e now name s cache of
             ([], cache1) \<Rightarrow> (NoReply, cache1)
           | (as, cache1) \<Rightarrow>
               ((case build_dns_response data as of None \<Rightarrow> Panics | Some r \<Rightarrow> Reply r), cache1)))"

end
