(* ===== verification/DnsProps.thy ===== *)
theory DnsProps
  imports Dns
begin

text \<open>
  Facts on service discovery: names are read back as they are encoded, a response is the query
  with its flags and one record per IPv4 address and never runs out of its buffer, and records
  added to the cache are gone after half a minute.
\<close>

section \<open>Names\<close>

definition char_byte :: "char \<Rightarrow> byte" where
  "char_byte c = word_of_nat (of_char c)"

definition encode_label :: "string \<Rightarrow> byte list" where
  "encode_label l = word_of_nat (length l) # map char_byte l"

definition encode_name :: "string list \<Rightarrow> byte list" where
  "encode_name ls = concat (map encode_label ls) @ [0]"

lemma byte_char_byte [simp]: "byte_char (char_byte c) = c"
proof -
  have "(of_char c :: nat) < 256" by (rule nat_of_char_less_256)
  then show ?thesis by (simp add: byte_char_def char_byte_def unsigned_of_nat take_bit_nat_eq_self)
qed

lemma unat_length: "n \<le> 255 \<Longrightarrow> unat (word_of_nat n :: byte) = n"
  by (simp add: unsigned_of_nat take_bit_nat_eq_self)

lemma dns_labels_encode:
  "list_all (\<lambda>l. l \<noteq> [] \<and> length l \<le> 255) ls \<Longrightarrow> dns_labels (encode_name ls @ rest) = Some ls"
proof (induction ls)
  case (Cons l ls)
  then have l: "unat (word_of_nat (length l) :: byte) = length l" by (simp add: unat_length)
  moreover have "l \<noteq> []" using Cons.prems by simp
  ultimately have "(word_of_nat (length l) :: byte) \<noteq> 0" by (metis length_0_conv unat_0)
  with l Cons show ?case by (simp add: encode_name_def encode_label_def comp_def)
qed (simp add: encode_name_def)

lemma split_parts_plain: "CHR ''.'' \<notin> set p \<Longrightarrow> split_parts (CHR ''.'') cur (p @ CHR ''.'' # s) = (cur @ p) # split_parts (CHR ''.'') [] s"
  by (induction p arbitrary: cur) auto

lemma split_parts_last: "CHR ''.'' \<notin> set p \<Longrightarrow> cur @ p \<noteq> [] \<Longrightarrow> split_parts (CHR ''.'') cur p = [cur @ p]"
  by (induction p arbitrary: cur) auto

text \<open>
  C21. The query for \<open>name.svc.cluster.local\<close>, encoded as DNS encodes names and followed by
  anything, is read as a query for the service \<open>name\<close>.
\<close>

theorem dns_query_roundtrip:
  assumes "name \<noteq> []" and "length name \<le> 255" and "CHR ''.'' \<notin> set name"
  shows "extract_service_name (parse_dns_name (encode_name [name, ''svc'', ''cluster'', ''local''] @ rest)) = name"
proof -
  have "parse_dns_name (encode_name [name, ''svc'', ''cluster'', ''local''] @ rest) = name @ CHR ''.'' # ''svc.cluster.local''"
    using assms(1,2) by (simp add: parse_dns_name_def dns_labels_encode join_labels_def)
  moreover have "split_dns_name (name @ CHR ''.'' # ''svc.cluster.local'') = [name, ''svc'', ''cluster'', ''local'']"
    using assms(3) by (simp add: split_dns_name_def split_parts_plain)
  ultimately show ?thesis by (simp add: extract_service_name_def)
qed

lemma dns_query_roundtrip_witness:
  "extract_service_name (parse_dns_name (encode_name [''web'', ''svc'', ''cluster'', ''local''] @ [0, 1, 0, 1])) = ''web''"
  by (rule dns_query_roundtrip) simp_all

section \<open>The response\<close>

lemma put_bytes_fits:
  "i + length bs \<le> length buf \<Longrightarrow> put_bytes i bs buf = Some (take i buf @ bs @ drop (i + length bs) buf)"
proof (induction bs arbitrary: i buf)
  case (Cons b bs)
  then have i: "i < length buf" by simp
  have "put_bytes (Suc i) bs (buf[i := b]) = Some (take (Suc i) (buf[i := b]) @ bs @ drop (Suc i + length bs) (buf[i := b]))"
    using Cons.prems by (intro Cons.IH) simp
  moreover have "take (Suc i) (buf[i := b]) = take i buf @ [b]" using i by (simp add: take_Suc_conv_app_nth)
  ultimately show ?case using i by (simp add: put_byte_def)
qed simp

definition answer_of :: "string \<Rightarrow> byte list" where
  "answer_of a = (case parse_ip a of Some (V4 v) \<Rightarrow> record_head @ ip_bytes v | _ \<Rightarrow> [])"

definition is_v6 :: "string \<Rightarrow> bool" where
  "is_v6 a = (case parse_ip a of Some (V6 _) \<Rightarrow> True | _ \<Rightarrow> False)"

lemma answer_length: "length (answer_of a) \<le> 16"
  by (simp add: answer_of_def record_head_def ip_bytes_def split: option.split net_ip.split)

lemma put_answers_panics: "list_ex is_v6 as \<Longrightarrow> put_answers off as buf = None"
proof (induction as arbitrary: off buf)
  case (Cons a as)
  show ?case
  proof (cases "parse_ip a")
    case None
    then show ?thesis using Cons by (simp add: is_v6_def)
  next
    case (Some ip)
    show ?thesis
    proof (cases ip)
      case (V4 v)
      then show ?thesis using Cons Some by (simp add: is_v6_def bind_eq_None_conv)
    next
      case (V6 gs)
      then show ?thesis using Some by (simp add: bind_eq_None_conv)
    qed
  qed
qed simp

lemma put_answers_fits:
  assumes "\<not> list_ex is_v6 as" and "off + 16 * length as \<le> length buf"
  shows "\<exists>tail. put_answers off as buf =
      Some (off + length (concat (map answer_of as)), take off buf @ concat (map answer_of as) @ tail)"
  using assms
proof (induction as arbitrary: off buf)
  case (Cons a as)
  show ?case
  proof (cases "parse_ip a")
    case None
    then show ?thesis using Cons by (simp add: answer_of_def)
  next
    case (Some ip)
    then obtain v where ip: "ip = V4 v" using Cons.prems(1) by (cases ip) (auto simp: is_v6_def)
    have ans: "answer_of a = record_head @ ip_bytes v" using Some ip by (simp add: answer_of_def)
    have len: "length record_head = 12" "length (ip_bytes v) = 4" by (simp_all add: record_head_def ip_bytes_def)
    let ?b1 = "take off buf @ record_head @ drop (off + 12) buf"
    let ?b2 = "take off buf @ record_head @ ip_bytes v @ drop (off + 16) buf"
    have off: "length (take off buf) = off" using Cons.prems(2) by simp
    have 1: "put_bytes off record_head buf = Some ?b1"
      using Cons.prems(2) by (simp add: put_bytes_fits len)
    have 2: "put_bytes (off + 12) (ip_bytes v) ?b1 = Some ?b2"
      using Cons.prems(2) by (subst put_bytes_fits) (simp_all add: len off add.commute)
    have "length ?b2 = length buf" using Cons.prems(2) by (simp add: len)
    then obtain tl where "put_answers (off + 16) as ?b2 =
        Some (off + 16 + length (concat (map answer_of as)), take (off + 16) ?b2 @ concat (map answer_of as) @ tl)"
      using Cons.IH [of "off + 16" ?b2] Cons.prems by auto
    moreover have "take (off + 16) ?b2 = take off buf @ answer_of a" using off by (simp add: ans len)
    ultimately have "put_answers (off + 16) as ?b2 =
        Some (off + length (concat (map answer_of (a # as))), take off buf @ concat (map answer_of (a # as)) @ tl)"
      by (simp only: ans list.map concat.simps length_append len append.assoc add.assoc) simp
    with 1 2 show ?thesis by (simp add: Some ip)
  qed
next
  case (Nil off buf)
  show ?case by (intro exI [of _ "drop off buf"]) simp
qed

text \<open>
  C22. The response to a query is the query with the response flag and the number of addresses,
  followed by a record for each address that is an IPv4 address, and no byte is written past the
  buffer; it panics exactly when one of the addresses is an IPv6 address.
\<close>

theorem dns_response_exact:
  assumes "12 \<le> length query"
  shows "build_dns_response query as =
    (if list_ex is_v6 as then None
     else Some (query[2 := query ! 2 OR 0x80, 6 := word_of_nat (length as div 256), 7 := word_of_nat (length as)]
                @ concat (map answer_of as)))"
proof -
  let ?q = "query[2 := query ! 2 OR 0x80, 6 := word_of_nat (length as div 256), 7 := word_of_nat (length as)]"
  let ?z = "replicate (4 + 16 * length as) (0 :: byte)"
  have buf: "(query @ ?z)[2 := (query @ ?z) ! 2 OR 0x80, 6 := word_of_nat (length as div 256), 7 := word_of_nat (length as)] = ?q @ ?z"
    using assms by (simp add: list_update_append nth_append)
  have q: "take 12 (?q @ ?z) @ drop 12 query @ drop (length query) (?q @ ?z) = ?q @ ?z"
    using assms append_take_drop_id [of 12 ?q] by (simp add: drop_update_cancel)
  show ?thesis
  proof (cases "list_ex is_v6 as")
    case True
    then show ?thesis using assms by (simp add: build_dns_response_def Let_def put_answers_panics)
  next
    case False
    obtain tl where "put_answers (length query) as (?q @ ?z) =
        Some (length query + length (concat (map answer_of as)), take (length query) (?q @ ?z) @ concat (map answer_of as) @ tl)"
      using put_answers_fits [OF False, of "length query" "?q @ ?z"] by auto
    then show ?thesis
      using assms False unfolding build_dns_response_def Let_def buf q by simp
  qed
qed

lemma dns_response_exact_witness:
  "build_dns_response (replicate 12 0) [''::1''] = None
   \<and> build_dns_response (replicate 12 0) [''10.0.0.5''] = Some ([0, 0, 0x80, 0, 0, 0, 0, 1, 0, 0, 0, 0] @ record_head @ [10, 0, 0, 5])"
proof -
  have v6: "list_ex is_v6 [''::1'']" "\<not> list_ex is_v6 [''10.0.0.5'']" by code_simp+
  have ans: "concat (map answer_of [''10.0.0.5'']) = record_head @ [10, 0, 0, 5]" by code_simp
  have hd: "(replicate 12 (0 :: byte))[2 := replicate 12 0 ! 2 OR 0x80, 6 := word_of_nat (length [''10.0.0.5''] div 256), 7 := word_of_nat (length [''10.0.0.5''])]
      = [0, 0, 0x80, 0, 0, 0, 0, 1, 0, 0, 0, 0]"
    by code_simp
  have "12 \<le> length (replicate 12 (0 :: byte))" by simp
  from dns_response_exact [OF this, of "[''::1'']"] dns_response_exact [OF this, of "[''10.0.0.5'']"]
  show ?thesis unfolding ans hd using v6 by simp
qed

section \<open>The cache\<close>

text \<open>An address registered for a service is not found any more half a minute later.\<close>

lemma record_expires:
  assumes "30 * second \<le> later - now"
  shows "fst (resolve_service e later name s (update_dns_entry now name as cache)) = []"
  using assms by (auto simp: resolve_service_def update_dns_entry_def discover_service_def Let_def split: prod.split sum.split)

end
