(* ===== verification/Functions.thy ===== *)
theory Functions
  imports AtomicWrite GoTime
begin

text \<open>
  Serverless functions (\<open>internal/orchestrator/faas.go\<close>): deploying, invoking and removing a
  function, starting its containers on demand and stopping them when it is idle. A process keeps
  the definitions and the containers it has started in memory; only the definitions, with the
  number of active containers, are in the file all processes share.
\<close>

section \<open>The data\<close>

record function_def =
  fn_name :: string
  fn_image :: string
  fn_handler :: string
  fn_port :: int
  fn_env :: "(string \<times> string) list"
  fn_timeout :: int
  fn_idle_timeout :: int
  fn_memory :: string
  fn_cpus :: int
  fn_replicas :: int
  fn_labels :: "(string \<times> string) list"
  fn_created :: instant
  fn_updated :: instant
  fn_invokes :: int
  fn_active :: int
  fn_last_used :: instant

type_synonym fn_table = "(string \<times> function_def) list"

datatype functions_file = NoFunctions | BadFunctions | FunctionsJson fn_table

datatype fn_event = FnFailed | FnCreated string | FnRemoved string | FnForwarded string | FnPulled

text \<open>The memory of a process, the shared file, the outcomes of the writes to come and the events.\<close>

record fstate =
  fs_fns :: fn_table
  fs_here :: bool
  fs_loaded :: bool
  fs_containers :: "(string \<times> string list) list"
  fs_file :: functions_file
  fs_saves :: "write_outcome list"
  fs_log :: "fn_event list"

definition fresh_process :: "fstate \<Rightarrow> fstate" where
  "fresh_process s = s\<lparr>fs_fns := [], fs_here := False, fs_loaded := False, fs_containers := []\<rparr>"

record fn_world =
  fe_now :: "fn_event list \<Rightarrow> instant"
  fe_cancelled :: "fn_event list \<Rightarrow> bool"
  fe_dir_ok :: "fn_event list \<Rightarrow> bool"
  fe_pull :: "fn_event list \<Rightarrow> string \<Rightarrow> bool"
  fe_new_id :: "fn_event list \<Rightarrow> string"
  fe_save :: "fn_event list \<Rightarrow> bool"
  fe_start :: "fn_event list \<Rightarrow> string \<Rightarrow> bool"
  fe_load :: "fn_event list \<Rightarrow> string \<Rightarrow> string option"
  fe_remove :: "fn_event list \<Rightarrow> string \<Rightarrow> bool"
  fe_forward :: "fn_event list \<Rightarrow> string \<Rightarrow> string \<Rightarrow> string option"

datatype fn_err =
    FnCancelled | FnLoad | FnExists string | FnNotFound string | FnSave | FnPull string | FnMemory string
  | FnSaveContainer | FnStartContainer | FnNoContainers string | FnLoadContainer | FnForward
  | FnScaleUp fn_err

definition fn_happened :: "fn_event \<Rightarrow> fstate \<Rightarrow> fstate" where
  "fn_happened ev s = s\<lparr>fs_log := fs_log s @ [ev]\<rparr>"

definition active_of :: "fstate \<Rightarrow> string \<Rightarrow> string list" where
  "active_of s name = (case map_of (fs_containers s) name of None \<Rightarrow> [] | Some cs \<Rightarrow> cs)"

definition map_fn :: "(function_def \<Rightarrow> function_def) \<Rightarrow> string \<Rightarrow> fstate \<Rightarrow> fstate" where
  "map_fn f name s =
     (case map_of (fs_fns s) name of None \<Rightarrow> s | Some fn \<Rightarrow> s\<lparr>fs_fns := aput name (f fn) (fs_fns s)\<rparr>)"

section \<open>The file of functions\<close>

definition load_functions :: "fn_world \<Rightarrow> fstate \<Rightarrow> (fn_err + unit) \<times> fstate" where
  "load_functions e s =
     (if \<not> fe_dir_ok e (fs_log s) then (Inl FnLoad, s)
      else case fs_file s of
        BadFunctions \<Rightarrow> (Inl FnLoad, s)
      | NoFunctions \<Rightarrow>
          (Inr (), s\<lparr>fs_fns := (if \<not> fs_here s \<or> fs_loaded s then [] else fs_fns s), fs_here := True, fs_loaded := False\<rparr>)
      | FunctionsJson m \<Rightarrow> (Inr (), s\<lparr>fs_fns := m, fs_here := True, fs_loaded := True\<rparr>))"

definition save_functions :: "fn_world \<Rightarrow> fstate \<Rightarrow> (fn_err + unit) \<times> fstate" where
  "save_functions e s =
     (if \<not> fe_dir_ok e (fs_log s) then (Inl FnSave, s)
      else
        (case fs_saves s of
           [] \<Rightarrow> (Inr (), s\<lparr>fs_file := FunctionsJson (fs_fns s), fs_here := True, fs_loaded := True\<rparr>)
         | w # ws \<Rightarrow>
             let s1 = (if w = NotWritten then s\<lparr>fs_saves := ws\<rparr> else s\<lparr>fs_saves := ws, fs_file := FunctionsJson (fs_fns s)\<rparr>) in
             if w = Written then (Inr (), s1\<lparr>fs_here := True, fs_loaded := True\<rparr>) else (Inl FnSave, s1)))"

section \<open>Deploying and listing\<close>

record fn_opts =
  fo_handler :: string
  fo_env :: "(string \<times> string) list"
  fo_timeout :: int
  fo_idle_timeout :: int
  fo_memory :: string
  fo_cpus :: int
  fo_replicas :: int
  fo_labels :: "(string \<times> string) list"

definition new_function :: "instant \<Rightarrow> string \<Rightarrow> string \<Rightarrow> int \<Rightarrow> fn_opts \<Rightarrow> function_def" where
  "new_function now name img port opts =
     \<lparr>fn_name = name, fn_image = img, fn_handler = fo_handler opts, fn_port = port, fn_env = fo_env opts,
      fn_timeout = (if fo_timeout opts = 0 then 30 else fo_timeout opts),
      fn_idle_timeout = (if fo_idle_timeout opts = 0 then 300 else fo_idle_timeout opts),
      fn_memory = fo_memory opts, fn_cpus = fo_cpus opts, fn_replicas = fo_replicas opts,
      fn_labels = fo_labels opts, fn_created = now, fn_updated = now, fn_invokes = 0, fn_active = 0, fn_last_used = 0\<rparr>"

definition deploy_function ::
  "fn_world \<Rightarrow> string \<Rightarrow> string \<Rightarrow> int \<Rightarrow> fn_opts \<Rightarrow> fstate \<Rightarrow> (fn_err + function_def) \<times> fstate" where
  "deploy_function e name img port opts s =
     (if fe_cancelled e (fs_log s) then (Inl FnCancelled, s)
      else case load_functions e s of
        (Inl err, s1) \<Rightarrow> (Inl err, s1)
      | (Inr _, s1) \<Rightarrow>
          if map_of (fs_fns s1) name \<noteq> None then (Inl (FnExists name), s1)
          else
            let fn = new_function (fe_now e (fs_log s1)) name img port opts in
            (case save_functions e (s1\<lparr>fs_fns := aput name fn (fs_fns s1)\<rparr>) of
               (Inl err, s2) \<Rightarrow> (Inl err, s2\<lparr>fs_fns := adel name (fs_fns s2)\<rparr>)
             | (Inr _, s2) \<Rightarrow> (Inr fn, s2)))"

definition list_functions :: "fn_world \<Rightarrow> fstate \<Rightarrow> (fn_err + function_def list) \<times> fstate" where
  "list_functions e s =
     (case load_functions e s of
        (Inl err, s1) \<Rightarrow> (Inl err, s1)
      | (Inr _, s1) \<Rightarrow> (Inr (sort_key fn_created (map snd (fs_fns s1))), s1))"

definition get_function :: "fn_world \<Rightarrow> string \<Rightarrow> fstate \<Rightarrow> (fn_err + function_def) \<times> fstate" where
  "get_function e name s =
     (case load_functions e s of
        (Inl err, s1) \<Rightarrow> (Inl err, s1)
      | (Inr _, s1) \<Rightarrow>
          (case map_of (fs_fns s1) name of None \<Rightarrow> (Inl (FnNotFound name), s1) | Some fn \<Rightarrow> (Inr fn, s1)))"

section \<open>Starting and stopping containers\<close>

text \<open>The limit in bytes: only the digits in front are read, as a number of mebibytes.\<close>

definition memory_limit :: "string \<Rightarrow> int option" where
  "memory_limit mem = (if mem = [] then Some 0 else map_option (\<lambda>n. n * 1024 * 1024) (scan_int mem))"

text \<open>Removing the containers of a failed start; those that cannot be removed are listed.\<close>

fun rollback_removals :: "fn_world \<Rightarrow> string list \<Rightarrow> fstate \<Rightarrow> string list \<times> fstate" where
  "rollback_removals e [] s = ([], s)"
| "rollback_removals e (cid # cids) s =
     (if fe_load e (fs_log s) cid = None \<or> \<not> fe_remove e (fs_log s) cid then
        (case rollback_removals e cids (fn_happened FnFailed s) of (failed, s1) \<Rightarrow> (cid # failed, s1))
      else rollback_removals e cids (fn_happened (FnRemoved cid) s))"

definition rollback_function_containers :: "fn_world \<Rightarrow> string list \<Rightarrow> string \<Rightarrow> fstate \<Rightarrow> fstate" where
  "rollback_function_containers e created name s =
     (if created = [] then s
      else case rollback_removals e created s of
        (failed, s1) \<Rightarrow>
          let kept = filter (\<lambda>i. i \<notin> set created \<or> i \<in> set failed) (active_of s1 name);
              remaining = kept @ filter (\<lambda>i. i \<notin> set kept) (remdups failed);
              s2 = s1\<lparr>fs_containers := (if remaining = [] then adel name (fs_containers s1)
                                     else aput name remaining (fs_containers s1))\<rparr> in
          map_fn (\<lambda>fn. fn\<lparr>fn_active := int (length remaining)\<rparr>) name s2)"

text \<open>The loop that starts \<open>n\<close> more containers; \<open>created\<close> are those it has created so far.\<close>

fun scale_up_loop :: "fn_world \<Rightarrow> string \<Rightarrow> nat \<Rightarrow> string list \<Rightarrow> fstate \<Rightarrow> (fn_err + unit) \<times> fstate" where
  "scale_up_loop e name 0 created s = (Inr (), s)"
| "scale_up_loop e name (Suc n) created s =
     (if fe_cancelled e (fs_log s) then (Inl FnCancelled, rollback_function_containers e created name s)
      else if \<not> fe_save e (fs_log s) then (Inl FnSaveContainer, rollback_function_containers e created name s)
      else
        let cid = fe_new_id e (fs_log s); s1 = fn_happened (FnCreated cid) s; created1 = created @ [cid] in
        if \<not> fe_start e (fs_log s1) cid then (Inl FnStartContainer, rollback_function_containers e created1 name s1)
        else
          let s2 = map_fn (\<lambda>fn. fn\<lparr>fn_active := fn_active fn + 1\<rparr>) name s1;
              s3 = s2\<lparr>fs_containers := aput name (active_of s2 name @ [cid]) (fs_containers s2)\<rparr> in
          scale_up_loop e name n created1 s3)"

definition scale_up_function :: "fn_world \<Rightarrow> function_def \<Rightarrow> nat \<Rightarrow> fstate \<Rightarrow> (fn_err + unit) \<times> fstate" where
  "scale_up_function e fn n s =
     (if fe_cancelled e (fs_log s) then (Inl FnCancelled, s)
      else if \<not> fe_pull e (fs_log s) (fn_image fn) then (Inl (FnPull (fn_image fn)), fn_happened FnFailed s)
      else if memory_limit (fn_memory fn) = None then (Inl (FnMemory (fn_memory fn)), fn_happened FnPulled s)
      else scale_up_loop e (fn_name fn) n [] (fn_happened FnPulled s))"

text \<open>Stopping all containers; a cancelled context leaves the rest and the lists as they are.\<close>

fun scale_down_removals :: "fn_world \<Rightarrow> string list \<Rightarrow> fstate \<Rightarrow> bool \<times> fstate" where
  "scale_down_removals e [] s = (True, s)"
| "scale_down_removals e (cid # cids) s =
     (if fe_cancelled e (fs_log s) then (False, s)
      else if fe_load e (fs_log s) cid \<noteq> None \<and> fe_remove e (fs_log s) cid
      then scale_down_removals e cids (fn_happened (FnRemoved cid) s)
      else scale_down_removals e cids (fn_happened FnFailed s))"

definition scale_down_function :: "fn_world \<Rightarrow> string \<Rightarrow> fstate \<Rightarrow> fstate" where
  "scale_down_function e name s =
     (case scale_down_removals e (active_of s name) s of
        (False, s1) \<Rightarrow> s1
      | (True, s1) \<Rightarrow>
          map_fn (\<lambda>fn. fn\<lparr>fn_active := 0\<rparr>) name (s1\<lparr>fs_containers := adel name (fs_containers s1)\<rparr>))"

section \<open>Invoking and removing\<close>

text \<open>The first container's address, or the loopback one, on the function's port.\<close>

definition target_url :: "string \<Rightarrow> int \<Rightarrow> string" where
  "target_url ip port0 =
     (let port = (if port0 = 0 then 8080 else port0) in
      ''http://'' @ (if ip = [] then ''127.0.0.1'' else ip) @ '':'' @ int_str port)"

definition forward_to_function :: "fn_world \<Rightarrow> function_def \<Rightarrow> string \<Rightarrow> fstate \<Rightarrow> (fn_err + string) \<times> fstate" where
  "forward_to_function e fn payload s =
     (case active_of s (fn_name fn) of
        [] \<Rightarrow> (Inl (FnNoContainers (fn_name fn)), s)
      | cid # _ \<Rightarrow>
          (case fe_load e (fs_log s) cid of
             None \<Rightarrow> (Inl FnLoadContainer, s)
           | Some ip \<Rightarrow>
               let url = target_url ip (fn_port fn) in
               (case fe_forward e (fs_log s) url payload of
                  None \<Rightarrow> (Inl FnForward, fn_happened FnFailed s)
                | Some result \<Rightarrow> (Inr result, fn_happened (FnForwarded url) s))))"

definition invoke_function :: "fn_world \<Rightarrow> string \<Rightarrow> string \<Rightarrow> fstate \<Rightarrow> (fn_err + string) \<times> fstate" where
  "invoke_function e name payload s =
     (case get_function e name s of
        (Inl err, s1) \<Rightarrow> (Inl err, s1)
      | (Inr fn, s1) \<Rightarrow>
          let s2 = map_fn (\<lambda>f. f\<lparr>fn_last_used := fe_now e (fs_log s1)\<rparr>) name s1 in
          (case (if fn_active fn = 0 then scale_up_function e fn (nat (max 1 (fn_replicas fn))) s2 else (Inr (), s2)) of
             (Inl err, s3) \<Rightarrow> (Inl (FnScaleUp err), s3)
           | (Inr _, s3) \<Rightarrow>
               (case forward_to_function e fn payload s3 of
                  (Inl err, s4) \<Rightarrow> (Inl err, s4)
                | (Inr result, s4) \<Rightarrow>
                    (case save_functions e (map_fn (\<lambda>f. f\<lparr>fn_invokes := fn_invokes f + 1\<rparr>) name s4) of
                       (Inl err, s5) \<Rightarrow> (Inl err, s5) | (Inr _, s5) \<Rightarrow> (Inr result, s5)))))"

definition remove_function :: "fn_world \<Rightarrow> string \<Rightarrow> fstate \<Rightarrow> (fn_err + unit) \<times> fstate" where
  "remove_function e name s =
     (case get_function e name s of
        (Inl err, s1) \<Rightarrow> (Inl err, s1)
      | (Inr fn, s1) \<Rightarrow>
          let s2 = scale_down_function e (fn_name fn) s1 in
          save_functions e (s2\<lparr>fs_fns := adel name (fs_fns s2)\<rparr>))"

section \<open>Idle functions\<close>

definition idle :: "instant \<Rightarrow> function_def \<Rightarrow> bool" where
  "idle now fn \<longleftrightarrow> fn_idle_timeout fn > 0 \<and> fn_active fn > 0 \<and> \<not> is_zero (fn_last_used fn)
     \<and> now - fn_last_used fn > fn_idle_timeout fn * second"

definition current :: "fstate \<Rightarrow> string \<Rightarrow> function_def \<Rightarrow> function_def" where
  "current s name fn = (case map_of (fs_fns s) name of None \<Rightarrow> fn | Some f \<Rightarrow> f)"

text \<open>One function of the collection: too many containers first, then idleness.\<close>

definition gc_function :: "fn_world \<Rightarrow> string \<times> function_def \<Rightarrow> fstate \<Rightarrow> fstate" where
  "gc_function e p s =
     (case p of (name, fn0) \<Rightarrow>
        let s1 = (if fn_active (current s name fn0) > fn_replicas (current s name fn0) then scale_down_function e name s else s);
            fn = current s1 name fn0 in
        if idle (fe_now e (fs_log s1)) fn then scale_down_function e name s1 else s1)"

fun gc_loop :: "fn_world \<Rightarrow> fn_table \<Rightarrow> fstate \<Rightarrow> fstate" where
  "gc_loop e [] s = s"
| "gc_loop e (p # ps) s = (if fe_cancelled e (fs_log s) then s else gc_loop e ps (gc_function e p s))"

definition gc_functions :: "fn_world \<Rightarrow> fstate \<Rightarrow> fstate" where
  "gc_functions e s = gc_loop e (fs_fns s) s"

text \<open>\<open>CleanIdleFunctions\<close> asks the two questions in the other order.\<close>

definition clean_function :: "fn_world \<Rightarrow> string \<times> function_def \<Rightarrow> fstate \<Rightarrow> fstate" where
  "clean_function e p s =
     (case p of (name, fn0) \<Rightarrow>
        let s1 = (if idle (fe_now e (fs_log s)) (current s name fn0) then scale_down_function e name s else s) in
        if fn_active (current s1 name fn0) > fn_replicas (current s1 name fn0) then scale_down_function e name s1 else s1)"

fun clean_loop :: "fn_world \<Rightarrow> fn_table \<Rightarrow> fstate \<Rightarrow> fstate" where
  "clean_loop e [] s = s"
| "clean_loop e (p # ps) s = (if fe_cancelled e (fs_log s) then s else clean_loop e ps (clean_function e p s))"

definition clean_idle_functions :: "fn_world \<Rightarrow> fstate \<Rightarrow> fstate" where
  "clean_idle_functions e s = clean_loop e (fs_fns s) s"

end
