(* ===== verification/FunctionProps.thy ===== *)
theory FunctionProps
  imports Functions
begin

text \<open>
  Facts on functions: a scale-up that fails leaves no container behind, and a function that one
  process has invoked cannot be invoked from any other.
\<close>

section \<open>Failed scale-ups\<close>

lemma fn_happened_simps [simp]:
  "fs_fns (fn_happened ev s) = fs_fns s" "fs_containers (fn_happened ev s) = fs_containers s"
  "fs_file (fn_happened ev s) = fs_file s" "fs_saves (fn_happened ev s) = fs_saves s"
  "fs_log (fn_happened ev s) = fs_log s @ [ev]" "active_of (fn_happened ev s) n = active_of s n"
  by (simp_all add: fn_happened_def active_of_def)

lemma map_fn_simps [simp]:
  "fs_containers (map_fn f n s) = fs_containers s" "fs_log (map_fn f n s) = fs_log s"
  "fs_file (map_fn f n s) = fs_file s" "fs_saves (map_fn f n s) = fs_saves s"
  "active_of (map_fn f n s) m = active_of s m"
  "map_of (fs_fns (map_fn f n s)) m = (if m = n then map_option f (map_of (fs_fns s) n) else map_of (fs_fns s) m)"
  by (auto simp: map_fn_def active_of_def split: option.split)

lemma active_of_put [simp]:
  "active_of (s\<lparr>fs_containers := aput n cs m\<rparr>) n' = (if n' = n then cs else active_of (s\<lparr>fs_containers := m\<rparr>) n')"
  "active_of (s\<lparr>fs_containers := adel n m\<rparr>) n' = (if n' = n then [] else active_of (s\<lparr>fs_containers := m\<rparr>) n')"
  "active_of (s\<lparr>fs_fns := fns\<rparr>) n' = active_of s n'"
  by (simp_all add: active_of_def)

lemma rollback_removals_all:
  assumes "\<And>log c. fe_load e log c \<noteq> None" and "\<And>log c. fe_remove e log c"
  shows "rollback_removals e cids s = ([], fold (\<lambda>c. fn_happened (FnRemoved c)) cids s)"
  using assms by (induction cids arbitrary: s) simp_all

lemma fold_removed [simp]:
  "fs_containers (fold (\<lambda>c. fn_happened (FnRemoved c)) cids s) = fs_containers s"
  "active_of (fold (\<lambda>c. fn_happened (FnRemoved c)) cids s) n = active_of s n"
  "fs_log (fold (\<lambda>c. fn_happened (FnRemoved c)) cids s) = fs_log s @ map FnRemoved cids"
  by (induction cids arbitrary: s) simp_all

text \<open>What a roll-back leaves when the containers it has to remove can be removed.\<close>

lemma rollback_restores:
  assumes "\<And>log c. fe_load e log c \<noteq> None" and "\<And>log c. fe_remove e log c"
    and "active_of s name = base @ xs" and "set xs \<subseteq> set created" and "set base \<inter> set created = {}"
  shows "active_of (rollback_function_containers e created name s) name = base
       \<and> fs_log (rollback_function_containers e created name s) = fs_log s @ map FnRemoved created"
proof (cases "created = []")
  case True
  then show ?thesis using assms(3,4) by (simp add: rollback_function_containers_def)
next
  case False
  have "filter (\<lambda>i. i \<notin> set created) (active_of s name) = base"
  proof -
    have "filter (\<lambda>i. i \<notin> set created) base = base" using assms(5) by (intro filter_True) auto
    moreover have "filter (\<lambda>i. i \<notin> set created) xs = []" using assms(4) by (auto simp: filter_empty_conv)
    ultimately show ?thesis by (simp add: assms(3))
  qed
  then show ?thesis
    using False by (auto simp: rollback_function_containers_def rollback_removals_all [OF assms(1,2)] Let_def)
qed

lemma scale_up_loop_fails:
  assumes "scale_up_loop e name n created s = (Inl err, s')"
    and "\<And>log c. fe_load e log c \<noteq> None" and "\<And>log c. fe_remove e log c"
    and "\<And>log. fe_new_id e log \<notin> set base"
    and "active_of s name = base @ xs" and "set xs \<subseteq> set created" and "set base \<inter> set created = {}"
    and "\<And>c. FnCreated c \<in> set (drop k (fs_log s)) \<Longrightarrow> c \<in> set created" and "k \<le> length (fs_log s)"
  shows "active_of s' name = base
       \<and> (\<forall>c. FnCreated c \<in> set (drop k (fs_log s')) \<longrightarrow> FnRemoved c \<in> set (drop k (fs_log s')))"
  using assms(1,5-9)
proof (induction n arbitrary: created s xs)
  case (Suc n)
  have roll: ?case if "s' = rollback_function_containers e cr name t" "active_of t name = base @ xs"
      "set xs \<subseteq> set cr" "set base \<inter> set cr = {}" "\<And>c. FnCreated c \<in> set (drop k (fs_log t)) \<Longrightarrow> c \<in> set cr" "k \<le> length (fs_log t)" for cr t
    using rollback_restores [OF assms(2,3) that(2-4)] that(1,5,6) by auto
  let ?cid = "fe_new_id e (fs_log s)"
  let ?s1 = "fn_happened (FnCreated ?cid) s"
  let ?s2 = "map_fn (\<lambda>fn. fn\<lparr>fn_active := fn_active fn + 1\<rparr>) name ?s1"
  let ?s3 = "?s2\<lparr>fs_containers := aput name (active_of ?s2 name @ [?cid]) (fs_containers ?s2)\<rparr>"
  have new: "set base \<inter> set (created @ [?cid]) = {}" using Suc.prems(4) assms(4) by simp
  have log: "\<And>c. FnCreated c \<in> set (drop k (fs_log ?s1)) \<Longrightarrow> c \<in> set (created @ [?cid])"
    using Suc.prems(5,6) by auto
  show ?case
  proof (cases "fe_cancelled e (fs_log s) \<or> \<not> fe_save e (fs_log s)")
    case True
    then have "s' = rollback_function_containers e created name s" using Suc.prems(1) by (auto split: if_splits)
    then show ?thesis by (rule roll) (use Suc.prems in auto)
  next
    case False
    show ?thesis
    proof (cases "fe_start e (fs_log ?s1) ?cid")
      case True
      then have "scale_up_loop e name n (created @ [?cid]) ?s3 = (Inl err, s')"
        using Suc.prems(1) False by (simp add: Let_def)
      then show ?thesis
        by (rule Suc.IH [where xs = "xs @ [?cid]"]) (use Suc.prems new log in auto)
    next
      case no: False
      then have "s' = rollback_function_containers e (created @ [?cid]) name ?s1"
        using Suc.prems(1) False by (simp add: Let_def)
      then show ?thesis by (rule roll) (use Suc.prems new log in auto)
    qed
  qed
qed simp

text \<open>
  A scale-up that fails at any of its steps leaves the containers of the function as they were
  and has removed every container it had created, provided the containers can be removed and their
  identifiers are new.
\<close>

theorem scale_up_all_or_nothing:
  assumes "scale_up_function e fn n s = (Inl err, s')"
    and "\<And>log c. fe_load e log c \<noteq> None" and "\<And>log c. fe_remove e log c"
    and "\<And>log. fe_new_id e log \<notin> set (active_of s (fn_name fn))"
  shows "active_of s' (fn_name fn) = active_of s (fn_name fn)
       \<and> (\<forall>c. FnCreated c \<in> set (drop (length (fs_log s)) (fs_log s'))
            \<longrightarrow> FnRemoved c \<in> set (drop (length (fs_log s)) (fs_log s')))"
proof (cases "fe_cancelled e (fs_log s) \<or> \<not> fe_pull e (fs_log s) (fn_image fn) \<or> memory_limit (fn_memory fn) = None")
  case True
  then show ?thesis using assms(1) by (auto simp: scale_up_function_def split: if_splits)
next
  case False
  then have "scale_up_loop e (fn_name fn) n [] (fn_happened FnPulled s) = (Inl err, s')"
    using assms(1) by (simp add: scale_up_function_def split: if_splits)
  from scale_up_loop_fails [OF this assms(2-4), of "[]" "length (fs_log s)"] show ?thesis by simp
qed

section \<open>Invoking from another process\<close>

lemma scale_up_loop_ok:
  assumes "scale_up_loop e name n created s = (Inr (), s')" and "map_of (fs_fns s) name = Some fn"
  shows "\<exists>fn'. map_of (fs_fns s') name = Some fn' \<and> fn_active fn' = fn_active fn + int n \<and> fn_name fn' = fn_name fn"
  using assms
proof (induction n arbitrary: created s fn)
  case (Suc n)
  from Suc.prems(1) obtain t where
    t: "scale_up_loop e name n (created @ [fe_new_id e (fs_log s)]) t = (Inr (), s')"
       "map_of (fs_fns t) name = map_option (\<lambda>fn. fn\<lparr>fn_active := fn_active fn + 1\<rparr>) (map_of (fs_fns s) name)"
    by (auto simp: Let_def split: if_splits)
  with Suc.IH [OF t(1)] Suc.prems(2) show ?case by force
qed simp

lemma forward_frame:
  "forward_to_function e fn p s = (r, s') \<Longrightarrow> fs_fns s' = fs_fns s \<and> fs_file s' = fs_file s \<and> fs_containers s' = fs_containers s"
  by (auto simp: forward_to_function_def Let_def split: list.splits option.splits)

definition table_ok :: "fn_table \<Rightarrow> bool" where
  "table_ok m \<longleftrightarrow> list_all (\<lambda>(k, f). fn_name f = k) m"

lemma table_ok_name: "table_ok m \<Longrightarrow> map_of m k = Some f \<Longrightarrow> fn_name f = k"
  by (auto simp: table_ok_def list_all_iff dest: map_of_SomeD)

text \<open>What the file says of a function that some process has started.\<close>

definition stored_active :: "string \<Rightarrow> fstate \<Rightarrow> bool" where
  "stored_active name s \<longleftrightarrow>
     (case fs_file s of
        FunctionsJson m \<Rightarrow> (case map_of m name of None \<Rightarrow> False | Some f \<Rightarrow> fn_active f \<noteq> 0 \<and> fn_name f = name)
      | _ \<Rightarrow> False)"

lemma save_functions_file: "save_functions e s = (Inr (), s') \<Longrightarrow> fs_file s' = FunctionsJson (fs_fns s)"
  by (auto simp: save_functions_def Let_def split: if_splits list.splits)

text \<open>A successful invocation has stored the function as active.\<close>

lemma invoke_stores_active:
  assumes "invoke_function e name p s = (Inr r, s')" and "fs_file s = FunctionsJson m" and "table_ok m"
  shows "stored_active name s'"
proof -
  obtain r1 s1 where g: "get_function e name s = (r1, s1)" by (metis surj_pair)
  obtain fn where r1: "r1 = Inr fn" using assms(1) g by (cases r1) (auto simp: invoke_function_def)
  have fn: "map_of (fs_fns s1) name = Some fn" "fs_fns s1 = m"
    using g r1 assms(2) by (auto simp: get_function_def load_functions_def split: if_splits option.splits)
  then have nm: "fn_name fn = name" using table_ok_name [OF assms(3)] by simp
  let ?s2 = "map_fn (\<lambda>f. f\<lparr>fn_last_used := fe_now e (fs_log s1)\<rparr>) name s1"
  obtain r3 s3 where up: "(if fn_active fn = 0 then scale_up_function e fn (nat (max 1 (fn_replicas fn))) ?s2 else (Inr (), ?s2)) = (r3, s3)"
    by (metis surj_pair)
  have r3: "r3 = Inr ()" using assms(1) g r1 up by (cases r3) (auto simp: invoke_function_def Let_def)
  have act: "\<exists>f3. map_of (fs_fns s3) name = Some f3 \<and> fn_active f3 \<noteq> 0 \<and> fn_name f3 = name"
  proof (cases "fn_active fn = 0")
    case True
    have "scale_up_loop e name (nat (max 1 (fn_replicas fn))) [] (fn_happened FnPulled ?s2) = (Inr (), s3)"
      using up r3 True nm by (auto simp: scale_up_function_def split: if_splits)
    from scale_up_loop_ok [OF this] fn(1) True nm show ?thesis by force
  next
    case False
    then show ?thesis using up fn nm by auto
  qed
  obtain r4 s4 where fw: "forward_to_function e fn p s3 = (r4, s4)" by (metis surj_pair)
  obtain res where r4: "r4 = Inr res" using assms(1) g r1 up r3 fw by (cases r4) (auto simp: invoke_function_def Let_def)
  have "save_functions e (map_fn (\<lambda>f. f\<lparr>fn_invokes := fn_invokes f + 1\<rparr>) name s4) = (Inr (), s')"
    using assms(1) g r1 up r3 fw r4 by (auto simp: invoke_function_def Let_def split: prod.splits sum.splits)
  from save_functions_file [OF this] act forward_frame [OF fw] show ?thesis by (auto simp: stored_active_def)
qed

lemma invoke_without_containers:
  assumes "stored_active name s" and "active_of s name = []" and "fe_dir_ok e (fs_log s)"
  shows "\<exists>s'. invoke_function e name p s = (Inl (FnNoContainers name), s') \<and> fs_file s' = fs_file s"
proof -
  obtain m f where m: "fs_file s = FunctionsJson m" "map_of m name = Some f" "fn_active f \<noteq> 0" "fn_name f = name"
    using assms(1) by (auto simp: stored_active_def split: functions_file.splits option.splits)
  have a: "active_of (s\<lparr>fs_fns := x, fs_here := True, fs_loaded := True\<rparr>) name = []" for x
    using assms(2) by (simp add: active_of_def)
  show ?thesis
    using m assms(3) a by (simp add: invoke_function_def get_function_def load_functions_def forward_to_function_def Let_def)
qed

text \<open>Commands on the command line, each a process of its own.\<close>

fun cli_invokes :: "fn_world \<Rightarrow> string \<Rightarrow> string list \<Rightarrow> fstate \<Rightarrow> (fn_err + string) list" where
  "cli_invokes e name [] s = []"
| "cli_invokes e name (p # ps) s =
     (case invoke_function e name p (fresh_process s) of (r, s1) \<Rightarrow> r # cli_invokes e name ps s1)"

lemma cli_invokes_fail:
  assumes "stored_active name s" and "\<And>log. fe_dir_ok e log"
  shows "cli_invokes e name ps s = map (\<lambda>_. Inl (FnNoContainers name)) ps"
  using assms(1)
proof (induction ps arbitrary: s)
  case (Cons p ps)
  have "stored_active name (fresh_process s)" "active_of (fresh_process s) name = []"
    using Cons.prems by (simp_all add: stored_active_def fresh_process_def active_of_def)
  from invoke_without_containers [OF this assms(2)] obtain s' where
    s': "invoke_function e name p (fresh_process s) = (Inl (FnNoContainers name), s')" "fs_file s' = fs_file (fresh_process s)"
    by blast
  then have "stored_active name s'" using Cons.prems by (simp add: stored_active_def fresh_process_def)
  with Cons.IH s' show ?case by simp
qed simp

text \<open>
  Once an invocation has succeeded, every later one from another process fails: the file says
  that the function is active, so no container is started, and the process knows of none.
\<close>

theorem function_answers_once:
  assumes "invoke_function e name p s = (Inr r, s')" and "fs_file s = FunctionsJson m" and "table_ok m"
    and "\<And>log. fe_dir_ok e log"
  shows "cli_invokes e name ps s' = map (\<lambda>_. Inl (FnNoContainers name)) ps"
  by (rule cli_invokes_fail [OF invoke_stores_active [OF assms(1-3)] assms(4)])

section \<open>Witnesses\<close>

definition fn_host :: fn_world where
  "fn_host = \<lparr>fe_now = (\<lambda>log. 1 + int (length log)), fe_cancelled = (\<lambda>log. False), fe_dir_ok = (\<lambda>log. True),
     fe_pull = (\<lambda>log i. True), fe_new_id = (\<lambda>log. ''c'' @ nat_str (length log)), fe_save = (\<lambda>log. True),
     fe_start = (\<lambda>log c. True), fe_load = (\<lambda>log c. Some ''10.0.2.9''), fe_remove = (\<lambda>log c. True),
     fe_forward = (\<lambda>log u p. Some (''ok:'' @ p))\<rparr>"

definition echo_fn :: function_def where
  "echo_fn = new_function 0 ''echo'' ''echo:1'' 7
     \<lparr>fo_handler = [], fo_env = [], fo_timeout = 0, fo_idle_timeout = 0, fo_memory = ''64'', fo_cpus = 0, fo_replicas = 2, fo_labels = []\<rparr>"

definition fn_start :: fstate where
  "fn_start = \<lparr>fs_fns = [], fs_here = False, fs_loaded = False, fs_containers = [],
     fs_file = FunctionsJson [(''echo'', echo_fn)], fs_saves = [], fs_log = []\<rparr>"

lemma pair_of_fst: "fst x = a \<Longrightarrow> x = (a, snd x)"
  by (cases x) simp

lemma memory_limit_sixtyfour: "memory_limit ''64'' = Some 67108864"
  by code_simp

lemma fn_first_invoke: "fst (invoke_function fn_host ''echo'' ''a'' fn_start) = Inr ''ok:a''"
  by (simp add: invoke_function_def get_function_def load_functions_def fn_start_def map_fn_def echo_fn_def
      new_function_def scale_up_function_def memory_limit_sixtyfour fn_host_def numeral_2_eq_2 forward_to_function_def
      active_of_def save_functions_def fn_happened_def Let_def)


lemma echo_table: "table_ok [(''echo'', echo_fn)]"
  by (simp add: table_ok_def echo_fn_def new_function_def)

lemma function_answers_once_witness:
  "fst (invoke_function fn_host ''echo'' ''a'' fn_start) = Inr ''ok:a''
   \<and> cli_invokes fn_host ''echo'' [''b'', ''c''] (snd (invoke_function fn_host ''echo'' ''a'' fn_start))
     = [Inl (FnNoContainers ''echo''), Inl (FnNoContainers ''echo'')]"
proof -
  have r: "fst (invoke_function fn_host ''echo'' ''a'' fn_start) = Inr ''ok:a''" by (rule fn_first_invoke)
  then have 1: "invoke_function fn_host ''echo'' ''a'' fn_start = (Inr ''ok:a'', snd (invoke_function fn_host ''echo'' ''a'' fn_start))"
    by (rule pair_of_fst)
  have 2: "fs_file fn_start = FunctionsJson [(''echo'', echo_fn)]" by (simp add: fn_start_def)
  have 3: "table_ok [(''echo'', echo_fn)]" by (rule echo_table)
  have 4: "fe_dir_ok fn_host log" for log by (simp add: fn_host_def)
  show ?thesis by (rule conjI [OF r function_answers_once [OF 1 2 3 4, of "[''b'', ''c'']", unfolded list.map]])
qed

text \<open>The third of three containers does not start; the first two are removed again.\<close>

definition third_fails :: fn_world where
  "third_fails = fn_host\<lparr>fe_start := \<lambda>log c. length log < 4\<rparr>"

lemma scale_up_all_or_nothing_witness:
  "fst (scale_up_function third_fails echo_fn 3 fn_start) = Inl FnStartContainer
   \<and> FnRemoved ''c1'' \<in> set (fs_log (snd (scale_up_function third_fails echo_fn 3 fn_start)))"
proof -
  let ?r = "scale_up_function third_fails echo_fn 3 fn_start"
  have r: "fst ?r = Inl FnStartContainer" by code_simp
  then have 1: "?r = (Inl FnStartContainer, snd ?r)" by (rule pair_of_fst)
  have 2: "fe_load third_fails log c \<noteq> None" for log c by (simp add: third_fails_def fn_host_def)
  have 3: "fe_remove third_fails log c" for log c by (simp add: third_fails_def fn_host_def)
  have 4: "fe_new_id third_fails log \<notin> set (active_of fn_start (fn_name echo_fn))" for log
    by (simp add: fn_start_def active_of_def)
  have made: "FnCreated ''c1'' \<in> set (drop (length (fs_log fn_start)) (fs_log (snd ?r)))" by code_simp
  from scale_up_all_or_nothing [OF 1 2 3 4] made
  have "FnRemoved ''c1'' \<in> set (drop (length (fs_log fn_start)) (fs_log (snd ?r)))" by blast
  then show ?thesis using r by (meson in_set_dropD)
qed

end
