(* ===== verification/UpOrderProps.thy ===== *)
theory UpOrderProps
  imports UpOrder
begin

text \<open>
  The order of \<open>dck up\<close> against its specification: always start the first service, by name, that
  needs none of those still to start. Kahn's algorithm with its counters computes this order;
  what follows is proved on the specification.
\<close>

section \<open>What a service needs\<close>

inductive needs :: "containers \<Rightarrow> string \<Rightarrow> string \<Rightarrow> bool" for svcs n where
  direct: "d \<in> set (deps_of svcs n) \<Longrightarrow> needs svcs n d"
| further: "needs svcs n d \<Longrightarrow> d' \<in> set (deps_of svcs d) \<Longrightarrow> needs svcs n d'"

inductive_cases needsE: "needs svcs n d"

lemma collect_deps_closed:
  "set ds \<union> set col \<subseteq> set (collect_deps svcs ds col)
    \<and> (\<forall>x \<in> set (collect_deps svcs ds col) - set col. set (deps_of svcs x) \<subseteq> set (collect_deps svcs ds col))"
proof (induction svcs ds col rule: collect_deps.induct)
  case (2 svcs d ds col)
  then show ?case by (cases "d \<in> set col") auto
qed simp

lemma collect_deps_sound:
  "x \<in> set (collect_deps svcs ds col) \<Longrightarrow> x \<in> set col \<or> x \<in> set ds \<or> (\<exists>d \<in> set ds. needs svcs d x)"
proof (induction svcs ds col rule: collect_deps.induct)
  case (2 svcs d ds col)
  have step: "needs svcs d y" if "e \<in> set (deps_of svcs d)" "needs svcs e y" for e y
    using that(2,1) by induction (auto intro: needs.intros)
  from 2 show ?case by (cases "d \<in> set col") (auto intro: needs.direct step)
qed simp

lemma collect_deps_distinct [simp]: "distinct col \<Longrightarrow> distinct (collect_deps svcs ds col)"
  by (induction svcs ds col rule: collect_deps.induct) auto

lemma up_names_distinct [simp]: "distinct (map fst svcs) \<Longrightarrow> distinct (up_names svcs only)"
  by (simp add: up_names_def Let_def)

lemma needs_closed:
  assumes "needs svcs n x" and "set (deps_of svcs n) \<subseteq> C" and "\<forall>y \<in> C. set (deps_of svcs y) \<subseteq> C"
  shows "x \<in> C"
  using assms by induction auto

lemma up_names_all [simp]: "up_names svcs [] = map fst svcs"
  by (simp add: up_names_def)

lemma up_names_reachable:
  assumes "only \<noteq> []"
  shows "set (up_names svcs only) = {x. x = only \<and> only \<in> fst ` set svcs \<or> needs svcs only x}" (is "?L = ?R")
proof -
  let ?names = "filter (\<lambda>n. n = only) (map fst svcs)"
  have l: "?L = set (collect_deps svcs (deps_of svcs only) ?names)"
    using assms by (simp add: up_names_def)
  have n: "set ?names = {x. x = only \<and> only \<in> fst ` set svcs}" by auto
  note c = collect_deps_closed [of "deps_of svcs only" ?names svcs]
  have "\<forall>y \<in> ?L. set (deps_of svcs y) \<subseteq> ?L"
  proof
    fix y assume "y \<in> ?L"
    then show "set (deps_of svcs y) \<subseteq> ?L" using c unfolding l n by (cases "y = only") auto
  qed
  then have "needs svcs only x \<Longrightarrow> x \<in> ?L" for x
    using needs_closed [of svcs only x ?L] c unfolding l by auto
  moreover have "set ?names \<subseteq> ?L" using c unfolding l by auto
  ultimately have "?R \<subseteq> ?L" using n by auto
  moreover have "?L \<subseteq> ?R"
  proof
    fix x assume "x \<in> ?L"
    then have "x \<in> set ?names \<or> x \<in> set (deps_of svcs only) \<or> (\<exists>d \<in> set (deps_of svcs only). needs svcs d x)"
      unfolding l by (rule collect_deps_sound)
    moreover have "needs svcs only y" if "d \<in> set (deps_of svcs only)" "needs svcs d y" for d y
      using that(2,1) by induction (auto intro: needs.intros)
    ultimately show "x \<in> ?R" using n by (auto intro: needs.direct)
  qed
  ultimately show ?thesis by blast
qed

section \<open>The specification\<close>

definition ready :: "(string \<Rightarrow> string list) \<Rightarrow> string list \<Rightarrow> string list" where
  "ready deps rem = filter (\<lambda>n. list_all (\<lambda>d. d \<notin> set rem) (deps n)) rem"

lemma sort_ready_Cons: "sort (ready deps rem) = n # q \<Longrightarrow> n \<in> set rem"
proof -
  assume "sort (ready deps rem) = n # q"
  then have "n \<in> set (sort (ready deps rem))" by simp
  then show ?thesis by (simp add: ready_def)
qed

function least_first :: "(string \<Rightarrow> string list) \<Rightarrow> string list \<Rightarrow> string list" where
  "least_first deps rem =
     (case sort (ready deps rem) of [] \<Rightarrow> [] | n # _ \<Rightarrow> n # least_first deps (remove1 n rem))"
  by pat_completeness auto

termination
  by (relation "measure (\<lambda>(deps, rem). length rem)")
     (auto simp: length_remove1 dest!: sort_ready_Cons dest: length_pos_if_in_set)

declare least_first.simps [simp del]

lemma least_first_Nil: "sort (ready deps rem) = [] \<Longrightarrow> least_first deps rem = []"
  by (subst least_first.simps) simp

lemma least_first_Cons: "sort (ready deps rem) = n # q \<Longrightarrow> least_first deps rem = n # least_first deps (remove1 n rem)"
  by (subst least_first.simps) simp

text \<open>The order only depends on which services there are and what each depends on.\<close>

lemma sort_mset_cong: "mset xs = mset ys \<Longrightarrow> sort xs = sort ys"
  by (metis sorted_list_of_multiset_mset)

lemma least_first_cong:
  assumes "mset xs = mset ys" and "\<And>n. n \<in> set xs \<Longrightarrow> set (deps n) = set (deps' n)"
  shows "least_first deps xs = least_first deps' ys"
  using assms
proof (induction deps xs arbitrary: ys rule: least_first.induct)
  case (1 deps xs)
  have s: "set xs = set ys" using 1(2) by (metis set_mset_mset)
  have "filter (\<lambda>n. list_all (\<lambda>d. d \<notin> set xs) (deps n)) xs = filter (\<lambda>n. list_all (\<lambda>d. d \<notin> set ys) (deps' n)) xs"
    using 1(3) s by (intro filter_cong) (auto simp: list_all_iff)
  then have "mset (ready deps xs) = mset (ready deps' ys)"
    using 1(2) by (simp add: ready_def)
  then have r: "sort (ready deps xs) = sort (ready deps' ys)" by (rule sort_mset_cong)
  show ?case
  proof (cases "sort (ready deps xs)")
    case Nil
    then show ?thesis using r by (simp add: least_first_Nil)
  next
    case (Cons n q)
    have "least_first deps (remove1 n xs) = least_first deps' (remove1 n ys)"
      using 1(2,3) by (intro 1(1) [OF Cons]) (auto dest: notin_set_remove1)
    then show ?thesis using Cons r by (simp add: least_first_Cons)
  qed
qed

text \<open>A list in which every service comes after those of \<open>names\<close> it depends on.\<close>

definition in_order :: "(string \<Rightarrow> string list) \<Rightarrow> string set \<Rightarrow> string list \<Rightarrow> bool" where
  "in_order deps names res \<longleftrightarrow>
     (\<forall>xs n ys. res = xs @ n # ys \<longrightarrow> set (deps n) \<inter> names \<subseteq> set xs)"

lemma in_order_Nil [simp]: "in_order deps names []"
  by (simp add: in_order_def)

lemma in_order_Cons:
  assumes "set (deps n) \<inter> names = {}" and "in_order deps (names - {n}) res"
  shows "in_order deps names (n # res)"
  unfolding in_order_def
proof (intro allI impI)
  fix xs m ys
  assume "n # res = xs @ m # ys"
  then show "set (deps m) \<inter> names \<subseteq> set xs"
  proof (cases xs)
    case (Cons x xs')
    then have "x = n" "set (deps m) \<inter> (names - {n}) \<subseteq> set xs'"
      using \<open>n # res = xs @ m # ys\<close> assms(2) by (auto simp: in_order_def)
    then show ?thesis using Cons by auto
  qed (use assms(1) in simp)
qed

lemma least_first_in_order: "distinct rem \<Longrightarrow> in_order deps (set rem) (least_first deps rem)"
proof (induction deps rem rule: least_first.induct)
  case (1 deps rem)
  show ?case
  proof (cases "sort (ready deps rem)")
    case (Cons n q)
    then have "n \<in> set (ready deps rem)" by (metis list.set_intros(1) set_sort)
    then have "set (deps n) \<inter> set rem = {}" by (auto simp: ready_def list_all_iff)
    then show ?thesis
      using 1 Cons by (auto simp: least_first_Cons intro!: in_order_Cons)
  qed (simp add: least_first_Nil)
qed

lemma least_first_sub: "distinct rem \<Longrightarrow> distinct (least_first deps rem) \<and> set (least_first deps rem) \<subseteq> set rem"
proof (induction deps rem rule: least_first.induct)
  case (1 deps rem)
  show ?case
  proof (cases "sort (ready deps rem)")
    case (Cons n q)
    then show ?thesis using 1 sort_ready_Cons [OF Cons] by (auto simp: least_first_Cons)
  qed (simp add: least_first_Nil)
qed

text \<open>When the services can be ranked there is always one to start.\<close>

lemma ranked_ready:
  assumes "\<And>n d. n \<in> set rem \<Longrightarrow> d \<in> set (deps n) \<Longrightarrow> d \<in> set rem \<Longrightarrow> rank d < (rank n :: nat)" and "rem \<noteq> []"
  shows "ready deps rem \<noteq> []"
proof -
  obtain n where n: "n \<in> set rem" "\<forall>m \<in> set rem. rank n \<le> rank m"
    using assms(2) ex_min_if_finite [of "rank ` set rem"] by fastforce
  then have "n \<in> set (ready deps rem)" using assms(1) by (fastforce simp: ready_def list_all_iff)
  then show ?thesis by auto
qed

lemma least_first_all:
  assumes "distinct rem" and "\<And>n d. n \<in> set rem \<Longrightarrow> d \<in> set (deps n) \<Longrightarrow> d \<in> set rem \<Longrightarrow> rank d < (rank n :: nat)"
  shows "set (least_first deps rem) = set rem"
  using assms
proof (induction deps rem rule: least_first.induct)
  case (1 deps rem)
  show ?case
  proof (cases "sort (ready deps rem)")
    case Nil
    then have "ready deps rem = []" by (metis set_empty set_sort)
    then have "rem = []" using ranked_ready [of rem deps rank] 1(3) by blast
    then show ?thesis using Nil by (simp add: least_first_Nil)
  next
    case (Cons n q)
    have "set (least_first deps (remove1 n rem)) = set (remove1 n rem)"
      using 1(2,3) by (intro 1(1) [OF Cons]) auto
    then show ?thesis using Cons sort_ready_Cons [OF Cons] 1(2) by (auto simp: least_first_Cons)
  qed
qed

section \<open>Kahn's algorithm computes it\<close>

lemma add_edges_degree:
  "distinct ds \<Longrightarrow> add_edges names n ds (d, g) = (d1, g1)
    \<Longrightarrow> degree d1 m = degree d m + (if m = n then int (length (filter (\<lambda>x. x \<in> set names) ds)) else 0)"
  by (induction ds arbitrary: d g) (auto split: if_splits)

lemma dependents_aput [simp]: "dependents_of (aput n ns g) m = (if m = n then ns else dependents_of g m)"
  by (simp add: dependents_of_def)

lemma add_edges_dependents:
  "distinct ds \<Longrightarrow> add_edges names n ds (d, g) = (d1, g1)
    \<Longrightarrow> dependents_of g1 x = dependents_of g x @ (if x \<in> set ds \<and> x \<in> set names then [n] else [])"
  by (induction ds arbitrary: d g) (auto split: if_splits)

lemma build_graph_degree:
  assumes "build_graph svcs names ns (d, g) = (d1, g1)" and "distinct ns" and "\<And>n. distinct (deps_of svcs n)"
  shows "degree d1 m = degree d m + (if m \<in> set ns then int (length (filter (\<lambda>x. x \<in> set names) (deps_of svcs m))) else 0)"
  using assms(1,2)
proof (induction ns arbitrary: d g)
  case (Cons n ns)
  obtain d2 g2 where e: "add_edges names n (deps_of svcs n) (d, g) = (d2, g2)" by (metis surj_pair)
  show ?case using Cons.IH [of d2 g2] Cons.prems add_edges_degree [OF assms(3) e, of m] e by auto
qed simp

lemma build_graph_dependents:
  assumes "build_graph svcs names ns (d, g) = (d1, g1)" and "\<And>n. distinct (deps_of svcs n)"
  shows "dependents_of g1 x = dependents_of g x
    @ (if x \<in> set names then filter (\<lambda>n. x \<in> set (deps_of svcs n)) ns else [])"
  using assms(1)
proof (induction ns arbitrary: d g)
  case (Cons n ns)
  obtain d2 g2 where e: "add_edges names n (deps_of svcs n) (d, g) = (d2, g2)" by (metis surj_pair)
  show ?case using Cons.IH [of d2 g2] Cons.prems add_edges_dependents [OF assms(2) e, of x] e by auto
qed simp

lemma release_queue:
  assumes "distinct ns" and "release ns d q = (d1, q1)"
  shows "q1 = q @ filter (\<lambda>n. degree d n = 1) ns \<and> (\<forall>m. degree d1 m = degree d m - (if m \<in> set ns then 1 else 0))"
  using assms
proof (induction ns arbitrary: d q)
  case (Cons n ns)
  let ?d = "aput n (degree d n - 1) d" and ?q = "if degree d n = 1 then q @ [n] else q"
  have f: "filter (\<lambda>m. degree ?d m = 1) ns = filter (\<lambda>m. degree d m = 1) ns"
    using Cons.prems(1) by (intro filter_cong) auto
  have "release ns ?d ?q = (d1, q1)" using Cons.prems(2) by (simp add: Let_def split: if_splits)
  with Cons.IH [OF _ this] Cons.prems(1) have "q1 = ?q @ filter (\<lambda>m. degree ?d m = 1) ns"
    "\<forall>m. degree d1 m = degree ?d m - (if m \<in> set ns then 1 else 0)" by auto
  then show ?case using Cons.prems(1) unfolding f by auto
qed simp

text \<open>The state of the main loop when \<open>rem\<close> are still to start.\<close>

definition kahn_inv :: "(string \<Rightarrow> string list) \<Rightarrow> string list \<Rightarrow> dependents \<Rightarrow> degrees \<Rightarrow> string list \<Rightarrow> bool" where
  "kahn_inv deps names g d rem \<longleftrightarrow>
     distinct names \<and> distinct rem \<and> set rem \<subseteq> set names
     \<and> (\<forall>n. distinct (deps n))
     \<and> (\<forall>x. dependents_of g x = (if x \<in> set names then filter (\<lambda>n. x \<in> set (deps n)) names else []))
     \<and> (\<forall>n \<in> set names. degree d n = int (length (filter (\<lambda>x. x \<in> set rem) (deps n))))
     \<and> (\<forall>n \<in> set names - set rem. set (deps n) \<inter> set rem = {})"

lemma count_in:
  assumes "distinct xs"
  shows "length (filter (\<lambda>x. x \<in> R) xs) = card (set xs \<inter> R)"
proof -
  have "set (filter (\<lambda>x. x \<in> R) xs) = set xs \<inter> R" by auto
  then show ?thesis using distinct_card [of "filter (\<lambda>x. x \<in> R) xs"] assms by simp
qed

lemma card_one_iff: "card A = 1 \<and> n \<in> A \<longleftrightarrow> A = {n}"
  by (auto simp: card_1_singleton_iff)

lemma kahn_inv_degree:
  "kahn_inv deps names g d rem \<Longrightarrow> n \<in> set names \<Longrightarrow> degree d n = int (card (set (deps n) \<inter> set rem))"
  by (simp add: kahn_inv_def count_in)

lemma kahn_step:
  assumes inv: "kahn_inv deps names g d rem" and q: "n # q = sort (ready deps rem)"
    and r: "release (dependents_of g n) d q = (d1, q1)"
  shows "kahn_inv deps names g d1 (remove1 n rem)" and "sort q1 = sort (ready deps (remove1 n rem))"
proof -
  have nr: "n \<in> set rem" using sort_ready_Cons [OF q [symmetric]] .
  have nn: "n \<in> set names" and dn: "distinct names" "distinct rem" "set rem \<subseteq> set names"
    using inv nr by (auto simp: kahn_inv_def)
  have g: "dependents_of g n = filter (\<lambda>m. n \<in> set (deps m)) names" using inv nn by (simp add: kahn_inv_def)
  have rq: "q1 = q @ filter (\<lambda>m. degree d m = 1) (dependents_of g n)"
    "\<And>m. degree d1 m = degree d m - (if m \<in> set (dependents_of g n) then 1 else 0)"
    using release_queue [OF _ r] dn g by auto
  have rm: "set (remove1 n rem) = set rem - {n}" using dn by simp
  have card: "card (set (deps m) \<inter> (set rem - {n})) = card (set (deps m) \<inter> set rem) - (if n \<in> set (deps m) then 1 else 0)" for m
  proof -
    have "set (deps m) \<inter> (set rem - {n}) = set (deps m) \<inter> set rem - {n}" by auto
    then show ?thesis using nr by (simp add: card_Diff_singleton_if)
  qed
  have pos: "0 < card (set (deps m) \<inter> set rem)" if "n \<in> set (deps m)" for m
    using that nr by (auto simp: card_gt_0_iff)
  have deg: "degree d1 m = int (card (set (deps m) \<inter> set (remove1 n rem)))" if m: "m \<in> set names" for m
    using kahn_inv_degree [OF inv m] pos [of m] rq(2) [of m] m unfolding g rm card by auto
  have done_n: "set (deps n) \<inter> set rem = {}"
  proof -
    have "n \<in> set (ready deps rem)" by (metis q list.set_intros(1) set_sort)
    then show ?thesis by (auto simp: ready_def list_all_iff)
  qed
  show "kahn_inv deps names g d1 (remove1 n rem)"
    unfolding kahn_inv_def
  proof (intro conjI)
    show "\<forall>m \<in> set names. degree d1 m = int (length (filter (\<lambda>x. x \<in> set (remove1 n rem)) (deps m)))"
    proof
      fix m assume "m \<in> set names"
      moreover have "distinct (deps m)" using inv by (simp add: kahn_inv_def)
      ultimately show "degree d1 m = int (length (filter (\<lambda>x. x \<in> set (remove1 n rem)) (deps m)))"
        by (simp only: deg count_in)
    qed
    show "\<forall>m \<in> set names - set (remove1 n rem). set (deps m) \<inter> set (remove1 n rem) = {}"
      using inv done_n unfolding rm by (auto simp: kahn_inv_def)
  qed (use inv dn rm in \<open>auto simp: kahn_inv_def\<close>)
  have one: "degree d m = 1 \<and> n \<in> set (deps m) \<longleftrightarrow> set (deps m) \<inter> set rem = {n}" if "m \<in> set names" for m
    using card_one_iff [of "set (deps m) \<inter> set rem" n] kahn_inv_degree [OF inv that] nr by auto
  have q': "set q = set (ready deps rem) - {n}" "distinct (n # q)"
  proof -
    have "distinct (sort (ready deps rem))" using dn by (simp add: ready_def)
    then show "distinct (n # q)" using q by simp
    then show "set q = set (ready deps rem) - {n}" using arg_cong [OF q, of set] by auto
  qed
  have m_rem: "m \<in> set rem" if "m \<in> set names" "set (deps m) \<inter> set rem = {n}" for m
    using inv that unfolding kahn_inv_def by (metis DiffI insert_not_empty)
  have new: "set (filter (\<lambda>m. degree d m = 1) (dependents_of g n)) = {m \<in> set names. set (deps m) \<inter> set rem = {n}}"
    unfolding g using one by auto
  have old: "set (ready deps R) = {m \<in> set R. set (deps m) \<inter> set R = {}}" for R
    by (auto simp: ready_def list_all_iff)
  have "set q1 = {m \<in> set rem - {n}. set (deps m) \<inter> set rem = {} \<or> set (deps m) \<inter> set rem = {n}}"
    unfolding rq(1) set_append new q'(1) old using m_rem done_n dn by blast
  also have "\<dots> = set (ready deps (remove1 n rem))" unfolding old rm by blast
  finally have "set q1 = set (ready deps (remove1 n rem))" .
  moreover have "distinct q1"
  proof -
    have "set q \<inter> set (filter (\<lambda>m. degree d m = 1) (dependents_of g n)) = {}" unfolding new q'(1) old by blast
    then show ?thesis using q'(2) dn unfolding rq(1) by (simp add: g)
  qed
  moreover have "distinct (ready deps (remove1 n rem))" using dn by (simp add: ready_def)
  ultimately show "sort q1 = sort (ready deps (remove1 n rem))"
    by (intro sort_mset_cong) (simp add: set_eq_iff_mset_eq_distinct)
qed

lemma kahn_loop_least_first:
  assumes "kahn_inv deps names g d rem" and "q = sort (ready deps rem)"
  shows "kahn_loop g q d res = res @ least_first deps rem"
  using assms
proof (induction g q d res arbitrary: rem rule: kahn_loop.induct)
  case (1 g d res)
  then show ?case by (simp add: least_first_Nil)
next
  case (2 g n q d res)
  obtain d1 q1 where r: "release (dependents_of g n) d q = (d1, q1)" by (metis surj_pair)
  note s = kahn_step [OF 2(2,3) r]
  have "kahn_loop g (sort q1) d1 (res @ [n]) = (res @ [n]) @ least_first deps (remove1 n rem)"
    using 2(1) [OF r [symmetric]] s by simp
  then show ?case using r least_first_Cons [OF 2(3) [symmetric]] by simp
qed

section \<open>The order of an up\<close>

text \<open>A configuration as it is decoded: the keys of a map are distinct.\<close>

definition proper_maps :: "containers \<Rightarrow> bool" where
  "proper_maps svcs \<longleftrightarrow>
     distinct (map fst svcs) \<and> list_all (\<lambda>(n, kc). distinct (map fst (kc_depends_on kc))) svcs"

lemma proper_deps: "proper_maps svcs \<Longrightarrow> distinct (deps_of svcs n)"
  by (auto simp: proper_maps_def deps_of_def list_all_iff split: option.split dest!: map_of_SomeD)

lemma degree_zero: "degree (map (\<lambda>n. (n, 0)) names) m = 0"
  by (induction names) (auto simp: degree_def)

lemma sort_by_dependencies_eq:
  assumes "proper_maps svcs"
  shows "sort_by_dependencies svcs only =
    (let names = up_names svcs only; res = least_first (deps_of svcs) names in res @ filter (\<lambda>n. n \<notin> set res) names)"
proof -
  let ?names = "up_names svcs only"
  obtain d g where b: "build_graph svcs ?names ?names (map (\<lambda>n. (n, 0)) ?names, []) = (d, g)" by (metis surj_pair)
  have dn: "distinct ?names" using assms by (simp add: proper_maps_def)
  have deg: "degree d m = (if m \<in> set ?names then int (length (filter (\<lambda>x. x \<in> set ?names) (deps_of svcs m))) else 0)" for m
    using build_graph_degree [OF b dn proper_deps [OF assms], of m] degree_zero [of ?names m] by simp
  have dep: "dependents_of g x = (if x \<in> set ?names then filter (\<lambda>n. x \<in> set (deps_of svcs n)) ?names else [])" for x
    using build_graph_dependents [OF b proper_deps [OF assms], of x] by (simp add: dependents_of_def)
  have inv: "kahn_inv (deps_of svcs) ?names g d ?names"
    using dn deg dep proper_deps [OF assms] by (simp add: kahn_inv_def)
  have "filter (\<lambda>n. degree d n = 0) ?names = ready (deps_of svcs) ?names"
    unfolding ready_def by (intro filter_cong) (auto simp: deg list_all_iff filter_empty_conv)
  then have "kahn_loop g (sort (filter (\<lambda>n. degree d n = 0) ?names)) d [] = least_first (deps_of svcs) ?names"
    using kahn_loop_least_first [OF inv, of _ "[]"] by simp
  then show ?thesis using b by (simp add: sort_by_dependencies_def Let_def)
qed

text \<open>
  C23. Whatever the dependencies are, also when they form a cycle or name services that do not
  exist, \<open>dck up\<close> computes an order that has each of its services exactly once.
\<close>

theorem up_order_complete:
  assumes "proper_maps svcs"
  shows "distinct (sort_by_dependencies svcs only)
    \<and> set (sort_by_dependencies svcs only) =
      (if only = [] then fst ` set svcs else {n. n = only \<and> only \<in> fst ` set svcs \<or> needs svcs only n})"
proof -
  let ?names = "up_names svcs only"
  have dn: "distinct ?names" using assms by (simp add: proper_maps_def)
  note sub = least_first_sub [OF dn, of "deps_of svcs"]
  have "distinct (sort_by_dependencies svcs only)"
    using sub dn by (auto simp: sort_by_dependencies_eq [OF assms] Let_def)
  moreover have "set (sort_by_dependencies svcs only) = set ?names"
    using sub by (auto simp: sort_by_dependencies_eq [OF assms] Let_def)
  ultimately show ?thesis using up_names_reachable [of only svcs] by simp
qed

text \<open>
  C24. When the dependencies have no cycle, every service comes after all services of the order it
  depends on, directly or through others.
\<close>

theorem dependencies_first:
  assumes "proper_maps svcs"
    and "\<And>n d. d \<in> set (deps_of svcs n) \<Longrightarrow> rank d < (rank n :: nat)"
    and "sort_by_dependencies svcs only = xs @ n # ys" and "needs svcs n d" and "d \<in> set (up_names svcs only)"
  shows "d \<in> set xs"
proof -
  let ?names = "up_names svcs only" and ?deps = "deps_of svcs"
  have dn: "distinct ?names" using assms(1) by (simp add: proper_maps_def)
  have all: "set (least_first ?deps ?names) = set ?names" by (rule least_first_all [OF dn assms(2)])
  then have eq: "sort_by_dependencies svcs only = least_first ?deps ?names"
    by (simp add: sort_by_dependencies_eq [OF assms(1)] Let_def)
  have io: "in_order ?deps (set ?names) (xs @ n # ys)"
    using least_first_in_order [OF dn, of ?deps] assms(3) by (simp add: eq)
  have "n \<in> set ?names" using assms(3) all eq by (metis in_set_conv_decomp)
  have mem: "e \<in> set ?names" if "needs svcs n e" "deps_of svcs e \<noteq> []" for e
  proof (cases "only = []")
    case True
    then show ?thesis using that(2) by (auto simp: deps_of_def split: option.splits dest!: map_of_SomeD intro: rev_image_eqI)
  next
    case False
    have "needs svcs only e" if "needs svcs only n" using \<open>needs svcs n e\<close> that by induction (auto intro: needs.further)
    then show ?thesis using False that(1) \<open>n \<in> set ?names\<close> by (auto simp: up_names_reachable)
  qed
  have "needs svcs n e \<Longrightarrow> e \<in> set ?names \<Longrightarrow> e \<in> set xs" for e
  proof (induction rule: needs.induct)
    case (direct e)
    then show ?case using io by (auto simp: in_order_def)
  next
    case (further e e')
    have "e \<in> set xs" using further mem by fastforce
    then obtain as bs where "xs = as @ e # bs" by (meson split_list)
    moreover have "xs @ n # ys = as @ e # (bs @ n # ys)" using calculation by simp
    then have "e' \<in> set as" using io further.hyps(2) further.prems unfolding in_order_def by blast
    ultimately show ?case by simp
  qed
  then show ?thesis using assms(4,5) by blast
qed

text \<open>
  Without cycles the order is determined by the configuration: it does not depend on the order
  in which Go visits the maps, of the services or of the dependencies.
\<close>

theorem up_order_deterministic:
  assumes "proper_maps svcs" and "proper_maps svcs'"
    and "fst ` set svcs = fst ` set svcs'" and "\<And>n. set (deps_of svcs n) = set (deps_of svcs' n)"
    and "\<And>n d. d \<in> set (deps_of svcs n) \<Longrightarrow> rank d < (rank n :: nat)"
  shows "sort_by_dependencies svcs only = sort_by_dependencies svcs' only"
proof -
  have d: "distinct (up_names svcs only)" "distinct (up_names svcs' only)"
    using assms(1,2) by (simp_all add: proper_maps_def)
  have "needs svcs n x \<Longrightarrow> needs svcs' n x" "needs svcs' n x \<Longrightarrow> needs svcs n x" for n x
    by (induction rule: needs.induct; use assms(4) in \<open>auto intro: needs.intros\<close>)+
  then have s: "set (up_names svcs only) = set (up_names svcs' only)"
    using assms(3) up_names_reachable [of only svcs] up_names_reachable [of only svcs'] by (cases "only = []") auto
  then have "mset (up_names svcs only) = mset (up_names svcs' only)"
    using d by (simp add: set_eq_iff_mset_eq_distinct)
  then have eq: "least_first (deps_of svcs) (up_names svcs only) = least_first (deps_of svcs') (up_names svcs' only)"
    using assms(4) by (rule least_first_cong)
  have "set (least_first (deps_of svcs) (up_names svcs only)) = set (up_names svcs only)"
    by (rule least_first_all [OF d(1) assms(5)])
  then show ?thesis
    using eq s by (simp add: sort_by_dependencies_eq [OF assms(1)] sort_by_dependencies_eq [OF assms(2)] Let_def)
qed

section \<open>Witnesses\<close>

definition needing :: "string list \<Rightarrow> container_config" where
  "needing ds = no_container\<lparr>kc_image := ''i'', kc_depends_on := map (\<lambda>d. (d, ''service_started'')) ds\<rparr>"

definition shop :: containers where
  "shop = [(''web'', needing [''api'']), (''api'', needing [''db'', ''cache'']), (''db'', needing []), (''cache'', needing [])]"

definition shop' :: containers where
  "shop' = [(''cache'', needing []), (''api'', needing [''cache'', ''db'']), (''web'', needing [''api'']), (''db'', needing [])]"

definition loop :: containers where
  "loop = [(''a'', needing [''b'']), (''b'', needing [''a'', ''gone'']), (''c'', needing [])]"

definition shop_rank :: "string \<Rightarrow> nat" where
  "shop_rank n = (if n = ''web'' then 2 else if n = ''api'' then 1 else 0)"

lemma proper_samples: "proper_maps shop" "proper_maps shop'" "proper_maps loop"
  by (code_simp; fail)+

lemma shop_ranked: "d \<in> set (deps_of shop n) \<Longrightarrow> shop_rank d < shop_rank n"
  by (auto simp: deps_of_def shop_def needing_def shop_rank_def no_container_def split: if_splits)

lemma shop_same_deps: "set (deps_of shop n) = set (deps_of shop' n)"
  by (auto simp: deps_of_def shop_def shop'_def needing_def no_container_def)

lemma shop_order: "sort_by_dependencies shop [] = [''cache'', ''db'', ''api'', ''web'']"
  by code_simp

lemma loop_order: "sort_by_dependencies loop ''a'' = [''gone'', ''a'', ''b'']"
  by code_simp

lemma up_order_complete_witness:
  "distinct [''gone'', ''a'', ''b'']
    \<and> set [''gone'', ''a'', ''b''] = {n. n = ''a'' \<and> ''a'' \<in> fst ` set loop \<or> needs loop ''a'' n}"
  using up_order_complete [OF proper_samples(3), of "''a''"] unfolding loop_order by simp

lemma dependencies_first_witness: "''cache'' \<in> set [''cache'', ''db'', ''api'']"
proof (rule dependencies_first [OF proper_samples(1) shop_ranked])
  show "sort_by_dependencies shop [] = [''cache'', ''db'', ''api''] @ ''web'' # []" by (simp add: shop_order)
  have "needs shop ''web'' ''api''" by (rule needs.direct) code_simp
  then show "needs shop ''web'' ''cache''" by (rule needs.further) code_simp
  show "''cache'' \<in> set (up_names shop [])" by code_simp
qed

lemma up_order_deterministic_witness: "sort_by_dependencies shop ''api'' = sort_by_dependencies shop' ''api''"
proof (rule up_order_deterministic [OF proper_samples(1,2) _ shop_same_deps shop_ranked])
  show "fst ` set shop = fst ` set shop'" by (auto simp: shop_def shop'_def)
qed

end
