(* ===== verification/SecretProps.thy ===== *)
theory SecretProps
  imports Secrets VolumeProps
begin

text \<open>
  What becomes of secrets: those with a file never get mounted, and the others are written below
  the container's root only, although directories may be created elsewhere.
\<close>

section \<open>Secrets with a file\<close>

lemma bind_not_dir:
  assumes "vs_type spec = Bind" and "\<And>r p. fv_eval (me_fs me) (vs_source spec) = Some r \<Longrightarrow> path_abs (fv_cwd (me_fs me)) r = Some p \<Longrightarrow> me_stat me p \<noteq> Some True"
  shows "\<exists>err. fst (mount_volume me ex (Some spec) merged s) = Inl err"
proof -
  have "\<exists>err. validate_bind_source me (vs_source spec) = Inl err"
    using assms(2) by (auto simp: validate_bind_source_def split: option.split)
  then have "\<exists>err. fst (mount_bind me ex spec t s) = Inl err" for t
    using assms(1) by (auto simp: mount_bind_def bind_source_def)
  then show ?thesis using assms(1) by (auto simp: mount_volume_def split: sum.split)
qed

lemma mount_all_fails:
  assumes "v \<in> set vs" and "\<And>s. \<exists>err. fst (mount_volume me ex (Some (mount_spec v)) merged s) = Inl err"
  shows "\<exists>err. fst (mount_all me ex merged vs s) = Inl err"
  using assms(1)
proof (induction vs arbitrary: s)
  case (Cons u us)
  obtain r s1 where m: "mount_volume me ex (Some (mount_spec u)) merged s = (r, s1)" by (metis surj_pair)
  show ?case
  proof (cases r)
    case (Inr x)
    then have "u \<noteq> v" using assms(2) [of s] m by auto
    then show ?thesis using Cons m Inr by simp
  qed (simp add: m)
qed simp

lemma lefts_in: "Inl a \<in> set xs \<Longrightarrow> a \<in> set (lefts xs)"
  by (force simp: lefts_def)

text \<open>
  A container with a secret that a file is given for never starts: the file becomes a bind
  mount, and a bind mount's source must be a directory.
\<close>

theorem file_secret_never_mounted:
  assumes "r \<in> set (kc_secrets kc)" and "map_of (cfg_secrets cfg) (fr_source r) = Some spec"
    and "slash \<in> set (fsp_file spec)"
    and "\<And>q p. fv_eval (me_fs me) (fsp_file spec) = Some q \<Longrightarrow> path_abs (fv_cwd (me_fs me)) q = Some p \<Longrightarrow> me_stat me p \<noteq> Some True"
  shows "\<exists>err. fst (mount_all me ex merged (vols @ fst (parse_secrets_to_volumes kc cfg)) s) = Inl err"
proof (rule mount_all_fails)
  let ?v = "file_mount (fsp_file spec) (ref_target secrets_dir r)"
  have "ref_mount secrets_dir (cfg_secrets cfg) r = Inl ?v"
    using assms(2,3) by (auto simp: ref_mount_def Let_def)
  then have "Inl ?v \<in> set (map (ref_mount secrets_dir (cfg_secrets cfg)) (kc_secrets kc) @ map (ref_mount ''/'' (cfg_configs cfg)) (kc_configs kc))"
    using assms(1) by (force simp: image_iff)
  then have "?v \<in> set (fst (parse_secrets_to_volumes kc cfg))"
    by (simp add: parse_secrets_to_volumes_def Let_def lefts_in del: map_append set_append)
  then show "?v \<in> set (vols @ fst (parse_secrets_to_volumes kc cfg))" by simp
  show "\<exists>err. fst (mount_volume me ex (Some (mount_spec ?v)) merged s) = Inl err" for s
    using assms(3,4) by (intro bind_not_dir) (auto simp: mount_spec_def file_mount_def spec_of_def)
qed

section \<open>Secrets that are written\<close>

definition rootfs_inv :: "path \<Rightarrow> osfs \<Rightarrow> bool" where
  "rootfs_inv rs s \<longleftrightarrow> wf_tree s \<and> is_dir s rs \<and> private_inodes s rs"

text \<open>An entry is kept, or a directory is made where nothing was.\<close>

definition kept :: "fnode option \<Rightarrow> fnode option \<Rightarrow> bool" where
  "kept x y \<longleftrightarrow> y = x \<or> x = None \<and> (\<exists>m. y = Some (FDir m))"

lemma kept_refl [simp]: "kept x x"
  by (simp add: kept_def)

lemma kept_trans: "kept x y \<Longrightarrow> kept y z \<Longrightarrow> kept x z"
  by (auto simp: kept_def)

lemma kept_file: "kept x y \<Longrightarrow> x = Some (FFile i) \<Longrightarrow> y = Some (FFile i)"
  "kept x y \<Longrightarrow> y = Some (FFile i) \<Longrightarrow> x = Some (FFile i)"
  by (auto simp: kept_def)

lemma kept_dir: "kept x y \<Longrightarrow> x = Some (FDir m) \<Longrightarrow> y = Some (FDir m)"
  by (auto simp: kept_def)

lemma grows_kept: "grows s t \<longleftrightarrow> (\<forall>p. kept (fs_get s p) (fs_get t p))"
  by (auto simp: grows_def kept_def is_dir_def)

text \<open>Outside the root only directories have been added.\<close>

definition outside_kept :: "path \<Rightarrow> osfs \<Rightarrow> osfs \<Rightarrow> bool" where
  "outside_kept rs s t \<longleftrightarrow> os_cwd t = os_cwd s \<and>
     (\<forall>p. \<not> prefix rs p \<longrightarrow>
        kept (fs_get s p) (fs_get t p) \<and> (\<forall>i. fs_get s p = Some (FFile i) \<longrightarrow> inode t i = inode s i))"

lemma outside_kept_refl [simp]: "outside_kept rs s s"
  by (simp add: outside_kept_def)

lemma outside_kept_trans: "outside_kept rs s t \<Longrightarrow> outside_kept rs t u \<Longrightarrow> outside_kept rs s u"
  unfolding outside_kept_def by (metis kept_file(1) kept_trans)

text \<open>Creating directories.\<close>

definition only_dirs :: "osfs \<Rightarrow> osfs \<Rightarrow> bool" where
  "only_dirs s t \<longleftrightarrow> grows s t \<and> (wf_tree s \<longrightarrow> wf_tree t) \<and> os_inodes t = os_inodes s \<and> os_next t = os_next s \<and> os_cwd t = os_cwd s"

lemma only_dirs_refl [simp]: "only_dirs s s"
  by (simp add: only_dirs_def)

lemma only_dirs_trans: "only_dirs s t \<Longrightarrow> only_dirs t u \<Longrightarrow> only_dirs s u"
  by (auto simp: only_dirs_def grows_kept intro: kept_trans)

lemma wf_put:
  assumes "wf_tree s" and "fs_get s q = None" and "is_dir s (butlast q)"
  shows "wf_tree (fs_put q x s)"
proof -
  have q: "q \<noteq> []" using assms(2) by auto
  show ?thesis
    unfolding wf_tree_def
  proof (intro allI impI)
    fix p w assume "fs_get (fs_put q x s) (p @ [w]) \<noteq> None"
    then have "is_dir s p" using assms(1,3) q by (auto simp: fs_get_put dest: wf_treeD split: if_splits)
    then show "is_dir (fs_put q x s) p" using assms(2) q by (auto simp: is_dir_def fs_get_put)
  qed
qed

lemma os_mkdir_dirs: "wf_tree s \<Longrightarrow> os_mkdir s p m = (r, t) \<Longrightarrow> only_dirs s t"
proof -
  assume wf: "wf_tree s" and m: "os_mkdir s p m = (r, t)"
  show ?thesis
  proof (cases "resolve s False p")
    case (Inr q)
    then have d: "is_dir s (butlast q)"
      using wf kwalk_parent [of s "[]"] by (auto simp: resolve_def)
    show ?thesis
    proof (cases "fs_get s q")
      case None
      then have q: "q \<noteq> []" by auto
      have "t = fs_put q (FDir (syscall_mode m AND NOT (os_umask s))) s"
        using m Inr None by (simp add: os_mkdir_def)
      then show ?thesis
        using wf_put [OF wf None d] None q
        by (simp add: only_dirs_def grows_kept fs_get_put) (simp add: kept_def fs_put_def)
    qed (use m Inr in \<open>simp add: os_mkdir_def\<close>)
  qed (use m in \<open>simp add: os_mkdir_def\<close>)
qed

lemma os_mkdir_all_dirs: "wf_tree s \<Longrightarrow> os_mkdir_all s p m = (r, t) \<Longrightarrow> only_dirs s t"
proof (induction s p m arbitrary: r t rule: os_mkdir_all.induct)
  case (1 s p m)
  show ?case
  proof (cases "\<exists>x. os_stat s p = Inr x \<or> p = []")
    case True
    then show ?thesis using "1.prems" by (auto simp: os_mkdir_all.simps [of s p] split: fnode.splits sum.splits)
  next
    case False
    then obtain e where e: "os_stat s p = Inl e" "p \<noteq> []" by (cases "os_stat s p") auto
    obtain r1 s1 where r1: "os_mkdir_all s (butlast p) m = (r1, s1)" by (metis surj_pair)
    have d1: "only_dirs s s1" using "1.IH" [OF e(1,2)] "1.prems"(1) r1 by blast
    obtain r2 s2 where r2: "os_mkdir s1 p m = (r2, s2)" by (metis surj_pair)
    have "only_dirs s1 s2" using os_mkdir_dirs [OF _ r2] d1 "1.prems"(1) by (simp add: only_dirs_def)
    moreover have "t = s1 \<or> t = s2"
      using "1.prems"(2) e r1 r2 by (auto simp: os_mkdir_all.simps [of s p] split: fnode.splits sum.splits)
    ultimately show ?thesis using d1 only_dirs_trans by blast
  qed
qed

lemma only_dirs_inv:
  assumes "only_dirs s t" and "rootfs_inv rs s"
  shows "rootfs_inv rs t" and "outside_kept rs s t"
proof -
  have k: "kept (fs_get s p) (fs_get t p)" for p using assms(1) by (simp add: only_dirs_def grows_kept)
  have f: "fs_get t p = Some (FFile i) \<longleftrightarrow> fs_get s p = Some (FFile i)" for p i
    using kept_file [OF k] by blast
  have "is_dir t rs" using assms(2) kept_dir [OF k, of rs] by (auto simp: rootfs_inv_def is_dir_def)
  then show "rootfs_inv rs t" using assms f by (simp add: rootfs_inv_def only_dirs_def private_inodes_def)
  show "outside_kept rs s t" using assms(1) k by (simp add: outside_kept_def only_dirs_def inode_def)
qed

text \<open>A path without links is resolved to itself, if at all.\<close>

lemma kwalk_no_links:
  assumes "list_all proper ws" and "\<And>k t. 0 < k \<Longrightarrow> k \<le> length ws \<Longrightarrow> fs_get s (cur @ take k ws) \<noteq> Some (FLink t)"
    and "kwalk s f n cur ws = Inr q"
  shows "q = cur @ ws"
  using assms
proof (induction ws arbitrary: cur)
  case (Cons w ws)
  have nl: "fs_get s (cur @ [w]) \<noteq> Some (FLink t)" for t using Cons.prems(2) [of 1] by simp
  have "kwalk s f n (cur @ [w]) ws = Inr q \<Longrightarrow> q = (cur @ [w]) @ ws"
    using Cons.prems(1) Cons.prems(2) [of "Suc k" for k] by (intro Cons.IH) auto
  then show ?case
    using Cons.prems(1,3) nl by (auto simp: kwalk.simps(2) proper_def split: option.splits fnode.splits if_splits)
qed simp

text \<open>The checks before a secret is written find every link on the way.\<close>

definition linked :: "osfs \<Rightarrow> path \<Rightarrow> bool" where
  "linked s p \<longleftrightarrow> (\<exists>t. os_lstat s p = Inr (FLink t))"

lemma linked_iff: "(case os_lstat s p of Inr (FLink _) \<Rightarrow> True | _ \<Rightarrow> False) = linked s p"
  by (auto simp: linked_def split: sum.splits fnode.splits)

lemma reject_links_unlinked:
  assumes "list_all proper cur" and "list_all proper ws" and "reject_links s (abs_of cur) ws = Inr ()"
    and "0 < k" and "k < length ws"
  shows "\<not> linked s (cur @ take k ws)"
  using assms
proof (induction ws arbitrary: cur k)
  case (Cons w ws)
  have j: "path_join [abs_of cur, w] = abs_of (cur @ [w])"
    using Cons.prems by (simp add: path_join_abs_of_proper)
  have ne: "ws \<noteq> []" and p: "list_all proper (cur @ [w])" using Cons.prems by auto
  have e: "elems (abs_of (cur @ [w])) = cur @ [w]" using p by simp
  have first: "\<not> linked s (cur @ [w])" and rest: "reject_links s (abs_of (cur @ [w])) ws = Inr ()"
    using Cons.prems(3) ne unfolding reject_links.simps Let_def j e
    by (auto simp: linked_def split: sum.splits fnode.splits if_splits)
  show ?case
  proof (cases k)
    case (Suc i)
    show ?thesis
    proof (cases "i = 0")
      case True
      then show ?thesis using first Suc by simp
    next
      case False
      then have "\<not> linked s ((cur @ [w]) @ take i ws)"
        using Cons.prems Suc rest p by (intro Cons.IH) auto
      then show ?thesis using Suc by simp
    qed
  qed (use Cons.prems in simp)
qed simp

lemma unlinked_no_link:
  assumes "wf_tree s" and "is_dir s rs" and "list_all proper rs" and "list_all proper ws"
    and "\<not> linked s (rs @ take k ws)" and "0 < k" and "k \<le> length ws"
  shows "fs_get s (rs @ take k ws) \<noteq> Some (FLink t)"
proof -
  obtain j where k: "k = Suc j" "j < length ws" using assms(6,7) by (cases k) auto
  have tk: "rs @ take k ws = (rs @ take j ws) @ [ws ! j]" using k by (simp add: take_Suc_conv_app_nth)
  have pc: "list_all proper (rs @ take j ws)" "proper (ws ! j)"
    using assms(3,4) k(2) by (auto simp: list_all_iff dest: in_set_takeD)
  show ?thesis
  proof (cases "\<forall>p q. rs @ take j ws = p @ q \<longrightarrow> fs_get s p = None \<or> is_dir s p")
    case True
    then have "os_lstat s (rs @ take k ws) = node_at s (rs @ take k ws)"
      unfolding tk using assms(1) pc by (intro lstat_lookup) auto
    then show ?thesis using assms(5) by (auto simp: linked_def node_at_def)
  next
    case False
    then obtain p q where pq: "rs @ take j ws = p @ q" "fs_get s p \<noteq> None" "\<not> is_dir s p" by blast
    have "fs_get s (p @ (q @ [ws ! j])) = None"
    proof (rule ccontr)
      assume "fs_get s (p @ (q @ [ws ! j])) \<noteq> None"
      then have "is_dir s p" using wf_tree_prefix [OF assms(1)] by (cases "q @ [ws ! j]") auto
      with pq(3) show False ..
    qed
    then show ?thesis unfolding tk pq(1) by simp
  qed
qed

section \<open>Writing one secret\<close>

lemma safe_file_path_below:
  assumes "safe_container_file_path cwd (abs_of rs) target = Inr p" and "list_all proper rs"
  shows "\<exists>ws. list_all proper ws \<and> p = abs_of (rs @ ws)"
proof -
  have nd: "dotdot \<notin> set (split_byte slash target)" and p: "p = path_join [abs_of rs, trim_prefix target [slash]]"
    using assms no_dotdot_fields [of target]
    by (auto simp: safe_container_file_path_def list_ex_iff Let_def split: if_splits)
  have "list_all proper (elems (trim_prefix target [slash]))" using no_dotdot_proper [OF nd] by simp
  then show ?thesis unfolding p by (rule join_below [OF assms(2)])
qed

interpretation secret_target: path_guard "safe_container_file_path cwd"
  by unfold_locales (rule safe_file_path_below)

lemma put_inode_kept:
  assumes "rootfs_inv rs s" and "fs_get s q = Some (FFile i)" and "prefix rs q"
  shows "rootfs_inv rs (put_inode i y s)" and "outside_kept rs s (put_inode i y s)"
proof -
  show "rootfs_inv rs (put_inode i y s)"
    using assms(1) by (simp add: rootfs_inv_def private_inodes_def wf_tree_def is_dir_def)
  have "j \<noteq> i" if "\<not> prefix rs p" "fs_get s p = Some (FFile j)" for p j
    using assms that unfolding rootfs_inv_def private_inodes_def by blast
  then show "outside_kept rs s (put_inode i y s)" by (auto simp: outside_kept_def inode_put_inode)
qed

text \<open>Writing a file at a free place or over a file below the root.\<close>

lemma new_file_ok:
  assumes "rootfs_inv rs s" and "fs_get s q = None" and "is_dir s (butlast q)" and "prefix rs q"
    and "t = (put_inode (os_next s) z (fs_put q (FFile (os_next s)) s))\<lparr>os_next := Suc (os_next s)\<rparr>"
  shows "rootfs_inv rs t" and "outside_kept rs s t" and "fs_get t q = Some (FFile (os_next s))"
proof -
  let ?i = "os_next s"
  have wf: "wf_tree s" and dr: "is_dir s rs" and pi: "private_inodes s rs" using assms(1) by (simp_all add: rootfs_inv_def)
  have q: "q \<noteq> []" using assms(2) by auto
  have get: "fs_get t p = (if p = q then Some (FFile ?i) else fs_get s p)" for p
    unfolding assms(5) using q by (simp add: fs_get_put)
  then show "fs_get t q = Some (FFile ?i)" by simp
  have old: "fs_get s p = Some (FFile j) \<Longrightarrow> j < ?i" for p j using pi by (auto simp: private_inodes_def)
  have "wf_tree (fs_put q (FFile ?i) s)" by (rule wf_put [OF wf assms(2,3)])
  then have "wf_tree t" using q by (simp add: wf_tree_def is_dir_def get fs_get_put)
  moreover have "is_dir t rs" using dr assms(2) by (auto simp: is_dir_def get)
  moreover have "os_next t = Suc ?i" unfolding assms(5) by simp
  then have "private_inodes t rs"
    using pi old assms(4) unfolding private_inodes_def get by (auto split: if_splits) (metis less_irrefl less_Suc_eq)+
  ultimately show "rootfs_inv rs t" by (simp add: rootfs_inv_def)
  show "outside_kept rs s t"
    using old assms(4) unfolding outside_kept_def get by (auto simp: assms(5) inode_put_inode)
qed

lemma write_file_ok:
  assumes "rootfs_inv rs s" and "resolve s True (rs @ ws) = Inr (rs @ ws)" and "os_write_file s (rs @ ws) d m = (r, t)"
  shows "rootfs_inv rs t \<and> outside_kept rs s t"
proof -
  have wf: "wf_tree s" and dr: "is_dir s rs" and pi: "private_inodes s rs" using assms(1) by (simp_all add: rootfs_inv_def)
  have pre: "prefix rs (rs @ ws)" by simp
  show ?thesis
  proof (cases "fs_get s (rs @ ws)")
    case None
    let ?q = "rs @ ws"
    have d: "is_dir s (butlast ?q)" using assms(2) wf kwalk_parent [of s "[]"] by (auto simp: resolve_def)
    obtain z where t: "t = write_inode (os_next s) d ((put_inode (os_next s) z (fs_put ?q (FFile (os_next s)) s))\<lparr>os_next := Suc (os_next s)\<rparr>)"
      using assms(2,3) None by (auto simp: os_write_file_def os_create_def Let_def)
    note new = new_file_ok [OF assms(1) None d pre refl, of z]
    show ?thesis
      using put_inode_kept [OF new(1,3) pre] new(1,2) outside_kept_trans unfolding t write_inode_def
      by (auto split: option.split prod.split)
  next
    case (Some x)
    show ?thesis
    proof (cases x)
      case (FFile i)
      have "t = s \<or> (\<exists>y z. t = put_inode i y (put_inode i z s))"
      proof (cases "inode s i")
        case (Some mz)
        then have "t = put_inode i (fst mz, d) (put_inode i (fst mz, []) s)"
          using assms(2,3) \<open>fs_get s (rs @ ws) = Some x\<close> FFile
          by (cases mz) (simp add: os_write_file_def os_create_def write_inode_def inode_put_inode)
        then show ?thesis by blast
      qed (use assms(2,3) Some FFile in \<open>simp add: os_write_file_def os_create_def write_inode_def\<close>)
      moreover have "rootfs_inv rs (put_inode i y (put_inode i z s)) \<and> outside_kept rs s (put_inode i y (put_inode i z s))" for y z
        using put_inode_kept [OF assms(1) _ pre] put_inode_kept [of rs "put_inode i z s" "rs @ ws"] Some FFile pre outside_kept_trans
        by (metis fs_get_put_inode)
      ultimately show ?thesis using assms(1) by auto
    qed (use assms Some in \<open>auto simp: os_write_file_def os_create_def\<close>)
  qed
qed

lemma inject_one_ok:
  assumes "rootfs_inv rs s" and "list_all proper rs" and "inject_one chown (abs_of rs) sm s = (r, t)"
  shows "rootfs_inv rs t \<and> outside_kept rs s t"
proof (cases "sm_data sm = [] \<or> (\<exists>e. safe_container_file_path (os_cwd s) (abs_of rs) (sm_target sm) = Inl e)")
  case True
  then show ?thesis using assms by (auto simp: inject_one_def split: if_splits)
next
  case False
  then obtain p where p: "safe_container_file_path (os_cwd s) (abs_of rs) (sm_target sm) = Inr p"
    by (cases "safe_container_file_path (os_cwd s) (abs_of rs) (sm_target sm)") auto
  obtain ws where ws: "list_all proper ws" "p = abs_of (rs @ ws)" using secret_target.guard_below [OF assms(2) p] by blast
  obtain r1 s1 where m: "os_mkdir_all s (elems (path_dir p)) 493 = (r1, s1)" by (metis surj_pair)
  have "only_dirs s s1" using os_mkdir_all_dirs [OF _ m] assms(1) by (simp add: rootfs_inv_def)
  then have 1: "rootfs_inv rs s1" "outside_kept rs s s1" using only_dirs_inv assms(1) by blast+
  let ?w = "os_write_file s1 (elems p) (sm_data sm) (word_of_nat (if sm_mode sm = 0 then 292 else sm_mode sm))"
  have e: "elems p = rs @ ws" using ws assms(2) by simp
  have io: "(r, t) = (case r1 of Inl e \<Rightarrow> (Inl (SecretDir e), s1) | Inr _ \<Rightarrow>
      (case reject_secret_symlink_ancestors s1 (abs_of rs) p of Inl e \<Rightarrow> (Inl e, s1) | Inr _ \<Rightarrow>
        if linked s1 (elems p) then (Inl SecretIsLink, s1)
        else (case ?w of (Inl e, s2) \<Rightarrow> (Inl (SecretWrite e), s2) | (Inr _, s2) \<Rightarrow> (chown_secret chown sm p, s2))))"
    using assms(3) p m False unfolding inject_one_def linked_iff [symmetric] by simp
  consider (stopped) "t = s1"
    | (written) "reject_secret_symlink_ancestors s1 (abs_of rs) p = Inr ()" "\<not> linked s1 (elems p)" "t = snd ?w"
    using io by (cases r1; cases "reject_secret_symlink_ancestors s1 (abs_of rs) p"; cases "linked s1 (elems p)"; cases ?w; cases "fst ?w") auto
  then show ?thesis
  proof cases
    case stopped
    with 1 show ?thesis by simp
  next
    case written
    note 2 = written [unfolded e]
    have d: "wf_tree s1" "is_dir s1 rs" using 1(1) by (simp_all add: rootfs_inv_def)
    have un: "\<not> linked s1 (rs @ take k ws)" if k: "0 < k" "k \<le> length ws" for k
    proof (cases "k = length ws")
      case False
      have ne: "ws \<noteq> []" using k by auto
      have "split_byte slash (str_join [slash] ws) = ws"
        using ws(1) ne by (intro split_join) (auto simp: list_all_iff proper_def)
      then have "reject_links s1 (abs_of rs) ws = Inr ()"
        using 2(1) path_rel_below [OF assms(2) ws(1) ne] unfolding ws(2)
        by (simp add: reject_secret_symlink_ancestors_def split: if_splits)
      then show ?thesis using reject_links_unlinked assms(2) ws(1) k False by simp
    qed (use 2(2) in simp)
    have nl: "fs_get s1 (rs @ take k ws) \<noteq> Some (FLink t)" if "0 < k" "k \<le> length ws" for k t
      using unlinked_no_link [OF d assms(2) ws(1) un] that by blast
    show ?thesis
    proof (cases "resolve s1 True (rs @ ws)")
      case (Inl err)
      then have "t = s1" using 2(3) by (simp add: os_write_file_def os_create_def)
      then show ?thesis using 1 by simp
    next
      case (Inr q)
      then have "kwalk s1 True max_links rs ws = Inr q" using d assms(2) by (simp add: resolve_below)
      then have "q = rs @ ws" using kwalk_no_links [OF ws(1), of s1 rs] nl by blast
      then have "rootfs_inv rs t \<and> outside_kept rs s1 t"
        using write_file_ok [OF 1(1), of ws] Inr 2(3) by (metis surjective_pairing)
      then show ?thesis using 1(2) outside_kept_trans by blast
    qed
  qed
qed

text \<open>
  Injecting the secrets of a container writes files only at or below its root file system:
  outside it every entry and the contents of every file are as before, whether the injection
  succeeds or stops at an error, except that directories may have been added.
\<close>

theorem inject_secrets_confined:
  assumes "rootfs_inv rs s" and "list_all proper rs" and "inject_secrets chown (abs_of rs) sms s = (r, t)"
  shows "rootfs_inv rs t \<and> outside_kept rs s t"
  using assms
proof (induction sms arbitrary: s)
  case (Cons sm sms)
  obtain r1 s1 where o: "inject_one chown (abs_of rs) sm s = (r1, s1)" by (metis surj_pair)
  note 1 = inject_one_ok [OF Cons.prems(1,2) o]
  show ?case
  proof (cases r1)
    case (Inl e)
    then show ?thesis using 1 o Cons.prems(3) by auto
  next
    case (Inr u)
    then have "rootfs_inv rs t \<and> outside_kept rs s1 t"
      using Cons.IH [of s1] 1 Cons.prems(2,3) o by simp
    then show ?thesis using 1 outside_kept_trans by blast
  qed
qed simp

text \<open>
  The directories are made before the check: an image whose \<open>/etc\<close> is a link out of its root makes
  \<open>InjectSecrets\<close> create a directory of the host, although it then refuses the secret.
\<close>

definition linked_host :: osfs where
  "linked_host = \<lparr>os_tree = [([''r''], FDir 493), ([''r'', ''etc''], FLink ''/host''), ([''host''], FDir 493)],
     os_inodes = [], os_next = 0, os_umask = 0, os_cwd = Some ''/''\<rparr>"

definition plain_host :: osfs where
  "plain_host = \<lparr>os_tree = [([''r''], FDir 493)], os_inodes = [], os_next = 0, os_umask = 0, os_cwd = Some ''/''\<rparr>"

definition key_secret :: secret_mount where
  "key_secret = \<lparr>sm_source = ''k'', sm_target = ''/etc/app/key'', sm_uid = [], sm_gid = [], sm_mode = 0, sm_data = ''x''\<rparr>"

theorem inject_secrets_makes_host_directory:
  "fst (inject_secrets (\<lambda>p u g. True) ''/r'' [key_secret] linked_host) = Inl (AncestorLink ''/r/etc'')
   \<and> fs_get linked_host [''host'', ''app''] = None
   \<and> fs_get (snd (inject_secrets (\<lambda>p u g. True) ''/r'' [key_secret] linked_host)) [''host'', ''app''] = Some (FDir 493)"
  by (intro conjI; code_simp)

section \<open>Witnesses\<close>

lemma plain_host_inv: "rootfs_inv [''r''] plain_host"
  by (auto simp: rootfs_inv_def wf_tree_def private_inodes_def is_dir_def fs_get_def plain_host_def Cons_eq_append_conv)

lemma key_written:
  "fst (inject_secrets (\<lambda>p u g. True) ''/r'' [key_secret] plain_host) = Inr ()"
  by code_simp

lemma inject_secrets_confined_witness:
  "outside_kept [''r''] plain_host (snd (inject_secrets (\<lambda>p u g. True) ''/r'' [key_secret] plain_host))"
proof -
  have r: "abs_of [''r''] = ''/r''" "list_all proper [''r'']" by code_simp+
  show ?thesis
    using inject_secrets_confined [OF plain_host_inv r(2), of "\<lambda>p u g. True" "[key_secret]", unfolded r(1), OF surjective_pairing]
    by blast
qed

definition file_env :: mount_env where
  "file_env =
     \<lparr>me_fs = \<lparr>fv_cwd = Some ''/'', fv_lstat = (\<lambda>p. FileEntry), fv_eval = (\<lambda>p. Some p)\<rparr>, me_stat = (\<lambda>p. Some False),
      me_mkdir = (\<lambda>p. True), me_empty = (\<lambda>p. True), me_allowed = [''/srv''], me_volumes = ''/d/volumes''\<rparr>"

definition token_ref :: file_ref where
  "token_ref = \<lparr>fr_source = ''token'', fr_target = [], fr_uid = [], fr_gid = [], fr_mode = 0\<rparr>"

definition token_spec :: file_spec where
  "token_spec = \<lparr>fsp_file = ''/srv/token.txt'', fsp_external = False, fsp_name = []\<rparr>"

definition token_container :: container_config where
  "token_container = no_container\<lparr>kc_image := ''i'', kc_secrets := [token_ref]\<rparr>"

definition token_config :: config where
  "token_config = \<lparr>cfg_secrets = [(''token'', token_spec)], cfg_configs = [], cfg_containers = [(''web'', token_container)]\<rparr>"

lemma file_secret_never_mounted_witness:
  "\<exists>err. fst (mount_all file_env (\<lambda>a s. (True, [], s)) ''/d/c'' (fst (parse_secrets_to_volumes token_container token_config)) ()) = Inl err"
proof -
  have 1: "token_ref \<in> set (kc_secrets token_container)" by (simp add: token_container_def)
  have 2: "map_of (cfg_secrets token_config) (fr_source token_ref) = Some token_spec"
    by (simp add: token_config_def token_ref_def)
  have 3: "slash \<in> set (fsp_file token_spec)" by (simp add: token_spec_def slash_def)
  have 4: "me_stat file_env p \<noteq> Some True" for p by (simp add: file_env_def)
  show ?thesis using file_secret_never_mounted [OF 1 2 3 4, of _ _ "[]"] by simp
qed

end
