(* ===== verification/BackupArchive.thy ===== *)
theory BackupArchive
  imports Secrets Starting Ip "HOL-Library.List_Lexorder" "HOL-Library.Char_ord"
begin

text \<open>
  Backup archives (\<open>cmd/backup.go\<close>, \<open>internal/container/backup_safe.go\<close>): what is written into one,
  how it is unpacked into a staging directory, and how the staged files are put in place. All paths
  are absolute; an archive is the list of its tar members, and the times of files are left out.
\<close>

datatype backup_err =
    BkOs os_err | BkUnsafePath | BkEscapes | BkDestinationLink | BkAncestorLink string | BkUnsafeEntry | BkDuplicate
  | BkEmptyLink | BkLinkEscapes | BkTwoMetadata | BkNoMetadata | BkBadMetadata | BkOtherContainer | BkTar | BkGzip | BkCopy
  | BkHostRoot | BkChecksumFile | BkChecksumValue | BkChecksumMismatch
  | BkNoCwd | BkEmptyDir | BkProtected | BkLinkComponent string | BkNotArchive | BkNotRegular
  | BkNoContainer | BkRunning | BkSave | BkReload | BkStop life_err | BkInterval | BkRetention | BkNoKey | BkTooShort | BkAuth

text \<open>An operating system call that may fail, and what follows it.\<close>

definition on_os :: "(os_err + 'a) \<times> osfs \<Rightarrow> ('a \<Rightarrow> osfs \<Rightarrow> (backup_err + 'b) \<times> osfs) \<Rightarrow> (backup_err + 'b) \<times> osfs" where
  "on_os r k = (case r of (Inl e, s) \<Rightarrow> (Inl (BkOs e), s) | (Inr x, s) \<Rightarrow> k x s)"

section \<open>Paths\<close>

definition escaping :: "string \<Rightarrow> bool" where
  "escaping p \<longleftrightarrow> p = dotdot \<or> has_prefix p (dotdot @ [slash])"

definition safe_backup_path :: "string \<Rightarrow> string \<Rightarrow> backup_err + string" where
  "safe_backup_path base name =
     (if name = [] \<or> is_abs name \<or> str_contains name [backslash] then Inl BkUnsafePath
      else let clean = path_clean name in
        if clean = ''.'' \<or> escaping clean then Inl BkEscapes else Inr (path_join [base, clean]))"

fun reject_backup_links :: "osfs \<Rightarrow> string \<Rightarrow> string list \<Rightarrow> backup_err + unit" where
  "reject_backup_links s current [] = Inr ()"
| "reject_backup_links s current (part # parts) =
     (let cur = path_join [current, part] in
      case os_lstat s (elems cur) of
        Inl e \<Rightarrow> if e = ENOENT then reject_backup_links s cur parts else Inl (BkOs e)
      | Inr (FLink _) \<Rightarrow> Inl (BkAncestorLink cur)
      | Inr _ \<Rightarrow> reject_backup_links s cur parts)"

definition reject_backup_below :: "osfs \<Rightarrow> string \<Rightarrow> string \<Rightarrow> backup_err + unit" where
  "reject_backup_below s base target =
     (case path_rel base target of
        None \<Rightarrow> Inl BkEscapes
      | Some rel \<Rightarrow> if escaping rel then Inl BkEscapes else reject_backup_links s base (split_byte slash rel))"

definition reject_backup_symlink_ancestors :: "osfs \<Rightarrow> string \<Rightarrow> string \<Rightarrow> backup_err + unit" where
  "reject_backup_symlink_ancestors s base target =
     (case os_lstat s (elems base) of
        Inr (FLink _) \<Rightarrow> Inl BkDestinationLink
      | Inr _ \<Rightarrow> reject_backup_below s base target
      | Inl e \<Rightarrow> if e = ENOENT then reject_backup_below s base target else Inl (BkOs e))"

section \<open>Writing an archive\<close>

text \<open>\<open>filepath.Walk\<close>: a directory before its entries, and these in the order of their names.\<close>

definition walk :: "osfs \<Rightarrow> path \<Rightarrow> path list" where
  "walk s q = sort (remdups (q # filter (strict_prefix q) (map fst (os_tree s))))"

definition member_name :: "string \<Rightarrow> string list \<Rightarrow> string" where
  "member_name pre rel = (if rel = [] then pre else path_join [pre, str_join [slash] rel])"

text \<open>
  The header of an entry. \<open>FileInfoHeader\<close> is given no target for a symbolic link, so that the header
  of one has none.
\<close>

definition tree_header :: "osfs \<Rightarrow> path \<Rightarrow> string \<Rightarrow> path \<Rightarrow> tar_hdr list" where
  "tree_header s q pre p =
     (let h = \<lparr>th_name = member_name pre (drop (length q) p), th_type = TypeDir, th_mode = 0, th_link = [], th_data = [], th_data_ok = True\<rparr> in
      case fs_get s p of
        None \<Rightarrow> []
      | Some (FDir m) \<Rightarrow> [h\<lparr>th_mode := m\<rparr>]
      | Some (FLink t) \<Rightarrow> [h\<lparr>th_type := TypeSymlink, th_mode := 511\<rparr>]
      | Some (FFile i) \<Rightarrow>
          (case inode s i of
             None \<Rightarrow> [h\<lparr>th_type := TypeReg\<rparr>]
           | Some (m, d) \<Rightarrow> [h\<lparr>th_type := TypeReg, th_mode := m, th_data := d\<rparr>]))"

definition add_tree_to_tar :: "osfs \<Rightarrow> string \<Rightarrow> string \<Rightarrow> backup_err + tar_hdr list" where
  "add_tree_to_tar s source pre =
     (case os_stat s (elems source) of
        Inl e \<Rightarrow> if e = ENOENT then Inr [] else Inl (BkOs e)
      | Inr _ \<Rightarrow>
          (case resolve s False (elems source) of
             Inl e \<Rightarrow> Inl (BkOs e)
           | Inr q \<Rightarrow> Inr (concat (map (tree_header s q pre) (walk s q)))))"

definition on_host_path :: "volume_mount \<Rightarrow> bool" where
  "on_host_path v \<longleftrightarrow> slash \<in> set (vm_source v) \<or> backslash \<in> set (vm_source v)"

definition backup_bind_prefix :: "volume_mount \<Rightarrow> string" where
  "backup_bind_prefix v =
     (let target = trim_prefix (path_clean (vm_target v)) [slash] in
      path_join [''binds'', if target = [] \<or> target = ''.'' then ''root'' else target])"

definition volume_tree :: "(string \<Rightarrow> string) \<Rightarrow> string \<Rightarrow> volume_mount \<Rightarrow> string \<times> string" where
  "volume_tree h dd v =
     (if on_host_path v then (vm_source v, backup_bind_prefix v)
      else (resolve_volume h dd (vm_source v), path_join [''volumes'', vm_source v]))"

fun add_volumes :: "osfs \<Rightarrow> (string \<Rightarrow> string) \<Rightarrow> string \<Rightarrow> volume_mount list \<Rightarrow> backup_err + tar_hdr list" where
  "add_volumes s h dd [] = Inr []"
| "add_volumes s h dd (v # vs) =
     (if on_host_path v \<and> path_clean (vm_source v) = [slash] then Inl BkHostRoot
      else rbind (add_tree_to_tar s (fst (volume_tree h dd v)) (snd (volume_tree h dd v))) (\<lambda>hs.
        rbind (add_volumes s h dd vs) (\<lambda>hs'. Inr (hs @ hs'))))"

text \<open>The directory with a container's own changes; a data file system that is mounted comes first.\<close>

definition writable_dir :: "osfs \<Rightarrow> (string \<Rightarrow> string) \<Rightarrow> string \<Rightarrow> string \<Rightarrow> string" where
  "writable_dir s h dd cid =
     (let mnt = path_join [overlay_dir dd, cid, ''data''] in
      case os_stat s (elems mnt) of
        Inr (FDir _) \<Rightarrow> path_join [mnt, ''upper'']
      | _ \<Rightarrow> fst (overlay_dirs h dd cid))"

definition metadata_header :: "string \<Rightarrow> tar_hdr" where
  "metadata_header json =
     \<lparr>th_name = ''container.json'', th_type = TypeReg, th_mode = 384, th_link = [], th_data = json, th_data_ok = True\<rparr>"

text \<open>The members of the archive of a container whose JSON text is \<open>json\<close>.\<close>

definition create_container_backup ::
  "osfs \<Rightarrow> (string \<Rightarrow> string) \<Rightarrow> string \<Rightarrow> string \<Rightarrow> string \<Rightarrow> volume_mount list \<Rightarrow> backup_err + tar_hdr list" where
  "create_container_backup s h dd cid json vols =
     rbind (add_tree_to_tar s (writable_dir s h dd cid) ''data'') (\<lambda>data.
       rbind (add_volumes s h dd vols) (\<lambda>vs. Inr (metadata_header json # data @ vs)))"

section \<open>Unpacking into the staging directory\<close>

text \<open>\<open>OpenFile\<close> with \<open>O_CREATE|O_EXCL\<close>: a link in the last place is not followed.\<close>

definition os_create_excl :: "osfs \<Rightarrow> path \<Rightarrow> mode \<Rightarrow> (os_err + nat) \<times> osfs" where
  "os_create_excl s p m =
     (case resolve s False p of
        Inl e \<Rightarrow> (Inl e, s)
      | Inr q \<Rightarrow>
          (case fs_get s q of
             Some _ \<Rightarrow> (Inl EEXIST, s)
           | None \<Rightarrow>
               (let i = os_next s in
                (Inr i, (put_inode i (syscall_mode m AND NOT (os_umask s), [])
                   (fs_put q (FFile i) s))\<lparr>os_next := Suc i\<rparr>))))"

definition validate_backup_link :: "string \<Rightarrow> string \<Rightarrow> bool \<Rightarrow> backup_err + unit" where
  "validate_backup_link name link host_volume =
     (if link = [] then Inl BkEmptyLink
      else if \<not> host_volume then Inr ()
      else if is_abs link \<or> str_contains link [backslash] then Inl BkLinkEscapes
      else if escaping (path_clean (path_join [path_dir name, link])) then Inl BkLinkEscapes
      else Inr ())"

definition stage_dir :: "string \<Rightarrow> tar_hdr \<Rightarrow> osfs \<Rightarrow> (backup_err + unit) \<times> osfs" where
  "stage_dir target h s =
     on_os (os_mkdir_all s (elems target) 448) (\<lambda>_ s1.
     on_os (os_chmod s1 (elems target) (th_mode h)) (\<lambda>_ s2. (Inr (), s2)))"

definition stage_link :: "string \<Rightarrow> tar_hdr \<Rightarrow> osfs \<Rightarrow> (backup_err + unit) \<times> osfs" where
  "stage_link target h s =
     (case validate_backup_link (th_name h) (th_link h) (has_prefix (th_name h) ''binds/'') of
        Inl e \<Rightarrow> (Inl e, s)
      | Inr _ \<Rightarrow>
          on_os (os_mkdir_all s (elems (path_dir target)) 448) (\<lambda>_ s1.
          on_os (os_symlink s1 (th_link h) (elems target)) (\<lambda>_ s2. (Inr (), s2))))"

definition stage_file :: "string \<Rightarrow> tar_hdr \<Rightarrow> osfs \<Rightarrow> (backup_err + unit) \<times> osfs" where
  "stage_file target h s =
     on_os (os_mkdir_all s (elems (path_dir target)) 448) (\<lambda>_ s1.
     on_os (os_create_excl s1 (elems target) 384) (\<lambda>i s2.
       let s3 = write_inode i (th_data h) s2 in
       if \<not> th_data_ok h then (Inl BkCopy, s3)
       else on_os (os_chmod s3 (elems target) (th_mode h)) (\<lambda>_ s4. (Inr (), s4))))"

definition in_namespace :: "string \<Rightarrow> string \<Rightarrow> bool" where
  "in_namespace entry namespace \<longleftrightarrow> entry = namespace \<or> has_prefix entry (namespace @ [slash])"

definition stage_entry :: "string \<Rightarrow> tar_hdr \<Rightarrow> osfs \<Rightarrow> (backup_err + unit) \<times> osfs" where
  "stage_entry stage h s =
     (let entry = trim_suffix (th_name h) [slash] in
      if \<not> in_namespace entry ''data'' \<and> \<not> in_namespace entry ''volumes'' \<and> \<not> in_namespace entry ''binds''
      then (Inl BkUnsafeEntry, s)
      else case safe_backup_path stage (th_name h) of
        Inl e \<Rightarrow> (Inl e, s)
      | Inr target \<Rightarrow>
          (case reject_backup_symlink_ancestors s stage (path_dir target) of
             Inl e \<Rightarrow> (Inl e, s)
           | Inr _ \<Rightarrow>
               (case os_lstat s (elems target) of
                  Inr _ \<Rightarrow> (Inl BkDuplicate, s)
                | Inl e \<Rightarrow>
                    if e \<noteq> ENOENT then (Inl (BkOs e), s)
                    else (case th_type h of
                       TypeDir \<Rightarrow> stage_dir target h s
                     | TypeSymlink \<Rightarrow> stage_link target h s
                     | TypeOther \<Rightarrow> (Inr (), s)
                     | _ \<Rightarrow> stage_file target h s))))"

text \<open>The metadata is the first \<open>2\<^sup>2\<^sup>0\<close> bytes of its member.\<close>

fun extract_members :: "string \<Rightarrow> tar_item list \<Rightarrow> string option \<Rightarrow> osfs \<Rightarrow> (backup_err + string) \<times> osfs" where
  "extract_members stage [] metadata s = (case metadata of None \<Rightarrow> (Inl BkNoMetadata, s) | Some m \<Rightarrow> (Inr m, s))"
| "extract_members stage (TarReadError # items) metadata s = (Inl BkTar, s)"
| "extract_members stage (TarEntry h # items) metadata s =
     (if th_name h = ''container.json'' then
        (if metadata \<noteq> None then (Inl BkTwoMetadata, s)
         else if \<not> th_data_ok h then (Inl BkCopy, s)
         else extract_members stage items (Some (take (2 ^ 20) (th_data h))) s)
      else case stage_entry stage h s of
        (Inl e, s1) \<Rightarrow> (Inl e, s1)
      | (Inr _, s1) \<Rightarrow> extract_members stage items metadata s1)"

text \<open>\<open>os.Open\<close> of a file and reading all of it.\<close>

definition os_read :: "osfs \<Rightarrow> path \<Rightarrow> os_err + string" where
  "os_read s p =
     rbind (resolve s True p) (\<lambda>q.
     rbind (node_at s q) (\<lambda>x.
       case x of
         FFile i \<Rightarrow> Inr (case inode s i of None \<Rightarrow> [] | Some (m, d) \<Rightarrow> d)
       | _ \<Rightarrow> Inl EISDIR))"

text \<open>\<open>unpack\<close> is what the readers of the gzip and tar formats make of a file, \<open>None\<close> without a gzip header.\<close>

definition extract_backup_to_stage ::
  "(string \<Rightarrow> tar_item list option) \<Rightarrow> string \<Rightarrow> string \<Rightarrow> osfs \<Rightarrow> (backup_err + string) \<times> osfs" where
  "extract_backup_to_stage unpack stage archive s =
     (case os_read s (elems archive) of
        Inl e \<Rightarrow> (Inl (BkOs e), s)
      | Inr d \<Rightarrow> (case unpack d of None \<Rightarrow> (Inl BkGzip, s) | Some ms \<Rightarrow> extract_members stage ms None s))"

section \<open>Putting the staged files in place\<close>

text \<open>
  \<open>os.Rename\<close> of a file or link: what is at the new name is replaced, unless it is a directory.
\<close>

definition os_rename :: "osfs \<Rightarrow> path \<Rightarrow> path \<Rightarrow> (os_err + unit) \<times> osfs" where
  "os_rename s old new =
     (case rbind (resolve s False old) (\<lambda>a. rbind (resolve s False new) (\<lambda>b. Inr (a, b))) of
        Inl e \<Rightarrow> (Inl e, s)
      | Inr (a, b) \<Rightarrow>
          (case fs_get s a of
             None \<Rightarrow> (Inl ENOENT, s)
           | Some (FDir _) \<Rightarrow> (Inl EBUSY, s)
           | Some x \<Rightarrow>
               (case fs_get s b of
                  Some (FDir _) \<Rightarrow> (Inl EISDIR, s)
                | _ \<Rightarrow> (Inr (), if a = b then s else fs_del a (fs_put b x s)))))"

text \<open>
  \<open>CreateTemp\<close> picks a random name; \<open>rnd\<close> is the one it picks in a directory.
\<close>

definition temp_in :: "(osfs \<Rightarrow> string \<Rightarrow> string) \<Rightarrow> osfs \<Rightarrow> string \<Rightarrow> string \<Rightarrow> string \<Rightarrow> string" where
  "temp_in rnd s dir pre suf = path_join [dir, pre @ rnd s dir @ suf]"

text \<open>A new file beside the old one, renamed over it.\<close>

definition replace_file ::
  "(osfs \<Rightarrow> string \<Rightarrow> string) \<Rightarrow> string \<times> string \<Rightarrow> mode option \<Rightarrow> string \<Rightarrow> string \<Rightarrow> osfs \<Rightarrow> (backup_err + unit) \<times> osfs" where
  "replace_file rnd pattern m target data s =
     (let tmp = elems (temp_in rnd s (path_dir target) (fst pattern) (snd pattern)) in
      on_os (os_create_excl s tmp 384) (\<lambda>i s1.
        let s2 = write_inode i data s1;
            s3 = (case m of None \<Rightarrow> s2 | Some k \<Rightarrow> chmod_inode i k s2) in
        case os_rename s3 tmp (elems target) of
          (Inl e, s4) \<Rightarrow> (Inl (BkOs e), snd (os_remove s4 tmp))
        | (Inr _, s4) \<Rightarrow> (Inr (), s4)))"

definition atomic_restore_symlink ::
  "(osfs \<Rightarrow> string \<Rightarrow> string) \<Rightarrow> string \<Rightarrow> string \<Rightarrow> osfs \<Rightarrow> (backup_err + unit) \<times> osfs" where
  "atomic_restore_symlink rnd target link s =
     (let tmp = elems (temp_in rnd s (path_dir target) ''.dck-restore-link-'' []) in
      on_os (os_create_excl s tmp 384) (\<lambda>_ s1.
      on_os (os_remove s1 tmp) (\<lambda>_ s2.
      on_os (os_symlink s2 link tmp) (\<lambda>_ s3.
        case os_rename s3 tmp (elems target) of
          (Inl e, s4) \<Rightarrow> (Inl (BkOs e), snd (os_remove s4 tmp))
        | (Inr _, s4) \<Rightarrow> (Inr (), s4)))))"

definition atomic_restore_file ::
  "(osfs \<Rightarrow> string \<Rightarrow> string) \<Rightarrow> string \<Rightarrow> mode \<Rightarrow> string \<Rightarrow> osfs \<Rightarrow> (backup_err + unit) \<times> osfs" where
  "atomic_restore_file rnd target m data s = replace_file rnd (''.dck-restore-file-'', []) (Some m) target data s"

text \<open>
  One entry of the walk over \<open>source\<close>. Only the ancestors of the target are checked for links, not
  the target itself.
\<close>

definition apply_entry ::
  "(osfs \<Rightarrow> string \<Rightarrow> string) \<Rightarrow> path \<Rightarrow> string \<Rightarrow> bool \<Rightarrow> path \<Rightarrow> osfs \<Rightarrow> (backup_err + unit) \<times> osfs" where
  "apply_entry rnd q destination host_volume p s =
     (let rel = drop (length q) p;
          target = (if rel = [] then destination else path_join [destination, str_join [slash] rel]) in
      case (if rel = [] then Inr () else reject_backup_symlink_ancestors s destination (path_dir target)) of
        Inl e \<Rightarrow> (Inl e, s)
      | Inr _ \<Rightarrow>
          (case fs_get s p of
             None \<Rightarrow> (Inl (BkOs ENOENT), s)
           | Some (FDir m) \<Rightarrow>
               on_os (os_mkdir_all s (elems target) 448) (\<lambda>_ s1.
               on_os (os_chmod s1 (elems target) m) (\<lambda>_ s2. (Inr (), s2)))
           | Some (FLink t) \<Rightarrow>
               (case validate_backup_link (if rel = [] then ''.'' else str_join [slash] rel) t host_volume of
                  Inl e \<Rightarrow> (Inl e, s)
                | Inr _ \<Rightarrow> atomic_restore_symlink rnd target t s)
           | Some (FFile i) \<Rightarrow>
               (case inode s i of
                  None \<Rightarrow> atomic_restore_file rnd target 0 [] s
                | Some (m, d) \<Rightarrow> atomic_restore_file rnd target m d s)))"

fun apply_entries ::
  "(osfs \<Rightarrow> string \<Rightarrow> string) \<Rightarrow> path \<Rightarrow> string \<Rightarrow> bool \<Rightarrow> path list \<Rightarrow> osfs \<Rightarrow> (backup_err + unit) \<times> osfs" where
  "apply_entries rnd q destination host_volume [] s = (Inr (), s)"
| "apply_entries rnd q destination host_volume (p # ps) s =
     (case apply_entry rnd q destination host_volume p s of
        (Inl e, s1) \<Rightarrow> (Inl e, s1)
      | (Inr _, s1) \<Rightarrow> apply_entries rnd q destination host_volume ps s1)"

definition apply_backup_tree ::
  "(osfs \<Rightarrow> string \<Rightarrow> string) \<Rightarrow> string \<Rightarrow> string \<Rightarrow> bool \<Rightarrow> osfs \<Rightarrow> (backup_err + unit) \<times> osfs" where
  "apply_backup_tree rnd source destination host_volume s =
     (case os_lstat s (elems source) of
        Inl e \<Rightarrow> if e = ENOENT then (Inr (), s) else (Inl (BkOs e), s)
      | Inr _ \<Rightarrow>
          (case reject_backup_symlink_ancestors s destination destination of
             Inl e \<Rightarrow> (Inl e, s)
           | Inr _ \<Rightarrow>
               on_os (os_mkdir_all s (elems destination) 448) (\<lambda>_ s1.
                 case resolve s1 False (elems source) of
                   Inl e \<Rightarrow> (Inl (BkOs e), s1)
                 | Inr q \<Rightarrow> apply_entries rnd q destination host_volume (walk s1 q) s1)))"

section \<open>Checksums\<close>

text \<open>\<open>sha\<close> is SHA-256 in hexadecimal.\<close>

definition backup_checksum_path :: "string \<Rightarrow> string" where
  "backup_checksum_path archive = archive @ ''.sha256''"

definition checksum_line :: "string \<Rightarrow> string \<Rightarrow> string" where
  "checksum_line digest archive = digest @ ''  '' @ path_base archive @ [CHR 0x0A]"

definition write_backup_checksum ::
  "(string \<Rightarrow> string) \<Rightarrow> (osfs \<Rightarrow> string \<Rightarrow> string) \<Rightarrow> string \<Rightarrow> osfs \<Rightarrow> (backup_err + unit) \<times> osfs" where
  "write_backup_checksum sha rnd archive s =
     (case os_read s (elems archive) of
        Inl e \<Rightarrow> (Inl (BkOs e), s)
      | Inr d \<Rightarrow>
          replace_file rnd (''.dck-checksum-'', []) (Some 384) (backup_checksum_path archive)
            (checksum_line (sha d) archive) s)"

definition verify_backup_checksum :: "(string \<Rightarrow> string) \<Rightarrow> string \<Rightarrow> osfs \<Rightarrow> backup_err + unit" where
  "verify_backup_checksum sha archive s =
     (case os_read s (elems (backup_checksum_path archive)) of
        Inl e \<Rightarrow> if e = ENOENT then Inr () else Inl (BkOs e)
      | Inr line \<Rightarrow>
          (case str_fields line of
             [] \<Rightarrow> Inl BkChecksumFile
           | f # fs \<Rightarrow>
               if length f \<noteq> 64 then Inl BkChecksumFile
               else if \<not> list_all is_hex f then Inl BkChecksumValue
               else case os_read s (elems archive) of
                 Inl e \<Rightarrow> Inl (BkOs e)
               | Inr d \<Rightarrow> if map upper_char (sha d) = map upper_char f then Inr () else Inl BkChecksumMismatch))"

section \<open>Restoring\<close>

text \<open>
  What a restore relies on besides the file system: SHA-256, the readers of the archive formats, the
  identifier in a JSON text, and the random names.
\<close>

record restore_env =
  re_sha :: "string \<Rightarrow> string"
  re_unpack :: "string \<Rightarrow> tar_item list option"
  re_json_id :: "string \<Rightarrow> string option"
  re_random :: "osfs \<Rightarrow> string \<Rightarrow> string"

fun restore_volumes ::
  "restore_env \<Rightarrow> (string \<Rightarrow> string) \<Rightarrow> string \<Rightarrow> string \<Rightarrow> volume_mount list \<Rightarrow> osfs \<Rightarrow> (backup_err + unit) \<times> osfs" where
  "restore_volumes re h dd stage [] s = (Inr (), s)"
| "restore_volumes re h dd stage (v # vs) s =
     (let source = path_join [stage, snd (volume_tree h dd v)] in
      case os_lstat s (elems source) of
        Inl e \<Rightarrow> if e = ENOENT then restore_volumes re h dd stage vs s else (Inl (BkOs e), s)
      | Inr _ \<Rightarrow>
          (case apply_backup_tree (re_random re) source (fst (volume_tree h dd v)) (on_host_path v) s of
             (Inl e, s1) \<Rightarrow> (Inl e, s1)
           | (Inr _, s1) \<Rightarrow> restore_volumes re h dd stage vs s1))"

text \<open>\<open>os.RemoveAll\<close> of a directory without links on the way to it.\<close>

definition os_remove_all :: "path \<Rightarrow> osfs \<Rightarrow> osfs" where
  "os_remove_all p s = s\<lparr>os_tree := filter (\<lambda>(x, _). \<not> prefix p x) (os_tree s)\<rparr>"

definition restore_staged ::
  "restore_env \<Rightarrow> (string \<Rightarrow> string) \<Rightarrow> string \<Rightarrow> string \<Rightarrow> volume_mount list \<Rightarrow> bool \<Rightarrow> string \<Rightarrow> string \<Rightarrow> osfs
    \<Rightarrow> (backup_err + unit) \<times> osfs" where
  "restore_staged re h dd cid vols rebind stage archive s =
     (case extract_backup_to_stage (re_unpack re) stage archive s of
        (Inl e, s1) \<Rightarrow> (Inl e, s1)
      | (Inr json, s1) \<Rightarrow>
          (case re_json_id re json of
             None \<Rightarrow> (Inl BkBadMetadata, s1)
           | Some archived \<Rightarrow>
               if archived = [] \<or> (\<not> rebind \<and> archived \<noteq> cid) then (Inl BkOtherContainer, s1)
               else (case apply_backup_tree (re_random re) (path_join [stage, ''data'']) (writable_dir s1 h dd cid) False s1 of
                  (Inl e, s2) \<Rightarrow> (Inl e, s2)
                | (Inr _, s2) \<Rightarrow> restore_volumes re h dd stage vols s2)))"

definition restore_container_backup ::
  "restore_env \<Rightarrow> (string \<Rightarrow> string) \<Rightarrow> string \<Rightarrow> string \<Rightarrow> volume_mount list \<Rightarrow> bool \<Rightarrow> string \<Rightarrow> osfs
    \<Rightarrow> (backup_err + unit) \<times> osfs" where
  "restore_container_backup re h dd cid vols rebind archive s =
     (case verify_backup_checksum (re_sha re) archive s of
        Inl e \<Rightarrow> (Inl e, s)
      | Inr _ \<Rightarrow>
          (let stage = temp_in (re_random re) s dd ''.dck-restore-'' [] in
           case os_mkdir s (elems stage) 448 of
             (Inl e, s1) \<Rightarrow> (Inl (BkOs e), s1)
           | (Inr _, s1) \<Rightarrow>
               (case restore_staged re h dd cid vols rebind stage archive s1 of
                  (r, s2) \<Rightarrow> (r, os_remove_all (elems stage) s2))))"

end
