(* ===== verification/BackupProps.thy ===== *)
theory BackupProps
  imports BackupArchive SecretProps
begin

text \<open>
  What an archive can and cannot do: its members stay in the staging directory, its links are lost,
  and its checksum is found again.
\<close>

section \<open>Links\<close>

lemma tree_header_link: "h \<in> set (tree_header s q pre p) \<Longrightarrow> th_type h = TypeSymlink \<Longrightarrow> th_link h = []"
  by (cases "fs_get s p"; cases "the (fs_get s p)") (auto simp: tree_header_def Let_def split: option.splits)

lemma tree_header_of_link:
  "fs_get s p = Some (FLink l) \<Longrightarrow> \<exists>h \<in> set (tree_header s q pre p). th_type h = TypeSymlink \<and> th_link h = []"
  by (simp add: tree_header_def)

lemma walk_below: "fs_get s p = Some x \<Longrightarrow> strict_prefix q p \<Longrightarrow> p \<in> set (walk s q)"
  by (auto simp: walk_def fs_get_def image_iff simp del: sort_key_simps remdups.simps sorted_list_of_set_sort_remdups
      split: if_splits dest!: map_of_SomeD) (metis fst_conv)

lemma archive_has_link:
  assumes "create_container_backup s h dd cid json vols = Inr hs"
    and "os_stat s (elems (writable_dir s h dd cid)) = Inr x" and "resolve s False (elems (writable_dir s h dd cid)) = Inr q"
    and "strict_prefix q p" and "fs_get s p = Some (FLink l)"
  shows "\<exists>hs' k. hs = metadata_header json # hs' \<and> k \<in> set hs' \<and> th_type k = TypeSymlink \<and> th_link k = []"
proof -
  obtain k where k: "k \<in> set (tree_header s q ''data'' p)" "th_type k = TypeSymlink" "th_link k = []"
    using tree_header_of_link [OF assms(5)] by blast
  have "p \<in> set (walk s q)" using assms(4,5) by (auto intro: walk_below)
  then have "k \<in> set (concat (map (tree_header s q ''data'') (walk s q)))" using k(1) by auto
  moreover have "\<exists>vs. hs = metadata_header json # concat (map (tree_header s q ''data'') (walk s q)) @ vs"
    using assms(1,2,3) by (auto simp: create_container_backup_def add_tree_to_tar_def res_simps)
  ultimately show ?thesis using k(2,3) by (metis Un_iff set_append)
qed

lemma stage_entry_empty_link:
  "th_type h = TypeSymlink \<Longrightarrow> th_link h = [] \<Longrightarrow> \<exists>e t. stage_entry stage h s = (Inl e, t)"
  by (auto simp: stage_entry_def stage_link_def validate_backup_link_def Let_def split: sum.splits)

lemma extract_members_empty_link:
  assumes "TarEntry h \<in> set items" and "th_type h = TypeSymlink" and "th_link h = []" and "metadata \<noteq> None"
  shows "\<exists>e t. extract_members stage items metadata s = (Inl e, t)"
  using assms(1,4)
proof (induction stage items metadata s rule: extract_members.induct)
  case (3 stage k items metadata s)
  show ?case
  proof (cases "th_name k = ''container.json''")
    case False
    obtain r s1 where e: "stage_entry stage k s = (r, s1)" by (metis surj_pair)
    show ?thesis
    proof (cases r)
      case (Inr u)
      then have "k \<noteq> h" using stage_entry_empty_link [OF assms(2,3), of stage s] e by auto
      then have "TarEntry h \<in> set items" using "3.prems"(1) by auto
      then show ?thesis using "3.IH"(2) [OF False] "3.prems"(2) e Inr False by simp
    qed (use e False in simp)
  qed (use "3.prems"(2) in simp)
qed simp_all

text \<open>Reading a file is not affected by new directories.\<close>

lemma kwalk_grows:
  assumes "kwalk s f n cur ws = Inr q" and "fs_get s q \<noteq> None" and "grows s t"
  shows "kwalk t f n cur ws = Inr q"
  using assms
proof (induction s f n cur ws rule: kwalk.induct)
  case (2 s f n cur w ws)
  then show ?case using growsD [of s t "cur @ [w]"]
    by (auto simp: kwalk.simps(2) split: if_splits option.splits fnode.splits nat.splits) metis+
qed simp

lemma os_read_iff:
  "os_read s p = Inr d \<longleftrightarrow>
     (\<exists>q i. resolve s True p = Inr q \<and> fs_get s q = Some (FFile i) \<and> d = (case inode s i of None \<Rightarrow> [] | Some (m, x) \<Rightarrow> x))"
proof (cases "resolve s True p")
  case (Inr q)
  then show ?thesis
    by (cases "fs_get s q"; cases "the (fs_get s q)") (auto simp: os_read_def node_at_def)
qed (simp add: os_read_def)

lemma os_read_grows:
  assumes "os_read s p = Inr d" and "grows s t" and "os_inodes t = os_inodes s"
  shows "os_read t p = Inr d"
proof -
  obtain q i where q: "resolve s True p = Inr q" "fs_get s q = Some (FFile i)" "d = (case inode s i of None \<Rightarrow> [] | Some (m, x) \<Rightarrow> x)"
    using assms(1) by (auto simp: os_read_iff)
  have "resolve t True p = Inr q" using q(1,2) kwalk_grows [OF _ _ assms(2)] by (auto simp: resolve_def)
  moreover have "fs_get t q = Some (FFile i)" using q(2) growsD [OF assms(2), of q] by auto
  ultimately show ?thesis using q(3) assms(3) by (auto simp: os_read_iff inode_def)
qed

text \<open>
  C29. A backup of a container with a symbolic link among its files cannot be restored: the header of
  the link is written without its target, and a restore refuses a link without one, wherever and
  into whichever container the archive is restored.
\<close>

theorem backup_with_link_unrestorable:
  assumes "create_container_backup s h dd cid json vols = Inr hs"
    and "os_stat s (elems (writable_dir s h dd cid)) = Inr x" and "resolve s False (elems (writable_dir s h dd cid)) = Inr q"
    and "strict_prefix q p" and "fs_get s p = Some (FLink l)"
    and "wf_tree t" and "os_read t (elems archive) = Inr d" and "re_unpack re d = Some (map TarEntry hs)"
  shows "\<exists>err. fst (restore_container_backup re h' dd' cid' vols' rebind archive t) = Inl err"
proof -
  obtain hs' k where hs: "hs = metadata_header json # hs'" and k: "k \<in> set hs'" "th_type k = TypeSymlink" "th_link k = []"
    using archive_has_link [OF assms(1-5)] by blast
  have fails: "\<exists>e u. extract_members stage (map TarEntry hs) None s1 = (Inl e, u)" for stage s1
    using extract_members_empty_link [of k "map TarEntry hs'"] k unfolding hs by (simp add: metadata_header_def)
  have "\<exists>e. fst (restore_staged re h' dd' cid' vols' rebind stage archive t1) = Inl e"
    if m: "os_mkdir t p m = (r, t1)" for stage p m r t1
  proof -
    have "only_dirs t t1" by (rule os_mkdir_dirs [OF assms(6) m])
    then have "os_read t1 (elems archive) = Inr d" using os_read_grows [OF assms(7)] by (simp add: only_dirs_def)
    then show ?thesis using fails [of stage t1] assms(8) by (auto simp: restore_staged_def extract_backup_to_stage_def)
  qed
  then show ?thesis
    by (auto simp: restore_container_backup_def Let_def split: sum.splits prod.splits) (metis fst_conv)+
qed

section \<open>Unpacking stays in the staging directory\<close>

text \<open>A relative path that \<open>Clean\<close> leaves begins with its parent elements.\<close>

lemma clean_relative_shape:
  assumes "\<forall>w \<in> set ws. w = dotdot \<or> proper w" and "list_all proper ps"
  shows "\<exists>qs j. foldl (clean_step False) (ps @ replicate k dotdot) ws = qs @ replicate j dotdot \<and> list_all proper qs"
  using assms
proof (induction ws arbitrary: ps k)
  case (Cons w ws)
  have "\<exists>ps' k'. clean_step False (ps @ replicate k dotdot) w = ps' @ replicate k' dotdot \<and> list_all proper ps'"
  proof (cases "w = dotdot")
    case True
    show ?thesis
    proof (cases ps)
      case Nil
      then have "clean_step False (ps @ replicate k dotdot) w = [] @ replicate (Suc k) dotdot"
        using True by (cases k) (auto simp: clean_step_def)
      then show ?thesis by (intro exI [of _ "[]"] exI [of _ "Suc k"]) simp
    next
      case (Cons p ps')
      then have "clean_step False (ps @ replicate k dotdot) w = ps' @ replicate k dotdot \<and> list_all proper ps'"
        using True \<open>list_all proper ps\<close> by (auto simp: clean_step_def proper_def)
      then show ?thesis by blast
    qed
  next
    case False
    then have "clean_step False (ps @ replicate k dotdot) w = (w # ps) @ replicate k dotdot \<and> list_all proper (w # ps)"
      using Cons.prems by (simp add: clean_step_def)
    then show ?thesis by blast
  qed
  then show ?case using Cons by auto
qed auto

lemma elems_clean_relative:
  assumes "\<not> is_abs u" and "\<not> escaping (path_clean u)"
  shows "list_all proper (elems (path_clean u))"
proof -
  have "\<forall>w \<in> set (elems u). w = dotdot \<or> proper w" using elems_proper by blast
  then obtain qs j where f: "foldl (clean_step False) [] (elems u) = qs @ replicate j dotdot" and qs: "list_all proper qs"
    using clean_relative_shape [of "elems u" "[]" 0] by auto
  have c: "path_clean u = unparse False (replicate j dotdot @ rev qs)"
    using assms(1) f by (simp add: path_clean_def clean_elems_def)
  have "j = 0"
  proof (rule ccontr)
    assume "j \<noteq> 0"
    then obtain i where "replicate j dotdot = dotdot # replicate i dotdot" by (cases j) auto
    then have "escaping (path_clean u)"
      using join_dotdot_escapes [of "replicate i dotdot @ rev qs"] unfolding c by (simp add: unparse_def escaping_def rel_escapes_def)
    with assms(2) show False ..
  qed
  then have c: "path_clean u = (if qs = [] then ''.'' else str_join [slash] (rev qs))" using c by (simp add: unparse_def)
  have "elems ''.'' = []" by code_simp
  moreover have "concat (map elems (rev qs)) = rev qs" using qs by (induction qs) auto
  ultimately show ?thesis using qs c by (simp add: elems_str_join list_all_rev)
qed

lemma safe_backup_path_below:
  assumes "safe_backup_path (abs_of rs) name = Inr p" and "list_all proper rs"
  shows "\<exists>ws. list_all proper ws \<and> p = abs_of (rs @ ws)"
proof -
  have na: "\<not> is_abs name" and p: "p = path_join [abs_of rs, path_clean name]" and ne: "\<not> escaping (path_clean name)"
    using assms(1) by (auto simp: safe_backup_path_def Let_def split: if_splits)
  show ?thesis unfolding p by (rule join_below [OF assms(2) elems_clean_relative [OF na ne]])
qed

interpretation backup_member: path_guard safe_backup_path
  by unfold_locales (rule safe_backup_path_below)

text \<open>No link on the way from a directory.\<close>

definition clear_below :: "osfs \<Rightarrow> path \<Rightarrow> string list \<Rightarrow> bool" where
  "clear_below s rs ws \<longleftrightarrow> (\<forall>k t. 0 < k \<and> k \<le> length ws \<longrightarrow> fs_get s (rs @ take k ws) \<noteq> Some (FLink t))"

lemma resolve_clear:
  assumes "wf_tree s" and "is_dir s rs" and "list_all proper rs" and "list_all proper ws" and "clear_below s rs ws"
    and "resolve s f (rs @ ws) = Inr q"
  shows "q = rs @ ws"
proof -
  have "kwalk s f max_links rs ws = Inr q" using assms(1,2,3,6) by (simp add: resolve_below)
  then show ?thesis using kwalk_no_links [OF assms(4), of s rs f max_links q] assms(5) by (auto simp: clear_below_def)
qed

lemma only_dirs_clear: "only_dirs s t \<Longrightarrow> clear_below s rs ws \<Longrightarrow> clear_below t rs ws"
proof -
  assume "only_dirs s t" and c: "clear_below s rs ws"
  then have k: "kept (fs_get s p) (fs_get t p)" for p by (simp add: only_dirs_def grows_kept)
  have "fs_get t p \<noteq> Some (FLink l)" if "fs_get s p \<noteq> Some (FLink l)" for p l
    using k [of p] that by (auto simp: kept_def)
  then show ?thesis using c unfolding clear_below_def by blast
qed

lemma reject_backup_links_unlinked:
  assumes "list_all proper cur" and "list_all proper ws" and "reject_backup_links s (abs_of cur) ws = Inr ()"
    and "0 < k" and "k \<le> length ws"
  shows "\<not> linked s (cur @ take k ws)"
  using assms
proof (induction ws arbitrary: cur k)
  case (Cons w ws)
  have j: "path_join [abs_of cur, w] = abs_of (cur @ [w])"
    using Cons.prems by (simp add: path_join_abs_of_proper)
  have p: "list_all proper (cur @ [w])" using Cons.prems by auto
  have e: "elems (abs_of (cur @ [w])) = cur @ [w]" using p by simp
  have first: "\<not> linked s (cur @ [w])" and rest: "reject_backup_links s (abs_of (cur @ [w])) ws = Inr ()"
    using Cons.prems(3) unfolding reject_backup_links.simps Let_def j e
    by (auto simp: linked_def split: sum.splits fnode.splits if_splits)
  show ?case
  proof (cases k)
    case (Suc i)
    then show ?thesis using first Cons.IH [OF p _ rest, of i] Cons.prems(2,4,5) by (cases "i = 0") auto
  qed (use Cons.prems in simp)
qed simp

lemma put_node_ok:
  assumes "rootfs_inv rs s" and "prefix rs q" and "\<And>i. x \<noteq> FFile i"
    and "fs_get s q = None \<and> is_dir s (butlast q) \<or> q \<noteq> [] \<and> is_dir s q \<and> (\<exists>m. x = FDir m)"
  shows "rootfs_inv rs (fs_put q x s)" and "outside_kept rs s (fs_put q x s)"
proof -
  let ?t = "fs_put q x s"
  have wf: "wf_tree s" and dr: "is_dir s rs" and pi: "private_inodes s rs" using assms(1) by (simp_all add: rootfs_inv_def)
  have q: "q \<noteq> []" using assms(4) by auto
  have get: "fs_get ?t p = (if p = q then Some x else fs_get s p)" for p using q by (simp add: fs_get_put)
  have old: "fs_get s q \<noteq> Some (FFile i)" for i using assms(4) by (auto simp: is_dir_def)
  have dirs: "is_dir s p \<Longrightarrow> is_dir ?t p" for p using assms(4) by (auto simp: is_dir_def get)
  have "wf_tree ?t"
  proof (cases "fs_get s q = None")
    case True
    then show ?thesis using assms(4) wf by (intro wf_put) (auto simp: is_dir_def)
  next
    case False
    then have "fs_get s p \<noteq> None" if "fs_get ?t p \<noteq> None" for p using that by (auto simp: get split: if_splits)
    then show ?thesis using wf dirs unfolding wf_tree_def by blast
  qed
  moreover have "private_inodes ?t rs" using pi old assms(3) unfolding private_inodes_def get by (auto split: if_splits)
  ultimately show "rootfs_inv rs ?t" using dirs [OF dr] by (simp add: rootfs_inv_def)
  show "outside_kept rs s ?t" using assms(2) unfolding outside_kept_def get by auto
qed

lemma write_inode_rootfs:
  assumes "rootfs_inv rs s" and "fs_get s q = Some (FFile i)" and "prefix rs q"
  shows "rootfs_inv rs (write_inode i d s)" and "outside_kept rs s (write_inode i d s)"
  using put_inode_kept [OF assms] assms(1) by (auto simp: write_inode_def split: option.split)

lemma set_mode_ok:
  assumes "rootfs_inv rs s" and "prefix rs q"
  shows "rootfs_inv rs (set_mode s q m) \<and> outside_kept rs s (set_mode s q m)"
proof (cases "fs_get s q")
  case (Some x)
  show ?thesis
  proof (cases x)
    case (FDir k)
    then show ?thesis using put_node_ok [OF assms, of "FDir m"] assms(1) Some by (auto simp: set_mode_def is_dir_def)
  next
    case (FFile i)
    then show ?thesis using put_inode_kept [OF assms(1) _ assms(2)] assms(1) Some by (auto simp: set_mode_def split: option.split)
  qed (use assms(1) Some in \<open>simp add: set_mode_def\<close>)
qed (use assms(1) in \<open>simp add: set_mode_def\<close>)

lemma create_excl_ok:
  assumes "rootfs_inv rs s" and "list_all proper rs" and "list_all proper ws" and "clear_below s rs ws"
    and "os_create_excl s (rs @ ws) m = (r, t)"
  shows "rootfs_inv rs t \<and> outside_kept rs s t \<and> clear_below t rs ws \<and> (\<forall>i. r = Inr i \<longrightarrow> fs_get t (rs @ ws) = Some (FFile i))"
proof (cases "\<exists>q. resolve s False (rs @ ws) = Inr q \<and> fs_get s q = None")
  case True
  have d: "wf_tree s" "is_dir s rs" using assms(1) by (simp_all add: rootfs_inv_def)
  from True have q: "resolve s False (rs @ ws) = Inr (rs @ ws)" "fs_get s (rs @ ws) = None"
    using resolve_clear [OF d assms(2-4)] by auto
  have "is_dir s (butlast (rs @ ws))" using q(1) d(1) kwalk_parent [of s "[]"] by (auto simp: resolve_def)
  note new = new_file_ok [OF assms(1) q(2) this _ refl]
  have t: "r = Inr (os_next s)" "t = (put_inode (os_next s) (syscall_mode m AND NOT (os_umask s), [])
      (fs_put (rs @ ws) (FFile (os_next s)) s))\<lparr>os_next := Suc (os_next s)\<rparr>"
    using assms(5) q by (simp_all add: os_create_excl_def Let_def)
  have "rs @ ws \<noteq> []" using q(2) by auto
  then have "clear_below t rs ws" using assms(4) unfolding t(2) clear_below_def by (simp add: fs_get_put)
  then show ?thesis using new [of "(syscall_mode m AND NOT (os_umask s), [])"] t by simp
next
  case False
  then show ?thesis using assms(1,4,5) by (auto simp: os_create_excl_def split: sum.splits option.splits)
qed

lemma stage_chmod_ok:
  assumes "rootfs_inv rs s" and "list_all proper rs" and "list_all proper ws" and "clear_below s rs ws"
    and "os_chmod s (rs @ ws) m = (r, t)"
  shows "rootfs_inv rs t \<and> outside_kept rs s t"
proof -
  have d: "wf_tree s" "is_dir s rs" using assms(1) by (simp_all add: rootfs_inv_def)
  have "t = s \<or> t = set_mode s (rs @ ws) (syscall_mode m)"
    using assms(5) resolve_clear [OF d assms(2-4), of True]
    by (cases "resolve s True (rs @ ws)"; cases "node_at s (rs @ ws)") (auto simp: os_chmod_def)
  then show ?thesis using set_mode_ok [OF assms(1), of "rs @ ws"] assms(1) by auto
qed

lemma stage_symlink_ok:
  assumes "rootfs_inv rs s" and "list_all proper rs" and "list_all proper ws" and "clear_below s rs ws"
    and "os_symlink s l (rs @ ws) = (r, t)"
  shows "rootfs_inv rs t \<and> outside_kept rs s t"
proof (cases "resolve s False (rs @ ws)")
  case (Inr q)
  have d: "wf_tree s" "is_dir s rs" using assms(1) by (simp_all add: rootfs_inv_def)
  have q: "q = rs @ ws" by (rule resolve_clear [OF d assms(2-4) Inr])
  have "is_dir s (butlast q)" using Inr d(1) kwalk_parent [of s "[]"] by (auto simp: resolve_def)
  then show ?thesis
    using assms(1,5) Inr put_node_ok [OF assms(1), of q "FLink l"] q by (auto simp: os_symlink_def split: option.splits)
qed (use assms(1,5) in \<open>simp add: os_symlink_def\<close>)

text \<open>The directories above a member, then the member.\<close>

lemma mkdir_then_ok:
  assumes "rootfs_inv rs s" and "clear_below s rs ws" and "on_os (os_mkdir_all s p m) k = (r, t)"
    and "\<And>u s1. rootfs_inv rs s1 \<Longrightarrow> clear_below s1 rs ws \<Longrightarrow> k u s1 = (r, t) \<Longrightarrow> rootfs_inv rs t \<and> outside_kept rs s1 t"
  shows "rootfs_inv rs t \<and> outside_kept rs s t"
proof -
  obtain r1 s1 where m: "os_mkdir_all s p m = (r1, s1)" by (metis surj_pair)
  have o: "only_dirs s s1" using os_mkdir_all_dirs [OF _ m] assms(1) by (simp add: rootfs_inv_def)
  note 1 = only_dirs_inv [OF o assms(1)] only_dirs_clear [OF o assms(2)]
  show ?thesis using assms(3) 1 assms(4) [OF 1(1,3)] m outside_kept_trans by (cases r1) (auto simp: on_os_def)
qed

lemma on_os_last: "on_os z (\<lambda>_ s. (Inr (), s)) = (r, t) \<Longrightarrow> z = (fst z, t)"
  by (cases z; cases "fst z") (auto simp: on_os_def)

lemma stage_dir_ok:
  assumes "rootfs_inv rs s" and "list_all proper rs" and "list_all proper ws" and "clear_below s rs ws"
    and "stage_dir (abs_of (rs @ ws)) h s = (r, t)"
  shows "rootfs_inv rs t \<and> outside_kept rs s t"
  using assms(5) unfolding stage_dir_def
proof (rule mkdir_then_ok [OF assms(1,4)])
  fix s1
  assume 1: "rootfs_inv rs s1" "clear_below s1 rs ws"
    and k: "on_os (os_chmod s1 (elems (abs_of (rs @ ws))) (th_mode h)) (\<lambda>_ s2. (Inr (), s2)) = (r, t)"
  show "rootfs_inv rs t \<and> outside_kept rs s1 t"
    using stage_chmod_ok [OF 1(1) assms(2,3) 1(2)] on_os_last [OF k] assms(2,3) by auto
qed

lemma stage_link_ok:
  assumes "rootfs_inv rs s" and "list_all proper rs" and "list_all proper ws" and "clear_below s rs ws"
    and "stage_link (abs_of (rs @ ws)) h s = (r, t)"
  shows "rootfs_inv rs t \<and> outside_kept rs s t"
proof (cases "validate_backup_link (th_name h) (th_link h) (has_prefix (th_name h) ''binds/'')")
  case (Inr u)
  have "on_os (os_mkdir_all s (elems (path_dir (abs_of (rs @ ws)))) 448)
     (\<lambda>_ s1. on_os (os_symlink s1 (th_link h) (elems (abs_of (rs @ ws)))) (\<lambda>_ s2. (Inr (), s2))) = (r, t)"
    using assms(5) Inr by (simp add: stage_link_def)
  then show ?thesis
  proof (rule mkdir_then_ok [OF assms(1,4)])
    fix s1
    assume 1: "rootfs_inv rs s1" "clear_below s1 rs ws"
      and k: "on_os (os_symlink s1 (th_link h) (elems (abs_of (rs @ ws)))) (\<lambda>_ s2. (Inr (), s2)) = (r, t)"
    show "rootfs_inv rs t \<and> outside_kept rs s1 t"
      using stage_symlink_ok [OF 1(1) assms(2,3) 1(2)] on_os_last [OF k] assms(2,3) by auto
  qed
qed (use assms(1,5) in \<open>simp add: stage_link_def\<close>)

lemma stage_file_ok:
  assumes "rootfs_inv rs s" and "list_all proper rs" and "list_all proper ws" and "clear_below s rs ws"
    and "stage_file (abs_of (rs @ ws)) h s = (r, t)"
  shows "rootfs_inv rs t \<and> outside_kept rs s t"
  using assms(5) unfolding stage_file_def
proof (rule mkdir_then_ok [OF assms(1,4)])
  fix u s1
  assume 1: "rootfs_inv rs s1" "clear_below s1 rs ws"
    and k: "on_os (os_create_excl s1 (elems (abs_of (rs @ ws))) 384) (\<lambda>i s2.
       let s3 = write_inode i (th_data h) s2 in
       if \<not> th_data_ok h then (Inl BkCopy, s3)
       else on_os (os_chmod s3 (elems (abs_of (rs @ ws))) (th_mode h)) (\<lambda>_ s4. (Inr (), s4))) = (r, t)"
  obtain r2 s2 where c: "os_create_excl s1 (rs @ ws) 384 = (r2, s2)" by (metis surj_pair)
  note 2 = create_excl_ok [OF 1(1) assms(2,3) 1(2) c]
  show "rootfs_inv rs t \<and> outside_kept rs s1 t"
  proof (cases r2)
    case (Inr i)
    let ?s3 = "write_inode i (th_data h) s2"
    have w: "rootfs_inv rs ?s3" "outside_kept rs s2 ?s3" using write_inode_rootfs [of rs s2 "rs @ ws" i] 2 Inr by auto
    have g: "fs_get ?s3 p = fs_get s2 p" for p by (simp add: write_inode_def split: option.split)
    have c3: "clear_below ?s3 rs ws" using 2 by (simp add: clear_below_def g)
    consider "t = ?s3" | r4 where "os_chmod ?s3 (rs @ ws) (th_mode h) = (r4, t)"
      using k c Inr assms(2,3) by (auto simp: on_os_def Let_def split: if_splits prod.splits sum.splits)
    then have "outside_kept rs ?s3 t \<and> rootfs_inv rs t"
      using w stage_chmod_ok [OF w(1) assms(2,3) c3] by cases auto
    then show ?thesis using 2 w(2) outside_kept_trans by blast
  qed (use k c 2 assms(2,3) in \<open>simp add: on_os_def\<close>)
qed

lemma stage_entry_ok:
  assumes "rootfs_inv rs s" and "list_all proper rs" and "stage_entry (abs_of rs) h s = (r, t)"
  shows "rootfs_inv rs t \<and> outside_kept rs s t"
proof (cases "t = s")
  case False
  obtain p where p: "safe_backup_path (abs_of rs) (th_name h) = Inr p"
    using assms(3) False by (cases "safe_backup_path (abs_of rs) (th_name h)") (auto simp: stage_entry_def Let_def split: if_splits)
  obtain ws where ws: "list_all proper ws" "p = abs_of (rs @ ws)" using backup_member.guard_below [OF assms(2) p] by blast
  have e: "elems p = rs @ ws" using ws assms(2) by simp
  have a: "reject_backup_symlink_ancestors s (abs_of rs) (path_dir p) = Inr ()" and l: "os_lstat s (rs @ ws) = Inl ENOENT"
    and o: "(r, t) = (case th_type h of TypeDir \<Rightarrow> stage_dir p h s | TypeSymlink \<Rightarrow> stage_link p h s
       | TypeOther \<Rightarrow> (Inr (), s) | _ \<Rightarrow> stage_file p h s)"
    using assms(3) False p e by (auto simp: stage_entry_def Let_def split: if_splits sum.splits)
  have d: "wf_tree s" "is_dir s rs" using assms(1) by (simp_all add: rootfs_inv_def)
  have un: "\<not> linked s (rs @ take k ws)" if k: "0 < k" "k \<le> length ws" for k
  proof (cases "k = length ws")
    case False
    then obtain vs w where v: "ws = vs @ [w]" "vs \<noteq> []" "k \<le> length vs" using k by (cases ws rule: rev_cases) force+
    have pr: "list_all proper vs" "proper w" "list_all proper (rs @ vs)" using ws(1) v(1) assms(2) by auto
    have "path_dir p = abs_of (rs @ vs)" using path_dir_abs_of [OF pr(3,2)] ws(2) v(1) by simp
    then have "reject_backup_below s (abs_of rs) (abs_of (rs @ vs)) = Inr ()"
      using a by (auto simp: reject_backup_symlink_ancestors_def split: sum.splits fnode.splits if_splits)
    moreover have "split_byte slash (str_join [slash] vs) = vs"
      using pr(1) v(2) by (intro split_join) (auto simp: list_all_iff proper_def)
    ultimately have "reject_backup_links s (abs_of rs) vs = Inr ()"
      using path_rel_below [OF assms(2) pr(1) v(2)] by (simp add: reject_backup_below_def split: if_splits)
    then show ?thesis using reject_backup_links_unlinked [OF assms(2) pr(1)] k(1) v(1,3) by simp
  qed (use l in \<open>simp add: linked_def\<close>)
  have "clear_below s rs ws"
    unfolding clear_below_def using unlinked_no_link [OF d assms(2) ws(1) un] by blast
  note ok = stage_dir_ok [OF assms(1,2) ws(1) this] stage_link_ok [OF assms(1,2) ws(1) this] stage_file_ok [OF assms(1,2) ws(1) this]
  show ?thesis
    by (cases "th_type h") (use o [unfolded ws(2), symmetric] ok assms(1) in \<open>simp_all\<close>)
qed (use assms(1) in simp)

lemma extract_members_ok:
  assumes "rootfs_inv rs s" and "list_all proper rs" and "extract_members (abs_of rs) items metadata s = (r, t)"
  shows "rootfs_inv rs t \<and> outside_kept rs s t"
  using assms
proof (induction items arbitrary: metadata s)
  case (Cons x items)
  show ?case
  proof (cases x)
    case (TarEntry h)
    show ?thesis
    proof (cases "th_name h = ''container.json''")
      case True
      then show ?thesis using Cons TarEntry by (auto split: if_splits)
    next
      case False
      obtain r1 s1 where e: "stage_entry (abs_of rs) h s = (r1, s1)" by (metis surj_pair)
      note 1 = stage_entry_ok [OF Cons.prems(1,2) e]
      show ?thesis
      proof (cases r1)
        case (Inr u)
        then have "rootfs_inv rs t \<and> outside_kept rs s1 t" using Cons.IH [of s1] Cons.prems 1 e False TarEntry by simp
        then show ?thesis using 1 outside_kept_trans by blast
      qed (use Cons.prems e 1 False TarEntry in simp)
    qed
  qed (use Cons.prems in simp)
qed (auto split: option.splits)


end
