(* ===== verification/Backup.thy ===== *)
theory Backup
  imports BackupArchive Supervisor
begin

text \<open>
  The backup commands and the supervisor's automatic backups (\<open>cmd/backup.go\<close>, \<open>cmd/supervisor.go\<close>).
  They work on the containers' state and on the file system, which are separate: the state is saved
  through \<open>save\<close>, the archives are ordinary files.
\<close>

section \<open>Directories\<close>

definition backup_dir :: "string \<Rightarrow> string" where
  "backup_dir dd = path_join [dd, ''backups'']"

definition container_backup_dir :: "string \<Rightarrow> container \<Rightarrow> string" where
  "container_backup_dir dd c =
     (if ct_backup_dir c \<noteq> [] then ct_backup_dir c else path_join [backup_dir dd, ct_name c])"

definition protected_dirs :: "string list" where
  "protected_dirs =
     [''/'', ''/bin'', ''/boot'', ''/dev'', ''/etc'', ''/home'', ''/lib'', ''/lib64'',
      ''/media'', ''/mnt'', ''/opt'', ''/proc'', ''/root'', ''/run'', ''/sbin'', ''/srv'', ''/sys'', ''/usr'', ''/var'']"

definition within_dir :: "string \<Rightarrow> string \<Rightarrow> bool" where
  "within_dir p root \<longleftrightarrow> p = root \<or> has_prefix p (root @ [slash])"

text \<open>The components of a path, none of which may be a link; the first one that is missing ends the check.\<close>

fun backup_components :: "osfs \<Rightarrow> string \<Rightarrow> string list \<Rightarrow> backup_err + unit" where
  "backup_components s current [] = Inr ()"
| "backup_components s current (part # parts) =
     (if part = [] then backup_components s current parts
      else let cur = path_join [current, part] in
        case os_lstat s (elems cur) of
          Inl e \<Rightarrow> if e = ENOENT then Inr () else Inl (BkOs e)
        | Inr (FLink _) \<Rightarrow> Inl (BkLinkComponent cur)
        | Inr _ \<Rightarrow> backup_components s cur parts)"

definition validate_backup_directory :: "osfs \<Rightarrow> string \<Rightarrow> string \<Rightarrow> backup_err + string" where
  "validate_backup_directory s dd p =
     (if p = [] then Inl BkEmptyDir
      else case path_abs (os_cwd s) p of
        None \<Rightarrow> Inl BkNoCwd
      | Some a \<Rightarrow>
          (let absolute = path_clean a in
           if \<not> within_dir absolute (path_clean dd) \<and> list_ex (within_dir absolute) protected_dirs then Inl BkProtected
           else rbind (backup_components s [slash] (split_byte slash (trim_prefix absolute [slash]))) (\<lambda>_.
             Inr absolute)))"

text \<open>An archive named on the command line.\<close>

definition validate_backup_archive_path :: "osfs \<Rightarrow> string \<Rightarrow> string \<Rightarrow> backup_err + string" where
  "validate_backup_archive_path s dd p =
     (if trim_space p = [] then Inl BkEmptyDir
      else case path_abs (os_cwd s) p of
        None \<Rightarrow> Inl BkNoCwd
      | Some a \<Rightarrow>
          (let absolute = path_clean a; base = path_base absolute in
           if base = ''.lock'' \<or> \<not> has_suffix base ''.tar.gz'' \<and> \<not> has_suffix base ''.tar.gz.enc'' then Inl BkNotArchive
           else rbind (validate_backup_directory s dd (path_dir absolute)) (\<lambda>_.
             case os_lstat s (elems absolute) of
               Inl e \<Rightarrow> Inl (BkOs e)
             | Inr (FFile _) \<Rightarrow> Inr absolute
             | Inr _ \<Rightarrow> Inl BkNotRegular)))"

section \<open>Retention\<close>

text \<open>\<open>os.ReadDir\<close>, in the order of the names.\<close>

definition os_read_dir :: "osfs \<Rightarrow> path \<Rightarrow> os_err + (string \<times> fnode) list" where
  "os_read_dir s p =
     rbind (resolve s True p) (\<lambda>q.
     rbind (node_at s q) (\<lambda>x.
       case x of
         FDir _ \<Rightarrow>
           Inr (concat (map (\<lambda>x. case fs_get s (q @ [x]) of None \<Rightarrow> [] | Some n \<Rightarrow> [(x, n)])
                  (sort (remdups (map (\<lambda>(y, _). last y) (filter (\<lambda>(y, _). y \<noteq> [] \<and> butlast y = q) (os_tree s)))))))
       | _ \<Rightarrow> Inl ENOTDIR))"

definition automatic_backup_retention :: "container \<Rightarrow> int" where
  "automatic_backup_retention c = (if ct_backup_retention c < 1 then 7 else ct_backup_retention c)"

definition is_backup_of :: "container \<Rightarrow> string \<times> fnode \<Rightarrow> bool" where
  "is_backup_of c x \<longleftrightarrow>
     (case snd x of FDir _ \<Rightarrow> False | _ \<Rightarrow> True)
     \<and> has_prefix (fst x) (ct_name c @ ''-'') \<and> has_suffix (fst x) ''.tar.gz''"

text \<open>\<open>os.Remove\<close> of a file that may be missing.\<close>

definition remove_if_there :: "string \<Rightarrow> osfs \<Rightarrow> (backup_err + unit) \<times> osfs" where
  "remove_if_there p s =
     (case os_remove s (elems p) of
        (Inl e, s1) \<Rightarrow> (if e = ENOENT then Inr () else Inl (BkOs e), s1)
      | (Inr _, s1) \<Rightarrow> (Inr (), s1))"

fun prune_loop :: "string \<Rightarrow> string list \<Rightarrow> osfs \<Rightarrow> (backup_err + unit) \<times> osfs" where
  "prune_loop dir [] s = (Inr (), s)"
| "prune_loop dir (name # names) s =
     (case remove_if_there (path_join [dir, name]) s of
        (Inl e, s1) \<Rightarrow> (Inl e, s1)
      | (Inr _, s1) \<Rightarrow>
          (case remove_if_there (backup_checksum_path (path_join [dir, name])) s1 of
             (Inl e, s2) \<Rightarrow> (Inl e, s2)
           | (Inr _, s2) \<Rightarrow> prune_loop dir names s2))"

text \<open>
  The archives that are too old, the newest ones first. \<open>mtime\<close> is the time of a file; for equal times
  the order is that of the names, where \<open>sort.Slice\<close> leaves it open.
\<close>

definition pruned_names :: "(osfs \<Rightarrow> string \<Rightarrow> instant) \<Rightarrow> string \<Rightarrow> container \<Rightarrow> (string \<times> fnode) list \<Rightarrow> osfs \<Rightarrow> string list" where
  "pruned_names mtime dir c entries s =
     drop (nat (automatic_backup_retention c))
       (sort_key (\<lambda>n. - mtime s (path_join [dir, n])) (map fst (filter (is_backup_of c) entries)))"

definition prune_automatic_backups ::
  "(osfs \<Rightarrow> string \<Rightarrow> instant) \<Rightarrow> string \<Rightarrow> container \<Rightarrow> osfs \<Rightarrow> (backup_err + unit) \<times> osfs" where
  "prune_automatic_backups mtime dd c s =
     (let dir = container_backup_dir dd c in
      case os_read_dir s (elems dir) of
        Inl e \<Rightarrow> (if e = ENOENT then Inr () else Inl (BkOs e), s)
      | Inr entries \<Rightarrow> prune_loop dir (pruned_names mtime dir c entries s) s)"

section \<open>Writing a backup\<close>

text \<open>
  What a backup relies on: SHA-256, the writers of the gzip and tar formats, the JSON text of a
  container, its volumes, how a time is written in a file name, file times, random names, and
  whether another process holds the lock.
\<close>

record backup_env =
  be_data_dir :: string
  be_hash :: "string \<Rightarrow> string"
  be_sha :: "string \<Rightarrow> string"
  be_pack :: "tar_hdr list \<Rightarrow> string"
  be_json :: "container \<Rightarrow> string"
  be_volumes :: "container \<Rightarrow> volume_mount list"
  be_stamp :: "instant \<Rightarrow> string"
  be_mtime :: "osfs \<Rightarrow> string \<Rightarrow> instant"
  be_random :: "osfs \<Rightarrow> string \<Rightarrow> string"
  be_locked :: bool

definition automatic_backup_path :: "backup_env \<Rightarrow> container \<Rightarrow> instant \<Rightarrow> string" where
  "automatic_backup_path be c at =
     path_join [container_backup_dir (be_data_dir be) c, ct_name c @ ''-'' @ be_stamp be at @ ''.tar.gz'']"

text \<open>The file is only created when there is none.\<close>

definition write_archive :: "backup_env \<Rightarrow> container \<Rightarrow> string \<Rightarrow> osfs \<Rightarrow> (backup_err + unit) \<times> osfs" where
  "write_archive be c output s =
     on_os (os_create_excl s (elems output) 384) (\<lambda>i s1.
       case create_container_backup s1 (be_hash be) (be_data_dir be) (ct_id c) (be_json be c) (be_volumes be c) of
         Inl e \<Rightarrow> (Inl e, s1)
       | Inr hs \<Rightarrow> (Inr (), write_inode i (be_pack be hs) s1))"

text \<open>The archive and its checksum; what there is at the name afterwards is removed when one of them fails.\<close>

definition archive_with_checksum :: "backup_env \<Rightarrow> container \<Rightarrow> string \<Rightarrow> osfs \<Rightarrow> (backup_err + unit) \<times> osfs" where
  "archive_with_checksum be c output s =
     (case write_archive be c output s of
        (Inl e, s1) \<Rightarrow> (Inl e, snd (os_remove s1 (elems output)))
      | (Inr _, s1) \<Rightarrow>
          (case write_backup_checksum (be_sha be) (be_random be) output s1 of
             (Inl e, s2) \<Rightarrow> (Inl e, snd (os_remove s2 (elems output)))
           | (Inr _, s2) \<Rightarrow> (Inr (), s2)))"

text \<open>\<open>OpenFile\<close> with \<open>O_CREATE|O_RDWR\<close>.\<close>

definition os_open_create :: "osfs \<Rightarrow> path \<Rightarrow> mode \<Rightarrow> (os_err + unit) \<times> osfs" where
  "os_open_create s p m =
     (case rbind (resolve s True p) (node_at s) of
        Inr (FFile i) \<Rightarrow> (Inr (), s)
      | Inr _ \<Rightarrow> (Inl EISDIR, s)
      | Inl e \<Rightarrow> (case os_create s p m of (Inl e', s1) \<Rightarrow> (Inl e', s1) | (Inr i, s1) \<Rightarrow> (Inr (), s1)))"

text \<open>Whether the lock was taken.\<close>

definition acquire_backup_lock :: "backup_env \<Rightarrow> container \<Rightarrow> osfs \<Rightarrow> (backup_err + bool) \<times> osfs" where
  "acquire_backup_lock be c s =
     (case validate_backup_directory s (be_data_dir be) (container_backup_dir (be_data_dir be) c) of
        Inl e \<Rightarrow> (Inl e, s)
      | Inr p \<Rightarrow>
          on_os (os_mkdir_all s (elems p) 448) (\<lambda>_ s1.
          on_os (os_open_create s1 (elems (path_join [p, ''.lock''])) 384) (\<lambda>_ s2. (Inr (\<not> be_locked be), s2))))"

section \<open>Automatic backups\<close>

text \<open>
  What the run of a backup meets: the time, the parent \<open>ps\<close> reports for a process, what the kernel
  answers to the start, and what other processes do to the state while the archive is written.
\<close>

record 's backup_run =
  br_now :: instant
  br_find_unshare :: "int \<Rightarrow> int"
  br_start :: "'s start_env"
  br_others :: "'s world \<Rightarrow> 's world"

definition restart_after_backup :: "'s env \<Rightarrow> 's backup_run \<Rightarrow> container \<Rightarrow> 's world \<Rightarrow> 's world" where
  "restart_after_backup e br c w =
     (let c1 = c\<lparr>ct_stopped_by_user := False, ct_status := Created\<rparr> in
      snd (snd (start_internal e (br_start br) c1 (snd (save e c1 w)))))"

text \<open>The part between the stop and the restart.\<close>

definition backup_stopped ::
  "backup_env \<Rightarrow> 's env \<Rightarrow> 's backup_run \<Rightarrow> container \<Rightarrow> 's world \<times> osfs \<Rightarrow> (backup_err + unit) \<times> container \<times> 's world \<times> osfs" where
  "backup_stopped be e br c ws =
     (case ws of (w0, s) \<Rightarrow>
        let w = br_others br w0 in
        case archive_with_checksum be c (automatic_backup_path be c (br_now br)) s of
          (Inl err, s1) \<Rightarrow> (Inl err, c, w, s1)
        | (Inr _, s1) \<Rightarrow>
            (case prune_automatic_backups (be_mtime be) (be_data_dir be) c s1 of
               (Inl err, s2) \<Rightarrow> (Inl err, c, w, s2)
             | (Inr _, s2) \<Rightarrow>
                 let c1 = c\<lparr>ct_next_backup := 0, ct_last_backup := br_now br\<rparr> in
                 case save e c1 w of (ok, w1) \<Rightarrow> (if ok then Inr () else Inl BkSave, c1, w1, s2)))"

definition backup_locked ::
  "backup_env \<Rightarrow> 's env \<Rightarrow> 's backup_run \<Rightarrow> container \<Rightarrow> 's world \<times> osfs \<Rightarrow> (backup_err + unit) \<times> 's world \<times> osfs" where
  "backup_locked be e br c ws =
     (case ws of (w, s) \<Rightarrow>
        case validate_backup_directory s (be_data_dir be) (container_backup_dir (be_data_dir be) c) of
          Inl err \<Rightarrow> (Inl err, w, s)
        | Inr p \<Rightarrow>
            let c1 = c\<lparr>ct_backup_dir := p\<rparr> in
            (case os_mkdir_all s (elems p) 448 of
               (Inl err, s1) \<Rightarrow> (Inl (BkOs err), w, s1)
             | (Inr _, s1) \<Rightarrow>
                 (case stop_container e (br_find_unshare br) c1 w of
                    (Inl err, c2, w1) \<Rightarrow>
                      (Inl (BkStop err), if ct_status c2 = Running then w1 else restart_after_backup e br c2 w1, s1)
                  | (Inr _, c2, w1) \<Rightarrow>
                      (case backup_stopped be e br c2 (w1, s1) of
                         (r, c3, w2, s2) \<Rightarrow> (r, restart_after_backup e br c3 w2, s2)))))"

definition perform_automatic_backup ::
  "backup_env \<Rightarrow> 's env \<Rightarrow> 's backup_run \<Rightarrow> container \<Rightarrow> 's world \<times> osfs \<Rightarrow> (backup_err + unit) \<times> 's world \<times> osfs" where
  "perform_automatic_backup be e br c ws =
     (case ws of (w, s) \<Rightarrow>
        if \<not> ct_auto_backup c \<or> ct_stopped_by_user c \<or> ct_status c \<noteq> Running then (Inr (), w, s)
        else case load e (ct_id c) w of
          (None, w1) \<Rightarrow> (Inl BkReload, w1, s)
        | (Some latest, w1) \<Rightarrow>
            if ct_status latest \<noteq> Running \<or> ct_stopped_by_user latest \<or> \<not> ct_auto_backup latest then (Inr (), w1, s)
            else
              (case acquire_backup_lock be latest s of
                 (Inl err, s1) \<Rightarrow> (Inl err, w1, s1)
               | (Inr False, s1) \<Rightarrow> (Inr (), w1, s1)
               | (Inr True, s1) \<Rightarrow> backup_locked be e br latest (w1, s1)))"

text \<open>The supervisor's worker for a container of its list.\<close>

definition backup_worker ::
  "backup_env \<Rightarrow> 's env \<Rightarrow> 's backup_run \<Rightarrow> duration \<Rightarrow> container \<Rightarrow> 's world \<times> osfs \<Rightarrow> 's world \<times> osfs" where
  "backup_worker be e br interval c ws =
     (case perform_automatic_backup be e br c ws of
        (Inr _, w1, s1) \<Rightarrow> (w1, s1)
      | (Inl err, w1, s1) \<Rightarrow>
          (snd (save e (c\<lparr>ct_next_backup := br_now br + min_backup_retry_delay interval\<rparr>) w1), s1))"

section \<open>The commands\<close>

definition backup_enable ::
  "backup_env \<Rightarrow> 's env \<Rightarrow> instant \<Rightarrow> string \<Rightarrow> duration \<times> string \<Rightarrow> int \<Rightarrow> string \<Rightarrow> 's world \<times> osfs
    \<Rightarrow> (backup_err + unit) \<times> 's world \<times> osfs" where
  "backup_enable be e now name interval retention dir ws =
     (case ws of (w, s) \<Rightarrow>
        if fst interval \<le> 0 then (Inl BkInterval, w, s)
        else if retention < 1 \<or> 1000 < retention then (Inl BkRetention, w, s)
        else case load e name w of
          (None, w1) \<Rightarrow> (Inl BkNoContainer, w1, s)
        | (Some c, w1) \<Rightarrow>
            (case validate_backup_directory s (be_data_dir be)
                    (if dir = [] then container_backup_dir (be_data_dir be) c else dir) of
               Inl err \<Rightarrow> (Inl err, w1, s)
             | Inr p \<Rightarrow>
                 (case os_mkdir_all s (elems p) 448 of
                    (Inl err, s1) \<Rightarrow> (Inl (BkOs err), w1, s1)
                  | (Inr _, s1) \<Rightarrow>
                      (case save e (c\<lparr>ct_auto_backup := True, ct_backup_interval := snd interval,
                               ct_backup_retention := retention, ct_backup_dir := p, ct_last_backup := now,
                               ct_next_backup := 0\<rparr>) w1 of
                         (ok, w2) \<Rightarrow> (if ok then Inr () else Inl BkSave, w2, s1)))))"

definition backup_disable :: "'s env \<Rightarrow> string \<Rightarrow> 's world \<Rightarrow> (backup_err + unit) \<times> 's world" where
  "backup_disable e name w =
     (case load e name w of
        (None, w1) \<Rightarrow> (Inl BkNoContainer, w1)
      | (Some c, w1) \<Rightarrow>
          (case save e (c\<lparr>ct_auto_backup := False\<rparr>) w1 of (ok, w2) \<Rightarrow> (if ok then Inr () else Inl BkSave, w2)))"

text \<open>The default name of a backup, and the archive on the command line; \<open>encrypt\<close> is done after it.\<close>

definition default_output :: "backup_env \<Rightarrow> instant \<Rightarrow> bool \<Rightarrow> container \<Rightarrow> string" where
  "default_output be now encrypt c =
     path_join [backup_dir (be_data_dir be),
       ct_name c @ ''-'' @ be_stamp be now @ (if encrypt then ''.tar.gz.enc'' else ''.tar.gz'')]"

definition backup_to :: "backup_env \<Rightarrow> container \<Rightarrow> string \<Rightarrow> osfs \<Rightarrow> (backup_err + string) \<times> osfs" where
  "backup_to be c output0 s =
     (case validate_backup_directory s (be_data_dir be) (path_dir output0) of
        Inl err \<Rightarrow> (Inl err, s)
      | Inr parent \<Rightarrow>
          (let output = path_join [parent, path_base output0] in
           case os_mkdir_all s (elems parent) 448 of
             (Inl err, s1) \<Rightarrow> (Inl (BkOs err), s1)
           | (Inr _, s1) \<Rightarrow>
               (case archive_with_checksum be c output s1 of
                  (Inl err, s2) \<Rightarrow> (Inl err, s2)
                | (Inr _, s2) \<Rightarrow> (Inr output, s2))))"

definition backup_remove :: "backup_env \<Rightarrow> string \<Rightarrow> osfs \<Rightarrow> (backup_err + unit) \<times> osfs" where
  "backup_remove be p s =
     (case validate_backup_archive_path s (be_data_dir be) p of
        Inl err \<Rightarrow> (Inl err, s)
      | Inr archive \<Rightarrow>
          on_os (os_remove s (elems archive)) (\<lambda>_ s1. remove_if_there (backup_checksum_path archive) s1))"

definition backup_restore ::
  "restore_env \<Rightarrow> 's env \<Rightarrow> string \<Rightarrow> (container \<Rightarrow> volume_mount list) \<Rightarrow> string \<Rightarrow> string \<Rightarrow> bool \<Rightarrow> 's world \<times> osfs
    \<Rightarrow> (backup_err + unit) \<times> 's world \<times> osfs" where
  "backup_restore re e dd vols name archive rebind ws =
     (case ws of (w, s) \<Rightarrow>
        case load e name w of
          (None, w1) \<Rightarrow> (Inl BkNoContainer, w1, s)
        | (Some c, w1) \<Rightarrow>
            if ct_status c = Running then (Inl BkRunning, w1, s)
            else (case restore_container_backup re (e_hash e) dd (ct_id c) (vols c) rebind archive s of
              (r, s1) \<Rightarrow> (r, w1, s1)))"

end
