(* ===== verification/Encryption.thy ===== *)
theory Encryption
  imports Backup
begin

text \<open>
  Encrypted backups (\<open>internal/container/backup_encryption.go\<close>) and the command that makes one
  (\<open>cmd/backup.go\<close>). AES-256-GCM is a pair of functions: \<open>seal\<close> takes a key, a nonce and a text, and
  \<open>unseal\<close> gives the text back when the ciphertext is authentic.
\<close>

section \<open>Keys\<close>

fun hex_decode :: "string \<Rightarrow> string option" where
  "hex_decode [] = Some []"
| "hex_decode [c] = None"
| "hex_decode (a # b # cs) =
     (case (hex_val a, hex_val b) of
        (Some x, Some y) \<Rightarrow> map_option ((#) (char_of (16 * x + y))) (hex_decode cs)
      | _ \<Rightarrow> None)"

text \<open>\<open>sha\<close> is SHA-256 of the bytes.\<close>

definition new_backup_encryptor :: "(string \<Rightarrow> string) \<Rightarrow> string \<Rightarrow> string" where
  "new_backup_encryptor sha key = (if length key \<noteq> 32 then sha key else key)"

definition key_file_path :: "osfs \<Rightarrow> string" where
  "key_file_path s = path_join [case os_cwd s of None \<Rightarrow> [slash] | Some d \<Rightarrow> d, ''.backup-key'']"

text \<open>\<open>env\<close> is the value of \<open>DCK_BACKUP_KEY\<close>.\<close>

definition key_text :: "string \<Rightarrow> osfs \<Rightarrow> string" where
  "key_text env s =
     (if env \<noteq> [] then env
      else case os_read s (elems (key_file_path s)) of Inl e \<Rightarrow> [] | Inr d \<Rightarrow> trim_space d)"

definition backup_encryptor_from_env :: "(string \<Rightarrow> string) \<Rightarrow> string \<Rightarrow> osfs \<Rightarrow> backup_err + string" where
  "backup_encryptor_from_env sha env s =
     (let k = key_text env s in
      if k = [] then Inl BkNoKey
      else Inr (new_backup_encryptor sha (case hex_decode k of Some b \<Rightarrow> b | None \<Rightarrow> k)))"

section \<open>Encrypting and decrypting\<close>

record gcm =
  gcm_seal :: "string \<Rightarrow> string \<Rightarrow> string \<Rightarrow> string"
  gcm_unseal :: "string \<Rightarrow> string \<Rightarrow> string \<Rightarrow> string option"

definition gcm_encrypt :: "gcm \<Rightarrow> string \<Rightarrow> string \<Rightarrow> string \<Rightarrow> string" where
  "gcm_encrypt g key nonce d = nonce @ gcm_seal g key nonce d"

definition gcm_decrypt :: "gcm \<Rightarrow> string \<Rightarrow> string \<Rightarrow> backup_err + string" where
  "gcm_decrypt g key d =
     (if length d < 12 then Inl BkTooShort
      else case gcm_unseal g key (take 12 d) (drop 12 d) of None \<Rightarrow> Inl BkAuth | Some x \<Rightarrow> Inr x)"

definition encrypt_file ::
  "gcm \<Rightarrow> (osfs \<Rightarrow> string \<Rightarrow> string) \<Rightarrow> string \<Rightarrow> string \<Rightarrow> string \<Rightarrow> osfs \<Rightarrow> (backup_err + unit) \<times> osfs" where
  "encrypt_file g rnd key nonce p s =
     (case os_read s (elems p) of
        Inl e \<Rightarrow> (Inl (BkOs e), s)
      | Inr d \<Rightarrow> replace_file rnd (''.dck-enc-'', ''.tmp'') None p (gcm_encrypt g key nonce d) s)"

definition decrypt_file ::
  "gcm \<Rightarrow> (osfs \<Rightarrow> string \<Rightarrow> string) \<Rightarrow> string \<Rightarrow> string \<Rightarrow> osfs \<Rightarrow> (backup_err + unit) \<times> osfs" where
  "decrypt_file g rnd key p s =
     (case os_read s (elems p) of
        Inl e \<Rightarrow> (Inl (BkOs e), s)
      | Inr d \<Rightarrow>
          (case gcm_decrypt g key d of
             Inl e \<Rightarrow> (Inl e, s)
           | Inr x \<Rightarrow> replace_file rnd (''.dck-dec-'', ''.tmp'') None p x s))"

text \<open>
  The test for an encrypted file: the 32 bytes it reads are too few for the check for \<open>ustar\<close>, so
  only the gzip header counts.
\<close>

definition is_encrypted :: "string \<Rightarrow> osfs \<Rightarrow> backup_err + bool" where
  "is_encrypted p s =
     (case os_read s (elems p) of
        Inl e \<Rightarrow> Inl (BkOs e)
      | Inr d \<Rightarrow> Inr (32 \<le> length d \<and> \<not> (d ! 0 = CHR 0x1F \<and> d ! 1 = CHR 0x8B)))"

section \<open>The command\<close>

record encrypt_env =
  ee_gcm :: gcm
  ee_sha :: "string \<Rightarrow> string"
  ee_key :: string
  ee_nonce :: string

text \<open>The archive is encrypted where it is; a checksum that cannot be written afterwards is only reported.\<close>

definition encrypt_backup :: "backup_env \<Rightarrow> encrypt_env \<Rightarrow> string \<Rightarrow> osfs \<Rightarrow> (backup_err + unit) \<times> osfs" where
  "encrypt_backup be ee output s =
     (case backup_encryptor_from_env (ee_sha ee) (ee_key ee) s of
        Inl e \<Rightarrow> (Inl e, snd (os_remove (snd (os_remove s (elems output))) (elems (backup_checksum_path output))))
      | Inr key \<Rightarrow>
          (case encrypt_file (ee_gcm ee) (be_random be) key (ee_nonce ee) output s of
             (Inl e, s1) \<Rightarrow>
               (Inl e, snd (os_remove (snd (os_remove s1 (elems output))) (elems (backup_checksum_path output))))
           | (Inr _, s1) \<Rightarrow>
               (Inr (), snd (write_backup_checksum (be_sha be) (be_random be) output
                  (snd (os_remove s1 (elems (backup_checksum_path output))))))))"

definition backup_create ::
  "backup_env \<Rightarrow> encrypt_env \<Rightarrow> 's env \<Rightarrow> instant \<Rightarrow> string \<Rightarrow> string \<Rightarrow> bool \<Rightarrow> 's world \<times> osfs
    \<Rightarrow> (backup_err + string) \<times> 's world \<times> osfs" where
  "backup_create be ee e now name out encrypt ws =
     (case ws of (w, s) \<Rightarrow>
        case load e name w of
          (None, w1) \<Rightarrow> (Inl BkNoContainer, w1, s)
        | (Some c, w1) \<Rightarrow>
            if ct_status c = Running then (Inl BkRunning, w1, s)
            else
              (case (if out = [] then os_mkdir_all s (elems (backup_dir (be_data_dir be))) 448 else (Inr (), s)) of
                 (Inl err, s1) \<Rightarrow> (Inl (BkOs err), w1, s1)
               | (Inr _, s1) \<Rightarrow>
                   (case backup_to be c (if out = [] then default_output be now encrypt c else out) s1 of
                      (Inl err, s2) \<Rightarrow> (Inl err, w1, s2)
                    | (Inr output, s2) \<Rightarrow>
                        if \<not> encrypt then (Inr output, w1, s2)
                        else (case encrypt_backup be ee output s2 of
                          (Inl err, s3) \<Rightarrow> (Inl err, w1, s3)
                        | (Inr _, s3) \<Rightarrow> (Inr output, w1, s3)))))"

end
