(* ===== verification/BackupFiles.thy ===== *)
theory BackupFiles
  imports BackupProps Encryption
begin

text \<open>
  Files that are replaced by a new one beside them: what is read afterwards, for the checksum of an
  archive and for its encryption.
\<close>

section \<open>Names in a directory without links above it\<close>

lemma resolve_in_dir:
  assumes "wf_tree s" and "is_dir s d" and "list_all proper d" and "proper n"
    and "\<And>l. f \<Longrightarrow> fs_get s (d @ [n]) \<noteq> Some (FLink l)"
  shows "resolve s f (d @ [n]) = Inr (d @ [n])"
proof -
  have "resolve s f (d @ [n]) = kwalk s f max_links d [n]" using assms(1-3) by (simp add: resolve_below)
  then show ?thesis
    using assms(4,5) by (auto simp: kwalk.simps(2) proper_def split: option.split fnode.split)
qed

definition inode_data :: "osfs \<Rightarrow> nat \<Rightarrow> string" where
  "inode_data s i = (case inode s i of None \<Rightarrow> [] | Some (m, x) \<Rightarrow> x)"

lemma read_in_dir:
  assumes "wf_tree s" and "is_dir s d" and "list_all proper d" and "proper n" and "fs_get s (d @ [n]) = Some (FFile i)"
  shows "os_read s (d @ [n]) = Inr (inode_data s i)"
  using assms resolve_in_dir [OF assms(1-4), of True] by (simp add: os_read_iff inode_data_def)

definition fresh_inodes :: "osfs \<Rightarrow> bool" where
  "fresh_inodes s \<longleftrightarrow> (\<forall>p i. fs_get s p = Some (FFile i) \<longrightarrow> i < os_next s)"

text \<open>A file replaced in such a directory.\<close>

lemma replace_file_result:
  assumes "wf_tree s" and "is_dir s d" and "list_all proper d" and "proper n" and "proper (pre @ rnd s (abs_of d) @ suf)"
    and "fresh_inodes s"
    and "replace_file rnd (pre, suf) m (abs_of (d @ [n])) data s = (Inr u, t)"
  shows "fs_get t p = (if p = d @ [n] then Some (FFile (os_next s)) else fs_get s p)"
    and "inode_data t (os_next s) = data" and "i \<noteq> os_next s \<Longrightarrow> inode t i = inode s i"
    and "wf_tree t" and "fresh_inodes t"
proof -
  let ?x = "pre @ rnd s (abs_of d) @ suf" and ?i = "os_next s"
  let ?z = "(syscall_mode 384 AND NOT (os_umask s), [])"
  let ?s1 = "(put_inode ?i ?z (fs_put (d @ [?x]) (FFile ?i) s))\<lparr>os_next := Suc ?i\<rparr>"
  have tmp: "elems (temp_in rnd s (path_dir (abs_of (d @ [n]))) pre suf) = d @ [?x]"
    using assms(3-5) by (simp add: temp_in_def path_dir_abs_of path_join_abs_of_proper)
  have target: "elems (abs_of (d @ [n])) = d @ [n]" using assms(3,4) by simp
  note body = assms(7) [unfolded replace_file_def Let_def fst_conv snd_conv tmp target]
  have rx: "os_create_excl s (d @ [?x]) 384 = (Inr ?i, ?s1)" and none: "fs_get s (d @ [?x]) = None"
    using body resolve_in_dir [OF assms(1-3,5), of False]
    by (auto simp: os_create_excl_def on_os_def Let_def split: option.splits)
  let ?s3 = "case m of None \<Rightarrow> write_inode ?i data ?s1 | Some k \<Rightarrow> chmod_inode ?i k (write_inode ?i data ?s1)"
  have g3: "fs_get ?s3 p = (if p = d @ [?x] then Some (FFile ?i) else fs_get s p)" for p
    by (auto simp: write_inode_def chmod_inode_def fs_get_put split: option.split prod.split)
  have d3: "inode_data ?s3 ?i = data" "j \<noteq> ?i \<Longrightarrow> inode ?s3 j = inode s j" "os_next ?s3 = Suc ?i" for j
    by (auto simp: write_inode_def chmod_inode_def inode_put_inode inode_data_def split: option.split prod.split)
  have rn: "os_rename ?s3 (d @ [?x]) (d @ [n]) = (Inr u, t)"
    using body rx by (auto simp: on_os_def split: prod.splits sum.splits)
  have wf1: "wf_tree (fs_put (d @ [?x]) (FFile ?i) s)" using assms(1,2) none by (intro wf_put) simp_all
  have wf3: "wf_tree ?s3" using wf1 by (simp add: wf_tree_def is_dir_def g3 fs_get_put)
  have dir3: "is_dir ?s3 d" using assms(2) none by (auto simp: is_dir_def g3)
  have r3: "resolve ?s3 False (d @ [w]) = Inr (d @ [w])" if "proper w" for w
    using resolve_in_dir [OF wf3 dir3 assms(3) that, of False] by simp
  have t: "t = (if ?x = n then ?s3 else fs_del (d @ [?x]) (fs_put (d @ [n]) (FFile ?i) ?s3))"
    and nd: "\<not> is_dir s (d @ [n])"
    using none rn r3 [OF assms(4)] r3 [OF assms(5)] unfolding os_rename_def
    by (auto simp: g3 is_dir_def split: if_splits option.splits fnode.splits)
  show g: "fs_get t p = (if p = d @ [n] then Some (FFile ?i) else fs_get s p)" for p
    using none by (auto simp: t g3 fs_get_put fs_get_del)
  show "inode_data t ?i = data" and "i \<noteq> ?i \<Longrightarrow> inode t i = inode s i" using d3 by (auto simp: t inode_data_def)
  show "fresh_inodes t" using assms(6) d3(3) unfolding fresh_inodes_def g by (auto simp: t dest: less_SucI)
  have dirs: "is_dir t p = is_dir s p" for p using nd by (auto simp: is_dir_def g)
  show "wf_tree t"
    using assms(1,2) unfolding wf_tree_def dirs by (auto simp: g split: if_splits)
qed

section \<open>The checksum\<close>

lemma wide_spaces_high: "list_all (\<lambda>w. w \<noteq> [] \<and> 128 \<le> (of_char (hd w) :: nat)) wide_spaces"
  by code_simp

lemma is_hex_no_space: "is_hex c \<Longrightarrow> space_len (c # s) = 0"
proof -
  assume h: "is_hex c"
  then have n: "(of_char c :: nat) < 128" "32 < (of_char c :: nat)" by (auto simp: is_hex_def hex_val_def Let_def split: if_splits)
  have "\<not> ascii_space c" using n(2) by (auto simp: ascii_space_def)
  moreover have "\<not> prefix w (c # s)" if "w \<in> set wide_spaces" for w
    using wide_spaces_high that n(1) by (auto simp: list_all_iff prefix_Cons)
  then have "find (\<lambda>w. prefix w (c # s)) wide_spaces = None" by (simp add: find_None_iff)
  ultimately show ?thesis by (simp add: space_len.simps(2))
qed

lemma fields_aux_hex: "list_all is_hex ds \<Longrightarrow> fields_aux 0 cur (ds @ s) = fields_aux 0 (rev ds @ cur) s"
  by (induction ds arbitrary: cur) (auto simp: is_hex_no_space)

lemma checksum_line_fields:
  assumes "list_all is_hex ds" and "ds \<noteq> []"
  shows "\<exists>fs. str_fields (checksum_line ds archive) = ds # fs"
proof -
  have "space_len (CHR '' '' # s) = 1" for s by (simp add: space_len.simps(2) ascii_space_def)
  then show ?thesis using assms fields_aux_hex [of ds "[]"] by (simp add: str_fields_def checksum_line_def)
qed

lemma checksum_path_in_dir: "backup_checksum_path (abs_of (d @ [n])) = abs_of (d @ [n @ ''.sha256''])"
  by (cases "d = []") (simp_all add: backup_checksum_path_def abs_of_def unparse_def str_join_snoc)

lemma sidecar_proper: "proper n \<Longrightarrow> proper (n @ ''.sha256'')"
  by (auto simp: proper_def dotdot_def slash_def)

text \<open>
  C32. The checksum file written for an archive accepts it as long as its contents have the same
  digest, and no longer: with other contents the archive is refused.
\<close>

theorem checksum_detects_changes:
  assumes "wf_tree s" and "is_dir s d" and "list_all proper d" and "proper n" and "proper (''.dck-checksum-'' @ rnd s (abs_of d))"
    and "fresh_inodes s"
    and "fs_get s (d @ [n]) = Some (FFile i)" and "inode s i = Some (m, x)"
    and "\<And>x. length (sha x) = 64 \<and> list_all is_hex (sha x)"
    and "write_backup_checksum sha rnd (abs_of (d @ [n])) s = (Inr u, t)"
  shows "verify_backup_checksum sha (abs_of (d @ [n])) (write_inode i y t) =
    (if map upper_char (sha y) = map upper_char (sha x) then Inr () else Inl BkChecksumMismatch)"
proof -
  let ?n = "n @ ''.sha256''" and ?t = "write_inode i y t"
  have e: "elems (abs_of (d @ [n])) = d @ [n]" "elems (abs_of (d @ [?n])) = d @ [?n]"
    using assms(3,4) sidecar_proper [OF assms(4)] by simp_all
  have rd: "os_read s (d @ [n]) = Inr x" using read_in_dir [OF assms(1-4,7)] assms(8) by (simp add: inode_data_def)
  have "replace_file rnd (''.dck-checksum-'', []) (Some 384) (abs_of (d @ [?n])) (checksum_line (sha x) (abs_of (d @ [n]))) s = (Inr u, t)"
    using assms(10) e rd by (simp add: write_backup_checksum_def checksum_path_in_dir)
  note r = replace_file_result [OF assms(1-3) sidecar_proper [OF assms(4)] _ assms(6) this]
  note r = r [unfolded append_Nil2, OF assms(5)]
  have g: "fs_get ?t p = fs_get t p" for p by (simp add: write_inode_def split: option.split)
  have wf: "wf_tree ?t" and dir: "is_dir ?t d"
    using r(1,4) assms(2) by (auto simp: wf_tree_def is_dir_def g)
  have i: "i \<noteq> os_next s" using assms(6,7) by (auto simp: fresh_inodes_def)
  have s: "inode_data ?t (os_next s) = checksum_line (sha x) (abs_of (d @ [n]))"
    using r(2) i by (auto simp: inode_data_def write_inode_def inode_put_inode split: option.split)
  have "inode t i = Some (m, x)" using r(3) [OF i] assms(8) by simp
  then have a: "inode_data ?t i = y" by (auto simp: inode_data_def write_inode_def inode_put_inode)
  have "os_read ?t (d @ [?n]) = Inr (checksum_line (sha x) (abs_of (d @ [n])))"
    using read_in_dir [OF wf dir assms(3) sidecar_proper [OF assms(4)]] r(1) s by (simp add: g)
  moreover have "os_read ?t (d @ [n]) = Inr y"
    using read_in_dir [OF wf dir assms(3,4)] r(1) a assms(7) by (simp add: g)
  moreover obtain fs where "str_fields (checksum_line (sha x) (abs_of (d @ [n]))) = sha x # fs"
    using checksum_line_fields [of "sha x"] assms(9) by fastforce
  ultimately show ?thesis using assms(9) e by (simp add: verify_backup_checksum_def checksum_path_in_dir)
qed

section \<open>Encryption\<close>

text \<open>
  C33. A file that is encrypted and decrypted with the same key has its contents back, when the cipher
  opens what it has sealed.
\<close>

theorem encrypt_decrypt_file:
  assumes "wf_tree s" and "is_dir s d" and "list_all proper d" and "proper n" and "fs_get s (d @ [n]) = Some (FFile i)"
    and "fresh_inodes s"
    and "\<And>s. proper (''.dck-enc-'' @ rnd s (abs_of d) @ ''.tmp'') \<and> proper (''.dck-dec-'' @ rnd s (abs_of d) @ ''.tmp'')"
    and "length nonce = 12" and "\<And>x. gcm_unseal g key nonce (gcm_seal g key nonce x) = Some x"
    and "encrypt_file g rnd key nonce (abs_of (d @ [n])) s = (Inr u, t)"
    and "decrypt_file g rnd key (abs_of (d @ [n])) t = (Inr v, t')"
  shows "os_read t' (d @ [n]) = os_read s (d @ [n])"
proof -
  have e: "elems (abs_of (d @ [n])) = d @ [n]" using assms(3,4) by simp
  let ?x = "inode_data s i" and ?n = "os_next s"
  have rs: "os_read s (d @ [n]) = Inr ?x" by (rule read_in_dir [OF assms(1-5)])
  have "replace_file rnd (''.dck-enc-'', ''.tmp'') None (abs_of (d @ [n])) (gcm_encrypt g key nonce ?x) s = (Inr u, t)"
    using assms(10) rs e by (simp add: encrypt_file_def)
  note 1 = replace_file_result [OF assms(1-4) conjunct1 [OF assms(7)] assms(6) this]
  have dt: "is_dir t d" using 1(1) assms(2) by (auto simp: is_dir_def)
  have ft: "fs_get t (d @ [n]) = Some (FFile ?n)" using 1(1) by simp
  have "os_read t (d @ [n]) = Inr (gcm_encrypt g key nonce ?x)" using read_in_dir [OF 1(4) dt assms(3,4) ft] 1(2) by simp
  moreover have "gcm_decrypt g key (gcm_encrypt g key nonce ?x) = Inr ?x"
    using assms(8,9) by (simp add: gcm_decrypt_def gcm_encrypt_def)
  ultimately have dec: "replace_file rnd (''.dck-dec-'', ''.tmp'') None (abs_of (d @ [n])) ?x t = (Inr v, t')"
    using assms(11) e by (simp add: decrypt_file_def)
  note 2 = replace_file_result [OF 1(4) dt assms(3,4) conjunct2 [OF assms(7)] 1(5) dec]
  have "is_dir t' d" using 2(1) dt by (auto simp: is_dir_def)
  then show ?thesis using read_in_dir [OF 2(4) _ assms(3,4)] 2(1,2) rs by simp
qed

text \<open>
  An encrypted backup cannot be restored: a restore never decrypts, and reading the archive fails
  unless the random nonce happens to look like a gzip header.
\<close>

theorem encrypted_backup_unrestorable:
  assumes "wf_tree t" and "os_read t (elems archive) = Inr (gcm_encrypt g key nonce x)"
    and "length nonce = 12" and "take 2 nonce \<noteq> [CHR 0x1F, CHR 0x8B]"
    and "\<And>y. take 2 y \<noteq> [CHR 0x1F, CHR 0x8B] \<Longrightarrow> re_unpack re y = None"
  shows "\<exists>err. fst (restore_container_backup re h dd cid vols rebind archive t) = Inl err"
proof -
  have "take 2 (gcm_encrypt g key nonce x) = take 2 nonce" using assms(3) by (simp add: gcm_encrypt_def)
  then have un: "re_unpack re (gcm_encrypt g key nonce x) = None" using assms(4,5) by simp
  have "fst (restore_staged re h dd cid vols rebind stage archive t1) = Inl BkGzip"
    if m: "os_mkdir t p m = (r, t1)" for stage p m r t1
  proof -
    have "only_dirs t t1" by (rule os_mkdir_dirs [OF assms(1) m])
    then have "os_read t1 (elems archive) = Inr (gcm_encrypt g key nonce x)"
      using os_read_grows [OF assms(2)] by (simp add: only_dirs_def)
    then show ?thesis using un by (simp add: restore_staged_def extract_backup_to_stage_def)
  qed
  then show ?thesis
    by (auto simp: restore_container_backup_def Let_def split: sum.splits prod.splits) (metis fst_conv)+
qed

end
