(* ===== verification/BackupFaults.thy ===== *)
theory BackupFaults
  imports BackupFiles StartProps
begin

text \<open>
  What goes wrong around a backup: a failed automatic backup loses the container it has restarted, a
  backup onto an existing file deletes it, and a container removed meanwhile comes back. Also which
  archives the retention keeps.
\<close>

section \<open>A failed automatic backup\<close>

lemma load_dead:
  assumes "map_of (w_dir w) (container_file e cid) = Some (CJson c)" and "ct_status c = Running" and "\<not> process_alive e w c"
  shows "fst (load e cid w) = Some (clear_processes c)"
  using assms by (simp add: load_def load_file_def normalize_loaded_state_def Let_def split: prod.split)


section \<open>Existing files\<close>

lemma stat_dir: "wf_tree s \<Longrightarrow> is_dir s d \<Longrightarrow> list_all proper d \<Longrightarrow> \<exists>m. os_stat s d = Inr (FDir m)"
  using kwalk_dirs [of s "[]" d True max_links "[]"] by (auto simp: os_stat_def resolve_def node_at_def is_dir_def)

lemma mkdir_all_plain: "wf_tree s \<Longrightarrow> is_dir s d \<Longrightarrow> list_all proper d \<Longrightarrow> os_mkdir_all s d m = (Inr (), s)"
  using stat_dir [of s d] by (auto simp: os_mkdir_all.simps [of s d m])

lemma path_base_abs_of:
  assumes "proper n"
  shows "path_base (abs_of (d @ [n])) = n"
proof -
  obtain x where x: "abs_of (d @ [n]) = x @ slash # n"
    using that [of "[]"] that [of "abs_of d"] by (cases "d = []") (simp_all add: abs_of_def unparse_def str_join_snoc)
  have n: "n \<noteq> []" "slash \<notin> set n" using assms by (auto simp: proper_def)
  then obtain c m where c: "rev n = c # m" by (cases "rev n") auto
  then have "c \<in> set n" by (metis list.set_intros(1) set_rev)
  then have c: "rev n = c # m" "c \<noteq> slash" using c n(2) by auto
  have "takeWhile (\<lambda>c. c \<noteq> slash) (rev n @ slash # rev x) = rev n"
    using n(2) by (subst takeWhile_append2) auto
  then show ?thesis unfolding path_base_def x using c n(1) by simp
qed

lemma remove_file:
  assumes "wf_tree s" and "is_dir s d" and "list_all proper d" and "proper n" and "fs_get s (d @ [n]) = Some (FFile i)"
  shows "os_remove s (d @ [n]) = (Inr (), fs_del (d @ [n]) s)"
proof -
  have "\<not> has_children s (d @ [n])"
  proof
    assume "has_children s (d @ [n])"
    then obtain p x where "(p, x) \<in> set (os_tree s)" "strict_prefix (d @ [n]) p" by (auto simp: has_children_def list_ex_iff)
    moreover from this(2) obtain zs where "p = (d @ [n]) @ zs" "zs \<noteq> []" by (auto simp: strict_prefix_def prefix_def)
    moreover from this(2) obtain w ws where "zs = w # ws" by (cases zs) auto
    ultimately have "fs_get s ((d @ [n]) @ w # ws) \<noteq> None" by (auto simp: fs_get_def map_of_eq_None_iff intro: rev_image_eqI)
    then have "is_dir s (d @ [n])" by (rule wf_tree_prefix [OF assms(1)])
    with assms(5) show False by (simp add: is_dir_def)
  qed
  then show ?thesis using assms(5) resolve_in_dir [OF assms(1-4), of False] by (simp add: os_remove_def node_at_def)
qed

text \<open>
  A backup of a stopped container to a file that exists already fails, because archives are only
  written to new files, and then the file that was there is deleted.
\<close>

theorem backup_deletes_existing_file:
  assumes "load e name w = (Some c, w1)" and "ct_status c \<noteq> Running"
    and "wf_tree s" and "is_dir s d" and "list_all proper d" and "proper n" and "fs_get s (d @ [n]) = Some (FFile i)"
    and "validate_backup_directory s (be_data_dir be) (abs_of d) = Inr (abs_of d)"
  shows "\<exists>t. backup_create be ee e now name (abs_of (d @ [n])) encrypt (w, s) = (Inl (BkOs EEXIST), w1, t)
    \<and> fs_get t (d @ [n]) = None \<and> (\<forall>p. p \<noteq> d @ [n] \<longrightarrow> fs_get t p = fs_get s p)"
proof -
  have dir: "path_dir (abs_of (d @ [n])) = abs_of d" by (rule path_dir_abs_of [OF assms(5,6)])
  have out: "path_join [abs_of d, n] = abs_of (d @ [n])" using assms(5,6) by (simp add: path_join_abs_of_proper)
  have e: "elems (abs_of (d @ [n])) = d @ [n]" using assms(5,6) by simp
  have "write_archive be c (abs_of (d @ [n])) s = (Inl (BkOs EEXIST), s)"
    using assms(7) resolve_in_dir [OF assms(3-6), of False] e by (simp add: write_archive_def os_create_excl_def on_os_def)
  then have "archive_with_checksum be c (abs_of (d @ [n])) s = (Inl (BkOs EEXIST), fs_del (d @ [n]) s)"
    using remove_file [OF assms(3-7)] e by (simp add: archive_with_checksum_def)
  then have "backup_to be c (abs_of (d @ [n])) s = (Inl (BkOs EEXIST), fs_del (d @ [n]) s)"
    using assms(8) mkdir_all_plain [OF assms(3,4,5)] assms(5)
    by (simp add: backup_to_def dir path_base_abs_of [OF assms(6)] out)
  then have "backup_create be ee e now name (abs_of (d @ [n])) encrypt (w, s) = (Inl (BkOs EEXIST), w1, fs_del (d @ [n]) s)"
    using assms(1,2) by (simp add: backup_create_def)
  then show ?thesis by (simp add: fs_get_del)
qed

section \<open>Retention\<close>

lemma child_has_children:
  assumes "fs_get s (q @ [w]) = Some x"
  shows "has_children s q"
proof -
  have "(q @ [w], x) \<in> set (os_tree s)" using assms by (simp add: fs_get_def map_of_SomeD)
  moreover have "strict_prefix q (q @ [w])" by (simp add: strict_prefix_def)
  ultimately show ?thesis unfolding has_children_def list_ex_iff by blast
qed

lemma os_remove_in_dir:
  assumes "resolve s False q = Inr q" and "q \<noteq> []"
  shows "os_remove s q = (if fs_get s q = None then (Inl ENOENT, s) else if has_children s q then (Inl ENOTEMPTY, s) else (Inr (), fs_del q s))"
  using assms by (cases "fs_get s q") (simp_all add: os_remove_def node_at_def)

lemma remove_if_there_effect:
  assumes "wf_tree s" and "is_dir s d" and "list_all proper d" and "proper n"
    and "remove_if_there (abs_of (d @ [n])) s = (Inr u, t)"
  shows "fs_get t p = (if p = d @ [n] then None else fs_get s p)" and "wf_tree t" and "is_dir t d"
proof -
  have e: "elems (abs_of (d @ [n])) = d @ [n]" using assms(3,4) by simp
  have r: "resolve s False (d @ [n]) = Inr (d @ [n])" using resolve_in_dir [OF assms(1-4), of False] by simp
  have cs: "fs_get s (d @ [n]) = None \<and> t = s \<or> \<not> has_children s (d @ [n]) \<and> t = fs_del (d @ [n]) s"
    using assms(5) unfolding remove_if_there_def e os_remove_in_dir [OF r snoc_eq_iff_butlast [THEN iffD1, OF refl, THEN conjunct1]]
    by (auto split: if_splits)
  then show g: "fs_get t p = (if p = d @ [n] then None else fs_get s p)" for p
    by (auto simp: fs_get_del)
  show "is_dir t d" using assms(2) by (auto simp: is_dir_def g)
  show "wf_tree t"
    unfolding wf_tree_def
  proof (intro allI impI)
    fix p w
    assume "fs_get t (p @ [w]) \<noteq> None"
    then have s: "fs_get s (p @ [w]) \<noteq> None" by (auto simp: g split: if_splits)
    then have d: "is_dir s p" by (rule wf_treeD [OF assms(1)])
    then have "p \<noteq> d @ [n]" using cs s child_has_children [of s p w] by (auto simp: is_dir_def)
    with d show "is_dir t p" by (simp add: is_dir_def g)
  qed
qed

lemma prune_loop_effect:
  assumes "wf_tree s" and "is_dir s d" and "list_all proper d" and "list_all proper ns" and "prune_loop (abs_of d) ns s = (Inr u, t)"
  shows "fs_get t p = (if \<exists>n \<in> set ns. p = d @ [n] \<or> p = d @ [n @ ''.sha256''] then None else fs_get s p)"
  using assms
proof (induction ns arbitrary: s)
  case (Cons n ns)
  have n: "proper n" "proper (n @ ''.sha256'')" using Cons.prems(4) sidecar_proper by auto
  have j: "path_join [abs_of d, n] = abs_of (d @ [n])" using Cons.prems(3) n(1) by (simp add: path_join_abs_of_proper)
  obtain v s1 where 1: "remove_if_there (abs_of (d @ [n])) s = (Inr v, s1)"
    using Cons.prems(5) by (auto simp: j split: prod.splits sum.splits)
  note r1 = remove_if_there_effect [OF Cons.prems(1-3) n(1) 1]
  obtain v' s2 where 2: "remove_if_there (abs_of (d @ [n @ ''.sha256''])) s1 = (Inr v', s2)"
    using Cons.prems(5) 1 by (auto simp: j checksum_path_in_dir split: prod.splits sum.splits)
  note r2 = remove_if_there_effect [OF r1(2,3) Cons.prems(3) n(2) 2]
  have "prune_loop (abs_of d) ns s2 = (Inr u, t)" using Cons.prems(5) 1 2 by (simp add: j checksum_path_in_dir)
  then show ?case using Cons.IH [OF r2(2,3) Cons.prems(3)] Cons.prems(4) r1(1) r2(1) by auto
qed simp

lemma pruned_names_oldest:
  "\<exists>kept. mset (map fst (filter (is_backup_of c) entries)) = mset kept + mset (pruned_names mtime dir c entries s)
     \<and> length kept = min (length (filter (is_backup_of c) entries)) (nat (automatic_backup_retention c))
     \<and> (\<forall>k \<in> set kept. \<forall>r \<in> set (pruned_names mtime dir c entries s). mtime s (path_join [dir, r]) \<le> mtime s (path_join [dir, k]))"
proof -
  let ?f = "\<lambda>n. - mtime s (path_join [dir, n])" and ?n = "nat (automatic_backup_retention c)"
  let ?ns = "map fst (filter (is_backup_of c) entries)"
  let ?k = "take ?n (sort_key ?f ?ns)"
  have p: "pruned_names mtime dir c entries s = drop ?n (sort_key ?f ?ns)" by (simp add: pruned_names_def)
  have "sorted (map ?f ?k @ map ?f (drop ?n (sort_key ?f ?ns)))"
    by (simp flip: map_append)
  then have "\<forall>k \<in> set ?k. \<forall>r \<in> set (drop ?n (sort_key ?f ?ns)). ?f k \<le> ?f r" by (simp add: sorted_append)
  moreover have "mset ?ns = mset ?k + mset (drop ?n (sort_key ?f ?ns))"
    by (metis append_take_drop_id mset_append mset_sort)
  moreover have "length ?k = min (length (filter (is_backup_of c) entries)) ?n" by simp
  ultimately show ?thesis unfolding p by force
qed

lemma read_dir_in_dir:
  assumes "wf_tree s" and "is_dir s d" and "list_all proper d" and "os_read_dir s d = Inr entries"
  shows "(n, x) \<in> set entries \<longleftrightarrow> fs_get s (d @ [n]) = Some x" and "distinct (map fst entries)"
proof -
  let ?ns = "sort (remdups (map (\<lambda>(y, _). last y) (filter (\<lambda>(y, _). y \<noteq> [] \<and> butlast y = d) (os_tree s))))"
  let ?e = "\<lambda>x. case fs_get s (d @ [x]) of None \<Rightarrow> [] | Some n \<Rightarrow> [(x, n)]"
  have "resolve s True d = Inr d" using kwalk_dirs [of s "[]" d True max_links "[]"] assms(1-3) by (simp add: resolve_def)
  moreover obtain m where "fs_get s d = Some (FDir m)" using assms(2) by (auto simp: is_dir_def)
  ultimately have es: "entries = concat (map ?e ?ns)"
    using assms(4) by (simp add: os_read_dir_def node_at_def)
  have "n \<in> set ?ns" if "fs_get s (d @ [n]) = Some x"
  proof -
    have "(d @ [n], x) \<in> set (os_tree s)" using that by (simp add: fs_get_def map_of_SomeD)
    then have "last (d @ [n]) \<in> set ?ns" by force
    then show ?thesis by simp
  qed
  moreover have "(n, x) \<in> set entries \<longleftrightarrow> n \<in> set ?ns \<and> fs_get s (d @ [n]) = Some x"
    unfolding es by (auto split: option.splits)
  ultimately show "(n, x) \<in> set entries \<longleftrightarrow> fs_get s (d @ [n]) = Some x" by blast
  have "map fst (concat (map ?e ns)) = filter (\<lambda>x. fs_get s (d @ [x]) \<noteq> None) ns" for ns
    by (induction ns) (auto split: option.split)
  then show "distinct (map fst entries)" unfolding es by simp
qed


end
