(* ===== verification/BackupWitness.thy ===== *)
theory BackupWitness
  imports BackupFaults
begin

text \<open>
  The properties of backups at concrete file systems and containers, and what a restore does to a
  directory behind a link.
\<close>

section \<open>Concrete file systems\<close>

lemma wf_tree_listed:
  "list_all (\<lambda>(p, _). p \<noteq> [] \<and> (case fs_get s (butlast p) of Some (FDir m) \<Rightarrow> True | _ \<Rightarrow> False)) (os_tree s) \<Longrightarrow> wf_tree s"
  unfolding wf_tree_def list_all_iff
  by (fastforce simp: fs_get_def is_dir_def split: if_splits option.splits fnode.splits dest!: map_of_SomeD)

lemma fresh_inodes_listed:
  "list_all (\<lambda>(p, x). case x of FFile i \<Rightarrow> i < os_next s | _ \<Rightarrow> True) (os_tree s) \<Longrightarrow> fresh_inodes s"
  unfolding fresh_inodes_def list_all_iff
  by (fastforce simp: fs_get_def split: if_splits dest!: map_of_SomeD)

definition backup_host :: osfs where
  "backup_host =
     \<lparr>os_tree = [([''d''], FDir 448), ([''d'', ''overlay''], FDir 448), ([''d'', ''overlay'', ''c1''], FDir 448),
        ([''d'', ''overlay'', ''c1'', ''upper''], FDir 493), ([''d'', ''overlay'', ''c1'', ''upper'', ''sh''], FLink ''/bin/busybox''),
        ([''b''], FDir 448), ([''b'', ''web-1.tar.gz''], FFile 0), ([''b'', ''web-2.tar.gz''], FFile 1)],
      os_inodes = [(0, (384, ''X'')), (1, (384, ''Y''))], os_next = 2, os_umask = 18, os_cwd = Some ''/''\<rparr>"

lemma backup_host_ok:
  "wf_tree backup_host" "fresh_inodes backup_host" "is_dir backup_host [''b'']" "list_all proper [''b'']"
  "proper ''web-1.tar.gz''" "proper ''web-2.tar.gz''"
  by (rule wf_tree_listed, code_simp) (rule fresh_inodes_listed, code_simp, simp add: is_dir_def backup_host_def fs_get_def, code_simp+)

definition link_archive :: "tar_hdr list" where
  "link_archive = projr (create_container_backup backup_host (\<lambda>_. []) ''/d'' ''c1'' ''{}'' [])"

definition sample_restore :: restore_env where
  "sample_restore =
     \<lparr>re_sha = (\<lambda>y. replicate 63 (CHR ''0'') @ (if y = ''X'' then ''1'' else ''2'')),
      re_unpack = (\<lambda>y. if take 2 y = [CHR 0x1F, CHR 0x8B] \<or> y = ''X'' then Some (map TarEntry link_archive) else None),
      re_json_id = (\<lambda>_. Some ''c1''), re_random = (\<lambda>_ _. ''7'')\<rparr>"

lemma backup_with_link_unrestorable_witness:
  "\<exists>err. fst (restore_container_backup sample_restore (\<lambda>_. []) ''/d'' ''c1'' [] False ''/b/web-1.tar.gz'' backup_host) = Inl err"
proof (rule backup_with_link_unrestorable)
  show "create_container_backup backup_host (\<lambda>_. []) ''/d'' ''c1'' ''{}'' [] = Inr link_archive"
    unfolding link_archive_def by code_simp
  show "os_stat backup_host (elems (writable_dir backup_host (\<lambda>_. []) ''/d'' ''c1'')) = Inr (FDir 493)" by code_simp
  show "resolve backup_host False (elems (writable_dir backup_host (\<lambda>_. []) ''/d'' ''c1'')) = Inr [''d'', ''overlay'', ''c1'', ''upper'']"
    by code_simp
  show "strict_prefix [''d'', ''overlay'', ''c1'', ''upper''] [''d'', ''overlay'', ''c1'', ''upper'', ''sh'']"
    by (simp add: strict_prefix_def)
  show "fs_get backup_host [''d'', ''overlay'', ''c1'', ''upper'', ''sh''] = Some (FLink ''/bin/busybox'')"
    by (simp add: backup_host_def fs_get_def)
  show "os_read backup_host (elems ''/b/web-1.tar.gz'') = Inr ''X''" by code_simp
  show "re_unpack sample_restore ''X'' = Some (map TarEntry link_archive)" by (simp add: sample_restore_def)
qed (rule backup_host_ok)

definition stage_host :: osfs where
  "stage_host = \<lparr>os_tree = [([''r''], FDir 493), ([''a''], FFile 0)], os_inodes = [(0, (384, ''X''))], os_next = 1, os_umask = 18, os_cwd = Some ''/''\<rparr>"

definition evil_members :: "tar_item list" where
  "evil_members =
     [TarEntry (metadata_header ''{}''),
      TarEntry \<lparr>th_name = ''data/out'', th_type = TypeSymlink, th_mode = 511, th_link = ''/'', th_data = [], th_data_ok = True\<rparr>,
      TarEntry \<lparr>th_name = ''data/out/a'', th_type = TypeReg, th_mode = 420, th_link = [], th_data = ''evil'', th_data_ok = True\<rparr>]"

lemma stage_host_inv: "rootfs_inv [''r''] stage_host"
  by (auto simp: rootfs_inv_def wf_tree_def private_inodes_def is_dir_def fs_get_def stage_host_def Cons_eq_append_conv)


lemma checksum_detects_changes_witness:
  "verify_backup_checksum (re_sha sample_restore) ''/b/web-1.tar.gz''
     (write_inode 0 ''Z'' (snd (write_backup_checksum (re_sha sample_restore) (\<lambda>_ _. ''7'') ''/b/web-1.tar.gz'' backup_host)))
   = Inl BkChecksumMismatch"
proof -
  have a: "abs_of ([''b''] @ [''web-1.tar.gz'']) = ''/b/web-1.tar.gz''" by code_simp
  let ?r = "write_backup_checksum (re_sha sample_restore) (\<lambda>_ _. ''7'') ''/b/web-1.tar.gz'' backup_host"
  have "?r = (Inr (), snd ?r)" by code_simp
  then have w: "write_backup_checksum (re_sha sample_restore) (\<lambda>_ _. ''7'') (abs_of ([''b''] @ [''web-1.tar.gz''])) backup_host = (Inr (), snd ?r)"
    unfolding a .
  have t: "proper (''.dck-checksum-'' @ (\<lambda>_ _. ''7'') backup_host (abs_of [''b'']))" by code_simp
  have f: "fs_get backup_host ([''b''] @ [''web-1.tar.gz'']) = Some (FFile 0)" "inode backup_host 0 = Some (384, ''X'')"
    by (simp_all add: backup_host_def fs_get_def inode_def)
  have h: "length (re_sha sample_restore x) = 64 \<and> list_all is_hex (re_sha sample_restore x)" for x
    by (simp add: sample_restore_def list_all_iff is_hex_def hex_val_def)
  have "map upper_char (re_sha sample_restore ''Z'') \<noteq> map upper_char (re_sha sample_restore ''X'')" by code_simp
  then show ?thesis
    using checksum_detects_changes [where rnd = "\<lambda>_ _. ''7''" and y = "''Z''",
        OF backup_host_ok(1,3,4,5) t backup_host_ok(2) f h w] unfolding a by simp
qed

definition sample_gcm :: gcm where
  "sample_gcm = \<lparr>gcm_seal = (\<lambda>k n x. k @ x), gcm_unseal = (\<lambda>k n y. if prefix k y then Some (drop (length k) y) else None)\<rparr>"

lemma encrypt_decrypt_file_witness:
  "os_read (snd (decrypt_file sample_gcm (\<lambda>_ _. ''7'') ''k'' ''/b/web-1.tar.gz''
      (snd (encrypt_file sample_gcm (\<lambda>_ _. ''7'') ''k'' ''123456789012'' ''/b/web-1.tar.gz'' backup_host)))) [''b'', ''web-1.tar.gz'']
   = Inr ''X''"
proof -
  have a: "abs_of ([''b''] @ [''web-1.tar.gz'']) = ''/b/web-1.tar.gz''" by code_simp
  let ?r = "encrypt_file sample_gcm (\<lambda>_ _. ''7'') ''k'' ''123456789012'' ''/b/web-1.tar.gz'' backup_host"
  let ?q = "decrypt_file sample_gcm (\<lambda>_ _. ''7'') ''k'' ''/b/web-1.tar.gz'' (snd ?r)"
  have r: "encrypt_file sample_gcm (\<lambda>_ _. ''7'') ''k'' ''123456789012'' (abs_of ([''b''] @ [''web-1.tar.gz''])) backup_host = (Inr (), snd ?r)"
    unfolding a by code_simp
  have q: "decrypt_file sample_gcm (\<lambda>_ _. ''7'') ''k'' (abs_of ([''b''] @ [''web-1.tar.gz''])) (snd ?r) = (Inr (), snd ?q)"
    unfolding a by code_simp
  have f: "fs_get backup_host ([''b''] @ [''web-1.tar.gz'']) = Some (FFile 0)" by (simp add: backup_host_def fs_get_def)
  have t: "proper (''.dck-enc-'' @ (\<lambda>_ _. ''7'') s (abs_of [''b'']) @ ''.tmp'') \<and> proper (''.dck-dec-'' @ (\<lambda>_ _. ''7'') s (abs_of [''b'']) @ ''.tmp'')" for s :: osfs
    by code_simp
  have g: "gcm_unseal sample_gcm ''k'' ''123456789012'' (gcm_seal sample_gcm ''k'' ''123456789012'' x) = Some x" for x
    by (simp add: sample_gcm_def)
  have "os_read (snd ?q) ([''b''] @ [''web-1.tar.gz'']) = os_read backup_host ([''b''] @ [''web-1.tar.gz''])"
    by (rule encrypt_decrypt_file [where rnd = "\<lambda>_ _. ''7''", OF backup_host_ok(1,3,4,5) f backup_host_ok(2) t _ g r q]) simp
  moreover have "os_read backup_host ([''b''] @ [''web-1.tar.gz'']) = Inr ''X''" by code_simp
  ultimately show ?thesis by simp
qed

definition gzip_restore :: restore_env where
  "gzip_restore = sample_restore\<lparr>re_unpack := (\<lambda>y. if take 2 y = [CHR 0x1F, CHR 0x8B] then Some [] else None)\<rparr>"

lemma encrypted_backup_unrestorable_witness:
  "\<exists>err. fst (restore_container_backup gzip_restore (\<lambda>_. []) ''/d'' ''c1'' [] False ''/b/web-1.tar.gz''
      (snd (encrypt_file sample_gcm (\<lambda>_ _. ''7'') ''k'' ''123456789012'' ''/b/web-1.tar.gz'' backup_host))) = Inl err"
proof (rule encrypted_backup_unrestorable)
  let ?t = "snd (encrypt_file sample_gcm (\<lambda>_ _. ''7'') ''k'' ''123456789012'' ''/b/web-1.tar.gz'' backup_host)"
  show "wf_tree ?t" by (rule wf_tree_listed) code_simp
  show "os_read ?t (elems ''/b/web-1.tar.gz'') = Inr (gcm_encrypt sample_gcm ''k'' ''123456789012'' ''X'')" by code_simp
qed (auto simp: gzip_restore_def)

section \<open>The supervisor's backups\<close>

text \<open>A container whose process 50 ends when it is sent a signal; the start gives it process 101.\<close>

definition backup_world_env :: "unit env" where
  "backup_world_env =
     sample_env\<lparr>e_hash := (\<lambda>_. []),
       e_stat := (\<lambda>fs pid. if pid = 101 \<or> pid = 50 \<and> Signal 50 ''TERM'' \<notin> set fs then Some ''1 (sh) S 1'' else None)\<rparr>"

definition backed_up :: container where
  "backed_up = sample_container\<lparr>ct_status := Running, ct_pid := 50, ct_unshare_pid := 49, ct_auto_backup := True, ct_backup_dir := ''/b''\<rparr>"

definition backup_world :: "unit world" where
  "backup_world = sample_world [(''0123456789abcdef.json'', CJson backed_up)]"

definition root_mount :: volume_mount where
  "root_mount = \<lparr>vm_type = Some Bind, vm_source = ''/'', vm_target = ''/host'', vm_read_only = False, vm_propagation = [], vm_selinux = [],
      vm_no_copy = False\<rparr>"

definition sample_backup :: backup_env where
  "sample_backup =
     \<lparr>be_data_dir = ''/d'', be_hash = (\<lambda>_. []), be_sha = re_sha sample_restore, be_pack = (\<lambda>hs. ''P''), be_json = (\<lambda>c. ''{}''),
      be_volumes = (\<lambda>c. [root_mount]), be_stamp = (\<lambda>t. ''20240101''), be_mtime = (\<lambda>s p. if p = ''/b/web-1.tar.gz'' then 1 else 2),
      be_random = (\<lambda>_ _. ''7''), be_locked = False\<rparr>"

definition sample_run :: "unit backup_run" where
  "sample_run = \<lparr>br_now = 1000, br_find_unshare = (\<lambda>_. 0), br_start = sample_start, br_others = (\<lambda>w. w)\<rparr>"


text \<open>A container that is removed while its archive is written exists again, and runs, afterwards.\<close>

lemma backup_resurrects_removed:
  "case map_of (w_dir (fst (snd (perform_automatic_backup (sample_backup\<lparr>be_volumes := (\<lambda>_. [])\<rparr>) backup_world_env
      (sample_run\<lparr>br_others := (\<lambda>w. w\<lparr>w_dir := []\<rparr>)\<rparr>) backed_up (backup_world, backup_host))))) ''0123456789abcdef.json'' of
     Some (CJson d) \<Rightarrow> ct_status d = Running \<and> ct_pid d = 101
   | _ \<Rightarrow> False"
  by code_simp

definition no_encryption :: encrypt_env where
  "no_encryption = \<lparr>ee_gcm = sample_gcm, ee_sha = (\<lambda>x. x), ee_key = ''k'', ee_nonce = ''123456789012''\<rparr>"

lemma backup_deletes_existing_file_witness:
  "\<exists>t. backup_create sample_backup no_encryption sample_env 5 ''web'' ''/b/web-1.tar.gz'' False
      (sample_world [(''00.json'', CJson sample_container)], backup_host)
     = (Inl (BkOs EEXIST), sample_world [(''00.json'', CJson sample_container)], t) \<and> fs_get t [''b'', ''web-1.tar.gz''] = None"
proof -
  let ?w = "sample_world [(''00.json'', CJson sample_container)]"
  have a: "abs_of ([''b''] @ [''web-1.tar.gz'']) = ''/b/web-1.tar.gz''" by code_simp
  have l: "load sample_env ''web'' ?w = (Some sample_container, ?w)"
    by (simp add: load_def container_file_def safe_part_def sample_env_def sample_world_def dir_entries_def named_in_def
        sample_container_def load_file_def normalize_loaded_state_def has_prefix_def trim_suffix_def has_suffix_def) code_simp?
  have s: "ct_status sample_container \<noteq> Running" by code_simp
  have f: "fs_get backup_host ([''b''] @ [''web-1.tar.gz'']) = Some (FFile 0)" by (simp add: backup_host_def fs_get_def)
  have v: "validate_backup_directory backup_host (be_data_dir sample_backup) (abs_of [''b'']) = Inr (abs_of [''b''])" by code_simp
  show ?thesis
    using backup_deletes_existing_file [OF l s backup_host_ok(1,3,4,5) f v, of no_encryption 5 False] unfolding a by auto
qed

definition two_archives :: container where
  "two_archives = sample_container\<lparr>ct_backup_dir := ''/b'', ct_backup_retention := 1\<rparr>"


section \<open>A restore changes the mode of a directory outside\<close>

text \<open>
  The container has replaced its directory \<open>data\<close> by a link to \<open>/etc\<close>; restoring its backup sets the
  mode of \<open>/etc\<close> on the host, since only the parents of a name are checked for links.
\<close>

definition link_host :: osfs where
  "link_host =
     \<lparr>os_tree = [([''u''], FDir 493), ([''u'', ''data''], FLink ''/etc''), ([''etc''], FDir 493),
        ([''s''], FDir 448), ([''s'', ''data''], FDir 511)],
      os_inodes = [], os_next = 0, os_umask = 18, os_cwd = Some ''/''\<rparr>"

lemma restore_changes_mode_outside:
  "fst (apply_backup_tree (\<lambda>_ _. ''7'') ''/s'' ''/u'' False link_host) = Inr ()
   \<and> fs_get (snd (apply_backup_tree (\<lambda>_ _. ''7'') ''/s'' ''/u'' False link_host)) [''etc''] = Some (FDir 511)"
  by (intro conjI; code_simp)

text \<open>The archives of \<open>web-2\<close> count as archives of \<open>web\<close> where they share a directory.\<close>

lemma prune_takes_other_container:
  "is_backup_of (sample_container\<lparr>ct_name := ''web''\<rparr>) (''web-2-20240101-000000.tar.gz'', FFile 0)"
  by code_simp

end
