(* ===== verification/Capabilities.thy ===== *)
theory Capabilities
  imports GoStrings GoPath "HOL-Library.Word"
begin

text \<open>
  The capabilities a container keeps (\<open>internal/container/init.go\<close>) and the credentials of a process
  as the kernel keeps them. The calls are those of \<open>capabilities(7)\<close>: \<open>capset\<close> may only shrink the
  permitted set, dropping from the bounding set needs \<open>CAP_SETPCAP\<close>, and a change from user 0 to
  another user clears the sets.
\<close>

unbundle bit_operations_syntax

section \<open>Names and numbers\<close>

definition cap_map :: "(string \<times> nat) list" where
  "cap_map =
     [(''CHOWN'', 0), (''DAC_OVERRIDE'', 1), (''DAC_READ_SEARCH'', 2), (''FOWNER'', 3), (''FSETID'', 4), (''KILL'', 5),
      (''SETGID'', 6), (''SETUID'', 7), (''SETPCAP'', 8), (''LINUX_IMMUTABLE'', 9), (''NET_BIND_SERVICE'', 10),
      (''NET_BROADCAST'', 11), (''NET_ADMIN'', 12), (''NET_RAW'', 13), (''IPC_LOCK'', 14), (''IPC_OWNER'', 15),
      (''SYS_MODULE'', 16), (''SYS_RAWIO'', 17), (''SYS_CHROOT'', 18), (''SYS_PTRACE'', 19), (''SYS_PACCT'', 20),
      (''SYS_ADMIN'', 21), (''SYS_BOOT'', 22), (''SYS_NICE'', 23), (''SYS_RESOURCE'', 24), (''SYS_TIME'', 25),
      (''SYS_TTY_CONFIG'', 26), (''MKNOD'', 27), (''LEASE'', 28), (''AUDIT_WRITE'', 29), (''AUDIT_CONTROL'', 30),
      (''SETFCAP'', 31), (''MAC_OVERRIDE'', 32), (''MAC_ADMIN'', 33), (''SYSLOG'', 34), (''WAKE_ALARM'', 35),
      (''BLOCK_SUSPEND'', 36), (''AUDIT_READ'', 37), (''PERFMON'', 38), (''BPF'', 39), (''CHECKPOINT_RESTORE'', 40)]"

definition default_capabilities :: "string list" where
  "default_capabilities =
     [''CHOWN'', ''DAC_OVERRIDE'', ''FOWNER'', ''FSETID'', ''KILL'', ''SETGID'', ''SETUID'', ''SETPCAP'',
      ''NET_BIND_SERVICE'', ''NET_RAW'', ''SYS_CHROOT'', ''MKNOD'', ''AUDIT_WRITE'', ''SETFCAP'']"

text \<open>The prefix is removed before the name is put in upper case.\<close>

definition cap_name :: "string \<Rightarrow> string" where
  "cap_name s = to_upper (trim_prefix s ''CAP_'')"

fun add_caps :: "string list \<Rightarrow> string list \<Rightarrow> string + string list" where
  "add_caps [] keep = Inr keep"
| "add_caps (c # cs) keep =
     (if cap_name c = ''ALL'' then add_caps cs (map fst cap_map @ keep)
      else if map_of cap_map (cap_name c) = None then Inl c
      else add_caps cs (cap_name c # keep))"

fun drop_caps :: "string list \<Rightarrow> string list \<Rightarrow> string list" where
  "drop_caps [] keep = keep"
| "drop_caps (c # cs) keep =
     (if cap_name c = ''ALL'' then drop_caps cs [] else drop_caps cs (filter (\<lambda>n. n \<noteq> cap_name c) keep))"

definition requested_capabilities :: "string list \<Rightarrow> string \<Rightarrow> string list \<Rightarrow> string + string list" where
  "requested_capabilities added user dropped =
     rbind (add_caps added default_capabilities) (\<lambda>keep.
       Inr (drop_caps dropped (if user \<noteq> [] then [''SETUID'', ''SETGID''] @ keep else keep)))"

section \<open>Credentials\<close>

record creds =
  cr_uid :: int
  cr_gid :: int
  cr_eff :: "nat set"
  cr_perm :: "nat set"
  cr_bound :: "nat set"
  cr_nnp :: bool

definition cap_bit :: "nat \<Rightarrow> 32 word \<times> 32 word \<Rightarrow> 32 word \<times> 32 word" where
  "cap_bit v w =
     (if v div 32 = 0 then (fst w OR push_bit (v mod 32) 1, snd w) else (fst w, snd w OR push_bit (v mod 32) 1))"

text \<open>The two words handed to \<open>capset\<close>; a name that is not in the table counts as number 0.\<close>

definition cap_value :: "string \<Rightarrow> nat" where
  "cap_value n = (case map_of cap_map n of None \<Rightarrow> 0 | Some v \<Rightarrow> v)"

definition cap_words :: "string list \<Rightarrow> 32 word \<times> 32 word" where
  "cap_words keep = fold (\<lambda>n. cap_bit (cap_value n)) keep (0, 0)"

definition caps_of_words :: "32 word \<times> 32 word \<Rightarrow> nat set" where
  "caps_of_words w = set (filter (\<lambda>v. if v < 32 then bit (fst w) v else bit (snd w) (v - 32)) [0..<64])"

definition sys_capset :: "32 word \<times> 32 word \<Rightarrow> creds \<Rightarrow> creds option" where
  "sys_capset w cr =
     (if caps_of_words w \<subseteq> cr_perm cr then Some (cr\<lparr>cr_eff := caps_of_words w, cr_perm := caps_of_words w\<rparr>) else None)"

text \<open>
  The options of \<open>prctl\<close> the code names, with the numbers the code gives them, and what the kernel does for a
  number: \<open>0x18\<close> drops a capability of the bounding set and \<open>0x15\<close> asks for the mode of the system call
  filter (\<open>PR_CAPBSET_DROP\<close> and \<open>PR_GET_SECCOMP\<close> of \<open>vendor/golang.org/x/sys/unix/zerrors_linux.go\<close>).
\<close>

definition PR_CAPBSET_DROP :: nat where
  "PR_CAPBSET_DROP = 0x15"

definition PR_SET_NO_NEW_PRIVS :: nat where
  "PR_SET_NO_NEW_PRIVS = 0x26"

definition sys_prctl :: "nat \<Rightarrow> nat \<Rightarrow> creds \<Rightarrow> creds option" where
  "sys_prctl option arg cr =
     (if option = 0x18 then (if 8 \<in> cr_eff cr then Some (cr\<lparr>cr_bound := cr_bound cr - {arg}\<rparr>) else None)
      else if option = 0x26 then (if arg = 1 then Some (cr\<lparr>cr_nnp := True\<rparr>) else None)
      else Some cr)"

text \<open>Identifiers are 32 bits wide, and the largest one is not valid.\<close>

definition kernel_id :: "int \<Rightarrow> int option" where
  "kernel_id i = (if i mod 2 ^ 32 = 2 ^ 32 - 1 then None else Some (i mod 2 ^ 32))"

definition sys_setgid :: "int \<Rightarrow> creds \<Rightarrow> creds option" where
  "sys_setgid g cr =
     (case kernel_id g of
        None \<Rightarrow> None
      | Some v \<Rightarrow> if 6 \<in> cr_eff cr \<or> v = cr_gid cr then Some (cr\<lparr>cr_gid := v\<rparr>) else None)"

definition sys_setuid :: "int \<Rightarrow> creds \<Rightarrow> creds option" where
  "sys_setuid u cr =
     (case kernel_id u of
        None \<Rightarrow> None
      | Some v \<Rightarrow>
          if 7 \<in> cr_eff cr \<or> v = cr_uid cr then
            Some (if cr_uid cr = 0 \<and> v \<noteq> 0 then cr\<lparr>cr_uid := v, cr_eff := {}, cr_perm := {}\<rparr> else cr\<lparr>cr_uid := v\<rparr>)
          else None)"

section \<open>The words and the names\<close>

definition cap_set :: "string list \<Rightarrow> nat set" where
  "cap_set keep = cap_value ` set keep"

lemma cap_map_distinct: "distinct (map fst cap_map)" "distinct (map snd cap_map)"
  by (code_simp, code_simp)

lemma cap_map_small: "list_all (\<lambda>(n, v). v < 41) cap_map"
  by code_simp

lemma cap_value_small: "cap_value n < 64"
  using cap_map_small by (auto simp: cap_value_def list_all_iff split: option.split dest!: map_of_SomeD)

lemma cap_value_inject:
  assumes "map_of cap_map a = Some v" and "map_of cap_map b = Some v"
  shows "a = b"
proof -
  have "(a, v) \<in> set cap_map" "(b, v) \<in> set cap_map" using assms by (auto dest: map_of_SomeD)
  then have "(a, v) = (b, v)" using cap_map_distinct(2) unfolding distinct_map inj_on_def by (metis snd_conv)
  then show ?thesis by simp
qed

lemma bit_one_iff: "j < 32 \<Longrightarrow> bit (push_bit k (1 :: 32 word)) j \<longleftrightarrow> j = k"
  by (auto simp: bit_exp_iff)

lemma caps_of_cap_bit:
  assumes "v < 64"
  shows "caps_of_words (cap_bit v w) = insert v (caps_of_words w)"
proof (cases "v < 32")
  case True
  then show ?thesis
    by (auto simp: caps_of_words_def cap_bit_def bit_or_iff bit_one_iff simp del: push_bit_of_1)
next
  case False
  then have "v div 32 \<noteq> 0" "v mod 32 = v - 32" using assms by (simp_all add: le_mod_geq)
  then show ?thesis using False assms
    by (auto simp: caps_of_words_def cap_bit_def bit_or_iff bit_one_iff simp del: push_bit_of_1)
qed

lemma caps_of_fold: "caps_of_words (fold (\<lambda>n. cap_bit (cap_value n)) keep w) = caps_of_words w \<union> cap_set keep"
  by (induction keep arbitrary: w) (auto simp: caps_of_cap_bit cap_value_small cap_set_def)

text \<open>The two words have exactly the bits of the names.\<close>

lemma caps_of_cap_words [simp]: "caps_of_words (cap_words keep) = cap_set keep"
proof -
  have "caps_of_words (0, 0) = {}" by (simp add: caps_of_words_def)
  then show ?thesis by (simp add: cap_words_def caps_of_fold)
qed

end
