(* ===== verification/Init.thy ===== *)
theory Init
  imports Capabilities Create NetPlumbing
begin

text \<open>
  The init process of a container (\<open>InitContainer\<close> of \<open>internal/container/init.go\<close>, \<open>dev_restrictions.go\<close>):
  what it does in the new namespaces until it executes the container's command. It is a sequence of
  system calls, each recorded with the credentials it was made with. What a call needs of the
  credentials is in \<open>Capabilities\<close>; whether the kernel agrees otherwise is the parameter \<open>ie_ok\<close>.
\<close>

section \<open>Calls\<close>

datatype init_call =
    CHostname string | CChdir string | CMkdir string int | CPivot string string | CUnmount string | CRemoveAll string | CRemove string
  | CMount string string string | CWrite string string | CBind string | CRemountReadOnly string | CChmod string int
  | CRun "string list" | CSymlink string string | CChown string int int | CChownTree string int int | CChmodTree string int
  | CCapset "32 word \<times> 32 word" | CPrctl nat nat | CSetgid int | CSetuid int | CRemountRoot
  | CRlimit nat nat nat | CSeccomp nat | CStartup string "string list" | CExec string "string list" "string list"

datatype init_err =
    CallFailed init_call | UnknownCapability string | SysctlRefused string | NotLoaded | BadHandshake | NotReleased
  | BadImageConfig | IndexPanic

type_synonym init_log = "(creds \<times> init_call) list"
type_synonym init_state = "creds \<times> init_log"
type_synonym 'a init_result = "(init_err + 'a) \<times> init_state"

text \<open>
  What the init process meets: the kernel's answers, the paths that exist after the calls so far, the
  image's configuration (environment, working directory, user), \<open>/etc/passwd\<close>, where a program is found
  for a search path, what \<open>ip addr\<close> prints at each attempt, and the order in which the table of
  capabilities is gone through. A path that cannot be looked at for another reason than that it is missing is left out.
\<close>

record init_env =
  ie_ok :: "creds \<Rightarrow> init_call \<Rightarrow> bool"
  ie_exists :: "init_log \<Rightarrow> string \<Rightarrow> bool"
  ie_config :: "(string list \<times> string \<times> string) option"
  ie_passwd :: "string option"
  ie_look_path :: "string \<Rightarrow> string \<Rightarrow> string option"
  ie_addr :: "nat \<Rightarrow> string"
  ie_path :: string
  ie_cap_order :: "(string \<times> nat) list"

text \<open>
  The part of a call that concerns the credentials. Mounting and the name of the host need \<open>CAP_SYS_ADMIN\<close>,
  which has number 21; a system call filter has between 1 and 4096 instructions (\<open>seccomp(2)\<close>).
\<close>

fun needs_admin :: "init_call \<Rightarrow> bool" where
  "needs_admin (CHostname h) = True"
| "needs_admin (CPivot new old) = True"
| "needs_admin (CUnmount d) = True"
| "needs_admin (CMount what d fs) = True"
| "needs_admin (CBind d) = True"
| "needs_admin (CRemountReadOnly d) = True"
| "needs_admin CRemountRoot = True"
| "needs_admin call = False"

fun kernel_creds :: "init_call \<Rightarrow> creds \<Rightarrow> creds option" where
  "kernel_creds (CCapset w) cr = sys_capset w cr"
| "kernel_creds (CPrctl option arg) cr = sys_prctl option arg cr"
| "kernel_creds (CSetgid g) cr = sys_setgid g cr"
| "kernel_creds (CSetuid u) cr = sys_setuid u cr"
| "kernel_creds (CSeccomp n) cr = (if 0 < n \<and> n \<le> 4096 \<and> (cr_nnp cr \<or> 21 \<in> cr_eff cr) then Some cr else None)"
| "kernel_creds call cr = (if needs_admin call \<and> 21 \<notin> cr_eff cr then None else Some cr)"

definition do_call :: "init_env \<Rightarrow> init_call \<Rightarrow> init_state \<Rightarrow> unit init_result" where
  "do_call ie call st =
     (case kernel_creds call (fst st) of
        Some cr \<Rightarrow>
          if ie_ok ie (fst st) call then (Inr (), (cr, snd st @ [(fst st, call)]))
          else (Inl (CallFailed call), (fst st, snd st @ [(fst st, call)]))
      | None \<Rightarrow> (Inl (CallFailed call), (fst st, snd st @ [(fst st, call)])))"

definition init_bind :: "'a init_result \<Rightarrow> ('a \<Rightarrow> init_state \<Rightarrow> 'b init_result) \<Rightarrow> 'b init_result" where
  "init_bind r k = (case r of (Inl e, st) \<Rightarrow> (Inl e, st) | (Inr x, st) \<Rightarrow> k x st)"

text \<open>Calls that must succeed, and calls whose failure is only reported.\<close>

fun do_all :: "init_env \<Rightarrow> init_call list \<Rightarrow> init_state \<Rightarrow> unit init_result" where
  "do_all ie [] st = (Inr (), st)"
| "do_all ie (call # calls) st = init_bind (do_call ie call st) (\<lambda>_. do_all ie calls)"

definition try_all :: "init_env \<Rightarrow> init_call list \<Rightarrow> init_state \<Rightarrow> init_state" where
  "try_all ie calls st = fold (\<lambda>call s. snd (do_call ie call s)) calls st"

section \<open>The handshake with the parent\<close>

text \<open>The values of the two variables, whether the descriptors can be opened and written, and the line read.\<close>

definition wait_for_network_setup :: "string \<Rightarrow> string \<Rightarrow> bool \<Rightarrow> bool \<Rightarrow> string option \<Rightarrow> init_err + unit" where
  "wait_for_network_setup ready go open_ok write_ok line =
     (if trim_space ready = [] \<and> trim_space go = [] then Inr ()
      else case (parse_int64 (trim_space ready), parse_int64 (trim_space go)) of
        (Some r, Some g) \<Rightarrow>
          if r < 0 \<or> g < 0 \<or> \<not> open_ok \<or> \<not> write_ok then Inl BadHandshake
          else (case line of
             None \<Rightarrow> Inl BadHandshake
           | Some l \<Rightarrow> if trim_space l \<noteq> ''go'' then Inl NotReleased else Inr ())
      | _ \<Rightarrow> Inl BadHandshake)"

section \<open>The root file system\<close>

definition pivot_calls :: "string \<Rightarrow> string \<Rightarrow> init_call list" where
  "pivot_calls hostname merged =
     (let old = path_join [merged, ''.old_root''] in
      [CHostname hostname, CChdir merged, CMkdir old 448, CPivot merged old, CChdir ''/'', CUnmount ''/.old_root'',
       CRemoveAll ''/.old_root''])"

definition mount_points :: "init_call list" where
  "mount_points =
     [CMkdir ''/proc'' 493, CMkdir ''/dev'' 493, CMkdir ''/sys'' 493, CMkdir ''/dev/pts'' 493, CMkdir ''/tmp'' 1023]"

definition mount_kernel :: "init_env \<Rightarrow> init_state \<Rightarrow> unit init_result" where
  "mount_kernel ie st =
     init_bind (do_call ie (CMount ''proc'' ''/proc'' ''proc'') st) (\<lambda>_ st1.
     init_bind (do_call ie (CMount ''sysfs'' ''/sys'' ''sysfs'')
         (try_all ie [CMount ''devtmpfs'' ''/dev'' ''devtmpfs''] st1)) (\<lambda>_ st2.
       (Inr (), try_all ie [CMount ''devpts'' ''/dev/pts'' ''devpts''] st2)))"

text \<open>\<open>lower_char\<close> is \<open>strings.ToLower\<close> of ASCII letters; no other letter has a lower case that the check looks for.\<close>

definition allowed_container_sysctl :: "string \<Rightarrow> bool" where
  "allowed_container_sysctl name =
     (let n = map lower_char (trim_space name) in
      has_prefix n ''net.'' \<and> slash \<notin> set n \<and> backslash \<notin> set n
      \<and> list_all (\<lambda>part. part \<noteq> [] \<and> part \<noteq> ''.'' \<and> part \<noteq> ''..'') (split_byte (CHR ''.'') n))"

definition sysctl_path :: "string \<Rightarrow> string" where
  "sysctl_path k = ''/proc/sys/'' @ map (\<lambda>c. if c = CHR ''.'' then slash else c) k"

fun apply_sysctls :: "init_env \<Rightarrow> (string \<times> string) list \<Rightarrow> init_state \<Rightarrow> unit init_result" where
  "apply_sysctls ie [] st = (Inr (), st)"
| "apply_sysctls ie ((k, v) # kvs) st =
     (if \<not> allowed_container_sysctl k then (Inl (SysctlRefused k), st)
      else init_bind (do_call ie (CWrite (sysctl_path k) v) st) (\<lambda>_. apply_sysctls ie kvs))"

definition readonly_remounts :: "init_call list" where
  "readonly_remounts = [CBind ''/proc/sys'', CRemountReadOnly ''/proc/sys'', CBind ''/sys'', CRemountReadOnly ''/sys'']"

section \<open>The network interfaces\<close>

definition loopback_up :: "init_env \<Rightarrow> init_state \<Rightarrow> init_state" where
  "loopback_up ie st =
     (case ie_look_path ie (ie_path ie) ''ip'' of
        Some ip \<Rightarrow> try_all ie [CRun [ip, ''link'', ''set'', ''lo'', ''up'']] st
      | None \<Rightarrow>
          (case ie_look_path ie (ie_path ie) ''ifconfig'' of
             Some ifconfig \<Rightarrow> try_all ie [CRun [ifconfig, ''lo'', ''up'']] st
           | None \<Rightarrow> st))"

text \<open>At most \<open>n\<close> attempts, of which \<open>i\<close> have been made.\<close>

fun wait_for_eth0 :: "init_env \<Rightarrow> nat \<Rightarrow> nat \<Rightarrow> init_state \<Rightarrow> init_state" where
  "wait_for_eth0 ie 0 i st = st"
| "wait_for_eth0 ie (Suc n) i st =
     (let st1 = try_all ie [CRun [''ip'', ''addr'', ''show'', ''eth0'']] st in
      if ie_addr ie i \<noteq> [] \<and> \<not> str_contains (ie_addr ie i) ''NO-CARRIER'' \<and> str_contains (ie_addr ie i) ''inet ''
      then try_all ie [CRun [''ip'', ''link'', ''set'', ''eth0'', ''up'']] st1
      else wait_for_eth0 ie n (Suc i) st1)"

definition interfaces_up :: "init_env \<Rightarrow> string \<Rightarrow> init_state \<Rightarrow> init_state" where
  "interfaces_up ie mode st =
     (let st1 = loopback_up ie st in
      if mode \<noteq> ''none'' \<and> mode \<noteq> ''host'' \<and> ie_look_path ie (ie_path ie) ''ip'' \<noteq> None
      then wait_for_eth0 ie 50 0 st1 else st1)"

section \<open>Files of the root\<close>

definition usr_merge_one :: "init_env \<Rightarrow> string \<times> string \<Rightarrow> init_state \<Rightarrow> init_state" where
  "usr_merge_one ie lt st =
     (if \<not> ie_exists ie (snd st) (fst lt) \<and> ie_exists ie (snd st) (snd lt)
      then try_all ie [CSymlink (snd lt) (fst lt)] st else st)"

definition ensure_usr_merge :: "init_env \<Rightarrow> init_state \<Rightarrow> init_state" where
  "ensure_usr_merge ie st =
     fold (usr_merge_one ie) [(''/bin'', ''/usr/bin''), (''/sbin'', ''/usr/sbin''), (''/lib'', ''/usr/lib''), (''/lib64'', ''/usr/lib64'')] st"

definition newline :: string where
  "newline = [CHR 0x0A]"

definition resolv_conf :: "string list option \<Rightarrow> string" where
  "resolv_conf dns =
     (case dns of
        Some (d # ds) \<Rightarrow> concat (map (\<lambda>x. ''nameserver '' @ x @ newline) (d # ds))
      | _ \<Rightarrow> ''nameserver 8.8.8.8'' @ newline @ ''nameserver 8.8.4.4'' @ newline)"

section \<open>Environment and working directory\<close>

definition add_default :: "string \<Rightarrow> string \<Rightarrow> string list \<Rightarrow> string list" where
  "add_default name dflt env =
     (if list_ex (\<lambda>e. has_prefix e (name @ ''='')) env then env else env @ [name @ ''='' @ dflt])"

definition default_path :: string where
  "default_path = ''/usr/local/sbin:/usr/local/bin:/usr/sbin:/usr/bin:/sbin:/bin''"

definition base_env :: "string list \<Rightarrow> string list \<Rightarrow> string list" where
  "base_env image_env env =
     add_default ''TERM'' ''xterm'' (add_default ''HOME'' ''/root'' (add_default ''PATH'' default_path (image_env @ env)))"

text \<open>The characters around a word of the startup script.\<close>

definition script_quotes :: "char set" where
  "script_quotes = {CHR 0x5C, CHR 0x22, CHR 0x27, CHR 0x60, CHR '';'', CHR '','', CHR ''('', CHR '')'', CHR ''['', CHR '']'', CHR ''{'', CHR ''}''}"

fun script_dir :: "(string \<Rightarrow> bool) \<Rightarrow> volume_mount list \<Rightarrow> string \<Rightarrow> string list \<Rightarrow> string" where
  "script_dir present vols current [] = []"
| "script_dir present vols current (token # tokens) =
     (let cand = trim_bytes token script_quotes in
      if cand = [] \<or> has_prefix cand ''-'' \<or> has_prefix cand [slash] \<or> CHR ''.'' \<notin> set cand
      then script_dir present vols current tokens
      else if present (path_join [current, cand]) then []
      else case find (\<lambda>v. has_prefix (vm_target v) [slash] \<and> vm_target v \<noteq> [slash] \<and> present (path_join [vm_target v, cand])) vols of
        Some v \<Rightarrow> vm_target v
      | None \<Rightarrow> script_dir present vols current tokens)"

definition startup_mounted_working_dir :: "(string \<Rightarrow> bool) \<Rightarrow> volume_mount list \<Rightarrow> string \<Rightarrow> string \<Rightarrow> string" where
  "startup_mounted_working_dir present vols script current =
     (if vols = [] then [] else script_dir present vols current (str_fields script))"

definition init_working_dir :: "init_env \<Rightarrow> init_log \<Rightarrow> string \<Rightarrow> container \<Rightarrow> container_more \<Rightarrow> string" where
  "init_working_dir ie log img_dir c m =
     (let wd = (if ct_working_dir c \<noteq> [] then ct_working_dir c else img_dir);
          cand = startup_mounted_working_dir (ie_exists ie log) (cm_volumes m) (cm_startup m) wd in
      if wd = ''/home/container'' \<and> cm_startup m \<noteq> [] \<and> cand \<noteq> [] then cand else wd)"

definition enter_working_dir :: "init_env \<Rightarrow> string \<Rightarrow> init_state \<Rightarrow> unit init_result" where
  "enter_working_dir ie wd st = (if wd = [] then (Inr (), st) else do_all ie [CMkdir wd 493, CChdir wd] st)"

section \<open>Owners of volumes\<close>

text \<open>\<open>strconv.Atoi\<close> with its error ignored; only the value at the range's ends is left out.\<close>

definition atoi_or_zero :: "string \<Rightarrow> int" where
  "atoi_or_zero s = (case parse_int64 s of None \<Rightarrow> 0 | Some v \<Rightarrow> v)"

text \<open>The first line of \<open>/etc/passwd\<close> for a name. A line of three fields has no fourth to be read.\<close>

definition passwd_line :: "string \<Rightarrow> string \<Rightarrow> string list option" where
  "passwd_line name data =
     find (\<lambda>fs. 3 \<le> length fs \<and> hd fs = name) (map (split_byte (CHR '':'')) (split_byte (CHR 0x0A) data))"

definition volume_owner :: "string option \<Rightarrow> string \<Rightarrow> init_err + (int \<times> int)" where
  "volume_owner passwd user =
     (let parts = split_byte (CHR '':'') user;
          gid = (if length parts = 2 then atoi_or_zero (parts ! 1) else 0) in
      case parse_int64 (hd parts) of
        Some uid \<Rightarrow> Inr (uid, gid)
      | None \<Rightarrow>
          (case Option.bind passwd (passwd_line (hd parts)) of
             None \<Rightarrow> Inr (0, gid)
           | Some fs \<Rightarrow>
               if length parts = 1 then (if length fs = 3 then Inl IndexPanic else Inr (atoi_or_zero (fs ! 2), atoi_or_zero (fs ! 3)))
               else Inr (atoi_or_zero (fs ! 2), gid)))"

fun fix_volumes :: "init_env \<Rightarrow> string \<Rightarrow> volume_mount list \<Rightarrow> init_state \<Rightarrow> unit init_result" where
  "fix_volumes ie user [] st = (Inr (), st)"
| "fix_volumes ie user (v # vs) st =
     (if user = [] then fix_volumes ie user vs (try_all ie [CChmod (vm_target v) 511, CChmodTree (vm_target v) 511] st)
      else case volume_owner (ie_passwd ie) user of
        Inl e \<Rightarrow> (Inl e, st)
      | Inr (uid, gid0) \<Rightarrow>
          (let gid = (if gid0 = 0 then uid else gid0) in
           fix_volumes ie user vs
             (if 0 < uid then try_all ie [CChown (vm_target v) uid gid, CChownTree (vm_target v) uid gid] st else st)))"

section \<open>Devices\<close>

definition mount_with_fallback :: "init_env \<Rightarrow> string list \<Rightarrow> string list \<Rightarrow> init_state \<Rightarrow> unit init_result" where
  "mount_with_fallback ie args fallback st =
     (case do_call ie (CRun args) st of
        (Inr _, st1) \<Rightarrow> (Inr (), st1)
      | (Inl _, st1) \<Rightarrow> do_call ie (CRun fallback) st1)"

definition restrict_dev_shm :: "init_env \<Rightarrow> string \<Rightarrow> init_state \<Rightarrow> unit init_result" where
  "restrict_dev_shm ie merged st =
     (let d = merged @ ''/dev/shm'' in
      init_bind (do_call ie (CMkdir d 1023) st) (\<lambda>_.
        mount_with_fallback ie [''mount'', ''-t'', ''tmpfs'', ''-o'', ''size=64M,mode=1777,noexec,nosuid,nodev'', ''tmpfs'', d]
          [''mount'', ''-t'', ''tmpfs'', ''-o'', ''size=64M,mode=1777,nosuid,nodev'', ''tmpfs'', d]))"

definition restrict_dev_mqueue :: "init_env \<Rightarrow> string \<Rightarrow> init_state \<Rightarrow> unit init_result" where
  "restrict_dev_mqueue ie merged st =
     (let d = merged @ ''/dev/mqueue'' in
      init_bind (do_call ie (CMkdir d 1023) st) (\<lambda>_.
        mount_with_fallback ie [''mount'', ''-t'', ''mqueue'', ''-o'', ''mode=1777,noexec,nosuid,nodev'', ''mqueue'', d]
          [''mount'', ''-t'', ''mqueue'', ''mqueue'', d]))"

definition remount_tree :: "init_env \<Rightarrow> string \<Rightarrow> init_state \<Rightarrow> unit init_result" where
  "remount_tree ie d st =
     (if \<not> ie_exists ie (snd st) d then (Inr (), st)
      else do_all ie [CRun [''mount'', ''--bind'', d, d], CRun [''mount'', ''--bind'', ''-o'', ''remount,ro'', d, d]] st)"

definition apply_device_restrictions :: "init_env \<Rightarrow> string \<Rightarrow> init_state \<Rightarrow> init_state" where
  "apply_device_restrictions ie merged st =
     snd (remount_tree ie (merged @ ''/sys'') (snd (remount_tree ie (merged @ ''/proc/sys'')
       (snd (restrict_dev_mqueue ie merged (snd (restrict_dev_shm ie merged st)))))))"

section \<open>Privileges\<close>

definition drop_unkept :: "(string \<times> nat) list \<Rightarrow> string list \<Rightarrow> init_call list" where
  "drop_unkept order keep = map (\<lambda>(n, v). CPrctl PR_CAPBSET_DROP v) (filter (\<lambda>(n, v). n \<notin> set keep) order)"

definition apply_capabilities :: "init_env \<Rightarrow> container_more \<Rightarrow> init_state \<Rightarrow> unit init_result" where
  "apply_capabilities ie m st =
     (case requested_capabilities (cm_cap_add m) (cm_user m) (cm_cap_drop m) of
        Inl c \<Rightarrow> (Inl (UnknownCapability c), st)
      | Inr keep \<Rightarrow> do_all ie (CCapset (cap_words keep) # drop_unkept (ie_cap_order ie) keep) st)"

text \<open>A user that is not a number is passed over.\<close>

definition switch_user_calls :: "string \<Rightarrow> init_call list" where
  "switch_user_calls user =
     (if user = [] then []
      else
        let parts = split_byte (CHR '':'') user;
            gid = (if length parts = 2 then atoi_or_zero (parts ! 1) else 0) in
        case parse_int64 (hd parts) of
          None \<Rightarrow> []
        | Some uid \<Rightarrow> (if 0 < gid then [CSetgid gid] else []) @ [CSetuid uid])"

definition rlimit_number :: "string \<Rightarrow> nat option" where
  "rlimit_number name =
     map_of [(''NOFILE'', 7), (''NPROC'', 6), (''CORE'', 4), (''STACK'', 3), (''FSIZE'', 1), (''DATA'', 2), (''AS'', 9),
        (''MEMLOCK'', 8), (''RSS'', 5), (''RTPRIO'', 14), (''RTTIME'', 15), (''SIGPENDING'', 11), (''MSGQUEUE'', 12), (''NICE'', 13)]
       (to_upper name)"

definition ulimit_calls :: "ulimit list \<Rightarrow> init_call list" where
  "ulimit_calls us =
     concat (map (\<lambda>u. case rlimit_number (ul_name u) of None \<Rightarrow> [] | Some r \<Rightarrow> [CRlimit r (ul_soft u) (ul_hard u)]) us)"

section \<open>The command\<close>

text \<open>\<open>FormatFloat\<close> with format \<open>'f'\<close> and the least digits.\<close>

definition fixed_str :: "cpus \<Rightarrow> string" where
  "fixed_str x =
     (let ds = nat_str (nat \<bar>fst x\<bar>); e = snd x; n = int (length ds) + e in
      (if fst x < 0 then ''-'' else [])
      @ (if 0 \<le> e then ds @ replicate (nat e) (CHR ''0'')
         else if 0 < n then point (take (nat n) ds) (drop (nat n) ds)
         else point ''0'' (replicate (nat (- n)) (CHR ''0'') @ ds)))"

definition dck_variables :: "container \<Rightarrow> container_more \<Rightarrow> string list" where
  "dck_variables c m =
     [''DCK_CONTAINER_ID='' @ ct_id c, ''DCK_CONTAINER_NAME='' @ ct_name c, ''DCK_IMAGE_NAME='' @ ct_image c,
      ''DCK_IMAGE_TAG='' @ ct_tag c, ''DCK_HOSTNAME='' @ ct_hostname c, ''DCK_MEMORY='' @ int_str (cm_memory m),
      ''DCK_CPU='' @ fixed_str (cm_cpus m), ''DCK_IP='' @ ct_ip c, ''DCK_RESTART='' @ ct_restart c]
     @ map (\<lambda>p. ''DCK_PORT_'' @ to_upper (pm_protocol p) @ ''_'' @ int_str (pm_host_port p) @ ''='' @ int_str (pm_container_port p)) (ct_ports c)"

text \<open>
  \<open>exec.Cmd\<close> keeps the last value of a variable that is set twice, and every entry without \<open>=\<close> that is not
  empty. An entry with a zero byte is left out of the model.
\<close>

definition env_key :: "string \<Rightarrow> string option" where
  "env_key e =
     (let name = takeWhile (\<lambda>c. c \<noteq> CHR ''='') e in
      if CHR ''='' \<notin> set e then None
      else if name = [] \<and> CHR ''='' \<in> set (tl e) then Some (CHR ''='' # takeWhile (\<lambda>c. c \<noteq> CHR ''='') (tl e))
      else Some name)"

fun dedup_env :: "string list \<Rightarrow> string list" where
  "dedup_env [] = []"
| "dedup_env (e # es) =
     (if e = [] \<or> env_key e \<noteq> None \<and> list_ex (\<lambda>x. env_key x = env_key e) es then dedup_env es else e # dedup_env es)"

definition dck_scripts :: "(string \<times> string) list" where
  "dck_scripts =
     (let doc = \<lambda>ls. concat (map (\<lambda>l. l @ newline) ls) in
      [(''info'', doc
         [''#!/bin/sh'', ''echo \"=== Container Info ===\"'', ''echo \"ID:       $DCK_CONTAINER_ID\"'',
          ''echo \"Name:     $DCK_CONTAINER_NAME\"'', ''echo \"Image:    $DCK_IMAGE_NAME:$DCK_IMAGE_TAG\"'',
          ''echo \"Hostname: $DCK_HOSTNAME\"'', ''echo \"IP:       $DCK_IP\"'', ''echo \"Memory:   $DCK_MEMORY\"'',
          ''echo \"CPU:      $DCK_CPU\"'', ''echo \"Restart:  $DCK_RESTART\"'', ''echo \"Ports:\"'',
          ''env | grep ^DCK_PORT_ | while IFS='=' read -r k v; do echo \"  $k=$v\"; done'']),
       (''env'', doc
         [''#!/bin/sh'', ''env | grep ^DCK_ | sort | while IFS='=' read -r k v; do echo \"$k=$v\"; done'']),
       (''help'', doc
         [''#!/bin/sh'', ''echo \"Available dck utility scripts:\"'',
          ''echo \"  /dck/info  - Show container information\"'',
          ''echo \"  /dck/env   - Show dck environment variables\"'', ''echo \"  /dck/help  - Show this help\"'',
          ''echo \"\"'', ''echo \"Environment variables available:\"'',
          ''echo \"  DCK_CONTAINER_ID   - Container ID\"'', ''echo \"  DCK_CONTAINER_NAME - Container name\"'',
          ''echo \"  DCK_IMAGE_NAME     - Image name\"'', ''echo \"  DCK_IMAGE_TAG      - Image tag\"'',
          ''echo \"  DCK_HOSTNAME       - Container hostname\"'', ''echo \"  DCK_IP             - Container IP address\"'',
          ''echo \"  DCK_MEMORY         - Memory limit (bytes)\"'', ''echo \"  DCK_CPU            - CPU limit (cores)\"'',
          ''echo \"  DCK_RESTART        - Restart policy\"'', ''echo \"  DCK_PORT_TCP_*     - Port mappings (TCP)\"'',
          ''echo \"  DCK_PORT_UDP_*     - Port mappings (UDP)\"''])])"

definition script_calls :: "(string \<times> string) list \<Rightarrow> init_call list" where
  "script_calls scripts = map (\<lambda>(n, d). CWrite (''/dck/'' @ n) d) scripts"

definition search_path :: "string list \<Rightarrow> string" where
  "search_path env = (case find (\<lambda>e. has_prefix e ''PATH='') env of None \<Rightarrow> default_path | Some e \<Rightarrow> drop 5 e)"

definition command_call :: "init_env \<Rightarrow> init_log \<Rightarrow> string list \<Rightarrow> string list \<Rightarrow> init_call option" where
  "command_call ie log cmd env =
     (case cmd of
        [] \<Rightarrow> None
      | p # args \<Rightarrow>
          if ie_exists ie log p then Some (CExec p cmd env)
          else case ie_look_path ie (search_path env) p of
            None \<Rightarrow> Some (CExec p cmd env)
          | Some found \<Rightarrow> Some (CExec found (found # args) env))"

definition run_command :: "init_env \<Rightarrow> container \<Rightarrow> container_more \<Rightarrow> string list \<Rightarrow> init_state \<Rightarrow> unit init_result" where
  "run_command ie c m env st =
     init_bind (do_all ie (script_calls dck_scripts) (try_all ie [CMkdir ''/dck'' 493] st)) (\<lambda>_ st1.
     init_bind (if cm_startup m = [] then (Inr (), st1)
                else do_all ie [CWrite ''/startup.sh'' (cm_startup m), CStartup ''/startup.sh'' (dedup_env env)] st1) (\<lambda>_ st2.
       case command_call ie (snd st2) (ct_cmd c) env of
         None \<Rightarrow> (Inl IndexPanic, st2)
       | Some call \<Rightarrow> do_call ie call st2))"

section \<open>Restrictions that nothing calls\<close>

definition restrict_mount_operations :: "init_env \<Rightarrow> init_state \<Rightarrow> unit init_result" where
  "restrict_mount_operations ie st = do_call ie (CPrctl 0x38 1) st"

definition drop_capability :: "init_env \<Rightarrow> string \<Rightarrow> init_state \<Rightarrow> unit init_result" where
  "drop_capability ie name st =
     (let up = to_upper name;
          full = (if has_prefix up ''CAP_'' then up else ''CAP_'' @ up);
          n = trim_prefix full ''CAP_'' in
      case map_of cap_map n of
        None \<Rightarrow> (Inl (UnknownCapability n), st)
      | Some v \<Rightarrow> do_call ie (CPrctl PR_CAPBSET_DROP v) st)"

definition drop_all_capabilities :: "init_env \<Rightarrow> init_state \<Rightarrow> unit init_result" where
  "drop_all_capabilities ie st = do_all ie (map (\<lambda>(n, v). CPrctl PR_CAPBSET_DROP v) (ie_cap_order ie)) st"

definition restrict_one_device :: "init_env \<Rightarrow> string \<Rightarrow> string \<Rightarrow> init_state \<Rightarrow> init_state" where
  "restrict_one_device ie merged device st =
     (if ie_exists ie (snd st) (merged @ device) then try_all ie [CRemove (merged @ device)] st else st)"

definition restrict_sensitive_devices :: "init_env \<Rightarrow> string \<Rightarrow> init_state \<Rightarrow> unit init_result" where
  "restrict_sensitive_devices ie merged st =
     init_bind (do_call ie (CMkdir (merged @ ''/dev'') 493) st) (\<lambda>_ st1.
       (Inr (), fold (restrict_one_device ie merged)
          [''/dev/mem'', ''/dev/kmem'', ''/dev/sda'', ''/dev/sda1'', ''/dev/nvme0n1'', ''/dev/vda'']
          (try_all ie [CRun [''mount'', ''-t'', ''devtmpfs'', ''devtmpfs'', merged @ ''/dev'']] st1)))"

section \<open>All of it\<close>

definition restrict_process :: "init_env \<Rightarrow> container_more \<Rightarrow> init_state \<Rightarrow> unit init_result" where
  "restrict_process ie m st =
     init_bind (apply_capabilities ie m (apply_device_restrictions ie [slash] st)) (\<lambda>_ st1.
     init_bind (do_all ie (switch_user_calls (cm_user m) @ [CPrctl PR_SET_NO_NEW_PRIVS 1] @ (if cm_readonly m then [CRemountRoot] else [])) st1)
       (\<lambda>_ st2. (Inr (), try_all ie (ulimit_calls (cm_ulimits m)) st2)))"

definition prepare_root :: "init_env \<Rightarrow> string \<Rightarrow> container \<Rightarrow> container_more \<Rightarrow> init_state \<Rightarrow> unit init_result" where
  "prepare_root ie merged c m st =
     init_bind (do_all ie (pivot_calls (ct_hostname c) merged) st) (\<lambda>_ st1.
     init_bind (mount_kernel ie (try_all ie mount_points st1)) (\<lambda>_ st2.
     init_bind (apply_sysctls ie (cm_sysctls m) st2) (\<lambda>_ st3.
     init_bind (do_all ie readonly_remounts st3) (\<lambda>_ st4.
       do_call ie (CWrite ''/etc/resolv.conf'' (resolv_conf (ct_dns c)))
         (ensure_usr_merge ie (interfaces_up ie (ct_network_mode c) (try_all ie [CChmod ''/tmp'' 1023] st4)))))))"

definition init_container ::
  "init_env \<Rightarrow> string \<Rightarrow> container option \<Rightarrow> container_more \<Rightarrow> init_err + unit \<Rightarrow> init_state \<Rightarrow> unit init_result" where
  "init_container ie merged loaded m handshake st =
     (case (loaded, handshake) of
        (None, _) \<Rightarrow> (Inl NotLoaded, st)
      | (Some c, Inl e) \<Rightarrow> (Inl e, st)
      | (Some c, Inr _) \<Rightarrow>
          init_bind (prepare_root ie merged c m st) (\<lambda>_ st1.
            case ie_config ie of
              None \<Rightarrow> (Inl BadImageConfig, st1)
            | Some (image_env, img_dir, image_user) \<Rightarrow>
                let env = base_env image_env (cm_env m);
                    user = (if image_user = [] then cm_user m else image_user) in
                init_bind (enter_working_dir ie (init_working_dir ie (snd st1) img_dir c m) st1) (\<lambda>_ st2.
                init_bind (fix_volumes ie user (cm_volumes m) st2) (\<lambda>_ st3.
                init_bind (restrict_process ie m st3) (\<lambda>_ st4.
                  run_command ie c m (env @ dck_variables c m) st4)))))"

end
