(* ===== verification/InitEffects.thy ===== *)
theory InitEffects
  imports Init
begin

text \<open>
  What the stages of \<open>Init\<close> keep, proved once for every invariant of the state that single calls keep.
\<close>

section \<open>Invariants of the calls\<close>

locale init_invariant =
  fixes I :: "init_state \<Rightarrow> bool"
    and Q :: "init_call \<Rightarrow> bool"
  assumes I_call: "Q call \<Longrightarrow> I st \<Longrightarrow> I (snd (do_call ie call st))"
begin

lemma inv_bind:
  assumes "I (snd r)" and "\<And>x st'. r = (Inr x, st') \<Longrightarrow> I st' \<Longrightarrow> I (snd (k x st'))"
  shows "I (snd (init_bind r k))"
proof -
  obtain e st' where r: "r = (e, st')" by (cases r)
  show ?thesis using assms r by (cases e) (simp_all add: init_bind_def)
qed

lemma inv_do_all: "list_all Q calls \<Longrightarrow> I st \<Longrightarrow> I (snd (do_all ie calls st))"
  by (induction calls arbitrary: st) (auto intro!: inv_bind I_call)

lemma inv_try_all: "list_all Q calls \<Longrightarrow> I st \<Longrightarrow> I (try_all ie calls st)"
  by (induction calls arbitrary: st) (simp_all add: try_all_def I_call)

end

text \<open>The calls that leave the credentials as they are.\<close>

fun plain_call :: "init_call \<Rightarrow> bool" where
  "plain_call (CCapset w) = False"
| "plain_call (CPrctl option arg) = False"
| "plain_call (CSetgid g) = False"
| "plain_call (CSetuid u) = False"
| "plain_call (CSeccomp n) = False"
| "plain_call call = True"

fun program_call :: "init_call \<Rightarrow> bool" where
  "program_call (CStartup p env) = True"
| "program_call (CExec p args env) = True"
| "program_call call = False"

definition quiet :: "init_call list \<Rightarrow> bool" where
  "quiet calls = list_all (\<lambda>c. plain_call c \<and> \<not> program_call c) calls"

text \<open>Everything before the device restrictions and the capabilities.\<close>

definition before_restrictions :: "init_env \<Rightarrow> string \<Rightarrow> container \<Rightarrow> container_more \<Rightarrow> init_state \<Rightarrow> unit init_result" where
  "before_restrictions ie merged c m st =
     init_bind (prepare_root ie merged c m st) (\<lambda>_ st1.
       case ie_config ie of
         None \<Rightarrow> (Inl BadImageConfig, st1)
       | Some (image_env, img_dir, image_user) \<Rightarrow>
           init_bind (enter_working_dir ie (init_working_dir ie (snd st1) img_dir c m) st1) (\<lambda>_.
             fix_volumes ie (if image_user = [] then cm_user m else image_user) (cm_volumes m)))"

locale plain_invariant = init_invariant +
  assumes plain: "plain_call call \<Longrightarrow> \<not> program_call call \<Longrightarrow> Q call"
begin

lemma inv_all: "quiet calls \<Longrightarrow> I st \<Longrightarrow> I (snd (do_all ie calls st))"
  by (rule inv_do_all) (auto simp: quiet_def list_all_iff plain)

lemma inv_try: "quiet calls \<Longrightarrow> I st \<Longrightarrow> I (try_all ie calls st)"
  by (rule inv_try_all) (auto simp: quiet_def list_all_iff plain)

lemma inv_one: "quiet [call] \<Longrightarrow> I st \<Longrightarrow> I (snd (do_call ie call st))"
  by (rule I_call) (simp_all add: quiet_def plain)

lemma inv_mount_kernel: "I st \<Longrightarrow> I (snd (mount_kernel ie st))"
  unfolding mount_kernel_def
  by (intro inv_bind inv_one) (simp_all add: inv_try quiet_def)

lemma inv_apply_sysctls: "I st \<Longrightarrow> I (snd (apply_sysctls ie kvs st))"
  by (induction ie kvs st rule: apply_sysctls.induct) (auto intro!: inv_bind inv_one simp: quiet_def)

lemma inv_loopback_up: "I st \<Longrightarrow> I (loopback_up ie st)"
  by (simp add: loopback_up_def inv_try quiet_def split: option.split)

lemma inv_wait_for_eth0: "I st \<Longrightarrow> I (wait_for_eth0 ie n i st)"
  by (induction n arbitrary: i st) (simp_all add: Let_def inv_try quiet_def)

lemma inv_interfaces_up: "I st \<Longrightarrow> I (interfaces_up ie mode st)"
  by (simp add: interfaces_up_def Let_def inv_loopback_up inv_wait_for_eth0)

lemma inv_usr_merge_one: "I st \<Longrightarrow> I (usr_merge_one ie lt st)"
  by (simp add: usr_merge_one_def inv_try quiet_def)

lemma inv_ensure_usr_merge: "I st \<Longrightarrow> I (ensure_usr_merge ie st)"
  by (simp add: ensure_usr_merge_def inv_usr_merge_one)

lemma inv_prepare_root: "I st \<Longrightarrow> I (snd (prepare_root ie merged c m st))"
proof -
  have calls: "quiet (pivot_calls h merged)" "quiet mount_points" "quiet readonly_remounts" for h
    by (simp_all add: quiet_def pivot_calls_def mount_points_def readonly_remounts_def Let_def)
  show "I st \<Longrightarrow> ?thesis"
    unfolding prepare_root_def
    by (intro inv_bind inv_all inv_mount_kernel inv_apply_sysctls inv_one inv_ensure_usr_merge inv_interfaces_up inv_try calls)
       (simp_all add: quiet_def)
qed

lemma inv_enter_working_dir: "I st \<Longrightarrow> I (snd (enter_working_dir ie wd st))"
  by (simp add: enter_working_dir_def inv_all quiet_def del: do_all.simps)

lemma inv_fix_volumes: "I st \<Longrightarrow> I (snd (fix_volumes ie user vs st))"
proof (induction vs arbitrary: st)
  case Nil
  then show ?case by simp
next
  case (Cons v vs)
  have step: "I (try_all ie [CChmod a b, CChmodTree a b] st)" "I (try_all ie [CChown a u g, CChownTree a u g] st)" for a b u g
    using Cons.prems by (simp_all add: inv_try quiet_def)
  show ?case
  proof (cases "user = []")
    case True
    then show ?thesis using Cons.IH [OF step(1)] by simp
  next
    case False
    show ?thesis
      using False Cons.prems Cons.IH [OF step(2)] Cons.IH [OF Cons.prems]
      by (auto simp: Let_def split: sum.split)
  qed
qed

lemma inv_mount_with_fallback: "I st \<Longrightarrow> I (snd (mount_with_fallback ie args fallback st))"
proof -
  assume "I st"
  then have first: "I (snd (do_call ie (CRun args) st))" by (simp add: inv_one quiet_def)
  obtain e st1 where r: "do_call ie (CRun args) st = (e, st1)" by (cases "do_call ie (CRun args) st")
  show ?thesis using first r by (cases e) (simp_all add: mount_with_fallback_def inv_one quiet_def)
qed

lemma inv_remount_tree: "I st \<Longrightarrow> I (snd (remount_tree ie d st))"
  by (simp add: remount_tree_def inv_all quiet_def del: do_all.simps)

lemma inv_restrict_dev_shm: "I st \<Longrightarrow> I (snd (restrict_dev_shm ie merged st))"
  unfolding restrict_dev_shm_def Let_def
  by (intro inv_bind inv_one inv_mount_with_fallback) (simp_all add: quiet_def)

lemma inv_restrict_dev_mqueue: "I st \<Longrightarrow> I (snd (restrict_dev_mqueue ie merged st))"
  unfolding restrict_dev_mqueue_def Let_def
  by (intro inv_bind inv_one inv_mount_with_fallback) (simp_all add: quiet_def)

lemma inv_apply_device_restrictions: "I st \<Longrightarrow> I (apply_device_restrictions ie merged st)"
  by (simp add: apply_device_restrictions_def inv_restrict_dev_shm inv_restrict_dev_mqueue inv_remount_tree)

lemma inv_ulimits: "I st \<Longrightarrow> I (try_all ie (ulimit_calls us) st)"
  by (rule inv_try) (auto simp: quiet_def ulimit_calls_def list_all_iff split: option.splits)

lemma inv_scripts: "I st \<Longrightarrow> I (snd (do_all ie (script_calls s) (try_all ie [CMkdir d n] st)))"
  by (intro inv_all inv_try) (auto simp: quiet_def script_calls_def list_all_iff)

lemma inv_before_restrictions: "I st \<Longrightarrow> I (snd (before_restrictions ie merged c m st))"
  unfolding before_restrictions_def
  by (intro inv_bind inv_prepare_root) (auto split: option.split intro!: inv_bind inv_enter_working_dir inv_fix_volumes)

end

section \<open>Giving up privileges\<close>

text \<open>The calls of that stage: no program is started, and number 24 (\<open>PR_CAPBSET_DROP\<close> of the kernel) is not used.\<close>

definition privilege_call :: "init_call \<Rightarrow> bool" where
  "privilege_call c \<longleftrightarrow> \<not> program_call c \<and> (\<forall>args. c \<noteq> CRun args) \<and> (\<forall>v. c \<noteq> CPrctl 24 v)"

lemma privilege_calls:
  "list_all privilege_call (CCapset w # drop_unkept order keep)"
  "list_all privilege_call (switch_user_calls user @ [CPrctl PR_SET_NO_NEW_PRIVS 1] @ (if ro then [CRemountRoot] else []))"
  "list_all privilege_call (ulimit_calls us)"
  by (auto simp: privilege_call_def drop_unkept_def switch_user_calls_def ulimit_calls_def list_all_iff Let_def
      PR_CAPBSET_DROP_def PR_SET_NO_NEW_PRIVS_def split: option.splits)

locale privilege_invariant = init_invariant +
  assumes privilege: "privilege_call call \<Longrightarrow> Q call"
begin

lemma privilege_all: "list_all privilege_call calls \<Longrightarrow> list_all Q calls"
  by (auto simp: list_all_iff privilege)

lemma inv_apply_capabilities: "I st \<Longrightarrow> I (snd (apply_capabilities ie m st))"
  using inv_do_all [OF privilege_all [OF privilege_calls(1)]]
  by (simp add: apply_capabilities_def del: do_all.simps split: sum.split)

lemma inv_restrict_process: "I (apply_device_restrictions ie [slash] st) \<Longrightarrow> I (snd (restrict_process ie m st))"
  unfolding restrict_process_def
  by (intro inv_bind inv_apply_capabilities inv_do_all privilege_all privilege_calls)
     (simp_all add: inv_try_all [OF privilege_all [OF privilege_calls(3)]])

end

section \<open>Running the command\<close>

locale command_invariant = init_invariant +
  assumes command: "plain_call call \<Longrightarrow> \<forall>args. call \<noteq> CRun args \<Longrightarrow> Q call"
begin

lemma inv_startup: "I st \<Longrightarrow> I (snd (if s = [] then (Inr (), st) else do_all ie [CWrite p d, CStartup q env] st))"
  by (cases "s = []") (simp_all add: inv_do_all command del: do_all.simps)

lemma inv_command_call: "I st \<Longrightarrow> I (snd (case command_call ie log cmd env of None \<Rightarrow> (Inl e, st) | Some call \<Rightarrow> do_call ie call st))"
  by (auto simp: command_call_def intro!: I_call command split: list.split option.split)

lemma inv_run_command: "I st \<Longrightarrow> I (snd (run_command ie c m env st))"
  unfolding run_command_def
  by (intro inv_bind inv_do_all inv_try_all inv_startup inv_command_call)
     (auto simp: script_calls_def list_all_iff intro: command)

end

end
