(* ===== verification/Seccomp.thy ===== *)
theory Seccomp
  imports Init "HOL-Library.Word"
begin

text \<open>
  System call filters (\<open>internal/container/seccomp.go\<close>): the built-in profile, how a profile is turned into a filter
  and handed to the kernel, and how the mode is read back from \<open>/proc/self/status\<close>. Reading and writing a profile as
  JSON is left out. Nothing in the program calls \<open>ApplySeccompFilter\<close>.
\<close>

datatype seccomp_action = ActKill | ActTrap | ActErrno | ActAllow | ActLog

datatype seccomp_arch = ArchX86_64 | ArchX86 | ArchARM64 | ArchALL

record seccomp_syscall =
  ss_name :: string
  ss_arch :: "seccomp_arch list"
  ss_action :: seccomp_action

record seccomp_profile =
  sp_default :: seccomp_action
  sp_architectures :: "seccomp_arch list"
  sp_syscalls :: "seccomp_syscall list"

definition blocked_syscalls :: "string list" where
  "blocked_syscalls =
     [''init_module'', ''delete_module'', ''finit_module'', ''reboot'', ''kexec_load'', ''kexec_file_load'',
      ''mount'', ''umount2'', ''pivot_root'', ''chroot'', ''ptrace'', ''process_vm_readv'', ''process_vm_writev'',
      ''keyctl'', ''add_key'', ''request_key'', ''clock_settime'', ''settimeofday'', ''adjtimex'', ''stime'',
      ''syslog'', ''ioperm'', ''iopl'', ''mbind'', ''set_mempolicy'', ''get_mempolicy'', ''perf_event_open'',
      ''bpf'', ''userfaultfd'', ''clone3'', ''madvise'', ''move_pages'', ''swapon'', ''swapoff'', ''sethostname'',
      ''setdomainname'', ''futex_waitv'']"

definition allowed_syscalls :: "string list" where
  "allowed_syscalls =
     [''read'', ''write'', ''open'', ''close'', ''stat'', ''fstat'', ''lstat'', ''poll'', ''lseek'', ''mmap'',
      ''mprotect'', ''munmap'', ''brk'', ''rt_sigaction'', ''rt_sigprocmask'', ''rt_sigreturn'', ''ioctl'',
      ''pread64'', ''pwrite64'', ''readv'', ''writev'', ''access'', ''pipe'', ''select'', ''sched_yield'',
      ''mremap'', ''msync'', ''mincore'', ''madvise'', ''shmget'', ''shmat'', ''shmctl'', ''dup'', ''dup2'',
      ''pause'', ''nanosleep'', ''getitimer'', ''alarm'', ''setitimer'', ''getpid'', ''sendfile'', ''socket'',
      ''connect'', ''accept'', ''sendto'', ''recvfrom'', ''sendmsg'', ''recvmsg'', ''shutdown'', ''bind'',
      ''listen'', ''getsockname'', ''getpeername'', ''socketpair'', ''setsockopt'', ''getsockopt'', ''clone'',
      ''fork'', ''vfork'', ''execve'', ''exit'', ''exit_group'', ''wait4'', ''kill'', ''uname'', ''semget'',
      ''semop'', ''semctl'', ''shmdt'', ''msgget'', ''msgsnd'', ''msgrcv'', ''msgctl'', ''fcntl'', ''flock'',
      ''fsync'', ''fdatasync'', ''truncate'', ''ftruncate'', ''getdents'', ''getcwd'', ''chdir'', ''fchdir'',
      ''rename'', ''mkdir'', ''rmdir'', ''creat'', ''link'', ''unlink'', ''symlink'', ''readlink'', ''chmod'',
      ''fchmod'', ''chown'', ''fchown'', ''lchown'', ''umask'', ''gettimeofday'', ''getuid'', ''getgid'',
      ''geteuid'', ''getegid'', ''getppid'', ''getpgrp'', ''setuid'', ''setgid'', ''getgroups'', ''setgroups'',
      ''setresuid'', ''getresuid'', ''setresgid'', ''getresgid'', ''getpgid'', ''setpgid'', ''getsid'', ''setsid'',
      ''setreuid'', ''setregid'', ''getgroups'', ''setfsuid'', ''setfsgid'', ''sigaltstack'', ''statfs'',
      ''fstatfs'', ''sysfs'', ''getpriority'', ''setpriority'', ''sched_setparam'', ''sched_getparam'',
      ''sched_setscheduler'', ''sched_getscheduler'', ''sched_get_priority_max'', ''sched_get_priority_min'',
      ''sched_rr_get_interval'', ''mlock'', ''munlock'', ''mlockall'', ''munlockall'', ''vhangup'', ''modify_ldt'',
      ''pivot_root'', ''_sysctl'', ''prctl'', ''arch_prctl'', ''adjtimex'', ''adjtimex'', ''setrlimit'', ''chroot'',
      ''sync'', ''syncfs'', ''syslog'', ''sethostname'', ''setdomainname'', ''iopl'', ''ioperm'', ''create_module'',
      ''init_module'', ''delete_module'', ''get_kernel_syms'', ''query_module'', ''getpgid'', ''fchdir'', ''uselib'',
      ''personality'', ''ptrace'', ''syslog'', ''setuid'', ''setgid'', ''setreuid'', ''setregid'', ''setfsuid'',
      ''setfsgid'', ''setresuid'', ''setresgid'', ''getresuid'', ''getresgid'', ''setpgid'', ''setgroups'',
      ''setpriority'', ''sched_setparam'', ''sched_setscheduler'', ''setreuid'', ''setregid'', ''setfsuid'',
      ''setfsgid'', ''setresuid'', ''setresgid'', ''setpgid'', ''setgroups'', ''setpriority'', ''sched_setparam'',
      ''sched_setscheduler'', ''setrlimit'', ''setpgid'', ''setreuid'', ''setregid'', ''setfsuid'', ''setfsgid'',
      ''setresuid'', ''setresgid'', ''setpgid'', ''setgroups'', ''setpriority'', ''sched_setparam'',
      ''sched_setscheduler'', ''setrlimit'', ''setpgid'', ''setreuid'', ''setregid'', ''setfsuid'', ''setfsgid'',
      ''setresuid'', ''setresgid'', ''setpgid'', ''setgroups'', ''setpriority'', ''sched_setparam'',
      ''sched_setscheduler'', ''setrlimit'', ''setpgid'', ''setreuid'', ''setregid'', ''setfsuid'', ''setfsgid'',
      ''setresuid'', ''setresgid'', ''setpgid'', ''setgroups'', ''setpriority'', ''sched_setparam'',
      ''sched_setscheduler'', ''setrlimit'']"

definition default_seccomp_profile :: seccomp_profile where
  "default_seccomp_profile =
     \<lparr>sp_default = ActKill, sp_architectures = [ArchALL],
      sp_syscalls = map (\<lambda>n. \<lparr>ss_name = n, ss_arch = [], ss_action = ActKill\<rparr>) blocked_syscalls
        @ map (\<lambda>n. \<lparr>ss_name = n, ss_arch = [], ss_action = ActAllow\<rparr>) allowed_syscalls\<rparr>"

record bpf_instruction =
  bi_code :: "16 word"
  bi_jt :: "8 word"
  bi_jf :: "8 word"
  bi_k :: "32 word"

record bpf_program =
  bp_len :: "16 word"
  bp_filter :: "bpf_instruction option"

definition build_seccomp_filter :: "seccomp_profile \<Rightarrow> bpf_program" where
  "build_seccomp_filter profile = \<lparr>bp_len = 0, bp_filter = None\<rparr>"

definition apply_seccomp_filter :: "init_env \<Rightarrow> seccomp_profile \<Rightarrow> init_state \<Rightarrow> unit init_result" where
  "apply_seccomp_filter ie profile st =
     do_all ie [CPrctl PR_SET_NO_NEW_PRIVS 1, CSeccomp (unat (bp_len (build_seccomp_filter profile)))] st"

definition apply_default_seccomp_profile :: "init_env \<Rightarrow> init_state \<Rightarrow> unit init_result" where
  "apply_default_seccomp_profile ie st = apply_seccomp_filter ie default_seccomp_profile st"

definition split_lines :: "string \<Rightarrow> string list" where
  "split_lines s = (let parts = split_byte (CHR 0x0A) s in if last parts = [] then butlast parts else parts)"

text \<open>The test on a line of the status file: more than nine bytes, of which the first nine are looked at.\<close>

definition seccomp_line :: "string \<Rightarrow> bool" where
  "seccomp_line l \<longleftrightarrow> 9 < length l \<and> take 9 l = ''Seccomp:''"

definition seccomp_supported :: "string option \<Rightarrow> bool" where
  "seccomp_supported status =
     (case status of None \<Rightarrow> False | Some d \<Rightarrow> if list_ex seccomp_line (split_lines d) then True else True)"

text \<open>\<open>scan\<close> is \<open>Sscanf\<close> with \<open>%d\<close>.\<close>

definition is_seccomp_filter_active :: "(string \<Rightarrow> int option) \<Rightarrow> string option \<Rightarrow> bool" where
  "is_seccomp_filter_active scan status =
     (case status of
        None \<Rightarrow> False
      | Some d \<Rightarrow>
          (case find (\<lambda>l. seccomp_line l \<and> scan (drop 9 l) \<noteq> None) (split_lines d) of
             None \<Rightarrow> False
           | Some l \<Rightarrow> scan (drop 9 l) = Some 2))"

section \<open>What it comes to\<close>

lemma seccomp_line_never [simp]: "\<not> seccomp_line l"
proof
  assume "seccomp_line l"
  then have "length (take 9 l) = length ''Seccomp:''" "9 < length l" by (simp_all add: seccomp_line_def)
  then show False by simp
qed

end
