(* ===== verification/InitProps.thy ===== *)
theory InitProps
  imports InitEffects Seccomp
begin

text \<open>
  What a container's command runs with: the credentials along the stages of \<open>Init\<close>, the containers that never
  get to their command, the kernel settings a container may write, and the system call filter.
\<close>

section \<open>Logs that grow\<close>

definition log_keeps :: "(creds \<Rightarrow> bool) \<Rightarrow> (creds \<times> init_call \<Rightarrow> bool) \<Rightarrow> init_log \<Rightarrow> init_state \<Rightarrow> bool" where
  "log_keeps C P old st \<longleftrightarrow> C (fst st) \<and> (\<exists>new. snd st = old @ new \<and> list_all P new)"

lemma log_keeps_refl: "C (fst st) \<Longrightarrow> log_keeps C P (snd st) st"
  by (simp add: log_keeps_def)

lemma log_keeps_call:
  assumes "log_keeps C P old st" and "\<And>cr. C cr \<Longrightarrow> P (cr, call)" and "\<And>cr cr'. C cr \<Longrightarrow> kernel_creds call cr = Some cr' \<Longrightarrow> C cr'"
  shows "log_keeps C P old (snd (do_call ie call st))"
  using assms by (auto simp: log_keeps_def do_call_def split: option.split)

lemma plain_creds: "plain_call call \<Longrightarrow> kernel_creds call cr = Some cr' \<Longrightarrow> cr' = cr"
  by (cases call) (auto split: if_splits)

lemma bound_creds:
  assumes "\<forall>v. call \<noteq> CPrctl 24 v" and "kernel_creds call cr = Some cr'"
  shows "cr_bound cr' = cr_bound cr"
  using assms
  by (cases call) (auto simp: sys_capset_def sys_prctl_def sys_setgid_def sys_setuid_def split: if_splits option.splits)

text \<open>The bounding set stays; the credentials stay and no program is started; the credentials stay.\<close>

interpretation bound_kept: plain_invariant "log_keeps (\<lambda>cr. cr_bound cr = B) (\<lambda>e. cr_bound (fst e) = B) old" "\<lambda>call. \<forall>v. call \<noteq> CPrctl 24 v"
  for B old
  by unfold_locales (auto intro: log_keeps_call simp: bound_creds)

interpretation unchanged: plain_invariant "log_keeps (\<lambda>cr. cr = cr0) (\<lambda>e. fst e = cr0 \<and> \<not> program_call (snd e)) old"
  "\<lambda>call. plain_call call \<and> \<not> program_call call"
  for cr0 old
  by unfold_locales (auto intro: log_keeps_call dest: plain_creds)

interpretation with_programs: command_invariant "log_keeps (\<lambda>cr. cr = cr0) (\<lambda>e. fst e = cr0 \<and> (\<forall>args. snd e \<noteq> CRun args)) old"
  "\<lambda>call. plain_call call \<and> (\<forall>args. call \<noteq> CRun args)"
  for cr0 old
  by unfold_locales (auto intro: log_keeps_call dest: plain_creds)

interpretation bound_command: command_invariant "log_keeps (\<lambda>cr. cr_bound cr = B) (\<lambda>e. cr_bound (fst e) = B) old"
  "\<lambda>call. \<forall>v. call \<noteq> CPrctl 24 v"
  for B old
  by unfold_locales auto

interpretation no_programs: plain_invariant "log_keeps (\<lambda>cr. True) (\<lambda>e. \<not> program_call (snd e)) old" "\<lambda>call. \<not> program_call call"
  for old
  by unfold_locales (auto intro: log_keeps_call)

interpretation privileges: privilege_invariant
  "log_keeps (\<lambda>cr. True) (\<lambda>e. \<not> program_call (snd e) \<and> (\<forall>args. snd e \<noteq> CRun args)) old"
  "\<lambda>call. \<not> program_call call \<and> (\<forall>args. call \<noteq> CRun args)"
  for old
  by unfold_locales (auto intro: log_keeps_call simp: privilege_call_def)

interpretation bound_privileges: privilege_invariant "log_keeps (\<lambda>cr. cr_bound cr = B) (\<lambda>e. cr_bound (fst e) = B) old"
  "\<lambda>call. \<forall>v. call \<noteq> CPrctl 24 v"
  for B old
  by unfold_locales (auto simp: privilege_call_def)

section \<open>The credentials along a list of calls\<close>

fun run_creds :: "init_call list \<Rightarrow> creds \<Rightarrow> creds option" where
  "run_creds [] cr = Some cr"
| "run_creds (call # calls) cr = Option.bind (kernel_creds call cr) (run_creds calls)"

lemma run_creds_append: "run_creds (a @ b) cr = Option.bind (run_creds a cr) (run_creds b)"
  by (induction a arbitrary: cr) (auto split: bind_split)

lemma do_call_ok:
  assumes "do_call ie call st = (Inr (), st')"
  shows "kernel_creds call (fst st) = Some (fst st')" and "snd st' = snd st @ [(fst st, call)]" and "ie_ok ie (fst st) call"
  using assms by (auto simp: do_call_def split: option.splits if_splits)

lemma do_all_ok:
  assumes "do_all ie calls st = (Inr (), st')"
  shows "run_creds calls (fst st) = Some (fst st')" and "map snd (snd st') = map snd (snd st) @ calls"
  using assms
  by (induction calls arbitrary: st)
     (auto simp: init_bind_def do_call_ok split: prod.splits sum.splits)

lemma drop_unkept_creds: "run_creds (drop_unkept order keep) cr = Some cr"
proof -
  have "run_creds (map (\<lambda>(n :: string, v). CPrctl PR_CAPBSET_DROP v) xs) cr = Some cr" for xs
    by (induction xs) (auto simp: sys_prctl_def PR_CAPBSET_DROP_def)
  then show ?thesis by (simp add: drop_unkept_def)
qed

lemma switch_user_creds:
  assumes "run_creds (switch_user_calls user) cr = Some cr'"
  shows "cr_eff cr' \<subseteq> cr_eff cr" and "cr_perm cr' \<subseteq> cr_perm cr"
    and "parse_int64 (hd (split_byte (CHR '':'') user)) = None \<or> user = [] \<Longrightarrow> cr' = cr"
    and "user \<noteq> [] \<Longrightarrow> parse_int64 (hd (split_byte (CHR '':'') user)) = Some uid \<Longrightarrow> uid mod 2 ^ 32 \<noteq> 0 \<Longrightarrow> cr_uid cr = 0 \<Longrightarrow>
      cr_uid cr' \<noteq> 0 \<and> cr_eff cr' = {}"
proof -
  have sub: "run_creds [CSetgid g] a = Some b \<Longrightarrow> cr_eff b = cr_eff a \<and> cr_perm b = cr_perm a \<and> cr_uid b = cr_uid a" for g a b
    by (auto simp: sys_setgid_def split: if_splits option.splits)
  have setuid: "run_creds [CSetuid u] a = Some b \<Longrightarrow> cr_eff b \<subseteq> cr_eff a \<and> cr_perm b \<subseteq> cr_perm a \<and>
      (u mod 2 ^ 32 \<noteq> 0 \<and> cr_uid a = 0 \<longrightarrow> cr_uid b \<noteq> 0 \<and> cr_eff b = {})" for u a b
    by (auto simp: sys_setuid_def kernel_id_def split: if_splits option.splits)
  have none: "cr' = cr" if "parse_int64 (hd (split_byte (CHR '':'') user)) = None \<or> user = []"
  proof -
    have "switch_user_calls user = []" using that by (auto simp: switch_user_calls_def Let_def)
    then show ?thesis using assms by simp
  qed
  have some: "cr_eff cr' \<subseteq> cr_eff cr \<and> cr_perm cr' \<subseteq> cr_perm cr \<and>
      (uid mod 2 ^ 32 \<noteq> 0 \<and> cr_uid cr = 0 \<longrightarrow> cr_uid cr' \<noteq> 0 \<and> cr_eff cr' = {})"
    if u: "user \<noteq> []" "parse_int64 (hd (split_byte (CHR '':'') user)) = Some uid" for uid
  proof -
    let ?g = "if length (split_byte (CHR '':'') user) = 2 then atoi_or_zero (split_byte (CHR '':'') user ! 1) else 0"
    have "switch_user_calls user = (if 0 < ?g then [CSetgid ?g] else []) @ [CSetuid uid]"
      using u by (simp add: switch_user_calls_def Let_def)
    then obtain g pre where sw: "switch_user_calls user = pre @ [CSetuid uid]" and pre: "pre = [] \<or> pre = [CSetgid g]"
      by (cases "0 < ?g") auto
    obtain a where "run_creds pre cr = Some a" "run_creds [CSetuid uid] a = Some cr'"
      using assms unfolding sw run_creds_append by (cases "run_creds pre cr") (simp_all del: run_creds.simps)
    then show ?thesis using pre sub [of g cr a] setuid [of uid a cr'] by auto
  qed
  show "cr_eff cr' \<subseteq> cr_eff cr" "cr_perm cr' \<subseteq> cr_perm cr"
    using none some by (cases "parse_int64 (hd (split_byte (CHR '':'') user))"; blast)+
  show "parse_int64 (hd (split_byte (CHR '':'') user)) = None \<or> user = [] \<Longrightarrow> cr' = cr" by (rule none)
  show "user \<noteq> [] \<Longrightarrow> parse_int64 (hd (split_byte (CHR '':'') user)) = Some uid \<Longrightarrow> uid mod 2 ^ 32 \<noteq> 0 \<Longrightarrow> cr_uid cr = 0 \<Longrightarrow>
      cr_uid cr' \<noteq> 0 \<and> cr_eff cr' = {}"
    using some by blast
qed

section \<open>The stage that gives up privileges\<close>

lemma init_bind_ok:
  assumes "init_bind r k = (Inr y, st')"
  obtains x st1 where "r = (Inr x, st1)" and "k x st1 = (Inr y, st')"
  using assms by (cases r; cases "fst r") (auto simp: init_bind_def)

lemma try_all_plain:
  assumes "quiet calls"
  shows "fst (try_all ie calls st) = fst st"
  using unchanged.inv_try [OF assms log_keeps_refl [OF refl], where ie = ie] by (simp add: log_keeps_def)

lemma ulimits_creds: "fst (try_all ie (ulimit_calls us) st) = fst st"
  by (rule try_all_plain) (auto simp: quiet_def ulimit_calls_def list_all_iff split: option.splits)

lemma devices_creds: "fst (apply_device_restrictions ie merged st) = fst st"
  using unchanged.inv_apply_device_restrictions [OF log_keeps_refl [OF refl], where ie = ie and merged = merged and st = st] by (simp add: log_keeps_def)

lemma apply_capabilities_ok:
  assumes "apply_capabilities ie m st = (Inr (), st')"
  obtains keep where "requested_capabilities (cm_cap_add m) (cm_user m) (cm_cap_drop m) = Inr keep"
    and "sys_capset (cap_words keep) (fst st) = Some (fst st')"
proof -
  obtain keep where keep: "requested_capabilities (cm_cap_add m) (cm_user m) (cm_cap_drop m) = Inr keep"
    using assms by (cases "requested_capabilities (cm_cap_add m) (cm_user m) (cm_cap_drop m)") (auto simp: apply_capabilities_def)
  have "run_creds (CCapset (cap_words keep) # drop_unkept (ie_cap_order ie) keep) (fst st) = Some (fst st')"
    using assms keep by (intro do_all_ok(1) [of ie]) (simp add: apply_capabilities_def)
  then show ?thesis using that keep by (simp add: drop_unkept_creds split: bind_splits)
qed

text \<open>What is left when all of it succeeds.\<close>

lemma restrict_process_ok:
  assumes "restrict_process ie m st = (Inr (), st')"
  obtains keep cr where "requested_capabilities (cm_cap_add m) (cm_user m) (cm_cap_drop m) = Inr keep"
    and "sys_capset (cap_words keep) (fst st) = Some cr"
    and "run_creds (switch_user_calls (cm_user m) @ [CPrctl PR_SET_NO_NEW_PRIVS 1] @ (if cm_readonly m then [CRemountRoot] else [])) cr
      = Some (fst st')"
proof -
  let ?calls = "switch_user_calls (cm_user m) @ [CPrctl PR_SET_NO_NEW_PRIVS 1] @ (if cm_readonly m then [CRemountRoot] else [])"
  obtain st1 where a: "apply_capabilities ie m (apply_device_restrictions ie [slash] st) = (Inr (), st1)"
    and b: "init_bind (do_all ie ?calls st1) (\<lambda>_ st2. (Inr (), try_all ie (ulimit_calls (cm_ulimits m)) st2)) = (Inr (), st')"
    by (rule init_bind_ok [OF assms [unfolded restrict_process_def]]) auto
  obtain st2 where c: "do_all ie ?calls st1 = (Inr (), st2)" and d: "st' = try_all ie (ulimit_calls (cm_ulimits m)) st2"
    by (rule init_bind_ok [OF b]) auto
  obtain keep where "requested_capabilities (cm_cap_add m) (cm_user m) (cm_cap_drop m) = Inr keep"
    and "sys_capset (cap_words keep) (fst st) = Some (fst st1)"
    using apply_capabilities_ok [OF a] by (auto simp: devices_creds)
  then show ?thesis using that do_all_ok(1) [OF c] d by (simp add: ulimits_creds)
qed

lemma restricted_creds:
  assumes "restrict_process ie m st = (Inr (), st')"
  obtains keep where "requested_capabilities (cm_cap_add m) (cm_user m) (cm_cap_drop m) = Inr keep"
    and "cr_nnp (fst st')" and "cr_eff (fst st') \<subseteq> cap_set keep" and "cr_perm (fst st') \<subseteq> cap_set keep"
    and "cm_readonly m \<Longrightarrow> 21 \<in> cap_set keep"
    and "cm_user m = [] \<or> parse_int64 (hd (split_byte (CHR '':'') (cm_user m))) = None \<Longrightarrow>
      cr_uid (fst st') = cr_uid (fst st) \<and> cr_gid (fst st') = cr_gid (fst st) \<and> cr_eff (fst st') = cap_set keep"
    and "\<And>uid. cm_user m \<noteq> [] \<Longrightarrow> parse_int64 (hd (split_byte (CHR '':'') (cm_user m))) = Some uid \<Longrightarrow> uid mod 2 ^ 32 \<noteq> 0 \<Longrightarrow>
      cr_uid (fst st) = 0 \<Longrightarrow> cr_uid (fst st') \<noteq> 0 \<and> cr_eff (fst st') = {}"
proof -
  obtain keep cr where keep: "requested_capabilities (cm_cap_add m) (cm_user m) (cm_cap_drop m) = Inr keep"
    and cr: "sys_capset (cap_words keep) (fst st) = Some cr"
    and run: "run_creds (switch_user_calls (cm_user m) @ [CPrctl PR_SET_NO_NEW_PRIVS 1] @ (if cm_readonly m then [CRemountRoot] else [])) cr
      = Some (fst st')"
    using restrict_process_ok [OF assms] by blast
  obtain cr1 where sw: "run_creds (switch_user_calls (cm_user m)) cr = Some cr1"
    using run by (auto simp: run_creds_append split: bind_splits)
  then have st': "fst st' = cr1\<lparr>cr_nnp := True\<rparr>" and ro: "cm_readonly m \<Longrightarrow> 21 \<in> cr_eff cr1"
    using run by (auto simp: run_creds_append sys_prctl_def PR_SET_NO_NEW_PRIVS_def split: if_splits)
  have caps: "cr_eff cr = cap_set keep" "cr_perm cr = cap_set keep" "cr_uid cr = cr_uid (fst st)" "cr_gid cr = cr_gid (fst st)"
    using cr by (auto simp: sys_capset_def split: if_splits)
  show ?thesis
    using switch_user_creds [OF sw] caps st' ro by (intro that [OF keep]) auto
qed

text \<open>The two words of capabilities never name \<open>SYS_ADMIN\<close> unless it was added.\<close>

lemma drop_caps_subset: "set (drop_caps cs keep) \<subseteq> set keep"
  by (induction cs keep rule: drop_caps.induct) auto

lemma no_admin:
  assumes "requested_capabilities [] user dropped = Inr keep"
  shows "21 \<notin> cap_set keep"
proof -
  have "set keep \<subseteq> set ([''SETUID'', ''SETGID''] @ default_capabilities)"
    using assms drop_caps_subset
    by (fastforce simp: requested_capabilities_def rbind_def split: if_splits)
  moreover have "21 \<notin> cap_value ` set ([''SETUID'', ''SETGID''] @ default_capabilities)"
    by code_simp
  ultimately show ?thesis by (auto simp: cap_set_def)
qed

section \<open>The stages in order\<close>

lemma log_keeps_trans:
  assumes "log_keeps C P old st" and "log_keeps C' P (snd st) st'"
  shows "log_keeps C' P old st'"
  using assms by (auto simp: log_keeps_def)

lemma log_keeps_weaken: "log_keeps C P old st \<Longrightarrow> (\<And>cr. C cr \<Longrightarrow> C' cr) \<Longrightarrow> (\<And>e. P e \<Longrightarrow> P' e) \<Longrightarrow> log_keeps C' P' old st"
  by (auto simp: log_keeps_def list_all_iff)

definition init_environment :: "init_env \<Rightarrow> container \<Rightarrow> container_more \<Rightarrow> string list" where
  "init_environment ie c m =
     (case ie_config ie of None \<Rightarrow> [] | Some (image_env, img_dir, image_user) \<Rightarrow> base_env image_env (cm_env m) @ dck_variables c m)"

lemma init_bind_assoc: "init_bind (init_bind r f) g = init_bind r (\<lambda>x st. init_bind (f x st) g)"
  by (cases r; cases "fst r") (auto simp: init_bind_def)

lemma init_container_stages:
  "init_container ie merged (Some c) m (Inr u) st =
     init_bind (before_restrictions ie merged c m st) (\<lambda>_ st1.
     init_bind (restrict_process ie m st1) (\<lambda>_. run_command ie c m (init_environment ie c m)))"
  by (auto simp: init_container_def before_restrictions_def init_environment_def init_bind_assoc Let_def
      intro!: arg_cong [where f = "init_bind _"] ext split: option.split)
     (simp add: init_bind_def)

lemma before_creds:
  "log_keeps (\<lambda>cr. cr = fst st) (\<lambda>e. fst e = fst st \<and> \<not> program_call (snd e)) (snd st) (snd (before_restrictions ie merged c m st))"
  by (rule unchanged.inv_before_restrictions) (simp add: log_keeps_def)

lemma restrict_programs: "log_keeps (\<lambda>cr. True) (\<lambda>e. \<not> program_call (snd e)) (snd st) (snd (restrict_process ie m st))"
proof -
  have "log_keeps (\<lambda>cr. True) (\<lambda>e. \<not> program_call (snd e)) (snd st) (apply_device_restrictions ie [slash] st)"
    by (rule no_programs.inv_apply_device_restrictions) (simp add: log_keeps_def)
  moreover have "log_keeps (\<lambda>cr. True) (\<lambda>e. \<not> program_call (snd e) \<and> (\<forall>args. snd e \<noteq> CRun args))
      (snd (apply_device_restrictions ie [slash] st)) (snd (restrict_process ie m st))"
    by (rule privileges.inv_restrict_process) (simp add: log_keeps_def)
  ultimately show ?thesis using log_keeps_trans log_keeps_weaken by (metis (no_types, lifting))
qed

lemma run_command_creds:
  "log_keeps (\<lambda>cr. cr = fst st) (\<lambda>e. fst e = fst st \<and> (\<forall>args. snd e \<noteq> CRun args)) (snd st) (snd (run_command ie c m env st))"
  by (rule with_programs.inv_run_command) (simp add: log_keeps_def)

lemma prepared_read_only:
  assumes "prepare_root ie merged c m st = (Inr (), st')"
  shows "set readonly_remounts \<subseteq> snd ` set (snd st')"
proof -
  obtain st4 st5 where a: "do_all ie readonly_remounts st4 = (Inr (), st5)"
    and b: "do_call ie (CWrite ''/etc/resolv.conf'' (resolv_conf (ct_dns c)))
         (ensure_usr_merge ie (interfaces_up ie (ct_network_mode c) (try_all ie [CChmod ''/tmp'' 1023] st5))) = (Inr (), st')"
    using assms unfolding prepare_root_def by (elim init_bind_ok) auto
  let ?s = "ensure_usr_merge ie (interfaces_up ie (ct_network_mode c) (try_all ie [CChmod ''/tmp'' 1023] st5))"
  have "log_keeps (\<lambda>cr. True) (\<lambda>e. \<not> program_call (snd e)) (snd st5) ?s"
    by (intro no_programs.inv_ensure_usr_merge no_programs.inv_interfaces_up no_programs.inv_try)
       (simp_all add: quiet_def log_keeps_def)
  then have "set (snd st5) \<subseteq> set (snd st')" using do_call_ok(2) [OF b] by (auto simp: log_keeps_def)
  moreover have "set readonly_remounts \<subseteq> snd ` set (snd st5)"
    using arg_cong [OF do_all_ok(2) [OF a], of set] by auto
  ultimately show ?thesis by (meson image_mono subset_trans)
qed

text \<open>A program of the container is only started by the last stage, with the credentials it finds.\<close>

lemma program_stages:
  assumes init: "init_container ie merged loaded m hs st = (r, st')"
    and started: "i < length (snd st')" "snd st' ! i = (cr, call)" "program_call call"
    and old: "list_all (\<lambda>e. \<not> program_call (snd e)) (snd st)"
  obtains c st1 st2 where "loaded = Some c" and "before_restrictions ie merged c m st = (Inr (), st1)"
    and "restrict_process ie m st1 = (Inr (), st2)" and "cr = fst st2" and "length (snd st2) \<le> i"
    and "\<exists>new. snd st' = snd st2 @ new"
    and "run_command ie c m (init_environment ie c m) st2 = (r, st')"
proof -
  have mem: "(cr, call) \<in> set (snd st')" using started nth_mem by metis
  have none: False if "log_keeps C (\<lambda>e. \<not> program_call (snd e)) (snd st) st'" for C
  proof -
    have "list_all (\<lambda>e. \<not> program_call (snd e)) (snd st')" using that old by (auto simp: log_keeps_def)
    then have "\<not> program_call (snd (cr, call))" using mem unfolding list_all_iff by blast
    then show False using started(3) by simp
  qed
  have idle: False if "st' = st" using none [of "\<lambda>_. True"] old that by (simp add: log_keeps_def)
  obtain c u where c: "loaded = Some c" and u: "hs = Inr u"
    using init idle by (cases loaded; cases hs) (auto simp: init_container_def)
  let ?b = "before_restrictions ie merged c m st"
  have run: "init_bind ?b (\<lambda>_ st1. init_bind (restrict_process ie m st1) (\<lambda>_. run_command ie c m (init_environment ie c m))) = (r, st')"
    using init unfolding c u init_container_stages .
  have b0: "log_keeps (\<lambda>cr. True) (\<lambda>e. \<not> program_call (snd e)) (snd st) (snd ?b)"
    using before_creds by (rule log_keeps_weaken) auto
  obtain st1 where st1: "?b = (Inr (), st1)"
  proof (cases "fst ?b")
    case (Inl e)
    then have "st' = snd ?b" using run by (cases ?b) (auto simp: init_bind_def)
    then show ?thesis using none b0 by blast
  qed (use that in \<open>cases ?b; simp\<close>)
  let ?r = "restrict_process ie m st1"
  have run1: "init_bind ?r (\<lambda>_. run_command ie c m (init_environment ie c m)) = (r, st')"
    using run st1 by (simp add: init_bind_def)
  have r0: "log_keeps (\<lambda>cr. True) (\<lambda>e. \<not> program_call (snd e)) (snd st) (snd ?r)"
    using log_keeps_trans [OF b0] restrict_programs st1 by (metis snd_conv)
  obtain st2 where st2: "?r = (Inr (), st2)"
  proof (cases "fst ?r")
    case (Inl e)
    then have "st' = snd ?r" using run1 by (cases ?r) (auto simp: init_bind_def)
    then show ?thesis using none r0 by blast
  qed (use that in \<open>cases ?r; simp\<close>)
  have last: "run_command ie c m (init_environment ie c m) st2 = (r, st')"
    using run1 st2 by (simp add: init_bind_def)
  obtain new where new: "snd st' = snd st2 @ new" "list_all (\<lambda>e. fst e = fst st2) new"
    using run_command_creds [of st2 ie c m "init_environment ie c m"] last by (auto simp: log_keeps_def list_all_iff)
  have early: "list_all (\<lambda>e. \<not> program_call (snd e)) (snd st2)"
    using r0 old st2 by (auto simp: log_keeps_def)
  have "length (snd st2) \<le> i"
  proof (rule ccontr)
    assume "\<not> length (snd st2) \<le> i"
    then have "(cr, call) \<in> set (snd st2)" using started(2) new(1) by (metis linorder_not_le nth_append nth_mem)
    then have "\<not> program_call (snd (cr, call))" using early unfolding list_all_iff by blast
    then show False using started(3) by simp
  qed
  moreover have "cr = fst st2"
  proof -
    have "(cr, call) \<in> set new" using started(1,2) new(1) calculation
      by (metis add_diff_inverse_nat length_append linorder_not_le nat_add_left_cancel_less nth_append nth_mem)
    then have "fst (cr, call) = fst st2" using new(2) unfolding list_all_iff by blast
    then show ?thesis by simp
  qed
  ultimately show ?thesis using that c st1 st2 new last by blast
qed

section \<open>Kernel settings\<close>


section \<open>Kernel settings\<close>

definition space_bytes :: "char set" where
  "space_bytes = {c. ascii_space c} \<union> set (concat wide_spaces)"

lemma space_bytes_plain: "CHR ''.'' \<notin> space_bytes" "slash \<notin> space_bytes"
  by (simp_all add: space_bytes_def ascii_space_def wide_spaces_def slash_def)

lemma find_in: "find P xs = Some w \<Longrightarrow> w \<in> set xs \<and> P w"
  by (auto simp: find_Some_iff)

lemma space_prefix: "set (take (space_len s) s) \<subseteq> space_bytes"
proof (cases s)
  case (Cons c t)
  have "set w \<subseteq> space_bytes" if "w \<in> set wide_spaces" for w
    using that by (auto simp: space_bytes_def)
  moreover have "take (length w) s = w" if "prefix w s" for w using that by (auto simp: prefix_def)
  ultimately show ?thesis
    using Cons by (auto simp: space_len.simps(2) space_bytes_def dest!: find_in split: option.splits)
qed simp

lemma rspace_prefix: "set (take (rspace_len s) s) \<subseteq> space_bytes"
proof (cases s)
  case (Cons c t)
  have "set w \<subseteq> space_bytes" if "w \<in> set wide_spaces" for w
    using that by (auto simp: space_bytes_def)
  moreover have "set (take (length w) s) = set w" if "prefix (rev w) s" for w
    using that by (auto simp: prefix_def)
  ultimately show ?thesis
    using Cons by (auto simp: rspace_len.simps(2) space_bytes_def dest!: find_in split: option.splits)
qed simp

lemma trim_left_parts: "\<exists>a. s = a @ trim_left s \<and> set a \<subseteq> space_bytes"
proof (induction s rule: trim_left.induct)
  case (1 s)
  show ?case
  proof (cases "space_len s = 0")
    case True
    then have "trim_left s = s" by (subst trim_left.simps) simp
    then show ?thesis by (intro exI [of _ "[]"]) simp
  next
    case False
    then obtain a where a: "drop (space_len s) s = a @ trim_left (drop (space_len s) s)" "set a \<subseteq> space_bytes"
      using 1 by blast
    have "s = (take (space_len s) s @ a) @ trim_left (drop (space_len s) s)"
      using a(1) append_take_drop_id [of "space_len s" s] by (metis append.assoc)
    moreover have "trim_left s = trim_left (drop (space_len s) s)"
      using False by (subst trim_left.simps) simp
    ultimately show ?thesis using a(2) space_prefix [of s] by (metis Un_least set_append)
  qed
qed

lemma trim_left_rev_parts: "\<exists>a. s = a @ trim_left_rev s \<and> set a \<subseteq> space_bytes"
proof (induction s rule: trim_left_rev.induct)
  case (1 s)
  show ?case
  proof (cases "rspace_len s = 0")
    case True
    then have "trim_left_rev s = s" by (subst trim_left_rev.simps) simp
    then show ?thesis by (intro exI [of _ "[]"]) simp
  next
    case False
    then obtain a where a: "drop (rspace_len s) s = a @ trim_left_rev (drop (rspace_len s) s)" "set a \<subseteq> space_bytes"
      using 1 by blast
    have "s = (take (rspace_len s) s @ a) @ trim_left_rev (drop (rspace_len s) s)"
      using a(1) append_take_drop_id [of "rspace_len s" s] by (metis append.assoc)
    moreover have "trim_left_rev s = trim_left_rev (drop (rspace_len s) s)"
      using False by (subst trim_left_rev.simps) simp
    ultimately show ?thesis using a(2) rspace_prefix [of s] by (metis Un_least set_append)
  qed
qed

lemma trim_space_parts: obtains a b where "s = a @ trim_space s @ b" and "set (a @ b) \<subseteq> space_bytes"
proof -
  obtain a where a: "s = a @ trim_left s" "set a \<subseteq> space_bytes" using trim_left_parts by blast
  obtain b where b: "rev (trim_left s) = b @ trim_left_rev (rev (trim_left s))" "set b \<subseteq> space_bytes"
    using trim_left_rev_parts by blast
  have "trim_left s = trim_space s @ rev b"
    using arg_cong [OF b(1), of rev] by (simp add: trim_space_def trim_right_def)
  then show ?thesis using that [of a "rev b"] a b(2) by simp
qed

lemma split_byte_prefix: "c \<notin> set a \<Longrightarrow> split_byte c (a @ s) = (a @ hd (split_byte c s)) # tl (split_byte c s)"
  by (induction a) (auto split: list.split)

lemma split_byte_suffix: "c \<notin> set b \<Longrightarrow> split_byte c (s @ b) = butlast (split_byte c s) @ [last (split_byte c s) @ b]"
  by (induction c s rule: split_byte.induct) (auto simp: split_byte_single split: list.split)

lemma split_byte_map: "(\<And>x. f x = c \<longleftrightarrow> x = c) \<Longrightarrow> split_byte c (map f s) = map (map f) (split_byte c s)"
  by (induction s) (auto split: list.split)

lemma lower_char_fixed:
  assumes "of_char d < (65 :: nat)"
  shows "lower_char x = d \<longleftrightarrow> x = d"
proof
  assume l: "lower_char x = d"
  show "x = d"
  proof (rule ccontr)
    assume "x \<noteq> d"
    then have n: "65 \<le> (of_char x :: nat)" "(of_char x :: nat) \<le> 90" and d: "char_of (of_char x + 32 :: nat) = d"
      using l by (auto simp: lower_char_def Let_def split: if_splits)
    have "(of_char (char_of (of_char x + 32 :: nat) :: char) :: nat) = (of_char x + 32) mod 256" by simp
    then show False using n assms unfolding d by simp
  qed
qed (use assms in \<open>simp add: lower_char_def\<close>)

lemma lower_char_point: "lower_char x = CHR ''.'' \<longleftrightarrow> x = CHR ''.''" "lower_char x = slash \<longleftrightarrow> x = slash"
  by (rule lower_char_fixed, simp add: slash_def)+

lemma map_join: "\<forall>w \<in> set ws. c \<notin> set w \<Longrightarrow> map (\<lambda>x. if x = c then d else x) (str_join [c] ws) = str_join [d] ws"
proof (induction "[c]" ws rule: str_join.induct)
  case (3 w v ws)
  have "map (\<lambda>x. if x = c then d else x) w = w" if "c \<notin> set w" for w :: string using that by (induction w) auto
  then show ?case using 3 by simp
qed (auto intro!: map_idI)

text \<open>The name of a setting that is accepted is a sequence of plain names below \<open>/proc/sys\<close>.\<close>

lemma allowed_sysctl_parts:
  assumes "allowed_container_sysctl k"
  shows "list_all (\<lambda>p. p \<noteq> [] \<and> slash \<notin> set p \<and> CHR ''.'' \<notin> set p) (split_byte (CHR ''.'') k)"
    and "sysctl_path k = ''/proc/sys/'' @ str_join [slash] (split_byte (CHR ''.'') k)"
proof -
  obtain a b where k: "k = a @ trim_space k @ b" and ab: "set (a @ b) \<subseteq> space_bytes" by (rule trim_space_parts)
  let ?ps = "split_byte (CHR ''.'') (trim_space k)"
  have pts: "CHR ''.'' \<notin> set a" "CHR ''.'' \<notin> set b" and sl: "slash \<notin> set a" "slash \<notin> set b"
    using ab space_bytes_plain by auto
  have "\<forall>p \<in> set (split_byte (CHR ''.'') (map lower_char (trim_space k))). p \<noteq> []"
    using assms by (auto simp: allowed_container_sysctl_def Let_def list_all_iff)
  then have ne: "\<forall>p \<in> set ?ps. p \<noteq> []"
    by (simp add: split_byte_map lower_char_point)
  have split_k: "split_byte (CHR ''.'') k = (let qs = butlast ?ps @ [last ?ps @ b] in (a @ hd qs) # tl qs)"
    by (subst k) (simp add: split_byte_prefix split_byte_suffix pts Let_def)
  have nonempty: "\<forall>p \<in> set (split_byte (CHR ''.'') k). p \<noteq> []"
  proof -
    have qs: "\<forall>p \<in> set (butlast ?ps @ [last ?ps @ b]). p \<noteq> []"
      using ne by (auto dest: in_set_butlastD)
    then have "hd (butlast ?ps @ [last ?ps @ b]) \<noteq> []"
      by (metis hd_in_set append_is_Nil_conv not_Cons_self2)
    moreover have "\<forall>p \<in> set (tl (butlast ?ps @ [last ?ps @ b])). p \<noteq> []" using qs by (meson list.set_sel(2) append_is_Nil_conv not_Cons_self2)
    ultimately show ?thesis unfolding split_k Let_def by simp
  qed
  have "slash \<notin> set (trim_space k)"
    using assms by (auto simp: allowed_container_sysctl_def Let_def lower_char_point image_iff) (metis lower_char_point(2))
  then have no_slash: "slash \<notin> set k" using sl by (subst k) simp
  show "list_all (\<lambda>p. p \<noteq> [] \<and> slash \<notin> set p \<and> CHR ''.'' \<notin> set p) (split_byte (CHR ''.'') k)"
    using nonempty no_slash by (auto simp: list_all_iff dest: split_byte_subset split_byte_no_sep)
  show "sysctl_path k = ''/proc/sys/'' @ str_join [slash] (split_byte (CHR ''.'') k)"
    using map_join [of "split_byte (CHR ''.'') k" "CHR ''.''" slash] join_split [of "CHR ''.''" k] split_byte_no_sep
    by (simp add: sysctl_path_def)
qed

lemma apply_sysctls_writes:
  assumes "apply_sysctls ie kvs st = (r, st')"
  shows "\<exists>new. snd st' = snd st @ new \<and>
    list_all (\<lambda>e. \<exists>k v. snd e = CWrite (sysctl_path k) v \<and> allowed_container_sysctl k) new"
  using assms
proof (induction ie kvs st arbitrary: r st' rule: apply_sysctls.induct)
  case (1 ie st)
  then show ?case by simp
next
  case (2 ie k v kvs st)
  show ?case
  proof (cases "allowed_container_sysctl k")
    case False
    then show ?thesis using 2 by simp
  next
    case True
    let ?call = "CWrite (sysctl_path k) v"
    obtain e st1 where one: "do_call ie ?call st = (e, st1)" by (cases "do_call ie ?call st")
    then have log: "snd st1 = snd st @ [(fst st, ?call)]" by (auto simp: do_call_def split: option.splits if_splits)
    show ?thesis
    proof (cases e)
      case (Inl x)
      then have "st' = st1" using 2 True one by (simp add: init_bind_def)
      then show ?thesis using log True by auto
    next
      case (Inr x)
      then have "apply_sysctls ie kvs st1 = (r, st')" using 2 True one by (simp add: init_bind_def)
      then obtain new where "snd st' = snd st1 @ new"
        "list_all (\<lambda>e. \<exists>k v. snd e = CWrite (sysctl_path k) v \<and> allowed_container_sysctl k) new"
        using 2 True by blast
      then show ?thesis using log True by auto
    qed
  qed
qed

section \<open>Properties\<close>

lemma before_read_only:
  assumes "before_restrictions ie merged c m st = (Inr (), st1)" and "d \<in> {''/proc/sys'', ''/sys''}"
  shows "CRemountReadOnly d \<in> snd ` set (snd st1)"
proof -
  obtain st0 where p: "prepare_root ie merged c m st = (Inr (), st0)"
    and rest: "(case ie_config ie of None \<Rightarrow> (Inl BadImageConfig, st0) | Some (image_env, img_dir, image_user) \<Rightarrow>
      init_bind (enter_working_dir ie (init_working_dir ie (snd st0) img_dir c m) st0) (\<lambda>_.
        fix_volumes ie (if image_user = [] then cm_user m else image_user) (cm_volumes m))) = (Inr (), st1)"
    using assms(1) unfolding before_restrictions_def by (elim init_bind_ok) auto
  have "log_keeps (\<lambda>cr. True) (\<lambda>e. \<not> program_call (snd e)) (snd st0) (snd (Inr () :: init_err + unit, st1))"
    unfolding rest [symmetric]
    by (auto split: option.split intro!: no_programs.inv_bind no_programs.inv_enter_working_dir no_programs.inv_fix_volumes log_keeps_refl)
  then have "snd ` set (snd st0) \<subseteq> snd ` set (snd st1)" by (auto simp: log_keeps_def)
  then show ?thesis using prepared_read_only [OF p] assms(2) by (auto simp: readonly_remounts_def)
qed


text \<open>
  C35. The bounding set of capabilities is never made smaller: the number used for \<open>PR_CAPBSET_DROP\<close> is that of
  \<open>PR_GET_SECCOMP\<close>, so every call, the container's command among them, is made with the bounding set the init process had.
\<close>

theorem bounding_set_never_reduced:
  "cr_bound (fst (snd (init_container ie merged loaded m hs (cr0, [])))) = cr_bound cr0 \<and>
   list_all (\<lambda>e. cr_bound (fst e) = cr_bound cr0) (snd (snd (init_container ie merged loaded m hs (cr0, []))))"
proof -
  let ?I = "log_keeps (\<lambda>cr. cr_bound cr = cr_bound cr0) (\<lambda>e. cr_bound (fst e) = cr_bound cr0) []"
  have start: "?I (cr0, [])" by (simp add: log_keeps_def)
  have "?I (snd (init_container ie merged loaded m hs (cr0, [])))"
  proof (cases "\<exists>c u. loaded = Some c \<and> hs = Inr u")
    case True
    then obtain c u where c: "loaded = Some c" "hs = Inr u" by blast
    show ?thesis
      unfolding c init_container_stages
      by (intro bound_kept.inv_bind bound_kept.inv_before_restrictions bound_privileges.inv_restrict_process
          bound_kept.inv_apply_device_restrictions bound_command.inv_run_command start)
  next
    case False
    then show ?thesis using start by (cases loaded; cases hs) (auto simp: init_container_def)
  qed
  then show ?thesis by (auto simp: log_keeps_def)
qed

text \<open>
  C36. The programs that the init process looks up in the image (\<open>mount\<close>, \<open>ip\<close>, \<open>ifconfig\<close>) run with the credentials the
  init process started with, all of its capabilities included: they come before any capability is given up.
\<close>

theorem image_programs_unrestricted:
  assumes "(cr, CRun args) \<in> set (snd (snd (init_container ie merged loaded m hs (cr0, []))))"
  shows "cr = cr0"
proof (cases "\<exists>c u. loaded = Some c \<and> hs = Inr u")
  case False
  then show ?thesis using assms by (cases loaded; cases hs) (auto simp: init_container_def)
next
  case True
  then obtain c u where c: "loaded = Some c" "hs = Inr u" by blast
  let ?P = "\<lambda>e. \<forall>args. snd e = CRun args \<longrightarrow> fst e = cr0"
  have P: "log_keeps (\<lambda>cr. True) ?P old st" if "log_keeps C (\<lambda>e. fst e = cr0 \<and> \<not> program_call (snd e)) old st" for C old st
    using that by (rule log_keeps_weaken) auto
  have P': "log_keeps (\<lambda>cr. True) ?P old st" if "log_keeps C (\<lambda>e. Q e \<and> (\<forall>args. snd e \<noteq> CRun args)) old st" for C Q old st
    using that by (rule log_keeps_weaken) auto
  have restrict: "log_keeps (\<lambda>cr. True) ?P (snd st) (snd (restrict_process ie m st))" if "fst st = cr0" for st
  proof -
    have "log_keeps (\<lambda>cr. True) ?P (snd st) (apply_device_restrictions ie [slash] st)"
      by (rule P, rule unchanged.inv_apply_device_restrictions) (simp add: log_keeps_def that)
    moreover have "log_keeps (\<lambda>cr. True) ?P (snd (apply_device_restrictions ie [slash] st)) (snd (restrict_process ie m st))"
      by (rule P', rule privileges.inv_restrict_process) (simp add: log_keeps_def)
    ultimately show ?thesis by (rule log_keeps_trans)
  qed
  have bind: "log_keeps (\<lambda>cr. True) ?P old (snd (init_bind r k))"
    if "log_keeps (\<lambda>cr. True) ?P old (snd r)" and "\<And>x st. r = (Inr x, st) \<Longrightarrow> log_keeps (\<lambda>cr. True) ?P (snd st) (snd (k x st))"
    for old and r :: "unit init_result" and k :: "unit \<Rightarrow> init_state \<Rightarrow> unit init_result"
    using that by (cases r; cases "fst r") (auto simp: init_bind_def dest: log_keeps_trans)
  have b: "log_keeps (\<lambda>cr. cr = cr0) (\<lambda>e. fst e = cr0 \<and> \<not> program_call (snd e)) [] (snd (before_restrictions ie merged c m (cr0, [])))"
    using before_creds [of "(cr0, [])" ie merged c m] by simp
  have "log_keeps (\<lambda>cr. True) ?P [] (snd (init_container ie merged loaded m hs (cr0, [])))"
    unfolding c init_container_stages
  proof (intro bind)
    show "log_keeps (\<lambda>cr. True) ?P [] (snd (before_restrictions ie merged c m (cr0, [])))" using b by (rule P)
  next
    fix x st1
    assume "before_restrictions ie merged c m (cr0, []) = (Inr x, st1)"
    then have "fst st1 = cr0" using b by (simp add: log_keeps_def)
    then show "log_keeps (\<lambda>cr. True) ?P (snd st1) (snd (restrict_process ie m st1))" by (rule restrict)
  next
    fix y st2
    show "log_keeps (\<lambda>cr. True) ?P (snd st2) (snd (run_command ie c m (init_environment ie c m) st2))"
      using run_command_creds by (rule P')
  qed
  then show ?thesis using assms by (auto simp: log_keeps_def list_all_iff)
qed

text \<open>
  A container whose user is given by name runs its command as the user and group of the init process (0 and 0): only a
  number is looked at, although the owner of its volumes is looked up in \<open>/etc/passwd\<close>.
\<close>

theorem named_user_is_ignored:
  assumes "init_container ie merged loaded m hs (cr0, []) = (r, st')"
    and "i < length (snd st')" and "snd st' ! i = (cr, call)" and "program_call call"
    and "parse_int64 (hd (split_byte (CHR '':'') (cm_user m))) = None"
  shows "cr_uid cr = cr_uid cr0 \<and> cr_gid cr = cr_gid cr0"
proof -
  obtain c st1 st2 where b: "before_restrictions ie merged c m (cr0, []) = (Inr (), st1)"
    and r: "restrict_process ie m st1 = (Inr (), st2)" and cr: "cr = fst st2"
    by (rule program_stages [OF assms(1-4)]) simp_all
  have "fst st1 = cr0" using before_creds [of "(cr0, [])" ie merged c m] b by (simp add: log_keeps_def)
  then show ?thesis using restricted_creds [OF r] assms(5) unfolding cr by metis
qed

text \<open>
  C37. A container with a read-only root file system whose capabilities are not extended never gets to its command: the root is
  remounted after \<open>CAP_SYS_ADMIN\<close> was given up.
\<close>

theorem read_only_container_never_runs:
  assumes "cm_readonly m" and "cm_cap_add m = []"
  shows "list_all (\<lambda>e. \<not> program_call (snd e)) (snd (snd (init_container ie merged loaded m hs (cr0, []))))"
proof -
  obtain r st' where init: "init_container ie merged loaded m hs (cr0, []) = (r, st')"
    by (cases "init_container ie merged loaded m hs (cr0, [])")
  have "\<not> program_call call" if i: "i < length (snd st')" "snd st' ! i = (cr, call)" for i cr call
  proof
    assume pc: "program_call call"
    then obtain st1 st2 where "restrict_process ie m st1 = (Inr (), st2)"
      by (rule program_stages [OF init i]) simp_all
    then show False using restricted_creds assms no_admin by metis
  qed
  then show ?thesis unfolding init list_all_length by (metis prod.collapse snd_conv)
qed

lemma refused_scripts:
  assumes "\<forall>d. \<not> ie_ok ie (fst st) (CWrite (''/dck/'' @ ''info'') d)"
  shows "\<exists>new. snd (snd (run_command ie c m env st)) = snd st @ new \<and> list_all (\<lambda>e. \<not> program_call (snd e)) new"
proof -
  obtain d rest where scripts: "script_calls dck_scripts = CWrite (''/dck/'' @ ''info'') d # rest"
    by (simp add: script_calls_def dck_scripts_def Let_def)
  let ?st = "try_all ie [CMkdir ''/dck'' 493] st"
  have "quiet [CMkdir ''/dck'' 493]" by (simp add: quiet_def)
  then have creds: "fst ?st = fst st" by (rule try_all_plain)
  have log: "snd ?st = snd st @ [(fst st, CMkdir ''/dck'' 493)]"
    by (auto simp: try_all_def do_call_def split: option.split)
  have "do_all ie (script_calls dck_scripts) ?st =
      (Inl (CallFailed (CWrite (''/dck/'' @ ''info'') d)), (fst st, snd ?st @ [(fst st, CWrite (''/dck/'' @ ''info'') d)]))"
    unfolding scripts using assms creds by (simp add: do_call_def init_bind_def)
  then show ?thesis by (simp add: run_command_def init_bind_def log)
qed

text \<open>
  A container whose user is a number other than 0 never gets to its command, when a process without capabilities may
  not write below \<open>/dck\<close>, a directory of the image's owner: the help scripts are written after the change of user.
\<close>

theorem unprivileged_container_never_runs:
  assumes "cm_user m \<noteq> []" and "parse_int64 (hd (split_byte (CHR '':'') (cm_user m))) = Some uid" and "uid mod 2 ^ 32 \<noteq> 0"
    and "cr_uid cr0 = 0"
    and "\<forall>cr n d. cr_uid cr \<noteq> 0 \<and> cr_eff cr = {} \<longrightarrow> \<not> ie_ok ie cr (CWrite (''/dck/'' @ n) d)"
  shows "list_all (\<lambda>e. \<not> program_call (snd e)) (snd (snd (init_container ie merged loaded m hs (cr0, []))))"
proof -
  obtain r st' where init: "init_container ie merged loaded m hs (cr0, []) = (r, st')"
    by (cases "init_container ie merged loaded m hs (cr0, [])")
  have "\<not> program_call call" if i: "i < length (snd st')" "snd st' ! i = (cr, call)" for i cr call
  proof
    assume pc: "program_call call"
    then obtain c st1 st2 where b: "before_restrictions ie merged c m (cr0, []) = (Inr (), st1)"
      and r: "restrict_process ie m st1 = (Inr (), st2)" and len: "length (snd st2) \<le> i"
      and run: "run_command ie c m (init_environment ie c m) st2 = (r, st')"
      by (rule program_stages [OF init i]) simp_all
    have "fst st1 = cr0" using before_creds [of "(cr0, [])" ie merged c m] b by (simp add: log_keeps_def)
    then have "cr_uid (fst st2) \<noteq> 0 \<and> cr_eff (fst st2) = {}" using restricted_creds [OF r] assms(1-4) by metis
    then have "\<forall>d. \<not> ie_ok ie (fst st2) (CWrite (''/dck/'' @ ''info'') d)" using assms(5) by blast
    from refused_scripts [OF this, of c m "init_environment ie c m"] obtain new
      where "snd st' = snd st2 @ new" "list_all (\<lambda>e. \<not> program_call (snd e)) new" using run by auto
    then have "snd st' ! i \<in> set new" using len i(1) by (simp add: nth_append)
    then have "\<not> program_call (snd (snd st' ! i))" using \<open>list_all _ new\<close> unfolding list_all_iff by blast
    then show False using i(2) pc by simp
  qed
  then show ?thesis unfolding init list_all_length by (metis prod.collapse snd_conv)
qed

text \<open>
  C38. What a container's specification can write below \<open>/proc/sys\<close> is a path of plain names below it, without an empty
  name, a point or a separator in a name; nothing else is written for it.
\<close>

theorem sysctl_writes_confined:
  assumes "apply_sysctls ie kvs st = (r, st')" and "length (snd st) \<le> i" and "i < length (snd st')"
  shows "\<exists>parts v. snd (snd st' ! i) = CWrite (''/proc/sys/'' @ str_join [slash] parts) v \<and>
    list_all (\<lambda>p. p \<noteq> [] \<and> slash \<notin> set p \<and> CHR ''.'' \<notin> set p) parts"
proof -
  obtain new where new: "snd st' = snd st @ new"
    "list_all (\<lambda>e. \<exists>k v. snd e = CWrite (sysctl_path k) v \<and> allowed_container_sysctl k) new"
    using apply_sysctls_writes [OF assms(1)] by blast
  then have "snd st' ! i \<in> set new" using assms(2,3) by (simp add: nth_append)
  then obtain k v where "snd (snd st' ! i) = CWrite (sysctl_path k) v" "allowed_container_sysctl k"
    using new(2) unfolding list_all_iff by blast
  then have "snd (snd st' ! i) = CWrite (''/proc/sys/'' @ str_join [slash] (split_byte (CHR ''.'') k)) v"
    and "list_all (\<lambda>p. p \<noteq> [] \<and> slash \<notin> set p \<and> CHR ''.'' \<notin> set p) (split_byte (CHR ''.'') k)"
    using allowed_sysctl_parts by simp_all
  then show ?thesis by blast
qed

text \<open>
  No profile is ever put in force by \<open>ApplySeccompFilter\<close>, which always fails (the filter it builds has no instruction), and
  \<open>IsSeccompFilterActive\<close> is false for every status file (it compares nine bytes with a text of eight).
\<close>

theorem seccomp_never_active:
  "fst (apply_seccomp_filter ie profile st) \<noteq> Inr () \<and> \<not> is_seccomp_filter_active scan status"
proof -
  have "do_call ie (CSeccomp 0) s \<noteq> (Inr (), s')" for s s'
    by (auto simp: do_call_def)
  then have "fst (apply_seccomp_filter ie profile st) \<noteq> Inr ()"
    by (auto simp: apply_seccomp_filter_def build_seccomp_filter_def init_bind_def split: prod.splits sum.splits)
  then show ?thesis by (auto simp: is_seccomp_filter_active_def split: option.splits dest: find_in)
qed

end
