(* ===== verification/InitWitness.thy ===== *)
theory InitWitness
  imports InitProps GuardProps
begin

text \<open>Concrete containers whose init process is followed to its end.\<close>

definition root_creds :: creds where
  "root_creds = \<lparr>cr_uid = 0, cr_gid = 0, cr_eff = UNIV, cr_perm = UNIV, cr_bound = UNIV, cr_nnp = False\<rparr>"

text \<open>An image without programs, on a kernel that agrees to everything the credentials allow.\<close>

definition sample_init_env :: init_env where
  "sample_init_env =
     \<lparr>ie_ok = (\<lambda>cr call. True), ie_exists = (\<lambda>log p. p = ''/bin/sleep''), ie_config = Some ([''LANG=C''], [], []),
      ie_passwd = None, ie_look_path = (\<lambda>s p. None), ie_addr = (\<lambda>n. []), ie_path = default_path, ie_cap_order = cap_map\<rparr>"

definition sample_init_container :: container where
  "sample_init_container = sample_container\<lparr>ct_cmd := [''/bin/sleep'', ''1''], ct_working_dir := []\<rparr>"

definition sample_more :: "string \<Rightarrow> bool \<Rightarrow> container_more" where
  "sample_more user ro =
     \<lparr>cm_startup = [], cm_volumes = [], cm_env = [], cm_interactive = False, cm_tty = False, cm_memory = 0, cm_cpus = (0, 0),
      cm_disk = 0, cm_health = None, cm_labels = [], cm_cap_add = [], cm_cap_drop = [''NET_RAW''], cm_user = user,
      cm_readonly = ro, cm_no_new_privs = False, cm_sysctls = [], cm_entrypoint = [], cm_ulimits = [], cm_seccomp = [],
      cm_apparmor = [], cm_isolated = False, cm_encrypted_backup = False, cm_audit = False, cm_secrets = []\<rparr>"

lemma sample_parts:
  "cm_sysctls (sample_more user ro) = []" "cm_volumes (sample_more user ro) = []" "cm_startup (sample_more user ro) = []"
  "ct_working_dir sample_init_container = []" "ie_config sample_init_env = Some ([''LANG=C''], [], [])"
  by (simp_all add: sample_more_def sample_init_container_def sample_init_env_def)

lemma no_volumes: "fix_volumes ie user [] = Pair (Inr ())"
  by (rule ext) simp

section \<open>Calls that succeed\<close>

lemma do_all_runs:
  assumes "\<forall>cr call. ie_ok ie cr call"
  shows "run_creds calls (fst st) = Some cr \<Longrightarrow> \<exists>log. do_all ie calls st = (Inr (), (cr, log))"
proof (induction calls arbitrary: st)
  case Nil
  then show ?case by (cases st) simp
next
  case (Cons call calls)
  then obtain cr1 where "kernel_creds call (fst st) = Some cr1" "run_creds calls cr1 = Some cr" by (auto split: bind_splits)
  moreover from this have "\<exists>log. do_all ie calls (cr1, snd st @ [(fst st, call)]) = (Inr (), (cr, log))" by (intro Cons.IH) simp
  ultimately show ?case using assms by (simp add: do_call_def init_bind_def)
qed

lemma restrict_process_runs:
  assumes ok: "\<forall>cr call. ie_ok ie cr call"
    and keep: "requested_capabilities (cm_cap_add m) (cm_user m) (cm_cap_drop m) = Inr keep"
    and cr: "run_creds ((CCapset (cap_words keep) # drop_unkept (ie_cap_order ie) keep) @ switch_user_calls (cm_user m)
      @ [CPrctl PR_SET_NO_NEW_PRIVS 1] @ (if cm_readonly m then [CRemountRoot] else [])) (fst st) = Some cr"
  shows "\<exists>log. restrict_process ie m st = (Inr (), (cr, log))"
proof -
  let ?tail = "switch_user_calls (cm_user m) @ [CPrctl PR_SET_NO_NEW_PRIVS 1] @ (if cm_readonly m then [CRemountRoot] else [])"
  obtain cr1 where cr1: "run_creds (CCapset (cap_words keep) # drop_unkept (ie_cap_order ie) keep) (fst st) = Some cr1"
    and cr2: "run_creds ?tail cr1 = Some cr"
    using cr unfolding run_creds_append [of "CCapset (cap_words keep) # drop_unkept (ie_cap_order ie) keep"] by (auto split: bind_splits)
  obtain log1 where one: "apply_capabilities ie m (apply_device_restrictions ie [slash] st) = (Inr (), (cr1, log1))"
    using do_all_runs [OF ok, of "CCapset (cap_words keep) # drop_unkept (ie_cap_order ie) keep" "apply_device_restrictions ie [slash] st" cr1]
      keep cr1 by (auto simp: apply_capabilities_def devices_creds simp del: run_creds.simps do_all.simps)
  obtain log2 where two: "do_all ie ?tail (cr1, log1) = (Inr (), (cr, log2))"
    using do_all_runs [OF ok, of ?tail "(cr1, log1)" cr] cr2 by auto
  have "fst (try_all ie (ulimit_calls (cm_ulimits m)) (cr, log2)) = cr" by (simp add: ulimits_creds)
  then show ?thesis
    unfolding restrict_process_def one init_bind_def
    using two by (cases "try_all ie (ulimit_calls (cm_ulimits m)) (cr, log2)") simp
qed

lemma before_runs:
  "\<exists>log. before_restrictions sample_init_env ''/m'' sample_init_container (sample_more user ro) (root_creds, []) = (Inr (), (root_creds, log))"
proof -
  have "\<not> isl (fst (before_restrictions sample_init_env ''/m'' sample_init_container (sample_more [] False) (root_creds, [])))"
    by code_simp
  moreover have "before_restrictions sample_init_env ''/m'' sample_init_container (sample_more user ro) (root_creds, []) =
      before_restrictions sample_init_env ''/m'' sample_init_container (sample_more [] False) (root_creds, [])"
    by (simp add: before_restrictions_def prepare_root_def sample_parts init_working_dir_def Let_def no_volumes)
  ultimately show ?thesis
    using before_creds [of "(root_creds, [])" sample_init_env "''/m''" sample_init_container "sample_more [] False"]
    by (cases "before_restrictions sample_init_env ''/m'' sample_init_container (sample_more [] False) (root_creds, [])";
        cases "fst (before_restrictions sample_init_env ''/m'' sample_init_container (sample_more [] False) (root_creds, []))")
       (auto simp: log_keeps_def)
qed

text \<open>The last call of the sample is the container's command.\<close>

lemma sample_runs:
  assumes "run_creds ((CCapset (cap_words keep) # drop_unkept cap_map keep) @ switch_user_calls user
      @ [CPrctl PR_SET_NO_NEW_PRIVS 1]) root_creds = Some cr"
    and "requested_capabilities [] user [''NET_RAW''] = Inr keep"
  shows "\<exists>log env. init_container sample_init_env ''/m'' (Some sample_init_container) (sample_more user False) (Inr ()) (root_creds, []) =
    (Inr (), (cr, log @ [(cr, CExec ''/bin/sleep'' [''/bin/sleep'', ''1''] env)]))"
proof -
  let ?env = "init_environment sample_init_env sample_init_container (sample_more user False)"
  obtain log1 where b: "before_restrictions sample_init_env ''/m'' sample_init_container (sample_more user False) (root_creds, []) =
      (Inr (), (root_creds, log1))"
    using before_runs by blast
  obtain log2 where r: "restrict_process sample_init_env (sample_more user False) (root_creds, log1) = (Inr (), (cr, log2))"
    using restrict_process_runs [of sample_init_env "sample_more user False" keep "(root_creds, log1)" cr] assms
    by (auto simp: sample_init_env_def sample_more_def)
  let ?st = "try_all sample_init_env [CMkdir ''/dck'' 493] (cr, log2)"
  have "run_creds (script_calls dck_scripts) (fst ?st) = Some (fst ?st)"
    by (simp add: script_calls_def dck_scripts_def)
  then obtain log3 where s: "do_all sample_init_env (script_calls dck_scripts) ?st = (Inr (), (fst ?st, log3))"
    using do_all_runs [of sample_init_env "script_calls dck_scripts" ?st "fst ?st"] by (auto simp: sample_init_env_def)
  have "fst ?st = cr" using try_all_plain [of "[CMkdir ''/dck'' 493]" sample_init_env "(cr, log2)"] by (simp add: quiet_def)
  then have "run_command sample_init_env sample_init_container (sample_more user False) ?env (cr, log2) =
      (Inr (), (cr, log3 @ [(cr, CExec ''/bin/sleep'' [''/bin/sleep'', ''1''] ?env)]))"
    using s by (simp add: run_command_def init_bind_def sample_more_def sample_init_container_def command_call_def do_call_def)
       (simp add: sample_init_env_def)
  then show ?thesis unfolding init_container_stages b r by (simp add: init_bind_def r)
qed

section \<open>Witnesses\<close>

lemma sample_keep:
  "requested_capabilities [] [] [''NET_RAW''] = Inr (filter (\<lambda>n. n \<noteq> ''NET_RAW'') default_capabilities)"
  "requested_capabilities [] ''nginx'' [''NET_RAW''] =
     Inr (''SETUID'' # ''SETGID'' # filter (\<lambda>n. n \<noteq> ''NET_RAW'') default_capabilities)"
  by code_simp+

lemma sample_creds:
  "\<exists>cr. run_creds ((CCapset (cap_words keep) # drop_unkept cap_map keep) @ switch_user_calls ''nginx''
      @ [CPrctl PR_SET_NO_NEW_PRIVS 1]) root_creds = Some cr"
proof -
  have "switch_user_calls ''nginx'' = []" by code_simp
  then show ?thesis
    by (simp add: run_creds_append drop_unkept_creds sys_capset_def root_creds_def sys_prctl_def PR_SET_NO_NEW_PRIVS_def)
qed

lemma sample_started:
  "\<exists>cr log env. init_container sample_init_env ''/m'' (Some sample_init_container) (sample_more ''nginx'' False) (Inr ()) (root_creds, []) =
    (Inr (), (cr, log @ [(cr, CExec ''/bin/sleep'' [''/bin/sleep'', ''1''] env)]))"
  using sample_creds sample_runs [OF _ sample_keep(2)] by blast


theorem named_user_is_ignored_witness:
  "\<exists>st' i cr call. init_container sample_init_env ''/m'' (Some sample_init_container) (sample_more ''nginx'' False) (Inr ()) (root_creds, []) = (Inr (), st') \<and>
     i < length (snd st') \<and> snd st' ! i = (cr, call) \<and> program_call call \<and> cr_uid cr = 0 \<and> cr_gid cr = 0"
proof -
  obtain cr log env where init: "init_container sample_init_env ''/m'' (Some sample_init_container) (sample_more ''nginx'' False) (Inr ()) (root_creds, []) =
    (Inr (), (cr, log @ [(cr, CExec ''/bin/sleep'' [''/bin/sleep'', ''1''] env)]))" (is "_ = (_, ?st')")
    using sample_started by blast
  have "parse_int64 (hd (split_byte (CHR '':'') (cm_user (sample_more ''nginx'' False)))) = None" by code_simp
  then have "cr_uid cr = 0 \<and> cr_gid cr = 0"
    using named_user_is_ignored [OF init, of "length log" cr] by (simp add: root_creds_def)
  then show ?thesis
    by (intro exI [of _ ?st'] exI [of _ "length log"] exI [of _ cr] exI [of _ "CExec ''/bin/sleep'' [''/bin/sleep'', ''1''] env"])
       (simp add: init)
qed

text \<open>An image with \<open>ip\<close> and a root file system that cannot be written.\<close>

definition full_image_env :: init_env where
  "full_image_env =
     sample_init_env\<lparr>ie_ok := (\<lambda>cr call. case call of CWrite p d \<Rightarrow> False | _ \<Rightarrow> True), ie_look_path := (\<lambda>s p. Some ''/sbin/ip'')\<rparr>"

lemma full_image_loopback: "snd (loopback_up full_image_env st) = snd st @ [(fst st, CRun [''/sbin/ip'', ''link'', ''set'', ''lo'', ''up''])]"
  by (simp add: loopback_up_def full_image_env_def try_all_def do_call_def)

lemma do_all_runs_on:
  assumes "list_all (\<lambda>call. \<forall>cr. ie_ok ie cr call) calls"
  shows "run_creds calls (fst st) = Some cr \<Longrightarrow> \<exists>log. do_all ie calls st = (Inr (), (cr, log))"
  using assms
proof (induction calls arbitrary: st)
  case Nil
  then show ?case by (cases st) simp
next
  case (Cons call calls)
  then obtain cr1 where "kernel_creds call (fst st) = Some cr1" "run_creds calls cr1 = Some cr" by (auto split: bind_splits)
  moreover from this have "\<exists>log. do_all ie calls (cr1, snd st @ [(fst st, call)]) = (Inr (), (cr, log))"
    using Cons.prems by (intro Cons.IH) simp_all
  ultimately show ?case using Cons.prems by (simp add: do_call_def init_bind_def)
qed

lemma full_image_mounts: "fst st = root_creds \<Longrightarrow> \<exists>log. mount_kernel full_image_env st = (Inr (), (root_creds, log))"
  by (simp add: mount_kernel_def do_call_def init_bind_def try_all_def full_image_env_def root_creds_def)

lemma full_image_runs: "(root_creds, CRun [''/sbin/ip'', ''link'', ''set'', ''lo'', ''up'']) \<in> set (snd (snd
   (init_container full_image_env ''/m'' (Some sample_init_container) (sample_more ''nginx'' False) (Inr ()) (root_creds, []))))"
proof -
  let ?e = full_image_env
  let ?r = "init_container ?e ''/m'' (Some sample_init_container) (sample_more ''nginx'' False) (Inr ()) (root_creds, [])"
  obtain log1 where a: "do_all ?e (pivot_calls (ct_hostname sample_init_container) ''/m'') (root_creds, []) = (Inr (), (root_creds, log1))"
    using do_all_runs_on [of ?e "pivot_calls (ct_hostname sample_init_container) ''/m''" "(root_creds, [])" root_creds]
    by (auto simp: pivot_calls_def full_image_env_def root_creds_def Let_def simp del: do_all.simps)
  have "fst (try_all ?e mount_points (root_creds, log1)) = root_creds"
    by (subst try_all_plain) (simp_all add: quiet_def mount_points_def)
  then obtain log2 where b: "mount_kernel ?e (try_all ?e mount_points (root_creds, log1)) = (Inr (), (root_creds, log2))"
    using full_image_mounts by blast
  obtain log3 where c: "do_all ?e readonly_remounts (root_creds, log2) = (Inr (), (root_creds, log3))"
    using do_all_runs_on [of ?e readonly_remounts "(root_creds, log2)" root_creds]
    by (auto simp: readonly_remounts_def full_image_env_def root_creds_def simp del: do_all.simps)
  have m: "ct_network_mode sample_init_container = ''none''"
    by (simp add: sample_init_container_def sample_container_def)
  let ?s = "interfaces_up ?e ''none'' (try_all ?e [CChmod ''/tmp'' 1023] (root_creds, log3))"
  have "fst (try_all ?e [CChmod ''/tmp'' 1023] (root_creds, log3)) = root_creds"
    by (subst try_all_plain) (simp_all add: quiet_def)
  then have "(root_creds, CRun [''/sbin/ip'', ''link'', ''set'', ''lo'', ''up'']) \<in> set (snd ?s)"
    by (simp add: interfaces_up_def full_image_loopback)
  moreover have "log_keeps (\<lambda>cr. True) (\<lambda>e. \<not> program_call (snd e)) (snd ?s) (ensure_usr_merge ?e ?s)"
    by (rule no_programs.inv_ensure_usr_merge) (simp add: log_keeps_def)
  ultimately have "(root_creds, CRun [''/sbin/ip'', ''link'', ''set'', ''lo'', ''up'']) \<in> set (snd (ensure_usr_merge ?e ?s))"
    by (auto simp: log_keeps_def)
  moreover have "snd ?r = (fst (ensure_usr_merge ?e ?s), snd (ensure_usr_merge ?e ?s) @ [(fst (ensure_usr_merge ?e ?s),
      CWrite ''/etc/resolv.conf'' (resolv_conf (ct_dns sample_init_container)))])"
    by (simp add: init_container_def prepare_root_def init_bind_def a b c m sample_parts del: do_all.simps)
       (simp add: do_call_def full_image_env_def)
  ultimately show ?thesis by simp
qed

theorem image_programs_unrestricted_witness:
  "\<exists>cr. (cr, CRun [''/sbin/ip'', ''link'', ''set'', ''lo'', ''up'']) \<in>
     set (snd (snd (init_container full_image_env ''/m'' (Some sample_init_container) (sample_more ''nginx'' False) (Inr ()) (root_creds, []))))
   \<and> cr = root_creds"
  using full_image_runs image_programs_unrestricted [OF full_image_runs] by blast

theorem read_only_container_never_runs_witness:
  "cm_readonly (sample_more [] True) \<and>
   list_all (\<lambda>e. \<not> program_call (snd e))
     (snd (snd (init_container sample_init_env ''/m'' (Some sample_init_container) (sample_more [] True) (Inr ()) (root_creds, []))))"
  using read_only_container_never_runs [of "sample_more [] True"] by (simp add: sample_more_def)

text \<open>A kernel that lets only user 0 write.\<close>

theorem unprivileged_container_never_runs_witness:
  "list_all (\<lambda>e. \<not> program_call (snd e))
     (snd (snd (init_container (sample_init_env\<lparr>ie_ok := (\<lambda>cr call. cr_uid cr = 0)\<rparr>) ''/m'' (Some sample_init_container)
        (sample_more ''1000:1000'' False) (Inr ()) (root_creds, []))))"
proof -
  have "parse_int64 (hd (split_byte (CHR '':'') (cm_user (sample_more ''1000:1000'' False)))) = Some 1000" by code_simp
  moreover have "cm_user (sample_more ''1000:1000'' False) \<noteq> []" by (simp add: sample_more_def)
  ultimately show ?thesis
    by (intro unprivileged_container_never_runs [where uid = 1000]) (simp_all add: root_creds_def)
qed

theorem sysctl_writes_confined_witness:
  "\<exists>parts v. snd (snd (snd (apply_sysctls sample_init_env [(''net.core.x'', ''1'')] (root_creds, []))) ! 0) =
     CWrite (''/proc/sys/'' @ str_join [slash] parts) v"
proof -
  have "allowed_container_sysctl ''net.core.x''"
    by code_simp
  then have run: "apply_sysctls sample_init_env [(''net.core.x'', ''1'')] (root_creds, []) =
      (Inr (), (root_creds, [(root_creds, CWrite (sysctl_path ''net.core.x'') ''1'')]))"
    by (simp add: do_call_def init_bind_def sample_init_env_def)
  show ?thesis using sysctl_writes_confined [OF run, of 0] run by auto
qed

end
