(* ===== verification/Update.thy ===== *)
theory Update
  imports TarExtract NetPlumbing BackupArchive
begin

text \<open>
  \<open>dck update\<close> (\<open>cmd/update.go\<close>): finding the latest version, comparing versions, downloading, checking and installing
  the binary. What the network and other programs answer, SHA-256, the readers of gzip and tar, and whether the
  calls on the temporary file succeed are parameters.
\<close>

section \<open>Versions\<close>

definition version_parts :: "string \<Rightarrow> string list" where
  "version_parts s = split_byte (CHR ''.'') (dropWhile (\<lambda>c. c = CHR ''v'') s)"

text \<open>A number that cannot be read leaves the variable at 0.\<close>

definition part_at :: "string list \<Rightarrow> nat \<Rightarrow> int" where
  "part_at ps i = (if i < length ps then (case scan_int (ps ! i) of None \<Rightarrow> 0 | Some n \<Rightarrow> n) else 0)"

text \<open>The loop of \<open>compareVersions\<close>: \<open>n\<close> rounds are left, from index \<open>i\<close>.\<close>

fun compare_parts :: "string list \<Rightarrow> string list \<Rightarrow> nat \<Rightarrow> nat \<Rightarrow> int" where
  "compare_parts ap bp i 0 = 0"
| "compare_parts ap bp i (Suc n) =
     (if part_at ap i < part_at bp i then -1
      else if part_at bp i < part_at ap i then 1
      else compare_parts ap bp (Suc i) n)"

definition compare_versions :: "string \<Rightarrow> string \<Rightarrow> int" where
  "compare_versions a b =
     (if a = [] \<and> b = [] then 0 else if a = [] then -1 else if b = [] then 1
      else compare_parts (version_parts a) (version_parts b) 0 (max (length (version_parts a)) (length (version_parts b))))"

text \<open>The tag of a line of \<open>git ls-remote\<close>.\<close>

definition line_version :: "string \<Rightarrow> string option" where
  "line_version line =
     (case splitn_byte 2 (CHR 0x09) line of
        [sha, ref] \<Rightarrow>
          if has_prefix ref ''refs/tags/v'' then Some (trim_prefix (trim_prefix ref ''refs/tags/'') ''v'') else None
      | _ \<Rightarrow> None)"

fun newest :: "string list \<Rightarrow> string \<Rightarrow> string" where
  "newest [] latest = latest"
| "newest (line # ls) latest =
     (case line_version line of
        Some v \<Rightarrow> newest ls (if 0 < compare_versions v latest then v else latest)
      | None \<Rightarrow> newest ls latest)"

section \<open>The network\<close>

text \<open>
  What answers: an HTTP request with its status and body (after at most three redirects), and a program with its
  arguments (None: it failed).
\<close>

record update_env =
  ue_get :: "string \<Rightarrow> (int \<times> string) option"
  ue_program :: "string list \<Rightarrow> string option"
  ue_sha :: "string \<Rightarrow> string"
  ue_unpack :: "string \<Rightarrow> tar_item list option"
  ue_version :: string
  ue_mirror :: string
  ue_os_arch :: "string \<times> string"
  ue_signature :: string
  ue_cosign :: "string option"
  ue_self :: "string option"
  ue_appimage :: string
  ue_temp :: "string option"
  ue_temp_ok :: bool

definition release_url :: string where
  "release_url = ''https://github.com/animesao/dck''"

definition base_url :: "update_env \<Rightarrow> string" where
  "base_url u =
     (if ue_mirror u \<noteq> [] then rev (dropWhile (\<lambda>c. c = slash) (rev (ue_mirror u)))
      else ''https://raw.githubusercontent.com/animesao/dck'')"

definition fetch_url_go_bytes :: "update_env \<Rightarrow> string \<Rightarrow> string option" where
  "fetch_url_go_bytes u url = (case ue_get u url of Some (code, body) \<Rightarrow> if code = 200 then Some body else None | None \<Rightarrow> None)"

definition next_try :: "'a option \<Rightarrow> 'a option \<Rightarrow> 'a option" where
  "next_try a b = (case a of Some x \<Rightarrow> Some x | None \<Rightarrow> b)"

definition fetch_url_bytes :: "update_env \<Rightarrow> string \<Rightarrow> string option" where
  "fetch_url_bytes u url =
     next_try (fetch_url_go_bytes u url)
       (next_try (ue_program u [''curl'', ''-fsSL'', ''--connect-timeout'', ''10'', ''--max-time'', ''300'', url])
          (ue_program u [''wget'', ''-qO-'', ''--timeout=20'', ''--tries=3'', url]))"

text \<open>Without \<open>-f\<close>, \<open>curl\<close> takes the page of an error for the answer.\<close>

definition fetch_url :: "update_env \<Rightarrow> string \<Rightarrow> string option" where
  "fetch_url u url =
     next_try (map_option trim_space (fetch_url_go_bytes u url))
       (next_try (map_option trim_space (ue_program u [''curl'', ''-sL'', url]))
          (map_option trim_space (ue_program u [''wget'', ''-qO-'', url])))"

definition fetch_version_via_git :: "update_env \<Rightarrow> string option" where
  "fetch_version_via_git u =
     (case ue_program u [''git'', ''ls-remote'', ''--tags'', ''https://github.com/animesao/dck.git''] of
        None \<Rightarrow> None
      | Some out \<Rightarrow> (let v = newest (split_byte (CHR 0x0A) out) [] in if v = [] then None else Some v))"

definition fetch_latest_version :: "update_env \<Rightarrow> string option" where
  "fetch_latest_version u = next_try (fetch_version_via_git u) (fetch_url u (base_url u @ ''/main/VERSION''))"

section \<open>Checksums and the archive\<close>

definition line_checksum :: "string \<Rightarrow> string \<Rightarrow> string option" where
  "line_checksum filename line =
     (case str_fields (trim_space line) of
        digest # name # _ \<Rightarrow> if name = filename then Some (map lower_char digest) else None
      | _ \<Rightarrow> None)"

fun first_some :: "('a \<Rightarrow> 'b option) \<Rightarrow> 'a list \<Rightarrow> 'b option" where
  "first_some f [] = None"
| "first_some f (x # xs) = (case f x of Some y \<Rightarrow> Some y | None \<Rightarrow> first_some f xs)"

definition fetch_checksum_for_file :: "update_env \<Rightarrow> string \<Rightarrow> string \<Rightarrow> string option" where
  "fetch_checksum_for_file u url filename =
     (case fetch_url u url of
        None \<Rightarrow> None
      | Some contents \<Rightarrow> first_some (line_checksum filename) (split_byte (CHR 0x0A) contents))"

definition parse_sha256_checksum :: "string \<Rightarrow> string option" where
  "parse_sha256_checksum contents =
     (case str_fields contents of
        [] \<Rightarrow> None
      | digest # _ \<Rightarrow> if length digest \<noteq> 64 \<or> \<not> list_all is_hex digest then None else Some (map lower_char digest))"

definition member_matches :: "string \<Rightarrow> string \<Rightarrow> bool" where
  "member_matches target name =
     (let base = trim_prefix (trim_prefix (trim_prefix name ''./'') ''.'') [slash] in
      base = target \<or> has_suffix (slash # base) (slash # target))"

fun first_member :: "string \<Rightarrow> tar_item list \<Rightarrow> string option" where
  "first_member target [] = None"
| "first_member target (TarReadError # items) = None"
| "first_member target (TarEntry h # items) =
     (if member_matches target (th_name h) then (if th_data_ok h then Some (th_data h) else None)
      else first_member target items)"

definition extract_binary_from_tar_gz :: "update_env \<Rightarrow> string \<Rightarrow> string \<Rightarrow> string option" where
  "extract_binary_from_tar_gz u data target = Option.bind (ue_unpack u data) (first_member target)"

section \<open>The signature\<close>

definition regexp_quote_meta :: "string \<Rightarrow> string" where
  "regexp_quote_meta s = concat (map (\<lambda>c. if c \<in> set (CHR 0x5C # ''.+*?()|[]{}^$'') then [CHR 0x5C, c] else [c]) s)"

text \<open>The checksum file is fetched again and given to \<open>cosign\<close>; \<open>tmp\<close> is the file it is written to.\<close>

definition verify_cosign_signature :: "update_env \<Rightarrow> string \<Rightarrow> string \<Rightarrow> string \<Rightarrow> bool" where
  "verify_cosign_signature u tag sig_url tmp =
     (case ue_cosign u of
        None \<Rightarrow> False
      | Some cosign \<Rightarrow>
          fetch_url_bytes u (take (length sig_url - 4) sig_url) \<noteq> None \<and> ue_temp_ok u
          \<and> ue_program u
              [cosign, ''verify-blob'', ''--signature'', sig_url, ''--certificate-identity-regexp'',
               ''^https://github.com/animesao/dck/.github/workflows/release.yml@refs/tags/'' @ regexp_quote_meta tag @ ''$'',
               ''--certificate-oidc-issuer'', ''https://token.actions.githubusercontent.com'', tmp] \<noteq> None)"

definition wants_signature :: "string \<Rightarrow> bool" where
  "wants_signature v \<longleftrightarrow> map lower_char v = ''1'' \<or> map lower_char v = ''true''"

section \<open>The command\<close>

datatype update_result =
    NoVersion | UpToDate | Available string | Cancelled | NoArchive | NoChecksum | ChecksumMismatch | NoBinary
  | BadSignature | NoSelf | TempFailed | InstallFailed | Installed string string

definition update_install_target :: "update_env \<Rightarrow> string \<Rightarrow> string \<times> bool" where
  "update_install_target u self =
     (if trim_space (ue_appimage u) \<noteq> [] \<or> str_contains self ''/.mount_'' then (''/usr/local/bin/dck'', True) else (self, False))"

definition install_update_binary :: "update_env \<Rightarrow> string \<Rightarrow> string \<Rightarrow> bool \<Rightarrow> bool" where
  "install_update_binary u source target allow_sudo =
     (let args = [''-D'', ''-m'', ''0755'', source, target] in
      ue_program u (''install'' # args) \<noteq> None \<or> allow_sudo \<and> ue_program u (''sudo'' # ''install'' # args) \<noteq> None)"

definition archive_name :: "update_env \<Rightarrow> string \<Rightarrow> string" where
  "archive_name u latest = ''dck_'' @ latest @ ''_'' @ fst (ue_os_arch u) @ ''_'' @ snd (ue_os_arch u) @ ''.tar.gz''"

definition release_file :: "string \<Rightarrow> string \<Rightarrow> string" where
  "release_file latest name = release_url @ ''/releases/download/v'' @ latest @ [slash] @ name"

definition checksum_url :: "string \<Rightarrow> string" where
  "checksum_url latest = release_file latest (''dck_'' @ latest @ ''_checksums.txt'')"

text \<open>From the checked archive to the installed binary; the result names where it went and what was written.\<close>

definition install_archive :: "update_env \<Rightarrow> string \<Rightarrow> string \<Rightarrow> update_result" where
  "install_archive u latest body =
     (case extract_binary_from_tar_gz u body ''dck'' of
        None \<Rightarrow> NoBinary
      | Some data \<Rightarrow>
          if wants_signature (ue_signature u)
             \<and> \<not> (case ue_temp u of None \<Rightarrow> False | Some tmp \<Rightarrow> verify_cosign_signature u (''v'' @ latest) (checksum_url latest @ ''.sig'') tmp)
          then BadSignature
          else case ue_self u of
            None \<Rightarrow> NoSelf
          | Some self \<Rightarrow>
              (case ue_temp u of
                 None \<Rightarrow> TempFailed
               | Some tmp \<Rightarrow>
                   if \<not> ue_temp_ok u then TempFailed
                   else
                     let (target, sudo) = update_install_target u self in
                     if install_update_binary u tmp target sudo then Installed target data else InstallFailed))"

definition update :: "update_env \<Rightarrow> string list \<Rightarrow> string option \<Rightarrow> update_result" where
  "update u args answer =
     (case fetch_latest_version u of
        None \<Rightarrow> NoVersion
      | Some latest \<Rightarrow>
          if compare_versions latest (ue_version u) \<le> 0 then UpToDate
          else if list_ex (\<lambda>a. a = ''--check'' \<or> a = ''-c'') args then Available latest
          else if answer \<noteq> Some ''y'' \<and> answer \<noteq> Some ''Y'' then Cancelled
          else case fetch_url_bytes u (release_file latest (archive_name u latest)) of
            None \<Rightarrow> NoArchive
          | Some body \<Rightarrow>
              (case fetch_checksum_for_file u (checksum_url latest) (archive_name u latest) of
                 None \<Rightarrow> NoChecksum
               | Some expected \<Rightarrow>
                   if map lower_char (ue_sha u body) \<noteq> map lower_char expected then ChecksumMismatch
                   else install_archive u latest body))"

end
