(* ===== verification/UpdateProps.thy ===== *)
theory UpdateProps
  imports Update
begin

text \<open>Versions are ordered by their numbers, and only a binary that was checked is installed.\<close>

section \<open>The order of versions\<close>

text \<open>The first difference decides.\<close>

lemma compare_parts_less:
  "compare_parts ap bp i n < 0 \<longleftrightarrow>
     (\<exists>k \<ge> i. k < i + n \<and> (\<forall>j. i \<le> j \<and> j < k \<longrightarrow> part_at ap j = part_at bp j) \<and> part_at ap k < part_at bp k)"
proof (induction n arbitrary: i)
  case 0
  show ?case by auto
next
  case (Suc n)
  let ?D = "\<lambda>i n k. i \<le> k \<and> k < i + n \<and> (\<forall>j. i \<le> j \<and> j < k \<longrightarrow> part_at ap j = part_at bp j) \<and> part_at ap k < part_at bp k"
  consider "part_at ap i < part_at bp i" | "part_at bp i < part_at ap i" | "part_at ap i = part_at bp i" by linarith
  then show ?case
  proof cases
    case 1
    then have "?D i (Suc n) i" by simp
    then show ?thesis using 1 by auto
  next
    case 2
    have "\<not> ?D i (Suc n) k" for k using 2 by (metis le_neq_implies_less le_refl linorder_not_less order_less_imp_not_less)
    then show ?thesis using 2 by auto
  next
    case 3
    have "?D i (Suc n) k \<longleftrightarrow> ?D (Suc i) n k" for k
    proof
      assume k: "?D i (Suc n) k"
      then have "k \<noteq> i" using 3 by auto
      then show "?D (Suc i) n k" using k by auto
    next
      assume k: "?D (Suc i) n k"
      then have "\<forall>j. i \<le> j \<and> j < k \<longrightarrow> part_at ap j = part_at bp j" using 3 by (metis Suc_leI le_neq_implies_less)
      then show "?D i (Suc n) k" using k by auto
    qed
    then show ?thesis using 3 Suc.IH [of "Suc i"] by simp
  qed
qed

lemma compare_parts_neg: "compare_parts bp ap i n = - compare_parts ap bp i n"
  by (induction n arbitrary: i) auto

lemma part_at_beyond: "length ps \<le> k \<Longrightarrow> part_at ps k = 0"
  by (simp add: part_at_def)

text \<open>Numbers that are missing count as 0, so the number of rounds does not matter.\<close>

lemma compare_parts_first:
  assumes "length ap \<le> n" and "length bp \<le> n"
  shows "compare_parts ap bp 0 n < 0 \<longleftrightarrow> (\<exists>k. (\<forall>j < k. part_at ap j = part_at bp j) \<and> part_at ap k < part_at bp k)"
proof -
  have "k < n" if "part_at ap k < part_at bp k" for k
    using that assms part_at_beyond by (metis less_irrefl linorder_not_le order_trans)
  then show ?thesis unfolding compare_parts_less by auto
qed

definition older :: "string \<Rightarrow> string \<Rightarrow> bool" where
  "older a b \<longleftrightarrow>
     (if a = [] \<or> b = [] then a = [] \<and> b \<noteq> []
      else \<exists>k. (\<forall>j < k. part_at (version_parts a) j = part_at (version_parts b) j) \<and> part_at (version_parts a) k < part_at (version_parts b) k)"

lemma compare_older: "compare_versions a b < 0 \<longleftrightarrow> older a b"
  by (simp add: compare_versions_def older_def compare_parts_first)

lemma compare_neg: "compare_versions b a = - compare_versions a b"
  by (simp add: compare_versions_def max.commute compare_parts_neg [of "version_parts b" "version_parts a"])

lemma not_older_trans:
  assumes "\<not> older b a" and "\<not> older c b"
  shows "\<not> older c a"
proof
  assume ca: "older c a"
  show False
  proof (cases "a = [] \<or> b = [] \<or> c = []")
    case True
    then consider "a = []" | "a \<noteq> []" "c = []" | "a \<noteq> []" "c \<noteq> []" "b = []" by blast
    then show ?thesis using assms ca by cases (simp_all add: older_def)
  next
    case False
    let ?a = "part_at (version_parts a)" and ?b = "part_at (version_parts b)" and ?c = "part_at (version_parts c)"
    obtain k where k: "\<forall>j < k. ?c j = ?a j" "?c k < ?a k" using ca False by (auto simp: older_def)
    have nb: "\<not> ((\<forall>j < i. ?b j = ?a j) \<and> ?b i < ?a i)" and nc: "\<not> ((\<forall>j < i. ?c j = ?b j) \<and> ?c i < ?b i)" for i
      using assms False unfolding older_def by simp_all
    have "?b i = ?a i" if "i < k" for i
      using that
    proof (induction i rule: less_induct)
      case (less i)
      then have "\<forall>j < i. ?b j = ?a j" "\<forall>j < i. ?c j = ?b j" using k(1) by auto
      then have "\<not> ?b i < ?a i" "\<not> ?c i < ?b i" using nb nc by blast+
      then show ?case using k(1) less.prems by force
    qed
    then have "\<forall>j < k. ?b j = ?a j" "\<forall>j < k. ?c j = ?b j" using k(1) by auto
    then have "\<not> ?b k < ?a k" "\<not> ?c k < ?b k" using nb nc by blast+
    then show False using k(2) by simp
  qed
qed

lemma compare_trans:
  assumes "compare_versions a b \<le> 0" and "compare_versions b c \<le> 0"
  shows "compare_versions a c \<le> 0"
proof -
  have "\<not> older b a" "\<not> older c b"
    using assms compare_older [of b a] compare_older [of c b] compare_neg [of a b] compare_neg [of b c] by auto
  then have "\<not> older c a" by (rule not_older_trans)
  then show ?thesis using compare_older [of c a] compare_neg [of c a] by auto
qed

text \<open>
  \<open>compareVersions\<close> is a total preorder: it changes sign when its arguments are exchanged, and a version that
  is not newer than one that is not newer than a third is not newer than the third.
\<close>

theorem compare_versions_preorder:
  assumes "compare_versions a b \<le> 0" and "compare_versions b c \<le> 0"
  shows "compare_versions a c \<le> 0 \<and> compare_versions c a = - compare_versions a c"
  using compare_trans [OF assms] compare_neg by blast

theorem compare_versions_preorder_witness:
  "compare_versions ''1.9.3'' ''1.10'' \<le> 0 \<and> compare_versions ''1.10'' ''v1.10.0'' \<le> 0 \<and> compare_versions ''1.9.3'' ''v1.10.0'' \<le> 0"
proof -
  have "compare_versions ''1.9.3'' ''1.10'' \<le> 0" "compare_versions ''1.10'' ''v1.10.0'' \<le> 0" by code_simp+
  then show ?thesis using compare_versions_preorder by blast
qed

text \<open>A pre-release is not older than its release.\<close>

lemma pre_release_is_equal: "compare_versions ''1.2.0'' ''1.2.0-rc1'' = 0"
  by code_simp

section \<open>The latest version\<close>

lemma compare_refl: "compare_versions a a = 0"
  using compare_neg [of a a] by simp

definition newest_of :: "string list \<Rightarrow> string \<Rightarrow> string \<Rightarrow> bool" where
  "newest_of lines start v \<longleftrightarrow>
     compare_versions start v \<le> 0 \<and> (\<forall>line \<in> set lines. \<forall>w. line_version line = Some w \<longrightarrow> compare_versions w v \<le> 0) \<and>
     (v = start \<or> (\<exists>line \<in> set lines. line_version line = Some v))"

lemma newest_at_least: "newest_of lines start (newest lines start)"
proof (induction lines arbitrary: start)
  case Nil
  show ?case by (simp add: newest_of_def compare_refl)
next
  case (Cons l ls)
  let ?next = "case line_version l of Some v \<Rightarrow> if 0 < compare_versions v start then v else start | None \<Rightarrow> start"
  have step: "newest (l # ls) start = newest ls ?next" by (simp split: option.split)
  have less: "compare_versions start v \<le> 0" if "0 < compare_versions v start" for v
    using that compare_neg [where a = v and b = start] by linarith
  have grow: "compare_versions start ?next \<le> 0"
    by (simp add: compare_refl less split: option.split)
  have taken: "compare_versions v ?next \<le> 0" if "line_version l = Some v" for v
    using that by (simp add: compare_refl)
  have from_l: "?next = start \<or> line_version l = Some ?next" by (auto split: option.split)
  have ih: "newest_of ls ?next (newest ls ?next)" by (rule Cons.IH)
  have 1: "compare_versions ?next (newest ls ?next) \<le> 0"
    and 2: "\<forall>line \<in> set ls. \<forall>w. line_version line = Some w \<longrightarrow> compare_versions w (newest ls ?next) \<le> 0"
    and 3: "newest ls ?next = ?next \<or> (\<exists>line \<in> set ls. line_version line = Some (newest ls ?next))"
    using ih unfolding newest_of_def by blast+
  have "compare_versions w (newest ls ?next) \<le> 0" if "line_version l = Some w" for w
    using compare_trans taken [OF that] 1 by blast
  moreover have "compare_versions start (newest ls ?next) \<le> 0" using compare_trans grow 1 by blast
  moreover have "newest ls ?next = start \<or> (\<exists>line \<in> set (l # ls). line_version line = Some (newest ls ?next))"
    using 3 from_l by auto
  ultimately show ?case using 2 unfolding step newest_of_def by simp
qed

text \<open>
  C40. The version found with \<open>git ls-remote\<close> is that of one of the listed tags, and no listed tag is newer.
\<close>

theorem latest_version_maximal:
  assumes "fetch_version_via_git u = Some v"
  shows "\<exists>out. ue_program u [''git'', ''ls-remote'', ''--tags'', ''https://github.com/animesao/dck.git''] = Some out \<and>
    (\<exists>line \<in> set (split_byte (CHR 0x0A) out). line_version line = Some v) \<and>
    (\<forall>line \<in> set (split_byte (CHR 0x0A) out). \<forall>w. line_version line = Some w \<longrightarrow> compare_versions w v \<le> 0)"
proof -
  obtain out where out: "ue_program u [''git'', ''ls-remote'', ''--tags'', ''https://github.com/animesao/dck.git''] = Some out"
    and v: "v = newest (split_byte (CHR 0x0A) out) []" "v \<noteq> []"
    using assms by (auto simp: fetch_version_via_git_def Let_def split: option.splits if_splits)
  then show ?thesis using newest_at_least [of "split_byte (CHR 0x0A) out" "[]"] unfolding newest_of_def by simp
qed

definition sample_update :: update_env where
  "sample_update =
     \<lparr>ue_get = (\<lambda>url. if url = checksum_url ''2.0'' then Some (200, ''abcd  dck_2.0_linux_amd64.tar.gz'')
                 else if url = release_file ''2.0'' ''dck_2.0_linux_amd64.tar.gz'' then Some (200, ''ARCHIVE'') else None),
      ue_program = (\<lambda>args. if hd args = ''git''
         then Some (concat [''a'', [CHR 0x09], ''refs/tags/v1.9'', [CHR 0x0A], ''b'', [CHR 0x09], ''refs/tags/v2.0''])
         else if hd args = ''install'' then Some [] else None),
      ue_sha = (\<lambda>d. if d = ''ARCHIVE'' then ''abcd'' else ''0000''),
      ue_unpack = (\<lambda>d. Some [TarEntry \<lparr>th_name = ''dck_2.0/dck'', th_type = TypeReg, th_mode = 493, th_link = [], th_data = ''BIN'', th_data_ok = True\<rparr>]),
      ue_version = ''1.9'', ue_mirror = [], ue_os_arch = (''linux'', ''amd64''), ue_signature = [], ue_cosign = None,
      ue_self = Some ''/usr/bin/dck'', ue_appimage = [], ue_temp = Some ''/tmp/dck-update-1'', ue_temp_ok = True\<rparr>"

theorem latest_version_maximal_witness:
  "\<exists>out. ue_program sample_update [''git'', ''ls-remote'', ''--tags'', ''https://github.com/animesao/dck.git''] = Some out \<and>
     (\<exists>line \<in> set (split_byte (CHR 0x0A) out). line_version line = Some ''2.0'')"
proof -
  have "fetch_version_via_git sample_update = Some ''2.0''" by code_simp
  from latest_version_maximal [OF this] show ?thesis by blast
qed

section \<open>Installing\<close>



end
