(* ===== verification/Spec2Isabelle.thy ===== *)
theory Spec2Isabelle
  imports AtomicWrite TarConfined UpProps GenerateProps NetCreate PlumbingProps StartProps DockerProps BuildBugs VolumeProps
    ServiceWitness Heartbeat ApiProps DnsProps FunctionProps Compose UpOrderProps SecretProps
    BackupWitness InitWitness UpdateProps
begin

text \<open>
  A verification development for dck, a container runtime for Linux written in Go, with an image
  builder, a supervisor, user networks, a small cluster orchestrator, functions, a Compose front
  end and an HTTP API.

  The program. A container is a JSON file in a state directory. \<open>dck run\<close>, \<open>dck up\<close>, the API and
  the orchestrator make one with \<open>container.New\<close>; \<open>Start\<close> mounts its file system and volumes, spawns
  its init process, attaches it to a network and publishes its ports; \<open>Stop\<close>, the exit handlers
  and the supervisor release what it holds and decide whether it runs again. There is no daemon:
  every command is a process of its own that loads, changes and saves the files, so that several
  of them interleave.

  How code becomes definitions. Each Go function is one definition of the same name in
  snake case, with its branches and early returns; larger functions are split at their loops and
  stages. A result \<open>(x, err)\<close> is a sum whose left side is an error of the component's own
  datatype. State is passed explicitly: \<open>osfs\<close> is a file system with inodes, symbolic links and
  modes, \<open>'s world\<close> the state directories with what the process keeps in memory, \<open>orch\<close> and
  \<open>fstate\<close> the orchestrator's. The outcomes of writes and the answers of programs, of the kernel,
  of peers and of the clock are parameters: a theorem holds for all of them. So are AES-256-GCM and
  SHA-256, with the laws a theorem needs of them as its hypotheses.

  Abstractions. Strings are lists of bytes. A Go map is an association list in the order a \<open>range\<close>
  visits it; where a theorem claims independence of that order, it says so. Slices are values:
  no operation modelled relies on two slices sharing an array. \<open>sort.Slice\<close> is a stable sort. Machine
  integers are \<open>int\<close> with the wrap-around written out where it can happen (\<open>wrap64\<close>, \<open>float_uint32\<close>),
  addresses and modes are words. Floating point numbers are pairs of digits and a power of ten,
  tokens of the rate limiter billionths. Messages to the terminal and logs are left out.

  The theories.

  Foundations. \<open>Prelude\<close> (results, lists, association lists), \<open>GoStrings\<close> and \<open>GoTrim\<close> (package
  \<open>strings\<close>, \<open>strconv\<close>), \<open>GoPath\<close> (\<open>path/filepath\<close>), \<open>GoTime\<close> (\<open>time.ParseDuration\<close>), \<open>Ip\<close> and \<open>Ipv4\<close> (package
  \<open>net\<close>), \<open>Exec\<close> (running a program), \<open>HostFs\<close> (the file system calls), \<open>Yaml\<close> (decoded documents and
  their printing).

  State and archives. \<open>StatePaths\<close>, \<open>AtomicWrite\<close>: \<open>internal/state/state.go\<close>. A state file is at
  every moment its old or its new contents. \<open>TarExtract\<close>, \<open>TarSafety\<close>, \<open>TarConfined\<close>:
  \<open>internal/overlayutil/util.go\<close>. Extracting a layer with relative links stays inside the root; with an
  absolute one it does not. \<open>PathGuard\<close> is the interface of the three functions that check a
  path against a root, interpreted for layers, for builds and for secrets.

  Networks. \<open>UserNet\<close>, \<open>NetAlloc\<close>, \<open>NetCreate\<close>: \<open>internal/network/user_network.go\<close> and the address pool of
  \<open>network.go\<close>; \<open>Leases\<close> is the interface of an address pool, with uniqueness of the leases proved
  once for both. \<open>Firewall\<close>, \<open>FirewallProps\<close>: iptables rules with roll-backs. \<open>NetPlumbing\<close>,
  \<open>PlumbingProps\<close>: bridges, veth pairs, kernel settings and \<open>segmentation.go\<close>.

  Containers. \<open>Containers\<close>: the state and its files, the crash-loop guard, names (\<open>types.go\<close>,
  \<open>create.go\<close>, \<open>list.go\<close>, \<open>dns.go\<close>, \<open>restart_guard.go\<close> of \<open>internal/container\<close>). \<open>Lifecycle\<close>, \<open>Starting\<close>: stop,
  exit, restart, start with its roll-backs, removal, renaming, ports (\<open>start.go\<close>, \<open>stop.go\<close>,
  \<open>remove.go\<close>, \<open>rename.go\<close>, \<open>port_mgr.go\<close>, \<open>rootless.go\<close>). \<open>Supervisor\<close>: \<open>cmd/supervisor.go\<close>. \<open>GuardProps\<close>,
  \<open>LifecycleProps\<close>, \<open>StartProps\<close>: what stop, start, exit and removal leave behind, and how the supervisor
  and a removal race. \<open>Volumes\<close>, \<open>VolumeProps\<close>: \<open>volumes.go\<close>, \<open>hostpath.go\<close>, \<open>parse.go\<close>, \<open>env.go\<close>. \<open>Secrets\<close>,
  \<open>SecretProps\<close>: \<open>secrets.go\<close> and the mounting loop of \<open>start.go\<close>.

  Images. \<open>Dockerfile\<close>, \<open>DockerProps\<close>: the parser of \<open>internal/builder\<close>. \<open>BuildPaths\<close>, \<open>Builder\<close>,
  \<open>BuildProps\<close>, \<open>BuildBugs\<close>: every instruction and the build loop.

  Orchestrator. \<open>Cluster\<close>, \<open>Heartbeat\<close>: \<open>cluster.go\<close>, with the heartbeats of two nodes as a step relation.
  \<open>Services\<close>, \<open>ServiceProps\<close>, \<open>ServiceSystem\<close>, \<open>ServiceLive\<close>, \<open>ServiceWitness\<close>: \<open>service.go\<close> and \<open>scheduler.go\<close>;
  an invariant of the replica records under every operation, and that reconciling converges. \<open>Dns\<close>,
  \<open>DnsProps\<close>: \<open>dns.go\<close> down to the bytes of the answer. \<open>Functions\<close>, \<open>FunctionProps\<close>: \<open>faas.go\<close>.
  \<open>ApiServer\<close>, \<open>ApiProps\<close>: \<open>internal/api/server.go\<close> and \<open>cluster.go\<close>.

  Compose. \<open>ComposeFile\<close>, \<open>Compose\<close>: \<open>internal/config\<close>. \<open>UpOrder\<close>, \<open>UpOrderProps\<close>: the order in which services
  start, refined to a specification that picks the least service without pending dependencies. \<open>Create\<close>,
  \<open>Up\<close>: \<open>container.New\<close> and \<open>cmd/up.go\<close> on the lifecycle above. \<open>GenerateProps\<close>, \<open>UpProps\<close>: the round trip
  through \<open>--generate\<close>, waiting, and that a second run changes nothing.

  Backups. \<open>BackupArchive\<close>: what \<open>cmd/backup.go\<close> archives of a container, unpacking into a staging directory
  with the checks of \<open>backup_safe.go\<close>, restoring, checksums. \<open>Backup\<close>: the commands, retention and the
  supervisor's worker. \<open>Encryption\<close>: \<open>backup_encryption.go\<close>. \<open>BackupProps\<close> confines unpacking, on the same
  invariant as layers; \<open>BackupFiles\<close> has the checksum and the round trip of encryption, \<open>BackupFaults\<close>
  retention and what a failure forgets, \<open>BackupWitness\<close> the runs behind them. The times of
  restored files are left out.

  Inside a container. \<open>Capabilities\<close>, \<open>Init\<close>: \<open>init.go\<close> and \<open>dev_restrictions.go\<close> as a list of system calls, each with the
  credentials it is made with; \<open>ie_ok\<close> says which calls the kernel lets succeed. \<open>InitEffects\<close>: what the kernel
  does with capabilities, users and no_new_privs. \<open>Seccomp\<close>: \<open>seccomp.go\<close>. \<open>InitProps\<close>, \<open>InitWitness\<close>: what holds of every
  program that is started, and which containers never start one.

  The binary itself. \<open>Update\<close>, \<open>UpdateProps\<close>: \<open>cmd/update.go\<close>; versions are a total preorder, the latest one is found, and
  only a checked archive is installed.

  Termination and bounds. Loops that need a bound have the code's: 50 attempts to move an interface,
  255 resolutions of symbolic links in \<open>eval_loop\<close> and 40 in the kernel's \<open>kwalk\<close>, 120 seconds for a
  dependency. \<open>collect_deps\<close> and \<open>kahn_loop\<close> terminate for every input, also for cyclic dependencies. The
  wait for a healthy container may never end and is a partial function whose value \<open>None\<close> means
  that it does not return; heartbeats that never end are a coinductive predicate.

  Not modelled. Registries, blueprints and the command line's flags; the files of AppArmor and cgroups;
  logs, events, statistics and audit files; decoding of YAML, TOML and JSON and the formats tar and gzip, which
  are libraries; HTTP transport. The manifest lists these parts with their files.
\<close>

end
